(* ===== verification/DF_Prelude.thy ===== *)
theory DF_Prelude
  imports Main "HOL-Library.Word"
begin

section \<open>Shared types, Rust standard-library operations and generic lemmas\<close>

text \<open>
  What every component of the development uses: the fact collections, the machine
  integer type and its saturating and checked operations, the \<open>Result\<close> combinators
  (pure and state passing), and the string operations of the Rust standard library that
  the crate calls.

  A Rust \<open>str\<close> is a list of Unicode scalar values. Here it is a \<^typ>\<open>string\<close>, whose
  characters are read as the scalar values U+0000 to U+00FF; the operations below
  (\<open>trim\<close>, the ASCII predicates, \<open>escape_default\<close>, the UTF-8 bytes) are those of the
  standard library on that range.
\<close>

named_theorems res_simps \<open>elimination equations of the Result combinators\<close>
named_theorems report_simps \<open>unfolding equations of report builders\<close>
named_theorems plan_simps \<open>unfolding equations of planning functions\<close>
named_theorems sink_simps \<open>unfolding equations of write execution\<close>

type_synonym u64 = "64 word"

subsection \<open>Machine integers\<close>

definition u64_MAX :: u64 where
  "u64_MAX = - 1"

definition saturating_add :: "u64 \<Rightarrow> u64 \<Rightarrow> u64" where
  "saturating_add a b = (if unat a + unat b < 2 ^ 64 then a + b else u64_MAX)"

definition checked_sub :: "u64 \<Rightarrow> u64 \<Rightarrow> u64 option" where
  "checked_sub a b = (if b \<le> a then Some (a - b) else None)"

lemma unat_u64_MAX [simp]: "unat u64_MAX = 2 ^ 64 - 1"
  by (simp add: u64_MAX_def unsigned_minus_1_eq_mask mask_eq_exp_minus_1)

lemma unat_lt_u64: "unat (w :: u64) < 2 ^ 64"
  using unsigned_less [of w] by simp

lemma unat_saturating_add:
  "unat (saturating_add a b) = min (unat a + unat b) (2 ^ 64 - 1)"
proof (cases "unat a + unat b < 2 ^ 64")
  case True
  then have "unat (a + b) = unat a + unat b"
    by (simp add: unat_word_ariths)
  with True show ?thesis
    by (simp add: saturating_add_def)
next
  case False
  then show ?thesis
    by (simp add: saturating_add_def)
qed

lemma saturating_add_0 [simp]: "saturating_add 0 b = b"
  using unat_lt_u64 [of b] by (simp add: saturating_add_def)

lemma checked_sub_eq_Some:
  "checked_sub a b = Some d \<longleftrightarrow> unat a = unat b + unat d"
proof (cases "b \<le> a")
  case True
  then have "unat (a - b) = unat a - unat b" "unat b \<le> unat a"
    by (simp_all add: unat_sub word_le_nat_alt)
  then have "a - b = d \<longleftrightarrow> unat a = unat b + unat d"
    by (metis le_add_diff_inverse add_diff_cancel_left' word_unat_eq_iff)
  with True show ?thesis
    by (simp add: checked_sub_def)
next
  case False
  then have "unat a < unat b"
    by (simp add: word_less_nat_alt [symmetric] not_le)
  with False show ?thesis
    by (simp add: checked_sub_def)
qed

subsection \<open>Results\<close>

text \<open>
  \<open>res_bind\<close> is the \<open>?\<close> operator of a pure function; \<open>io_bind\<close> is the same operator in a
  function that also changes a state. \<open>Inl\<close> is \<open>Err\<close>, \<open>Inr\<close> is \<open>Ok\<close>.
\<close>

definition res_bind :: "'e + 'a \<Rightarrow> ('a \<Rightarrow> 'e + 'b) \<Rightarrow> 'e + 'b" where
  "res_bind r f = (case r of Inl e \<Rightarrow> Inl e | Inr a \<Rightarrow> f a)"

definition map_err :: "('e \<Rightarrow> 'f) \<Rightarrow> 'e + 'a \<Rightarrow> 'f + 'a" where
  "map_err f r = (case r of Inl e \<Rightarrow> Inl (f e) | Inr a \<Rightarrow> Inr a)"

definition ensure :: "bool \<Rightarrow> 'e \<Rightarrow> 'e + unit" where
  "ensure b e = (if b then Inr () else Inl e)"

definition is_ok :: "'e + 'a \<Rightarrow> bool" where
  "is_ok r = (case r of Inl _ \<Rightarrow> False | Inr _ \<Rightarrow> True)"

type_synonym ('s, 'e, 'a) io = "'s \<Rightarrow> ('e + 'a) \<times> 's"

definition io_bind :: "('s, 'e, 'a) io \<Rightarrow> ('a \<Rightarrow> ('s, 'e, 'b) io) \<Rightarrow> ('s, 'e, 'b) io" where
  "io_bind m f = (\<lambda>s. case m s of (Inl e, t) \<Rightarrow> (Inl e, t) | (Inr a, t) \<Rightarrow> f a t)"

definition io_lift :: "'e + 'a \<Rightarrow> ('s, 'e, 'a) io" where
  "io_lift r = (\<lambda>s. (r, s))"

definition io_map_err :: "('e \<Rightarrow> 'f) \<Rightarrow> ('s, 'e, 'a) io \<Rightarrow> ('s, 'f, 'a) io" where
  "io_map_err f m = (\<lambda>s. case m s of (r, t) \<Rightarrow> (map_err f r, t))"

lemma res_bind_simps [simp]:
  "res_bind (Inl e) f = Inl e" "res_bind (Inr a) f = f a"
  by (simp_all add: res_bind_def)

lemma map_err_simps [simp]:
  "map_err f (Inl e) = Inl (f e)" "map_err f (Inr a) = Inr a"
  by (simp_all add: map_err_def)

lemma is_ok_simps [simp]: "\<not> is_ok (Inl e)" "is_ok (Inr a)"
  by (simp_all add: is_ok_def)

lemma res_bind_eq_Inr [res_simps]:
  "res_bind r f = Inr b \<longleftrightarrow> (\<exists>a. r = Inr a \<and> f a = Inr b)"
  by (cases r) simp_all

lemma res_bind_eq_Inl [res_simps]:
  "res_bind r f = Inl e \<longleftrightarrow> r = Inl e \<or> (\<exists>a. r = Inr a \<and> f a = Inl e)"
  by (cases r) simp_all

lemma map_err_eq_Inr [res_simps]: "map_err f r = Inr a \<longleftrightarrow> r = Inr a"
  by (cases r) simp_all

lemma map_err_eq_Inl [res_simps]: "map_err f r = Inl e \<longleftrightarrow> (\<exists>d. r = Inl d \<and> e = f d)"
  by (cases r) auto

lemma ensure_eq_Inr [res_simps]: "ensure b e = Inr u \<longleftrightarrow> b"
  by (simp add: ensure_def)

lemma ensure_eq_Inl [res_simps]: "ensure b e = Inl d \<longleftrightarrow> \<not> b \<and> d = e"
  by (auto simp: ensure_def)

lemma ensure_simps [simp]: "ensure True e = Inr ()" "ensure False e = Inl e"
  by (simp_all add: ensure_def)

lemma io_lift_apply [simp]: "io_lift r s = (r, s)"
  by (simp add: io_lift_def)

lemma io_bind_lift [simp]:
  "io_bind (io_lift (Inl e)) f s = (Inl e, s)" "io_bind (io_lift (Inr a)) f s = f a s"
  by (simp_all add: io_bind_def)

lemma io_bind_eq_Inr [res_simps]:
  "io_bind m f s = (Inr b, t) \<longleftrightarrow> (\<exists>a u. m s = (Inr a, u) \<and> f a u = (Inr b, t))"
  by (auto simp: io_bind_def split: prod.splits sum.splits)

lemma io_bind_eq_Inl [res_simps]:
  "io_bind m f s = (Inl e, t) \<longleftrightarrow>
     m s = (Inl e, t) \<or> (\<exists>a u. m s = (Inr a, u) \<and> f a u = (Inl e, t))"
  by (auto simp: io_bind_def split: prod.splits sum.splits)

lemma io_map_err_eq_Inr [res_simps]:
  "io_map_err f m s = (Inr a, t) \<longleftrightarrow> m s = (Inr a, t)"
  by (auto simp: io_map_err_def res_simps split: prod.splits)

lemma io_map_err_eq_Inl [res_simps]:
  "io_map_err f m s = (Inl e, t) \<longleftrightarrow> (\<exists>d. m s = (Inl d, t) \<and> e = f d)"
  by (auto simp: io_map_err_def res_simps split: prod.splits)

subsection \<open>Characters and strings\<close>

abbreviation code :: "char \<Rightarrow> nat" where
  "code c \<equiv> of_char c"

text \<open>\<open>char::is_whitespace\<close> (Unicode White_Space) on U+0000 to U+00FF.\<close>

definition is_whitespace :: "char \<Rightarrow> bool" where
  "is_whitespace c \<longleftrightarrow>
     9 \<le> code c \<and> code c \<le> 13 \<or> code c = 32 \<or> code c = 133 \<or> code c = 160"

definition trim :: "string \<Rightarrow> string" where
  "trim s = rev (dropWhile is_whitespace (rev (dropWhile is_whitespace s)))"

definition is_ascii_uppercase :: "char \<Rightarrow> bool" where
  "is_ascii_uppercase c \<longleftrightarrow> 65 \<le> code c \<and> code c \<le> 90"

definition is_ascii_alphabetic :: "char \<Rightarrow> bool" where
  "is_ascii_alphabetic c \<longleftrightarrow>
     is_ascii_uppercase c \<or> 97 \<le> code c \<and> code c \<le> 122"

definition is_ascii_digit :: "char \<Rightarrow> bool" where
  "is_ascii_digit c \<longleftrightarrow> 48 \<le> code c \<and> code c \<le> 57"

definition is_ascii_alphanumeric :: "char \<Rightarrow> bool" where
  "is_ascii_alphanumeric c \<longleftrightarrow> is_ascii_alphabetic c \<or> is_ascii_digit c"

definition lower_char :: "char \<Rightarrow> char" where
  "lower_char c = (if is_ascii_uppercase c then char_of (code c + 32) else c)"

definition to_ascii_lowercase :: "string \<Rightarrow> string" where
  "to_ascii_lowercase s = map lower_char s"

definition eq_ignore_ascii_case :: "string \<Rightarrow> string \<Rightarrow> bool" where
  "eq_ignore_ascii_case s t \<longleftrightarrow> to_ascii_lowercase s = to_ascii_lowercase t"

lemma trim_Nil_iff: "trim s = [] \<longleftrightarrow> (\<forall>c \<in> set s. is_whitespace c)"
proof -
  have "trim s = [] \<longleftrightarrow> dropWhile is_whitespace (rev (dropWhile is_whitespace s)) = []"
    by (simp add: trim_def)
  also have "\<dots> \<longleftrightarrow> (\<forall>c \<in> set (dropWhile is_whitespace s). is_whitespace c)"
    by (simp add: dropWhile_eq_Nil_conv)
  also have "\<dots> \<longleftrightarrow> (\<forall>c \<in> set s. is_whitespace c)"
    by (induction s) auto
  finally show ?thesis .
qed

lemma eq_ignore_ascii_case_refl [simp]: "eq_ignore_ascii_case s s"
  by (simp add: eq_ignore_ascii_case_def)

lemma eq_ignore_ascii_case_sym: "eq_ignore_ascii_case s t \<Longrightarrow> eq_ignore_ascii_case t s"
  by (simp add: eq_ignore_ascii_case_def)

lemma eq_ignore_ascii_case_trans:
  "eq_ignore_ascii_case s t \<Longrightarrow> eq_ignore_ascii_case t u \<Longrightarrow> eq_ignore_ascii_case s u"
  by (simp add: eq_ignore_ascii_case_def)

text \<open>Decimal and hexadecimal rendering (\<open>Display\<close> and \<open>LowerHex\<close> of unsigned integers).\<close>

definition digit_char :: "nat \<Rightarrow> char" where
  "digit_char d = char_of (if d < 10 then 48 + d else 87 + d)"

fun show_nat :: "nat \<Rightarrow> string" where
  "show_nat n = (if n < 10 then [digit_char n] else show_nat (n div 10) @ [digit_char (n mod 10)])"

fun show_hex :: "nat \<Rightarrow> string" where
  "show_hex n = (if n < 16 then [digit_char n] else show_hex (n div 16) @ [digit_char (n mod 16)])"

declare show_nat.simps [simp del] show_hex.simps [simp del]

fun digits_val :: "nat \<Rightarrow> nat \<Rightarrow> string \<Rightarrow> nat" where
  "digits_val b acc [] = acc"
| "digits_val b acc (c # s) =
     digits_val b (acc * b + (if code c < 58 then code c - 48 else code c - 87)) s"

lemma code_digit_char: "d < 16 \<Longrightarrow> code (digit_char d) = (if d < 10 then 48 + d else 87 + d)"
  by (simp add: digit_char_def)

lemma digits_val_append: "digits_val b acc (s @ t) = digits_val b (digits_val b acc s) t"
  by (induction s arbitrary: acc) simp_all

lemma digits_val_show_nat: "digits_val 10 0 (show_nat n) = n"
proof (induction n rule: show_nat.induct)
  case (1 n)
  then show ?case
    by (subst show_nat.simps) (auto simp: digits_val_append code_digit_char)
qed

lemma digits_val_show_hex: "digits_val 16 0 (show_hex n) = n"
proof (induction n rule: show_hex.induct)
  case (1 n)
  then show ?case
    by (subst show_hex.simps) (auto simp: digits_val_append code_digit_char)
qed

lemma show_nat_inject: "show_nat m = show_nat n \<longleftrightarrow> m = n"
  by (metis digits_val_show_nat)

lemma set_show_nat: "c \<in> set (show_nat n) \<Longrightarrow> is_ascii_digit c"
proof (induction n rule: show_nat.induct)
  case (1 n)
  have "is_ascii_digit (digit_char d)" if "d < 10" for d
    using that by (simp add: is_ascii_digit_def code_digit_char)
  with 1 show ?case
    by (subst (asm) show_nat.simps) (auto split: if_splits)
qed

lemma set_show_hex:
  "c \<in> set (show_hex n) \<Longrightarrow> is_ascii_digit c \<or> 97 \<le> code c \<and> code c \<le> 102"
proof (induction n rule: show_hex.induct)
  case (1 n)
  have "is_ascii_digit (digit_char d) \<or> 97 \<le> code (digit_char d) \<and> code (digit_char d) \<le> 102"
    if "d < 16" for d
    using that by (simp add: is_ascii_digit_def code_digit_char)
  from 1 this [of n] this [of "n mod 16"] show ?case
    by (subst (asm) show_hex.simps) (auto split: if_splits)
qed

text \<open>\<open>str::find\<close> of a character class, and \<open>str::rfind\<close> of one character.\<close>

definition find_char :: "(char \<Rightarrow> bool) \<Rightarrow> string \<Rightarrow> nat option" where
  "find_char p s = (let n = length (takeWhile (\<lambda>c. \<not> p c) s) in if n < length s then Some n else None)"

definition rfind_char :: "(char \<Rightarrow> bool) \<Rightarrow> string \<Rightarrow> nat option" where
  "rfind_char p s = map_option (\<lambda>n. length s - 1 - n) (find_char p (rev s))"

text \<open>\<open>str::find\<close> of a substring.\<close>

fun find_sub :: "string \<Rightarrow> string \<Rightarrow> nat option" where
  "find_sub pat [] = (if pat = [] then Some 0 else None)"
| "find_sub pat (c # s) =
     (if take (length pat) (c # s) = pat then Some 0 else map_option Suc (find_sub pat s))"

lemma find_char_eq_None: "find_char p s = None \<longleftrightarrow> (\<forall>c \<in> set s. \<not> p c)"
proof -
  have "length (takeWhile (\<lambda>c. \<not> p c) s) < length s \<longleftrightarrow> \<not> (\<forall>c \<in> set s. \<not> p c)"
    by (induction s) auto
  then show ?thesis
    by (simp add: find_char_def Let_def)
qed

lemma find_char_append:
  assumes "\<forall>x \<in> set a. \<not> p x" and "p c"
  shows "find_char p (a @ c # b) = Some (length a)"
proof -
  have "takeWhile (\<lambda>c. \<not> p c) (a @ c # b) = a"
    using assms by (simp add: takeWhile_append2)
  then show ?thesis
    by (simp add: find_char_def)
qed

lemma find_char_append_SomeD:
  assumes "find_char p a = Some i"
  shows "find_char p (a @ b) = Some i"
proof -
  have *: "length (takeWhile (\<lambda>c. \<not> p c) a) < length a" "i = length (takeWhile (\<lambda>c. \<not> p c) a)"
    using assms by (auto simp: find_char_def Let_def split: if_splits)
  then have "takeWhile (\<lambda>c. \<not> p c) (a @ b) = takeWhile (\<lambda>c. \<not> p c) a"
    by (metis takeWhile_append takeWhile_eq_all_conv less_irrefl)
  with * show ?thesis
    by (simp add: find_char_def)
qed

lemma find_char_SomeD:
  assumes "find_char p s = Some i"
  shows "i < length s" "p (s ! i)" "\<forall>x \<in> set (take i s). \<not> p x"
proof -
  have i: "i = length (takeWhile (\<lambda>c. \<not> p c) s)" and lt: "i < length s"
    using assms by (auto simp: find_char_def Let_def split: if_splits)
  show "i < length s" by (rule lt)
  show "p (s ! i)"
    using nth_length_takeWhile [of "\<lambda>c. \<not> p c" s] i lt by simp
  show "\<forall>x \<in> set (take i s). \<not> p x"
    using i takeWhile_eq_take [of "\<lambda>c. \<not> p c" s] by (metis set_takeWhileD)
qed

lemma rfind_char_append:
  assumes "\<forall>x \<in> set b. \<not> p x" and "p c"
  shows "rfind_char p (a @ c # b) = Some (length a)"
  using find_char_append [of "rev b" p c "rev a"] assms by (simp add: rfind_char_def)

lemma find_sub_scheme:
  assumes "CHR '':'' \<notin> set a"
  shows "find_sub ''://'' (a @ ''://'' @ b) = Some (length a)"
  using assms by (induction a) auto

subsection \<open>Positions in lists\<close>

primrec find_index :: "('a \<Rightarrow> bool) \<Rightarrow> 'a list \<Rightarrow> nat option" where
  "find_index p [] = None"
| "find_index p (x # xs) = (if p x then Some 0 else map_option Suc (find_index p xs))"

end
