(* ===== verification/DF_Redaction.thy ===== *)
theory DF_Redaction
  imports DF_Prelude
begin

section \<open>Redaction of user-facing text\<close>

text \<open>
  \<open>support/redaction.rs\<close>: the escaping applied to every caller-provided text before it
  reaches a log, an error or a report, and the removal of query, fragment and userinfo
  from a displayed URI.
\<close>

subsection \<open>Definitions\<close>

text \<open>\<open>char::escape_default\<close> of the standard library.\<close>

definition escape_default :: "char \<Rightarrow> string" where
  "escape_default c =
     (if code c = 9 then [CHR 0x5C, CHR ''t'']
      else if code c = 13 then [CHR 0x5C, CHR ''r'']
      else if code c = 10 then [CHR 0x5C, CHR ''n'']
      else if code c = 39 \<or> code c = 34 \<or> code c = 92 then [CHR 0x5C, c]
      else if 32 \<le> code c \<and> code c \<le> 126 then [c]
      else [CHR 0x5C, CHR ''u'', CHR 0x7B] @ show_hex (code c) @ [CHR 0x7D])"

definition sanitize_text_for_display :: "string \<Rightarrow> string" where
  "sanitize_text_for_display text = concat (map escape_default text)"

definition strip_fragment_and_query :: "string \<Rightarrow> string" where
  "strip_fragment_and_query uri =
     (case find_char (\<lambda>c. c = CHR ''?'' \<or> c = CHR ''#'') uri of
        None \<Rightarrow> uri
      | Some index \<Rightarrow> take index uri)"

definition strip_userinfo :: "string \<Rightarrow> string" where
  "strip_userinfo uri =
     (case find_sub ''://'' uri of
        None \<Rightarrow> uri
      | Some scheme_end \<Rightarrow>
          (let authority_start = scheme_end + 3;
               authority_end = (case find_char (\<lambda>c. c = CHR ''/'') (drop authority_start uri) of
                                  None \<Rightarrow> length uri
                                | Some relative_end \<Rightarrow> authority_start + relative_end);
               authority = drop authority_start (take authority_end uri)
           in case rfind_char (\<lambda>c. c = CHR ''@'') authority of
                None \<Rightarrow> uri
              | Some userinfo_end \<Rightarrow>
                  take authority_start uri @ drop (userinfo_end + 1) authority
                    @ drop authority_end uri))"

definition sanitize_uri_for_display :: "string \<Rightarrow> string" where
  "sanitize_uri_for_display uri =
     sanitize_text_for_display (strip_userinfo (strip_fragment_and_query uri))"

subsection \<open>Escaping: printable, and reversible\<close>

definition is_printable :: "char \<Rightarrow> bool" where
  "is_printable c \<longleftrightarrow> 32 \<le> code c \<and> code c \<le> 126"

lemma escape_default_printable: "\<forall>d \<in> set (escape_default c). is_printable d"
  by (auto simp: escape_default_def is_printable_def is_ascii_digit_def dest!: set_show_hex)

lemma sanitize_append:
  "sanitize_text_for_display (a @ b) = sanitize_text_for_display a @ sanitize_text_for_display b"
  by (simp add: sanitize_text_for_display_def)

text \<open>Reading an escaped text back.\<close>

fun unescape :: "string \<Rightarrow> string option" where
  "unescape [] = Some []"
| "unescape (c # s) =
     (if c \<noteq> CHR 0x5C then map_option ((#) c) (unescape s)
      else case s of
             [] \<Rightarrow> None
           | d # r \<Rightarrow>
               if d = CHR ''u'' then
                 (let h = takeWhile (\<lambda>x. x \<noteq> CHR 0x7D) (drop 1 r)
                  in map_option ((#) (char_of (digits_val 16 0 h))) (unescape (drop (length h + 2) r)))
               else map_option
                      ((#) (if d = CHR ''t'' then char_of (9 :: nat)
                            else if d = CHR ''r'' then char_of (13 :: nat)
                            else if d = CHR ''n'' then char_of (10 :: nat) else d))
                      (unescape r))"

lemma char_eq_code: "c = d \<longleftrightarrow> code c = (of_char d :: nat)"
  by simp

lemma takeWhile_hex:
  "takeWhile (\<lambda>x. x \<noteq> CHR 0x7D) (show_hex n @ CHR 0x7D # t) = show_hex n"
proof -
  have "\<forall>x \<in> set (show_hex n). x \<noteq> CHR 0x7D"
    by (auto dest!: set_show_hex simp: is_ascii_digit_def)
  then show ?thesis
    by (simp add: takeWhile_append2)
qed

lemma unescape_escape_default:
  "unescape (escape_default c @ t) = map_option ((#) c) (unescape t)"
proof -
  consider (t) "code c = 9" | (r) "code c = 13" | (n) "code c = 10"
    | (q) "code c = 39 \<or> code c = 34 \<or> code c = 92"
    | (p) "32 \<le> code c \<and> code c \<le> 126" "code c \<noteq> 39 \<and> code c \<noteq> 34 \<and> code c \<noteq> 92"
    | (u) "code c \<noteq> 9 \<and> code c \<noteq> 13 \<and> code c \<noteq> 10 \<and> \<not> (32 \<le> code c \<and> code c \<le> 126)"
    by linarith
  then show ?thesis
  proof cases
    case t then show ?thesis
      by (simp add: escape_default_def) (metis char_of_char)
  next
    case r then show ?thesis
      by (simp add: escape_default_def) (metis char_of_char)
  next
    case n then show ?thesis
      by (simp add: escape_default_def) (metis char_of_char)
  next
    case q then show ?thesis
      by (auto simp: escape_default_def)
  next
    case p then show ?thesis
      by (auto simp: escape_default_def)
  next
    case u then show ?thesis
      by (simp add: escape_default_def takeWhile_hex digits_val_show_hex)
  qed
qed

lemma unescape_sanitize: "unescape (sanitize_text_for_display s) = Some s"
  by (induction s)
     (simp_all add: sanitize_text_for_display_def unescape_escape_default)

lemma sanitize_inject: "sanitize_text_for_display s = sanitize_text_for_display t \<longleftrightarrow> s = t"
  by (metis unescape_sanitize option.inject)

subsection \<open>URIs\<close>

lemma strip_fragment_and_query_clean:
  "c \<in> set (strip_fragment_and_query uri) \<Longrightarrow> c \<noteq> CHR ''?'' \<and> c \<noteq> CHR ''#''"
  by (auto simp: strip_fragment_and_query_def find_char_eq_None
      split: option.splits dest!: find_char_SomeD(3))

lemma strip_fragment_and_query_id:
  assumes "\<forall>c \<in> set uri. c \<noteq> CHR ''?'' \<and> c \<noteq> CHR ''#''"
  shows "strip_fragment_and_query uri = uri"
proof -
  have "find_char (\<lambda>c. c = CHR ''?'' \<or> c = CHR ''#'') uri = None"
    using assms by (simp add: find_char_eq_None)
  then show ?thesis
    by (simp add: strip_fragment_and_query_def)
qed

lemma strip_fragment_and_query_cut:
  assumes "c = CHR ''?'' \<or> c = CHR ''#''"
  shows "strip_fragment_and_query (uri @ c # rest) = strip_fragment_and_query uri"
proof (cases "find_char (\<lambda>c. c = CHR ''?'' \<or> c = CHR ''#'') uri")
  case None
  then have "find_char (\<lambda>c. c = CHR ''?'' \<or> c = CHR ''#'') (uri @ c # rest) = Some (length uri)"
    using assms by (intro find_char_append) (simp_all add: find_char_eq_None)
  with None show ?thesis
    by (simp add: strip_fragment_and_query_def)
next
  case (Some i)
  then have "i \<le> length uri"
    using find_char_SomeD(1) less_imp_le by blast
  with Some show ?thesis
    by (simp add: strip_fragment_and_query_def find_char_append_SomeD)
qed

lemma strip_userinfo_set: "set (strip_userinfo uri) \<subseteq> set uri"
proof -
  have "set (drop n (drop m (take k uri))) \<subseteq> set uri" for n m k
    by (meson order_trans set_drop_subset set_take_subset)
  then show ?thesis
    unfolding strip_userinfo_def
    by (auto simp: Let_def split: option.splits
        dest: in_set_takeD in_set_dropD)
qed

lemma strip_userinfo_authority:
  assumes scheme: "CHR '':'' \<notin> set scheme"
    and userinfo: "CHR ''/'' \<notin> set userinfo"
    and host: "CHR ''/'' \<notin> set host" "CHR ''@'' \<notin> set host"
    and path: "path = [] \<or> hd path = CHR ''/''"
  shows "strip_userinfo (scheme @ ''://'' @ userinfo @ ''@'' @ host @ path) =
           scheme @ ''://'' @ host @ path"
proof -
  let ?auth = "userinfo @ ''@'' @ host"
  let ?uri = "scheme @ ''://'' @ ?auth @ path"
  have start: "find_sub ''://'' ?uri = Some (length scheme)"
    using find_sub_scheme [OF scheme] by simp
  have no_slash: "\<forall>x \<in> set ?auth. x \<noteq> CHR ''/''"
    using userinfo host by auto
  have at: "rfind_char (\<lambda>c. c = CHR ''@'') ?auth = Some (length userinfo)"
    using rfind_char_append [of host "\<lambda>c. c = CHR ''@''" "CHR ''@''" userinfo] host by auto
  have "find_char (\<lambda>c. c = CHR ''/'') (?auth @ path) =
          (if path = [] then None else Some (length ?auth))"
  proof (cases path)
    case Nil
    then show ?thesis
      using no_slash find_char_eq_None [of "\<lambda>c. c = CHR ''/''" ?auth] by simp
  next
    case (Cons a as)
    then show ?thesis
      using no_slash path find_char_append [of ?auth "\<lambda>c. c = CHR ''/''" a as] by simp
  qed
  with start at show ?thesis
    by (cases path) (simp_all add: strip_userinfo_def Let_def eval_nat_numeral)
qed

end
