(* ===== verification/DF_Report.thy ===== *)
theory DF_Report
  imports DF_Redaction
begin

section \<open>Report vocabulary\<close>

text \<open>
  \<open>report.rs\<close>: the row and file count evidence, reason codes, validation, phase, output and
  workflow statuses with their stable string codes, phase timings with the monotonic timer
  that builds them, and the validation options. Constructors carry the names of the source;
  those shared by several types are written with the type first (\<open>RowCount.Exact\<close>).
\<close>

subsection \<open>Saturating conversions\<close>

definition usize_to_u64_saturating :: "nat \<Rightarrow> u64" where
  "usize_to_u64_saturating value = (if value > 2 ^ 64 - 1 then u64_MAX else of_nat value)"

definition u128_to_u64_saturating :: "nat \<Rightarrow> u64" where
  "u128_to_u64_saturating value = (if value > 2 ^ 64 - 1 then u64_MAX else of_nat value)"

text \<open>A \<open>Duration\<close> is a number of nanoseconds.\<close>

type_synonym duration = nat

definition duration_to_micros_saturating :: "duration \<Rightarrow> u64" where
  "duration_to_micros_saturating d = u128_to_u64_saturating (d div 1000)"

lemma unat_u128_to_u64_saturating:
  "unat (u128_to_u64_saturating v) = min v (2 ^ 64 - 1)"
  by (auto simp: u128_to_u64_saturating_def unat_of_nat)

lemma unat_usize_to_u64_saturating:
  "unat (usize_to_u64_saturating v) = min v (2 ^ 64 - 1)"
  by (auto simp: usize_to_u64_saturating_def unat_of_nat)

subsection \<open>Modes, counts and reason codes\<close>

datatype TargetValidationMode = Disabled | ValidateIfPossible | Require

fun TargetValidationMode_as_str :: "TargetValidationMode \<Rightarrow> string" where
  "TargetValidationMode_as_str TargetValidationMode.Disabled = ''disabled''"
| "TargetValidationMode_as_str ValidateIfPossible = ''validate_if_possible''"
| "TargetValidationMode_as_str Require = ''require''"

datatype DryRunScanSummaryMode = MetadataOnly | ExhaustScanMetadata

fun DryRunScanSummaryMode_as_str :: "DryRunScanSummaryMode \<Rightarrow> string" where
  "DryRunScanSummaryMode_as_str MetadataOnly = ''metadata_only''"
| "DryRunScanSummaryMode_as_str ExhaustScanMetadata = ''exhaust_scan_metadata''"

datatype RowCountKind = Exact | Estimated | Partial | Unavailable

fun RowCountKind_as_str :: "RowCountKind \<Rightarrow> string" where
  "RowCountKind_as_str RowCountKind.Exact = ''exact''"
| "RowCountKind_as_str RowCountKind.Estimated = ''estimated''"
| "RowCountKind_as_str RowCountKind.Partial = ''partial''"
| "RowCountKind_as_str RowCountKind.Unavailable = ''unavailable''"

datatype RowCount = Exact u64 | Estimated u64 | Partial u64 | Unavailable

fun RowCount_kind :: "RowCount \<Rightarrow> RowCountKind" where
  "RowCount_kind (RowCount.Exact _) = RowCountKind.Exact"
| "RowCount_kind (RowCount.Estimated _) = RowCountKind.Estimated"
| "RowCount_kind (RowCount.Partial _) = RowCountKind.Partial"
| "RowCount_kind RowCount.Unavailable = RowCountKind.Unavailable"

fun RowCount_value :: "RowCount \<Rightarrow> u64 option" where
  "RowCount_value (RowCount.Exact v) = Some v"
| "RowCount_value (RowCount.Estimated v) = Some v"
| "RowCount_value (RowCount.Partial v) = Some v"
| "RowCount_value RowCount.Unavailable = None"

fun RowCount_exact_value :: "RowCount \<Rightarrow> u64 option" where
  "RowCount_exact_value (RowCount.Exact v) = Some v"
| "RowCount_exact_value (RowCount.Estimated _) = None"
| "RowCount_exact_value (RowCount.Partial _) = None"
| "RowCount_exact_value RowCount.Unavailable = None"

definition RowCount_to_string :: "RowCount \<Rightarrow> string" where
  "RowCount_to_string c =
     (case RowCount_value c of
        Some v \<Rightarrow> RowCountKind_as_str (RowCount_kind c) @ '':'' @ show_nat (unat v)
      | None \<Rightarrow> RowCountKind_as_str (RowCount_kind c))"

datatype FileCountKind = Exact | Estimated | Unavailable | Skipped | NotExecuted

fun FileCountKind_as_str :: "FileCountKind \<Rightarrow> string" where
  "FileCountKind_as_str FileCountKind.Exact = ''exact''"
| "FileCountKind_as_str FileCountKind.Estimated = ''estimated''"
| "FileCountKind_as_str FileCountKind.Unavailable = ''unavailable''"
| "FileCountKind_as_str FileCountKind.Skipped = ''skipped''"
| "FileCountKind_as_str FileCountKind.NotExecuted = ''not_executed''"

datatype FileCount = Exact u64 | Estimated u64 | Unavailable | Skipped | NotExecuted

fun FileCount_kind :: "FileCount \<Rightarrow> FileCountKind" where
  "FileCount_kind (FileCount.Exact _) = FileCountKind.Exact"
| "FileCount_kind (FileCount.Estimated _) = FileCountKind.Estimated"
| "FileCount_kind FileCount.Unavailable = FileCountKind.Unavailable"
| "FileCount_kind FileCount.Skipped = FileCountKind.Skipped"
| "FileCount_kind FileCount.NotExecuted = FileCountKind.NotExecuted"

fun FileCount_value :: "FileCount \<Rightarrow> u64 option" where
  "FileCount_value (FileCount.Exact v) = Some v"
| "FileCount_value (FileCount.Estimated v) = Some v"
| "FileCount_value FileCount.Unavailable = None"
| "FileCount_value FileCount.Skipped = None"
| "FileCount_value FileCount.NotExecuted = None"

definition FileCount_to_string :: "FileCount \<Rightarrow> string" where
  "FileCount_to_string c =
     (case FileCount_value c of
        Some v \<Rightarrow> FileCountKind_as_str (FileCount_kind c) @ '':'' @ show_nat (unat v)
      | None \<Rightarrow> FileCountKind_as_str (FileCount_kind c))"

datatype ReportReasonCode =
    ValidationDisabled | DryRun | CapabilityUnavailable | PermissionUnavailable
  | PriorFailure | UnsupportedLoadMode | MissingTargetAccess | MissingExactOutputRows
  | CostAvoidance | NotExecuted | FailureBeforeValidation

fun ReportReasonCode_as_str :: "ReportReasonCode \<Rightarrow> string" where
  "ReportReasonCode_as_str ValidationDisabled = ''validation_disabled''"
| "ReportReasonCode_as_str ReportReasonCode.DryRun = ''dry_run''"
| "ReportReasonCode_as_str CapabilityUnavailable = ''capability_unavailable''"
| "ReportReasonCode_as_str PermissionUnavailable = ''permission_unavailable''"
| "ReportReasonCode_as_str PriorFailure = ''prior_failure''"
| "ReportReasonCode_as_str UnsupportedLoadMode = ''unsupported_load_mode''"
| "ReportReasonCode_as_str MissingTargetAccess = ''missing_target_access''"
| "ReportReasonCode_as_str MissingExactOutputRows = ''missing_exact_output_rows''"
| "ReportReasonCode_as_str CostAvoidance = ''cost_avoidance''"
| "ReportReasonCode_as_str ReportReasonCode.NotExecuted = ''not_executed''"
| "ReportReasonCode_as_str FailureBeforeValidation = ''failure_before_validation''"

subsection \<open>Validation status\<close>

datatype ValidationStatusKind =
  Disabled | Passed | Failed | Skipped | Unavailable | RequiredButFailed

fun ValidationStatusKind_as_str :: "ValidationStatusKind \<Rightarrow> string" where
  "ValidationStatusKind_as_str ValidationStatusKind.Disabled = ''disabled''"
| "ValidationStatusKind_as_str ValidationStatusKind.Passed = ''passed''"
| "ValidationStatusKind_as_str ValidationStatusKind.Failed = ''failed''"
| "ValidationStatusKind_as_str ValidationStatusKind.Skipped = ''skipped''"
| "ValidationStatusKind_as_str ValidationStatusKind.Unavailable = ''unavailable''"
| "ValidationStatusKind_as_str ValidationStatusKind.RequiredButFailed = ''required_but_failed''"

datatype ValidationStatus =
    Disabled ReportReasonCode
  | Passed
  | Failed
  | Skipped ReportReasonCode
  | Unavailable ReportReasonCode
  | RequiredButFailed ReportReasonCode

definition ValidationStatus_disabled :: ValidationStatus where
  "ValidationStatus_disabled = ValidationStatus.Disabled ValidationDisabled"

fun ValidationStatus_kind :: "ValidationStatus \<Rightarrow> ValidationStatusKind" where
  "ValidationStatus_kind (ValidationStatus.Disabled _) = ValidationStatusKind.Disabled"
| "ValidationStatus_kind ValidationStatus.Passed = ValidationStatusKind.Passed"
| "ValidationStatus_kind ValidationStatus.Failed = ValidationStatusKind.Failed"
| "ValidationStatus_kind (ValidationStatus.Skipped _) = ValidationStatusKind.Skipped"
| "ValidationStatus_kind (ValidationStatus.Unavailable _) = ValidationStatusKind.Unavailable"
| "ValidationStatus_kind (ValidationStatus.RequiredButFailed _) =
     ValidationStatusKind.RequiredButFailed"

fun ValidationStatus_reason :: "ValidationStatus \<Rightarrow> ReportReasonCode option" where
  "ValidationStatus_reason (ValidationStatus.Disabled r) = Some r"
| "ValidationStatus_reason (ValidationStatus.Skipped r) = Some r"
| "ValidationStatus_reason (ValidationStatus.Unavailable r) = Some r"
| "ValidationStatus_reason (ValidationStatus.RequiredButFailed r) = Some r"
| "ValidationStatus_reason ValidationStatus.Passed = None"
| "ValidationStatus_reason ValidationStatus.Failed = None"

definition ValidationStatus_to_string :: "ValidationStatus \<Rightarrow> string" where
  "ValidationStatus_to_string s =
     (case ValidationStatus_reason s of
        Some r \<Rightarrow> ValidationStatusKind_as_str (ValidationStatus_kind s) @ '':''
                    @ ReportReasonCode_as_str r
      | None \<Rightarrow> ValidationStatusKind_as_str (ValidationStatus_kind s))"

subsection \<open>Phase status and phase timings\<close>

datatype PhaseStatusKind = Completed | Failed | Skipped | NotStarted | Unavailable

fun PhaseStatusKind_as_str :: "PhaseStatusKind \<Rightarrow> string" where
  "PhaseStatusKind_as_str PhaseStatusKind.Completed = ''completed''"
| "PhaseStatusKind_as_str PhaseStatusKind.Failed = ''failed''"
| "PhaseStatusKind_as_str PhaseStatusKind.Skipped = ''skipped''"
| "PhaseStatusKind_as_str PhaseStatusKind.NotStarted = ''not_started''"
| "PhaseStatusKind_as_str PhaseStatusKind.Unavailable = ''unavailable''"

datatype PhaseStatus =
    Completed
  | Failed
  | Skipped ReportReasonCode
  | NotStarted ReportReasonCode
  | Unavailable ReportReasonCode

fun PhaseStatus_kind :: "PhaseStatus \<Rightarrow> PhaseStatusKind" where
  "PhaseStatus_kind PhaseStatus.Completed = PhaseStatusKind.Completed"
| "PhaseStatus_kind PhaseStatus.Failed = PhaseStatusKind.Failed"
| "PhaseStatus_kind (PhaseStatus.Skipped _) = PhaseStatusKind.Skipped"
| "PhaseStatus_kind (PhaseStatus.NotStarted _) = PhaseStatusKind.NotStarted"
| "PhaseStatus_kind (PhaseStatus.Unavailable _) = PhaseStatusKind.Unavailable"

fun PhaseStatus_reason :: "PhaseStatus \<Rightarrow> ReportReasonCode option" where
  "PhaseStatus_reason (PhaseStatus.Skipped r) = Some r"
| "PhaseStatus_reason (PhaseStatus.NotStarted r) = Some r"
| "PhaseStatus_reason (PhaseStatus.Unavailable r) = Some r"
| "PhaseStatus_reason PhaseStatus.Completed = None"
| "PhaseStatus_reason PhaseStatus.Failed = None"

definition PhaseStatus_to_string :: "PhaseStatus \<Rightarrow> string" where
  "PhaseStatus_to_string s =
     (case PhaseStatus_reason s of
        Some r \<Rightarrow> PhaseStatusKind_as_str (PhaseStatus_kind s) @ '':'' @ ReportReasonCode_as_str r
      | None \<Rightarrow> PhaseStatusKind_as_str (PhaseStatus_kind s))"

record PhaseTimingReport =
  phase_name :: string
  status :: PhaseStatus
  elapsed_micros :: "u64 option"

definition timing_completed :: "string \<Rightarrow> duration \<Rightarrow> PhaseTimingReport" where
  "timing_completed name elapsed =
     \<lparr>phase_name = name, status = PhaseStatus.Completed,
      elapsed_micros = Some (duration_to_micros_saturating elapsed)\<rparr>"

definition timing_failed :: "string \<Rightarrow> duration \<Rightarrow> PhaseTimingReport" where
  "timing_failed name elapsed =
     \<lparr>phase_name = name, status = PhaseStatus.Failed,
      elapsed_micros = Some (duration_to_micros_saturating elapsed)\<rparr>"

definition timing_skipped :: "string \<Rightarrow> ReportReasonCode \<Rightarrow> PhaseTimingReport" where
  "timing_skipped name reason =
     \<lparr>phase_name = name, status = PhaseStatus.Skipped reason, elapsed_micros = None\<rparr>"

definition timing_not_started :: "string \<Rightarrow> ReportReasonCode \<Rightarrow> PhaseTimingReport" where
  "timing_not_started name reason =
     \<lparr>phase_name = name, status = PhaseStatus.NotStarted reason, elapsed_micros = None\<rparr>"

definition timing_unavailable :: "string \<Rightarrow> ReportReasonCode \<Rightarrow> PhaseTimingReport" where
  "timing_unavailable name reason =
     \<lparr>phase_name = name, status = PhaseStatus.Unavailable reason, elapsed_micros = None\<rparr>"

lemmas timing_defs =
  timing_completed_def timing_failed_def timing_skipped_def timing_not_started_def
  timing_unavailable_def

lemma timing_names [simp]:
  "phase_name (timing_completed n d) = n" "phase_name (timing_failed n d) = n"
  "phase_name (timing_skipped n r) = n" "phase_name (timing_not_started n r) = n"
  "phase_name (timing_unavailable n r) = n"
  by (simp_all add: timing_defs)

text \<open>
  The invariant of every timing the crate builds: time was measured exactly when the phase
  ran to an end, and a reason is given exactly when it did not.
\<close>

definition timing_wf :: "PhaseTimingReport \<Rightarrow> bool" where
  "timing_wf t \<longleftrightarrow>
     (elapsed_micros t \<noteq> None \<longleftrightarrow> PhaseStatus_reason (status t) = None)"

lemma timing_wf_builders [simp]:
  "timing_wf (timing_completed n d)" "timing_wf (timing_failed n d)"
  "timing_wf (timing_skipped n r)" "timing_wf (timing_not_started n r)"
  "timing_wf (timing_unavailable n r)"
  by (simp_all add: timing_defs timing_wf_def)

text \<open>
  The monotonic clock: \<open>ck_reading n\<close> is what the \<open>n\<close>-th reading returns, in nanoseconds, and
  \<open>ck_next\<close> counts the readings taken so far. \<open>Instant::elapsed\<close> saturates at zero, as
  subtraction on \<^typ>\<open>nat\<close> does.
\<close>

record clock =
  ck_reading :: "nat \<Rightarrow> nat"
  ck_next :: nat

definition Instant_now :: "clock \<Rightarrow> nat \<times> clock" where
  "Instant_now k = (ck_reading k (ck_next k), k\<lparr>ck_next := Suc (ck_next k)\<rparr>)"

definition Instant_elapsed :: "nat \<Rightarrow> clock \<Rightarrow> duration \<times> clock" where
  "Instant_elapsed started k = (case Instant_now k of (t, k') \<Rightarrow> (t - started, k'))"

record PhaseTimer =
  timer_phase_name :: string
  started_at :: nat

definition PhaseTimer_start :: "string \<Rightarrow> clock \<Rightarrow> PhaseTimer \<times> clock" where
  "PhaseTimer_start name k =
     (case Instant_now k of (t, k') \<Rightarrow> (\<lparr>timer_phase_name = name, started_at = t\<rparr>, k'))"

definition PhaseTimer_completed :: "PhaseTimer \<Rightarrow> clock \<Rightarrow> PhaseTimingReport \<times> clock" where
  "PhaseTimer_completed timer k =
     (case Instant_elapsed (started_at timer) k of
        (d, k') \<Rightarrow> (timing_completed (timer_phase_name timer) d, k'))"

definition PhaseTimer_failed :: "PhaseTimer \<Rightarrow> clock \<Rightarrow> PhaseTimingReport \<times> clock" where
  "PhaseTimer_failed timer k =
     (case Instant_elapsed (started_at timer) k of
        (d, k') \<Rightarrow> (timing_failed (timer_phase_name timer) d, k'))"

subsection \<open>Output and workflow status\<close>

datatype OutputStatusKind =
  Planned | Succeeded | Failed | Skipped | DryRunPlanned | ValidationFailed

fun OutputStatusKind_as_str :: "OutputStatusKind \<Rightarrow> string" where
  "OutputStatusKind_as_str OutputStatusKind.Planned = ''planned''"
| "OutputStatusKind_as_str OutputStatusKind.Succeeded = ''succeeded''"
| "OutputStatusKind_as_str OutputStatusKind.Failed = ''failed''"
| "OutputStatusKind_as_str OutputStatusKind.Skipped = ''skipped''"
| "OutputStatusKind_as_str OutputStatusKind.DryRunPlanned = ''dry_run_planned''"
| "OutputStatusKind_as_str OutputStatusKind.ValidationFailed = ''validation_failed''"

datatype OutputStatus =
    Planned
  | Succeeded
  | Failed
  | Skipped ReportReasonCode
  | DryRunPlanned
  | ValidationFailed ValidationStatus

fun OutputStatus_kind :: "OutputStatus \<Rightarrow> OutputStatusKind" where
  "OutputStatus_kind OutputStatus.Planned = OutputStatusKind.Planned"
| "OutputStatus_kind OutputStatus.Succeeded = OutputStatusKind.Succeeded"
| "OutputStatus_kind OutputStatus.Failed = OutputStatusKind.Failed"
| "OutputStatus_kind (OutputStatus.Skipped _) = OutputStatusKind.Skipped"
| "OutputStatus_kind OutputStatus.DryRunPlanned = OutputStatusKind.DryRunPlanned"
| "OutputStatus_kind (OutputStatus.ValidationFailed _) = OutputStatusKind.ValidationFailed"

definition OutputStatus_to_string :: "OutputStatus \<Rightarrow> string" where
  "OutputStatus_to_string s =
     (case s of
        OutputStatus.Skipped r \<Rightarrow>
          OutputStatusKind_as_str (OutputStatus_kind s) @ '':'' @ ReportReasonCode_as_str r
      | OutputStatus.ValidationFailed v \<Rightarrow>
          OutputStatusKind_as_str (OutputStatus_kind s) @ '':'' @ ValidationStatus_to_string v
      | _ \<Rightarrow> OutputStatusKind_as_str (OutputStatus_kind s))"

datatype WorkflowStatusKind = Success | PartialSuccess | Failure | Skipped | NoOp

fun WorkflowStatusKind_as_str :: "WorkflowStatusKind \<Rightarrow> string" where
  "WorkflowStatusKind_as_str WorkflowStatusKind.Success = ''success''"
| "WorkflowStatusKind_as_str WorkflowStatusKind.PartialSuccess = ''partial_success''"
| "WorkflowStatusKind_as_str WorkflowStatusKind.Failure = ''failure''"
| "WorkflowStatusKind_as_str WorkflowStatusKind.Skipped = ''skipped''"
| "WorkflowStatusKind_as_str WorkflowStatusKind.NoOp = ''no_op''"

datatype WorkflowStatus =
    Success
  | PartialSuccess
  | Failure
  | Skipped ReportReasonCode
  | NoOp ReportReasonCode

fun WorkflowStatus_kind :: "WorkflowStatus \<Rightarrow> WorkflowStatusKind" where
  "WorkflowStatus_kind WorkflowStatus.Success = WorkflowStatusKind.Success"
| "WorkflowStatus_kind WorkflowStatus.PartialSuccess = WorkflowStatusKind.PartialSuccess"
| "WorkflowStatus_kind WorkflowStatus.Failure = WorkflowStatusKind.Failure"
| "WorkflowStatus_kind (WorkflowStatus.Skipped _) = WorkflowStatusKind.Skipped"
| "WorkflowStatus_kind (WorkflowStatus.NoOp _) = WorkflowStatusKind.NoOp"

fun WorkflowStatus_reason :: "WorkflowStatus \<Rightarrow> ReportReasonCode option" where
  "WorkflowStatus_reason (WorkflowStatus.Skipped r) = Some r"
| "WorkflowStatus_reason (WorkflowStatus.NoOp r) = Some r"
| "WorkflowStatus_reason WorkflowStatus.Success = None"
| "WorkflowStatus_reason WorkflowStatus.PartialSuccess = None"
| "WorkflowStatus_reason WorkflowStatus.Failure = None"

definition WorkflowStatus_to_string :: "WorkflowStatus \<Rightarrow> string" where
  "WorkflowStatus_to_string s =
     (case WorkflowStatus_reason s of
        Some r \<Rightarrow> WorkflowStatusKind_as_str (WorkflowStatus_kind s) @ '':''
                    @ ReportReasonCode_as_str r
      | None \<Rightarrow> WorkflowStatusKind_as_str (WorkflowStatus_kind s))"

subsection \<open>Validation options\<close>

record ValidationOptions =
  target_validation_mode :: TargetValidationMode
  dry_run_scan_summary_mode :: DryRunScanSummaryMode
  require_successful_planning :: bool

definition ValidationOptions_new :: ValidationOptions where
  "ValidationOptions_new =
     \<lparr>target_validation_mode = ValidateIfPossible, dry_run_scan_summary_mode = MetadataOnly,
      require_successful_planning = True\<rparr>"

definition with_target_validation_mode ::
    "TargetValidationMode \<Rightarrow> ValidationOptions \<Rightarrow> ValidationOptions" where
  "with_target_validation_mode m opts = opts\<lparr>target_validation_mode := m\<rparr>"

subsection \<open>Display codes are unambiguous\<close>

text \<open>
  A displayed status is its kind's code, then \<open>:\<close> and a detail where it carries one. No code
  contains \<open>:\<close>, so the text before it is the kind and the text after it the detail.
\<close>

definition no_colon :: "string \<Rightarrow> bool" where
  "no_colon s \<longleftrightarrow> CHR '':'' \<notin> set s"

lemma append_colon_inject:
  assumes "no_colon a" "no_colon b"
  shows "a @ CHR '':'' # x = b @ CHR '':'' # y \<longleftrightarrow> a = b \<and> x = y"
  using assms
proof (induction a arbitrary: b)
  case Nil
  then show ?case by (cases b) (auto simp: no_colon_def)
next
  case (Cons c a)
  then show ?case by (cases b) (auto simp: no_colon_def)
qed

lemma append_colon_neq: "no_colon b \<Longrightarrow> a @ CHR '':'' # x \<noteq> b"
  by (auto simp: no_colon_def)

lemma no_colon_codes [simp]:
  "no_colon (RowCountKind_as_str k)" "no_colon (FileCountKind_as_str f)"
  "no_colon (ValidationStatusKind_as_str v)" "no_colon (PhaseStatusKind_as_str p)"
  "no_colon (OutputStatusKind_as_str q)" "no_colon (WorkflowStatusKind_as_str w)"
  by (cases k, simp_all add: no_colon_def, cases f, simp_all, cases v, simp_all,
      cases p, simp_all, cases q, simp_all, cases w, simp_all)

lemma ReportReasonCode_as_str_inject:
  "ReportReasonCode_as_str a = ReportReasonCode_as_str b \<longleftrightarrow> a = b"
  by (cases a; cases b) simp_all

lemma RowCountKind_as_str_inject:
  "RowCountKind_as_str k = RowCountKind_as_str k' \<longleftrightarrow> k = k'"
  by (cases k; cases k') simp_all

lemma ValidationStatusKind_as_str_inject:
  "ValidationStatusKind_as_str v = ValidationStatusKind_as_str v' \<longleftrightarrow> v = v'"
  by (cases v; cases v') simp_all

lemma PhaseStatusKind_as_str_inject:
  "PhaseStatusKind_as_str p = PhaseStatusKind_as_str p' \<longleftrightarrow> p = p'"
  by (cases p; cases p') simp_all

lemmas kind_as_str_inject =
  RowCountKind_as_str_inject ValidationStatusKind_as_str_inject PhaseStatusKind_as_str_inject

lemma RowCount_to_string_inject: "RowCount_to_string a = RowCount_to_string b \<longleftrightarrow> a = b"
proof
  assume eq: "RowCount_to_string a = RowCount_to_string b"
  have "RowCount_kind a = RowCount_kind b \<and> RowCount_value a = RowCount_value b"
    using eq append_colon_neq [OF no_colon_codes(1)] append_colon_neq [OF no_colon_codes(1), symmetric]
    by (auto simp: RowCount_to_string_def append_colon_inject kind_as_str_inject show_nat_inject
        word_unat_eq_iff split: option.splits)
  then show "a = b"
    by (cases a; cases b) simp_all
qed simp

lemma ValidationStatus_to_string_inject:
  "ValidationStatus_to_string a = ValidationStatus_to_string b \<longleftrightarrow> a = b"
proof
  assume eq: "ValidationStatus_to_string a = ValidationStatus_to_string b"
  have "ValidationStatus_kind a = ValidationStatus_kind b
      \<and> ValidationStatus_reason a = ValidationStatus_reason b"
    using eq append_colon_neq [OF no_colon_codes(3)] append_colon_neq [OF no_colon_codes(3), symmetric]
    by (auto simp: ValidationStatus_to_string_def append_colon_inject kind_as_str_inject
        ReportReasonCode_as_str_inject split: option.splits)
  then show "a = b"
    by (cases a; cases b) simp_all
qed simp

lemma PhaseStatus_to_string_inject: "PhaseStatus_to_string a = PhaseStatus_to_string b \<longleftrightarrow> a = b"
proof
  assume eq: "PhaseStatus_to_string a = PhaseStatus_to_string b"
  have "PhaseStatus_kind a = PhaseStatus_kind b \<and> PhaseStatus_reason a = PhaseStatus_reason b"
    using eq append_colon_neq [OF no_colon_codes(4)] append_colon_neq [OF no_colon_codes(4), symmetric]
    by (auto simp: PhaseStatus_to_string_def append_colon_inject kind_as_str_inject
        ReportReasonCode_as_str_inject split: option.splits)
  then show "a = b"
    by (cases a; cases b) simp_all
qed simp

end
