(* ===== verification/DF_Arrow.thy ===== *)
theory DF_Arrow
  imports DF_Prelude "HOL-Library.Finite_Map"
begin

section \<open>Arrow schemas\<close>

text \<open>
  The data types, fields and schemas of the Arrow library, as far as the program looks into
  them: \<open>DataType\<close> has the variants the program matches on, \<open>Field\<close> the attributes it reads or
  that take part in the comparison of two fields. Metadata is a finite map, so that two maps are
  equal when they have the same entries.
\<close>

datatype TimeUnit = Second | Millisecond | Microsecond | Nanosecond

datatype IntervalUnit = YearMonth | DayTime | MonthDayNano

datatype UnionMode = Sparse | Dense

type_synonym metadata = "(string, string) fmap"

datatype DataType =
    NullType | Boolean | Int8 | Int16 | Int32 | Int64 | UInt8 | UInt16 | UInt32 | UInt64
  | Float16 | Float32 | Float64
  | Timestamp TimeUnit "string option"
  | Date32 | Date64 | Time32 TimeUnit | Time64 TimeUnit | Duration TimeUnit | Interval IntervalUnit
  | Binary | FixedSizeBinary int | LargeBinary | BinaryView
  | Utf8 | LargeUtf8 | Utf8View
  | ListType Field | ListView Field | FixedSizeList Field int | LargeList Field | LargeListView Field
  | Struct "Field list"
  | UnionType "(int \<times> Field) list" UnionMode
  | Dictionary DataType DataType
  | Decimal32 nat int | Decimal64 nat int | Decimal128 nat int | Decimal256 nat int
  | MapType Field bool
  | RunEndEncoded Field Field
and Field =
    Field (fd_name: string) (fd_data_type: DataType) (fd_nullable: bool)
      (fd_dict_is_ordered: bool) (fd_metadata: metadata)

record Schema =
  sch_fields :: "Field list"
  sch_metadata :: metadata

end
