(* ===== verification/DF_Metrics.thy ===== *)
theory DF_Metrics
  imports DF_Prelude
begin

section \<open>Metrics of Delta scans\<close>

text \<open>
  \<open>query_engine/datafusion.rs\<close>: the view of a scan's counters that reports and progress use,
  and its conversion from the counters of the Delta reader. \<open>ParquetReaderBackend\<close>,
  \<open>DeltaScanMetricsSnapshot\<close> and \<open>ScanMetricsSnapshot\<close> are types of the reader, with the fields
  the conversion reads.
\<close>

datatype ParquetReaderBackend = DeltaKernel | Direct

record DeltaScanMetricsSnapshot =
  dm_snapshot_version :: u64
  dm_parquet_backend :: ParquetReaderBackend
  dm_scan_partitions_planned :: u64
  dm_files_planned :: u64
  dm_add_actions_excluded_during_planning :: "u64 option"
  dm_estimated_input_rows :: "u64 option"
  dm_estimated_input_bytes :: "u64 option"
  dm_scan_partitions_started :: u64
  dm_scan_partitions_completed :: u64
  dm_file_tasks_started :: u64
  dm_file_tasks_completed :: u64
  dm_scheduler_batches_emitted :: u64
  dm_scheduler_rows_emitted :: u64
  dm_deletion_vector_payloads_loaded :: u64
  dm_deletion_vectors_applied :: u64
  dm_deletion_vector_rows_deleted :: u64
  dm_deletion_vector_failures :: u64
  dm_deletion_vector_coordinate_rejections :: u64
  dm_parquet_data_file_range_get_operations :: "u64 option"
  dm_parquet_data_file_full_get_operations :: "u64 option"
  dm_parquet_data_file_bytes_received :: "u64 option"
  dm_estimated_parquet_task_bytes_admitted :: "u64 option"

record ScanMetricsSnapshot =
  sms_reader_metrics :: DeltaScanMetricsSnapshot
  sms_uses_arrow_view_types :: bool
  sms_configured_batch_size_rows :: "u64 option"
  sms_dynamic_partition_tasks_pruned :: u64
  sms_dynamic_partition_tasks_kept :: u64
  sms_dynamic_filters_received :: u64
  sms_dynamic_filters_accepted :: u64
  sms_dynamic_filters_rejected :: u64
  sms_dynamic_partition_filter_checks :: u64
  sms_dynamic_partition_tasks_kept_unusable_metadata :: u64
  sms_dynamic_partition_tasks_kept_unevaluable_filter :: u64

record DeltaReadMetricsSnapshot =
  rm_snapshot_version :: u64
  rm_reader_backend :: ParquetReaderBackend
  rm_scan_metadata_exhausted :: "bool option"
  rm_scan_partitions_planned :: u64
  rm_files_planned :: u64
  rm_files_filtered_during_planning :: "u64 option"
  rm_estimated_rows :: "u64 option"
  rm_estimated_bytes :: "u64 option"
  rm_scan_partitions_started :: u64
  rm_scan_partitions_completed :: u64
  rm_files_started :: u64
  rm_files_completed :: u64
  rm_batches_produced :: u64
  rm_rows_produced :: u64
  rm_deletion_vector_payloads_loaded :: u64
  rm_deletion_vectors_applied :: u64
  rm_deletion_vector_rows_deleted :: u64
  rm_deletion_vector_failures :: u64
  rm_deletion_vector_rejections :: u64
  rm_parquet_data_file_range_get_operations :: "u64 option"
  rm_parquet_data_file_full_get_operations :: "u64 option"
  rm_parquet_data_file_bytes_received :: "u64 option"
  rm_parquet_data_file_opened_bytes :: "u64 option"

record DeltaDataFusionMetricsSnapshot =
  ms_reader :: DeltaReadMetricsSnapshot
  ms_use_view_types :: bool
  ms_output_batch_size :: "u64 option"
  ms_dynamic_partition_files_pruned :: u64
  ms_dynamic_partition_files_kept :: u64
  ms_dynamic_filters_received :: u64
  ms_dynamic_filters_accepted :: u64
  ms_dynamic_filters_unsupported :: u64
  ms_dynamic_filter_snapshots :: u64
  ms_dynamic_files_not_pruned_missing_metadata :: u64
  ms_dynamic_files_not_pruned_unsupported_expression :: u64

abbreviation ms_scan_metadata_exhausted :: "DeltaDataFusionMetricsSnapshot \<Rightarrow> bool option" where
  "ms_scan_metadata_exhausted s \<equiv> rm_scan_metadata_exhausted (ms_reader s)"

abbreviation ms_files_planned :: "DeltaDataFusionMetricsSnapshot \<Rightarrow> u64" where
  "ms_files_planned s \<equiv> rm_files_planned (ms_reader s)"

abbreviation ms_files_completed :: "DeltaDataFusionMetricsSnapshot \<Rightarrow> u64" where
  "ms_files_completed s \<equiv> rm_files_completed (ms_reader s)"

abbreviation ms_files_filtered_during_planning ::
    "DeltaDataFusionMetricsSnapshot \<Rightarrow> u64 option" where
  "ms_files_filtered_during_planning s \<equiv> rm_files_filtered_during_planning (ms_reader s)"

definition read_metrics_from :: "DeltaScanMetricsSnapshot \<Rightarrow> DeltaReadMetricsSnapshot" where
  "read_metrics_from s =
     \<lparr>rm_snapshot_version = dm_snapshot_version s,
      rm_reader_backend = dm_parquet_backend s,
      rm_scan_metadata_exhausted = Some True,
      rm_scan_partitions_planned = dm_scan_partitions_planned s,
      rm_files_planned = dm_files_planned s,
      rm_files_filtered_during_planning = dm_add_actions_excluded_during_planning s,
      rm_estimated_rows = dm_estimated_input_rows s,
      rm_estimated_bytes = dm_estimated_input_bytes s,
      rm_scan_partitions_started = dm_scan_partitions_started s,
      rm_scan_partitions_completed = dm_scan_partitions_completed s,
      rm_files_started = dm_file_tasks_started s,
      rm_files_completed = dm_file_tasks_completed s,
      rm_batches_produced = dm_scheduler_batches_emitted s,
      rm_rows_produced = dm_scheduler_rows_emitted s,
      rm_deletion_vector_payloads_loaded = dm_deletion_vector_payloads_loaded s,
      rm_deletion_vectors_applied = dm_deletion_vectors_applied s,
      rm_deletion_vector_rows_deleted = dm_deletion_vector_rows_deleted s,
      rm_deletion_vector_failures = dm_deletion_vector_failures s,
      rm_deletion_vector_rejections = dm_deletion_vector_coordinate_rejections s,
      rm_parquet_data_file_range_get_operations = dm_parquet_data_file_range_get_operations s,
      rm_parquet_data_file_full_get_operations = dm_parquet_data_file_full_get_operations s,
      rm_parquet_data_file_bytes_received = dm_parquet_data_file_bytes_received s,
      rm_parquet_data_file_opened_bytes = dm_estimated_parquet_task_bytes_admitted s\<rparr>"

definition metrics_from :: "ScanMetricsSnapshot \<Rightarrow> DeltaDataFusionMetricsSnapshot" where
  "metrics_from s =
     \<lparr>ms_reader = read_metrics_from (sms_reader_metrics s),
      ms_use_view_types = sms_uses_arrow_view_types s,
      ms_output_batch_size = sms_configured_batch_size_rows s,
      ms_dynamic_partition_files_pruned = sms_dynamic_partition_tasks_pruned s,
      ms_dynamic_partition_files_kept = sms_dynamic_partition_tasks_kept s,
      ms_dynamic_filters_received = sms_dynamic_filters_received s,
      ms_dynamic_filters_accepted = sms_dynamic_filters_accepted s,
      ms_dynamic_filters_unsupported = sms_dynamic_filters_rejected s,
      ms_dynamic_filter_snapshots = sms_dynamic_partition_filter_checks s,
      ms_dynamic_files_not_pruned_missing_metadata =
        sms_dynamic_partition_tasks_kept_unusable_metadata s,
      ms_dynamic_files_not_pruned_unsupported_expression =
        sms_dynamic_partition_tasks_kept_unevaluable_filter s\<rparr>"

record NamedDeltaDataFusionMetricsSnapshot =
  nm_source_name :: string
  nm_snapshot :: DeltaDataFusionMetricsSnapshot

end
