(* ===== verification/DF_Types.thy ===== *)
theory DF_Types
  imports DF_Report DF_Arrow DF_Metrics
begin

section \<open>Data carried by errors and reports\<close>

text \<open>
  The data types that the error type of the crate carries, and so every component shares:
  the SQL Server target vocabulary of \<open>sql_server/target.rs\<close>, the query execution profile of
  \<open>report/execution_profile.rs\<close>, the write report data of \<open>report/sql_server/write.rs\<close>, the
  workflow statuses of \<open>sql_server/execution/workflow.rs\<close> and the cache reports of
  \<open>report/sql_server/write_all.rs\<close>. The operations on them are in the theories of those
  components.

  The crate \<open>arrow_sql_server\<close> is not part of the repository. Its values appear here with
  the observations the source makes of them: an error shows a variant, a display text and its
  redaction-safe description; a schema mapping shows its Arrow field; a planned schema shows
  its mappings and options.
\<close>

subsection \<open>Observations of arrow_sql_server values\<close>

record FieldRef =
  fr_index :: nat
  fr_name :: string

record Diagnostic =
  dg_severity :: string
  dg_code :: string
  dg_message :: string
  dg_field :: "FieldRef option"
  dg_row :: "nat option"

type_synonym DiagnosticSet = "Diagnostic list"

record SafeErrorInfo =
  si_phase :: "string option"
  si_summary :: string
  si_kind :: string
  si_diagnostics :: "DiagnosticSet option"

datatype arrow_error_variant =
    Planning DiagnosticSet
  | ValueConversion DiagnosticSet
  | TargetRowCountQuery
  | TargetRowCountUnexpectedResult
  | SqlExecution "nat option"
  | OtherError

record arrow_error =
  ae_variant :: arrow_error_variant
  ae_display :: string
  ae_safe :: SafeErrorInfo

record ArrowField =
  af_index :: nat
  af_name :: string
  af_data_type :: string
  af_nullable :: bool

record SchemaMapping =
  sm_arrow :: ArrowField

type_synonym MssqlSchemaPlanOptions = nat

record PlannedSchema =
  pls_mappings :: "SchemaMapping list"
  pls_options :: MssqlSchemaPlanOptions

record TableName =
  tn_schema :: "string option"
  tn_table :: string

text \<open>Record batches, with what the source reads of them.\<close>

record RecordBatch =
  rb_schema :: Schema
  rb_num_rows :: nat

subsection \<open>SQL Server targets\<close>

datatype LoadMode = AppendExisting | CreateAndLoad | Replace

record MssqlConnectionConfig =
  cc_connection_string :: string
  cc_display_label :: "string option"

record MssqlConnectionSummary =
  cs_display_label :: "string option"

record MssqlTargetTable =
  tt_schema :: "string option"
  tt_table :: string

datatype MssqlConnectionSource = TargetOverride | ContextDefault

record ResolvedMssqlTarget =
  rt_output_name :: string
  rt_table :: MssqlTargetTable
  rt_load_mode :: LoadMode
  rt_connection :: MssqlConnectionConfig
  rt_connection_source :: MssqlConnectionSource

record MssqlTargetSummary =
  ts_output_name :: string
  ts_table :: MssqlTargetTable
  ts_load_mode :: LoadMode
  ts_connection_source :: MssqlConnectionSource
  ts_connection :: MssqlConnectionSummary

subsection \<open>Query execution profiles\<close>

datatype ExecutionProfileMode = Disabled | Detailed

datatype QueryExecutionScope = Preview | MssqlOutput | WriteAllCacheAlias

fun QueryExecutionScope_as_str :: "QueryExecutionScope \<Rightarrow> string" where
  "QueryExecutionScope_as_str Preview = ''preview''"
| "QueryExecutionScope_as_str MssqlOutput = ''mssql_output''"
| "QueryExecutionScope_as_str WriteAllCacheAlias = ''write_all_cache_alias''"

datatype QueryExecutionOutcome = Success | Error | Cancelled

fun QueryExecutionOutcome_as_str :: "QueryExecutionOutcome \<Rightarrow> string" where
  "QueryExecutionOutcome_as_str QueryExecutionOutcome.Success = ''success''"
| "QueryExecutionOutcome_as_str QueryExecutionOutcome.Error = ''error''"
| "QueryExecutionOutcome_as_str QueryExecutionOutcome.Cancelled = ''cancelled''"

datatype QueryExecutionMetricCategory = Summary | Dev

fun QueryExecutionMetricCategory_as_str :: "QueryExecutionMetricCategory \<Rightarrow> string" where
  "QueryExecutionMetricCategory_as_str Summary = ''summary''"
| "QueryExecutionMetricCategory_as_str Dev = ''dev''"

datatype QueryExecutionMetricValue =
    Count u64
  | Bytes u64
  | Nanoseconds u64
  | Gauge u64
  | TimestampNanoseconds "64 word option"
  | Pruning u64 u64 u64
  | Ratio u64 u64
  | Custom u64

fun QueryExecutionMetricValue_value_kind :: "QueryExecutionMetricValue \<Rightarrow> string" where
  "QueryExecutionMetricValue_value_kind (Count _) = ''count''"
| "QueryExecutionMetricValue_value_kind (Bytes _) = ''bytes''"
| "QueryExecutionMetricValue_value_kind (Nanoseconds _) = ''nanoseconds''"
| "QueryExecutionMetricValue_value_kind (Gauge _) = ''gauge''"
| "QueryExecutionMetricValue_value_kind (TimestampNanoseconds _) = ''timestamp_nanoseconds''"
| "QueryExecutionMetricValue_value_kind (Pruning _ _ _) = ''pruning''"
| "QueryExecutionMetricValue_value_kind (Ratio _ _) = ''ratio''"
| "QueryExecutionMetricValue_value_kind (Custom _) = ''custom''"

record QueryExecutionMetric =
  qm_name :: string
  qm_category :: QueryExecutionMetricCategory
  qm_partition :: "u64 option"
  qm_output_partition :: "u64 option"
  qm_value :: QueryExecutionMetricValue

record QueryExecutionOperatorProfile =
  op_node_id :: u64
  op_parent_node_id :: "u64 option"
  op_operator_name :: string
  op_output_partition_count :: u64
  op_metrics_available :: bool
  op_aggregated_metrics :: "QueryExecutionMetric list"
  op_metrics :: "QueryExecutionMetric list"
  op_delta_provider_source_name :: "string option"
  op_delta_provider_read_stats :: "DeltaDataFusionMetricsSnapshot option"

record QueryExecutionProfile =
  qp_scope :: QueryExecutionScope
  qp_outcome :: QueryExecutionOutcome
  qp_delta_funnel_row_limit :: "u64 option"
  qp_operators :: "QueryExecutionOperatorProfile list"

definition profile_preview ::
    "QueryExecutionOutcome \<Rightarrow> u64 \<Rightarrow> QueryExecutionOperatorProfile list \<Rightarrow> QueryExecutionProfile" where
  "profile_preview outcome limit operators =
     \<lparr>qp_scope = Preview, qp_outcome = outcome, qp_delta_funnel_row_limit = Some limit,
      qp_operators = operators\<rparr>"

definition profile_mssql_output ::
    "QueryExecutionOutcome \<Rightarrow> QueryExecutionOperatorProfile list \<Rightarrow> QueryExecutionProfile" where
  "profile_mssql_output outcome operators =
     \<lparr>qp_scope = MssqlOutput, qp_outcome = outcome, qp_delta_funnel_row_limit = None,
      qp_operators = operators\<rparr>"

definition profile_write_all_cache_alias ::
    "QueryExecutionOutcome \<Rightarrow> QueryExecutionOperatorProfile list \<Rightarrow> QueryExecutionProfile" where
  "profile_write_all_cache_alias outcome operators =
     \<lparr>qp_scope = WriteAllCacheAlias, qp_outcome = outcome, qp_delta_funnel_row_limit = None,
      qp_operators = operators\<rparr>"

definition profile_partial :: "QueryExecutionProfile \<Rightarrow> bool" where
  "profile_partial p \<longleftrightarrow> qp_outcome p \<noteq> QueryExecutionOutcome.Success"

subsection \<open>Write reports\<close>

datatype MssqlWritePhase =
    QueryDataFramePlanning | QueryPhysicalPlanning | QueryStreamSetup | Connect
  | PrepareTargetLifecycle | InitializeWriter | PollBatchStream | ValidateBatchSchema
  | WriteBatch | Finalize | Validation | SwapTarget | Cleanup

fun MssqlWritePhase_display :: "MssqlWritePhase \<Rightarrow> string" where
  "MssqlWritePhase_display QueryDataFramePlanning = ''query_dataframe_planning''"
| "MssqlWritePhase_display QueryPhysicalPlanning = ''query_physical_planning''"
| "MssqlWritePhase_display QueryStreamSetup = ''query_stream_setup''"
| "MssqlWritePhase_display Connect = ''connect''"
| "MssqlWritePhase_display PrepareTargetLifecycle = ''prepare target lifecycle''"
| "MssqlWritePhase_display InitializeWriter = ''initialize writer''"
| "MssqlWritePhase_display PollBatchStream = ''poll batch stream''"
| "MssqlWritePhase_display ValidateBatchSchema = ''validate batch schema''"
| "MssqlWritePhase_display WriteBatch = ''write batch''"
| "MssqlWritePhase_display Finalize = ''finalize''"
| "MssqlWritePhase_display Validation = ''validation''"
| "MssqlWritePhase_display SwapTarget = ''swap target''"
| "MssqlWritePhase_display Cleanup = ''cleanup''"

record MssqlWriteStats =
  st_output_name :: string
  st_rows_written :: u64
  st_batches_written :: u64
  st_elapsed_ms :: u64

record MssqlOutputFieldReport =
  ofr_index :: u64
  ofr_name :: string
  ofr_arrow_type :: string
  ofr_nullable :: bool

record MssqlWriteDiagnosticField =
  wdf_index :: u64
  wdf_name :: string

record MssqlWriteDiagnostic =
  wd_severity :: string
  wd_code :: string
  wd_message :: string
  wd_field :: "MssqlWriteDiagnosticField option"
  wd_row :: "u64 option"

record MssqlBatchShapingReport =
  bs_status :: PhaseStatus
  bs_input_batches :: u64
  bs_input_rows :: u64
  bs_output_batches :: u64
  bs_output_rows :: u64

datatype MssqlTargetCleanupStatus = NotApplicable | NotAttempted | Succeeded | Failed

fun MssqlTargetCleanupStatus_display :: "MssqlTargetCleanupStatus \<Rightarrow> string" where
  "MssqlTargetCleanupStatus_display NotApplicable = ''not applicable''"
| "MssqlTargetCleanupStatus_display NotAttempted = ''not attempted''"
| "MssqlTargetCleanupStatus_display MssqlTargetCleanupStatus.Succeeded = ''succeeded''"
| "MssqlTargetCleanupStatus_display MssqlTargetCleanupStatus.Failed = ''failed''"

record MssqlWriteReportMetrics =
  wm_output_row_count :: RowCount
  wm_target_row_count_before_write :: RowCount
  wm_target_row_count :: RowCount
  wm_validation_status :: ValidationStatus
  wm_batch_shaping :: MssqlBatchShapingReport
  wm_phase_timings :: "PhaseTimingReport list"
  wm_rows_written :: u64
  wm_batches_written :: u64
  wm_elapsed_ms :: u64
  wm_partial_write_possible :: bool
  wm_cleanup :: MssqlTargetCleanupStatus

record MssqlWriteReport =
  wr_output_name :: string
  wr_target_table :: MssqlTargetTable
  wr_load_mode :: LoadMode
  wr_connection_source :: MssqlConnectionSource
  wr_connection :: MssqlConnectionSummary
  wr_output_schema :: "MssqlOutputFieldReport list"
  wr_output_row_count :: RowCount
  wr_target_row_count_before_write :: RowCount
  wr_target_row_count :: RowCount
  wr_validation_status :: ValidationStatus
  wr_batch_shaping :: MssqlBatchShapingReport
  wr_phase_timings :: "PhaseTimingReport list"
  wr_execution_profile :: "QueryExecutionProfile option"
  wr_stats :: MssqlWriteStats
  wr_partial_write_possible :: bool
  wr_cleanup :: MssqlTargetCleanupStatus

record MssqlOutputBatchValidationReport =
  bv_output_name :: string
  bv_target_table :: MssqlTargetTable
  bv_load_mode :: LoadMode
  bv_connection_source :: MssqlConnectionSource
  bv_connection :: MssqlConnectionSummary

record MssqlWriteFailureContext =
  fc_phase :: MssqlWritePhase
  fc_report :: MssqlWriteReport
  fc_diagnostics :: "MssqlWriteDiagnostic list"
  fc_cleanup_error :: "string option"

subsection \<open>Workflow statuses\<close>

record MssqlWriteFailureReport =
  fr_target :: MssqlTargetSummary
  fr_error :: string
  fr_context :: "MssqlWriteFailureContext option"
  fr_output_row_count :: RowCount
  fr_target_row_count :: RowCount
  fr_validation_status :: ValidationStatus
  fr_batch_shaping :: MssqlBatchShapingReport
  fr_phase_timings :: "PhaseTimingReport list"

datatype MssqlWriteSkippedReason = PreviousOutputFailed string

record MssqlWriteSkippedReport =
  sr_target :: MssqlTargetSummary
  sr_reason :: MssqlWriteSkippedReason
  sr_output_row_count :: RowCount
  sr_target_row_count :: RowCount
  sr_validation_status :: ValidationStatus
  sr_batch_shaping :: MssqlBatchShapingReport
  sr_phase_timings :: "PhaseTimingReport list"

datatype MssqlOutputWriteStatus =
    Succeeded MssqlWriteReport
  | Failed MssqlWriteFailureReport
  | Skipped MssqlWriteSkippedReport

record MssqlWorkflowWriteReport =
  wf_outputs :: "MssqlOutputWriteStatus list"

subsection \<open>Cache reports and preview failures\<close>

datatype WriteAllCacheAliasStatus = Selected | MaterializedAndRestored | Failed

fun WriteAllCacheAliasStatus_as_str :: "WriteAllCacheAliasStatus \<Rightarrow> string" where
  "WriteAllCacheAliasStatus_as_str Selected = ''selected''"
| "WriteAllCacheAliasStatus_as_str MaterializedAndRestored = ''materialized_and_restored''"
| "WriteAllCacheAliasStatus_as_str WriteAllCacheAliasStatus.Failed = ''failed''"

record WriteAllCacheAliasReport =
  car_table_id :: u64
  car_alias :: string
  car_output_indexes :: "nat list"
  car_status :: WriteAllCacheAliasStatus
  car_phase_timings :: "PhaseTimingReport list"
  car_failed_phase :: "string option"
  car_execution_profile :: "QueryExecutionProfile option"

record WriteAllCacheFailure =
  wcf_aliases :: "WriteAllCacheAliasReport list"
  wcf_primary_failed_alias_table_id :: "u64 option"
  wcf_workflow :: "MssqlWorkflowWriteReport option"

record PreviewFailureContext =
  pfc_failed_phase :: string
  pfc_phase_timings :: "PhaseTimingReport list"
  pfc_execution_profile :: "QueryExecutionProfile option"

end
