(* ===== verification/DF_Error.thy ===== *)
theory DF_Error
  imports DF_Types
begin

section \<open>Errors\<close>

text \<open>
  \<open>error.rs\<close>: the error type of the crate and its display text. Every constructor carries
  the fields of the source variant in order; \<open>DeltaFunnelError_display\<close> is the text the
  derived \<open>Display\<close> renders.
\<close>

datatype SqlTablePhase = ValidateSql | PlanSql | RegisterDerivedAlias

fun SqlTablePhase_display :: "SqlTablePhase \<Rightarrow> string" where
  "SqlTablePhase_display ValidateSql = ''SQL validation''"
| "SqlTablePhase_display PlanSql = ''SQL planning''"
| "SqlTablePhase_display RegisterDerivedAlias = ''derived alias registration''"

datatype BatchPipelinePhase = Configuration | HandoffSetup

fun BatchPipelinePhase_display :: "BatchPipelinePhase \<Rightarrow> string" where
  "BatchPipelinePhase_display Configuration = ''configuration''"
| "BatchPipelinePhase_display HandoffSetup = ''handoff setup''"

datatype DeltaFunnelError =
    Config string
  | PreviewFailed PreviewFailureContext DeltaFunnelError
  | WriteAllCache WriteAllCacheFailure DeltaFunnelError
  | InvalidSourceName string string
  | DuplicateSourceName string
  | InvalidSourceUri string
  | DeltaSourceEngine string
  | DeltaSnapshotLoad string
  | DeltaProtocolCompatibility string string u64 string
  | DeltaSourceSchema string string string
  | DataFusionRegistration string string string
  | SqlTable SqlTablePhase string
  | DependencyCompatibility string
  | BatchPipeline BatchPipelinePhase string string
  | ErrMssqlTargetConfig string string
  | MissingMssqlConnection string
  | InvalidMssqlOutputIdentity string string
  | DuplicateMssqlOutputField string string nat nat
  | MssqlSchemaPlanning string DiagnosticSet
  | MssqlSchemaPlanningFailed string arrow_error
  | MssqlDdlTargetIdentifier string arrow_error
  | MssqlDdlPlanning string string
  | MssqlLifecyclePlanning string string
  | MssqlWrite arrow_error
  | ErrMssqlWritePhase MssqlWriteFailureContext string
  | MssqlQueryPhase MssqlWriteFailureContext DeltaFunnelError
  | MssqlBatchSchemaValidation MssqlWriteFailureContext arrow_error
  | MssqlWorkflowPlanning string

text \<open>The fields of a failure context that its accessors forward to the report.\<close>

abbreviation fc_output_name :: "MssqlWriteFailureContext \<Rightarrow> string" where
  "fc_output_name c \<equiv> wr_output_name (fc_report c)"

definition sanitize_source_name_for_display :: "string \<Rightarrow> string" where
  "sanitize_source_name_for_display name = sanitize_text_for_display name"

definition sanitize_reason_for_display :: "string \<Rightarrow> string" where
  "sanitize_reason_for_display reason = sanitize_text_for_display reason"

definition quoted :: "string \<Rightarrow> string" where
  "quoted s = ''`'' @ s @ ''`''"

definition write_phase_display :: "MssqlWriteFailureContext \<Rightarrow> string \<Rightarrow> string" where
  "write_phase_display c reason =
     ''MSSQL write error for output '' @ quoted (sanitize_text_for_display (fc_output_name c))
     @ '' during '' @ MssqlWritePhase_display (fc_phase c) @ '': ''
     @ sanitize_reason_for_display reason"

fun DeltaFunnelError_display :: "DeltaFunnelError \<Rightarrow> string" where
  "DeltaFunnelError_display (Config msg) = ''configuration error: '' @ msg"
| "DeltaFunnelError_display (PreviewFailed c src) =
     ''preview failed during '' @ pfc_failed_phase c @ '': ''
     @ sanitize_reason_for_display (DeltaFunnelError_display src)"
| "DeltaFunnelError_display (WriteAllCache f src) =
     ''write_all cache failed: '' @ sanitize_reason_for_display (DeltaFunnelError_display src)"
| "DeltaFunnelError_display (InvalidSourceName name reason) =
     ''invalid Delta source name '' @ quoted (sanitize_source_name_for_display name) @ '': ''
     @ reason"
| "DeltaFunnelError_display (DuplicateSourceName name) =
     ''duplicate Delta source name '' @ quoted (sanitize_source_name_for_display name)"
| "DeltaFunnelError_display (InvalidSourceUri reason) =
     ''invalid Delta source URI: '' @ reason"
| "DeltaFunnelError_display (DeltaSourceEngine reason) =
     ''Delta source engine error: '' @ reason"
| "DeltaFunnelError_display (DeltaSnapshotLoad reason) =
     ''Delta snapshot load error: '' @ reason"
| "DeltaFunnelError_display (DeltaProtocolCompatibility name uri version reason) =
     ''Delta protocol compatibility error for source ''
     @ quoted (sanitize_source_name_for_display name) @ '' at snapshot version ''
     @ show_nat (unat version) @ '' ('' @ sanitize_uri_for_display uri @ ''): '' @ reason"
| "DeltaFunnelError_display (DeltaSourceSchema name uri reason) =
     ''Delta source schema error for source '' @ quoted (sanitize_source_name_for_display name)
     @ '' ('' @ sanitize_uri_for_display uri @ ''): '' @ sanitize_reason_for_display reason"
| "DeltaFunnelError_display (DataFusionRegistration name uri reason) =
     ''DataFusion registration error for source ''
     @ quoted (sanitize_source_name_for_display name)
     @ '' ('' @ sanitize_uri_for_display uri @ ''): '' @ sanitize_reason_for_display reason"
| "DeltaFunnelError_display (SqlTable phase msg) =
     ''SQL table error during '' @ SqlTablePhase_display phase @ '': ''
     @ sanitize_reason_for_display msg"
| "DeltaFunnelError_display (DependencyCompatibility msg) =
     ''dependency compatibility error: '' @ msg"
| "DeltaFunnelError_display (BatchPipeline phase opt msg) =
     ''batch pipeline '' @ BatchPipelinePhase_display phase @ '' error for option ''
     @ quoted opt @ '': '' @ sanitize_reason_for_display msg"
| "DeltaFunnelError_display (ErrMssqlTargetConfig opt msg) =
     ''MSSQL target configuration error for option '' @ quoted opt @ '': ''
     @ sanitize_reason_for_display msg"
| "DeltaFunnelError_display (MissingMssqlConnection name) =
     ''MSSQL target for output '' @ quoted (sanitize_text_for_display name)
     @ '' has no effective connection''"
| "DeltaFunnelError_display (InvalidMssqlOutputIdentity name reason) =
     ''MSSQL schema planning error for output '' @ quoted (sanitize_text_for_display name)
     @ '': '' @ reason"
| "DeltaFunnelError_display (DuplicateMssqlOutputField name field i j) =
     ''MSSQL schema planning error for output '' @ quoted (sanitize_text_for_display name)
     @ '': duplicate field name '' @ quoted (sanitize_text_for_display field)
     @ '' at indexes '' @ show_nat i @ '' and '' @ show_nat j"
| "DeltaFunnelError_display (MssqlSchemaPlanning name ds) =
     ''MSSQL schema planning error for output '' @ quoted (sanitize_text_for_display name)
     @ '': arrow-sql-server returned '' @ show_nat (length ds) @ '' diagnostic(s)''"
| "DeltaFunnelError_display (MssqlSchemaPlanningFailed name src) =
     ''MSSQL schema planning error for output '' @ quoted (sanitize_text_for_display name)
     @ '': '' @ sanitize_reason_for_display (ae_display src)"
| "DeltaFunnelError_display (MssqlDdlTargetIdentifier name src) =
     ''MSSQL DDL planning error for output '' @ quoted (sanitize_text_for_display name)
     @ '': '' @ sanitize_reason_for_display (ae_display src)"
| "DeltaFunnelError_display (MssqlDdlPlanning name msg) =
     ''MSSQL DDL planning error for output '' @ quoted (sanitize_text_for_display name)
     @ '': '' @ sanitize_reason_for_display msg"
| "DeltaFunnelError_display (MssqlLifecyclePlanning name msg) =
     ''MSSQL lifecycle planning error for output '' @ quoted (sanitize_text_for_display name)
     @ '': '' @ sanitize_reason_for_display msg"
| "DeltaFunnelError_display (MssqlWrite src) =
     ''MSSQL write error: '' @ sanitize_reason_for_display (ae_display src)"
| "DeltaFunnelError_display (ErrMssqlWritePhase c msg) = write_phase_display c msg"
| "DeltaFunnelError_display (MssqlQueryPhase c src) =
     write_phase_display c (DeltaFunnelError_display src)"
| "DeltaFunnelError_display (MssqlBatchSchemaValidation c src) =
     write_phase_display c (ae_display src)"
| "DeltaFunnelError_display (MssqlWorkflowPlanning msg) =
     ''MSSQL workflow planning error: '' @ sanitize_reason_for_display msg"

subsection \<open>Display texts of the SQL Server errors are printable\<close>

definition all_printable :: "string \<Rightarrow> bool" where
  "all_printable s \<longleftrightarrow> list_all is_printable s"

lemma all_printable_append [simp]:
  "all_printable (a @ b) \<longleftrightarrow> all_printable a \<and> all_printable b"
  by (auto simp: all_printable_def)

lemma all_printable_Cons [simp]:
  "all_printable (c # b) \<longleftrightarrow> is_printable c \<and> all_printable b"
  by (auto simp: all_printable_def)

lemma all_printable_Nil [simp]: "all_printable []"
  by (simp add: all_printable_def)

lemma all_printable_sanitize [simp]:
  "all_printable (sanitize_text_for_display s)"
  "all_printable (sanitize_reason_for_display s)"
  "all_printable (sanitize_source_name_for_display s)"
  using escape_default_printable
  by (auto simp: all_printable_def list_all_iff sanitize_reason_for_display_def
      sanitize_source_name_for_display_def sanitize_text_for_display_def)

lemma all_printable_quoted [simp]: "all_printable (quoted s) \<longleftrightarrow> all_printable s"
  by (simp add: quoted_def is_printable_def)

lemma all_printable_show_nat [simp]: "all_printable (show_nat n)"
  by (auto simp: all_printable_def list_all_iff is_printable_def is_ascii_digit_def
      dest!: set_show_nat)

lemma all_printable_phase [simp]: "all_printable (MssqlWritePhase_display p)"
  by (cases p) (simp_all add: is_printable_def)

text \<open>
  The errors of the SQL Server path. The other variants interpolate texts that their
  builders are trusted to have sanitised.
\<close>

fun sql_server_error :: "DeltaFunnelError \<Rightarrow> bool" where
  "sql_server_error (MissingMssqlConnection _) = True"
| "sql_server_error (DuplicateMssqlOutputField _ _ _ _) = True"
| "sql_server_error (MssqlSchemaPlanning _ _) = True"
| "sql_server_error (MssqlSchemaPlanningFailed _ _) = True"
| "sql_server_error (MssqlDdlTargetIdentifier _ _) = True"
| "sql_server_error (MssqlDdlPlanning _ _) = True"
| "sql_server_error (MssqlLifecyclePlanning _ _) = True"
| "sql_server_error (MssqlWrite _) = True"
| "sql_server_error (ErrMssqlWritePhase _ _) = True"
| "sql_server_error (MssqlQueryPhase _ _) = True"
| "sql_server_error (MssqlBatchSchemaValidation _ _) = True"
| "sql_server_error (MssqlWorkflowPlanning _) = True"
| "sql_server_error (WriteAllCache _ _) = True"
| "sql_server_error _ = False"

lemma write_phase_display_printable: "all_printable (write_phase_display c reason)"
  by (simp add: write_phase_display_def is_printable_def)

lemma sql_server_error_display_printable:
  "sql_server_error e \<Longrightarrow> all_printable (DeltaFunnelError_display e)"
  by (cases e) (simp_all add: write_phase_display_printable, simp_all add: is_printable_def)

end
