(* ===== verification/DF_Names.thy ===== *)
theory DF_Names
  imports DF_Error
begin

section \<open>Source name validation\<close>

text \<open>
  \<open>table_formats/name.rs\<close>: which names a table-format source may be registered under.
  \<open>validate_table_source_names\<close> is the loop of the source, with the set of names seen so
  far as its accumulator.
\<close>

definition EMPTY_NAME :: string where
  "EMPTY_NAME = ''source names must not be empty''"

definition INVALID_FIRST_CHARACTER :: string where
  "INVALID_FIRST_CHARACTER = ''source names must start with an ASCII letter or underscore''"

definition INVALID_CHARACTER :: string where
  "INVALID_CHARACTER =
     ''source names may contain only ASCII letters, digits, and underscores''"

definition SQL_KEYWORD :: string where
  "SQL_KEYWORD = ''source names must not be SQL keywords''"

definition RESERVED_SQL_KEYWORDS :: "string list" where
  "RESERVED_SQL_KEYWORDS =
    [''all'', ''alter'', ''analyze'', ''and'', ''anti'', ''as'', ''asof'', ''by'',
      ''case'', ''connect'', ''cross'', ''delete'', ''distinct'', ''distribute'',
      ''drop'', ''else'', ''end'', ''except'', ''exists'', ''explain'', ''false'',
      ''fetch'', ''for'', ''format'', ''from'', ''full'', ''global'', ''group'',
      ''having'', ''in'', ''inner'', ''insert'', ''intersect'', ''into'', ''is'',
      ''join'', ''lateral'', ''left'', ''like'', ''limit'', ''minus'', ''natural'',
      ''not'', ''null'', ''offset'', ''on'', ''open'', ''or'', ''order'', ''outer'',
      ''partition'', ''pivot'', ''prewhere'', ''qualify'', ''returning'', ''right'',
      ''sample'', ''select'', ''semi'', ''set'', ''settings'', ''sort'', ''start'',
      ''table'', ''tablesample'', ''then'', ''top'', ''true'', ''union'', ''unpivot'',
      ''update'', ''using'', ''values'', ''view'', ''when'', ''where'', ''window'',
      ''with'']"

definition is_valid_first_character :: "char \<Rightarrow> bool" where
  "is_valid_first_character c \<longleftrightarrow> c = CHR ''_'' \<or> is_ascii_alphabetic c"

definition is_valid_following_character :: "char \<Rightarrow> bool" where
  "is_valid_following_character c \<longleftrightarrow> c = CHR ''_'' \<or> is_ascii_alphanumeric c"

definition is_reserved_sql_keyword :: "string \<Rightarrow> bool" where
  "is_reserved_sql_keyword v =
     list_ex (\<lambda>keyword. eq_ignore_ascii_case v keyword) RESERVED_SQL_KEYWORDS"

definition invalid_source_name :: "string \<Rightarrow> string \<Rightarrow> DeltaFunnelError + 'a" where
  "invalid_source_name name reason = Inl (InvalidSourceName name reason)"

definition validate_source_name :: "string \<Rightarrow> DeltaFunnelError + unit" where
  "validate_source_name name =
     (case name of
        [] \<Rightarrow> invalid_source_name name EMPTY_NAME
      | first # chars \<Rightarrow>
          if \<not> is_valid_first_character first then
            invalid_source_name name INVALID_FIRST_CHARACTER
          else if \<not> list_all is_valid_following_character chars then
            invalid_source_name name INVALID_CHARACTER
          else if is_reserved_sql_keyword name then invalid_source_name name SQL_KEYWORD
          else Inr ())"

fun validate_names_loop :: "string set \<Rightarrow> string list \<Rightarrow> DeltaFunnelError + unit" where
  "validate_names_loop seen [] = Inr ()"
| "validate_names_loop seen (name # names) =
     res_bind (validate_source_name name)
       (\<lambda>_. if to_ascii_lowercase name \<in> seen then Inl (DuplicateSourceName name)
            else validate_names_loop (insert (to_ascii_lowercase name) seen) names)"

definition validate_table_source_names :: "string list \<Rightarrow> DeltaFunnelError + unit" where
  "validate_table_source_names names = validate_names_loop {} names"

subsection \<open>Specification\<close>

text \<open>
  A source identifier: an unquoted SQL identifier in ASCII that is not a reserved word in any
  capitalisation.
\<close>

definition source_identifier :: "string \<Rightarrow> bool" where
  "source_identifier name \<longleftrightarrow>
     name \<noteq> [] \<and> is_valid_first_character (hd name) \<and>
     (\<forall>c \<in> set name. is_valid_following_character c) \<and>
     to_ascii_lowercase name \<notin> set RESERVED_SQL_KEYWORDS"

lemma first_is_following: "is_valid_first_character c \<Longrightarrow> is_valid_following_character c"
  by (auto simp: is_valid_first_character_def is_valid_following_character_def
      is_ascii_alphanumeric_def)

lemma lowercase_keywords:
  "map to_ascii_lowercase RESERVED_SQL_KEYWORDS = RESERVED_SQL_KEYWORDS"
  by code_simp

lemma is_reserved_iff:
  "is_reserved_sql_keyword name \<longleftrightarrow> to_ascii_lowercase name \<in> set RESERVED_SQL_KEYWORDS"
proof -
  have "is_reserved_sql_keyword name \<longleftrightarrow>
          to_ascii_lowercase name \<in> set (map to_ascii_lowercase RESERVED_SQL_KEYWORDS)"
    by (auto simp: is_reserved_sql_keyword_def list_ex_iff eq_ignore_ascii_case_def)
  then show ?thesis
    by (simp only: lowercase_keywords)
qed

lemma validate_source_name_ok: "validate_source_name name = Inr u \<longleftrightarrow> source_identifier name"
  by (cases name)
     (auto simp: validate_source_name_def source_identifier_def invalid_source_name_def
       is_reserved_iff list_all_iff first_is_following)

lemma validate_source_name_err:
  "validate_source_name name = Inl e \<Longrightarrow> \<exists>reason. e = InvalidSourceName name reason"
  by (auto simp: validate_source_name_def invalid_source_name_def
      split: list.splits if_splits)

lemma validate_names_loop_ok:
  "validate_names_loop seen names = Inr u \<longleftrightarrow>
     (\<forall>n \<in> set names. source_identifier n) \<and> distinct (map to_ascii_lowercase names) \<and>
     set (map to_ascii_lowercase names) \<inter> seen = {}"
  by (induction names arbitrary: seen)
     (auto simp: res_bind_eq_Inr validate_source_name_ok)

lemma validate_names_ok:
  "validate_table_source_names names = Inr u \<longleftrightarrow>
     (\<forall>n \<in> set names. source_identifier n) \<and> distinct (map to_ascii_lowercase names)"
  by (simp add: validate_table_source_names_def validate_names_loop_ok)

text \<open>
  An error names the first offending position: everything before it is a valid list, and the
  name itself is either not an identifier or repeats an earlier one up to ASCII case.
\<close>

lemma validate_names_loop_err:
  assumes "validate_names_loop seen names = Inl e"
  shows "\<exists>pre n post. names = pre @ n # post \<and>
           (\<forall>m \<in> set pre. source_identifier m) \<and>
           distinct (map to_ascii_lowercase pre) \<and>
           set (map to_ascii_lowercase pre) \<inter> seen = {} \<and>
           ((\<exists>reason. e = InvalidSourceName n reason \<and> \<not> source_identifier n) \<or>
            (e = DuplicateSourceName n \<and> source_identifier n \<and>
             to_ascii_lowercase n \<in> seen \<union> set (map to_ascii_lowercase pre)))"
  using assms
proof (induction names arbitrary: seen)
  case (Cons n names)
  let ?l = "to_ascii_lowercase n"
  consider (bad) "validate_source_name n = Inl e"
    | (dup) "validate_source_name n = Inr ()" "?l \<in> seen" "e = DuplicateSourceName n"
    | (later) "validate_source_name n = Inr ()" "?l \<notin> seen"
        "validate_names_loop (insert ?l seen) names = Inl e"
    using Cons.prems by (auto simp: res_bind_eq_Inl split: if_splits)
  then show ?case
  proof cases
    case bad
    then have "(\<exists>reason. e = InvalidSourceName n reason) \<and> \<not> source_identifier n"
      using validate_source_name_err validate_source_name_ok [of n] by fastforce
    then show ?thesis
      by (intro exI [of _ "[]"] exI [of _ n] exI [of _ names]) auto
  next
    case dup
    then show ?thesis
      by (intro exI [of _ "[]"] exI [of _ n] exI [of _ names])
         (auto simp: validate_source_name_ok)
  next
    case later
    from Cons.IH [OF later(3)] obtain pre m post where
      "names = pre @ m # post" "\<forall>x \<in> set pre. source_identifier x"
      "distinct (map to_ascii_lowercase pre)"
      "set (map to_ascii_lowercase pre) \<inter> insert ?l seen = {}"
      "(\<exists>reason. e = InvalidSourceName m reason \<and> \<not> source_identifier m) \<or>
       (e = DuplicateSourceName m \<and> source_identifier m \<and>
        to_ascii_lowercase m \<in> insert ?l seen \<union> set (map to_ascii_lowercase pre))"
      by blast
    with later show ?thesis
      by (intro exI [of _ "n # pre"] exI [of _ m] exI [of _ post])
         (auto simp: validate_source_name_ok)
  qed
qed simp

end
