(* ===== verification/DF_Target.thy ===== *)
theory DF_Target
  imports DF_Error
begin

section \<open>SQL Server target configuration\<close>

text \<open>
  \<open>sql_server/target.rs\<close>: building connection configurations and target tables, resolving a
  target against the context default, and the redacted summaries. The types are in
  \<open>DF_Types\<close>.
\<close>

definition MssqlConnectionConfig_new :: "string \<Rightarrow> DeltaFunnelError + MssqlConnectionConfig" where
  "MssqlConnectionConfig_new s =
     res_bind
       (ensure (trim s \<noteq> [])
         (ErrMssqlTargetConfig ''connection.connection_string''
            ''connection string must not be empty''))
       (\<lambda>_. Inr \<lparr>cc_connection_string = s, cc_display_label = None\<rparr>)"

definition with_display_label :: "string \<Rightarrow> MssqlConnectionConfig \<Rightarrow> MssqlConnectionConfig" where
  "with_display_label label c = c\<lparr>cc_display_label := Some label\<rparr>"

definition connection_summary :: "MssqlConnectionConfig \<Rightarrow> MssqlConnectionSummary" where
  "connection_summary c = \<lparr>cs_display_label = cc_display_label c\<rparr>"

definition MssqlConnectionSummary_display :: "MssqlConnectionSummary \<Rightarrow> string" where
  "MssqlConnectionSummary_display s =
     (case cs_display_label s of
        Some label \<Rightarrow> ''MSSQL connection `'' @ sanitize_text_for_display label @ ''`''
      | None \<Rightarrow> ''MSSQL connection <redacted>'')"

definition MssqlConnectionConfig_display :: "MssqlConnectionConfig \<Rightarrow> string" where
  "MssqlConnectionConfig_display c = MssqlConnectionSummary_display (connection_summary c)"

definition MssqlTargetTable_new ::
    "string \<Rightarrow> string \<Rightarrow> DeltaFunnelError + MssqlTargetTable" where
  "MssqlTargetTable_new schema table =
     res_bind
       (ensure (trim schema \<noteq> [])
         (ErrMssqlTargetConfig ''target.schema'' ''schema must not be empty''))
       (\<lambda>_. res_bind
         (ensure (trim table \<noteq> [])
           (ErrMssqlTargetConfig ''target.table'' ''table must not be empty''))
         (\<lambda>_. Inr \<lparr>tt_schema = Some schema, tt_table = table\<rparr>))"

definition MssqlTargetTable_unqualified :: "string \<Rightarrow> DeltaFunnelError + MssqlTargetTable" where
  "MssqlTargetTable_unqualified table =
     res_bind
       (ensure (trim table \<noteq> [])
         (ErrMssqlTargetConfig ''target.table'' ''table must not be empty''))
       (\<lambda>_. Inr \<lparr>tt_schema = None, tt_table = table\<rparr>)"

record MssqlTargetConfig =
  tc_table :: MssqlTargetTable
  tc_load_mode :: LoadMode
  tc_connection :: "MssqlConnectionConfig option"

definition MssqlTargetConfig_new :: "MssqlTargetTable \<Rightarrow> MssqlTargetConfig" where
  "MssqlTargetConfig_new t =
     \<lparr>tc_table = t, tc_load_mode = AppendExisting, tc_connection = None\<rparr>"

definition with_load_mode :: "LoadMode \<Rightarrow> MssqlTargetConfig \<Rightarrow> MssqlTargetConfig" where
  "with_load_mode m c = c\<lparr>tc_load_mode := m\<rparr>"

definition with_connection ::
    "MssqlConnectionConfig \<Rightarrow> MssqlTargetConfig \<Rightarrow> MssqlTargetConfig" where
  "with_connection conn c = c\<lparr>tc_connection := Some conn\<rparr>"

record MssqlTargetResolutionContext =
  rc_output_name :: "string option"
  rc_default_connection :: "MssqlConnectionConfig option"

definition resolve ::
    "MssqlTargetConfig \<Rightarrow> MssqlTargetResolutionContext
      \<Rightarrow> DeltaFunnelError + ResolvedMssqlTarget" where
  "resolve cfg context =
     (let output_name = (case rc_output_name context of Some n \<Rightarrow> n | None \<Rightarrow> ''<unnamed>'');
          chosen = (case tc_connection cfg of
                      Some c \<Rightarrow> Some (c, TargetOverride)
                    | None \<Rightarrow> map_option (\<lambda>c. (c, ContextDefault)) (rc_default_connection context))
      in case chosen of
           None \<Rightarrow> Inl (MissingMssqlConnection output_name)
         | Some (connection, src) \<Rightarrow>
             Inr \<lparr>rt_output_name = output_name, rt_table = tc_table cfg,
                  rt_load_mode = tc_load_mode cfg, rt_connection = connection,
                  rt_connection_source = src\<rparr>)"

definition target_summary :: "ResolvedMssqlTarget \<Rightarrow> MssqlTargetSummary" where
  "target_summary t =
     \<lparr>ts_output_name = rt_output_name t, ts_table = rt_table t, ts_load_mode = rt_load_mode t,
      ts_connection_source = rt_connection_source t,
      ts_connection = connection_summary (rt_connection t)\<rparr>"

lemma target_summary_sel [simp]:
  "ts_output_name (target_summary t) = rt_output_name t"
  "ts_table (target_summary t) = rt_table t"
  "ts_load_mode (target_summary t) = rt_load_mode t"
  "ts_connection_source (target_summary t) = rt_connection_source t"
  "ts_connection (target_summary t) = connection_summary (rt_connection t)"
  by (simp_all add: target_summary_def)

subsection \<open>Well-formed target tables\<close>

definition table_wf :: "MssqlTargetTable \<Rightarrow> bool" where
  "table_wf t \<longleftrightarrow> trim (tt_table t) \<noteq> [] \<and> (case tt_schema t of None \<Rightarrow> True | Some s \<Rightarrow> trim s \<noteq> [])"

lemma MssqlTargetTable_new_wf:
  "MssqlTargetTable_new s t = Inr tbl \<Longrightarrow>
     table_wf tbl \<and> tt_schema tbl = Some s \<and> tt_table tbl = t"
  by (auto simp: MssqlTargetTable_new_def table_wf_def res_simps)

lemma MssqlTargetTable_unqualified_wf:
  "MssqlTargetTable_unqualified t = Inr tbl \<Longrightarrow>
     table_wf tbl \<and> tt_schema tbl = None \<and> tt_table tbl = t"
  by (auto simp: MssqlTargetTable_unqualified_def table_wf_def res_simps)

subsection \<open>Resolution\<close>

text \<open>
  The complete result of a resolution: the connection is the
  target's own one when it has one, else the default of the context, else there is an error.
\<close>

lemma resolve_cases:
  "resolve cfg context =
     (case (tc_connection cfg, rc_default_connection context) of
        (Some c, _) \<Rightarrow>
          Inr \<lparr>rt_output_name = (case rc_output_name context of Some n \<Rightarrow> n | None \<Rightarrow> ''<unnamed>''),
               rt_table = tc_table cfg, rt_load_mode = tc_load_mode cfg,
               rt_connection = c, rt_connection_source = TargetOverride\<rparr>
      | (None, Some c) \<Rightarrow>
          Inr \<lparr>rt_output_name = (case rc_output_name context of Some n \<Rightarrow> n | None \<Rightarrow> ''<unnamed>''),
               rt_table = tc_table cfg, rt_load_mode = tc_load_mode cfg,
               rt_connection = c, rt_connection_source = ContextDefault\<rparr>
      | (None, None) \<Rightarrow>
          Inl (MissingMssqlConnection
                 (case rc_output_name context of Some n \<Rightarrow> n | None \<Rightarrow> ''<unnamed>'')))"
  by (simp add: resolve_def Let_def split: option.splits)

text \<open>
  Redaction as non-interference: the summary of a resolved target does not depend on the
  connection string at all, only on the label the caller declared to be public.
\<close>

lemma summary_independent_of_secret:
  assumes "cc_display_label c = cc_display_label d"
  shows "target_summary (t\<lparr>rt_connection := c\<rparr>) = target_summary (t\<lparr>rt_connection := d\<rparr>)"
    and "MssqlConnectionConfig_display c = MssqlConnectionConfig_display d"
  using assms
  by (simp_all add: target_summary_def connection_summary_def MssqlConnectionConfig_display_def)

end
