(* ===== verification/DF_Planning.thy ===== *)
theory DF_Planning
  imports DF_Target
begin

section \<open>Output planning\<close>

text \<open>
  \<open>sql_server/planning\<close>: schema planning, create-table planning, lifecycle planning and the
  composed plan of one output. The functions of \<open>arrow_sql_server\<close> these call are the fields
  of the parameter \<open>arrow_api\<close>; what the crate relies on is stated as \<open>naming_contract\<close>
  where a property needs it.
\<close>

subsection \<open>The arrow_sql_server functions\<close>

record arrow_api =
  api_TableName_new :: "string \<Rightarrow> string \<Rightarrow> arrow_error + TableName"
  api_TableName_unqualified :: "string \<Rightarrow> arrow_error + TableName"
  api_quoted_sql :: "TableName \<Rightarrow> string"
  api_create_table_sql_from_mappings :: "TableName \<Rightarrow> SchemaMapping list \<Rightarrow> string"
  api_plan_arrow_schema ::
    "Schema \<Rightarrow> MssqlSchemaPlanOptions \<Rightarrow> arrow_error + (PlannedSchema \<times> DiagnosticSet)"
  api_validate_record_batch_schema ::
    "RecordBatch \<Rightarrow> SchemaMapping list \<Rightarrow> arrow_error + unit"
  api_validate_arrow_schema :: "Schema \<Rightarrow> SchemaMapping list \<Rightarrow> arrow_error + unit"

text \<open>A table name that \<open>TableName::new\<close> accepts is made of the parts it was given.\<close>

definition naming_contract :: "arrow_api \<Rightarrow> bool" where
  "naming_contract api \<longleftrightarrow>
     (\<forall>s t n. api_TableName_new api s t = Inr n \<longrightarrow> n = \<lparr>tn_schema = Some s, tn_table = t\<rparr>) \<and>
     (\<forall>t n. api_TableName_unqualified api t = Inr n \<longrightarrow> n = \<lparr>tn_schema = None, tn_table = t\<rparr>)"

definition table_name_from_parts ::
    "arrow_api \<Rightarrow> string \<Rightarrow> string option \<Rightarrow> string \<Rightarrow> DeltaFunnelError + TableName" where
  "table_name_from_parts api output_name schema table =
     map_err (MssqlDdlTargetIdentifier output_name)
       (case schema of
          Some s \<Rightarrow> api_TableName_new api s table
        | None \<Rightarrow> api_TableName_unqualified api table)"

definition table_name_from_target ::
    "arrow_api \<Rightarrow> string \<Rightarrow> MssqlTargetTable \<Rightarrow> DeltaFunnelError + TableName" where
  "table_name_from_target api output_name table =
     table_name_from_parts api output_name (tt_schema table) (tt_table table)"

lemma table_name_from_parts_ok:
  "naming_contract api \<Longrightarrow> table_name_from_parts api out s t = Inr n \<Longrightarrow>
     n = \<lparr>tn_schema = s, tn_table = t\<rparr>"
  by (auto simp: table_name_from_parts_def naming_contract_def res_simps split: option.splits)

lemma table_name_from_parts_err:
  "table_name_from_parts api out s t = Inl e \<Longrightarrow> \<exists>src. e = MssqlDdlTargetIdentifier out src"
  by (auto simp: table_name_from_parts_def res_simps)

subsection \<open>Schema planning\<close>

record MssqlSchemaDiagnosticField =
  sdf_index :: nat
  sdf_name :: string

record MssqlSchemaDiagnostic =
  sd_output_name :: string
  sd_severity :: string
  sd_code :: string
  sd_message :: string
  sd_field :: "MssqlSchemaDiagnosticField option"
  sd_row :: "nat option"

record MssqlSchemaPlan =
  sp_target :: MssqlTargetSummary
  sp_planned_schema :: PlannedSchema
  sp_diagnostics :: DiagnosticSet
  sp_diagnostic_reports :: "MssqlSchemaDiagnostic list"

definition schema_mappings :: "MssqlSchemaPlan \<Rightarrow> SchemaMapping list" where
  "schema_mappings p = pls_mappings (sp_planned_schema p)"

definition diagnostic_field_from :: "FieldRef \<Rightarrow> MssqlSchemaDiagnosticField" where
  "diagnostic_field_from f = \<lparr>sdf_index = fr_index f, sdf_name = fr_name f\<rparr>"

definition diagnostic_from_arrow_sql_server :: "string \<Rightarrow> Diagnostic \<Rightarrow> MssqlSchemaDiagnostic" where
  "diagnostic_from_arrow_sql_server output_name d =
     \<lparr>sd_output_name = output_name, sd_severity = dg_severity d, sd_code = dg_code d,
      sd_message = dg_message d, sd_field = map_option diagnostic_field_from (dg_field d),
      sd_row = dg_row d\<rparr>"

definition mssql_schema_diagnostic_reports ::
    "string \<Rightarrow> DiagnosticSet \<Rightarrow> MssqlSchemaDiagnostic list" where
  "mssql_schema_diagnostic_reports output_name ds =
     map (diagnostic_from_arrow_sql_server output_name) ds"

definition validate_output_identity :: "string \<Rightarrow> DeltaFunnelError + unit" where
  "validate_output_identity output_name =
     (if trim output_name = [] \<or> output_name = ''<unnamed>'' then
        Inl (InvalidMssqlOutputIdentity output_name ''selected output name must be provided'')
      else Inr ())"

fun unique_field_names_loop ::
    "string \<Rightarrow> (string \<rightharpoonup> nat) \<Rightarrow> nat \<Rightarrow> Field list \<Rightarrow> DeltaFunnelError + unit" where
  "unique_field_names_loop output_name first_indexes i [] = Inr ()"
| "unique_field_names_loop output_name first_indexes i (f # fs) =
     (case first_indexes (fd_name f) of
        Some first \<Rightarrow> Inl (DuplicateMssqlOutputField output_name (fd_name f) first i)
      | None \<Rightarrow>
          unique_field_names_loop output_name (first_indexes(fd_name f \<mapsto> i)) (Suc i) fs)"

definition validate_unique_output_field_names ::
    "string \<Rightarrow> Schema \<Rightarrow> DeltaFunnelError + unit" where
  "validate_unique_output_field_names output_name schema =
     unique_field_names_loop output_name Map.empty 0 (sch_fields schema)"

definition plan_mssql_output_schema ::
    "arrow_api \<Rightarrow> Schema \<Rightarrow> ResolvedMssqlTarget \<Rightarrow> MssqlSchemaPlanOptions
      \<Rightarrow> DeltaFunnelError + MssqlSchemaPlan" where
  "plan_mssql_output_schema api schema target options =
     res_bind (validate_output_identity (rt_output_name target)) (\<lambda>_.
     res_bind (validate_unique_output_field_names (rt_output_name target) schema) (\<lambda>_.
     res_bind
       (map_err
         (\<lambda>source. case ae_variant source of
            Planning diagnostics \<Rightarrow> MssqlSchemaPlanning (rt_output_name target) diagnostics
          | _ \<Rightarrow> MssqlSchemaPlanningFailed (rt_output_name target) source)
         (api_plan_arrow_schema api schema options))
       (\<lambda>(planned_schema, diagnostics).
         Inr \<lparr>sp_target = target_summary target, sp_planned_schema = planned_schema,
              sp_diagnostics = diagnostics,
              sp_diagnostic_reports =
                mssql_schema_diagnostic_reports (rt_output_name target) diagnostics\<rparr>)))"

subsection \<open>Create-table planning\<close>

record MssqlDdlPlan =
  dp_target :: MssqlTargetSummary
  dp_create_table_sql_present :: bool
  dp_create_table_sql :: "string option"

definition ddl_requires_mapping :: "MssqlSchemaPlan \<Rightarrow> DeltaFunnelError + unit" where
  "ddl_requires_mapping plan =
     (if schema_mappings plan = [] then
        Inl (MssqlDdlPlanning (ts_output_name (sp_target plan))
               ''create-table DDL requires at least one schema mapping'')
      else Inr ())"

definition plan_mssql_create_table_ddl ::
    "arrow_api \<Rightarrow> MssqlSchemaPlan \<Rightarrow> DeltaFunnelError + MssqlDdlPlan" where
  "plan_mssql_create_table_ddl api plan =
     (let target = sp_target plan in
      res_bind
        (case ts_load_mode target of
           AppendExisting \<Rightarrow> Inr (False, None)
         | CreateAndLoad \<Rightarrow>
             res_bind (ddl_requires_mapping plan) (\<lambda>_.
             res_bind (table_name_from_target api (ts_output_name target) (ts_table target)) (\<lambda>table.
             Inr (True, Some (api_create_table_sql_from_mappings api table (schema_mappings plan)))))
         | Replace \<Rightarrow>
             res_bind (ddl_requires_mapping plan) (\<lambda>_.
             res_bind (table_name_from_target api (ts_output_name target) (ts_table target)) (\<lambda>_.
             Inr (True, None))))
        (\<lambda>(present, sql).
          Inr \<lparr>dp_target = target, dp_create_table_sql_present = present,
               dp_create_table_sql = sql\<rparr>))"

subsection \<open>Lifecycle planning\<close>

datatype MssqlTargetTableState = Exists | Absent | ExistsOrAbsent

datatype MssqlLifecycleGuardrailPolicy = AllowedAfterPlanning | ForbiddenAfterPlanningFailure

datatype MssqlLifecycleExecutionGuardrail =
    DeltaSourceScanExecution
  | DataFusionPhysicalPlanExecution
  | SqlServerConnectionAttempt
  | TargetTableExistenceProbe
  | CreateTableDdlExecution
  | BulkWriterConstruction
  | RecordBatchHandoffPolling

record MssqlLifecyclePlan =
  lp_target :: MssqlTargetSummary
  lp_expected_target_state :: MssqlTargetTableState
  lp_create_table_sql_required :: bool
  lp_create_table_sql_present :: bool
  lp_executable_in_mvp :: bool
  lp_guardrail_policy :: MssqlLifecycleGuardrailPolicy
  lp_execution_guardrails :: "MssqlLifecycleExecutionGuardrail list"

definition APPEND_EXISTING_EXECUTION_GUARDRAILS :: "MssqlLifecycleExecutionGuardrail list" where
  "APPEND_EXISTING_EXECUTION_GUARDRAILS =
     [SqlServerConnectionAttempt, TargetTableExistenceProbe, BulkWriterConstruction,
      DeltaSourceScanExecution, DataFusionPhysicalPlanExecution, RecordBatchHandoffPolling]"

definition CREATE_AND_LOAD_EXECUTION_GUARDRAILS :: "MssqlLifecycleExecutionGuardrail list" where
  "CREATE_AND_LOAD_EXECUTION_GUARDRAILS =
     [SqlServerConnectionAttempt, TargetTableExistenceProbe, CreateTableDdlExecution,
      BulkWriterConstruction, DeltaSourceScanExecution, DataFusionPhysicalPlanExecution,
      RecordBatchHandoffPolling]"

definition REPLACE_EXECUTION_GUARDRAILS :: "MssqlLifecycleExecutionGuardrail list" where
  "REPLACE_EXECUTION_GUARDRAILS =
     [SqlServerConnectionAttempt, TargetTableExistenceProbe, CreateTableDdlExecution,
      BulkWriterConstruction, DeltaSourceScanExecution, DataFusionPhysicalPlanExecution,
      RecordBatchHandoffPolling]"

definition lifecycle_error :: "MssqlTargetSummary \<Rightarrow> string \<Rightarrow> DeltaFunnelError" where
  "lifecycle_error target msg = MssqlLifecyclePlanning (ts_output_name target) msg"

definition plan_append_existing_lifecycle ::
    "MssqlTargetSummary \<Rightarrow> MssqlDdlPlan option \<Rightarrow> DeltaFunnelError + MssqlLifecyclePlan" where
  "plan_append_existing_lifecycle target ddl =
     (if Option.bind ddl dp_create_table_sql \<noteq> None then
        Inl (lifecycle_error target ''append-existing lifecycle must not carry create-table SQL'')
      else
        Inr \<lparr>lp_target = target, lp_expected_target_state = Exists,
             lp_create_table_sql_required = False, lp_create_table_sql_present = False,
             lp_executable_in_mvp = True, lp_guardrail_policy = AllowedAfterPlanning,
             lp_execution_guardrails = APPEND_EXISTING_EXECUTION_GUARDRAILS\<rparr>)"

definition plan_create_and_load_lifecycle ::
    "MssqlTargetSummary \<Rightarrow> MssqlDdlPlan option \<Rightarrow> DeltaFunnelError + MssqlLifecyclePlan" where
  "plan_create_and_load_lifecycle target ddl =
     (let present = (Option.bind ddl dp_create_table_sql \<noteq> None) in
      if \<not> present then
        Inl (lifecycle_error target ''create-and-load lifecycle requires planned create-table SQL'')
      else
        Inr \<lparr>lp_target = target, lp_expected_target_state = Absent,
             lp_create_table_sql_required = True, lp_create_table_sql_present = present,
             lp_executable_in_mvp = True, lp_guardrail_policy = AllowedAfterPlanning,
             lp_execution_guardrails = CREATE_AND_LOAD_EXECUTION_GUARDRAILS\<rparr>)"

definition plan_replace_lifecycle ::
    "MssqlTargetSummary \<Rightarrow> MssqlDdlPlan option \<Rightarrow> DeltaFunnelError + MssqlLifecyclePlan" where
  "plan_replace_lifecycle target ddl =
     (let present = (case ddl of Some d \<Rightarrow> dp_create_table_sql_present d | None \<Rightarrow> False) in
      if \<not> present then
        Inl (lifecycle_error target ''replace lifecycle requires planned create-table SQL'')
      else
        Inr \<lparr>lp_target = target, lp_expected_target_state = ExistsOrAbsent,
             lp_create_table_sql_required = True, lp_create_table_sql_present = present,
             lp_executable_in_mvp = True, lp_guardrail_policy = AllowedAfterPlanning,
             lp_execution_guardrails = REPLACE_EXECUTION_GUARDRAILS\<rparr>)"

definition ensure_matching_target ::
    "MssqlTargetSummary \<Rightarrow> MssqlTargetSummary \<Rightarrow> DeltaFunnelError + unit" where
  "ensure_matching_target schema_target ddl_target =
     (if ts_output_name schema_target \<noteq> ts_output_name ddl_target \<or>
         ts_table schema_target \<noteq> ts_table ddl_target \<or>
         ts_connection_source schema_target \<noteq> ts_connection_source ddl_target \<or>
         ts_connection schema_target \<noteq> ts_connection ddl_target
      then Inl (lifecycle_error schema_target ''schema plan and DDL plan targets must match'')
      else Inr ())"

definition plan_mssql_lifecycle ::
    "MssqlSchemaPlan \<Rightarrow> MssqlDdlPlan option \<Rightarrow> DeltaFunnelError + MssqlLifecyclePlan" where
  "plan_mssql_lifecycle schema_plan ddl =
     (let target = sp_target schema_plan in
      res_bind
        (case ddl of Some d \<Rightarrow> ensure_matching_target target (dp_target d) | None \<Rightarrow> Inr ())
        (\<lambda>_. case ts_load_mode target of
                AppendExisting \<Rightarrow> plan_append_existing_lifecycle target ddl
              | CreateAndLoad \<Rightarrow> plan_create_and_load_lifecycle target ddl
              | Replace \<Rightarrow> plan_replace_lifecycle target ddl))"

subsection \<open>The plan of one output\<close>

record MssqlTargetOutputPlan =
  pl_schema_plan :: MssqlSchemaPlan
  pl_ddl_plan :: MssqlDdlPlan
  pl_lifecycle_plan :: MssqlLifecyclePlan

definition pl_target :: "MssqlTargetOutputPlan \<Rightarrow> MssqlTargetSummary" where
  "pl_target p = sp_target (pl_schema_plan p)"

abbreviation pl_output_name :: "MssqlTargetOutputPlan \<Rightarrow> string" where
  "pl_output_name p \<equiv> ts_output_name (pl_target p)"

abbreviation pl_target_table :: "MssqlTargetOutputPlan \<Rightarrow> MssqlTargetTable" where
  "pl_target_table p \<equiv> ts_table (pl_target p)"

abbreviation pl_load_mode :: "MssqlTargetOutputPlan \<Rightarrow> LoadMode" where
  "pl_load_mode p \<equiv> ts_load_mode (pl_target p)"

definition pl_schema_mappings :: "MssqlTargetOutputPlan \<Rightarrow> SchemaMapping list" where
  "pl_schema_mappings p = schema_mappings (pl_schema_plan p)"

definition pl_create_table_sql :: "MssqlTargetOutputPlan \<Rightarrow> string option" where
  "pl_create_table_sql p = dp_create_table_sql (pl_ddl_plan p)"

definition plan_mssql_target_output ::
    "arrow_api \<Rightarrow> MssqlSchemaPlan \<Rightarrow> DeltaFunnelError + MssqlTargetOutputPlan" where
  "plan_mssql_target_output api schema_plan =
     res_bind (plan_mssql_create_table_ddl api schema_plan) (\<lambda>ddl_plan.
     res_bind (plan_mssql_lifecycle schema_plan (Some ddl_plan)) (\<lambda>lifecycle_plan.
     Inr \<lparr>pl_schema_plan = schema_plan, pl_ddl_plan = ddl_plan,
          pl_lifecycle_plan = lifecycle_plan\<rparr>))"

definition plan_mssql_target_for_resolved_output ::
    "arrow_api \<Rightarrow> Schema \<Rightarrow> ResolvedMssqlTarget \<Rightarrow> MssqlSchemaPlanOptions
      \<Rightarrow> DeltaFunnelError + MssqlTargetOutputPlan" where
  "plan_mssql_target_for_resolved_output api schema target options =
     res_bind (plan_mssql_output_schema api schema target options)
       (plan_mssql_target_output api)"

definition plan_mssql_target_for_output ::
    "arrow_api \<Rightarrow> Schema \<Rightarrow> string \<Rightarrow> MssqlTargetConfig \<Rightarrow> MssqlConnectionConfig option
      \<Rightarrow> MssqlSchemaPlanOptions \<Rightarrow> DeltaFunnelError + MssqlTargetOutputPlan" where
  "plan_mssql_target_for_output api schema output_name cfg default_connection options =
     res_bind (resolve cfg \<lparr>rc_output_name = Some output_name,
                            rc_default_connection = default_connection\<rparr>)
       (\<lambda>target. plan_mssql_target_for_resolved_output api schema target options)"

subsection \<open>Duplicate field names\<close>

lemma unique_field_names_loop_ok:
  "unique_field_names_loop out m i fs = Inr u \<longleftrightarrow>
     distinct (map fd_name fs) \<and> set (map fd_name fs) \<inter> dom m = {}"
  by (induction fs arbitrary: m i) (auto split: option.splits)

lemma validate_unique_ok:
  "validate_unique_output_field_names out schema = Inr u \<longleftrightarrow> distinct (map fd_name (sch_fields schema))"
  by (simp add: validate_unique_output_field_names_def unique_field_names_loop_ok)

text \<open>
  The loop reports the first repeated position: with \<open>m\<close> the index map of the fields before
  position \<open>i\<close>, the reported indexes are the repetition and the first field of that name.
\<close>

lemma unique_field_names_loop_err:
  assumes "unique_field_names_loop out m (length pre) fs = Inl e"
    and "distinct (map fd_name pre)"
    and "\<forall>n j. m n = Some j \<longleftrightarrow> j < length pre \<and> fd_name (pre ! j) = n"
  shows "\<exists>j k. e = DuplicateMssqlOutputField out (fd_name ((pre @ fs) ! k)) j k \<and>
           j < k \<and> k < length (pre @ fs) \<and>
           fd_name ((pre @ fs) ! j) = fd_name ((pre @ fs) ! k) \<and>
           distinct (map fd_name (take k (pre @ fs)))"
  using assms
proof (induction fs arbitrary: m pre)
  case (Cons f fs)
  show ?case
  proof (cases "m (fd_name f)")
    case (Some j)
    with Cons.prems(3) have "j < length pre" "fd_name (pre ! j) = fd_name f"
      by auto
    with Cons.prems Some show ?thesis
      by (intro exI [of _ j] exI [of _ "length pre"]) (simp add: nth_append)
  next
    case None
    have fresh: "fd_name f \<notin> set (map fd_name pre)"
    proof
      assume "fd_name f \<in> set (map fd_name pre)"
      then obtain i where "i < length pre" "fd_name (pre ! i) = fd_name f"
        by (auto simp: in_set_conv_nth)
      with Cons.prems(3) have "m (fd_name f) = Some i"
        by blast
      with None show False
        by simp
    qed
    have inv: "\<forall>n j. (m(fd_name f \<mapsto> length pre)) n = Some j \<longleftrightarrow>
                 j < length (pre @ [f]) \<and> fd_name ((pre @ [f]) ! j) = n"
      using Cons.prems(3) fresh nth_mem [of _ pre]
      by (auto simp: nth_append less_Suc_eq image_iff) (metis nth_mem)
    have "unique_field_names_loop out (m(fd_name f \<mapsto> length pre)) (length (pre @ [f])) fs = Inl e"
      using Cons.prems(1) None by simp
    moreover have "distinct (map fd_name (pre @ [f]))"
      using Cons.prems(2) fresh by simp
    ultimately show ?thesis
      using Cons.IH [of "m(fd_name f \<mapsto> length pre)" "pre @ [f]"] inv
      unfolding append_assoc append_Cons append_Nil by blast
  qed
qed simp

lemma validate_unique_err:
  "validate_unique_output_field_names out schema = Inl e \<Longrightarrow>
     \<exists>j k. e = DuplicateMssqlOutputField out (fd_name (sch_fields schema ! k)) j k \<and>
       j < k \<and> k < length (sch_fields schema) \<and> fd_name (sch_fields schema ! j) = fd_name (sch_fields schema ! k) \<and>
       distinct (map fd_name (take k (sch_fields schema)))"
  unfolding validate_unique_output_field_names_def
  using unique_field_names_loop_err [of out Map.empty "[]" "sch_fields schema" e] by simp

subsection \<open>Well-formed plans\<close>

text \<open>
  What a plan promises to the execution that follows: its three parts speak of one target, and
  the expected state, the guard rails and the create-table SQL are those of the load mode.
\<close>

definition lifecycle_of :: "LoadMode \<Rightarrow> MssqlTargetTableState \<times> MssqlLifecycleExecutionGuardrail list" where
  "lifecycle_of m =
     (case m of
        AppendExisting \<Rightarrow> (Exists, APPEND_EXISTING_EXECUTION_GUARDRAILS)
      | CreateAndLoad \<Rightarrow> (Absent, CREATE_AND_LOAD_EXECUTION_GUARDRAILS)
      | Replace \<Rightarrow> (ExistsOrAbsent, REPLACE_EXECUTION_GUARDRAILS))"

definition plan_wf :: "arrow_api \<Rightarrow> MssqlTargetOutputPlan \<Rightarrow> bool" where
  "plan_wf api p \<longleftrightarrow>
     (let m = pl_load_mode p; lp = pl_lifecycle_plan p in
      dp_target (pl_ddl_plan p) = pl_target p \<and> lp_target lp = pl_target p \<and>
      (lp_expected_target_state lp, lp_execution_guardrails lp) = lifecycle_of m \<and>
      lp_guardrail_policy lp = AllowedAfterPlanning \<and> lp_executable_in_mvp lp \<and>
      (lp_create_table_sql_required lp \<longleftrightarrow> m \<noteq> AppendExisting) \<and>
      (lp_create_table_sql_present lp \<longleftrightarrow> m \<noteq> AppendExisting) \<and>
      (m \<noteq> AppendExisting \<longrightarrow> pl_schema_mappings p \<noteq> []) \<and>
      (case m of
         CreateAndLoad \<Rightarrow>
           \<exists>t. table_name_from_target api (pl_output_name p) (pl_target_table p) = Inr t \<and>
             pl_create_table_sql p =
               Some (api_create_table_sql_from_mappings api t (pl_schema_mappings p))
       | _ \<Rightarrow> pl_create_table_sql p = None))"

lemmas lifecycle_plan_defs =
  plan_mssql_lifecycle_def plan_append_existing_lifecycle_def plan_create_and_load_lifecycle_def
  plan_replace_lifecycle_def ensure_matching_target_def lifecycle_of_def

lemma ddl_plan_ok:
  assumes "plan_mssql_create_table_ddl api sp = Inr d"
  shows "dp_target d = sp_target sp"
    and "dp_create_table_sql_present d \<longleftrightarrow> ts_load_mode (sp_target sp) \<noteq> AppendExisting"
    and "ts_load_mode (sp_target sp) \<noteq> AppendExisting \<Longrightarrow> schema_mappings sp \<noteq> []"
    and "ts_load_mode (sp_target sp) = CreateAndLoad \<Longrightarrow>
           \<exists>t. table_name_from_target api (ts_output_name (sp_target sp)) (ts_table (sp_target sp)) = Inr t
             \<and> dp_create_table_sql d =
                 Some (api_create_table_sql_from_mappings api t (schema_mappings sp))"
    and "ts_load_mode (sp_target sp) \<noteq> CreateAndLoad \<Longrightarrow> dp_create_table_sql d = None"
  using assms
  by (cases "ts_load_mode (sp_target sp)";
      force simp: plan_mssql_create_table_ddl_def ddl_requires_mapping_def Let_def res_simps
        split: if_splits)+

lemma plan_mssql_target_output_wf:
  assumes "plan_mssql_target_output api sp = Inr p"
  shows "plan_wf api p" and "pl_schema_plan p = sp"
proof -
  from assms obtain d l where d: "plan_mssql_create_table_ddl api sp = Inr d"
    and l: "plan_mssql_lifecycle sp (Some d) = Inr l"
    and p: "p = \<lparr>pl_schema_plan = sp, pl_ddl_plan = d, pl_lifecycle_plan = l\<rparr>"
    by (auto simp: plan_mssql_target_output_def res_simps)
  note D = ddl_plan_ok [OF d]
  show "pl_schema_plan p = sp"
    by (simp add: p)
  show "plan_wf api p"
    using D l
    by (cases "ts_load_mode (sp_target sp)")
       (auto simp: p plan_wf_def pl_target_def pl_schema_mappings_def pl_create_table_sql_def
         lifecycle_plan_defs Let_def res_simps split: if_splits)
qed

lemma plan_for_resolved_wf:
  assumes "plan_mssql_target_for_resolved_output api schema t options = Inr p"
  shows "plan_wf api p" and "pl_target p = target_summary t"
proof -
  from assms obtain sp where sp: "plan_mssql_output_schema api schema t options = Inr sp"
    and p: "plan_mssql_target_output api sp = Inr p"
    by (auto simp: plan_mssql_target_for_resolved_output_def res_simps)
  from p show "plan_wf api p"
    by (rule plan_mssql_target_output_wf)
  from sp have "sp_target sp = target_summary t"
    by (auto simp: plan_mssql_output_schema_def res_simps)
  with plan_mssql_target_output_wf(2) [OF p] show "pl_target p = target_summary t"
    by (simp add: pl_target_def)
qed

lemma plan_wf_guardrails:
  assumes "plan_wf api p"
  shows "TargetTableExistenceProbe \<in> set (lp_execution_guardrails (pl_lifecycle_plan p))"
    and "BulkWriterConstruction \<in> set (lp_execution_guardrails (pl_lifecycle_plan p))"
    and "CreateTableDdlExecution \<in> set (lp_execution_guardrails (pl_lifecycle_plan p)) \<longleftrightarrow>
           pl_load_mode p \<noteq> AppendExisting"
  using assms
  by (cases "pl_load_mode p";
      simp add: plan_wf_def Let_def lifecycle_of_def APPEND_EXISTING_EXECUTION_GUARDRAILS_def
        CREATE_AND_LOAD_EXECUTION_GUARDRAILS_def REPLACE_EXECUTION_GUARDRAILS_def)+

end
