(* ===== verification/DF_Progress.thy ===== *)
theory DF_Progress
  imports DF_Types
begin

section \<open>Progress events\<close>

text \<open>
  \<open>progress.rs\<close>: the events a host receives, the counters they carry and the reporter that
  forwards them. The callback of a reporter is arbitrary host code; what the crate does with
  it is call it with an event, so its state is the list of events it has received, and a
  reporter says whether there is a callback and which output position it adds.
\<close>

datatype ProgressOperation =
    RegisterDeltaSource | PreviewTable | WriteToMssql | DryRunToMssql | WriteAllToMssql
  | DryRunAllToMssql

datatype ProgressPhase =
    LoadingDeltaMetadata | ValidatingDeltaProtocol | PreparingDeltaProvider
  | RegisteringDeltaSource | PreparingPreview | CollectingPreview | FormattingPreview
  | PlanningOutput | SettingUpStream | MaterializingCache | RestoringCache | Connecting
  | PreparingTarget | Writing | Validating | SwappingTarget | CleaningUp | ReportingSources

datatype ProgressEventKind =
  Started | PhaseChanged | Progress | Completed | CompletedWithFailures | Failed | Cancelled

record ProgressOutputPosition =
  po_index :: u64
  po_count :: u64

record DeltaFileProgress =
  fp_handled :: u64
  fp_total :: u64
  fp_runtime_pruned :: u64
  fp_planning_pruned :: "u64 option"

record ProgressMetrics =
  pm_rows :: u64
  pm_batches :: u64

record ProgressSnapshot =
  ss_phase :: ProgressPhase
  ss_output_name :: "string option"
  ss_output_position :: "ProgressOutputPosition option"
  ss_file_progress :: "DeltaFileProgress option"
  ss_metrics :: "ProgressMetrics option"

datatype ProgressEvent =
    Started ProgressOperation
  | PhaseChanged ProgressSnapshot
  | Progress ProgressSnapshot
  | Completed
  | CompletedWithFailures
  | Failed
  | Cancelled

definition ProgressSnapshot_new :: "ProgressPhase \<Rightarrow> string option \<Rightarrow> ProgressSnapshot" where
  "ProgressSnapshot_new phase name =
     \<lparr>ss_phase = phase, ss_output_name = map_option sanitize_text_for_display name,
      ss_output_position = None, ss_file_progress = None, ss_metrics = None\<rparr>"

definition ProgressOutputPosition_new :: "u64 \<Rightarrow> u64 \<Rightarrow> ProgressOutputPosition option" where
  "ProgressOutputPosition_new index count =
     (if index = 0 \<or> index > count then None else Some \<lparr>po_index = index, po_count = count\<rparr>)"

definition DeltaFileProgress_new ::
    "u64 \<Rightarrow> u64 \<Rightarrow> u64 \<Rightarrow> u64 option \<Rightarrow> DeltaFileProgress option" where
  "DeltaFileProgress_new handled files_total runtime_pruned planning_pruned =
     (if files_total = 0 then None
      else let handled = (if handled > files_total then files_total else handled) in
        Some \<lparr>fp_handled = handled, fp_total = files_total,
              fp_runtime_pruned = (if runtime_pruned > handled then handled else runtime_pruned),
              fp_planning_pruned = planning_pruned\<rparr>)"

definition checked_add :: "u64 \<Rightarrow> u64 \<Rightarrow> u64 option" where
  "checked_add a b = (if unat a + unat b < 2 ^ 64 then Some (a + b) else None)"

fun try_fold :: "('a \<Rightarrow> 'b \<Rightarrow> 'a option) \<Rightarrow> 'a \<Rightarrow> 'b list \<Rightarrow> 'a option" where
  "try_fold f a [] = Some a"
| "try_fold f a (x # xs) = Option.bind (f a x) (\<lambda>b. try_fold f b xs)"

definition completed_and_pruned :: "DeltaDataFusionMetricsSnapshot list \<Rightarrow> u64 \<times> u64" where
  "completed_and_pruned stats =
     fold (\<lambda>s (completed, pruned).
             (saturating_add completed (ms_files_completed s),
              saturating_add pruned (ms_dynamic_partition_files_pruned s)))
       stats (0, 0)"

definition DeltaFileProgress_from_provider_stats ::
    "DeltaDataFusionMetricsSnapshot list \<Rightarrow> DeltaFileProgress option" where
  "DeltaFileProgress_from_provider_stats stats =
     (if stats = [] \<or> list_ex (\<lambda>s. ms_scan_metadata_exhausted s \<noteq> Some True) stats then None
      else Option.bind (try_fold (\<lambda>n s. checked_add n (ms_files_planned s)) 0 stats)
        (\<lambda>files_total.
           let completed = fst (completed_and_pruned stats);
               pruned = snd (completed_and_pruned stats);
               planning_pruned =
                 try_fold (\<lambda>n s. Option.bind (ms_files_filtered_during_planning s)
                                       (checked_add n)) 0 stats
           in DeltaFileProgress_new (saturating_add completed pruned) files_total pruned
                planning_pruned))"

definition phase_changed :: "ProgressPhase \<Rightarrow> string option \<Rightarrow> ProgressEvent" where
  "phase_changed phase name = ProgressEvent.PhaseChanged (ProgressSnapshot_new phase name)"

definition progress :: "ProgressPhase \<Rightarrow> string option \<Rightarrow> u64 \<Rightarrow> u64 \<Rightarrow> ProgressEvent" where
  "progress phase name rows batches =
     ProgressEvent.Progress
       ((ProgressSnapshot_new phase name)\<lparr>ss_metrics := Some \<lparr>pm_rows = rows, pm_batches = batches\<rparr>\<rparr>)"

definition file_progress_from_provider_stats ::
    "ProgressPhase \<Rightarrow> string option \<Rightarrow> DeltaDataFusionMetricsSnapshot list
      \<Rightarrow> ProgressEvent option" where
  "file_progress_from_provider_stats phase name stats =
     (let snapshot = (ProgressSnapshot_new phase name)
            \<lparr>ss_file_progress := DeltaFileProgress_from_provider_stats stats\<rparr>
      in map_option (\<lambda>_. ProgressEvent.Progress snapshot) (ss_file_progress snapshot))"

definition with_output_position :: "ProgressEvent \<Rightarrow> u64 \<Rightarrow> u64 \<Rightarrow> ProgressEvent option" where
  "with_output_position e index count =
     Option.bind (ProgressOutputPosition_new index count) (\<lambda>position.
       case e of
         ProgressEvent.PhaseChanged s \<Rightarrow>
           Some (ProgressEvent.PhaseChanged (s\<lparr>ss_output_position := Some position\<rparr>))
       | ProgressEvent.Progress s \<Rightarrow>
           Some (ProgressEvent.Progress (s\<lparr>ss_output_position := Some position\<rparr>))
       | _ \<Rightarrow> None)"

fun ProgressEvent_kind :: "ProgressEvent \<Rightarrow> ProgressEventKind" where
  "ProgressEvent_kind (ProgressEvent.Started _) = ProgressEventKind.Started"
| "ProgressEvent_kind (ProgressEvent.PhaseChanged _) = ProgressEventKind.PhaseChanged"
| "ProgressEvent_kind (ProgressEvent.Progress _) = ProgressEventKind.Progress"
| "ProgressEvent_kind ProgressEvent.Completed = ProgressEventKind.Completed"
| "ProgressEvent_kind ProgressEvent.CompletedWithFailures = ProgressEventKind.CompletedWithFailures"
| "ProgressEvent_kind ProgressEvent.Failed = ProgressEventKind.Failed"
| "ProgressEvent_kind ProgressEvent.Cancelled = ProgressEventKind.Cancelled"

fun event_snapshot :: "ProgressEvent \<Rightarrow> ProgressSnapshot option" where
  "event_snapshot (ProgressEvent.PhaseChanged s) = Some s"
| "event_snapshot (ProgressEvent.Progress s) = Some s"
| "event_snapshot _ = None"

definition event_phase :: "ProgressEvent \<Rightarrow> ProgressPhase option" where
  "event_phase e = map_option ss_phase (event_snapshot e)"

definition event_output_position :: "ProgressEvent \<Rightarrow> ProgressOutputPosition option" where
  "event_output_position e = Option.bind (event_snapshot e) ss_output_position"

definition event_file_progress :: "ProgressEvent \<Rightarrow> DeltaFileProgress option" where
  "event_file_progress e = Option.bind (event_snapshot e) ss_file_progress"

definition event_metrics :: "ProgressEvent \<Rightarrow> ProgressMetrics option" where
  "event_metrics e = Option.bind (event_snapshot e) ss_metrics"

subsection \<open>Reporters\<close>

record ProgressReporter =
  pr_callback :: bool
  pr_output_position :: "ProgressOutputPosition option"

type_synonym events = "ProgressEvent list"

definition ProgressReporter_new :: ProgressReporter where
  "ProgressReporter_new = \<lparr>pr_callback = True, pr_output_position = None\<rparr>"

definition ProgressReporter_default :: ProgressReporter where
  "ProgressReporter_default = \<lparr>pr_callback = False, pr_output_position = None\<rparr>"

definition emit :: "ProgressReporter \<Rightarrow> ProgressEvent \<Rightarrow> events \<Rightarrow> events" where
  "emit r event received =
     (if \<not> pr_callback r then received
      else case pr_output_position r of
             Some position \<Rightarrow>
               (case with_output_position event (po_index position) (po_count position) of
                  Some event' \<Rightarrow> received @ [event']
                | None \<Rightarrow> received)
           | None \<Rightarrow> received @ [event])"

definition for_output :: "ProgressReporter \<Rightarrow> u64 \<Rightarrow> u64 \<Rightarrow> ProgressReporter option" where
  "for_output r index count =
     map_option
       (\<lambda>position. r\<lparr>pr_output_position :=
            Some (case pr_output_position r of Some p \<Rightarrow> p | None \<Rightarrow> position)\<rparr>)
       (ProgressOutputPosition_new index count)"

subsection \<open>Bounds of the reported counters\<close>

definition position_wf :: "ProgressOutputPosition \<Rightarrow> bool" where
  "position_wf p \<longleftrightarrow> 1 \<le> unat (po_index p) \<and> unat (po_index p) \<le> unat (po_count p)"

definition file_progress_wf :: "DeltaFileProgress \<Rightarrow> bool" where
  "file_progress_wf f \<longleftrightarrow>
     0 < unat (fp_total f) \<and> unat (fp_runtime_pruned f) \<le> unat (fp_handled f) \<and>
     unat (fp_handled f) \<le> unat (fp_total f)"

definition event_wf :: "ProgressEvent \<Rightarrow> bool" where
  "event_wf e \<longleftrightarrow>
     pred_option position_wf (event_output_position e) \<and>
     pred_option file_progress_wf (event_file_progress e)"

definition reporter_wf :: "ProgressReporter \<Rightarrow> bool" where
  "reporter_wf r \<longleftrightarrow> pred_option position_wf (pr_output_position r)"

lemma position_new_iff:
  "ProgressOutputPosition_new i n = Some p \<longleftrightarrow>
     p = \<lparr>po_index = i, po_count = n\<rparr> \<and> position_wf p"
proof -
  have "i = 0 \<longleftrightarrow> unat i = 0" "n < i \<longleftrightarrow> unat n < unat i"
    by (simp_all add: unat_eq_0 word_less_nat_alt)
  then show ?thesis
    by (auto simp: ProgressOutputPosition_new_def position_wf_def)
qed

lemma file_progress_new_wf: "DeltaFileProgress_new h t r p = Some f \<Longrightarrow> file_progress_wf f"
  by (auto simp: DeltaFileProgress_new_def file_progress_wf_def Let_def word_less_nat_alt
      unat_gt_0 split: if_splits)

lemma file_progress_from_stats_cases:
  assumes "DeltaFileProgress_from_provider_stats stats = Some f"
  obtains h t r p where "DeltaFileProgress_new h t r p = Some f"
    and "try_fold (\<lambda>n s. checked_add n (ms_files_planned s)) 0 stats = Some t"
  using assms
  by (auto simp: DeltaFileProgress_from_provider_stats_def Let_def bind_eq_Some_conv
      split: if_splits)

lemma file_progress_from_stats_wf:
  "DeltaFileProgress_from_provider_stats stats = Some f \<Longrightarrow> file_progress_wf f"
  by (erule file_progress_from_stats_cases) (rule file_progress_new_wf)

text \<open>The total is exact: the sum of the planned files, never a wrapped one.\<close>

lemma try_fold_checked_add:
  "try_fold (\<lambda>n s. checked_add n (g s)) a xs = Some t \<Longrightarrow> unat t = unat a + (\<Sum>x\<leftarrow>xs. unat (g x))"
proof (induction xs arbitrary: a)
  case (Cons x xs)
  from Cons.prems have bound: "unat a + unat (g x) < 2 ^ 64"
    and rest: "try_fold (\<lambda>n s. checked_add n (g s)) (a + g x) xs = Some t"
    by (auto simp: bind_eq_Some_conv checked_add_def split: if_splits)
  have "unat (a + g x) = unat a + unat (g x)"
    using bound by (simp add: unat_word_ariths)
  with Cons.IH [OF rest] show ?case
    by simp
qed simp

lemma file_progress_total_exact:
  assumes "DeltaFileProgress_from_provider_stats stats = Some f"
  shows "unat (fp_total f) = (\<Sum>s\<leftarrow>stats. unat (ms_files_planned s))"
  using assms
proof (rule file_progress_from_stats_cases)
  fix h t r p
  assume "DeltaFileProgress_new h t r p = Some f"
    and "try_fold (\<lambda>n s. checked_add n (ms_files_planned s)) 0 stats = Some t"
  then show ?thesis
    using try_fold_checked_add [of "\<lambda>s. ms_files_planned s" 0 stats t]
    by (auto simp: DeltaFileProgress_new_def Let_def split: if_splits)
qed

lemma phase_changed_wf [simp]: "event_wf (phase_changed ph n)"
  by (simp add: event_wf_def phase_changed_def ProgressSnapshot_new_def
      event_output_position_def event_file_progress_def)

lemma progress_wf [simp]: "event_wf (progress ph n r b)"
  by (simp add: event_wf_def progress_def ProgressSnapshot_new_def
      event_output_position_def event_file_progress_def)

lemma with_output_position_wf:
  "with_output_position e i n = Some e' \<Longrightarrow> event_wf e \<Longrightarrow> event_wf e'"
  by (cases e)
     (auto simp: with_output_position_def bind_eq_Some_conv position_new_iff event_wf_def
       event_output_position_def event_file_progress_def)

text \<open>Everything a well-formed reporter forwards is well-formed and carries its position.\<close>

lemma emit_wf:
  assumes "event_wf e" and "list_all event_wf log"
  shows "list_all event_wf (emit r e log)"
  using assms
  by (auto simp: emit_def split: option.splits dest: with_output_position_wf)

lemma for_output_wf: "for_output r i n = Some r' \<Longrightarrow> reporter_wf r \<Longrightarrow> reporter_wf r'"
  by (auto simp: for_output_def position_new_iff reporter_wf_def split: option.splits)

lemma emit_scoped:
  assumes "reporter_wf r" and "pr_output_position r = Some p" and "pr_callback r"
  shows "emit r e log =
           (case event_snapshot e of
              None \<Rightarrow> log
            | Some _ \<Rightarrow> log @ [the (with_output_position e (po_index p) (po_count p))])"
proof -
  have "ProgressOutputPosition_new (po_index p) (po_count p) = Some p"
    using assms by (simp add: position_new_iff reporter_wf_def)
  with assms show ?thesis
    by (cases e) (simp_all add: emit_def with_output_position_def)
qed

end
