(* ===== verification/DF_Write_Report.thy ===== *)
theory DF_Write_Report
  imports DF_Planning
begin

section \<open>Write reports\<close>

text \<open>
  \<open>report/sql_server/write.rs\<close>: how the reports and failure contexts of one output are built
  from its plan and from the metrics of its execution, and the updates later phases apply to
  them.
\<close>

subsection \<open>Builders\<close>

definition field_report_from_mapping :: "SchemaMapping \<Rightarrow> MssqlOutputFieldReport" where
  "field_report_from_mapping m =
     \<lparr>ofr_index = usize_to_u64_saturating (af_index (sm_arrow m)),
      ofr_name = af_name (sm_arrow m), ofr_arrow_type = af_data_type (sm_arrow m),
      ofr_nullable = af_nullable (sm_arrow m)\<rparr>"

definition write_diagnostic_field :: "FieldRef \<Rightarrow> MssqlWriteDiagnosticField" where
  "write_diagnostic_field f =
     \<lparr>wdf_index = usize_to_u64_saturating (fr_index f), wdf_name = fr_name f\<rparr>"

definition write_diagnostic :: "Diagnostic \<Rightarrow> MssqlWriteDiagnostic" where
  "write_diagnostic d =
     \<lparr>wd_severity = dg_severity d, wd_code = dg_code d,
      wd_message = sanitize_text_for_display (dg_message d),
      wd_field = map_option write_diagnostic_field (dg_field d),
      wd_row = map_option usize_to_u64_saturating (dg_row d)\<rparr>"

definition shaping_completed :: "u64 \<Rightarrow> u64 \<Rightarrow> u64 \<Rightarrow> u64 \<Rightarrow> MssqlBatchShapingReport" where
  "shaping_completed ib ir ob orows =
     \<lparr>bs_status = PhaseStatus.Completed, bs_input_batches = ib, bs_input_rows = ir,
      bs_output_batches = ob, bs_output_rows = orows\<rparr>"

definition shaping_failed :: "u64 \<Rightarrow> u64 \<Rightarrow> u64 \<Rightarrow> u64 \<Rightarrow> MssqlBatchShapingReport" where
  "shaping_failed ib ir ob orows =
     \<lparr>bs_status = PhaseStatus.Failed, bs_input_batches = ib, bs_input_rows = ir,
      bs_output_batches = ob, bs_output_rows = orows\<rparr>"

definition shaping_not_started :: "ReportReasonCode \<Rightarrow> MssqlBatchShapingReport" where
  "shaping_not_started reason =
     \<lparr>bs_status = PhaseStatus.NotStarted reason, bs_input_batches = 0, bs_input_rows = 0,
      bs_output_batches = 0, bs_output_rows = 0\<rparr>"

definition shaping_skipped :: "ReportReasonCode \<Rightarrow> MssqlBatchShapingReport" where
  "shaping_skipped reason =
     \<lparr>bs_status = PhaseStatus.Skipped reason, bs_input_batches = 0, bs_input_rows = 0,
      bs_output_batches = 0, bs_output_rows = 0\<rparr>"

definition metrics_new ::
    "RowCount \<Rightarrow> MssqlBatchShapingReport \<Rightarrow> u64 \<Rightarrow> u64 \<Rightarrow> u64 \<Rightarrow> bool \<Rightarrow> MssqlTargetCleanupStatus
      \<Rightarrow> MssqlWriteReportMetrics" where
  "metrics_new rows shaping rows_written batches_written elapsed partial cleanup =
     \<lparr>wm_output_row_count = rows, wm_target_row_count_before_write = RowCount.Unavailable,
      wm_target_row_count = RowCount.Unavailable,
      wm_validation_status = ValidationStatus.Skipped ReportReasonCode.NotExecuted,
      wm_batch_shaping = shaping, wm_phase_timings = [], wm_rows_written = rows_written,
      wm_batches_written = batches_written, wm_elapsed_ms = elapsed,
      wm_partial_write_possible = partial, wm_cleanup = cleanup\<rparr>"

definition metrics_with_phase_timings ::
    "PhaseTimingReport list \<Rightarrow> MssqlWriteReportMetrics \<Rightarrow> MssqlWriteReportMetrics" where
  "metrics_with_phase_timings ts m = m\<lparr>wm_phase_timings := ts\<rparr>"

definition metrics_with_target_validation ::
    "RowCount \<Rightarrow> ValidationStatus \<Rightarrow> MssqlWriteReportMetrics \<Rightarrow> MssqlWriteReportMetrics" where
  "metrics_with_target_validation rows vs m =
     m\<lparr>wm_target_row_count := rows, wm_validation_status := vs\<rparr>"

definition metrics_with_target_delta_validation ::
    "RowCount \<Rightarrow> RowCount \<Rightarrow> ValidationStatus \<Rightarrow> MssqlWriteReportMetrics
      \<Rightarrow> MssqlWriteReportMetrics" where
  "metrics_with_target_delta_validation prior after vs m =
     m\<lparr>wm_target_row_count_before_write := prior, wm_target_row_count := after,
       wm_validation_status := vs\<rparr>"

definition report_from_plan_with_metrics ::
    "MssqlTargetOutputPlan \<Rightarrow> MssqlWriteReportMetrics \<Rightarrow> MssqlWriteReport" where
  "report_from_plan_with_metrics p m =
     \<lparr>wr_output_name = pl_output_name p, wr_target_table = pl_target_table p,
      wr_load_mode = pl_load_mode p, wr_connection_source = ts_connection_source (pl_target p),
      wr_connection = ts_connection (pl_target p),
      wr_output_schema = map field_report_from_mapping (pl_schema_mappings p),
      wr_output_row_count = wm_output_row_count m,
      wr_target_row_count_before_write = wm_target_row_count_before_write m,
      wr_target_row_count = wm_target_row_count m,
      wr_validation_status = wm_validation_status m, wr_batch_shaping = wm_batch_shaping m,
      wr_phase_timings = wm_phase_timings m, wr_execution_profile = None,
      wr_stats = \<lparr>st_output_name = pl_output_name p, st_rows_written = wm_rows_written m,
                  st_batches_written = wm_batches_written m, st_elapsed_ms = wm_elapsed_ms m\<rparr>,
      wr_partial_write_possible = wm_partial_write_possible m, wr_cleanup = wm_cleanup m\<rparr>"

definition report_from_plan ::
    "MssqlTargetOutputPlan \<Rightarrow> u64 \<Rightarrow> u64 \<Rightarrow> u64 \<Rightarrow> bool \<Rightarrow> MssqlTargetCleanupStatus
      \<Rightarrow> MssqlWriteReport" where
  "report_from_plan p rows batches elapsed partial cleanup =
     report_from_plan_with_metrics p
       (metrics_new (RowCount.Exact rows) (shaping_completed batches rows batches rows)
          rows batches elapsed partial cleanup)"

definition context_from_plan_with_metrics ::
    "MssqlTargetOutputPlan \<Rightarrow> MssqlWritePhase \<Rightarrow> MssqlWriteReportMetrics
      \<Rightarrow> MssqlWriteFailureContext" where
  "context_from_plan_with_metrics p phase m =
     \<lparr>fc_phase = phase, fc_report = report_from_plan_with_metrics p m, fc_diagnostics = [],
      fc_cleanup_error = None\<rparr>"

definition context_from_plan ::
    "MssqlTargetOutputPlan \<Rightarrow> MssqlWritePhase \<Rightarrow> u64 \<Rightarrow> u64 \<Rightarrow> u64 \<Rightarrow> bool
      \<Rightarrow> MssqlTargetCleanupStatus \<Rightarrow> MssqlWriteFailureContext" where
  "context_from_plan p phase rows batches elapsed partial cleanup =
     context_from_plan_with_metrics p phase
       (metrics_new (RowCount.Partial rows) (shaping_failed batches rows batches rows)
          rows batches elapsed partial cleanup)"

definition batch_validation_report ::
    "MssqlTargetOutputPlan \<Rightarrow> MssqlOutputBatchValidationReport" where
  "batch_validation_report p =
     \<lparr>bv_output_name = pl_output_name p, bv_target_table = pl_target_table p,
      bv_load_mode = pl_load_mode p, bv_connection_source = ts_connection_source (pl_target p),
      bv_connection = ts_connection (pl_target p)\<rparr>"

subsection \<open>Updates\<close>

fun replace_phase_timing ::
    "PhaseTimingReport list \<Rightarrow> PhaseTimingReport \<Rightarrow> PhaseTimingReport list" where
  "replace_phase_timing [] t = [t]"
| "replace_phase_timing (x # xs) t =
     (if phase_name x = phase_name t then t # xs else x # replace_phase_timing xs t)"

definition report_with_phase_timings ::
    "PhaseTimingReport list \<Rightarrow> MssqlWriteReport \<Rightarrow> MssqlWriteReport" where
  "report_with_phase_timings ts r = r\<lparr>wr_phase_timings := ts @ wr_phase_timings r\<rparr>"

definition report_with_appended_phase_timings ::
    "PhaseTimingReport list \<Rightarrow> MssqlWriteReport \<Rightarrow> MssqlWriteReport" where
  "report_with_appended_phase_timings ts r = r\<lparr>wr_phase_timings := wr_phase_timings r @ ts\<rparr>"

definition report_with_execution_profile ::
    "QueryExecutionProfile option \<Rightarrow> MssqlWriteReport \<Rightarrow> MssqlWriteReport" where
  "report_with_execution_profile p r = r\<lparr>wr_execution_profile := p\<rparr>"

definition report_with_target_validation ::
    "RowCount \<Rightarrow> ValidationStatus \<Rightarrow> PhaseTimingReport \<Rightarrow> MssqlWriteReport \<Rightarrow> MssqlWriteReport" where
  "report_with_target_validation rows vs t r =
     r\<lparr>wr_target_row_count := rows, wr_validation_status := vs,
       wr_phase_timings := replace_phase_timing (wr_phase_timings r) t\<rparr>"

definition report_with_target_delta_validation ::
    "RowCount \<Rightarrow> RowCount \<Rightarrow> ValidationStatus \<Rightarrow> PhaseTimingReport \<Rightarrow> MssqlWriteReport
      \<Rightarrow> MssqlWriteReport" where
  "report_with_target_delta_validation prior after vs t r =
     r\<lparr>wr_target_row_count_before_write := prior, wr_target_row_count := after,
       wr_validation_status := vs,
       wr_phase_timings := replace_phase_timing (wr_phase_timings r) t\<rparr>"

definition report_with_cleanup ::
    "MssqlTargetCleanupStatus \<Rightarrow> MssqlWriteReport \<Rightarrow> MssqlWriteReport" where
  "report_with_cleanup c r = r\<lparr>wr_cleanup := c\<rparr>"

definition context_with_diagnostics ::
    "MssqlWriteDiagnostic list \<Rightarrow> MssqlWriteFailureContext \<Rightarrow> MssqlWriteFailureContext" where
  "context_with_diagnostics ds c = c\<lparr>fc_diagnostics := ds\<rparr>"

definition context_with_cleanup_error ::
    "string \<Rightarrow> MssqlWriteFailureContext \<Rightarrow> MssqlWriteFailureContext" where
  "context_with_cleanup_error e c =
     c\<lparr>fc_cleanup_error := Some (sanitize_text_for_display e)\<rparr>"

definition context_with_phase_timings ::
    "PhaseTimingReport list \<Rightarrow> MssqlWriteFailureContext \<Rightarrow> MssqlWriteFailureContext" where
  "context_with_phase_timings ts c =
     c\<lparr>fc_report := report_with_phase_timings ts (fc_report c)\<rparr>"

definition context_with_appended_phase_timings ::
    "PhaseTimingReport list \<Rightarrow> MssqlWriteFailureContext \<Rightarrow> MssqlWriteFailureContext" where
  "context_with_appended_phase_timings ts c =
     c\<lparr>fc_report := report_with_appended_phase_timings ts (fc_report c)\<rparr>"

definition context_with_execution_profile ::
    "QueryExecutionProfile option \<Rightarrow> MssqlWriteFailureContext \<Rightarrow> MssqlWriteFailureContext" where
  "context_with_execution_profile p c =
     c\<lparr>fc_report := report_with_execution_profile p (fc_report c)\<rparr>"

text \<open>The phase-aware context of an error, where it has one (\<open>failure_context\<close> of the workflow).\<close>

fun failure_context :: "DeltaFunnelError \<Rightarrow> MssqlWriteFailureContext option" where
  "failure_context (ErrMssqlWritePhase c _) = Some c"
| "failure_context (MssqlQueryPhase c _) = Some c"
| "failure_context (MssqlBatchSchemaValidation c _) = Some c"
| "failure_context _ = None"

lemmas metrics_defs [report_simps] =
  metrics_new_def metrics_with_phase_timings_def metrics_with_target_validation_def
  metrics_with_target_delta_validation_def

lemmas report_defs [report_simps] =
  report_from_plan_with_metrics_def report_from_plan_def context_from_plan_with_metrics_def
  context_from_plan_def

lemmas report_update_defs [report_simps] =
  report_with_phase_timings_def report_with_appended_phase_timings_def
  report_with_execution_profile_def report_with_target_validation_def
  report_with_target_delta_validation_def report_with_cleanup_def
  context_with_diagnostics_def context_with_cleanup_error_def context_with_phase_timings_def
  context_with_appended_phase_timings_def context_with_execution_profile_def

subsection \<open>Replacing a phase timing\<close>

text \<open>
  The phase of a replaced timing occurs once per report, at its old position: a list with one
  entry per phase keeps that shape, and looking a phase up gives the new timing.
\<close>

lemma replace_phase_timing_names:
  "map phase_name (replace_phase_timing ts t) =
     (if phase_name t \<in> set (map phase_name ts) then map phase_name ts
      else map phase_name ts @ [phase_name t])"
  by (induction ts) auto

lemma replace_phase_timing_distinct:
  "distinct (map phase_name ts) \<Longrightarrow> distinct (map phase_name (replace_phase_timing ts t))"
  by (simp add: replace_phase_timing_names)

definition timing_of :: "PhaseTimingReport list \<Rightarrow> string \<Rightarrow> PhaseTimingReport option" where
  "timing_of ts n = List.find (\<lambda>t. phase_name t = n) ts"

lemma timing_of_append:
  "timing_of (xs @ ys) n = (case timing_of xs n of Some t \<Rightarrow> Some t | None \<Rightarrow> timing_of ys n)"
  by (induction xs) (simp_all add: timing_of_def)

lemma timing_of_simps [simp]:
  "timing_of [] n = None"
  "timing_of (t # ts) n = (if phase_name t = n then Some t else timing_of ts n)"
  by (simp_all add: timing_of_def)

lemma timing_of_replace:
  "timing_of (replace_phase_timing ts t) n =
     (if n = phase_name t then Some t else timing_of ts n)"
  by (induction ts) (auto simp: timing_of_def)

lemma replace_phase_timing_wf:
  "list_all timing_wf ts \<Longrightarrow> timing_wf t \<Longrightarrow> list_all timing_wf (replace_phase_timing ts t)"
  by (induction ts) auto

end
