(* ===== verification/DF_Client.thy ===== *)
theory DF_Client
  imports DF_Write_Report
begin

section \<open>The connected SQL Server client\<close>

text \<open>
  The boundary to \<open>arrow_sql_server\<close>'s connected client, as the execution code uses it: the
  operations the source calls on it are the fields of the parameter \<open>sql_server\<close>, each a
  function of the server's state. A connection pairs that state with the requests sent so far,
  in order, so that what an execution did to the server can be stated as a property of the
  requests.

  \<open>lifecycle_client\<close> is the trait \<open>MssqlTargetLifecycleClient\<close>; the locale below states what
  its users rely on, and the connected client is an instance.
\<close>

datatype MssqlWriteBackend = Auto | BaselineTokenRow | DirectFramedBulk | DirectRawBulk

datatype sql_request =
    ConnectRequest string
  | TableExistsRequest TableName
  | StatementRequest string
  | TableLockRequest TableName bool
  | RowCountRequest TableName
  | OpenWriterRequest TableName PlannedSchema MssqlWriteBackend
  | BatchRequest RecordBatch
  | FinishRequest

record 's sql_server =
  srv_connect :: "string \<Rightarrow> ('s, arrow_error, unit) io"
  srv_table_exists :: "TableName \<Rightarrow> ('s, arrow_error, bool) io"
  srv_execute_statement :: "string \<Rightarrow> ('s, arrow_error, unit) io"
  srv_set_bulk_load_table_lock :: "TableName \<Rightarrow> bool \<Rightarrow> ('s, arrow_error, unit) io"
  srv_target_row_count :: "TableName \<Rightarrow> ('s, arrow_error, u64) io"
  srv_bulk_writer :: "TableName \<Rightarrow> PlannedSchema \<Rightarrow> MssqlWriteBackend \<Rightarrow> ('s, arrow_error, unit) io"
  srv_write_batch :: "RecordBatch \<Rightarrow> ('s, arrow_error, unit) io"
  srv_finish :: "('s, arrow_error, unit) io"

record 's conn =
  cn_server :: 's
  cn_sent :: "sql_request list"

definition send ::
    "sql_request \<Rightarrow> ('s, arrow_error, 'a) io \<Rightarrow> ('s conn, arrow_error, 'a) io" where
  "send req act c =
     (case act (cn_server c) of
        (r, s) \<Rightarrow> (r, \<lparr>cn_server = s, cn_sent = cn_sent c @ [req]\<rparr>))"

lemma send_sent: "send req act c = (r, c') \<Longrightarrow> cn_sent c' = cn_sent c @ [req]"
  by (auto simp: send_def split: prod.splits)

definition client_connect :: "'s sql_server \<Rightarrow> string \<Rightarrow> ('s conn, arrow_error, unit) io" where
  "client_connect srv ado = send (ConnectRequest ado) (srv_connect srv ado)"

definition client_table_exists ::
    "'s sql_server \<Rightarrow> TableName \<Rightarrow> ('s conn, arrow_error, bool) io" where
  "client_table_exists srv t = send (TableExistsRequest t) (srv_table_exists srv t)"

definition client_execute_statement ::
    "'s sql_server \<Rightarrow> string \<Rightarrow> ('s conn, arrow_error, unit) io" where
  "client_execute_statement srv sql = send (StatementRequest sql) (srv_execute_statement srv sql)"

definition client_set_bulk_load_table_lock ::
    "'s sql_server \<Rightarrow> TableName \<Rightarrow> bool \<Rightarrow> ('s conn, arrow_error, unit) io" where
  "client_set_bulk_load_table_lock srv t on =
     send (TableLockRequest t on) (srv_set_bulk_load_table_lock srv t on)"

definition client_target_row_count ::
    "'s sql_server \<Rightarrow> TableName \<Rightarrow> ('s conn, arrow_error, u64) io" where
  "client_target_row_count srv t = send (RowCountRequest t) (srv_target_row_count srv t)"

definition client_bulk_writer ::
    "'s sql_server \<Rightarrow> TableName \<Rightarrow> PlannedSchema \<Rightarrow> MssqlWriteBackend
      \<Rightarrow> ('s conn, arrow_error, unit) io" where
  "client_bulk_writer srv t ps b = send (OpenWriterRequest t ps b) (srv_bulk_writer srv t ps b)"

definition client_write_batch ::
    "'s sql_server \<Rightarrow> RecordBatch \<Rightarrow> ('s conn, arrow_error, unit) io" where
  "client_write_batch srv b = send (BatchRequest b) (srv_write_batch srv b)"

definition client_finish :: "'s sql_server \<Rightarrow> ('s conn, arrow_error, unit) io" where
  "client_finish srv = send FinishRequest (srv_finish srv)"

subsection \<open>Requests of a computation\<close>

text \<open>
  \<open>emits sent m Q\<close>: whatever state the computation \<open>m\<close> starts from, the requests it adds to
  the log and its result satisfy \<open>Q\<close>. The rules compute \<open>Q\<close> backwards through a computation.
\<close>

definition emits :: "('s \<Rightarrow> 'q list) \<Rightarrow> ('s, 'e, 'a) io \<Rightarrow> ('e + 'a \<Rightarrow> 'q list \<Rightarrow> bool) \<Rightarrow> bool" where
  "emits sent m Q \<longleftrightarrow>
     (\<forall>s r s'. m s = (r, s') \<longrightarrow> (\<exists>qs. sent s' = sent s @ qs \<and> Q r qs))"

lemma emitsD: "emits sent m Q \<Longrightarrow> m s = (r, s') \<Longrightarrow> \<exists>qs. sent s' = sent s @ qs \<and> Q r qs"
  by (auto simp: emits_def)

lemma emits_run:
  "emits sent m Q \<Longrightarrow> \<exists>qs. sent (snd (m s)) = sent s @ qs \<and> Q (fst (m s)) qs"
  by (rule emitsD) simp_all

lemma emits_mono: "emits sent m Q \<Longrightarrow> (\<And>r qs. Q r qs \<Longrightarrow> Q' r qs) \<Longrightarrow> emits sent m Q'"
  by (fastforce simp: emits_def)

lemma emits_lift: "Q r [] \<Longrightarrow> emits sent (io_lift r) Q"
  by (simp add: emits_def)

lemma emits_map_err: "emits sent m (\<lambda>r. Q (map_err g r)) \<Longrightarrow> emits sent (io_map_err g m) Q"
  by (fastforce simp: emits_def io_map_err_def split: prod.splits)

lemma emits_bind:
  assumes "emits sent m (\<lambda>r qs. case r of
              Inl e \<Rightarrow> Q (Inl e) qs
            | Inr a \<Rightarrow> emits sent (f a) (\<lambda>r' qs'. Q r' (qs @ qs')))"
  shows "emits sent (io_bind m f) Q"
  unfolding emits_def
proof (intro allI impI)
  fix s r s'
  assume run: "io_bind m f s = (r, s')"
  obtain q u where m: "m s = (q, u)"
    by (metis surj_pair)
  from emitsD [OF assms m] obtain qs where qs: "sent u = sent s @ qs"
    and Q: "case q of Inl e \<Rightarrow> Q (Inl e) qs
              | Inr a \<Rightarrow> emits sent (f a) (\<lambda>r' qs'. Q r' (qs @ qs'))"
    by blast
  show "\<exists>qs. sent s' = sent s @ qs \<and> Q r qs"
  proof (cases q)
    case (Inl e)
    with run m qs Q show ?thesis
      by (auto simp: io_bind_def)
  next
    case (Inr a)
    with run m have "f a u = (r, s')"
      by (simp add: io_bind_def)
    with Inr Q emitsD [of sent "f a" "\<lambda>r' qs'. Q r' (qs @ qs')" u r s'] obtain qs'
      where "sent s' = sent u @ qs'" "Q r (qs @ qs')"
      by auto
    with qs show ?thesis
      by (intro exI [of _ "qs @ qs'"]) simp
  qed
qed

lemma emits_bind_lift:
  assumes "\<And>e. r = Inl e \<Longrightarrow> Q (Inl e) []" and "\<And>a. r = Inr a \<Longrightarrow> emits sent (f a) Q"
  shows "emits sent (io_bind (io_lift r) f) Q"
  using assms by (intro emits_bind emits_lift) (cases r; simp)

lemma emits_if:
  "(b \<Longrightarrow> emits sent m Q) \<Longrightarrow> (\<not> b \<Longrightarrow> emits sent n Q) \<Longrightarrow> emits sent (if b then m else n) Q"
  by simp

lemma emits_send: "(\<And>r. Q r [req]) \<Longrightarrow> emits cn_sent (send req act) Q"
  by (auto simp: emits_def dest: send_sent)

text \<open>The SQL statements among the requests.\<close>

fun statements :: "sql_request list \<Rightarrow> string list" where
  "statements [] = []"
| "statements (StatementRequest sql # qs) = sql # statements qs"
| "statements (_ # qs) = statements qs"

lemma statements_append [simp]: "statements (xs @ ys) = statements xs @ statements ys"
  by (induction xs rule: statements.induct) simp_all

lemma statements_probes [simp]: "statements (map TableExistsRequest ts) = []"
  by (induction ts) simp_all

subsection \<open>The lifecycle client trait\<close>

record 's lifecycle_client =
  lc_table_exists :: "TableName \<Rightarrow> ('s, arrow_error, bool) io"
  lc_execute_statement :: "string \<Rightarrow> ('s, arrow_error, unit) io"

definition connected_lifecycle_client :: "'s sql_server \<Rightarrow> 's conn lifecycle_client" where
  "connected_lifecycle_client srv =
     \<lparr>lc_table_exists = client_table_exists srv,
      lc_execute_statement = client_execute_statement srv\<rparr>"

text \<open>
  What the lifecycle code relies on: each call sends exactly its own request.
\<close>

locale lifecycle_requests =
  fixes client :: "'s lifecycle_client"
    and sent :: "'s \<Rightarrow> sql_request list"
  assumes table_exists_sent:
      "lc_table_exists client t s = (r, s') \<Longrightarrow> sent s' = sent s @ [TableExistsRequest t]"
    and execute_statement_sent:
      "lc_execute_statement client sql s = (q, s') \<Longrightarrow> sent s' = sent s @ [StatementRequest sql]"
begin

lemma emits_table_exists:
  "(\<And>r. Q r [TableExistsRequest t]) \<Longrightarrow> emits sent (lc_table_exists client t) Q"
  by (auto simp: emits_def dest: table_exists_sent)

lemma emits_execute_statement:
  "(\<And>r. Q r [StatementRequest sql]) \<Longrightarrow> emits sent (lc_execute_statement client sql) Q"
  by (auto simp: emits_def dest: execute_statement_sent)

lemma emits_bind_table_exists:
  assumes "\<And>e. Q (Inl (g e)) [TableExistsRequest t]"
    and "\<And>b. emits sent (f b) (\<lambda>r qs. Q r (TableExistsRequest t # qs))"
  shows "emits sent (io_bind (io_map_err g (lc_table_exists client t)) f) Q"
  using assms
  by (intro emits_bind emits_map_err emits_table_exists) (auto simp: res_simps split: sum.split)

lemma emits_bind_execute_statement:
  assumes "\<And>e. Q (Inl (g e)) [StatementRequest sql]"
    and "emits sent (f ()) (\<lambda>r qs. Q r (StatementRequest sql # qs))"
  shows "emits sent (io_bind (io_map_err g (lc_execute_statement client sql)) f) Q"
  using assms
  by (intro emits_bind emits_map_err emits_execute_statement) (auto simp: res_simps split: sum.split)

lemmas emits_rules =
  emits_bind_lift emits_bind_table_exists emits_bind_execute_statement emits_if emits_lift

end

interpretation connected: lifecycle_requests "connected_lifecycle_client srv" cn_sent
  for srv :: "'s sql_server"
  by unfold_locales
     (auto simp: connected_lifecycle_client_def client_table_exists_def
       client_execute_statement_def dest: send_sent)

end
