(* ===== verification/DF_Lifecycle.thy ===== *)
theory DF_Lifecycle
  imports DF_Client
begin

unbundle bit_operations_syntax

section \<open>Target lifecycle execution\<close>

text \<open>
  \<open>sql_server/execution/lifecycle.rs\<close>: preparing the target of one output before the writer
  is built, dropping what was created when a later phase fails, and swapping a replace staging
  table into place. Everything here talks to the server through a \<open>lifecycle_client\<close>.
\<close>

subsection \<open>Prepared targets\<close>

datatype MssqlPreparedTargetAction = VerifiedExisting | CreatedTable | CreatedStagingTable

fun action_debug :: "MssqlPreparedTargetAction \<Rightarrow> string" where
  "action_debug VerifiedExisting = ''VerifiedExisting''"
| "action_debug CreatedTable = ''CreatedTable''"
| "action_debug CreatedStagingTable = ''CreatedStagingTable''"

fun action_cleanup_status :: "MssqlPreparedTargetAction \<Rightarrow> MssqlTargetCleanupStatus" where
  "action_cleanup_status VerifiedExisting = NotApplicable"
| "action_cleanup_status CreatedTable = NotAttempted"
| "action_cleanup_status CreatedStagingTable = NotAttempted"

record MssqlPreparedTargetReport =
  ptr_output_name :: string
  ptr_target_table :: MssqlTargetTable
  ptr_load_mode :: LoadMode
  ptr_connection_source :: MssqlConnectionSource
  ptr_connection :: MssqlConnectionSummary
  ptr_expected_target_state :: MssqlTargetTableState
  ptr_action :: MssqlPreparedTargetAction
  ptr_cleanup :: MssqlTargetCleanupStatus

record MssqlPreparedTarget =
  pt_table_name :: TableName
  pt_report :: MssqlPreparedTargetReport

definition ensure_action_matches_load_mode ::
    "MssqlTargetOutputPlan \<Rightarrow> MssqlPreparedTargetAction \<Rightarrow> DeltaFunnelError + unit" where
  "ensure_action_matches_load_mode p action =
     (case (pl_load_mode p, action) of
        (AppendExisting, VerifiedExisting) \<Rightarrow> Inr ()
      | (CreateAndLoad, CreatedTable) \<Rightarrow> Inr ()
      | (Replace, CreatedStagingTable) \<Rightarrow> Inr ()
      | _ \<Rightarrow> Inl (MssqlLifecyclePlanning (pl_output_name p)
                     ''prepared target action does not match load mode''))"

definition prepared_report_from_plan ::
    "MssqlTargetOutputPlan \<Rightarrow> MssqlPreparedTargetAction
      \<Rightarrow> DeltaFunnelError + MssqlPreparedTargetReport" where
  "prepared_report_from_plan p action =
     res_bind (ensure_action_matches_load_mode p action) (\<lambda>_.
       Inr \<lparr>ptr_output_name = pl_output_name p, ptr_target_table = pl_target_table p,
            ptr_load_mode = pl_load_mode p,
            ptr_connection_source = ts_connection_source (pl_target p),
            ptr_connection = ts_connection (pl_target p),
            ptr_expected_target_state = lp_expected_target_state (pl_lifecycle_plan p),
            ptr_action = action, ptr_cleanup = action_cleanup_status action\<rparr>)"

definition prepared_from_table_name ::
    "MssqlTargetOutputPlan \<Rightarrow> TableName \<Rightarrow> MssqlPreparedTargetAction
      \<Rightarrow> DeltaFunnelError + MssqlPreparedTarget" where
  "prepared_from_table_name p table_name action =
     res_bind (prepared_report_from_plan p action) (\<lambda>report.
       Inr \<lparr>pt_table_name = table_name, pt_report = report\<rparr>)"

definition prepared_from_plan ::
    "arrow_api \<Rightarrow> MssqlTargetOutputPlan \<Rightarrow> MssqlPreparedTargetAction
      \<Rightarrow> DeltaFunnelError + MssqlPreparedTarget" where
  "prepared_from_plan api p action =
     res_bind (table_name_from_target api (pl_output_name p) (pl_target_table p)) (\<lambda>table_name.
       prepared_from_table_name p table_name action)"

definition prepared_target_matches_output_plan ::
    "MssqlTargetOutputPlan \<Rightarrow> MssqlPreparedTarget \<Rightarrow> bool" where
  "prepared_target_matches_output_plan p t \<longleftrightarrow>
     (let report = pt_report t in
      ptr_output_name report = pl_output_name p \<and>
      ptr_target_table report = pl_target_table p \<and>
      ptr_load_mode report = pl_load_mode p \<and>
      ptr_connection_source report = ts_connection_source (pl_target p) \<and>
      ptr_connection report = ts_connection (pl_target p) \<and>
      ptr_expected_target_state report = lp_expected_target_state (pl_lifecycle_plan p))"

subsection \<open>Errors and guards\<close>

definition cleanup_before_target_creation ::
    "MssqlTargetOutputPlan \<Rightarrow> MssqlTargetCleanupStatus" where
  "cleanup_before_target_creation p =
     (case pl_load_mode p of
        AppendExisting \<Rightarrow> NotApplicable
      | CreateAndLoad \<Rightarrow> NotAttempted
      | Replace \<Rightarrow> NotAttempted)"

definition prepare_target_lifecycle_error ::
    "MssqlTargetOutputPlan \<Rightarrow> string \<Rightarrow> DeltaFunnelError" where
  "prepare_target_lifecycle_error p msg =
     ErrMssqlWritePhase
       (context_from_plan p PrepareTargetLifecycle 0 0 0 False (cleanup_before_target_creation p))
       msg"

definition cleanup_error :: "MssqlTargetOutputPlan \<Rightarrow> string \<Rightarrow> DeltaFunnelError" where
  "cleanup_error p msg =
     ErrMssqlWritePhase
       (context_from_plan p Cleanup 0 0 0 False MssqlTargetCleanupStatus.Failed) msg"

definition swap_target_error ::
    "MssqlTargetOutputPlan \<Rightarrow> string \<Rightarrow> bool \<Rightarrow> DeltaFunnelError" where
  "swap_target_error p msg partial_write_possible =
     ErrMssqlWritePhase
       (context_from_plan p SwapTarget 0 0 0 partial_write_possible NotAttempted) msg"

definition ensure_append_existing_output :: "MssqlTargetOutputPlan \<Rightarrow> DeltaFunnelError + unit" where
  "ensure_append_existing_output p =
     ensure (pl_load_mode p = AppendExisting)
       (MssqlLifecyclePlanning (pl_output_name p)
          ''append-existing target preparation requires append-existing load mode'')"

definition ensure_create_and_load_output :: "MssqlTargetOutputPlan \<Rightarrow> DeltaFunnelError + unit" where
  "ensure_create_and_load_output p =
     ensure (pl_load_mode p = CreateAndLoad)
       (MssqlLifecyclePlanning (pl_output_name p)
          ''create-and-load target preparation requires create-and-load load mode'')"

definition ensure_replace_output :: "MssqlTargetOutputPlan \<Rightarrow> DeltaFunnelError + unit" where
  "ensure_replace_output p =
     ensure (pl_load_mode p = Replace)
       (MssqlLifecyclePlanning (pl_output_name p)
          ''replace target preparation requires replace load mode'')"

fun guardrail_debug :: "MssqlLifecycleExecutionGuardrail \<Rightarrow> string" where
  "guardrail_debug DeltaSourceScanExecution = ''DeltaSourceScanExecution''"
| "guardrail_debug DataFusionPhysicalPlanExecution = ''DataFusionPhysicalPlanExecution''"
| "guardrail_debug SqlServerConnectionAttempt = ''SqlServerConnectionAttempt''"
| "guardrail_debug TargetTableExistenceProbe = ''TargetTableExistenceProbe''"
| "guardrail_debug CreateTableDdlExecution = ''CreateTableDdlExecution''"
| "guardrail_debug BulkWriterConstruction = ''BulkWriterConstruction''"
| "guardrail_debug RecordBatchHandoffPolling = ''RecordBatchHandoffPolling''"

definition ensure_lifecycle_guardrail ::
    "MssqlTargetOutputPlan \<Rightarrow> MssqlLifecycleExecutionGuardrail \<Rightarrow> DeltaFunnelError + unit" where
  "ensure_lifecycle_guardrail p g =
     ensure (g \<in> set (lp_execution_guardrails (pl_lifecycle_plan p)))
       (MssqlLifecyclePlanning (pl_output_name p)
          (''target lifecycle plan does not allow '' @ guardrail_debug g))"

definition ensure_prepared_target_matches_output_plan ::
    "MssqlTargetOutputPlan \<Rightarrow> MssqlPreparedTarget \<Rightarrow> DeltaFunnelError + unit" where
  "ensure_prepared_target_matches_output_plan p t =
     ensure (prepared_target_matches_output_plan p t)
       (cleanup_error p ''prepared target does not match output plan'')"

subsection \<open>Auxiliary table names\<close>

definition MAX_IDENTIFIER_CHARS :: nat where
  "MAX_IDENTIFIER_CHARS = 128"

definition auxiliary_table :: "string \<Rightarrow> string \<Rightarrow> string" where
  "auxiliary_table table suffix = take (MAX_IDENTIFIER_CHARS - length suffix) table @ suffix"

definition replace_auxiliary_table_name ::
    "arrow_api \<Rightarrow> MssqlTargetOutputPlan \<Rightarrow> string \<Rightarrow> DeltaFunnelError + TableName" where
  "replace_auxiliary_table_name api p suffix =
     table_name_from_parts api (pl_output_name p) (tt_schema (pl_target_table p))
       (auxiliary_table (tt_table (pl_target_table p)) suffix)"

definition replace_staging_table_name ::
    "arrow_api \<Rightarrow> MssqlTargetOutputPlan \<Rightarrow> nat \<Rightarrow> DeltaFunnelError + TableName" where
  "replace_staging_table_name api p attempt =
     replace_auxiliary_table_name api p (''__df_replace_'' @ show_nat attempt)"

definition replace_backup_table_name ::
    "arrow_api \<Rightarrow> MssqlTargetOutputPlan \<Rightarrow> nat \<Rightarrow> DeltaFunnelError + TableName" where
  "replace_backup_table_name api p attempt =
     replace_auxiliary_table_name api p (''__df_backup_'' @ show_nat attempt)"

text \<open>
  The probe loop both name searches run: the name of each attempt is checked, and the first
  name the server does not know is taken.
\<close>

fun first_available ::
    "'s lifecycle_client \<Rightarrow> (nat \<Rightarrow> DeltaFunnelError + TableName) \<Rightarrow> (arrow_error \<Rightarrow> DeltaFunnelError)
      \<Rightarrow> DeltaFunnelError \<Rightarrow> nat list \<Rightarrow> ('s, DeltaFunnelError, TableName) io" where
  "first_available client name probe_error exhausted [] = io_lift (Inl exhausted)"
| "first_available client name probe_error exhausted (attempt # attempts) =
     io_bind (io_lift (name attempt)) (\<lambda>table_name.
     io_bind (io_map_err probe_error (lc_table_exists client table_name)) (\<lambda>exists.
     if \<not> exists then io_lift (Inr table_name)
     else first_available client name probe_error exhausted attempts))"

definition available_replace_staging_table ::
    "arrow_api \<Rightarrow> MssqlTargetOutputPlan \<Rightarrow> 's lifecycle_client
      \<Rightarrow> ('s, DeltaFunnelError, TableName) io" where
  "available_replace_staging_table api p client =
     first_available client (replace_staging_table_name api p)
       (\<lambda>source. prepare_target_lifecycle_error p (ae_display source))
       (prepare_target_lifecycle_error p
          ''could not find an available replace staging table name'')
       [0..<100]"

definition available_replace_backup_table ::
    "arrow_api \<Rightarrow> MssqlTargetOutputPlan \<Rightarrow> 's lifecycle_client
      \<Rightarrow> ('s, DeltaFunnelError, TableName) io" where
  "available_replace_backup_table api p client =
     first_available client (replace_backup_table_name api p)
       (\<lambda>source. swap_target_error p (ae_display source) False)
       (swap_target_error p ''could not find an available replace backup table name'' False)
       [0..<100]"

subsection \<open>Preparation\<close>

definition prepare_mssql_append_existing_target ::
    "arrow_api \<Rightarrow> MssqlTargetOutputPlan \<Rightarrow> 's lifecycle_client
      \<Rightarrow> ('s, DeltaFunnelError, MssqlPreparedTarget) io" where
  "prepare_mssql_append_existing_target api p client =
     io_bind (io_lift (ensure_append_existing_output p)) (\<lambda>_.
     io_bind (io_lift (ensure_lifecycle_guardrail p TargetTableExistenceProbe)) (\<lambda>_.
     io_bind (io_lift (table_name_from_target api (pl_output_name p) (pl_target_table p))) (\<lambda>table_name.
     io_bind (io_map_err (\<lambda>source. prepare_target_lifecycle_error p (ae_display source))
       (lc_table_exists client table_name)) (\<lambda>exists.
     if \<not> exists then
       io_lift (Inl (prepare_target_lifecycle_error p
         (''append-existing target table '' @ api_quoted_sql api table_name @ '' does not exist'')))
     else io_lift (prepared_from_plan api p VerifiedExisting)))))"

definition prepare_mssql_create_and_load_target ::
    "arrow_api \<Rightarrow> MssqlTargetOutputPlan \<Rightarrow> 's lifecycle_client
      \<Rightarrow> ('s, DeltaFunnelError, MssqlPreparedTarget) io" where
  "prepare_mssql_create_and_load_target api p client =
     io_bind (io_lift (ensure_create_and_load_output p)) (\<lambda>_.
     io_bind (io_lift (ensure_lifecycle_guardrail p TargetTableExistenceProbe)) (\<lambda>_.
     io_bind (io_lift (ensure_lifecycle_guardrail p CreateTableDdlExecution)) (\<lambda>_.
     io_bind (io_lift (table_name_from_target api (pl_output_name p) (pl_target_table p))) (\<lambda>table_name.
     io_bind (io_map_err (\<lambda>source. prepare_target_lifecycle_error p (ae_display source))
       (lc_table_exists client table_name)) (\<lambda>exists.
     if exists then
       io_lift (Inl (prepare_target_lifecycle_error p
         (''create-and-load target table '' @ api_quoted_sql api table_name @ '' already exists'')))
     else
       io_bind (io_lift (case pl_create_table_sql p of
           Some sql \<Rightarrow> Inr sql
         | None \<Rightarrow> Inl (prepare_target_lifecycle_error p
             ''create-and-load target preparation requires planned create-table SQL''))) (\<lambda>create_table_sql.
       io_bind (io_map_err (\<lambda>source. prepare_target_lifecycle_error p (ae_display source))
         (lc_execute_statement client create_table_sql)) (\<lambda>_.
       io_lift (prepared_from_plan api p CreatedTable))))))))"

definition prepare_mssql_replace_target ::
    "arrow_api \<Rightarrow> MssqlTargetOutputPlan \<Rightarrow> 's lifecycle_client
      \<Rightarrow> ('s, DeltaFunnelError, MssqlPreparedTarget) io" where
  "prepare_mssql_replace_target api p client =
     io_bind (io_lift (ensure_replace_output p)) (\<lambda>_.
     io_bind (io_lift (ensure_lifecycle_guardrail p TargetTableExistenceProbe)) (\<lambda>_.
     io_bind (io_lift (ensure_lifecycle_guardrail p CreateTableDdlExecution)) (\<lambda>_.
     io_bind (io_lift (table_name_from_target api (pl_output_name p) (pl_target_table p))) (\<lambda>final.
     io_bind (io_map_err (\<lambda>source. prepare_target_lifecycle_error p (ae_display source))
       (lc_table_exists client final)) (\<lambda>_.
     io_bind (available_replace_staging_table api p client) (\<lambda>staging.
     io_bind (io_map_err (\<lambda>source. prepare_target_lifecycle_error p (ae_display source))
       (lc_execute_statement client
         (api_create_table_sql_from_mappings api staging (pl_schema_mappings p)))) (\<lambda>_.
     io_lift (prepared_from_table_name p staging CreatedStagingTable))))))))"

definition prepare_mssql_target_lifecycle ::
    "arrow_api \<Rightarrow> MssqlTargetOutputPlan \<Rightarrow> 's lifecycle_client
      \<Rightarrow> ('s, DeltaFunnelError, MssqlPreparedTarget) io" where
  "prepare_mssql_target_lifecycle api p client =
     (case pl_load_mode p of
        AppendExisting \<Rightarrow> prepare_mssql_append_existing_target api p client
      | CreateAndLoad \<Rightarrow> prepare_mssql_create_and_load_target api p client
      | Replace \<Rightarrow> prepare_mssql_replace_target api p client)"

subsection \<open>Cleanup\<close>

definition drop_table_sql :: "arrow_api \<Rightarrow> TableName \<Rightarrow> string" where
  "drop_table_sql api t = ''DROP TABLE '' @ api_quoted_sql api t"

definition cleanup_mssql_prepared_target ::
    "arrow_api \<Rightarrow> MssqlTargetOutputPlan \<Rightarrow> MssqlPreparedTarget option \<Rightarrow> 's lifecycle_client
      \<Rightarrow> ('s, DeltaFunnelError, MssqlTargetCleanupStatus) io" where
  "cleanup_mssql_prepared_target api p prepared client =
     (case prepared of
        None \<Rightarrow> io_lift (Inr (cleanup_before_target_creation p))
      | Some t \<Rightarrow>
          io_bind (io_lift (ensure_prepared_target_matches_output_plan p t)) (\<lambda>_.
          case ptr_action (pt_report t) of
            VerifiedExisting \<Rightarrow> io_lift (Inr NotApplicable)
          | _ \<Rightarrow>
              io_bind (io_map_err (\<lambda>source. cleanup_error p (ae_display source))
                (lc_execute_statement client (drop_table_sql api (pt_table_name t)))) (\<lambda>_.
              io_lift (Inr MssqlTargetCleanupStatus.Succeeded))))"

subsection \<open>The replace swap\<close>

definition QUOTE :: char where
  "QUOTE = CHR 0x27"

definition sql_nvarchar_literal :: "string \<Rightarrow> string" where
  "sql_nvarchar_literal value =
     CHR ''N'' # QUOTE #
     concat (map (\<lambda>c. if c = QUOTE then [QUOTE, QUOTE] else [c]) value) @ [QUOTE]"

text \<open>The UTF-8 bytes of a scalar value up to U+00FF.\<close>

definition utf8_bytes :: "char \<Rightarrow> u64 list" where
  "utf8_bytes c =
     (if code c < 128 then [of_nat (code c)]
      else [of_nat (192 + code c div 64), of_nat (128 + code c mod 64)])"

definition FNV_OFFSET_BASIS :: u64 where
  "FNV_OFFSET_BASIS = 0xcbf29ce484222325"

definition FNV_PRIME :: u64 where
  "FNV_PRIME = 0x100000001b3"

definition stable_resource_hash :: "string \<Rightarrow> u64" where
  "stable_resource_hash value =
     fold (\<lambda>byte hash. (hash XOR byte) * FNV_PRIME) (concat (map utf8_bytes value))
       FNV_OFFSET_BASIS"

definition hex016 :: "u64 \<Rightarrow> string" where
  "hex016 w = (let h = show_hex (unat w) in replicate (16 - length h) (CHR ''0'') @ h)"

definition MAX_RESOURCE_CHARS :: nat where
  "MAX_RESOURCE_CHARS = 255"

definition replace_lock_resource :: "arrow_api \<Rightarrow> TableName \<Rightarrow> string" where
  "replace_lock_resource api final =
     (let resource = ''delta-funnel:replace:'' @ api_quoted_sql api final in
      if length resource \<le> MAX_RESOURCE_CHARS then resource
      else take (MAX_RESOURCE_CHARS - 16 - 1) resource @ '':''
             @ hex016 (stable_resource_hash resource))"

definition NL :: string where
  "NL = [CHR 0x0A]"

definition swap_script :: "string \<Rightarrow> string \<Rightarrow> string \<Rightarrow> string \<Rightarrow> string \<Rightarrow> string \<Rightarrow> string \<Rightarrow> string" where
  "swap_script lock_resource final_object staging_object backup_object backup_name final_name
       backup_table =
     ''SET XACT_ABORT ON;'' @ NL @
     ''BEGIN TRY'' @ NL @
     ''    BEGIN TRANSACTION;'' @ NL @
     ''    DECLARE @delta_funnel_lock_result int;'' @ NL @
     ''    EXEC @delta_funnel_lock_result = sys.sp_getapplock '' @
     ''@Resource = '' @ lock_resource @ '', '' @
     ''@LockMode = 'Exclusive', '' @
     ''@LockOwner = 'Transaction', '' @
     ''@LockTimeout = 0;'' @ NL @
     ''    IF @delta_funnel_lock_result < 0'' @ NL @
     ''        THROW 51000, 'DeltaFunnel replace lock was not acquired', 1;'' @ NL @
     ''    IF OBJECT_ID('' @ staging_object @ '', N'U') IS NULL'' @ NL @
     ''        THROW 51002, 'DeltaFunnel replace staging table is missing', 1;'' @ NL @
     ''    IF OBJECT_ID('' @ backup_object @ '', N'U') IS NOT NULL'' @ NL @
     ''        THROW 51003, 'DeltaFunnel replace backup table already exists', 1;'' @ NL @
     ''    IF OBJECT_ID('' @ final_object @ '', N'U') IS NOT NULL'' @ NL @
     ''    BEGIN'' @ NL @
     ''        EXEC sys.sp_rename @objname = '' @ final_object @ '', '' @
     ''@newname = '' @ backup_name @ '', @objtype = 'OBJECT';'' @ NL @
     ''        EXEC sys.sp_rename @objname = '' @ staging_object @ '', '' @
     ''@newname = '' @ final_name @ '', @objtype = 'OBJECT';'' @ NL @
     ''        DROP TABLE '' @ backup_table @ '';'' @ NL @
     ''    END'' @ NL @
     ''    ELSE'' @ NL @
     ''    BEGIN'' @ NL @
     ''        EXEC sys.sp_rename @objname = '' @ staging_object @ '', '' @
     ''@newname = '' @ final_name @ '', @objtype = 'OBJECT';'' @ NL @
     ''    END'' @ NL @
     ''    COMMIT TRANSACTION;'' @ NL @
     ''END TRY'' @ NL @
     ''BEGIN CATCH'' @ NL @
     ''    IF @@TRANCOUNT > 0'' @ NL @
     ''        ROLLBACK TRANSACTION;'' @ NL @
     ''    THROW;'' @ NL @
     ''END CATCH;''"

definition replace_swap_sql :: "arrow_api \<Rightarrow> TableName \<Rightarrow> TableName \<Rightarrow> TableName \<Rightarrow> string" where
  "replace_swap_sql api final staging backup =
     swap_script
       (sql_nvarchar_literal (replace_lock_resource api final))
       (sql_nvarchar_literal (api_quoted_sql api final))
       (sql_nvarchar_literal (api_quoted_sql api staging))
       (sql_nvarchar_literal (api_quoted_sql api backup))
       (sql_nvarchar_literal (tn_table backup))
       (sql_nvarchar_literal (tn_table final))
       (api_quoted_sql api backup)"

definition swap_mssql_replace_target ::
    "arrow_api \<Rightarrow> MssqlTargetOutputPlan \<Rightarrow> MssqlPreparedTarget \<Rightarrow> 's lifecycle_client
      \<Rightarrow> ('s, DeltaFunnelError, unit) io" where
  "swap_mssql_replace_target api p prepared client =
     io_bind (io_lift (ensure_replace_output p)) (\<lambda>_.
     if \<not> prepared_target_matches_output_plan p prepared then
       io_lift (Inl (swap_target_error p ''prepared target does not match output plan'' False))
     else if ptr_action (pt_report prepared) \<noteq> CreatedStagingTable then
       io_lift (Inl (swap_target_error p ''replace swap requires a prepared staging table'' False))
     else
       io_bind (io_lift (table_name_from_target api (pl_output_name p) (pl_target_table p))) (\<lambda>final.
       io_bind (available_replace_backup_table api p client) (\<lambda>backup.
       io_bind (io_map_err (\<lambda>source. swap_target_error p (ae_display source) True)
         (lc_execute_statement client (replace_swap_sql api final (pt_table_name prepared) backup))) (\<lambda>_.
       io_lift (Inr ())))))"

subsection \<open>Names stay within the server's limits\<close>

lemma length_auxiliary_table:
  "length suffix \<le> MAX_IDENTIFIER_CHARS \<Longrightarrow>
     length (auxiliary_table table suffix) \<le> MAX_IDENTIFIER_CHARS"
  by (simp add: auxiliary_table_def)

lemma auxiliary_table_eq_iff:
  assumes "suffix \<noteq> []"
  shows "auxiliary_table table suffix = table \<longleftrightarrow>
           length table = max MAX_IDENTIFIER_CHARS (length suffix) \<and>
           drop (MAX_IDENTIFIER_CHARS - length suffix) table = suffix"
proof -
  let ?n = "MAX_IDENTIFIER_CHARS - length suffix"
  have "take ?n table @ suffix = table \<longleftrightarrow> suffix = drop ?n table"
    using append_take_drop_id [of ?n table] by (metis same_append_eq)
  moreover have "suffix = drop ?n table \<Longrightarrow>
      length table = max MAX_IDENTIFIER_CHARS (length suffix)"
    using assms by (cases "?n \<le> length table") (auto simp: max_def dest: arg_cong [of _ _ length])
  ultimately show ?thesis
    unfolding auxiliary_table_def by metis
qed

lemma auxiliary_table_distinct:
  assumes "length a = length b" "a \<noteq> b" "length a \<le> MAX_IDENTIFIER_CHARS"
  shows "auxiliary_table table a \<noteq> auxiliary_table table b"
  using assms by (simp add: auxiliary_table_def)

lemma length_show_nat_two_digits:
  assumes "n < 100"
  shows "length (show_nat n) \<le> 2"
proof (cases "n < 10")
  case False
  have "n div 10 < 10"
    using assms by simp
  then have "length (show_nat (n div 10)) = 1"
    by (simp add: show_nat.simps [of "n div 10"])
  with False show ?thesis
    by (subst show_nat.simps) simp
qed (simp add: show_nat.simps)

lemma length_show_hex: "n < 16 ^ Suc k \<Longrightarrow> length (show_hex n) \<le> Suc k"
proof (induction k arbitrary: n)
  case (Suc k)
  then have "n div 16 < 16 ^ Suc k"
    by (simp add: less_mult_imp_div_less)
  with Suc.IH show ?case
    by (subst show_hex.simps) simp
qed (simp add: show_hex.simps)

lemma length_hex016: "length (hex016 w) = 16"
proof -
  have "unat w < 16 ^ Suc 15"
    using unat_lt_u64 [of w] by simp
  then show ?thesis
    using length_show_hex [of "unat w" 15] by (simp add: hex016_def Let_def)
qed

lemma length_replace_lock_resource:
  "length (replace_lock_resource api final) \<le> MAX_RESOURCE_CHARS"
  by (simp add: replace_lock_resource_def Let_def length_hex016 MAX_RESOURCE_CHARS_def)

subsection \<open>Literals\<close>

text \<open>How the server reads an \<open>nvarchar\<close> literal: a doubled quote is a quote, a single one ends it.\<close>

fun scan_literal :: "string \<Rightarrow> (string \<times> string) option" where
  "scan_literal [] = None"
| "scan_literal (c # cs) =
     (if c \<noteq> QUOTE then map_option (\<lambda>(v, rest). (c # v, rest)) (scan_literal cs)
      else case cs of
             d # ds \<Rightarrow>
               if d = QUOTE then map_option (\<lambda>(v, rest). (QUOTE # v, rest)) (scan_literal ds)
               else Some ([], cs)
           | [] \<Rightarrow> Some ([], []))"

definition read_nvarchar_literal :: "string \<Rightarrow> (string \<times> string) option" where
  "read_nvarchar_literal s =
     (case s of
        n # q # cs \<Rightarrow> if n = CHR ''N'' \<and> q = QUOTE then scan_literal cs else None
      | _ \<Rightarrow> None)"

lemma scan_literal_escaped:
  assumes "rest = [] \<or> hd rest \<noteq> QUOTE"
  shows "scan_literal (concat (map (\<lambda>c. if c = QUOTE then [QUOTE, QUOTE] else [c]) value) @ QUOTE # rest)
           = Some (value, rest)"
  using assms by (induction "value") (auto split: list.splits)

lemma read_sql_nvarchar_literal:
  assumes "rest = [] \<or> hd rest \<noteq> QUOTE"
  shows "read_nvarchar_literal (sql_nvarchar_literal value @ rest) = Some (value, rest)"
  using scan_literal_escaped [OF assms, of "value"]
  by (simp add: read_nvarchar_literal_def sql_nvarchar_literal_def)

subsection \<open>Requests of the lifecycle operations\<close>

lemma ensure_okD: "ensure b e = Inr u \<Longrightarrow> b"
  by (simp add: res_simps)

text \<open>
  The probe loop asks for the names of its attempts in order, one request each, and returns
  the name it asked for last.
\<close>

inductive probed ::
    "(nat \<Rightarrow> 'e + TableName) \<Rightarrow> nat list \<Rightarrow> 'e + TableName \<Rightarrow> sql_request list \<Rightarrow> bool"
  for name where
  probed_stop: "probed name ks (Inl e) []"
| probed_taken: "name k = Inr t \<Longrightarrow> probed name (k # ks) (Inr t) [TableExistsRequest t]"
| probed_next: "name k = Inr t \<Longrightarrow> probed name ks r qs \<Longrightarrow>
    probed name (k # ks) r (TableExistsRequest t # qs)"

lemma probed_requests:
  assumes "probed name ks r qs"
  shows "\<exists>ts. qs = map TableExistsRequest ts \<and> length ts \<le> length ks \<and>
           (\<forall>i < length ts. name (ks ! i) = Inr (ts ! i)) \<and>
           (\<forall>t. r = Inr t \<longrightarrow> ts \<noteq> [] \<and> last ts = t)"
  using assms
proof induction
  case (probed_next k t ks r qs)
  then obtain ts where "qs = map TableExistsRequest ts" "length ts \<le> length ks"
    "\<forall>i < length ts. name (ks ! i) = Inr (ts ! i)" "\<forall>t. r = Inr t \<longrightarrow> ts \<noteq> [] \<and> last ts = t"
    by blast
  with probed_next.hyps show ?case
    by (intro exI [of _ "t # ts"]) (auto simp: nth_Cons split: nat.splits)
next
  case (probed_taken k t ks)
  then show ?case
    by (intro exI [of _ "[t]"]) simp
qed simp

lemma probed_statements [simp]: "probed name ks r qs \<Longrightarrow> statements qs = []"
  by (drule probed_requests) auto

lemma probed_result: "probed name ks r qs \<Longrightarrow> r = Inr t \<Longrightarrow> \<exists>k \<in> set ks. name k = Inr t"
  by (induction rule: probed.induct) auto

text \<open>
  What preparation hands to the phases after it: the report is that of the plan, the action is
  that of the load mode, and the table is the target itself, or, for replace, the staging
  table of one of the hundred attempts.
\<close>

fun action_of :: "LoadMode \<Rightarrow> MssqlPreparedTargetAction" where
  "action_of AppendExisting = VerifiedExisting"
| "action_of CreateAndLoad = CreatedTable"
| "action_of Replace = CreatedStagingTable"

definition prepared_for ::
    "arrow_api \<Rightarrow> MssqlTargetOutputPlan \<Rightarrow> MssqlPreparedTarget \<Rightarrow> bool" where
  "prepared_for api p t \<longleftrightarrow>
     prepared_target_matches_output_plan p t \<and>
     ptr_action (pt_report t) = action_of (pl_load_mode p) \<and>
     ptr_cleanup (pt_report t) = action_cleanup_status (action_of (pl_load_mode p)) \<and>
     (case pl_load_mode p of
        Replace \<Rightarrow> \<exists>k < 100. replace_staging_table_name api p k = Inr (pt_table_name t)
      | _ \<Rightarrow> table_name_from_target api (pl_output_name p) (pl_target_table p) = Inr (pt_table_name t))"

definition creation_statements ::
    "arrow_api \<Rightarrow> MssqlTargetOutputPlan \<Rightarrow> MssqlPreparedTarget \<Rightarrow> string list" where
  "creation_statements api p t =
     (case pl_load_mode p of
        AppendExisting \<Rightarrow> []
      | CreateAndLoad \<Rightarrow> (case pl_create_table_sql p of Some sql \<Rightarrow> [sql] | None \<Rightarrow> [])
      | Replace \<Rightarrow> [api_create_table_sql_from_mappings api (pt_table_name t) (pl_schema_mappings p)])"

definition lifecycle_only :: "sql_request list \<Rightarrow> bool" where
  "lifecycle_only qs \<longleftrightarrow>
     (\<forall>q \<in> set qs. (\<exists>t. q = TableExistsRequest t) \<or> (\<exists>sql. q = StatementRequest sql))"

definition prepare_post ::
    "arrow_api \<Rightarrow> MssqlTargetOutputPlan \<Rightarrow> DeltaFunnelError + MssqlPreparedTarget
      \<Rightarrow> sql_request list \<Rightarrow> bool" where
  "prepare_post api p r qs \<longleftrightarrow>
     lifecycle_only qs \<and>
     (case r of
        Inr t \<Rightarrow> prepared_for api p t \<and> statements qs = creation_statements api p t
      | Inl e \<Rightarrow> statements qs = [] \<or>
          (\<exists>t. prepared_for api p t \<and> statements qs = creation_statements api p t))"

lemma lifecycle_only_simps [simp]:
  "lifecycle_only []" "lifecycle_only (TableExistsRequest t # qs) \<longleftrightarrow> lifecycle_only qs"
  "lifecycle_only (StatementRequest sql # qs) \<longleftrightarrow> lifecycle_only qs"
  "lifecycle_only (qs @ qs') \<longleftrightarrow> lifecycle_only qs \<and> lifecycle_only qs'"
  by (auto simp: lifecycle_only_def)

lemma probed_lifecycle_only [simp]: "probed name ks r qs \<Longrightarrow> lifecycle_only qs"
  by (induction rule: probed.induct) simp_all

definition prepared_value :: "MssqlTargetOutputPlan \<Rightarrow> TableName \<Rightarrow> MssqlPreparedTarget" where
  "prepared_value p n =
     \<lparr>pt_table_name = n,
      pt_report = \<lparr>ptr_output_name = pl_output_name p, ptr_target_table = pl_target_table p,
        ptr_load_mode = pl_load_mode p,
        ptr_connection_source = ts_connection_source (pl_target p),
        ptr_connection = ts_connection (pl_target p),
        ptr_expected_target_state = lp_expected_target_state (pl_lifecycle_plan p),
        ptr_action = action_of (pl_load_mode p),
        ptr_cleanup = action_cleanup_status (action_of (pl_load_mode p))\<rparr>\<rparr>"

lemma prepared_from_table_name_value:
  "action = action_of (pl_load_mode p) \<Longrightarrow>
     prepared_from_table_name p n action = Inr (prepared_value p n)"
  by (cases "pl_load_mode p")
     (simp_all add: prepared_from_table_name_def prepared_report_from_plan_def
       ensure_action_matches_load_mode_def prepared_value_def)

lemma prepared_value_name [simp]: "pt_table_name (prepared_value p n) = n"
  by (simp add: prepared_value_def)

lemma prepared_value_for:
  "prepared_for api p (prepared_value p n) \<longleftrightarrow>
     (case pl_load_mode p of
        Replace \<Rightarrow> \<exists>k < 100. replace_staging_table_name api p k = Inr n
      | _ \<Rightarrow> table_name_from_target api (pl_output_name p) (pl_target_table p) = Inr n)"
  by (cases "pl_load_mode p")
     (simp_all add: prepared_for_def prepared_value_def prepared_target_matches_output_plan_def)

text \<open>
  Cleanup sends nothing for a target that already existed, and a drop of the prepared table
  otherwise. A swap sends the script once, last, after probing the backup names up to the one
  it uses; a swap that fails earlier sends no statement.
\<close>

definition cleanup_post ::
    "arrow_api \<Rightarrow> MssqlTargetOutputPlan \<Rightarrow> MssqlPreparedTarget
      \<Rightarrow> DeltaFunnelError + MssqlTargetCleanupStatus \<Rightarrow> sql_request list \<Rightarrow> bool" where
  "cleanup_post api p t r qs \<longleftrightarrow>
     (if \<not> prepared_target_matches_output_plan p t then (\<exists>e. r = Inl e) \<and> qs = []
      else if ptr_action (pt_report t) = VerifiedExisting then r = Inr NotApplicable \<and> qs = []
      else qs = [StatementRequest (drop_table_sql api (pt_table_name t))] \<and>
           (r = Inr MssqlTargetCleanupStatus.Succeeded \<or> (\<exists>msg. r = Inl (cleanup_error p msg))))"

definition swap_attempt ::
    "arrow_api \<Rightarrow> MssqlTargetOutputPlan \<Rightarrow> MssqlPreparedTarget \<Rightarrow> TableName \<Rightarrow> TableName
      \<Rightarrow> sql_request list \<Rightarrow> bool" where
  "swap_attempt api p t final backup qs \<longleftrightarrow>
     table_name_from_target api (pl_output_name p) (pl_target_table p) = Inr final \<and>
     (\<exists>k < 100. replace_backup_table_name api p k = Inr backup) \<and>
     (\<exists>ts. ts \<noteq> [] \<and> last ts = backup \<and>
        qs = map TableExistsRequest ts
               @ [StatementRequest (replace_swap_sql api final (pt_table_name t) backup)])"

definition swap_post ::
    "arrow_api \<Rightarrow> MssqlTargetOutputPlan \<Rightarrow> MssqlPreparedTarget
      \<Rightarrow> DeltaFunnelError + unit \<Rightarrow> sql_request list \<Rightarrow> bool" where
  "swap_post api p t r qs \<longleftrightarrow>
     (case r of
        Inr _ \<Rightarrow> pl_load_mode p = Replace \<and> prepared_target_matches_output_plan p t \<and>
          (\<exists>final backup. swap_attempt api p t final backup qs)
      | Inl e \<Rightarrow> statements qs = [] \<or> (\<exists>final backup. swap_attempt api p t final backup qs))"

context lifecycle_requests
begin

lemma emits_first_available:
  "emits sent (first_available client name pe ex ks) (probed name ks)"
proof (induction ks)
  case (Cons k ks)
  show ?case
    unfolding first_available.simps
  proof (rule emits_bind_lift)
    fix t assume t: "name k = Inr t"
    have later: "emits sent (first_available client name pe ex ks)
        (\<lambda>r qs. probed name (k # ks) r ([TableExistsRequest t] @ qs))"
      using Cons.IH by (rule emits_mono) (simp add: probed_next [of name, OF t])
    show "emits sent (io_bind (io_map_err pe (lc_table_exists client t))
            (\<lambda>exists. if \<not> exists then io_lift (Inr t) else first_available client name pe ex ks))
       (probed name (k # ks))"
    proof (intro emits_bind emits_map_err emits_table_exists)
      fix r :: "arrow_error + bool"
      show "case map_err pe r of
              Inl e \<Rightarrow> probed name (k # ks) (Inl e) [TableExistsRequest t]
            | Inr exists \<Rightarrow> emits sent
                (if \<not> exists then io_lift (Inr t) else first_available client name pe ex ks)
                (\<lambda>r' qs'. probed name (k # ks) r' ([TableExistsRequest t] @ qs'))"
        using later t
        by (cases r) (auto intro: emits_lift probed_taken probed_next [of name, OF t] probed_stop)
    qed
  qed (rule probed_stop)
next
  case Nil
  show ?case
    unfolding first_available.simps by (intro emits_lift probed_stop)
qed

lemma emits_bind_first_available:
  assumes "\<And>e qs. probed name ks (Inl e) qs \<Longrightarrow> Q (Inl e) qs"
    and "\<And>t qs. probed name ks (Inr t) qs \<Longrightarrow> emits sent (f t) (\<lambda>r qs'. Q r (qs @ qs'))"
  shows "emits sent (io_bind (first_available client name pe ex ks) f) Q"
  using assms
  by (intro emits_bind emits_mono [OF emits_first_available]) (auto split: sum.split)

lemma emits_prepare_append:
  assumes "pl_load_mode p = AppendExisting"
  shows "emits sent (prepare_mssql_append_existing_target api p client) (prepare_post api p)"
  unfolding prepare_mssql_append_existing_target_def
proof (intro emits_rules)
  fix n
  assume n: "table_name_from_target api (pl_output_name p) (pl_target_table p) = Inr n"
  have "prepared_for api p (prepared_value p n)"
    using assms n by (simp add: prepared_value_for)
  with n assms show "prepare_post api p (prepared_from_plan api p VerifiedExisting)
      [TableExistsRequest n]"
    by (simp add: prepare_post_def prepared_from_plan_def creation_statements_def
        prepared_from_table_name_value)
qed (simp_all add: prepare_post_def)

lemma emits_prepare_create:
  assumes "pl_load_mode p = CreateAndLoad"
  shows "emits sent (prepare_mssql_create_and_load_target api p client) (prepare_post api p)"
  unfolding prepare_mssql_create_and_load_target_def
proof (intro emits_rules)
  fix n sql
  assume n: "table_name_from_target api (pl_output_name p) (pl_target_table p) = Inr n"
    and sql: "(case pl_create_table_sql p of
                 None \<Rightarrow> Inl (prepare_target_lifecycle_error p
                   ''create-and-load target preparation requires planned create-table SQL'')
               | Some sql \<Rightarrow> Inr sql) = Inr sql"
  let ?t = "prepared_value p n"
  have t: "prepared_from_table_name p n CreatedTable = Inr ?t" "prepared_for api p ?t"
    using assms n by (simp_all add: prepared_value_for prepared_from_table_name_value)
  from sql have c: "creation_statements api p ?t = [sql]"
    using assms by (auto simp: creation_statements_def split: option.splits)
  show "prepare_post api p (Inl e) [TableExistsRequest n, StatementRequest sql]" for e
    using t c by (auto simp: prepare_post_def)
  show "prepare_post api p (prepared_from_plan api p CreatedTable)
      [TableExistsRequest n, StatementRequest sql]"
    using t c n by (simp add: prepare_post_def prepared_from_plan_def)
qed (simp_all add: prepare_post_def)

lemma emits_prepare_replace:
  assumes "pl_load_mode p = Replace"
  shows "emits sent (prepare_mssql_replace_target api p client) (prepare_post api p)"
  unfolding prepare_mssql_replace_target_def available_replace_staging_table_def
proof (intro emits_rules emits_bind_first_available)
  fix final staging qs
  assume probed: "probed (replace_staging_table_name api p) [0..<100]
      (Inr staging :: DeltaFunnelError + TableName) qs"
  let ?t = "prepared_value p staging"
  have t: "prepared_from_table_name p staging CreatedStagingTable = Inr ?t" "prepared_for api p ?t"
    using assms probed_result [OF probed]
    by (auto simp: prepared_value_for prepared_from_table_name_value)
  have c: "creation_statements api p ?t =
      [api_create_table_sql_from_mappings api staging (pl_schema_mappings p)]"
    using assms by (simp add: creation_statements_def)
  show "prepare_post api p (Inl e)
      (TableExistsRequest final # qs @ [StatementRequest
         (api_create_table_sql_from_mappings api staging (pl_schema_mappings p))])" for e
    using t c probed by (auto simp: prepare_post_def)
  show "prepare_post api p (prepared_from_table_name p staging CreatedStagingTable)
      (TableExistsRequest final # qs @ [StatementRequest
         (api_create_table_sql_from_mappings api staging (pl_schema_mappings p))])"
    using t c probed by (simp add: prepare_post_def)
qed (simp_all add: prepare_post_def)

lemma emits_prepare:
  "emits sent (prepare_mssql_target_lifecycle api p client) (prepare_post api p)"
  by (cases "pl_load_mode p")
     (simp_all add: prepare_mssql_target_lifecycle_def emits_prepare_append emits_prepare_create
       emits_prepare_replace)

lemma emits_cleanup:
  "emits sent (cleanup_mssql_prepared_target api p (Some t) client) (cleanup_post api p t)"
  unfolding cleanup_mssql_prepared_target_def option.case
  by (intro emits_bind_lift; cases "ptr_action (pt_report t)")
     (auto simp: cleanup_post_def ensure_prepared_target_matches_output_plan_def res_simps
       intro!: emits_rules)

lemma emits_swap:
  "emits sent (swap_mssql_replace_target api p t client) (swap_post api p t)"
  unfolding swap_mssql_replace_target_def available_replace_backup_table_def
proof (intro emits_rules emits_bind_first_available)
  fix u final backup qs
  assume replace: "ensure_replace_output p = Inr u"
    and matches: "\<not> \<not> prepared_target_matches_output_plan p t"
    and final: "table_name_from_target api (pl_output_name p) (pl_target_table p) = Inr final"
    and probed: "probed (replace_backup_table_name api p) [0..<100]
      (Inr backup :: DeltaFunnelError + TableName) qs"
  from probed_result [OF probed refl] obtain k where "k < 100"
    "replace_backup_table_name api p k = Inr backup"
    by auto
  with final probed_requests [OF probed]
  have attempt: "swap_attempt api p t final backup
      (qs @ [StatementRequest (replace_swap_sql api final (pt_table_name t) backup)])"
    by (auto simp: swap_attempt_def)
  then show "swap_post api p t (Inl e)
      (qs @ [StatementRequest (replace_swap_sql api final (pt_table_name t) backup)])" for e
    by (auto simp: swap_post_def)
  from attempt replace matches show "swap_post api p t (Inr ())
      (qs @ [StatementRequest (replace_swap_sql api final (pt_table_name t) backup)])"
    by (auto simp: swap_post_def ensure_replace_output_def res_simps)
qed (auto simp: swap_post_def dest!: probed_statements)

end

end
