(* ===== verification/DF_Write_Loop.thy ===== *)
theory DF_Write_Loop
  imports DF_Lifecycle DF_Progress
begin

section \<open>The batch write loop\<close>

text \<open>
  \<open>sql_server/execution/write.rs\<close>: initialising the bulk writer of a prepared target, writing
  a stream of record batches through it, and the benchmark that drains a stream without a
  writer. A stream is the list of items its polling yields. The state the loop acts on is a
  \<open>world\<close>: the monotonic clock, the progress events the host has received, and the state
  behind the connection.
\<close>

subsection \<open>Worlds\<close>

record 's world =
  w_clock :: clock
  w_events :: events
  w_conn :: 's

definition w_now :: "'s world \<Rightarrow> nat \<times> 's world" where
  "w_now w = (case Instant_now (w_clock w) of (t, k) \<Rightarrow> (t, w\<lparr>w_clock := k\<rparr>))"

definition w_elapsed :: "nat \<Rightarrow> 's world \<Rightarrow> duration \<times> 's world" where
  "w_elapsed started w =
     (case Instant_elapsed started (w_clock w) of (d, k) \<Rightarrow> (d, w\<lparr>w_clock := k\<rparr>))"

definition on_conn :: "('s, 'e, 'a) io \<Rightarrow> ('s world, 'e, 'a) io" where
  "on_conn m w = (case m (w_conn w) of (r, s) \<Rightarrow> (r, w\<lparr>w_conn := s\<rparr>))"

definition w_emit :: "ProgressReporter option \<Rightarrow> ProgressEvent \<Rightarrow> 's world \<Rightarrow> 's world" where
  "w_emit reporter e w =
     (case reporter of None \<Rightarrow> w | Some r \<Rightarrow> w\<lparr>w_events := emit r e (w_events w)\<rparr>)"

type_synonym batch_stream = "(DeltaFunnelError + RecordBatch) list"

subsection \<open>Writer traits and initialisation\<close>

record 's bulk_load_writer =
  bw_write_batch :: "RecordBatch \<Rightarrow> ('s, arrow_error, unit) io"
  bw_finish :: "('s, arrow_error, unit) io"

definition connected_bulk_writer :: "'s sql_server \<Rightarrow> 's conn bulk_load_writer" where
  "connected_bulk_writer srv =
     \<lparr>bw_write_batch = client_write_batch srv, bw_finish = client_finish srv\<rparr>"

record MssqlBulkWriterInitializationRequest =
  ir_output_name :: string
  ir_table :: TableName
  ir_planned_schema :: PlannedSchema
  ir_backend :: MssqlWriteBackend
  ir_prepared_action :: MssqlPreparedTargetAction
  ir_cleanup :: MssqlTargetCleanupStatus

definition default_mssql_write_backend :: MssqlWriteBackend where
  "default_mssql_write_backend = DirectRawBulk"

definition mssql_write_backend_for_output_plan :: "MssqlTargetOutputPlan \<Rightarrow> MssqlWriteBackend" where
  "mssql_write_backend_for_output_plan p = default_mssql_write_backend"

subsection \<open>Metrics and errors\<close>

record MssqlWriteProgress =
  wp_rows_written :: u64
  wp_batches_written :: u64
  wp_elapsed_ms :: u64

definition progress_zero :: MssqlWriteProgress where
  "progress_zero = \<lparr>wp_rows_written = 0, wp_batches_written = 0, wp_elapsed_ms = 0\<rparr>"

definition write_report_metrics ::
    "RowCount \<Rightarrow> MssqlBatchShapingReport \<Rightarrow> MssqlWriteProgress \<Rightarrow> bool \<Rightarrow> MssqlTargetCleanupStatus
      \<Rightarrow> MssqlWriteReportMetrics" where
  "write_report_metrics rows shaping pr partial cleanup =
     metrics_new rows shaping (wp_rows_written pr) (wp_batches_written pr) (wp_elapsed_ms pr)
       partial cleanup"

definition write_failure_report_metrics ::
    "RowCount \<Rightarrow> MssqlBatchShapingReport \<Rightarrow> MssqlWriteProgress \<Rightarrow> bool \<Rightarrow> MssqlTargetCleanupStatus
      \<Rightarrow> MssqlWriteReportMetrics" where
  "write_failure_report_metrics rows shaping pr partial cleanup =
     metrics_with_target_validation RowCount.Unavailable
       (ValidationStatus.Skipped FailureBeforeValidation)
       (write_report_metrics rows shaping pr partial cleanup)"

definition batch_validation_diagnostics :: "arrow_error \<Rightarrow> MssqlWriteDiagnostic list" where
  "batch_validation_diagnostics source =
     (case ae_variant source of
        ValueConversion diagnostics \<Rightarrow> map write_diagnostic diagnostics
      | _ \<Rightarrow> [])"

definition mssql_batch_schema_validation_error ::
    "MssqlTargetOutputPlan \<Rightarrow> arrow_error \<Rightarrow> MssqlWriteReportMetrics \<Rightarrow> DeltaFunnelError" where
  "mssql_batch_schema_validation_error p source m =
     MssqlBatchSchemaValidation
       (context_with_diagnostics (batch_validation_diagnostics source)
          (context_from_plan_with_metrics p ValidateBatchSchema m))
       source"

definition mssql_write_phase_error ::
    "MssqlTargetOutputPlan \<Rightarrow> MssqlWritePhase \<Rightarrow> MssqlWriteReportMetrics \<Rightarrow> string
      \<Rightarrow> DeltaFunnelError" where
  "mssql_write_phase_error p phase m msg =
     ErrMssqlWritePhase (context_from_plan_with_metrics p phase m) msg"

definition arrow_sql_server_safe_error_message :: "arrow_error \<Rightarrow> string" where
  "arrow_sql_server_safe_error_message source =
     (let info = ae_safe source in
      case si_phase info of
        Some phase \<Rightarrow>
          ''arrow-sql-server '' @ phase @ '' failed: '' @ si_summary info @ '' ('' @ si_kind info @ '')''
      | None \<Rightarrow> ''arrow-sql-server error: '' @ si_summary info @ '' ('' @ si_kind info @ '')'')"

definition arrow_sql_server_write_diagnostics :: "arrow_error \<Rightarrow> MssqlWriteDiagnostic list" where
  "arrow_sql_server_write_diagnostics source =
     (case si_diagnostics (ae_safe source) of
        Some diagnostics \<Rightarrow> map write_diagnostic diagnostics
      | None \<Rightarrow> [])"

definition mssql_arrow_sql_server_write_phase_error ::
    "MssqlTargetOutputPlan \<Rightarrow> MssqlWritePhase \<Rightarrow> MssqlWriteReportMetrics \<Rightarrow> arrow_error
      \<Rightarrow> DeltaFunnelError" where
  "mssql_arrow_sql_server_write_phase_error p phase m source =
     ErrMssqlWritePhase
       (context_with_diagnostics (arrow_sql_server_write_diagnostics source)
          (context_from_plan_with_metrics p phase m))
       (arrow_sql_server_safe_error_message source)"

definition initialization_metrics :: "MssqlTargetCleanupStatus \<Rightarrow> MssqlWriteReportMetrics" where
  "initialization_metrics cleanup =
     write_report_metrics RowCount.Unavailable
       (shaping_not_started ReportReasonCode.NotExecuted) progress_zero False cleanup"

definition mssql_writer_initialization_error ::
    "MssqlTargetOutputPlan \<Rightarrow> MssqlPreparedTargetAction \<Rightarrow> MssqlTargetCleanupStatus \<Rightarrow> string
      \<Rightarrow> DeltaFunnelError" where
  "mssql_writer_initialization_error p action cleanup msg =
     mssql_write_phase_error p InitializeWriter (initialization_metrics cleanup)
       (''prepared target action '' @ action_debug action @ '': '' @ msg)"

definition mssql_arrow_sql_server_writer_initialization_error ::
    "MssqlTargetOutputPlan \<Rightarrow> MssqlPreparedTargetAction \<Rightarrow> MssqlTargetCleanupStatus \<Rightarrow> arrow_error
      \<Rightarrow> DeltaFunnelError" where
  "mssql_arrow_sql_server_writer_initialization_error p action cleanup source =
     ErrMssqlWritePhase
       (context_with_diagnostics (arrow_sql_server_write_diagnostics source)
          (context_from_plan_with_metrics p InitializeWriter (initialization_metrics cleanup)))
       (''prepared target action '' @ action_debug action @ '': ''
          @ arrow_sql_server_safe_error_message source)"

definition writer_ensure_prepared_target ::
    "MssqlTargetOutputPlan \<Rightarrow> MssqlPreparedTarget \<Rightarrow> DeltaFunnelError + unit" where
  "writer_ensure_prepared_target p t =
     (let report = pt_report t in
      if \<not> prepared_target_matches_output_plan p t then
        Inl (mssql_writer_initialization_error p (ptr_action report) (ptr_cleanup report)
               ''prepared target does not match output plan'')
      else if BulkWriterConstruction \<notin> set (lp_execution_guardrails (pl_lifecycle_plan p)) then
        Inl (mssql_writer_initialization_error p (ptr_action report) (ptr_cleanup report)
               ''target lifecycle plan does not allow BulkWriterConstruction'')
      else Inr ())"

definition initialization_request ::
    "MssqlTargetOutputPlan \<Rightarrow> MssqlPreparedTarget \<Rightarrow> MssqlWriteBackend
      \<Rightarrow> DeltaFunnelError + MssqlBulkWriterInitializationRequest" where
  "initialization_request p t backend =
     res_bind (writer_ensure_prepared_target p t) (\<lambda>_.
       Inr \<lparr>ir_output_name = pl_output_name p, ir_table = pt_table_name t,
            ir_planned_schema = sp_planned_schema (pl_schema_plan p), ir_backend = backend,
            ir_prepared_action = ptr_action (pt_report t),
            ir_cleanup = ptr_cleanup (pt_report t)\<rparr>)"

definition initialize_mssql_bulk_writer ::
    "'s sql_server \<Rightarrow> MssqlTargetOutputPlan \<Rightarrow> MssqlPreparedTarget \<Rightarrow> MssqlWriteBackend
      \<Rightarrow> ('s conn, DeltaFunnelError, 's conn bulk_load_writer) io" where
  "initialize_mssql_bulk_writer srv p t options =
     io_bind (io_lift (initialization_request p t options)) (\<lambda>request.
     io_bind
       (io_map_err
         (mssql_arrow_sql_server_writer_initialization_error p (ir_prepared_action request)
            (ir_cleanup request))
         (client_bulk_writer srv (ir_table request) (ir_planned_schema request)
            (ir_backend request)))
       (\<lambda>_. io_lift (Inr (connected_bulk_writer srv))))"

definition not_applicable_metrics :: MssqlWriteReportMetrics where
  "not_applicable_metrics = initialization_metrics NotApplicable"

definition validate_mssql_output_schema ::
    "arrow_api \<Rightarrow> MssqlTargetOutputPlan \<Rightarrow> Schema
      \<Rightarrow> DeltaFunnelError + MssqlOutputBatchValidationReport" where
  "validate_mssql_output_schema api p schema =
     res_bind
       (map_err (\<lambda>source. mssql_batch_schema_validation_error p source not_applicable_metrics)
         (api_validate_arrow_schema api schema (pl_schema_mappings p)))
       (\<lambda>_. Inr (batch_validation_report p))"

definition validate_mssql_output_record_batch ::
    "arrow_api \<Rightarrow> MssqlTargetOutputPlan \<Rightarrow> RecordBatch
      \<Rightarrow> DeltaFunnelError + MssqlOutputBatchValidationReport" where
  "validate_mssql_output_record_batch api p batch =
     res_bind
       (map_err (\<lambda>source. mssql_batch_schema_validation_error p source not_applicable_metrics)
         (api_validate_record_batch_schema api batch (pl_schema_mappings p)))
       (\<lambda>_. Inr (batch_validation_report p))"

subsection \<open>Phase timings of the loop\<close>

definition POLL_BATCH_STREAM_PHASE :: string where
  "POLL_BATCH_STREAM_PHASE = ''poll_batch_stream''"

definition VALIDATE_BATCH_SCHEMA_PHASE :: string where
  "VALIDATE_BATCH_SCHEMA_PHASE = ''validate_batch_schema''"

definition WRITE_BATCH_PHASE :: string where
  "WRITE_BATCH_PHASE = ''write_batch''"

definition FINALIZE_PHASE :: string where
  "FINALIZE_PHASE = ''finalize''"

definition VALIDATION_PHASE :: string where
  "VALIDATION_PHASE = ''validation''"

lemmas phase_name_defs =
  POLL_BATCH_STREAM_PHASE_def VALIDATE_BATCH_SCHEMA_PHASE_def WRITE_BATCH_PHASE_def
  FINALIZE_PHASE_def VALIDATION_PHASE_def

text \<open>\<open>Duration::saturating_add\<close>: the largest duration has \<open>u64::MAX\<close> seconds.\<close>

definition DURATION_MAX :: duration where
  "DURATION_MAX = (2 ^ 64 - 1) * 1000000000 + 999999999"

definition duration_saturating_add :: "duration \<Rightarrow> duration \<Rightarrow> duration" where
  "duration_saturating_add a b = min (a + b) DURATION_MAX"

record MssqlWriteLoopPhaseTimings =
  lt_poll_batch_stream :: duration
  lt_validate_batch_schema :: duration
  lt_write_batch :: duration
  lt_validation_attempted :: bool
  lt_write_attempted :: bool

definition loop_timings_default :: MssqlWriteLoopPhaseTimings where
  "loop_timings_default =
     \<lparr>lt_poll_batch_stream = 0, lt_validate_batch_schema = 0, lt_write_batch = 0,
      lt_validation_attempted = False, lt_write_attempted = False\<rparr>"

definition add_poll_batch_stream ::
    "duration \<Rightarrow> MssqlWriteLoopPhaseTimings \<Rightarrow> MssqlWriteLoopPhaseTimings" where
  "add_poll_batch_stream d t =
     t\<lparr>lt_poll_batch_stream := duration_saturating_add (lt_poll_batch_stream t) d\<rparr>"

definition add_validate_batch_schema ::
    "duration \<Rightarrow> MssqlWriteLoopPhaseTimings \<Rightarrow> MssqlWriteLoopPhaseTimings" where
  "add_validate_batch_schema d t =
     t\<lparr>lt_validation_attempted := True,
       lt_validate_batch_schema := duration_saturating_add (lt_validate_batch_schema t) d\<rparr>"

definition add_write_batch ::
    "duration \<Rightarrow> MssqlWriteLoopPhaseTimings \<Rightarrow> MssqlWriteLoopPhaseTimings" where
  "add_write_batch d t =
     t\<lparr>lt_write_attempted := True,
       lt_write_batch := duration_saturating_add (lt_write_batch t) d\<rparr>"

definition validate_completed_or_not_started :: "MssqlWriteLoopPhaseTimings \<Rightarrow> PhaseTimingReport" where
  "validate_completed_or_not_started t =
     (if lt_validation_attempted t
      then timing_completed VALIDATE_BATCH_SCHEMA_PHASE (lt_validate_batch_schema t)
      else timing_not_started VALIDATE_BATCH_SCHEMA_PHASE ReportReasonCode.NotExecuted)"

definition write_completed_or_not_started :: "MssqlWriteLoopPhaseTimings \<Rightarrow> PhaseTimingReport" where
  "write_completed_or_not_started t =
     (if lt_write_attempted t then timing_completed WRITE_BATCH_PHASE (lt_write_batch t)
      else timing_not_started WRITE_BATCH_PHASE ReportReasonCode.NotExecuted)"

definition loop_completed ::
    "duration \<Rightarrow> MssqlWriteLoopPhaseTimings \<Rightarrow> PhaseTimingReport list" where
  "loop_completed finalize_elapsed t =
     [timing_completed POLL_BATCH_STREAM_PHASE (lt_poll_batch_stream t),
      validate_completed_or_not_started t,
      write_completed_or_not_started t,
      timing_completed FINALIZE_PHASE finalize_elapsed,
      timing_not_started VALIDATION_PHASE ReportReasonCode.NotExecuted]"

definition stream_benchmark_completed :: "MssqlWriteLoopPhaseTimings \<Rightarrow> PhaseTimingReport list" where
  "stream_benchmark_completed t =
     [timing_completed POLL_BATCH_STREAM_PHASE (lt_poll_batch_stream t),
      validate_completed_or_not_started t,
      write_completed_or_not_started t,
      timing_not_started FINALIZE_PHASE ReportReasonCode.NotExecuted,
      timing_not_started VALIDATION_PHASE ReportReasonCode.NotExecuted]"

definition poll_batch_stream_failed :: "MssqlWriteLoopPhaseTimings \<Rightarrow> PhaseTimingReport list" where
  "poll_batch_stream_failed t =
     [timing_failed POLL_BATCH_STREAM_PHASE (lt_poll_batch_stream t),
      validate_completed_or_not_started t,
      write_completed_or_not_started t,
      timing_not_started FINALIZE_PHASE ReportReasonCode.NotExecuted,
      timing_not_started VALIDATION_PHASE FailureBeforeValidation]"

definition validate_batch_schema_failed ::
    "MssqlWriteLoopPhaseTimings \<Rightarrow> PhaseTimingReport list" where
  "validate_batch_schema_failed t =
     [timing_completed POLL_BATCH_STREAM_PHASE (lt_poll_batch_stream t),
      timing_failed VALIDATE_BATCH_SCHEMA_PHASE (lt_validate_batch_schema t),
      write_completed_or_not_started t,
      timing_not_started FINALIZE_PHASE ReportReasonCode.NotExecuted,
      timing_not_started VALIDATION_PHASE FailureBeforeValidation]"

definition write_batch_failed :: "MssqlWriteLoopPhaseTimings \<Rightarrow> PhaseTimingReport list" where
  "write_batch_failed t =
     [timing_completed POLL_BATCH_STREAM_PHASE (lt_poll_batch_stream t),
      validate_completed_or_not_started t,
      timing_failed WRITE_BATCH_PHASE (lt_write_batch t),
      timing_not_started FINALIZE_PHASE ReportReasonCode.NotExecuted,
      timing_not_started VALIDATION_PHASE FailureBeforeValidation]"

definition finalize_failed ::
    "duration \<Rightarrow> MssqlWriteLoopPhaseTimings \<Rightarrow> PhaseTimingReport list" where
  "finalize_failed finalize_elapsed t =
     [timing_completed POLL_BATCH_STREAM_PHASE (lt_poll_batch_stream t),
      validate_completed_or_not_started t,
      write_completed_or_not_started t,
      timing_failed FINALIZE_PHASE finalize_elapsed,
      timing_not_started VALIDATION_PHASE FailureBeforeValidation]"

lemmas loop_timing_lists =
  loop_completed_def stream_benchmark_completed_def poll_batch_stream_failed_def
  validate_batch_schema_failed_def write_batch_failed_def finalize_failed_def
  validate_completed_or_not_started_def write_completed_or_not_started_def

subsection \<open>The loop\<close>

record loop_state =
  ls_rows_written :: u64
  ls_batches_written :: u64
  ls_input_rows :: u64
  ls_input_batches :: u64
  ls_shaped_rows :: u64
  ls_shaped_batches :: u64
  ls_timings :: MssqlWriteLoopPhaseTimings

definition loop_init :: loop_state where
  "loop_init =
     \<lparr>ls_rows_written = 0, ls_batches_written = 0, ls_input_rows = 0, ls_input_batches = 0,
      ls_shaped_rows = 0, ls_shaped_batches = 0, ls_timings = loop_timings_default\<rparr>"

definition batch_row_count :: "RecordBatch \<Rightarrow> u64" where
  "batch_row_count b = usize_to_u64_saturating (rb_num_rows b)"

definition consume :: "RecordBatch \<Rightarrow> loop_state \<Rightarrow> loop_state" where
  "consume b st =
     st\<lparr>ls_input_rows := saturating_add (ls_input_rows st) (batch_row_count b),
        ls_input_batches := saturating_add (ls_input_batches st) 1\<rparr>"

definition accept :: "RecordBatch \<Rightarrow> loop_state \<Rightarrow> loop_state" where
  "accept b st =
     st\<lparr>ls_rows_written := saturating_add (ls_rows_written st) (batch_row_count b),
        ls_batches_written := saturating_add (ls_batches_written st) 1,
        ls_shaped_rows := saturating_add (ls_shaped_rows st) (batch_row_count b),
        ls_shaped_batches := saturating_add (ls_shaped_batches st) 1\<rparr>"

definition shape :: "RecordBatch \<Rightarrow> loop_state \<Rightarrow> loop_state" where
  "shape b st =
     st\<lparr>ls_shaped_rows := saturating_add (ls_shaped_rows st) (batch_row_count b),
        ls_shaped_batches := saturating_add (ls_shaped_batches st) 1\<rparr>"

definition with_timings ::
    "(MssqlWriteLoopPhaseTimings \<Rightarrow> MssqlWriteLoopPhaseTimings) \<Rightarrow> loop_state \<Rightarrow> loop_state" where
  "with_timings f st = st\<lparr>ls_timings := f (ls_timings st)\<rparr>"

definition elapsed_ms_since :: "nat \<Rightarrow> 's world \<Rightarrow> u64 \<times> 's world" where
  "elapsed_ms_since started w =
     (case w_elapsed started w of (d, w') \<Rightarrow> (u128_to_u64_saturating (d div 1000000), w'))"

definition partial_write_possible :: "MssqlTargetOutputPlan \<Rightarrow> u64 \<Rightarrow> u64 \<Rightarrow> bool" where
  "partial_write_possible p rows_written batches_written \<longleftrightarrow>
     pl_load_mode p = AppendExisting \<and> (rows_written > 0 \<or> batches_written > 0)"

definition loop_shaping_failed :: "loop_state \<Rightarrow> MssqlBatchShapingReport" where
  "loop_shaping_failed st =
     shaping_failed (ls_input_batches st) (ls_input_rows st) (ls_shaped_batches st)
       (ls_shaped_rows st)"

definition loop_shaping_completed :: "loop_state \<Rightarrow> MssqlBatchShapingReport" where
  "loop_shaping_completed st =
     shaping_completed (ls_input_batches st) (ls_input_rows st) (ls_shaped_batches st)
       (ls_shaped_rows st)"

definition loop_progress :: "loop_state \<Rightarrow> u64 \<Rightarrow> MssqlWriteProgress" where
  "loop_progress st ms =
     \<lparr>wp_rows_written = ls_rows_written st, wp_batches_written = ls_batches_written st,
      wp_elapsed_ms = ms\<rparr>"

definition loop_failure_metrics ::
    "MssqlTargetOutputPlan \<Rightarrow> loop_state \<Rightarrow> u64 \<Rightarrow> PhaseTimingReport list
      \<Rightarrow> MssqlWriteReportMetrics" where
  "loop_failure_metrics p st ms timings =
     metrics_with_phase_timings timings
       (write_failure_report_metrics (RowCount.Partial (ls_input_rows st)) (loop_shaping_failed st)
          (loop_progress st ms)
          (partial_write_possible p (ls_rows_written st) (ls_batches_written st)) NotApplicable)"

fun write_loop ::
    "arrow_api \<Rightarrow> 's bulk_load_writer \<Rightarrow> MssqlTargetOutputPlan \<Rightarrow> ProgressReporter option \<Rightarrow> nat
      \<Rightarrow> loop_state \<Rightarrow> batch_stream \<Rightarrow> ('s world, DeltaFunnelError, loop_state) io" where
  "write_loop api writer p reporter started st [] w =
     (let (t, w) = w_now w; (d, w) = w_elapsed t w
      in (Inr (with_timings (add_poll_batch_stream d) st), w))"
| "write_loop api writer p reporter started st (item # items) w =
     (let (t, w) = w_now w; (d, w) = w_elapsed t w;
          st = with_timings (add_poll_batch_stream d) st
      in case item of
           Inl source \<Rightarrow>
             let (ms, w) = elapsed_ms_since started w
             in (Inl (mssql_write_phase_error p PollBatchStream
                   (loop_failure_metrics p st ms (poll_batch_stream_failed (ls_timings st)))
                   (DeltaFunnelError_display source)), w)
         | Inr batch \<Rightarrow>
             let st = consume batch st; (t, w) = w_now w;
                 validation = api_validate_record_batch_schema api batch (pl_schema_mappings p);
                 (d, w) = w_elapsed t w; st = with_timings (add_validate_batch_schema d) st
             in case validation of
                  Inl source \<Rightarrow>
                    let (ms, w) = elapsed_ms_since started w
                    in (Inl (mssql_batch_schema_validation_error p source
                          (loop_failure_metrics p st ms
                             (validate_batch_schema_failed (ls_timings st)))), w)
                | Inr _ \<Rightarrow>
                    let (t, w) = w_now w; (written, w) = on_conn (bw_write_batch writer batch) w;
                        (d, w) = w_elapsed t w; st = with_timings (add_write_batch d) st
                    in case written of
                         Inl source \<Rightarrow>
                           let (ms, w) = elapsed_ms_since started w
                           in (Inl (mssql_arrow_sql_server_write_phase_error p WriteBatch
                                 (loop_failure_metrics p st ms (write_batch_failed (ls_timings st)))
                                 source), w)
                       | Inr _ \<Rightarrow>
                           let st = accept batch st;
                               w = w_emit reporter
                                     (progress Writing (Some (pl_output_name p))
                                        (ls_rows_written st) (ls_batches_written st)) w
                           in write_loop api writer p reporter started st items w)"

definition write_mssql_batches_with_writer ::
    "arrow_api \<Rightarrow> 's bulk_load_writer \<Rightarrow> MssqlTargetOutputPlan \<Rightarrow> batch_stream
      \<Rightarrow> ProgressReporter option \<Rightarrow> ('s world, DeltaFunnelError, MssqlWriteReport) io" where
  "write_mssql_batches_with_writer api writer p batches reporter w =
     (let (started, w) = w_now w
      in case write_loop api writer p reporter started loop_init batches w of
           (Inl e, w) \<Rightarrow> (Inl e, w)
         | (Inr st, w) \<Rightarrow>
             let (t, w) = w_now w; (finish, w) = on_conn (bw_finish writer) w;
                 (finalize_elapsed, w) = w_elapsed t w; (ms, w) = elapsed_ms_since started w
             in case finish of
                  Inl source \<Rightarrow>
                    (Inl (mssql_arrow_sql_server_write_phase_error p Finalize
                       (metrics_with_phase_timings (finalize_failed finalize_elapsed (ls_timings st))
                          (write_failure_report_metrics (RowCount.Exact (ls_input_rows st))
                             (loop_shaping_completed st) (loop_progress st ms)
                             (partial_write_possible p (ls_rows_written st) (ls_batches_written st))
                             NotApplicable))
                       source), w)
                | Inr _ \<Rightarrow>
                    (Inr (report_from_plan_with_metrics p
                       (metrics_with_phase_timings (loop_completed finalize_elapsed (ls_timings st))
                          (write_report_metrics (RowCount.Exact (ls_input_rows st))
                             (loop_shaping_completed st) (loop_progress st ms) False
                             NotApplicable))), w))"

subsection \<open>The stream benchmark\<close>

definition drain_failure_metrics ::
    "loop_state \<Rightarrow> PhaseTimingReport list \<Rightarrow> MssqlWriteReportMetrics" where
  "drain_failure_metrics st timings =
     metrics_with_phase_timings timings
       (write_failure_report_metrics (RowCount.Partial (ls_input_rows st)) (loop_shaping_failed st)
          progress_zero False NotApplicable)"

fun drain_loop ::
    "arrow_api \<Rightarrow> MssqlTargetOutputPlan \<Rightarrow> loop_state \<Rightarrow> batch_stream
      \<Rightarrow> ('s world, DeltaFunnelError, loop_state) io" where
  "drain_loop api p st [] w =
     (let (t, w) = w_now w; (d, w) = w_elapsed t w
      in (Inr (with_timings (add_poll_batch_stream d) st), w))"
| "drain_loop api p st (item # items) w =
     (let (t, w) = w_now w; (d, w) = w_elapsed t w;
          st = with_timings (add_poll_batch_stream d) st
      in case item of
           Inl source \<Rightarrow>
             (Inl (mssql_write_phase_error p PollBatchStream
                (drain_failure_metrics st (poll_batch_stream_failed (ls_timings st)))
                (DeltaFunnelError_display source)), w)
         | Inr batch \<Rightarrow>
             let st = consume batch st; (t, w) = w_now w;
                 validation = api_validate_record_batch_schema api batch (pl_schema_mappings p);
                 (d, w) = w_elapsed t w; st = with_timings (add_validate_batch_schema d) st
             in case validation of
                  Inl source \<Rightarrow>
                    (Inl (mssql_batch_schema_validation_error p source
                       (drain_failure_metrics st (validate_batch_schema_failed (ls_timings st)))), w)
                | Inr _ \<Rightarrow> drain_loop api p (shape batch st) items w)"

definition drain_mssql_batches_for_stream_benchmark ::
    "arrow_api \<Rightarrow> MssqlTargetOutputPlan \<Rightarrow> batch_stream
      \<Rightarrow> ('s world, DeltaFunnelError, MssqlWriteReport) io" where
  "drain_mssql_batches_for_stream_benchmark api p batches w =
     (case drain_loop api p loop_init batches w of
        (Inl e, w) \<Rightarrow> (Inl e, w)
      | (Inr st, w) \<Rightarrow>
          (Inr (report_from_plan_with_metrics p
             (metrics_with_phase_timings (stream_benchmark_completed (ls_timings st))
                (write_report_metrics (RowCount.Exact (ls_input_rows st))
                   (loop_shaping_completed st) progress_zero False NotApplicable))), w))"

subsection \<open>Worlds only move forward\<close>

definition reading :: "'s world \<Rightarrow> nat" where
  "reading w = ck_reading (w_clock w) (ck_next (w_clock w))"

definition tick :: "'s world \<Rightarrow> 's world" where
  "tick w = w\<lparr>w_clock := (w_clock w)\<lparr>ck_next := Suc (ck_next (w_clock w))\<rparr>\<rparr>"

lemma w_now_eq [simp]: "w_now w = (reading w, tick w)"
  by (simp add: w_now_def Instant_now_def reading_def tick_def)

lemma w_elapsed_eq [simp]: "w_elapsed started w = (reading w - started, tick w)"
  by (simp add: w_elapsed_def Instant_elapsed_def Instant_now_def reading_def tick_def)

lemma elapsed_ms_since_eq [simp]:
  "elapsed_ms_since started w =
     (u128_to_u64_saturating ((reading w - started) div 1000000), tick w)"
  by (simp add: elapsed_ms_since_def)

lemma tick_sel [simp]: "w_conn (tick w) = w_conn w" "w_events (tick w) = w_events w"
  by (simp_all add: tick_def)

lemma w_emit_conn [simp]: "w_conn (w_emit reporter e w) = w_conn w"
  by (simp add: w_emit_def split: option.splits)

lemma on_conn_cases:
  obtains r s where "m (w_conn w) = (r, s)" "on_conn m w = (r, w\<lparr>w_conn := s\<rparr>)"
  by (cases "m (w_conn w)") (simp add: on_conn_def)

subsection \<open>Counters\<close>

definition sum_rows :: "u64 \<Rightarrow> RecordBatch list \<Rightarrow> u64" where
  "sum_rows a bs = fold (\<lambda>b n. saturating_add n (batch_row_count b)) bs a"

definition sum_batches :: "u64 \<Rightarrow> RecordBatch list \<Rightarrow> u64" where
  "sum_batches a bs = fold (\<lambda>b n. saturating_add n 1) bs a"

lemma fold_saturating_add:
  "unat (fold (\<lambda>b n. saturating_add n (g b)) bs a) =
     min (unat a + (\<Sum>b\<leftarrow>bs. unat (g b))) (2 ^ 64 - 1)"
proof (induction bs arbitrary: a)
  case Nil
  then show ?case
    using unat_lt_u64 [of a] by simp
next
  case (Cons b bs)
  then show ?case
    by (simp add: unat_saturating_add min_def)
qed

lemma unat_sum_rows:
  "unat (sum_rows a bs) = min (unat a + (\<Sum>b\<leftarrow>bs. unat (batch_row_count b))) (2 ^ 64 - 1)"
  by (simp add: sum_rows_def fold_saturating_add)

lemma unat_sum_batches: "unat (sum_batches a bs) = min (unat a + length bs) (2 ^ 64 - 1)"
  using fold_saturating_add [of "\<lambda>_. 1" bs a]
  by (simp add: sum_batches_def sum_list_triv)

text \<open>
  Between two polls the three pairs of counters agree: everything consumed was shaped and
  accepted by the writer.
\<close>

definition balanced :: "loop_state \<Rightarrow> bool" where
  "balanced st \<longleftrightarrow>
     ls_input_rows st = ls_rows_written st \<and> ls_shaped_rows st = ls_rows_written st \<and>
     ls_input_batches st = ls_batches_written st \<and> ls_shaped_batches st = ls_batches_written st"

definition counted :: "loop_state \<Rightarrow> RecordBatch list \<Rightarrow> loop_state \<Rightarrow> bool" where
  "counted st bs st' \<longleftrightarrow>
     balanced st' \<and> ls_rows_written st' = sum_rows (ls_rows_written st) bs \<and>
     ls_batches_written st' = sum_batches (ls_batches_written st) bs"

lemma balanced_init [simp]: "balanced loop_init"
  by (simp add: balanced_def loop_init_def)

lemma balanced_step [simp]:
  "balanced st \<Longrightarrow> balanced (with_timings f st)"
  "balanced st \<Longrightarrow>
     balanced (accept b (with_timings f (with_timings g (consume b (with_timings h st)))))"
  by (simp_all add: balanced_def with_timings_def accept_def consume_def)

lemma counted_Nil: "balanced st \<Longrightarrow> counted st [] (with_timings f st)"
  by (simp add: counted_def sum_rows_def sum_batches_def with_timings_def balanced_def)

lemma counted_Cons:
  assumes "counted (accept b (with_timings f (with_timings g (consume b (with_timings h st))))) bs st'"
  shows "counted st (b # bs) st'"
  using assms
  by (simp add: counted_def sum_rows_def sum_batches_def accept_def consume_def with_timings_def)

subsection \<open>What a run of the loop does\<close>

definition LOOP_PHASES :: "string list" where
  "LOOP_PHASES =
     [POLL_BATCH_STREAM_PHASE, VALIDATE_BATCH_SCHEMA_PHASE, WRITE_BATCH_PHASE, FINALIZE_PHASE,
      VALIDATION_PHASE]"

definition valid_batch :: "arrow_api \<Rightarrow> MssqlTargetOutputPlan \<Rightarrow> RecordBatch \<Rightarrow> bool" where
  "valid_batch api p b \<longleftrightarrow>
     is_ok (api_validate_record_batch_schema api b (pl_schema_mappings p))"

fun failing_phase ::
    "arrow_api \<Rightarrow> MssqlTargetOutputPlan \<Rightarrow> DeltaFunnelError + RecordBatch \<Rightarrow> MssqlWritePhase" where
  "failing_phase api p (Inl _) = PollBatchStream"
| "failing_phase api p (Inr b) = (if valid_batch api p b then WriteBatch else ValidateBatchSchema)"

fun seen_rows :: "DeltaFunnelError + RecordBatch \<Rightarrow> u64 \<Rightarrow> u64" where
  "seen_rows (Inl _) n = n"
| "seen_rows (Inr b) n = saturating_add n (batch_row_count b)"

fun attempted_batch ::
    "arrow_api \<Rightarrow> MssqlTargetOutputPlan \<Rightarrow> DeltaFunnelError + RecordBatch \<Rightarrow> sql_request list" where
  "attempted_batch api p (Inl _) = []"
| "attempted_batch api p (Inr b) = (if valid_batch api p b then [BatchRequest b] else [])"

definition timings_ok :: "string list \<Rightarrow> PhaseTimingReport list \<Rightarrow> bool" where
  "timings_ok names ts \<longleftrightarrow> map phase_name ts = names \<and> list_all timing_wf ts"

text \<open>
  The error of a run whose item \<open>x\<close> failed when the writer had accepted what the counters of
  \<open>st\<close> say.
\<close>

definition loop_failure ::
    "arrow_api \<Rightarrow> MssqlTargetOutputPlan \<Rightarrow> DeltaFunnelError + RecordBatch \<Rightarrow> loop_state
      \<Rightarrow> DeltaFunnelError \<Rightarrow> bool" where
  "loop_failure api p x st e \<longleftrightarrow>
     (\<exists>c. failure_context e = Some c \<and> fc_phase c = failing_phase api p x \<and>
        (let r = fc_report c in
         st_rows_written (wr_stats r) = ls_rows_written st \<and>
         st_batches_written (wr_stats r) = ls_batches_written st \<and>
         wr_output_row_count r = RowCount.Partial (seen_rows x (ls_rows_written st)) \<and>
         wr_partial_write_possible r =
           partial_write_possible p (ls_rows_written st) (ls_batches_written st) \<and>
         wr_cleanup r = NotApplicable \<and>
         wr_validation_status r = ValidationStatus.Skipped FailureBeforeValidation \<and>
         timings_ok LOOP_PHASES (wr_phase_timings r)))"

lemma loop_timing_lists_ok:
  "timings_ok LOOP_PHASES (poll_batch_stream_failed t)"
  "timings_ok LOOP_PHASES (validate_batch_schema_failed t)"
  "timings_ok LOOP_PHASES (write_batch_failed t)"
  "timings_ok LOOP_PHASES (finalize_failed d t)"
  "timings_ok LOOP_PHASES (loop_completed d t)"
  "timings_ok LOOP_PHASES (stream_benchmark_completed t)"
  by (simp_all add: timings_ok_def LOOP_PHASES_def loop_timing_lists)

lemmas loop_error_defs =
  mssql_write_phase_error_def mssql_batch_schema_validation_error_def
  mssql_arrow_sql_server_write_phase_error_def loop_failure_metrics_def
  write_failure_report_metrics_def write_report_metrics_def loop_progress_def

lemma write_loop_accepted:
  assumes valid: "api_validate_record_batch_schema api b (pl_schema_mappings p) = Inr u"
    and wrote: "bw_write_batch writer b (w_conn w) = (Inr v, s)"
  obtains f g w2 where
    "write_loop api writer p reporter started st (Inr b # items) w =
       write_loop api writer p reporter started
         (accept b (with_timings f (with_timings g (consume b (with_timings
           (add_poll_batch_stream (reading (tick w) - reading w)) st))))) items w2"
    and "w_conn w2 = s"
proof -
  have lhs: "write_loop api writer p reporter started st (Inr b # items) w = X \<Longrightarrow>
      \<exists>f g w2. X = write_loop api writer p reporter started
         (accept b (with_timings f (with_timings g (consume b (with_timings
           (add_poll_batch_stream (reading (tick w) - reading w)) st))))) items w2 \<and>
       w_conn w2 = s" for X
    by (simp add: valid wrote on_conn_def Let_def, intro exI conjI, erule sym) simp
  from lhs [OF refl] show thesis
    using that by blast
qed

text \<open>
  The result of writing a stream. Success: every item was a valid batch, the writer got all of
  them in order and was then finished, and the report counts them. Failure: the writer got the
  batches before the failing item (and the failing batch itself when it was the writer that
  refused it), and was finished only if the whole stream was written.
\<close>

definition written_report :: "MssqlTargetOutputPlan \<Rightarrow> RecordBatch list \<Rightarrow> MssqlWriteReport \<Rightarrow> bool" where
  "written_report p bs r \<longleftrightarrow>
     wr_output_name r = pl_output_name p \<and> wr_target_table r = pl_target_table p \<and>
     wr_load_mode r = pl_load_mode p \<and>
     wr_output_row_count r = RowCount.Exact (sum_rows 0 bs) \<and>
     st_rows_written (wr_stats r) = sum_rows 0 bs \<and>
     st_batches_written (wr_stats r) = sum_batches 0 bs \<and>
     wr_batch_shaping r =
       shaping_completed (sum_batches 0 bs) (sum_rows 0 bs) (sum_batches 0 bs) (sum_rows 0 bs)"

definition write_post ::
    "arrow_api \<Rightarrow> MssqlTargetOutputPlan \<Rightarrow> batch_stream \<Rightarrow> DeltaFunnelError + MssqlWriteReport
      \<Rightarrow> sql_request list \<Rightarrow> bool" where
  "write_post api p items r qs \<longleftrightarrow>
     (case r of
        Inr rep \<Rightarrow>
          \<exists>bs. items = map Inr bs \<and> list_all (valid_batch api p) bs \<and>
            qs = map BatchRequest bs @ [FinishRequest] \<and> written_report p bs rep \<and>
            wr_validation_status rep = ValidationStatus.Skipped ReportReasonCode.NotExecuted \<and>
            wr_cleanup rep = NotApplicable \<and> \<not> wr_partial_write_possible rep \<and>
            timings_ok LOOP_PHASES (wr_phase_timings rep)
      | Inl e \<Rightarrow>
          (\<exists>bs x rest st. items = map Inr bs @ x # rest \<and> list_all (valid_batch api p) bs \<and>
             qs = map BatchRequest bs @ attempted_batch api p x \<and>
             counted loop_init bs st \<and> loop_failure api p x st e) \<or>
          (\<exists>bs c. items = map Inr bs \<and> list_all (valid_batch api p) bs \<and>
             qs = map BatchRequest bs @ [FinishRequest] \<and> failure_context e = Some c \<and>
             fc_phase c = Finalize \<and> written_report p bs (fc_report c) \<and>
             wr_cleanup (fc_report c) = NotApplicable \<and>
             wr_partial_write_possible (fc_report c) =
               partial_write_possible p (sum_rows 0 bs) (sum_batches 0 bs) \<and>
             timings_ok LOOP_PHASES (wr_phase_timings (fc_report c))))"

locale writer_requests =
  fixes writer :: "'s bulk_load_writer"
    and sent :: "'s \<Rightarrow> sql_request list"
  assumes write_batch_sent:
      "bw_write_batch writer b s = (r, s') \<Longrightarrow> sent s' = sent s @ [BatchRequest b]"
    and finish_sent:
      "bw_finish writer s = (q, s') \<Longrightarrow> sent s' = sent s @ [FinishRequest]"
begin

lemma write_loop_run:
  assumes "write_loop api writer p reporter started st items w = (r, w')" and "balanced st"
  shows "(\<exists>bs st'. r = Inr st' \<and> items = map Inr bs \<and> list_all (valid_batch api p) bs \<and>
            counted st bs st' \<and>
            sent (w_conn w') = sent (w_conn w) @ map BatchRequest bs) \<or>
         (\<exists>bs x rest st' e. r = Inl e \<and> items = map Inr bs @ x # rest \<and>
            list_all (valid_batch api p) bs \<and> counted st bs st' \<and> loop_failure api p x st' e \<and>
            sent (w_conn w') =
              sent (w_conn w) @ map BatchRequest bs @ attempted_batch api p x)"
  using assms
proof (induction items arbitrary: st w)
  case Nil
  then have "r = Inr (with_timings (add_poll_batch_stream (reading (tick w) - reading w)) st)"
    "w' = tick (tick w)"
    by simp_all
  with Nil.prems(2) show ?case
    by (auto simp: counted_Nil)
next
  case (Cons item items)
  have here: ?case if "r = Inl e" "loop_failure api p item (with_timings f st) e"
      "sent (w_conn w') = sent (w_conn w) @ attempted_batch api p item" for e f
    using that Cons.prems(2)
    by (intro disjI2 exI [of _ "[]"] exI [of _ item] exI [of _ items]
        exI [of _ "with_timings f st"] exI [of _ e]) (simp add: counted_Nil)
  show ?case
  proof (cases item)
    case (Inl source)
    show ?thesis
      using Cons.prems Inl
      by (intro here [where f = "add_poll_batch_stream (reading (tick w) - reading w)"])
         (auto simp: Let_def loop_failure_def loop_error_defs report_simps with_timings_def
           loop_timing_lists_ok balanced_def)
  next
    case (Inr b)
    let ?poll = "add_poll_batch_stream (reading (tick w) - reading w)"
    show ?thesis
    proof (cases "api_validate_record_batch_schema api b (pl_schema_mappings p)")
      case (Inl source)
      then have "\<not> valid_batch api p b"
        by (simp add: valid_batch_def)
      with Cons.prems Inl \<open>item = Inr b\<close> show ?thesis
        by (intro here [where f = ?poll])
           (auto simp: Let_def loop_failure_def loop_error_defs report_simps with_timings_def
             consume_def loop_timing_lists_ok balanced_def)
    next
      case (Inr u)
      then have valid: "valid_batch api p b"
        by (simp add: valid_batch_def)
      let ?w = "tick (tick (tick (tick (tick w))))"
      obtain q s where wrote: "bw_write_batch writer b (w_conn w) = (q, s)"
        and on: "on_conn (bw_write_batch writer b) ?w = (q, ?w\<lparr>w_conn := s\<rparr>)"
        by (rule on_conn_cases [of "bw_write_batch writer b" ?w]) simp
      note sent_s = write_batch_sent [OF wrote]
      show ?thesis
      proof (cases q)
        case (Inl source)
        with Cons.prems \<open>item = Inr b\<close> Inr valid on sent_s show ?thesis
          by (intro here [where f = ?poll])
             (auto simp: Let_def loop_failure_def loop_error_defs report_simps with_timings_def
               consume_def loop_timing_lists_ok balanced_def)
      next
        case (Inr v)
        with wrote have "bw_write_batch writer b (w_conn w) = (Inr v, s)"
          by simp
        then obtain f g st2 w2 where st2: "st2 = accept b (with_timings f (with_timings g
              (consume b (with_timings ?poll st))))"
          and run: "write_loop api writer p reporter started st2 items w2 = (r, w')"
          and "w_conn w2 = s"
          using Cons.prems(1) \<open>item = Inr b\<close> write_loop_accepted [OF \<open>_ = Inr u\<close>, of writer w v s]
          by metis
        with sent_s have w2: "sent (w_conn w2) = sent (w_conn w) @ [BatchRequest b]"
          by simp
        have "balanced st2"
          using Cons.prems(2) by (simp add: st2)
        from Cons.IH [OF run this] show ?thesis
        proof (elim disjE exE conjE)
          fix bs st'
          assume "r = Inr st'" "items = map Inr bs" "list_all (valid_batch api p) bs"
            "counted st2 bs st'" "sent (w_conn w') = sent (w_conn w2) @ map BatchRequest bs"
          with \<open>item = Inr b\<close> valid w2 show ?thesis
            by (intro disjI1 exI [of _ "b # bs"] exI [of _ st'])
               (auto simp: st2 intro: counted_Cons)
        next
          fix bs x rest st' e
          assume "r = Inl e" "items = map Inr bs @ x # rest" "list_all (valid_batch api p) bs"
            "counted st2 bs st'" "loop_failure api p x st' e"
            "sent (w_conn w') = sent (w_conn w2) @ map BatchRequest bs @ attempted_batch api p x"
          with \<open>item = Inr b\<close> valid w2 show ?thesis
            by (intro disjI2 exI [of _ "b # bs"] exI [of _ x] exI [of _ rest] exI [of _ st']
                exI [of _ e]) (auto simp: st2 intro: counted_Cons)
        qed
      qed
    qed
  qed
qed

lemma emits_write:
  "emits (\<lambda>w. sent (w_conn w)) (write_mssql_batches_with_writer api writer p items reporter)
     (write_post api p items)"
  unfolding emits_def
proof (intro allI impI)
  fix w r w'
  assume run: "write_mssql_batches_with_writer api writer p items reporter w = (r, w')"
  obtain q w1 where loop: "write_loop api writer p reporter (reading w) loop_init items (tick w) = (q, w1)"
    by (metis surj_pair)
  from write_loop_run [OF loop balanced_init]
  show "\<exists>qs. sent (w_conn w') = sent (w_conn w) @ qs \<and> write_post api p items r qs"
  proof (elim disjE exE conjE)
    fix bs x rest st e
    assume fail: "q = Inl e" "items = map Inr bs @ x # rest" "list_all (valid_batch api p) bs"
      "counted loop_init bs st" "loop_failure api p x st e"
      "sent (w_conn w1) = sent (w_conn (tick w)) @ map BatchRequest bs @ attempted_batch api p x"
    from run loop fail(1) have "r = Inl e" "w' = w1"
      by (simp_all add: write_mssql_batches_with_writer_def)
    moreover have "write_post api p items (Inl e) (map BatchRequest bs @ attempted_batch api p x)"
      unfolding write_post_def using fail by auto
    ultimately show ?thesis
      using fail(6) by auto
  next
    fix bs st
    assume ok: "q = Inr st" "items = map Inr bs" "list_all (valid_batch api p) bs"
      "counted loop_init bs st"
      "sent (w_conn w1) = sent (w_conn (tick w)) @ map BatchRequest bs"
    obtain f s where fin: "bw_finish writer (w_conn (tick w1)) = (f, s)"
      and on: "on_conn (bw_finish writer) (tick w1) = (f, (tick w1)\<lparr>w_conn := s\<rparr>)"
      by (rule on_conn_cases)
    have "sent (w_conn w') = sent (w_conn w) @ map BatchRequest bs @ [FinishRequest]"
      using run loop ok on finish_sent [OF fin]
      by (cases f) (auto simp: write_mssql_batches_with_writer_def Let_def)
    moreover have "write_post api p items r (map BatchRequest bs @ [FinishRequest])"
      using run loop ok on
      by (cases f)
         (auto simp: write_mssql_batches_with_writer_def Let_def write_post_def written_report_def
           counted_def balanced_def loop_init_def loop_error_defs report_simps
           loop_shaping_completed_def loop_timing_lists_ok)
    ultimately show ?thesis
      by blast
  qed
qed

end

interpretation connected_writer: writer_requests "connected_bulk_writer srv" cn_sent
  for srv :: "'s sql_server"
  by unfold_locales
     (auto simp: connected_bulk_writer_def client_write_batch_def client_finish_def dest: send_sent)

end
