(* ===== verification/DF_Sink.thy ===== *)
theory DF_Sink
  imports DF_Write_Loop
begin

section \<open>The one-output sink\<close>

text \<open>
  \<open>sql_server/execution/connection.rs\<close> and \<open>sql_server/execution/sink.rs\<close>: connecting,
  preparing the target, writing, validating the row counts, swapping a replaced target and
  cleaning up after a failure. \<open>sink_connection\<close> is the trait
  \<open>MssqlOneOutputSinkConnection\<close>; \<open>connected_output_client\<close> is its production implementation.
\<close>

subsection \<open>Phase timers in a world\<close>

definition w_timer_start :: "string \<Rightarrow> 's world \<Rightarrow> PhaseTimer \<times> 's world" where
  "w_timer_start name w =
     (case PhaseTimer_start name (w_clock w) of (timer, k) \<Rightarrow> (timer, w\<lparr>w_clock := k\<rparr>))"

definition w_timer_completed :: "PhaseTimer \<Rightarrow> 's world \<Rightarrow> PhaseTimingReport \<times> 's world" where
  "w_timer_completed timer w =
     (case PhaseTimer_completed timer (w_clock w) of (t, k) \<Rightarrow> (t, w\<lparr>w_clock := k\<rparr>))"

definition w_timer_failed :: "PhaseTimer \<Rightarrow> 's world \<Rightarrow> PhaseTimingReport \<times> 's world" where
  "w_timer_failed timer w =
     (case PhaseTimer_failed timer (w_clock w) of (t, k) \<Rightarrow> (t, w\<lparr>w_clock := k\<rparr>))"

lemma w_timer_start_eq [simp]:
  "w_timer_start name w = (\<lparr>timer_phase_name = name, started_at = reading w\<rparr>, tick w)"
  by (simp add: w_timer_start_def PhaseTimer_start_def Instant_now_def reading_def tick_def)

lemma w_timer_completed_eq [simp]:
  "w_timer_completed timer w =
     (timing_completed (timer_phase_name timer) (reading w - started_at timer), tick w)"
  by (simp add: w_timer_completed_def PhaseTimer_completed_def Instant_elapsed_def Instant_now_def
      reading_def tick_def)

lemma w_timer_failed_eq [simp]:
  "w_timer_failed timer w =
     (timing_failed (timer_phase_name timer) (reading w - started_at timer), tick w)"
  by (simp add: w_timer_failed_def PhaseTimer_failed_def Instant_elapsed_def Instant_now_def
      reading_def tick_def)

subsection \<open>Connections\<close>

definition SQL_SERVER_CONNECTION_PHASE :: string where
  "SQL_SERVER_CONNECTION_PHASE = ''sql_server_connection''"

record MssqlOutputConnectionRequest =
  cr_output_plan :: MssqlTargetOutputPlan
  cr_connection :: MssqlConnectionConfig

definition request_from_planned_output ::
    "MssqlTargetOutputPlan \<Rightarrow> ResolvedMssqlTarget \<Rightarrow> MssqlOutputConnectionRequest" where
  "request_from_planned_output p t = \<lparr>cr_output_plan = p, cr_connection = rt_connection t\<rparr>"

definition request_cleanup_before_target_creation ::
    "MssqlOutputConnectionRequest \<Rightarrow> MssqlTargetCleanupStatus" where
  "request_cleanup_before_target_creation r =
     (case pl_load_mode (cr_output_plan r) of
        AppendExisting \<Rightarrow> NotApplicable
      | CreateAndLoad \<Rightarrow> NotAttempted
      | Replace \<Rightarrow> NotAttempted)"

definition plan_mssql_output_connection_request ::
    "arrow_api \<Rightarrow> Schema \<Rightarrow> ResolvedMssqlTarget \<Rightarrow> MssqlSchemaPlanOptions
      \<Rightarrow> DeltaFunnelError + MssqlOutputConnectionRequest" where
  "plan_mssql_output_connection_request api schema t options =
     res_bind (plan_mssql_output_schema api schema t options) (\<lambda>schema_plan.
     res_bind (plan_mssql_target_output api schema_plan) (\<lambda>output_plan.
     Inr \<lparr>cr_output_plan = output_plan, cr_connection = rt_connection t\<rparr>))"

definition connect_error ::
    "MssqlOutputConnectionRequest \<Rightarrow> MssqlTargetCleanupStatus \<Rightarrow> PhaseTimingReport \<Rightarrow> arrow_error
      \<Rightarrow> DeltaFunnelError" where
  "connect_error r cleanup timing source =
     ErrMssqlWritePhase
       (context_with_phase_timings [timing]
          (context_from_plan (cr_output_plan r) Connect 0 0 0 False cleanup))
       (ae_display source)"

definition connect_mssql_output_client ::
    "'s sql_server \<Rightarrow> MssqlOutputConnectionRequest
      \<Rightarrow> ('s conn world, DeltaFunnelError, PhaseTimingReport list) io" where
  "connect_mssql_output_client srv r w =
     (let cleanup = request_cleanup_before_target_creation r;
          (timer, w) = w_timer_start SQL_SERVER_CONNECTION_PHASE w;
          (connected, w) = on_conn (client_connect srv (cc_connection_string (cr_connection r))) w
      in case connected of
           Inl source \<Rightarrow>
             let (timing, w) = w_timer_failed timer w
             in (Inl (connect_error r cleanup timing source), w)
         | Inr _ \<Rightarrow>
             let (timing, w) = w_timer_completed timer w in (Inr [timing], w))"

record MssqlTargetRowCountFailure =
  rcf_reason :: ReportReasonCode
  rcf_message :: string

definition row_count_failure_from_arrow_sql_server :: "arrow_error \<Rightarrow> MssqlTargetRowCountFailure" where
  "row_count_failure_from_arrow_sql_server e =
     \<lparr>rcf_reason =
        (case ae_variant e of
           TargetRowCountQuery \<Rightarrow> PermissionUnavailable
         | TargetRowCountUnexpectedResult \<Rightarrow> CapabilityUnavailable
         | _ \<Rightarrow> CapabilityUnavailable),
      rcf_message = sanitize_text_for_display (ae_display e)\<rparr>"

subsection \<open>The sink connection trait\<close>

record 's sink_connection =
  sc_prepare_target_lifecycle ::
    "MssqlTargetOutputPlan \<Rightarrow> ('s, DeltaFunnelError, MssqlPreparedTarget) io"
  sc_enable_bulk_load_table_lock ::
    "MssqlTargetOutputPlan \<Rightarrow> MssqlPreparedTarget \<Rightarrow> ('s, DeltaFunnelError, bool) io"
  sc_disable_bulk_load_table_lock ::
    "MssqlTargetOutputPlan \<Rightarrow> MssqlPreparedTarget \<Rightarrow> ('s, DeltaFunnelError, unit) io"
  sc_initialize_writer ::
    "MssqlTargetOutputPlan \<Rightarrow> MssqlPreparedTarget \<Rightarrow> MssqlWriteBackend
      \<Rightarrow> ('s, DeltaFunnelError, 's bulk_load_writer) io"
  sc_cleanup_prepared_target ::
    "MssqlTargetOutputPlan \<Rightarrow> MssqlPreparedTarget option
      \<Rightarrow> ('s, DeltaFunnelError, MssqlTargetCleanupStatus) io"
  sc_target_row_count ::
    "MssqlTargetOutputPlan \<Rightarrow> MssqlPreparedTarget \<Rightarrow> ('s, MssqlTargetRowCountFailure, u64) io"
  sc_swap_prepared_replace_target ::
    "MssqlTargetOutputPlan \<Rightarrow> MssqlPreparedTarget \<Rightarrow> ('s, DeltaFunnelError, unit) io"

definition BULK_LOAD_TABLE_LOCK_PERMISSION_DENIED_ERROR :: nat where
  "BULK_LOAD_TABLE_LOCK_PERMISSION_DENIED_ERROR = 297"

definition bulk_load_table_lock_enable_error_is_nonfatal :: "nat \<Rightarrow> bool" where
  "bulk_load_table_lock_enable_error_is_nonfatal error_code \<longleftrightarrow>
     error_code = BULK_LOAD_TABLE_LOCK_PERMISSION_DENIED_ERROR"

definition bulk_load_table_lock_nonfatal_error_code :: "arrow_error \<Rightarrow> nat option" where
  "bulk_load_table_lock_nonfatal_error_code e =
     Option.bind
       (case ae_variant e of SqlExecution n \<Rightarrow> n | _ \<Rightarrow> None)
       (\<lambda>n. if bulk_load_table_lock_enable_error_is_nonfatal n then Some n else None)"

definition bulk_load_table_lock_error ::
    "MssqlTargetOutputPlan \<Rightarrow> MssqlWritePhase \<Rightarrow> arrow_error \<Rightarrow> bool \<Rightarrow> DeltaFunnelError" where
  "bulk_load_table_lock_error p phase source partial =
     ErrMssqlWritePhase (context_from_plan p phase 0 0 0 partial NotAttempted) (ae_display source)"

definition enable_bulk_load_table_lock ::
    "'s sql_server \<Rightarrow> MssqlTargetOutputPlan \<Rightarrow> MssqlPreparedTarget
      \<Rightarrow> ('s conn, DeltaFunnelError, bool) io" where
  "enable_bulk_load_table_lock srv p t c =
     (case client_set_bulk_load_table_lock srv (pt_table_name t) True c of
        (Inr _, c) \<Rightarrow> (Inr True, c)
      | (Inl source, c) \<Rightarrow>
          (case bulk_load_table_lock_nonfatal_error_code source of
             None \<Rightarrow> (Inl (bulk_load_table_lock_error p PrepareTargetLifecycle source False), c)
           | Some _ \<Rightarrow> (Inr False, c)))"

definition disable_bulk_load_table_lock ::
    "'s sql_server \<Rightarrow> MssqlTargetOutputPlan \<Rightarrow> MssqlPreparedTarget
      \<Rightarrow> ('s conn, DeltaFunnelError, unit) io" where
  "disable_bulk_load_table_lock srv p t =
     io_map_err (\<lambda>source. bulk_load_table_lock_error p SwapTarget source True)
       (client_set_bulk_load_table_lock srv (pt_table_name t) False)"

definition connected_target_row_count ::
    "'s sql_server \<Rightarrow> MssqlPreparedTarget \<Rightarrow> ('s conn, MssqlTargetRowCountFailure, u64) io" where
  "connected_target_row_count srv t =
     io_map_err row_count_failure_from_arrow_sql_server
       (client_target_row_count srv (pt_table_name t))"

text \<open>The production client initialises its writer for the plan it was connected with.\<close>

definition connected_output_client ::
    "arrow_api \<Rightarrow> 's sql_server \<Rightarrow> MssqlTargetOutputPlan \<Rightarrow> 's conn sink_connection" where
  "connected_output_client api srv own_plan =
     \<lparr>sc_prepare_target_lifecycle =
        (\<lambda>p. prepare_mssql_target_lifecycle api p (connected_lifecycle_client srv)),
      sc_enable_bulk_load_table_lock = enable_bulk_load_table_lock srv,
      sc_disable_bulk_load_table_lock = disable_bulk_load_table_lock srv,
      sc_initialize_writer = (\<lambda>_ t options. initialize_mssql_bulk_writer srv own_plan t options),
      sc_cleanup_prepared_target =
        (\<lambda>p t. cleanup_mssql_prepared_target api p t (connected_lifecycle_client srv)),
      sc_target_row_count = (\<lambda>_ t. connected_target_row_count srv t),
      sc_swap_prepared_replace_target =
        (\<lambda>p t. swap_mssql_replace_target api p t (connected_lifecycle_client srv))\<rparr>"

subsection \<open>Updating reports and errors\<close>

definition PREPARE_TARGET_LIFECYCLE_PHASE :: string where
  "PREPARE_TARGET_LIFECYCLE_PHASE = ''prepare_target_lifecycle''"

definition INITIALIZE_WRITER_PHASE :: string where
  "INITIALIZE_WRITER_PHASE = ''initialize_writer''"

definition CLEANUP_PHASE :: string where
  "CLEANUP_PHASE = ''cleanup''"

definition SWAP_TARGET_PHASE :: string where
  "SWAP_TARGET_PHASE = ''swap_target''"

definition metrics_from_report_with_partial ::
    "MssqlWriteReport \<Rightarrow> bool \<Rightarrow> MssqlWriteReportMetrics" where
  "metrics_from_report_with_partial r partial =
     metrics_with_phase_timings (wr_phase_timings r)
       (metrics_with_target_delta_validation (wr_target_row_count_before_write r)
          (wr_target_row_count r) (wr_validation_status r)
          (metrics_new (wr_output_row_count r) (wr_batch_shaping r)
             (st_rows_written (wr_stats r)) (st_batches_written (wr_stats r))
             (st_elapsed_ms (wr_stats r)) partial (wr_cleanup r)))"

definition report_metrics_from_report :: "MssqlWriteReport \<Rightarrow> MssqlWriteReportMetrics" where
  "report_metrics_from_report r =
     metrics_from_report_with_partial r (wr_partial_write_possible r)"

definition validation_error ::
    "MssqlTargetOutputPlan \<Rightarrow> MssqlWriteReport \<Rightarrow> string \<Rightarrow> DeltaFunnelError" where
  "validation_error p r msg =
     ErrMssqlWritePhase
       (context_from_plan_with_metrics p Validation (report_metrics_from_report r)) msg"

definition error_with_report_metrics ::
    "MssqlTargetOutputPlan \<Rightarrow> DeltaFunnelError \<Rightarrow> MssqlWritePhase \<Rightarrow> MssqlWriteReport
      \<Rightarrow> DeltaFunnelError" where
  "error_with_report_metrics p e phase r =
     (let (msg, partial) =
        (case e of
           ErrMssqlWritePhase c msg \<Rightarrow> (msg, wr_partial_write_possible (fc_report c))
         | other \<Rightarrow> (DeltaFunnelError_display other, True))
      in ErrMssqlWritePhase
           (context_from_plan_with_metrics p phase (metrics_from_report_with_partial r partial))
           msg)"

definition error_map_context ::
    "(MssqlWriteFailureContext \<Rightarrow> MssqlWriteFailureContext) \<Rightarrow> DeltaFunnelError
      \<Rightarrow> DeltaFunnelError" where
  "error_map_context f e =
     (case e of
        ErrMssqlWritePhase c msg \<Rightarrow> ErrMssqlWritePhase (f c) msg
      | MssqlBatchSchemaValidation c source \<Rightarrow> MssqlBatchSchemaValidation (f c) source
      | other \<Rightarrow> other)"

definition error_with_phase_timings ::
    "DeltaFunnelError \<Rightarrow> PhaseTimingReport list \<Rightarrow> DeltaFunnelError" where
  "error_with_phase_timings e ts = error_map_context (context_with_phase_timings ts) e"

definition error_with_appended_phase_timings ::
    "DeltaFunnelError \<Rightarrow> PhaseTimingReport list \<Rightarrow> DeltaFunnelError" where
  "error_with_appended_phase_timings e ts =
     error_map_context (context_with_appended_phase_timings ts) e"

definition context_with_cleanup ::
    "MssqlTargetOutputPlan \<Rightarrow> MssqlWriteFailureContext \<Rightarrow> MssqlTargetCleanupStatus
      \<Rightarrow> MssqlWriteFailureContext" where
  "context_with_cleanup p c cleanup =
     context_with_diagnostics (fc_diagnostics c)
       (context_from_plan_with_metrics p (fc_phase c)
          (let r = fc_report c in
           metrics_with_phase_timings (wr_phase_timings r)
             (metrics_with_target_delta_validation (wr_target_row_count_before_write r)
                (wr_target_row_count r) (wr_validation_status r)
                (metrics_new (wr_output_row_count r) (wr_batch_shaping r)
                   (st_rows_written (wr_stats r)) (st_batches_written (wr_stats r))
                   (st_elapsed_ms (wr_stats r)) (wr_partial_write_possible r) cleanup))))"

definition error_with_cleanup ::
    "MssqlTargetOutputPlan \<Rightarrow> DeltaFunnelError \<Rightarrow> MssqlTargetCleanupStatus \<Rightarrow> DeltaFunnelError" where
  "error_with_cleanup p e cleanup =
     error_map_context (\<lambda>c. context_with_cleanup p c cleanup) e"

definition error_with_cleanup_failure ::
    "MssqlTargetOutputPlan \<Rightarrow> DeltaFunnelError \<Rightarrow> DeltaFunnelError \<Rightarrow> DeltaFunnelError" where
  "error_with_cleanup_failure p e cleanup_err =
     (let cleanup_message = DeltaFunnelError_display cleanup_err;
          failed = (\<lambda>c. context_with_cleanup_error cleanup_message
                      (context_with_cleanup p c MssqlTargetCleanupStatus.Failed))
      in case e of
           ErrMssqlWritePhase c msg \<Rightarrow>
             ErrMssqlWritePhase (failed c) (msg @ ''; cleanup failed: '' @ cleanup_message)
         | MssqlBatchSchemaValidation c source \<Rightarrow> MssqlBatchSchemaValidation (failed c) source
         | other \<Rightarrow> other)"

subsection \<open>Validation of the written target\<close>

datatype TargetRowCountBeforeWrite =
    NotRequired
  | BeforeExact u64
  | BeforeUnavailable ReportReasonCode string

definition validation_unavailable_status :: "bool \<Rightarrow> ReportReasonCode \<Rightarrow> ValidationStatus" where
  "validation_unavailable_status required reason =
     (if required then ValidationStatus.RequiredButFailed reason
      else ValidationStatus.Unavailable reason)"

definition unsupported_target_validation ::
    "MssqlTargetOutputPlan \<Rightarrow> MssqlWriteReport \<Rightarrow> bool \<Rightarrow> DeltaFunnelError + MssqlWriteReport" where
  "unsupported_target_validation p r required =
     (let r = report_with_target_validation RowCount.Unavailable
                (validation_unavailable_status required UnsupportedLoadMode)
                (timing_skipped VALIDATION_PHASE UnsupportedLoadMode) r
      in if required then
           Inl (validation_error p r
                  ''target row-count validation is not implemented for this load mode'')
         else Inr r)"

definition validation_unavailable_or_required_failure ::
    "MssqlTargetOutputPlan \<Rightarrow> MssqlWriteReport \<Rightarrow> ReportReasonCode \<Rightarrow> bool \<Rightarrow> string
      \<Rightarrow> DeltaFunnelError + MssqlWriteReport" where
  "validation_unavailable_or_required_failure p r reason required msg =
     (let r = report_with_target_validation RowCount.Unavailable
                (validation_unavailable_status required reason)
                (timing_unavailable VALIDATION_PHASE reason) r
      in if required \<or> pl_load_mode p = Replace then Inl (validation_error p r msg) else Inr r)"

definition target_delta_validation_unavailable_or_required_failure ::
    "MssqlTargetOutputPlan \<Rightarrow> MssqlWriteReport \<Rightarrow> ReportReasonCode \<Rightarrow> bool \<Rightarrow> string \<Rightarrow> RowCount
      \<Rightarrow> DeltaFunnelError + MssqlWriteReport" where
  "target_delta_validation_unavailable_or_required_failure p r reason required msg prior =
     (let r = report_with_target_delta_validation prior RowCount.Unavailable
                (validation_unavailable_status required reason)
                (timing_unavailable VALIDATION_PHASE reason) r
      in if required then Inl (validation_error p r msg) else Inr r)"

definition pre_write_required_validation_error ::
    "MssqlTargetOutputPlan \<Rightarrow> MssqlPreparedTarget \<Rightarrow> ReportReasonCode \<Rightarrow> string
      \<Rightarrow> DeltaFunnelError" where
  "pre_write_required_validation_error p t reason msg =
     validation_error p
       (report_from_plan_with_metrics p
          (metrics_with_phase_timings [timing_unavailable VALIDATION_PHASE reason]
             (metrics_with_target_delta_validation RowCount.Unavailable RowCount.Unavailable
                (ValidationStatus.RequiredButFailed reason)
                (metrics_new RowCount.Unavailable
                   (shaping_not_started ReportReasonCode.NotExecuted) 0 0 0 False
                   (ptr_cleanup (pt_report t))))))
       msg"

definition missing_exact_output_rows_validation ::
    "MssqlTargetOutputPlan \<Rightarrow> MssqlWriteReport \<Rightarrow> bool \<Rightarrow> TargetRowCountBeforeWrite
      \<Rightarrow> DeltaFunnelError + MssqlWriteReport" where
  "missing_exact_output_rows_validation p r required prior =
     (case (pl_load_mode p, prior) of
        (AppendExisting, BeforeExact n) \<Rightarrow>
          target_delta_validation_unavailable_or_required_failure p r MissingExactOutputRows
            required ''target row-count validation requires exact output rows'' (RowCount.Exact n)
      | _ \<Rightarrow>
          validation_unavailable_or_required_failure p r MissingExactOutputRows required
            ''target row-count validation requires exact output rows'')"

definition target_row_count_before_append_write ::
    "'s sink_connection \<Rightarrow> MssqlTargetOutputPlan \<Rightarrow> MssqlPreparedTarget \<Rightarrow> ValidationOptions
      \<Rightarrow> ('s world, DeltaFunnelError, TargetRowCountBeforeWrite) io" where
  "target_row_count_before_append_write conn p t options w =
     (if target_validation_mode options = TargetValidationMode.Disabled \<or>
         pl_load_mode p \<noteq> AppendExisting
      then (Inr NotRequired, w)
      else case on_conn (sc_target_row_count conn p t) w of
             (Inr rows, w) \<Rightarrow> (Inr (BeforeExact rows), w)
           | (Inl failure, w) \<Rightarrow>
               if target_validation_mode options = Require then
                 (Inl (pre_write_required_validation_error p t (rcf_reason failure)
                         (rcf_message failure)), w)
               else (Inr (BeforeUnavailable (rcf_reason failure) (rcf_message failure)), w))"

definition validate_append_existing_target_delta ::
    "'s sink_connection \<Rightarrow> MssqlTargetOutputPlan \<Rightarrow> MssqlPreparedTarget \<Rightarrow> MssqlWriteReport \<Rightarrow> bool
      \<Rightarrow> TargetRowCountBeforeWrite \<Rightarrow> u64 \<Rightarrow> ('s world, DeltaFunnelError, MssqlWriteReport) io" where
  "validate_append_existing_target_delta conn p t r required prior output_rows w =
     (case prior of
        BeforeUnavailable reason msg \<Rightarrow>
          (validation_unavailable_or_required_failure p r reason required msg, w)
      | NotRequired \<Rightarrow>
          (validation_unavailable_or_required_failure p r MissingTargetAccess required
             ''target row-count validation requires target rows before append write'', w)
      | BeforeExact rows_before \<Rightarrow>
          let (timer, w) = w_timer_start VALIDATION_PHASE w
          in case on_conn (sc_target_row_count conn p t) w of
               (Inl failure, w) \<Rightarrow>
                 (target_delta_validation_unavailable_or_required_failure p r
                    (rcf_reason failure) required (rcf_message failure)
                    (RowCount.Exact rows_before), w)
             | (Inr rows_after, w) \<Rightarrow>
                 if checked_sub rows_after rows_before = Some output_rows then
                   let (timing, w) = w_timer_completed timer w
                   in (Inr (report_with_target_delta_validation (RowCount.Exact rows_before)
                        (RowCount.Exact rows_after) ValidationStatus.Passed timing r), w)
                 else
                   let (timing, w) = w_timer_failed timer w
                   in (Inl (validation_error p
                        (report_with_target_delta_validation (RowCount.Exact rows_before)
                           (RowCount.Exact rows_after) ValidationStatus.Failed timing r)
                        ''target row-count delta did not match exact output rows''), w))"

definition validate_written_target ::
    "'s sink_connection \<Rightarrow> MssqlTargetOutputPlan \<Rightarrow> MssqlPreparedTarget \<Rightarrow> MssqlWriteReport
      \<Rightarrow> ValidationOptions \<Rightarrow> TargetRowCountBeforeWrite
      \<Rightarrow> ('s world, DeltaFunnelError, MssqlWriteReport) io" where
  "validate_written_target conn p t r options prior w =
     (case target_validation_mode options of
        TargetValidationMode.Disabled \<Rightarrow>
          let r = report_with_target_validation RowCount.Unavailable ValidationStatus_disabled
                    (timing_skipped VALIDATION_PHASE ValidationDisabled) r
          in if pl_load_mode p = Replace then
               (Inl (validation_error p r ''replace target swap requires target validation''), w)
             else (Inr r, w)
      | mode \<Rightarrow>
          let required = (mode = Require)
          in case RowCount_exact_value (wr_output_row_count r) of
               None \<Rightarrow> (missing_exact_output_rows_validation p r required prior, w)
             | Some output_rows \<Rightarrow>
                 if pl_load_mode p = AppendExisting then
                   validate_append_existing_target_delta conn p t r required prior output_rows w
                 else if \<not> (pl_load_mode p = CreateAndLoad \<or> pl_load_mode p = Replace) then
                   (unsupported_target_validation p r required, w)
                 else
                   let (timer, w) = w_timer_start VALIDATION_PHASE w
                   in case on_conn (sc_target_row_count conn p t) w of
                        (Inl failure, w) \<Rightarrow>
                          (validation_unavailable_or_required_failure p r (rcf_reason failure)
                             required (rcf_message failure), w)
                      | (Inr target_rows, w) \<Rightarrow>
                          if target_rows = output_rows then
                            let (timing, w) = w_timer_completed timer w
                            in (Inr (report_with_target_validation (RowCount.Exact target_rows)
                                 ValidationStatus.Passed timing r), w)
                          else
                            let (timing, w) = w_timer_failed timer w
                            in (Inl (validation_error p
                                 (report_with_target_validation (RowCount.Exact target_rows)
                                    ValidationStatus.Failed timing r)
                                 ''target row count did not match exact output rows''), w))"

subsection \<open>Swap and cleanup\<close>

definition swap_replace_target_after_validation ::
    "'s sink_connection \<Rightarrow> MssqlTargetOutputPlan \<Rightarrow> MssqlPreparedTarget \<Rightarrow> MssqlWriteReport \<Rightarrow> bool
      \<Rightarrow> ('s world, DeltaFunnelError, MssqlWriteReport) io" where
  "swap_replace_target_after_validation conn p t r lock_enabled w =
     (if pl_load_mode p \<noteq> Replace then (Inr r, w)
      else if wr_validation_status r \<noteq> ValidationStatus.Passed then
        (Inl (validation_error p r ''replace target swap requires passed staging validation''), w)
      else
        let (timer, w) = w_timer_start SWAP_TARGET_PHASE w;
            (unlocked, w) =
              (if lock_enabled then on_conn (sc_disable_bulk_load_table_lock conn p t) w
               else (Inr (), w))
        in case unlocked of
             Inl e \<Rightarrow>
               let (timing, w) = w_timer_failed timer w
               in (Inl (error_with_appended_phase_timings
                    (error_with_report_metrics p e SwapTarget r) [timing]), w)
           | Inr _ \<Rightarrow>
               (case on_conn (sc_swap_prepared_replace_target conn p t) w of
                  (Inr _, w) \<Rightarrow>
                    let (timing, w) = w_timer_completed timer w
                    in (Inr (report_with_appended_phase_timings [timing] r), w)
                | (Inl e, w) \<Rightarrow>
                    let (timing, w) = w_timer_failed timer w
                    in (Inl (error_with_appended_phase_timings
                         (error_with_report_metrics p e SwapTarget r) [timing]), w)))"

definition emit_progress_phase ::
    "ProgressReporter option \<Rightarrow> ProgressPhase \<Rightarrow> string \<Rightarrow> 's world \<Rightarrow> 's world" where
  "emit_progress_phase reporter phase name w =
     w_emit reporter (phase_changed phase (Some name)) w"

definition cleanup_after_prepared_target_failure ::
    "'s sink_connection \<Rightarrow> MssqlTargetOutputPlan \<Rightarrow> MssqlPreparedTarget \<Rightarrow> DeltaFunnelError
      \<Rightarrow> ProgressReporter option \<Rightarrow> 's world \<Rightarrow> DeltaFunnelError \<times> 's world" where
  "cleanup_after_prepared_target_failure conn p t e reporter w =
     (let w = (if ptr_cleanup (pt_report t) \<noteq> NotApplicable
               then emit_progress_phase reporter CleaningUp (pl_output_name p) w else w);
          (timer, w) = w_timer_start CLEANUP_PHASE w
      in case on_conn (sc_cleanup_prepared_target conn p (Some t)) w of
           (Inr cleanup, w) \<Rightarrow>
             let (timing, w) = w_timer_completed timer w
             in (error_with_appended_phase_timings (error_with_cleanup p e cleanup) [timing], w)
         | (Inl cleanup_err, w) \<Rightarrow>
             let (timing, w) = w_timer_failed timer w
             in (error_with_appended_phase_timings
                   (error_with_cleanup_failure p e cleanup_err) [timing], w))"

definition fail_with_cleanup ::
    "'s sink_connection \<Rightarrow> MssqlTargetOutputPlan \<Rightarrow> MssqlPreparedTarget \<Rightarrow> DeltaFunnelError
      \<Rightarrow> ProgressReporter option \<Rightarrow> ('s world, DeltaFunnelError, 'a) io" where
  "fail_with_cleanup conn p t e reporter w =
     (case cleanup_after_prepared_target_failure conn p t e reporter w of (e, w) \<Rightarrow> (Inl e, w))"

subsection \<open>Writing one output\<close>

definition write_prepared_batches ::
    "arrow_api \<Rightarrow> 's sink_connection \<Rightarrow> MssqlTargetOutputPlan \<Rightarrow> MssqlPreparedTarget \<Rightarrow> batch_stream
      \<Rightarrow> MssqlWriteBackend \<Rightarrow> ProgressReporter option
      \<Rightarrow> ('s world, DeltaFunnelError, MssqlWriteReport) io" where
  "write_prepared_batches api conn p t batches options reporter w =
     (let (timer, w) = w_timer_start INITIALIZE_WRITER_PHASE w
      in case on_conn (sc_initialize_writer conn p t options) w of
           (Inl e, w) \<Rightarrow>
             let (timing, w) = w_timer_failed timer w
             in (Inl (error_with_phase_timings e [timing]), w)
         | (Inr writer, w) \<Rightarrow>
             let (timing, w) = w_timer_completed timer w
             in case write_mssql_batches_with_writer api writer p batches reporter w of
                  (Inr report, w) \<Rightarrow> (Inr (report_with_phase_timings [timing] report), w)
                | (Inl e, w) \<Rightarrow> (Inl (error_with_phase_timings e [timing]), w))"

definition validates :: "ValidationOptions \<Rightarrow> MssqlTargetOutputPlan \<Rightarrow> bool" where
  "validates options p \<longleftrightarrow>
     target_validation_mode options \<noteq> TargetValidationMode.Disabled \<or> pl_load_mode p = Replace"

definition finish_written_output ::
    "'s sink_connection \<Rightarrow> MssqlTargetOutputPlan \<Rightarrow> MssqlPreparedTarget \<Rightarrow> ValidationOptions
      \<Rightarrow> TargetRowCountBeforeWrite \<Rightarrow> bool \<Rightarrow> ProgressReporter option \<Rightarrow> MssqlWriteReport
      \<Rightarrow> ('s world, DeltaFunnelError, MssqlWriteReport) io" where
  "finish_written_output conn p t options prior lock_enabled reporter report w =
     (let w = (if validates options p
               then emit_progress_phase reporter Validating (pl_output_name p) w else w)
      in case validate_written_target conn p t report options prior w of
           (Inl e, w) \<Rightarrow> fail_with_cleanup conn p t e reporter w
         | (Inr report, w) \<Rightarrow>
             let w = (if pl_load_mode p = Replace
                      then emit_progress_phase reporter SwappingTarget (pl_output_name p) w else w)
             in case swap_replace_target_after_validation conn p t report lock_enabled w of
                  (Inr report, w) \<Rightarrow> (Inr report, w)
                | (Inl e, w) \<Rightarrow> fail_with_cleanup conn p t e reporter w)"

definition write_prepared_output ::
    "arrow_api \<Rightarrow> 's sink_connection \<Rightarrow> MssqlTargetOutputPlan \<Rightarrow> MssqlPreparedTarget \<Rightarrow> batch_stream
      \<Rightarrow> MssqlWriteBackend \<Rightarrow> ValidationOptions \<Rightarrow> PhaseTimingReport list \<Rightarrow> bool
      \<Rightarrow> ProgressReporter option \<Rightarrow> ('s world, DeltaFunnelError, MssqlWriteReport) io" where
  "write_prepared_output api conn p t batches backend options timings lock_enabled reporter w =
     (case target_row_count_before_append_write conn p t options w of
        (Inl e, w) \<Rightarrow>
          fail_with_cleanup conn p t (error_with_phase_timings e timings) reporter w
      | (Inr prior, w) \<Rightarrow>
          let w = emit_progress_phase reporter Writing (pl_output_name p) w
          in case write_prepared_batches api conn p t batches backend reporter w of
               (Inl e, w) \<Rightarrow>
                 fail_with_cleanup conn p t (error_with_phase_timings e timings) reporter w
             | (Inr report, w) \<Rightarrow>
                 finish_written_output conn p t options prior lock_enabled reporter
                   (report_with_phase_timings timings
                      (report_with_cleanup (ptr_cleanup (pt_report t)) report)) w)"

definition run_mssql_output_batches_on_connection ::
    "arrow_api \<Rightarrow> 's sink_connection \<Rightarrow> MssqlTargetOutputPlan \<Rightarrow> batch_stream \<Rightarrow> MssqlWriteBackend
      \<Rightarrow> ValidationOptions \<Rightarrow> PhaseTimingReport list \<Rightarrow> ProgressReporter option
      \<Rightarrow> ('s world, DeltaFunnelError, MssqlWriteReport) io" where
  "run_mssql_output_batches_on_connection api conn p batches backend options timings reporter w =
     (let w = emit_progress_phase reporter PreparingTarget (pl_output_name p) w;
          (timer, w) = w_timer_start PREPARE_TARGET_LIFECYCLE_PHASE w
      in case on_conn (sc_prepare_target_lifecycle conn p) w of
           (Inl e, w) \<Rightarrow>
             let (timing, w) = w_timer_failed timer w
             in (Inl (error_with_phase_timings e (timings @ [timing])), w)
         | (Inr t, w) \<Rightarrow>
             (case (if pl_load_mode p = Replace
                    then on_conn (sc_enable_bulk_load_table_lock conn p t) w
                    else (Inr False, w)) of
                (Inl e, w) \<Rightarrow>
                  let (timing, w) = w_timer_failed timer w
                  in fail_with_cleanup conn p t (error_with_phase_timings e (timings @ [timing]))
                       reporter w
              | (Inr lock_enabled, w) \<Rightarrow>
                  let (timing, w) = w_timer_completed timer w
                  in write_prepared_output api conn p t batches backend options
                       (timings @ [timing]) lock_enabled reporter w))"

definition run_mssql_output_connection_request ::
    "arrow_api \<Rightarrow> 's sql_server \<Rightarrow> MssqlOutputConnectionRequest \<Rightarrow> batch_stream \<Rightarrow> MssqlWriteBackend
      \<Rightarrow> ValidationOptions \<Rightarrow> ProgressReporter option
      \<Rightarrow> ('s conn world, DeltaFunnelError, MssqlWriteReport) io" where
  "run_mssql_output_connection_request api srv request batches backend options reporter w =
     (case connect_mssql_output_client srv request w of
        (Inl e, w) \<Rightarrow> (Inl e, w)
      | (Inr timings, w) \<Rightarrow>
          run_mssql_output_batches_on_connection api
            (connected_output_client api srv (cr_output_plan request)) (cr_output_plan request)
            batches backend options timings reporter w)"

definition write_output_connection_request_for_workflow ::
    "arrow_api \<Rightarrow> 's sql_server \<Rightarrow> MssqlOutputConnectionRequest \<Rightarrow> batch_stream \<Rightarrow> MssqlWriteBackend
      \<Rightarrow> ValidationOptions \<Rightarrow> ProgressReporter option
      \<Rightarrow> ('s conn world, DeltaFunnelError, MssqlWriteReport) io" where
  "write_output_connection_request_for_workflow api srv request batches backend options reporter w =
     run_mssql_output_connection_request api srv request batches backend options reporter
       (emit_progress_phase reporter Connecting (pl_output_name (cr_output_plan request)) w)"

definition write_output_batches_to_mssql ::
    "arrow_api \<Rightarrow> 's sql_server \<Rightarrow> Schema \<Rightarrow> ResolvedMssqlTarget \<Rightarrow> MssqlSchemaPlanOptions
      \<Rightarrow> batch_stream \<Rightarrow> MssqlWriteBackend \<Rightarrow> ('s conn world, DeltaFunnelError, MssqlWriteReport) io" where
  "write_output_batches_to_mssql api srv schema t schema_options batches backend w =
     (case plan_mssql_output_connection_request api schema t schema_options of
        Inl e \<Rightarrow> (Inl e, w)
      | Inr request \<Rightarrow>
          run_mssql_output_connection_request api srv request batches backend
            ValidationOptions_new None w)"

definition write_output_batches_to_mssql_for_workflow ::
    "arrow_api \<Rightarrow> 's sql_server \<Rightarrow> Schema \<Rightarrow> ResolvedMssqlTarget \<Rightarrow> MssqlSchemaPlanOptions
      \<Rightarrow> batch_stream \<Rightarrow> MssqlWriteBackend \<Rightarrow> ValidationOptions \<Rightarrow> ProgressReporter option
      \<Rightarrow> ('s conn world, DeltaFunnelError, MssqlWriteReport) io" where
  "write_output_batches_to_mssql_for_workflow api srv schema t schema_options batches backend
       options reporter w =
     (case plan_mssql_output_connection_request api schema t schema_options of
        Inl e \<Rightarrow> (Inl e, w)
      | Inr request \<Rightarrow>
          write_output_connection_request_for_workflow api srv request batches backend options
            reporter w)"

definition write_planned_output_batches_to_mssql_for_workflow ::
    "arrow_api \<Rightarrow> 's sql_server \<Rightarrow> MssqlTargetOutputPlan \<Rightarrow> ResolvedMssqlTarget \<Rightarrow> batch_stream
      \<Rightarrow> MssqlWriteBackend \<Rightarrow> ValidationOptions \<Rightarrow> ProgressReporter option
      \<Rightarrow> ('s conn world, DeltaFunnelError, MssqlWriteReport) io" where
  "write_planned_output_batches_to_mssql_for_workflow api srv p t batches backend options reporter =
     write_output_connection_request_for_workflow api srv (request_from_planned_output p t)
       batches backend options reporter"

end
