(* ===== verification/DF_Sink_Protocol.thy ===== *)
theory DF_Sink_Protocol
  imports DF_Sink
begin

section \<open>The request protocol of the sink\<close>

text \<open>
  What the sink does to the server, stated over the requests it sends. The locale
  \<open>sink_requests\<close> is the contract the sink relies on: what each operation of its connection
  sends, in terms of the lifecycle postconditions. The protocol of a whole run is proved in it
  once, and the production connection is an instance.
\<close>

definition writer_contract :: "('s \<Rightarrow> sql_request list) \<Rightarrow> 's bulk_load_writer \<Rightarrow> bool" where
  "writer_contract sent writer \<longleftrightarrow>
     (\<forall>b. emits sent (bw_write_batch writer b) (\<lambda>_ qs. qs = [BatchRequest b])) \<and>
     emits sent (bw_finish writer) (\<lambda>_ qs. qs = [FinishRequest])"

lemma writer_contract_requests: "writer_contract sent writer \<longleftrightarrow> writer_requests writer sent"
  by (auto simp: writer_contract_def writer_requests_def emits_def)

definition opens_writer ::
    "('s \<Rightarrow> sql_request list) \<Rightarrow> MssqlPreparedTarget \<Rightarrow> DeltaFunnelError + 's bulk_load_writer
      \<Rightarrow> sql_request list \<Rightarrow> bool" where
  "opens_writer sent t r qs \<longleftrightarrow>
     (case r of
        Inr writer \<Rightarrow> writer_contract sent writer \<and>
          (\<exists>ps b. qs = [OpenWriterRequest (pt_table_name t) ps b])
      | Inl _ \<Rightarrow> qs = [] \<or> (\<exists>ps b. qs = [OpenWriterRequest (pt_table_name t) ps b]))"

locale sink_requests =
  fixes conn :: "'s sink_connection"
    and sent :: "'s \<Rightarrow> sql_request list"
    and api :: arrow_api
  assumes prepare_law: "emits sent (sc_prepare_target_lifecycle conn p) (prepare_post api p)"
    and enable_law: "emits sent (sc_enable_bulk_load_table_lock conn p t)
          (\<lambda>_ qs. qs = [TableLockRequest (pt_table_name t) True])"
    and disable_law: "emits sent (sc_disable_bulk_load_table_lock conn p t)
          (\<lambda>_ qs. qs = [TableLockRequest (pt_table_name t) False])"
    and writer_law: "emits sent (sc_initialize_writer conn p t backend) (opens_writer sent t)"
    and cleanup_law: "emits sent (sc_cleanup_prepared_target conn p (Some t)) (cleanup_post api p t)"
    and row_count_law: "emits sent (sc_target_row_count conn p t)
          (\<lambda>_ qs. qs = [RowCountRequest (pt_table_name t)])"
    and swap_law: "emits sent (sc_swap_prepared_replace_target conn p t) (swap_post api p t)"

subsection \<open>Reports through the validation\<close>

text \<open>Validation changes the target-side evidence and the timings of a report, nothing else.\<close>

definition same_output :: "MssqlWriteReport \<Rightarrow> MssqlWriteReport \<Rightarrow> bool" where
  "same_output r r' \<longleftrightarrow>
     wr_output_row_count r' = wr_output_row_count r \<and> wr_stats r' = wr_stats r \<and>
     wr_batch_shaping r' = wr_batch_shaping r \<and> wr_cleanup r' = wr_cleanup r \<and>
     wr_output_name r' = wr_output_name r \<and> wr_target_table r' = wr_target_table r \<and>
     wr_load_mode r' = wr_load_mode r"

text \<open>Passing means equal counts: of the whole table, or of its growth when appending.\<close>

definition passed_means ::
    "MssqlTargetOutputPlan \<Rightarrow> TargetRowCountBeforeWrite \<Rightarrow> MssqlWriteReport \<Rightarrow> bool" where
  "passed_means p prior r \<longleftrightarrow>
     (wr_validation_status r = ValidationStatus.Passed \<longrightarrow>
        (\<exists>n m. wr_output_row_count r = RowCount.Exact n \<and> wr_target_row_count r = RowCount.Exact m \<and>
           (if pl_load_mode p = AppendExisting
            then \<exists>b. prior = BeforeExact b \<and> wr_target_row_count_before_write r = RowCount.Exact b \<and>
                   unat m = unat b + unat n
            else m = n)))"

definition validate_post ::
    "MssqlTargetOutputPlan \<Rightarrow> MssqlPreparedTarget \<Rightarrow> MssqlWriteReport \<Rightarrow> TargetRowCountBeforeWrite
      \<Rightarrow> DeltaFunnelError + MssqlWriteReport \<Rightarrow> sql_request list \<Rightarrow> bool" where
  "validate_post p t rep prior r qs \<longleftrightarrow>
     (qs = [] \<or> qs = [RowCountRequest (pt_table_name t)]) \<and>
     (case r of
        Inl e \<Rightarrow> \<exists>c. failure_context e = Some c \<and> fc_phase c = Validation
      | Inr rep' \<Rightarrow> same_output rep rep' \<and> passed_means p prior rep' \<and>
          (pl_load_mode p = Replace \<longrightarrow>
             wr_validation_status rep' = ValidationStatus.Passed \<and>
             qs = [RowCountRequest (pt_table_name t)]))"

lemmas validation_defs =
  validation_unavailable_or_required_failure_def validation_unavailable_status_def
  target_delta_validation_unavailable_or_required_failure_def unsupported_target_validation_def
  missing_exact_output_rows_validation_def validation_error_def

lemma RowCount_exact_value_Some: "RowCount_exact_value c = Some n \<longleftrightarrow> c = RowCount.Exact n"
  by (cases c) auto

lemma validate_append_no_request:
  assumes "validate_append_existing_target_delta conn p t rep req prior n w = (r, w')"
    and "\<And>b. prior \<noteq> BeforeExact b" and "pl_load_mode p = AppendExisting"
  shows "w' = w \<and> validate_post p t rep prior r []"
  using assms
  by (cases prior)
     (auto simp: validate_append_existing_target_delta_def validation_defs validate_post_def
       same_output_def passed_means_def report_simps Let_def split: if_splits)

text \<open>
  The swap phase. Outside replace mode it does nothing. In replace mode it sends something
  only for a validated report: the unlock when the table lock had been taken, then the swap.
\<close>

definition unlock_requests :: "MssqlPreparedTarget \<Rightarrow> bool \<Rightarrow> sql_request list" where
  "unlock_requests t lock = (if lock then [TableLockRequest (pt_table_name t) False] else [])"

definition swap_phase_post ::
    "arrow_api \<Rightarrow> MssqlTargetOutputPlan \<Rightarrow> MssqlPreparedTarget \<Rightarrow> MssqlWriteReport \<Rightarrow> bool
      \<Rightarrow> DeltaFunnelError + MssqlWriteReport \<Rightarrow> sql_request list \<Rightarrow> bool" where
  "swap_phase_post api p t rep lock r qs \<longleftrightarrow>
     (if pl_load_mode p \<noteq> Replace then r = Inr rep \<and> qs = []
      else if wr_validation_status rep \<noteq> ValidationStatus.Passed then (\<exists>e. r = Inl e) \<and> qs = []
      else case r of
             Inr rep' \<Rightarrow>
               same_output rep rep' \<and> wr_validation_status rep' = wr_validation_status rep \<and>
               wr_target_row_count rep' = wr_target_row_count rep \<and>
               (\<exists>final backup sqs. swap_attempt api p t final backup sqs \<and>
                  qs = unlock_requests t lock @ sqs)
           | Inl e \<Rightarrow>
               (\<exists>sqs. qs = unlock_requests t lock @ sqs \<and>
                  (statements sqs = [] \<or> (\<exists>final backup. swap_attempt api p t final backup sqs))))"

text \<open>
  After the stream was written: validation, swap, and on failure the cleanup. A failed run
  sends the swap script at most once, only after the row count of the staging table was
  requested and only in replace mode, and ends with the requests of the cleanup.
\<close>

definition finish_post ::
    "arrow_api \<Rightarrow> MssqlTargetOutputPlan \<Rightarrow> MssqlPreparedTarget \<Rightarrow> MssqlWriteReport
      \<Rightarrow> TargetRowCountBeforeWrite \<Rightarrow> bool \<Rightarrow> DeltaFunnelError + MssqlWriteReport
      \<Rightarrow> sql_request list \<Rightarrow> bool" where
  "finish_post api p t rep prior lock r qs \<longleftrightarrow>
     (\<exists>vq rest. qs = vq @ rest \<and> (vq = [] \<or> vq = [RowCountRequest (pt_table_name t)]) \<and>
        (case r of
           Inr rep' \<Rightarrow> same_output rep rep' \<and>
             (if pl_load_mode p = Replace
              then wr_validation_status rep' = ValidationStatus.Passed \<and>
                   wr_target_row_count rep' = wr_output_row_count rep' \<and>
                   vq = [RowCountRequest (pt_table_name t)] \<and>
                   (\<exists>final backup sqs. swap_attempt api p t final backup sqs \<and>
                      rest = unlock_requests t lock @ sqs)
              else rest = [] \<and> passed_means p prior rep')
         | Inl e \<Rightarrow>
             (\<exists>sq cq q. rest = sq @ cq \<and> cleanup_post api p t q cq \<and>
                (statements sq = [] \<or>
                 (pl_load_mode p = Replace \<and> vq = [RowCountRequest (pt_table_name t)] \<and>
                  (\<exists>final backup sqs. swap_attempt api p t final backup sqs \<and>
                     statements sq = statements sqs))))))"

lemma statements_unlock [simp]: "statements (unlock_requests t lock) = []"
  by (simp add: unlock_requests_def)

lemma swap_phase_post_failed:
  assumes "swap_phase_post api p t rep lock (Inl e) sq"
  shows "statements sq = [] \<or>
    (pl_load_mode p = Replace \<and>
     (\<exists>final backup sqs. swap_attempt api p t final backup sqs \<and> statements sq = statements sqs))"
  using assms unfolding swap_phase_post_def
  by (auto split: if_splits simp del: split_paired_Ex; metis)

lemma finish_post_failed:
  assumes "vq = [] \<or> vq = [RowCountRequest (pt_table_name t)]" and "\<exists>e. r = Inl e"
    and "cleanup_post api p t q cq"
    and "statements sq = [] \<or>
      (pl_load_mode p = Replace \<and> vq = [RowCountRequest (pt_table_name t)] \<and>
       (\<exists>final backup sqs. swap_attempt api p t final backup sqs \<and> statements sq = statements sqs))"
  shows "finish_post api p t rep prior lock r (vq @ sq @ cq)"
  unfolding finish_post_def
  using assms by (intro exI [of _ vq] exI [of _ "sq @ cq"]) (elim exE, simp, metis)

lemma finish_post_ok:
  assumes v: "validate_post p t rep prior (Inr rep1) vq"
    and s: "swap_phase_post api p t rep1 lock (Inr rep2) sq"
  shows "finish_post api p t rep prior lock (Inr rep2) (vq @ sq)"
proof (cases "pl_load_mode p = Replace")
  case False
  with v s show ?thesis
    unfolding finish_post_def
    by (intro exI [of _ vq] exI [of _ sq]) (auto simp: validate_post_def swap_phase_post_def)
next
  case True
  from v True have passed: "wr_validation_status rep1 = ValidationStatus.Passed"
    "vq = [RowCountRequest (pt_table_name t)]" "same_output rep rep1"
    "wr_target_row_count rep1 = wr_output_row_count rep1"
    by (auto simp: validate_post_def passed_means_def)
  from s True passed(1) have swapped: "same_output rep1 rep2"
    "wr_validation_status rep2 = ValidationStatus.Passed"
    "wr_target_row_count rep2 = wr_target_row_count rep1"
    "\<exists>final backup sqs. swap_attempt api p t final backup sqs \<and> sq = unlock_requests t lock @ sqs"
    unfolding swap_phase_post_def by simp_all
  from passed swapped have "same_output rep rep2"
    "wr_target_row_count rep2 = wr_output_row_count rep2"
    by (simp_all add: same_output_def)
  with True passed swapped show ?thesis
    unfolding finish_post_def by (intro exI [of _ vq] exI [of _ sq]) simp
qed

definition load_post ::
    "arrow_api \<Rightarrow> MssqlTargetOutputPlan \<Rightarrow> MssqlPreparedTarget \<Rightarrow> batch_stream
      \<Rightarrow> DeltaFunnelError + MssqlWriteReport \<Rightarrow> sql_request list \<Rightarrow> bool" where
  "load_post api p t items r qs \<longleftrightarrow>
     statements qs = [] \<and>
     (case r of
        Inl e \<Rightarrow> True
      | Inr rep \<Rightarrow>
          \<exists>bs ps b. items = map Inr bs \<and> list_all (valid_batch api p) bs \<and>
            qs = OpenWriterRequest (pt_table_name t) ps b # map BatchRequest bs @ [FinishRequest] \<and>
            written_report p bs rep)"

lemma statements_batches [simp]: "statements (map BatchRequest bs) = []"
  by (induction bs) simp_all

lemma statements_attempted [simp]: "statements (attempted_batch api p x) = []"
  by (cases x) simp_all

lemma write_post_statements: "write_post api p items r qs \<Longrightarrow> statements qs = []"
  by (auto simp: write_post_def split: sum.splits)

text \<open>Everything after the preparation.\<close>

definition output_ok ::
    "arrow_api \<Rightarrow> MssqlTargetOutputPlan \<Rightarrow> MssqlPreparedTarget \<Rightarrow> batch_stream \<Rightarrow> bool
      \<Rightarrow> MssqlWriteReport \<Rightarrow> sql_request list \<Rightarrow> bool" where
  "output_ok api p t items lock rep qs \<longleftrightarrow>
     (\<exists>bs bq ps b vq sq. items = map Inr bs \<and> list_all (valid_batch api p) bs \<and>
        written_report p bs rep \<and> wr_cleanup rep = ptr_cleanup (pt_report t) \<and>
        (bq = [] \<or> bq = [RowCountRequest (pt_table_name t)]) \<and>
        (vq = [] \<or> vq = [RowCountRequest (pt_table_name t)]) \<and>
        qs = bq @ OpenWriterRequest (pt_table_name t) ps b # map BatchRequest bs
               @ FinishRequest # vq @ sq \<and>
        (if pl_load_mode p = Replace
         then wr_validation_status rep = ValidationStatus.Passed \<and>
              wr_target_row_count rep = RowCount.Exact (sum_rows 0 bs) \<and>
              vq = [RowCountRequest (pt_table_name t)] \<and>
              (\<exists>final backup sqs. swap_attempt api p t final backup sqs \<and>
                 sq = unlock_requests t lock @ sqs)
         else sq = [] \<and> (\<exists>prior. passed_means p prior rep)))"

definition output_failed ::
    "arrow_api \<Rightarrow> MssqlTargetOutputPlan \<Rightarrow> MssqlPreparedTarget \<Rightarrow> batch_stream
      \<Rightarrow> sql_request list \<Rightarrow> bool" where
  "output_failed api p t items qs \<longleftrightarrow>
     (\<exists>lq cq q. qs = lq @ cq \<and> cleanup_post api p t q cq \<and>
        (statements lq = [] \<or>
         (pl_load_mode p = Replace \<and> RowCountRequest (pt_table_name t) \<in> set lq \<and>
          (\<exists>bs. items = map Inr bs \<and> list_all (valid_batch api p) bs) \<and>
          (\<exists>final backup sqs. swap_attempt api p t final backup sqs \<and>
             statements lq = statements sqs))))"

definition output_post ::
    "arrow_api \<Rightarrow> MssqlTargetOutputPlan \<Rightarrow> MssqlPreparedTarget \<Rightarrow> batch_stream \<Rightarrow> bool
      \<Rightarrow> DeltaFunnelError + MssqlWriteReport \<Rightarrow> sql_request list \<Rightarrow> bool" where
  "output_post api p t items lock r qs \<longleftrightarrow>
     (case r of
        Inr rep \<Rightarrow> output_ok api p t items lock rep qs
      | Inl e \<Rightarrow> output_failed api p t items qs)"

lemma output_post_failed:
  assumes "\<exists>e. r = Inl e" and "cleanup_post api p t q cq" and "statements lq = []"
  shows "output_post api p t items lock r (lq @ cq)"
proof -
  have "output_failed api p t items (lq @ cq)"
    unfolding output_failed_def
    by (rule exI [of _ lq], rule exI [of _ cq], rule exI [of _ q]) (use assms in simp)
  with assms(1) show ?thesis
    by (auto simp: output_post_def)
qed

lemma output_post_finish:
  assumes bq: "bq = [] \<or> bq = [RowCountRequest (pt_table_name t)]"
    and load: "load_post api p t items (Inr rep) lq"
    and fin: "finish_post api p t (report_with_phase_timings timings
        (report_with_cleanup (ptr_cleanup (pt_report t)) rep)) prior lock r fq"
  shows "output_post api p t items lock r (bq @ lq @ fq)"
proof -
  from load obtain bs ps b where items: "items = map Inr bs" "list_all (valid_batch api p) bs"
    and lq: "lq = OpenWriterRequest (pt_table_name t) ps b # map BatchRequest bs @ [FinishRequest]"
    and rep: "written_report p bs rep"
    by (auto simp: load_post_def)
  show ?thesis
  proof (cases r)
    case (Inl e)
    with fin obtain vq sq cq q where fq: "fq = vq @ sq @ cq" and c: "cleanup_post api p t q cq"
      and vq: "vq = [] \<or> vq = [RowCountRequest (pt_table_name t)]"
      and swap: "statements sq = [] \<or> (pl_load_mode p = Replace \<and>
        vq = [RowCountRequest (pt_table_name t)] \<and> (\<exists>final backup sqs.
          swap_attempt api p t final backup sqs \<and> statements sq = statements sqs))"
      by (simp add: finish_post_def) metis
    have "output_failed api p t items ((bq @ lq @ vq @ sq) @ cq)"
      unfolding output_failed_def
    proof (rule exI [of _ "bq @ lq @ vq @ sq"], rule exI [of _ cq], rule exI [of _ q],
        intro conjI)
      show "statements (bq @ lq @ vq @ sq) = [] \<or>
        pl_load_mode p = Replace \<and> RowCountRequest (pt_table_name t) \<in> set (bq @ lq @ vq @ sq) \<and>
        (\<exists>bs. items = map Inr bs \<and> list_all (valid_batch api p) bs) \<and>
        (\<exists>final backup sqs. swap_attempt api p t final backup sqs \<and>
           statements (bq @ lq @ vq @ sq) = statements sqs)"
        using bq lq vq swap items by (elim disjE) simp_all
    qed (use c in simp_all)
    with Inl fq show ?thesis
      by (simp add: output_post_def)
  next
    case (Inr rep')
    with fin obtain vq rest where fq: "fq = vq @ rest"
      and vq: "vq = [] \<or> vq = [RowCountRequest (pt_table_name t)]"
      and same: "same_output (report_with_phase_timings timings
        (report_with_cleanup (ptr_cleanup (pt_report t)) rep)) rep'"
      and mode: "if pl_load_mode p = Replace
              then wr_validation_status rep' = ValidationStatus.Passed \<and>
                   wr_target_row_count rep' = wr_output_row_count rep' \<and>
                   vq = [RowCountRequest (pt_table_name t)] \<and>
                   (\<exists>final backup sqs. swap_attempt api p t final backup sqs \<and>
                      rest = unlock_requests t lock @ sqs)
              else rest = [] \<and> passed_means p prior rep'"
      by (simp add: finish_post_def) metis
    from same rep have "written_report p bs rep'" "wr_cleanup rep' = ptr_cleanup (pt_report t)"
      "wr_output_row_count rep' = RowCount.Exact (sum_rows 0 bs)"
      by (auto simp: written_report_def same_output_def report_simps)
    then have "output_ok api p t items lock rep' (bq @ lq @ vq @ rest)"
      unfolding output_ok_def
      using bq vq items lq mode
      by (intro exI [of _ bs] exI [of _ bq] exI [of _ ps] exI [of _ b] exI [of _ vq]
          exI [of _ rest]) (simp split: if_splits, blast)
    with Inr fq show ?thesis
      by (simp add: output_post_def)
  qed
qed

text \<open>
  A whole run on a connection. A run that succeeds prepared the target, took the table lock
  only to replace, loaded every batch and finished as above. The statements of a run that
  fails: none, or those that create the prepared table, followed, once the preparation has
  succeeded, by its drop (unless the table was there prior), possibly with one swap in
  between, which a run reaches only when every batch of its stream was valid.
\<close>

definition drop_statements ::
    "arrow_api \<Rightarrow> MssqlTargetOutputPlan \<Rightarrow> MssqlPreparedTarget \<Rightarrow> string list" where
  "drop_statements api p t =
     (if pl_load_mode p = AppendExisting then [] else [drop_table_sql api (pt_table_name t)])"

definition lock_requests :: "MssqlTargetOutputPlan \<Rightarrow> MssqlPreparedTarget \<Rightarrow> sql_request list" where
  "lock_requests p t =
     (if pl_load_mode p = Replace then [TableLockRequest (pt_table_name t) True] else [])"

definition run_ok ::
    "arrow_api \<Rightarrow> MssqlTargetOutputPlan \<Rightarrow> batch_stream \<Rightarrow> MssqlWriteReport \<Rightarrow> sql_request list
      \<Rightarrow> bool" where
  "run_ok api p items rep qs \<longleftrightarrow>
     (\<exists>t pq lock wq. prepared_for api p t \<and> lifecycle_only pq \<and>
        statements pq = creation_statements api p t \<and>
        qs = pq @ lock_requests p t @ wq \<and> output_ok api p t items lock rep wq)"

definition run_failed ::
    "arrow_api \<Rightarrow> MssqlTargetOutputPlan \<Rightarrow> batch_stream \<Rightarrow> sql_request list \<Rightarrow> bool" where
  "run_failed api p items qs \<longleftrightarrow>
     statements qs = [] \<or>
     (\<exists>t. prepared_for api p t \<and>
        (statements qs = creation_statements api p t \<or>
         statements qs = creation_statements api p t @ drop_statements api p t \<or>
         (pl_load_mode p = Replace \<and>
          (\<exists>bs. items = map Inr bs \<and> list_all (valid_batch api p) bs) \<and>
          (\<exists>final backup k. k < 100 \<and> replace_backup_table_name api p k = Inr backup \<and>
             table_name_from_target api (pl_output_name p) (pl_target_table p) = Inr final \<and>
             statements qs = creation_statements api p t
               @ [replace_swap_sql api final (pt_table_name t) backup]
               @ drop_statements api p t))))"

definition run_post ::
    "arrow_api \<Rightarrow> MssqlTargetOutputPlan \<Rightarrow> batch_stream \<Rightarrow> DeltaFunnelError + MssqlWriteReport
      \<Rightarrow> sql_request list \<Rightarrow> bool" where
  "run_post api p items r qs \<longleftrightarrow>
     (case r of Inr rep \<Rightarrow> run_ok api p items rep qs | Inl e \<Rightarrow> run_failed api p items qs)"

lemma cleanup_statements:
  assumes "prepared_for api p t" and "cleanup_post api p t q cq"
  shows "statements cq = drop_statements api p t"
  using assms
  by (cases "pl_load_mode p") (auto simp: prepared_for_def cleanup_post_def drop_statements_def)

lemma statements_lock [simp]: "statements (lock_requests p t) = []"
  by (simp add: lock_requests_def)

lemma run_failed_after_prepare:
  assumes t: "prepared_for api p t" and pq: "statements pq = creation_statements api p t"
    and failed: "output_failed api p t items wq"
  shows "run_failed api p items (pq @ lock_requests p t @ wq)"
proof -
  from failed obtain lq cq q where wq: "wq = lq @ cq" and c: "cleanup_post api p t q cq"
    and lq: "statements lq = [] \<or>
         (pl_load_mode p = Replace \<and> RowCountRequest (pt_table_name t) \<in> set lq \<and>
          (\<exists>bs. items = map Inr bs \<and> list_all (valid_batch api p) bs) \<and>
          (\<exists>final backup sqs. swap_attempt api p t final backup sqs \<and>
             statements lq = statements sqs))"
    unfolding output_failed_def by (elim exE conjE) (rule that)
  note dropped = cleanup_statements [OF t c]
  from lq show ?thesis
  proof (elim disjE conjE exE)
    assume "statements lq = []"
    with wq dropped pq t show ?thesis
      by (auto simp: run_failed_def)
  next
    fix bs final backup sqs
    assume mode: "pl_load_mode p = Replace" and items: "items = map Inr bs" "list_all (valid_batch api p) bs"
      and swap: "swap_attempt api p t final backup sqs" and lq: "statements lq = statements sqs"
    from swap obtain k where k: "k < 100" "replace_backup_table_name api p k = Inr backup"
      "table_name_from_target api (pl_output_name p) (pl_target_table p) = Inr final"
      "statements sqs = [replace_swap_sql api final (pt_table_name t) backup]"
      by (auto simp: swap_attempt_def)
    with lq wq dropped pq have "statements (pq @ lock_requests p t @ wq) =
        creation_statements api p t @ [replace_swap_sql api final (pt_table_name t) backup]
          @ drop_statements api p t"
      by simp
    with k mode items t show ?thesis
      unfolding run_failed_def by blast
  qed
qed

lemma on_conn_emits:
  assumes "emits sent m Q" and "on_conn m w = (r, w')"
  obtains qs where "sent (w_conn w') = sent (w_conn w) @ qs" and "Q r qs"
proof -
  from assms(2) obtain s where "m (w_conn w) = (r, s)" "w' = w\<lparr>w_conn := s\<rparr>"
    by (auto simp: on_conn_def split: prod.splits)
  with emitsD [OF assms(1)] that show thesis
    by force
qed

text \<open>
  The results of a step as the sink's code takes them apart: the requests of the step are
  added to the log, whichever way it ended.
\<close>

context sink_requests
begin

abbreviation wsent :: "'s world \<Rightarrow> sql_request list" where
  "wsent w \<equiv> sent (w_conn w)"

lemma row_count_step:
  "on_conn (sc_target_row_count conn p t) w = (r, w') \<Longrightarrow>
     wsent w' = wsent w @ [RowCountRequest (pt_table_name t)]"
  by (erule on_conn_emits [OF row_count_law]) simp

lemma validate_append_step:
  assumes run: "validate_append_existing_target_delta conn p t rep req prior n w = (r, w')"
    and mode: "pl_load_mode p = AppendExisting" and exact: "wr_output_row_count rep = RowCount.Exact n"
  shows "\<exists>qs. wsent w' = wsent w @ qs \<and> validate_post p t rep prior r qs"
proof (cases prior)
  case (BeforeExact b)
  obtain q w1 where count: "on_conn (sc_target_row_count conn p t) (tick w) = (q, w1)"
    by (metis surj_pair)
  note sent1 = row_count_step [OF count]
  have "wsent w' = wsent w @ [RowCountRequest (pt_table_name t)]"
    using run count sent1
    by (cases q) (auto simp: validate_append_existing_target_delta_def BeforeExact Let_def
        split: if_splits)
  moreover have "validate_post p t rep prior r [RowCountRequest (pt_table_name t)]"
    using run count mode exact
    by (cases q)
       (auto simp: validate_append_existing_target_delta_def BeforeExact Let_def validation_defs
         validate_post_def same_output_def passed_means_def report_simps checked_sub_eq_Some
         split: if_splits)
  ultimately show ?thesis
    by blast
qed (use validate_append_no_request [OF run _ mode] in force)+

lemma validate_step:
  assumes run: "validate_written_target conn p t rep options prior w = (r, w')"
  shows "\<exists>qs. wsent w' = wsent w @ qs \<and> validate_post p t rep prior r qs"
proof -
  have disabled: ?thesis if "target_validation_mode options = TargetValidationMode.Disabled"
    using run that
    by (intro exI [of _ "[]"])
       (auto simp: validate_written_target_def validate_post_def same_output_def passed_means_def
         validation_defs report_simps Let_def ValidationStatus_disabled_def split: if_splits)
  have enabled: ?thesis if mode: "target_validation_mode options = m" "m \<noteq> TargetValidationMode.Disabled"
    for m
  proof (cases "RowCount_exact_value (wr_output_row_count rep)")
    case None
    with run mode have "w' = w" "r = missing_exact_output_rows_validation p rep (m = Require) prior"
      by (cases m; simp add: validate_written_target_def Let_def)+
    then show ?thesis
      by (intro exI [of _ "[]"], cases prior; cases "pl_load_mode p")
         (auto simp: validation_defs validate_post_def same_output_def passed_means_def report_simps
           Let_def split: if_splits)
  next
    case (Some n)
    then have exact: "wr_output_row_count rep = RowCount.Exact n"
      by (simp add: RowCount_exact_value_Some)
    show ?thesis
    proof (cases "pl_load_mode p = AppendExisting")
      case True
      with run mode Some have
        "validate_append_existing_target_delta conn p t rep (m = Require) prior n w = (r, w')"
        by (cases m) (simp_all add: validate_written_target_def Let_def)
      then show ?thesis
        using True exact by (rule validate_append_step)
    next
      case False
      obtain q w1 where count: "on_conn (sc_target_row_count conn p t) (tick w) = (q, w1)"
        by (metis surj_pair)
      have "wsent w' = wsent w @ [RowCountRequest (pt_table_name t)]"
        using run mode Some False count row_count_step [OF count]
        by (cases m; cases q; cases "pl_load_mode p")
           (auto simp: validate_written_target_def Let_def split: if_splits)
      moreover have "validate_post p t rep prior r [RowCountRequest (pt_table_name t)]"
        using run mode exact Some False count
        by (cases m; cases q; cases "pl_load_mode p")
           (auto simp: validate_written_target_def Let_def validation_defs validate_post_def
             same_output_def passed_means_def report_simps split: if_splits)
      ultimately show ?thesis
        by blast
    qed
  qed
  from disabled enabled show ?thesis
    by blast
qed

lemma disable_step:
  "on_conn (sc_disable_bulk_load_table_lock conn p t) w = (r, w') \<Longrightarrow>
     wsent w' = wsent w @ [TableLockRequest (pt_table_name t) False]"
  by (erule on_conn_emits [OF disable_law]) simp

lemma swap_step:
  assumes run: "swap_replace_target_after_validation conn p t rep lock w = (r, w')"
  shows "\<exists>qs. wsent w' = wsent w @ qs \<and> swap_phase_post api p t rep lock r qs"
proof (cases "pl_load_mode p = Replace \<and> wr_validation_status rep = ValidationStatus.Passed")
  case False
  with run show ?thesis
    by (intro exI [of _ "[]"])
       (auto simp: swap_replace_target_after_validation_def swap_phase_post_def split: if_splits)
next
  case True
  define unlock where "unlock = (if lock then on_conn (sc_disable_bulk_load_table_lock conn p t) (tick w)
                                 else (Inr (), tick w))"
  obtain u w1 where u: "unlock = (u, w1)"
    by (metis surj_pair)
  have sent1: "wsent w1 = wsent w @ unlock_requests t lock"
    using u disable_step [of p t "tick w" u w1]
    by (auto simp: unlock_def unlock_requests_def split: if_splits)
  obtain q w2 where swap: "on_conn (sc_swap_prepared_replace_target conn p t) w1 = (q, w2)"
    by (metis surj_pair)
  obtain qs where sent2: "wsent w2 = wsent w1 @ qs" and post: "swap_post api p t q qs"
    using swap by (rule on_conn_emits [OF swap_law])
  show ?thesis
  proof (cases u)
    case (Inl e)
    with run True u have "\<exists>e'. r = Inl e'" "wsent w' = wsent w1"
      by (auto simp: swap_replace_target_after_validation_def unlock_def Let_def)
    with sent1 True show ?thesis
      by (auto simp: swap_phase_post_def unlock_requests_def)
  next
    case (Inr v)
    have "wsent w' = wsent w @ unlock_requests t lock @ qs"
      using run True u Inr swap sent1 sent2
      by (cases q) (auto simp: swap_replace_target_after_validation_def unlock_def Let_def)
    moreover have "swap_phase_post api p t rep lock r (unlock_requests t lock @ qs)"
    proof (cases q)
      case (Inl e)
      with run True u Inr swap post show ?thesis
        by (auto simp: swap_replace_target_after_validation_def unlock_def Let_def
            swap_phase_post_def swap_post_def)
    next
      case (Inr v)
      with post have "\<exists>final backup. swap_attempt api p t final backup qs"
        by (simp add: swap_post_def)
      moreover have "\<exists>rep'. r = Inr rep' \<and> same_output rep rep' \<and>
          wr_validation_status rep' = wr_validation_status rep \<and>
          wr_target_row_count rep' = wr_target_row_count rep"
        using run True u Inr \<open>u = Inr _\<close> swap
        by (auto simp: swap_replace_target_after_validation_def unlock_def Let_def same_output_def
            report_simps)
      ultimately show ?thesis
        unfolding swap_phase_post_def using True by (elim exE conjE) (simp, metis)
    qed
    ultimately show ?thesis
      by blast
  qed
qed

lemma cleanup_step:
  assumes "fail_with_cleanup conn p t e reporter w = (r, w')"
  shows "\<exists>qs q. wsent w' = wsent w @ qs \<and> cleanup_post api p t q qs \<and> (\<exists>e'. r = Inl e')"
proof -
  define w0 where "w0 = tick (if ptr_cleanup (pt_report t) \<noteq> NotApplicable
      then emit_progress_phase reporter CleaningUp (pl_output_name p) w else w)"
  have w0: "w_conn w0 = w_conn w"
    by (simp add: w0_def emit_progress_phase_def)
  obtain q w1 where clean: "on_conn (sc_cleanup_prepared_target conn p (Some t)) w0 = (q, w1)"
    by (metis surj_pair)
  then obtain qs where "wsent w1 = wsent w0 @ qs" "cleanup_post api p t q qs"
    by (rule on_conn_emits [OF cleanup_law])
  moreover have "wsent w' = wsent w1" "\<exists>e'. r = Inl e'"
    using assms clean
    by (cases q; auto simp: fail_with_cleanup_def cleanup_after_prepared_target_failure_def Let_def
        w0_def)+
  ultimately show ?thesis
    using w0 by auto
qed

lemma finish_step:
  assumes run: "finish_written_output conn p t options prior lock reporter rep w = (r, w')"
  shows "\<exists>qs. wsent w' = wsent w @ qs \<and> finish_post api p t rep prior lock r qs"
proof -
  define w0 where "w0 = (if validates options p
      then emit_progress_phase reporter Validating (pl_output_name p) w else w)"
  have w0: "wsent w0 = wsent w"
    by (simp add: w0_def emit_progress_phase_def)
  obtain v w1 where val: "validate_written_target conn p t rep options prior w0 = (v, w1)"
    by (metis surj_pair)
  from validate_step [OF val] obtain vq where sent1: "wsent w1 = wsent w0 @ vq"
    and vpost: "validate_post p t rep prior v vq"
    by blast
  show ?thesis
  proof (cases v)
    case (Inl e)
    with run val have "fail_with_cleanup conn p t e reporter w1 = (r, w')"
      by (simp add: finish_written_output_def w0_def)
    from cleanup_step [OF this] obtain cq q where "wsent w' = wsent w1 @ cq"
      "cleanup_post api p t q cq" "\<exists>e'. r = Inl e'"
      by blast
    moreover from this vpost have "finish_post api p t rep prior lock r (vq @ cq)"
      using finish_post_failed [of vq t r api p q cq "[]" rep prior lock]
      by (simp add: validate_post_def)
    ultimately show ?thesis
      using sent1 w0 by auto
  next
    case (Inr rep1)
    define w2 where "w2 = (if pl_load_mode p = Replace
        then emit_progress_phase reporter SwappingTarget (pl_output_name p) w1 else w1)"
    have w2: "wsent w2 = wsent w1"
      by (simp add: w2_def emit_progress_phase_def)
    obtain s w3 where swap: "swap_replace_target_after_validation conn p t rep1 lock w2 = (s, w3)"
      by (metis surj_pair)
    from swap_step [OF swap] obtain sq where sent3: "wsent w3 = wsent w2 @ sq"
      and spost: "swap_phase_post api p t rep1 lock s sq"
      by blast
    show ?thesis
    proof (cases s)
      case (Inl e)
      with run val Inr swap have "fail_with_cleanup conn p t e reporter w3 = (r, w')"
        by (simp add: finish_written_output_def w0_def w2_def)
      from cleanup_step [OF this] obtain cq q where "wsent w' = wsent w3 @ cq"
        "cleanup_post api p t q cq" "\<exists>e'. r = Inl e'"
        by blast
      moreover from this vpost spost Inl Inr
      have "finish_post api p t rep prior lock r (vq @ sq @ cq)"
        using swap_phase_post_failed [of api p t rep1 lock e sq]
        by (intro finish_post_failed) (auto simp: validate_post_def)
      ultimately show ?thesis
        using sent1 w0 sent3 w2 by auto
    next
      case (Inr rep2)
      with run val \<open>v = Inr rep1\<close> swap have "r = Inr rep2" "w' = w3"
        by (simp_all add: finish_written_output_def w0_def w2_def)
      moreover have "finish_post api p t rep prior lock (Inr rep2) (vq @ sq)"
        using vpost spost Inr \<open>v = Inr rep1\<close> by (intro finish_post_ok) auto
      ultimately show ?thesis
        using sent1 w0 sent3 w2 by auto
    qed
  qed
qed

lemma write_step:
  assumes run: "write_prepared_batches api conn p t items backend reporter w = (r, w')"
  shows "\<exists>qs. wsent w' = wsent w @ qs \<and> load_post api p t items r qs"
proof -
  obtain q w1 where open_writer: "on_conn (sc_initialize_writer conn p t backend) (tick w) = (q, w1)"
    by (metis surj_pair)
  then obtain oq where sent1: "wsent w1 = wsent (tick w) @ oq" and opened: "opens_writer sent t q oq"
    by (rule on_conn_emits [OF writer_law])
  show ?thesis
  proof (cases q)
    case (Inl e)
    with run open_writer have "wsent w' = wsent w1" "\<exists>e'. r = Inl e'"
      by (auto simp: write_prepared_batches_def Let_def)
    moreover have "load_post api p t items (Inl e') oq" for e'
      using opened Inl by (auto simp: opens_writer_def load_post_def)
    ultimately show ?thesis
      using sent1 by auto
  next
    case (Inr writer)
    with opened have contract: "writer_requests writer sent"
      and oq: "\<exists>ps b. oq = [OpenWriterRequest (pt_table_name t) ps b]"
      by (auto simp: opens_writer_def writer_contract_requests)
    obtain v w2 where wrote: "write_mssql_batches_with_writer api writer p items reporter (tick w1) = (v, w2)"
      by (metis surj_pair)
    from emitsD [OF writer_requests.emits_write [OF contract] wrote] obtain wq
      where sent2: "wsent w2 = wsent (tick w1) @ wq" and post: "write_post api p items v wq"
      by blast
    from run open_writer Inr wrote
    have "w' = w2" "case v of Inl e \<Rightarrow> \<exists>e'. r = Inl e'
        | Inr rep \<Rightarrow> \<exists>timing. r = Inr (report_with_phase_timings [timing] rep)"
      by (auto simp: write_prepared_batches_def Let_def split: sum.splits)
    then have "load_post api p t items r (oq @ wq)"
      using post oq write_post_statements [OF post]
      by (cases v) (auto simp: load_post_def write_post_def written_report_def report_simps)
    with sent1 sent2 \<open>w' = w2\<close> show ?thesis
      by auto
  qed
qed

lemma before_step:
  assumes "target_row_count_before_append_write conn p t options w = (r, w')"
  shows "\<exists>qs. wsent w' = wsent w @ qs \<and>
           (qs = [] \<or> qs = [RowCountRequest (pt_table_name t)])"
proof (cases "target_validation_mode options = TargetValidationMode.Disabled \<or>
    pl_load_mode p \<noteq> AppendExisting")
  case False
  obtain q w1 where count: "on_conn (sc_target_row_count conn p t) w = (q, w1)"
    by (metis surj_pair)
  with assms False have "w' = w1"
    by (cases q) (auto simp: target_row_count_before_append_write_def split: if_splits)
  with row_count_step [OF count] show ?thesis
    by blast
qed (use assms in \<open>auto simp: target_row_count_before_append_write_def\<close>)

lemma output_step:
  assumes run: "write_prepared_output api conn p t items backend options timings lock reporter w = (r, w')"
  shows "\<exists>qs. wsent w' = wsent w @ qs \<and> output_post api p t items lock r qs"
proof -
  obtain b w1 where prior: "target_row_count_before_append_write conn p t options w = (b, w1)"
    by (metis surj_pair)
  from before_step [OF prior] obtain bq where sent1: "wsent w1 = wsent w @ bq"
    and bq: "bq = [] \<or> bq = [RowCountRequest (pt_table_name t)]"
    by blast
  show ?thesis
  proof (cases b)
    case (Inl e)
    with run prior have
      "fail_with_cleanup conn p t (error_with_phase_timings e timings) reporter w1 = (r, w')"
      by (simp add: write_prepared_output_def)
    from cleanup_step [OF this] obtain cq q where "wsent w' = wsent w1 @ cq"
      "cleanup_post api p t q cq" "\<exists>e'. r = Inl e'"
      by blast
    moreover from this bq have "output_post api p t items lock r (bq @ cq)"
      by (intro output_post_failed) auto
    ultimately show ?thesis
      using sent1 by auto
  next
    case (Inr bef)
    define w2 where "w2 = emit_progress_phase reporter Writing (pl_output_name p) w1"
    have w2: "wsent w2 = wsent w1"
      by (simp add: w2_def emit_progress_phase_def)
    obtain v w3 where load: "write_prepared_batches api conn p t items backend reporter w2 = (v, w3)"
      by (metis surj_pair)
    from write_step [OF load] obtain lq where sent3: "wsent w3 = wsent w2 @ lq"
      and lpost: "load_post api p t items v lq"
      by blast
    show ?thesis
    proof (cases v)
      case (Inl e)
      with run prior Inr load have
        "fail_with_cleanup conn p t (error_with_phase_timings e timings) reporter w3 = (r, w')"
        by (simp add: write_prepared_output_def w2_def Let_def)
      from cleanup_step [OF this] obtain cq q where "wsent w' = wsent w3 @ cq"
        "cleanup_post api p t q cq" "\<exists>e'. r = Inl e'"
        by blast
      moreover from this bq lpost Inl have "output_post api p t items lock r ((bq @ lq) @ cq)"
        by (intro output_post_failed) (auto simp: load_post_def)
      ultimately show ?thesis
        using sent1 w2 sent3 by auto
    next
      case (Inr rep)
      let ?rep = "report_with_phase_timings timings
          (report_with_cleanup (ptr_cleanup (pt_report t)) rep)"
      from run prior \<open>b = Inr bef\<close> load Inr
      have "finish_written_output conn p t options bef lock reporter ?rep w3 = (r, w')"
        by (simp add: write_prepared_output_def w2_def Let_def)
      from finish_step [OF this] obtain fq where "wsent w' = wsent w3 @ fq"
        "finish_post api p t ?rep bef lock r fq"
        by blast
      moreover from this bq lpost Inr have "output_post api p t items lock r (bq @ lq @ fq)"
        by (intro output_post_finish) auto
      ultimately show ?thesis
        using sent1 w2 sent3 by auto
    qed
  qed
qed

lemma enable_step:
  "on_conn (sc_enable_bulk_load_table_lock conn p t) w = (r, w') \<Longrightarrow>
     wsent w' = wsent w @ [TableLockRequest (pt_table_name t) True]"
  by (erule on_conn_emits [OF enable_law]) simp

lemma run_step:
  assumes run: "run_mssql_output_batches_on_connection api conn p items backend options timings
    reporter w = (r, w')"
  shows "\<exists>qs. wsent w' = wsent w @ qs \<and> run_post api p items r qs"
proof -
  define w0 where "w0 = tick (emit_progress_phase reporter PreparingTarget (pl_output_name p) w)"
  have w0: "wsent w0 = wsent w"
    by (simp add: w0_def emit_progress_phase_def)
  obtain q w1 where prep: "on_conn (sc_prepare_target_lifecycle conn p) w0 = (q, w1)"
    by (metis surj_pair)
  then obtain pq where sent1: "wsent w1 = wsent w0 @ pq" and ppost: "prepare_post api p q pq"
    by (rule on_conn_emits [OF prepare_law])
  show ?thesis
  proof (cases q)
    case (Inl e)
    with run prep have "wsent w' = wsent w1" "\<exists>e'. r = Inl e'"
      by (auto simp: run_mssql_output_batches_on_connection_def w0_def Let_def)
    moreover have "run_failed api p items pq"
      using ppost Inl by (auto simp: prepare_post_def run_failed_def)
    ultimately show ?thesis
      using sent1 w0 by (auto simp: run_post_def)
  next
    case (Inr t)
    with ppost have t: "prepared_for api p t" and pq: "statements pq = creation_statements api p t"
      and only: "lifecycle_only pq"
      by (simp_all add: prepare_post_def)
    obtain l w2 where lock: "(if pl_load_mode p = Replace
        then on_conn (sc_enable_bulk_load_table_lock conn p t) w1 else (Inr False, w1)) = (l, w2)"
      by (metis surj_pair)
    then have sent2: "wsent w2 = wsent w1 @ lock_requests p t"
      by (auto simp: lock_requests_def dest: enable_step split: if_splits)
    show ?thesis
    proof (cases l)
      case (Inl e)
      with run prep \<open>q = Inr t\<close> lock have "\<exists>e'. fail_with_cleanup conn p t e' reporter (tick w2) = (r, w')"
        by (auto simp: run_mssql_output_batches_on_connection_def w0_def Let_def)
      then obtain cq c where "wsent w' = wsent w2 @ cq" and c: "cleanup_post api p t c cq"
        and r: "\<exists>e'. r = Inl e'"
        by (auto dest: cleanup_step)
      moreover have "output_failed api p t items cq"
        using output_post_failed [OF r c, of "[]" items False] r by (auto simp: output_post_def)
      ultimately show ?thesis
        using run_failed_after_prepare [OF t pq, of items cq] sent1 sent2 w0
        by (auto simp: run_post_def)
    next
      case (Inr locked)
      with run prep \<open>q = Inr t\<close> lock obtain ts where
        "write_prepared_output api conn p t items backend options ts locked reporter (tick w2) = (r, w')"
        by (auto simp: run_mssql_output_batches_on_connection_def w0_def Let_def)
      from output_step [OF this] obtain wq where sent3: "wsent w' = wsent w2 @ wq"
        and post: "output_post api p t items locked r wq"
        by auto
      have "run_post api p items r (pq @ lock_requests p t @ wq)"
      proof (cases r)
        case (Inl e)
        with post run_failed_after_prepare [OF t pq, of items wq] show ?thesis
          by (simp add: run_post_def output_post_def)
      next
        case (Inr rep)
        with post t pq only show ?thesis
          by (auto simp: run_post_def output_post_def run_ok_def)
      qed
      with sent1 sent2 sent3 w0 show ?thesis
        by auto
    qed
  qed
qed

end

subsection \<open>The production connection\<close>

lemma emits_enable:
  "emits cn_sent (enable_bulk_load_table_lock srv p t)
     (\<lambda>_ qs. qs = [TableLockRequest (pt_table_name t) True])"
  by (auto simp: emits_def enable_bulk_load_table_lock_def client_set_bulk_load_table_lock_def
      dest: send_sent split: prod.splits sum.splits option.splits)

lemma opens_bulk_writer:
  "emits cn_sent (initialize_mssql_bulk_writer srv p t backend) (opens_writer cn_sent t)"
  unfolding initialize_mssql_bulk_writer_def client_bulk_writer_def
proof (intro emits_bind_lift)
  fix request
  assume "initialization_request p t backend = Inr request"
  then have "ir_table request = pt_table_name t"
    by (auto simp: initialization_request_def res_simps split: if_splits)
  moreover have "writer_contract cn_sent (connected_bulk_writer srv)"
    by (simp add: writer_contract_requests connected_writer.writer_requests_axioms)
  ultimately show "emits cn_sent
     (io_bind (io_map_err (mssql_arrow_sql_server_writer_initialization_error p
          (ir_prepared_action request) (ir_cleanup request))
        (send (OpenWriterRequest (ir_table request) (ir_planned_schema request) (ir_backend request))
          (srv_bulk_writer srv (ir_table request) (ir_planned_schema request) (ir_backend request))))
       (\<lambda>_. io_lift (Inr (connected_bulk_writer srv)))) (opens_writer cn_sent t)"
    by (intro emits_bind emits_map_err emits_send)
       (auto simp: opens_writer_def res_simps intro: emits_lift split: sum.split)
qed (simp add: opens_writer_def)

interpretation production: sink_requests "connected_output_client api srv own_plan" cn_sent api
  for api :: arrow_api and srv :: "'s sql_server" and own_plan :: MssqlTargetOutputPlan
proof unfold_locales
qed (simp_all add: connected_output_client_def connected.emits_prepare connected.emits_cleanup
    connected.emits_swap emits_enable opens_bulk_writer disable_bulk_load_table_lock_def
    client_set_bulk_load_table_lock_def connected_target_row_count_def client_target_row_count_def
    emits_map_err emits_send)

lemma connect_step:
  assumes "connect_mssql_output_client srv request w = (r, w')"
  shows "cn_sent (w_conn w') = cn_sent (w_conn w)
           @ [ConnectRequest (cc_connection_string (cr_connection request))]"
proof -
  obtain q w1 where "on_conn (client_connect srv (cc_connection_string (cr_connection request)))
      (tick w) = (q, w1)"
    by (metis surj_pair)
  moreover from this have "cn_sent (w_conn w1) = cn_sent (w_conn w)
      @ [ConnectRequest (cc_connection_string (cr_connection request))]"
    by (auto simp: on_conn_def client_connect_def dest: send_sent split: prod.splits)
  ultimately show ?thesis
    using assms by (cases q) (auto simp: connect_mssql_output_client_def Let_def)
qed

lemma connection_request_step:
  assumes "run_mssql_output_connection_request api srv request items backend options reporter w =
    (r, w')"
  shows "\<exists>qs. cn_sent (w_conn w') = cn_sent (w_conn w)
             @ ConnectRequest (cc_connection_string (cr_connection request)) # qs \<and>
           run_post api (cr_output_plan request) items r qs"
proof -
  obtain q w1 where connect: "connect_mssql_output_client srv request w = (q, w1)"
    by (metis surj_pair)
  note sent1 = connect_step [OF connect]
  show ?thesis
  proof (cases q)
    case (Inl e)
    with assms connect have "r = Inl e" "w' = w1"
      by (simp_all add: run_mssql_output_connection_request_def)
    with sent1 show ?thesis
      by (intro exI [of _ "[]"]) (simp add: run_post_def run_failed_def)
  next
    case (Inr ts)
    with assms connect have "run_mssql_output_batches_on_connection api
        (connected_output_client api srv (cr_output_plan request)) (cr_output_plan request)
        items backend options ts reporter w1 = (r, w')"
      by (simp add: run_mssql_output_connection_request_def)
    from production.run_step [OF this] sent1 show ?thesis
      by auto
  qed
qed

text \<open>The statements of a run, by load mode.\<close>

lemma statements_swap_attempt:
  "swap_attempt api p t final backup sqs \<Longrightarrow>
     statements sqs = [replace_swap_sql api final (pt_table_name t) backup] \<and>
     table_name_from_target api (pl_output_name p) (pl_target_table p) = Inr final"
  by (auto simp: swap_attempt_def)

lemma statements_output_ok:
  assumes "output_ok api p t items lock rep wq"
  shows "if pl_load_mode p = Replace
         then \<exists>final backup. statements wq = [replace_swap_sql api final (pt_table_name t) backup] \<and>
                table_name_from_target api (pl_output_name p) (pl_target_table p) = Inr final
         else statements wq = []"
proof -
  from assms obtain bs bq ps b vq sq where wq: "wq = bq @ OpenWriterRequest (pt_table_name t) ps b
      # map BatchRequest bs @ FinishRequest # vq @ sq"
    and small: "bq = [] \<or> bq = [RowCountRequest (pt_table_name t)]"
      "vq = [] \<or> vq = [RowCountRequest (pt_table_name t)]"
    and mode: "if pl_load_mode p = Replace
      then \<exists>final backup sqs. swap_attempt api p t final backup sqs \<and> sq = unlock_requests t lock @ sqs
      else sq = []"
    unfolding output_ok_def by (elim exE conjE) (simp split: if_splits)
  from small have "statements wq = statements sq"
    by (auto simp: wq)
  with mode show ?thesis
    using statements_swap_attempt by (auto split: if_splits)
qed

lemma run_post_append:
  assumes "run_post api p items r qs" and "pl_load_mode p = AppendExisting"
  shows "statements qs = []"
proof (cases r)
  case (Inl e)
  with assms show ?thesis
    by (auto simp: run_post_def run_failed_def creation_statements_def drop_statements_def)
next
  case (Inr rep)
  with assms obtain t pq lock wq where "qs = pq @ lock_requests p t @ wq"
    "statements pq = []" "output_ok api p t items lock rep wq"
    by (auto simp: run_post_def run_ok_def creation_statements_def)
  with assms statements_output_ok [of api p t items lock rep wq] show ?thesis
    by simp
qed

text \<open>
  The requests of a replace that went through: one staging table created, loaded and finished,
  then its row count requested, then the swap of that table with the target executed.
\<close>

definition swap_after_count ::
    "arrow_api \<Rightarrow> MssqlTargetOutputPlan \<Rightarrow> sql_request list \<Rightarrow> bool" where
  "swap_after_count api p qs \<longleftrightarrow>
     (\<exists>staging final backup loading rest. qs = loading @ RowCountRequest staging # rest \<and>
        FinishRequest \<in> set loading \<and> FinishRequest \<notin> set rest \<and>
        statements loading =
          [api_create_table_sql_from_mappings api staging (pl_schema_mappings p)] \<and>
        statements rest = [replace_swap_sql api final staging backup] \<and>
        table_name_from_target api (pl_output_name p) (pl_target_table p) = Inr final)"

lemma run_ok_replace:
  assumes "run_ok api p items rep qs" and mode: "pl_load_mode p = Replace"
  shows "wr_validation_status rep = ValidationStatus.Passed"
    and "wr_target_row_count rep = wr_output_row_count rep" and "swap_after_count api p qs"
proof -
  from assms obtain t pq lock wq where pq: "statements pq = creation_statements api p t"
    and qs: "qs = pq @ lock_requests p t @ wq" and out: "output_ok api p t items lock rep wq"
    by (auto simp: run_ok_def)
  from out mode obtain bs bq ps b sq where rep: "written_report p bs rep"
    and small: "bq = [] \<or> bq = [RowCountRequest (pt_table_name t)]"
    and wq: "wq = bq @ OpenWriterRequest (pt_table_name t) ps b # map BatchRequest bs
               @ FinishRequest # RowCountRequest (pt_table_name t) # sq"
    and passed: "wr_validation_status rep = ValidationStatus.Passed"
      "wr_target_row_count rep = RowCount.Exact (sum_rows 0 bs)"
    and swap: "\<exists>final backup sqs. swap_attempt api p t final backup sqs \<and>
      sq = unlock_requests t lock @ sqs"
    unfolding output_ok_def by (elim exE conjE) simp
  from swap obtain final backup sqs where
    sq: "swap_attempt api p t final backup sqs" "sq = unlock_requests t lock @ sqs"
    by blast
  let ?loading = "pq @ lock_requests p t @ bq @ OpenWriterRequest (pt_table_name t) ps b
    # map BatchRequest bs @ [FinishRequest]"
  from sq have rest: "FinishRequest \<notin> set sq"
    by (auto simp: swap_attempt_def unlock_requests_def split: if_splits)
  from small pq mode have loading: "statements ?loading =
      [api_create_table_sql_from_mappings api (pt_table_name t) (pl_schema_mappings p)]"
    by (auto simp: creation_statements_def)
  from rep passed show "wr_validation_status rep = ValidationStatus.Passed"
    "wr_target_row_count rep = wr_output_row_count rep"
    by (simp_all add: written_report_def)
  from statements_swap_attempt [OF sq(1)] sq(2) have "statements sq =
      [replace_swap_sql api final (pt_table_name t) backup]"
    "table_name_from_target api (pl_output_name p) (pl_target_table p) = Inr final"
    by simp_all
  with rest loading show "swap_after_count api p qs"
    unfolding swap_after_count_def qs wq
    by (rule_tac exI [of _ "pt_table_name t"], rule_tac exI [of _ final], rule_tac exI [of _ backup],
        rule_tac exI [of _ ?loading], rule_tac exI [of _ sq]) simp
qed

lemma run_failed_create:
  assumes "run_failed api p items qs" and "pl_load_mode p = CreateAndLoad"
    and "pl_create_table_sql p = Some sql"
  shows "statements qs = [] \<or> statements qs = [sql] \<or>
    (\<exists>n. table_name_from_target api (pl_output_name p) (pl_target_table p) = Inr n \<and>
       statements qs = [sql, drop_table_sql api n])"
  using assms
  by (auto simp: run_failed_def creation_statements_def drop_statements_def prepared_for_def)

text \<open>Without validation a target is never replaced.\<close>

lemma replace_without_validation_fails:
  assumes "pl_load_mode p = Replace"
    and "target_validation_mode options = TargetValidationMode.Disabled"
  shows "isl (fst (run_mssql_output_batches_on_connection api conn p items backend options timings
           reporter w))"
proof -
  have "isl (fst (finish_written_output conn p t options prior lock reporter rep' w'))"
    for t prior lock rep' w'
    using assms
    by (simp add: finish_written_output_def validate_written_target_def fail_with_cleanup_def Let_def
        split: prod.splits)
  then have "isl (fst (write_prepared_output api conn p t items backend options ts lock reporter w'))"
    for t ts lock w'
    by (simp add: write_prepared_output_def fail_with_cleanup_def Let_def
        split: prod.splits sum.splits)
  then show ?thesis
    by (simp add: run_mssql_output_batches_on_connection_def fail_with_cleanup_def Let_def
        split: prod.splits sum.splits)
qed

end
