(* ===== verification/DF_Workflow.thy ===== *)
theory DF_Workflow
  imports DF_Sink_Protocol
begin

section \<open>The multi-output workflow\<close>

text \<open>
  \<open>sql_server/execution/workflow.rs\<close>: writing several outputs one after the other, stopping at
  the first failure. \<open>output_writer\<close> is the trait \<open>MssqlWorkflowOutputWriter\<close>; the sink writer
  and the stream benchmark writer are its two implementations. A job carries the factory of its
  batch stream, an action of the world that the workflow runs only when it attempts the output.
\<close>

subsection \<open>Jobs and options\<close>

definition OUTPUT_STREAM_SETUP_PHASE :: string where
  "OUTPUT_STREAM_SETUP_PHASE = ''output_stream_setup''"

definition SQL_WRITE_PHASE :: string where
  "SQL_WRITE_PHASE = ''sql_write''"

record MssqlOutputQueryExecution =
  qe_stream :: batch_stream
  qe_query_phase_timings :: "PhaseTimingReport list"
  qe_attach_profile_to_result ::
    "((DeltaFunnelError + MssqlWriteReport) \<Rightarrow> (DeltaFunnelError + MssqlWriteReport)) option"

record MssqlOutputQueryError =
  qx_error :: DeltaFunnelError
  qx_query_phase_timings :: "PhaseTimingReport list"

record 's MssqlOutputWriteJob =
  job_output_schema :: Schema
  job_resolved_target :: ResolvedMssqlTarget
  job_schema_options :: MssqlSchemaPlanOptions
  job_create_query_execution ::
    "('s world, MssqlOutputQueryError, MssqlOutputQueryExecution) io"
  job_write_backend :: MssqlWriteBackend
  job_validation_options :: ValidationOptions
  job_phase_timings :: "PhaseTimingReport list"
  job_progress_reporter :: "ProgressReporter option"

definition job_new_with_query_execution_factory ::
    "Schema \<Rightarrow> ResolvedMssqlTarget \<Rightarrow> MssqlSchemaPlanOptions
      \<Rightarrow> ('s world, MssqlOutputQueryError, MssqlOutputQueryExecution) io \<Rightarrow> MssqlWriteBackend
      \<Rightarrow> ValidationOptions \<Rightarrow> 's MssqlOutputWriteJob" where
  "job_new_with_query_execution_factory schema target schema_options factory backend options =
     \<lparr>job_output_schema = schema, job_resolved_target = target,
      job_schema_options = schema_options, job_create_query_execution = factory,
      job_write_backend = backend, job_validation_options = options, job_phase_timings = [],
      job_progress_reporter = None\<rparr>"

definition job_new ::
    "Schema \<Rightarrow> ResolvedMssqlTarget \<Rightarrow> MssqlSchemaPlanOptions
      \<Rightarrow> ('s world, DeltaFunnelError, batch_stream) io \<Rightarrow> MssqlWriteBackend \<Rightarrow> ValidationOptions
      \<Rightarrow> 's MssqlOutputWriteJob" where
  "job_new schema target schema_options stream_factory backend options =
     job_new_with_query_execution_factory schema target schema_options
       (io_bind
         (io_map_err (\<lambda>e. \<lparr>qx_error = e, qx_query_phase_timings = []\<rparr>) stream_factory)
         (\<lambda>stream. io_lift (Inr \<lparr>qe_stream = stream, qe_query_phase_timings = [],
                                 qe_attach_profile_to_result = None\<rparr>)))
       backend options"

definition job_with_phase_timings ::
    "PhaseTimingReport list \<Rightarrow> 's MssqlOutputWriteJob \<Rightarrow> 's MssqlOutputWriteJob" where
  "job_with_phase_timings ts job = job\<lparr>job_phase_timings := ts\<rparr>"

definition job_with_progress_reporter ::
    "ProgressReporter option \<Rightarrow> 's MssqlOutputWriteJob \<Rightarrow> 's MssqlOutputWriteJob" where
  "job_with_progress_reporter r job = job\<lparr>job_progress_reporter := r\<rparr>"

definition job_with_default_write_backend ::
    "Schema \<Rightarrow> ResolvedMssqlTarget \<Rightarrow> MssqlSchemaPlanOptions
      \<Rightarrow> ('s world, DeltaFunnelError, batch_stream) io \<Rightarrow> 's MssqlOutputWriteJob" where
  "job_with_default_write_backend schema target schema_options batches =
     job_new schema target schema_options batches default_mssql_write_backend ValidationOptions_new"

definition job_target_summary :: "'s MssqlOutputWriteJob \<Rightarrow> MssqlTargetSummary" where
  "job_target_summary job = target_summary (job_resolved_target job)"

record MssqlWorkflowWriteOptions =
  max_parallel_outputs :: nat

definition MssqlWorkflowWriteOptions_new :: MssqlWorkflowWriteOptions where
  "MssqlWorkflowWriteOptions_new = \<lparr>max_parallel_outputs = 1\<rparr>"

definition with_max_parallel_outputs ::
    "nat \<Rightarrow> MssqlWorkflowWriteOptions \<Rightarrow> MssqlWorkflowWriteOptions" where
  "with_max_parallel_outputs n options = options\<lparr>max_parallel_outputs := n\<rparr>"

definition workflow_options_validate :: "MssqlWorkflowWriteOptions \<Rightarrow> DeltaFunnelError + unit" where
  "workflow_options_validate options =
     (if max_parallel_outputs options = 1 then Inr ()
      else if max_parallel_outputs options = 0 then
        Inl (MssqlWorkflowPlanning ''max_parallel_outputs must be at least 1'')
      else Inl (MssqlWorkflowPlanning
             (''parallel MSSQL output writers are not supported; requested ''
                @ show_nat (max_parallel_outputs options))))"

definition ensure_sequential_options :: "MssqlWorkflowWriteOptions \<Rightarrow> DeltaFunnelError + unit" where
  "ensure_sequential_options options = workflow_options_validate options"

subsection \<open>Statuses\<close>

fun status_output_name :: "MssqlOutputWriteStatus \<Rightarrow> string" where
  "status_output_name (MssqlOutputWriteStatus.Succeeded r) = wr_output_name r"
| "status_output_name (MssqlOutputWriteStatus.Failed r) = ts_output_name (fr_target r)"
| "status_output_name (MssqlOutputWriteStatus.Skipped r) = ts_output_name (sr_target r)"

fun status_target_table :: "MssqlOutputWriteStatus \<Rightarrow> MssqlTargetTable" where
  "status_target_table (MssqlOutputWriteStatus.Succeeded r) = wr_target_table r"
| "status_target_table (MssqlOutputWriteStatus.Failed r) = ts_table (fr_target r)"
| "status_target_table (MssqlOutputWriteStatus.Skipped r) = ts_table (sr_target r)"

fun status_load_mode :: "MssqlOutputWriteStatus \<Rightarrow> LoadMode" where
  "status_load_mode (MssqlOutputWriteStatus.Succeeded r) = wr_load_mode r"
| "status_load_mode (MssqlOutputWriteStatus.Failed r) = ts_load_mode (fr_target r)"
| "status_load_mode (MssqlOutputWriteStatus.Skipped r) = ts_load_mode (sr_target r)"

fun status_output_row_count :: "MssqlOutputWriteStatus \<Rightarrow> RowCount" where
  "status_output_row_count (MssqlOutputWriteStatus.Succeeded r) = wr_output_row_count r"
| "status_output_row_count (MssqlOutputWriteStatus.Failed r) = fr_output_row_count r"
| "status_output_row_count (MssqlOutputWriteStatus.Skipped r) = sr_output_row_count r"

fun status_target_row_count :: "MssqlOutputWriteStatus \<Rightarrow> RowCount" where
  "status_target_row_count (MssqlOutputWriteStatus.Succeeded r) = wr_target_row_count r"
| "status_target_row_count (MssqlOutputWriteStatus.Failed r) = fr_target_row_count r"
| "status_target_row_count (MssqlOutputWriteStatus.Skipped r) = sr_target_row_count r"

fun status_validation_status :: "MssqlOutputWriteStatus \<Rightarrow> ValidationStatus" where
  "status_validation_status (MssqlOutputWriteStatus.Succeeded r) = wr_validation_status r"
| "status_validation_status (MssqlOutputWriteStatus.Failed r) = fr_validation_status r"
| "status_validation_status (MssqlOutputWriteStatus.Skipped r) = sr_validation_status r"

fun status_batch_shaping :: "MssqlOutputWriteStatus \<Rightarrow> MssqlBatchShapingReport" where
  "status_batch_shaping (MssqlOutputWriteStatus.Succeeded r) = wr_batch_shaping r"
| "status_batch_shaping (MssqlOutputWriteStatus.Failed r) = fr_batch_shaping r"
| "status_batch_shaping (MssqlOutputWriteStatus.Skipped r) = sr_batch_shaping r"

fun status_phase_timings :: "MssqlOutputWriteStatus \<Rightarrow> PhaseTimingReport list" where
  "status_phase_timings (MssqlOutputWriteStatus.Succeeded r) = wr_phase_timings r"
| "status_phase_timings (MssqlOutputWriteStatus.Failed r) = fr_phase_timings r"
| "status_phase_timings (MssqlOutputWriteStatus.Skipped r) = sr_phase_timings r"

fun is_succeeded :: "MssqlOutputWriteStatus \<Rightarrow> bool" where
  "is_succeeded (MssqlOutputWriteStatus.Succeeded _) = True"
| "is_succeeded _ = False"

fun is_failed :: "MssqlOutputWriteStatus \<Rightarrow> bool" where
  "is_failed (MssqlOutputWriteStatus.Failed _) = True"
| "is_failed _ = False"

fun is_skipped :: "MssqlOutputWriteStatus \<Rightarrow> bool" where
  "is_skipped (MssqlOutputWriteStatus.Skipped _) = True"
| "is_skipped _ = False"

definition all_succeeded :: "MssqlWorkflowWriteReport \<Rightarrow> bool" where
  "all_succeeded r \<longleftrightarrow> list_all is_succeeded (wf_outputs r)"

definition succeeded_count :: "MssqlWorkflowWriteReport \<Rightarrow> nat" where
  "succeeded_count r = length (filter is_succeeded (wf_outputs r))"

definition failed_count :: "MssqlWorkflowWriteReport \<Rightarrow> nat" where
  "failed_count r = length (filter is_failed (wf_outputs r))"

definition skipped_count :: "MssqlWorkflowWriteReport \<Rightarrow> nat" where
  "skipped_count r = length (filter is_skipped (wf_outputs r))"

definition workflow_report_display :: "MssqlWorkflowWriteReport \<Rightarrow> string" where
  "workflow_report_display r =
     ''MSSQL workflow write report: '' @ show_nat (succeeded_count r) @ '' succeeded, ''
     @ show_nat (failed_count r) @ '' failed, '' @ show_nat (skipped_count r) @ '' skipped''"

subsection \<open>Reports of failed and skipped outputs\<close>

text \<open>
  Merging the failure context's timings into those of the workflow: each replaces the first
  timing of its phase, or is appended.
\<close>

definition merge_timing ::
    "PhaseTimingReport \<Rightarrow> PhaseTimingReport list \<Rightarrow> PhaseTimingReport list" where
  "merge_timing timing ts =
     (case find_index (\<lambda>existing. phase_name existing = phase_name timing) ts of
        Some i \<Rightarrow> ts[i := timing]
      | None \<Rightarrow> ts @ [timing])"

definition merged_failure_phase_timings ::
    "PhaseTimingReport list \<Rightarrow> MssqlWriteFailureContext option \<Rightarrow> PhaseTimingReport list" where
  "merged_failure_phase_timings ts context =
     (case context of
        None \<Rightarrow> ts
      | Some c \<Rightarrow> fold merge_timing (wr_phase_timings (fc_report c)) ts)"

definition failure_report_from_error ::
    "MssqlTargetSummary \<Rightarrow> DeltaFunnelError \<Rightarrow> PhaseTimingReport list
      \<Rightarrow> MssqlWriteFailureReport" where
  "failure_report_from_error target e ts =
     (let context = failure_context e;
          merged = merged_failure_phase_timings ts context
      in \<lparr>fr_target = target,
          fr_error = sanitize_text_for_display (DeltaFunnelError_display e),
          fr_context = context,
          fr_output_row_count =
            (case context of None \<Rightarrow> RowCount.Unavailable | Some c \<Rightarrow> wr_output_row_count (fc_report c)),
          fr_target_row_count =
            (case context of None \<Rightarrow> RowCount.Unavailable | Some c \<Rightarrow> wr_target_row_count (fc_report c)),
          fr_validation_status =
            (case context of
               None \<Rightarrow> ValidationStatus.Skipped FailureBeforeValidation
             | Some c \<Rightarrow> wr_validation_status (fc_report c)),
          fr_batch_shaping =
            (case context of
               None \<Rightarrow> shaping_not_started ReportReasonCode.NotExecuted
             | Some c \<Rightarrow> wr_batch_shaping (fc_report c)),
          fr_phase_timings = merged\<rparr>)"

definition output_write_phase_timings ::
    "PhaseTimingReport list \<Rightarrow> PhaseTimingReport \<Rightarrow> PhaseTimingReport \<Rightarrow> PhaseTimingReport list" where
  "output_write_phase_timings ts stream_setup write_timing = ts @ [stream_setup, write_timing]"

definition output_write_failure_phase_timings ::
    "PhaseTimingReport list \<Rightarrow> PhaseTimingReport \<Rightarrow> PhaseTimingReport \<Rightarrow> PhaseTimingReport list" where
  "output_write_failure_phase_timings ts stream_setup write_timing =
     ts @ [stream_setup, write_timing, timing_not_started VALIDATION_PHASE FailureBeforeValidation]"

definition stream_setup_failure_phase_timings ::
    "PhaseTimingReport list \<Rightarrow> PhaseTimingReport \<Rightarrow> PhaseTimingReport list" where
  "stream_setup_failure_phase_timings ts stream_setup =
     ts @ [stream_setup, timing_not_started SQL_WRITE_PHASE ReportReasonCode.NotExecuted,
           timing_not_started VALIDATION_PHASE FailureBeforeValidation]"

definition skipped_after_prior_failure_phase_timings ::
    "PhaseTimingReport list \<Rightarrow> PhaseTimingReport list" where
  "skipped_after_prior_failure_phase_timings ts =
     ts @ [timing_skipped OUTPUT_STREAM_SETUP_PHASE PriorFailure,
           timing_skipped SQL_WRITE_PHASE PriorFailure, timing_skipped VALIDATION_PHASE PriorFailure]"

definition skipped_previous_output_failed ::
    "MssqlTargetSummary \<Rightarrow> string \<Rightarrow> PhaseTimingReport list \<Rightarrow> MssqlWriteSkippedReport" where
  "skipped_previous_output_failed target failed_output_name ts =
     \<lparr>sr_target = target, sr_reason = PreviousOutputFailed failed_output_name,
      sr_output_row_count = RowCount.Unavailable, sr_target_row_count = RowCount.Unavailable,
      sr_validation_status = ValidationStatus.Skipped PriorFailure,
      sr_batch_shaping = shaping_skipped PriorFailure,
      sr_phase_timings = skipped_after_prior_failure_phase_timings ts\<rparr>"

definition skipped_output_status ::
    "MssqlTargetSummary \<Rightarrow> string \<Rightarrow> PhaseTimingReport list \<Rightarrow> MssqlOutputWriteStatus" where
  "skipped_output_status target failed_output_name ts =
     MssqlOutputWriteStatus.Skipped (skipped_previous_output_failed target failed_output_name ts)"

subsection \<open>Writers\<close>

record 's output_writer =
  ow_reports_sql_write_phase :: bool
  ow_write_output ::
    "Schema \<Rightarrow> ResolvedMssqlTarget \<Rightarrow> MssqlSchemaPlanOptions \<Rightarrow> batch_stream \<Rightarrow> MssqlWriteBackend
      \<Rightarrow> ValidationOptions \<Rightarrow> ProgressReporter option
      \<Rightarrow> ('s world, DeltaFunnelError, MssqlWriteReport) io"

definition workflow_sink_writer :: "arrow_api \<Rightarrow> 's sql_server \<Rightarrow> 's conn output_writer" where
  "workflow_sink_writer api srv =
     \<lparr>ow_reports_sql_write_phase = True,
      ow_write_output = write_output_batches_to_mssql_for_workflow api srv\<rparr>"

definition benchmark_write_output ::
    "arrow_api \<Rightarrow> Schema \<Rightarrow> ResolvedMssqlTarget \<Rightarrow> MssqlSchemaPlanOptions \<Rightarrow> batch_stream
      \<Rightarrow> ('s world, DeltaFunnelError, MssqlWriteReport) io" where
  "benchmark_write_output api schema target schema_options batches w =
     (case plan_mssql_target_for_resolved_output api schema target schema_options of
        Inl e \<Rightarrow> (Inl e, w)
      | Inr output_plan \<Rightarrow> drain_mssql_batches_for_stream_benchmark api output_plan batches w)"

definition stream_benchmark_output_writer :: "arrow_api \<Rightarrow> 's output_writer" where
  "stream_benchmark_output_writer api =
     \<lparr>ow_reports_sql_write_phase = False,
      ow_write_output = (\<lambda>schema target schema_options batches _ _ _.
        benchmark_write_output api schema target schema_options batches)\<rparr>"

subsection \<open>The workflow\<close>

text \<open>The tail of a job, once its stream is set up.\<close>

definition write_timing_of ::
    "bool \<Rightarrow> DeltaFunnelError + MssqlWriteReport \<Rightarrow> PhaseTimer \<Rightarrow> 's world
      \<Rightarrow> PhaseTimingReport \<times> 's world" where
  "write_timing_of reports result timer w =
     (if \<not> reports then (timing_not_started SQL_WRITE_PHASE ReportReasonCode.NotExecuted, w)
      else if is_ok result then w_timer_completed timer w
      else w_timer_failed timer w)"

definition write_job_stream ::
    "'s MssqlOutputWriteJob \<Rightarrow> 's output_writer \<Rightarrow> MssqlOutputQueryExecution \<Rightarrow> PhaseTimingReport
      \<Rightarrow> 's world \<Rightarrow> MssqlOutputWriteStatus \<times> 's world" where
  "write_job_stream job writer execution setup_timing w =
     (let planned = job_phase_timings job @ qe_query_phase_timings execution;
          (timer, w) = w_timer_start SQL_WRITE_PHASE w;
          (written, w) =
            ow_write_output writer (job_output_schema job) (job_resolved_target job)
              (job_schema_options job) (qe_stream execution) (job_write_backend job)
              (job_validation_options job) (job_progress_reporter job) w;
          result = (case qe_attach_profile_to_result execution of
                      Some attach \<Rightarrow> attach written
                    | None \<Rightarrow> written);
          (write_timing, w) = write_timing_of (ow_reports_sql_write_phase writer) result timer w
      in case result of
           Inr report \<Rightarrow>
             (MssqlOutputWriteStatus.Succeeded (report_with_phase_timings
                (output_write_phase_timings planned setup_timing write_timing) report), w)
         | Inl e \<Rightarrow>
             (MssqlOutputWriteStatus.Failed (failure_report_from_error (job_target_summary job) e
                (output_write_failure_phase_timings planned setup_timing write_timing)), w))"

definition write_mssql_output_job ::
    "'s MssqlOutputWriteJob \<Rightarrow> 's output_writer \<Rightarrow> 's world
      \<Rightarrow> MssqlOutputWriteStatus \<times> 's world" where
  "write_mssql_output_job job writer w =
     (let target = job_target_summary job;
          w = w_emit (job_progress_reporter job)
                (phase_changed SettingUpStream (Some (ts_output_name target))) w;
          (timer, w) = w_timer_start OUTPUT_STREAM_SETUP_PHASE w
      in case job_create_query_execution job w of
           (Inl failure, w) \<Rightarrow>
             let (timing, w) = w_timer_failed timer w
             in (MssqlOutputWriteStatus.Failed (failure_report_from_error target (qx_error failure)
                  (stream_setup_failure_phase_timings
                     (job_phase_timings job @ qx_query_phase_timings failure) timing)), w)
         | (Inr execution, w) \<Rightarrow>
             let (timing, w) = w_timer_completed timer w
             in write_job_stream job writer execution timing w)"

fun outputs_loop ::
    "'s output_writer \<Rightarrow> string option \<Rightarrow> MssqlOutputWriteStatus list \<Rightarrow> 's MssqlOutputWriteJob list
      \<Rightarrow> 's world \<Rightarrow> MssqlOutputWriteStatus list \<times> 's world" where
  "outputs_loop writer failed_output_name statuses [] w = (statuses, w)"
| "outputs_loop writer failed_output_name statuses (job # jobs) w =
     (case failed_output_name of
        Some name \<Rightarrow>
          outputs_loop writer failed_output_name
            (statuses @ [skipped_output_status (job_target_summary job) name (job_phase_timings job)])
            jobs w
      | None \<Rightarrow>
          (case write_mssql_output_job job writer w of
             (outcome, w) \<Rightarrow>
               outputs_loop writer
                 (case outcome of
                    MssqlOutputWriteStatus.Failed failure \<Rightarrow> Some (ts_output_name (fr_target failure))
                  | _ \<Rightarrow> None)
                 (statuses @ [outcome]) jobs w))"

definition write_mssql_outputs_with_writer ::
    "'s MssqlOutputWriteJob list \<Rightarrow> MssqlWorkflowWriteOptions \<Rightarrow> 's output_writer
      \<Rightarrow> ('s world, DeltaFunnelError, MssqlWorkflowWriteReport) io" where
  "write_mssql_outputs_with_writer jobs options writer w =
     (case ensure_sequential_options options of
        Inl e \<Rightarrow> (Inl e, w)
      | Inr _ \<Rightarrow>
          (case outputs_loop writer None [] jobs w of
             (statuses, w) \<Rightarrow> (Inr \<lparr>wf_outputs = statuses\<rparr>, w)))"

definition write_mssql_outputs_to_mssql ::
    "arrow_api \<Rightarrow> 's sql_server \<Rightarrow> 's conn MssqlOutputWriteJob list \<Rightarrow> MssqlWorkflowWriteOptions
      \<Rightarrow> ('s conn world, DeltaFunnelError, MssqlWorkflowWriteReport) io" where
  "write_mssql_outputs_to_mssql api srv jobs options =
     write_mssql_outputs_with_writer jobs options (workflow_sink_writer api srv)"

subsection \<open>Merged timings\<close>

lemma merge_timing_replace: "merge_timing timing ts = replace_phase_timing ts timing"
proof (induction ts)
  case (Cons x xs)
  then show ?case
    by (auto simp: merge_timing_def split: option.splits)
qed (simp add: merge_timing_def)

lemma fold_merge_timing_of:
  "timing_of (fold merge_timing new ts) n =
     (case timing_of (rev new) n of Some t \<Rightarrow> Some t | None \<Rightarrow> timing_of ts n)"
proof (induction new arbitrary: ts)
  case (Cons t new)
  then show ?case
    by (simp add: merge_timing_replace timing_of_replace timing_of_append split: option.splits)
qed (simp add: timing_of_def)

subsection \<open>Stopping at the first failure\<close>

text \<open>
  The abstract workflow: attempt the outputs in order, and once one has failed report the
  others as skipped. The loop keeps a flag and an accumulator instead.
\<close>

fun until_failure ::
    "'s output_writer \<Rightarrow> 's MssqlOutputWriteJob list \<Rightarrow> 's world
      \<Rightarrow> MssqlOutputWriteStatus list \<times> 's world" where
  "until_failure writer [] w = ([], w)"
| "until_failure writer (job # jobs) w =
     (case write_mssql_output_job job writer w of
        (MssqlOutputWriteStatus.Failed f, w') \<Rightarrow>
          (MssqlOutputWriteStatus.Failed f
             # map (\<lambda>j. skipped_output_status (job_target_summary j) (ts_output_name (fr_target f))
                          (job_phase_timings j)) jobs, w')
      | (outcome, w') \<Rightarrow>
          (case until_failure writer jobs w' of (statuses, w'') \<Rightarrow> (outcome # statuses, w'')))"

lemma outputs_loop_failed:
  "outputs_loop writer (Some name) statuses jobs w =
     (statuses @ map (\<lambda>j. skipped_output_status (job_target_summary j) name (job_phase_timings j)) jobs,
      w)"
  by (induction jobs arbitrary: statuses) simp_all

lemma outputs_loop_until_failure:
  "outputs_loop writer None statuses jobs w =
     (statuses @ fst (until_failure writer jobs w), snd (until_failure writer jobs w))"
proof (induction jobs arbitrary: statuses w)
  case (Cons job jobs)
  obtain outcome w' where "write_mssql_output_job job writer w = (outcome, w')"
    by (metis surj_pair)
  then show ?case
    by (cases outcome) (simp_all add: Cons.IH outputs_loop_failed split: prod.splits)
qed simp

lemma workflow_run:
  "max_parallel_outputs options = 1 \<Longrightarrow>
     write_mssql_outputs_with_writer jobs options writer w =
       (Inr \<lparr>wf_outputs = fst (until_failure writer jobs w)\<rparr>, snd (until_failure writer jobs w))"
  by (simp add: write_mssql_outputs_with_writer_def ensure_sequential_options_def
      workflow_options_validate_def outputs_loop_until_failure split: prod.split)

lemma write_job_not_skipped: "\<not> is_skipped (fst (write_mssql_output_job job writer w))"
  by (simp add: write_mssql_output_job_def write_job_stream_def Let_def
      split: prod.splits sum.splits)

text \<open>
  The shape of a report: a prefix of successes, then nothing, or one failure followed only by
  skipped outputs that name it.
\<close>

definition stopped_report :: "MssqlOutputWriteStatus list \<Rightarrow> bool" where
  "stopped_report statuses \<longleftrightarrow>
     (\<exists>done. list_all is_succeeded done \<and>
        (statuses = done \<or>
         (\<exists>f skipped. statuses = done @ MssqlOutputWriteStatus.Failed f # skipped \<and>
            (\<forall>s \<in> set skipped. \<exists>r. s = MssqlOutputWriteStatus.Skipped r \<and>
               sr_reason r = PreviousOutputFailed (ts_output_name (fr_target f)) \<and>
               sr_validation_status r = ValidationStatus.Skipped PriorFailure))))"

lemma stopped_report_Succeeded:
  assumes "stopped_report statuses"
  shows "stopped_report (MssqlOutputWriteStatus.Succeeded r # statuses)"
proof -
  from assms obtain oks where oks: "list_all is_succeeded oks"
    "statuses = oks \<or>
       (\<exists>f skipped. statuses = oks @ MssqlOutputWriteStatus.Failed f # skipped \<and>
          (\<forall>s \<in> set skipped. \<exists>r. s = MssqlOutputWriteStatus.Skipped r \<and>
             sr_reason r = PreviousOutputFailed (ts_output_name (fr_target f)) \<and>
             sr_validation_status r = ValidationStatus.Skipped PriorFailure))"
    by (auto simp: stopped_report_def)
  then show ?thesis
    unfolding stopped_report_def
    by (intro exI [of _ "MssqlOutputWriteStatus.Succeeded r # oks"]) auto
qed

lemma stopped_report_Failed:
  "stopped_report (MssqlOutputWriteStatus.Failed f
     # map (\<lambda>j. skipped_output_status (job_target_summary j) (ts_output_name (fr_target f))
                  (job_phase_timings j)) jobs)"
  unfolding stopped_report_def
  by (intro exI [of _ "[]"]) (auto simp: skipped_output_status_def skipped_previous_output_failed_def)

lemma until_failure_stopped: "stopped_report (fst (until_failure writer jobs w))"
proof (induction jobs arbitrary: w)
  case Nil
  show ?case
    by (simp add: stopped_report_def)
next
  case (Cons job jobs)
  obtain outcome w' where run: "write_mssql_output_job job writer w = (outcome, w')"
    by (metis surj_pair)
  with write_job_not_skipped [of job writer w] Cons.IH [of w'] show ?case
    by (cases outcome) (auto simp: stopped_report_Failed stopped_report_Succeeded split: prod.splits)
qed

lemma length_until_failure: "length (fst (until_failure writer jobs w)) = length jobs"
proof (induction jobs arbitrary: w)
  case (Cons job jobs)
  obtain outcome w' where run: "write_mssql_output_job job writer w = (outcome, w')"
    by (metis surj_pair)
  with Cons.IH [of w'] show ?case
    by (cases outcome) (auto split: prod.splits)
qed simp

text \<open>The world a workflow leaves is the one after its last attempted output.\<close>

lemma until_failure_world:
  assumes "until_failure writer jobs w = (statuses, w')"
  shows "until_failure writer (take (length (takeWhile is_succeeded statuses) + 1) jobs) w =
           (take (length (takeWhile is_succeeded statuses) + 1) statuses, w')"
  using assms
proof (induction jobs arbitrary: w statuses)
  case (Cons job jobs)
  obtain outcome w1 where run: "write_mssql_output_job job writer w = (outcome, w1)"
    by (metis surj_pair)
  with write_job_not_skipped [of job writer w] Cons.prems Cons.IH [of w1] show ?case
    by (cases outcome) (auto split: prod.splits)
qed simp

lemma status_partition:
  "length (filter is_succeeded ss) + length (filter is_failed ss) + length (filter is_skipped ss) =
     length ss"
proof (induction ss)
  case (Cons s ss)
  then show ?case
    by (cases s) simp_all
qed simp

lemma succeeded_not_failed: "list_all is_succeeded ss \<Longrightarrow> filter is_failed ss = []"
  by (auto simp: list_all_iff filter_empty_conv) (metis is_failed.simps(2) is_succeeded.elims(2))

lemma stopped_report_counts:
  assumes "stopped_report statuses"
  shows "length (filter is_failed statuses) \<le> 1"
    and "filter is_failed statuses = [] \<Longrightarrow> list_all is_succeeded statuses"
proof -
  have skipped: "filter is_failed sk = []"
    if "\<forall>s \<in> set sk. \<exists>r. s = MssqlOutputWriteStatus.Skipped r \<and> P r" for sk P
    using that by (auto simp: filter_empty_conv)
  show "length (filter is_failed statuses) \<le> 1"
    using assms skipped by (auto simp: stopped_report_def succeeded_not_failed)
  show "filter is_failed statuses = [] \<Longrightarrow> list_all is_succeeded statuses"
    using assms by (auto simp: stopped_report_def)
qed

subsection \<open>What the workflow relies on of its writer\<close>

text \<open>
  A writer's report is about the target it was given, and the requests it adds to the log are
  ones allowed for that target.
\<close>

definition about_target :: "ResolvedMssqlTarget \<Rightarrow> MssqlWriteReport \<Rightarrow> bool" where
  "about_target t r \<longleftrightarrow>
     wr_output_name r = rt_output_name t \<and> wr_target_table r = rt_table t \<and>
     wr_load_mode r = rt_load_mode t"

text \<open>
  The callback that attaches a profile may change the report, but not what it is about, nor
  whether the output succeeded. The stream factory of a job does not talk to the server of the
  targets.
\<close>

definition keeps_target ::
    "((DeltaFunnelError + MssqlWriteReport) \<Rightarrow> (DeltaFunnelError + MssqlWriteReport)) \<Rightarrow> bool" where
  "keeps_target attach \<longleftrightarrow>
     (\<forall>e. isl (attach (Inl e))) \<and>
     (\<forall>r. \<exists>r'. attach (Inr r) = Inr r' \<and> (\<forall>t. about_target t r \<longrightarrow> about_target t r'))"

definition job_wf :: "('s \<Rightarrow> sql_request list) \<Rightarrow> 's MssqlOutputWriteJob \<Rightarrow> bool" where
  "job_wf sent job \<longleftrightarrow>
     (\<forall>w r w'. job_create_query_execution job w = (r, w') \<longrightarrow>
        sent (w_conn w') = sent (w_conn w) \<and>
        (\<forall>x attach. r = Inr x \<longrightarrow> qe_attach_profile_to_result x = Some attach \<longrightarrow> keeps_target attach))"

definition status_target_of :: "ResolvedMssqlTarget \<Rightarrow> MssqlOutputWriteStatus \<Rightarrow> bool" where
  "status_target_of t s \<longleftrightarrow>
     status_output_name s = rt_output_name t \<and> status_target_table s = rt_table t \<and>
     status_load_mode s = rt_load_mode t"

locale workflow_writer =
  fixes writer :: "'s output_writer"
    and sent :: "'s \<Rightarrow> sql_request list"
    and allowed :: "ResolvedMssqlTarget \<Rightarrow> sql_request list \<Rightarrow> bool"
  assumes writes_target:
      "ow_write_output writer schema t so items backend vo reporter w = (Inr rep, w') \<Longrightarrow>
         about_target t rep"
    and sends_allowed:
      "ow_write_output writer schema t so items backend vo reporter w = (r, w') \<Longrightarrow>
         \<exists>qs. sent (w_conn w') = sent (w_conn w) @ qs \<and> allowed t qs"
    and allowed_Nil: "allowed t []"
begin

lemma write_job_stream_step:
  assumes run: "write_job_stream job writer x timing w = (outcome, w')"
    and keeps: "\<And>attach. qe_attach_profile_to_result x = Some attach \<Longrightarrow> keeps_target attach"
  shows "status_target_of (job_resolved_target job) outcome \<and>
    (\<exists>qs. sent (w_conn w') = sent (w_conn w) @ qs \<and> allowed (job_resolved_target job) qs)"
proof -
  let ?t = "job_resolved_target job"
  obtain r w1 where wrote: "ow_write_output writer (job_output_schema job) ?t
      (job_schema_options job) (qe_stream x) (job_write_backend job) (job_validation_options job)
      (job_progress_reporter job) (tick w) = (r, w1)"
    by (metis surj_pair)
  define result where "result = (case qe_attach_profile_to_result x of Some attach \<Rightarrow> attach r | None \<Rightarrow> r)"
  have about: "about_target ?t rep" if "result = Inr rep" for rep
  proof (cases r)
    case (Inl e)
    with that keeps show ?thesis
      by (auto simp: result_def keeps_target_def isl_def split: option.splits) (metis sum.distinct(1))
  next
    case (Inr rep0)
    with writes_target wrote have "about_target ?t rep0"
      by blast
    with that keeps Inr show ?thesis
      by (auto simp: result_def keeps_target_def split: option.splits) (metis sum.inject(2))
  qed
  from run wrote have "w_conn w' = w_conn w1"
    by (auto simp: write_job_stream_def write_timing_of_def Let_def split: sum.splits if_splits option.splits)
  moreover from run wrote about have "status_target_of ?t outcome"
    by (auto simp: write_job_stream_def write_timing_of_def Let_def status_target_of_def
        about_target_def report_with_phase_timings_def failure_report_from_error_def
        job_target_summary_def result_def split: sum.splits if_splits option.splits prod.splits)
  ultimately show ?thesis
    using sends_allowed [OF wrote] by auto
qed

lemma write_job_step:
  assumes run: "write_mssql_output_job job writer w = (outcome, w')" and wf: "job_wf sent job"
  shows "status_target_of (job_resolved_target job) outcome \<and>
    (\<exists>qs. sent (w_conn w') = sent (w_conn w) @ qs \<and> allowed (job_resolved_target job) qs)"
proof -
  define w0 where "w0 = tick (w_emit (job_progress_reporter job)
    (phase_changed SettingUpStream (Some (ts_output_name (job_target_summary job)))) w)"
  have w0: "w_conn w0 = w_conn w"
    by (simp add: w0_def)
  obtain q w1 where create: "job_create_query_execution job w0 = (q, w1)"
    by (metis surj_pair)
  with wf have quiet: "sent (w_conn w1) = sent (w_conn w0)"
    and keeps: "\<And>x attach. q = Inr x \<Longrightarrow> qe_attach_profile_to_result x = Some attach \<Longrightarrow> keeps_target attach"
    by (auto simp: job_wf_def)
  show ?thesis
  proof (cases q)
    case (Inl failure)
    with run create have "w_conn w' = w_conn w1" "\<exists>f. outcome = MssqlOutputWriteStatus.Failed f \<and>
        fr_target f = job_target_summary job"
      by (auto simp: write_mssql_output_job_def w0_def failure_report_from_error_def Let_def)
    with quiet w0 allowed_Nil show ?thesis
      by (auto simp: status_target_of_def job_target_summary_def intro: exI [of _ "[]"])
  next
    case (Inr x)
    with run create obtain timing where "write_job_stream job writer x timing (tick w1) = (outcome, w')"
      by (auto simp: write_mssql_output_job_def w0_def Let_def)
    from write_job_stream_step [OF this keeps [OF Inr]] quiet w0 show ?thesis
      by simp
  qed
qed

lemma until_failure_run:
  assumes "until_failure writer jobs w = (statuses, w')" and "list_all (job_wf sent) jobs"
  shows "list_all2 status_target_of (map job_resolved_target jobs) statuses \<and>
    (\<exists>qss. sent (w_conn w') = sent (w_conn w) @ concat qss \<and>
       list_all2 allowed (map job_resolved_target (take (length qss) jobs)) qss)"
  using assms
proof (induction jobs arbitrary: w statuses w')
  case Nil
  then show ?case
    by (auto intro: exI [of _ "[]"])
next
  case (Cons job jobs)
  obtain outcome w1 where run: "write_mssql_output_job job writer w = (outcome, w1)"
    by (metis surj_pair)
  with Cons.prems(2) obtain qs where target: "status_target_of (job_resolved_target job) outcome"
    and qs: "sent (w_conn w1) = sent (w_conn w) @ qs" "allowed (job_resolved_target job) qs"
    using write_job_step [OF run] by auto
  have skipped: "list_all2 status_target_of (map job_resolved_target js)
      (map (\<lambda>j. skipped_output_status (job_target_summary j) name (job_phase_timings j)) js)" for js name
    by (simp add: list_all2_conv_all_nth status_target_of_def skipped_output_status_def
        skipped_previous_output_failed_def job_target_summary_def)
  show ?case
  proof (cases "is_failed outcome")
    case True
    with run Cons.prems(1) target skipped qs show ?thesis
      by (cases outcome) (auto intro: exI [of _ "[qs]"])
  next
    case False
    obtain rest w2 where tail: "until_failure writer jobs w1 = (rest, w2)"
      by (metis surj_pair)
    with run False Cons.prems(1) have "statuses = outcome # rest" "w' = w2"
      by (cases outcome; simp)+
    moreover from Cons.IH [OF tail] Cons.prems(2) \<open>w' = w2\<close> obtain qss where
      "list_all2 status_target_of (map job_resolved_target jobs) rest"
      "sent (w_conn w2) = sent (w_conn w1) @ concat qss"
      "list_all2 allowed (map job_resolved_target (take (length qss) jobs)) qss"
      by auto
    ultimately show ?thesis
      using target qs by (auto intro!: exI [of _ "qs # qss"])
  qed
qed

end

subsection \<open>The two writers\<close>

text \<open>
  The requests of the sink for one output: none when planning failed, and otherwise those of a
  run for a plan of the target.
\<close>

definition sink_allowed :: "arrow_api \<Rightarrow> ResolvedMssqlTarget \<Rightarrow> sql_request list \<Rightarrow> bool" where
  "sink_allowed api t qs \<longleftrightarrow>
     qs = [] \<or>
     (\<exists>p items r rest. qs = ConnectRequest (cc_connection_string (rt_connection t)) # rest \<and>
        plan_wf api p \<and> pl_target p = target_summary t \<and> run_post api p items r rest)"

lemma connection_request_plan:
  assumes "plan_mssql_output_connection_request api schema t options = Inr request"
  shows "plan_mssql_target_for_resolved_output api schema t options = Inr (cr_output_plan request)"
    and "cr_connection request = rt_connection t"
  using assms
  by (auto simp: plan_mssql_output_connection_request_def plan_mssql_target_for_resolved_output_def
      res_simps)

lemma run_ok_written: "run_ok api p items rep qs \<Longrightarrow> \<exists>bs. items = map Inr bs \<and> written_report p bs rep"
  unfolding run_ok_def output_ok_def by blast

lemma sink_write_step:
  assumes run: "write_output_batches_to_mssql_for_workflow api srv schema t so items backend vo
    reporter w = (r, w')"
  shows "(\<exists>qs. cn_sent (w_conn w') = cn_sent (w_conn w) @ qs \<and> sink_allowed api t qs) \<and>
    (\<forall>rep. r = Inr rep \<longrightarrow> about_target t rep)"
proof (cases "plan_mssql_output_connection_request api schema t so")
  case (Inl e)
  with run show ?thesis
    by (auto simp: write_output_batches_to_mssql_for_workflow_def sink_allowed_def intro: exI [of _ "[]"])
next
  case (Inr request)
  note plan = connection_request_plan [OF Inr]
  note wf = plan_for_resolved_wf [OF plan(1)]
  from run Inr have "run_mssql_output_connection_request api srv request items backend vo reporter
      (emit_progress_phase reporter Connecting (pl_output_name (cr_output_plan request)) w) = (r, w')"
    by (simp add: write_output_batches_to_mssql_for_workflow_def
        write_output_connection_request_for_workflow_def)
  from connection_request_step [OF this] obtain qs where
    sent: "cn_sent (w_conn w') = cn_sent (w_conn w)
      @ ConnectRequest (cc_connection_string (rt_connection t)) # qs"
    and post: "run_post api (cr_output_plan request) items r qs"
    by (auto simp: emit_progress_phase_def plan(2))
  have "about_target t rep" if "r = Inr rep" for rep
  proof -
    from post that obtain bs where "written_report (cr_output_plan request) bs rep"
      by (auto simp: run_post_def dest: run_ok_written)
    with wf(2) show ?thesis
      by (simp add: about_target_def written_report_def)
  qed
  moreover have "sink_allowed api t (ConnectRequest (cc_connection_string (rt_connection t)) # qs)"
    unfolding sink_allowed_def using wf post by blast
  ultimately show ?thesis
    using sent by blast
qed

interpretation sink_workflow: workflow_writer "workflow_sink_writer api srv" cn_sent "sink_allowed api"
  for api :: arrow_api and srv :: "'s sql_server"
  by unfold_locales
     (auto simp: workflow_sink_writer_def sink_allowed_def dest: sink_write_step [simplified sink_allowed_def])

lemma drain_loop_conn: "w_conn (snd (drain_loop api p st items w)) = w_conn w"
proof (induction items arbitrary: st w)
  case (Cons item items)
  then show ?case
    by (cases item)
       (simp_all add: Let_def split: sum.split)
qed simp

lemma drain_conn: "w_conn (snd (drain_mssql_batches_for_stream_benchmark api p items w)) = w_conn w"
  using drain_loop_conn [of api p loop_init items w]
  by (auto simp: drain_mssql_batches_for_stream_benchmark_def split: prod.split sum.split)

lemma benchmark_write_step:
  assumes "benchmark_write_output api schema t so items w = (r, w')"
  shows "w_conn w' = w_conn w" and "r = Inr rep \<Longrightarrow> about_target t rep"
proof -
  show "w_conn w' = w_conn w"
    using assms drain_conn [of api _ items w]
    by (auto simp: benchmark_write_output_def split: sum.splits) (metis snd_conv)
  show "about_target t rep" if "r = Inr rep"
  proof -
    from assms that obtain p where plan: "plan_mssql_target_for_resolved_output api schema t so = Inr p"
      and drain: "drain_mssql_batches_for_stream_benchmark api p items w = (Inr rep, w')"
      by (auto simp: benchmark_write_output_def split: sum.splits)
    from drain have "wr_output_name rep = pl_output_name p \<and> wr_target_table rep = pl_target_table p \<and>
        wr_load_mode rep = pl_load_mode p"
      by (auto simp: drain_mssql_batches_for_stream_benchmark_def report_simps split: prod.splits sum.splits)
    with plan_for_resolved_wf(2) [OF plan] show ?thesis
      by (simp add: about_target_def)
  qed
qed

interpretation benchmark_workflow: workflow_writer "stream_benchmark_output_writer api" sent
    "\<lambda>_ qs. qs = []"
  for api :: arrow_api and sent :: "'s \<Rightarrow> sql_request list"
  by unfold_locales
     (auto simp: stream_benchmark_output_writer_def dest: benchmark_write_step)

text \<open>The sink's requests for an appended output hold no statement.\<close>

lemma sink_allowed_append:
  assumes "sink_allowed api t qs" and "rt_load_mode t = AppendExisting"
  shows "statements qs = []"
  using assms run_post_append by (auto simp: sink_allowed_def)

lemma statements_concat: "statements (concat qss) = concat (map statements qss)"
  by (induction qss) simp_all

lemma append_only_statements:
  assumes "list_all2 (sink_allowed api) (map job_resolved_target (take (length qss) jobs)) qss"
    and "list_all (\<lambda>j. rt_load_mode (job_resolved_target j) = AppendExisting) jobs"
  shows "statements (concat qss) = []"
proof -
  have "statements qs = []" if "qs \<in> set qss" for qs
  proof -
    from that obtain i where i: "i < length qss" "qs = qss ! i"
      by (metis in_set_conv_nth)
    from assms(1) have "length (take (length qss) jobs) = length qss"
      by (metis length_map list_all2_lengthD)
    then have len: "length qss \<le> length jobs"
      by simp
    from assms(1) i len have "sink_allowed api (job_resolved_target (jobs ! i)) qs"
      by (simp add: list_all2_conv_all_nth)
    moreover have "jobs ! i \<in> set jobs"
      using i len by simp
    moreover from this assms(2) have "rt_load_mode (job_resolved_target (jobs ! i)) = AppendExisting"
      by (simp add: list_all_iff)
    ultimately show ?thesis
      by (blast intro: sink_allowed_append)
  qed
  then show ?thesis
    by (auto simp: statements_concat)
qed

lemma list_all2_Nil_concat: "list_all2 (\<lambda>_ qs. qs = []) ts qss \<Longrightarrow> concat qss = []"
  by (induction rule: list_all2_induct) simp_all

end
