(* ===== verification/DF_Session.thy ===== *)
theory DF_Session
  imports DF_Workflow DF_Names "HOL-Library.List_Lexorder" "HOL-Library.Char_ord"
begin

section \<open>The session: options, handles and registry\<close>

text \<open>
  \<open>orchestrator/session.rs\<close> with \<open>session/options.rs\<close>, \<open>session/handles.rs\<close>,
  \<open>session/errors.rs\<close> and the data of \<open>session/registry\<close>: the state a query-load session
  keeps (its options, the DataFusion context, the table id counter, the registered sources,
  the registered aliases and the pending derived tables) and the lookups in it.

  DataFusion is a parameter: \<open>datafusion\<close> collects the operations of the library the session
  calls on its context \<open>'c\<close>, its data frames \<open>'d\<close>, its table providers \<open>'p\<close> and its parsed
  statements \<open>'q\<close>. A failing call returns the text of its error.
\<close>

subsection \<open>Query options\<close>

record QueryOptions =
  target_partitions :: "nat option"
  output_batch_size :: "nat option"

definition QueryOptions_default :: QueryOptions where
  "QueryOptions_default = \<lparr>target_partitions = None, output_batch_size = None\<rparr>"

definition validate_nonzero_usize_option ::
    "BatchPipelinePhase \<Rightarrow> string \<Rightarrow> nat \<Rightarrow> DeltaFunnelError + unit" where
  "validate_nonzero_usize_option phase opt v =
     (if v = 0 then Inl (BatchPipeline phase opt ''must be greater than zero'') else Inr ())"

definition QueryOptions_validate :: "QueryOptions \<Rightarrow> DeltaFunnelError + unit" where
  "QueryOptions_validate opts =
     res_bind
       (case target_partitions opts of
          None \<Rightarrow> Inr ()
        | Some n \<Rightarrow> validate_nonzero_usize_option Configuration ''target_partitions'' n) (\<lambda>_.
       case output_batch_size opts of
         None \<Rightarrow> Inr ()
       | Some n \<Rightarrow> validate_nonzero_usize_option Configuration ''output_batch_size'' n)"

text \<open>The configuration builder of a DataFusion context \<open>'c\<close> with configurations \<open>'g\<close>.\<close>

record ('g, 'c) datafusion_config =
  SessionConfig_new :: 'g
  cfg_with_target_partitions :: "nat \<Rightarrow> 'g \<Rightarrow> 'g"
  cfg_with_batch_size :: "nat \<Rightarrow> 'g \<Rightarrow> 'g"
  SessionContext_new_with_config :: "'g \<Rightarrow> 'c"

definition apply_to_session_config ::
    "('g, 'c) datafusion_config \<Rightarrow> QueryOptions \<Rightarrow> 'g \<Rightarrow> DeltaFunnelError + 'g" where
  "apply_to_session_config df opts config =
     res_bind (QueryOptions_validate opts) (\<lambda>_.
       let config1 = (case target_partitions opts of
                        None \<Rightarrow> config | Some n \<Rightarrow> cfg_with_target_partitions df n config);
           config2 = (case output_batch_size opts of
                        None \<Rightarrow> config1 | Some n \<Rightarrow> cfg_with_batch_size df n config1)
       in Inr config2)"

definition datafusion_session_config ::
    "('g, 'c) datafusion_config \<Rightarrow> QueryOptions \<Rightarrow> DeltaFunnelError + 'g" where
  "datafusion_session_config df opts = apply_to_session_config df opts (SessionConfig_new df)"

definition datafusion_session_context ::
    "('g, 'c) datafusion_config \<Rightarrow> QueryOptions \<Rightarrow> DeltaFunnelError + 'c" where
  "datafusion_session_context df opts =
     res_bind (datafusion_session_config df opts)
       (\<lambda>config. Inr (SessionContext_new_with_config df config))"

subsection \<open>Session options\<close>

text \<open>
  \<open>DeltaScanExecutionOptions\<close> of the Delta reader, by its accessors. \<open>IntraFileRepartitioning\<close>
  is a choice of the reader that the session only carries; it is represented by its number.
\<close>

record DeltaScanExecutionOptions =
  parquet_backend :: ParquetReaderBackend
  max_concurrent_file_reads_per_scan :: "nat option"
  max_concurrent_file_reads_per_partition :: nat
  output_buffer_batches_per_partition :: nat
  prefetch_files_per_partition :: nat
  parquet_metadata_size_hint_bytes :: "nat option"
  parquet_full_file_read_threshold_bytes :: "nat option"

type_synonym IntraFileRepartitioning = nat

record SessionOptions =
  query_options :: QueryOptions
  provider_scan_options :: DeltaScanExecutionOptions
  provider_file_repartitioning :: IntraFileRepartitioning
  provider_use_view_types :: bool
  mssql_schema_options :: MssqlSchemaPlanOptions
  mssql_write_backend :: MssqlWriteBackend
  mssql_workflow_options :: MssqlWorkflowWriteOptions
  validation_options :: ValidationOptions
  default_mssql_connection :: "MssqlConnectionConfig option"

text \<open>The defaults of the libraries are arguments of the crate's default.\<close>

definition SessionOptions_new ::
    "DeltaScanExecutionOptions \<Rightarrow> IntraFileRepartitioning \<Rightarrow> MssqlSchemaPlanOptions
       \<Rightarrow> SessionOptions" where
  "SessionOptions_new scan repartitioning schema_options =
     \<lparr>query_options = QueryOptions_default, provider_scan_options = scan,
      provider_file_repartitioning = repartitioning, provider_use_view_types = False,
      mssql_schema_options = schema_options, mssql_write_backend = default_mssql_write_backend,
      mssql_workflow_options = MssqlWorkflowWriteOptions_new,
      validation_options = ValidationOptions_new, default_mssql_connection = None\<rparr>"

definition with_query_options :: "QueryOptions \<Rightarrow> SessionOptions \<Rightarrow> SessionOptions" where
  "with_query_options v opts = opts\<lparr>query_options := v\<rparr>"

definition with_provider_scan_options ::
    "DeltaScanExecutionOptions \<Rightarrow> SessionOptions \<Rightarrow> SessionOptions" where
  "with_provider_scan_options v opts = opts\<lparr>provider_scan_options := v\<rparr>"

definition with_provider_file_repartitioning ::
    "IntraFileRepartitioning \<Rightarrow> SessionOptions \<Rightarrow> SessionOptions" where
  "with_provider_file_repartitioning v opts = opts\<lparr>provider_file_repartitioning := v\<rparr>"

definition with_provider_use_view_types :: "bool \<Rightarrow> SessionOptions \<Rightarrow> SessionOptions" where
  "with_provider_use_view_types v opts = opts\<lparr>provider_use_view_types := v\<rparr>"

definition with_mssql_schema_options ::
    "MssqlSchemaPlanOptions \<Rightarrow> SessionOptions \<Rightarrow> SessionOptions" where
  "with_mssql_schema_options v opts = opts\<lparr>mssql_schema_options := v\<rparr>"

definition with_mssql_write_backend ::
    "MssqlWriteBackend \<Rightarrow> SessionOptions \<Rightarrow> SessionOptions" where
  "with_mssql_write_backend v opts = opts\<lparr>mssql_write_backend := v\<rparr>"

definition with_mssql_workflow_options ::
    "MssqlWorkflowWriteOptions \<Rightarrow> SessionOptions \<Rightarrow> SessionOptions" where
  "with_mssql_workflow_options v opts = opts\<lparr>mssql_workflow_options := v\<rparr>"

definition with_validation_options ::
    "ValidationOptions \<Rightarrow> SessionOptions \<Rightarrow> SessionOptions" where
  "with_validation_options v opts = opts\<lparr>validation_options := v\<rparr>"

definition with_default_mssql_connection ::
    "MssqlConnectionConfig \<Rightarrow> SessionOptions \<Rightarrow> SessionOptions" where
  "with_default_mssql_connection v opts = opts\<lparr>default_mssql_connection := Some v\<rparr>"

definition ValidationOptions_validate :: "ValidationOptions \<Rightarrow> DeltaFunnelError + unit" where
  "ValidationOptions_validate opts = Inr ()"

definition SessionOptions_validate :: "SessionOptions \<Rightarrow> DeltaFunnelError + unit" where
  "SessionOptions_validate opts =
     res_bind (QueryOptions_validate (query_options opts)) (\<lambda>_.
     res_bind (workflow_options_validate (mssql_workflow_options opts)) (\<lambda>_.
     res_bind (ValidationOptions_validate (validation_options opts)) (\<lambda>_. Inr ())))"

subsection \<open>Handles\<close>

datatype RunMode = Execute | DryRun

datatype LazyTableKind = DeltaSource | DerivedSql

record LazyTable =
  lt_id :: u64
  lt_kind :: LazyTableKind
  lt_name :: string

definition LazyTable_delta_source :: "u64 \<Rightarrow> string \<Rightarrow> LazyTable" where
  "LazyTable_delta_source i name = \<lparr>lt_id = i, lt_kind = DeltaSource, lt_name = name\<rparr>"

definition LazyTable_derived_sql :: "u64 \<Rightarrow> LazyTable" where
  "LazyTable_derived_sql i =
     \<lparr>lt_id = i, lt_kind = DerivedSql, lt_name = ''table_'' @ show_nat (unat i)\<rparr>"

definition LazyTable_with_name :: "LazyTable \<Rightarrow> string \<Rightarrow> LazyTable" where
  "LazyTable_with_name t name = \<lparr>lt_id = lt_id t, lt_kind = lt_kind t, lt_name = name\<rparr>"

record MssqlOutputTarget =
  ot_output_name :: string
  ot_target :: MssqlTargetConfig
  ot_run_mode :: RunMode

record OutputWritePlan =
  owp_table :: LazyTable
  owp_target :: MssqlOutputTarget

record PlannedMssqlOutput =
  pmo_request :: OutputWritePlan
  pmo_resolved_target :: ResolvedMssqlTarget
  pmo_output_plan :: MssqlTargetOutputPlan
  pmo_phase_timings :: "PhaseTimingReport list"

subsection \<open>Lineage data\<close>

datatype DerivedTableDependency =
    RegisteredSource (dep_table_id: u64) (dep_name: string)
  | RegisteredDerived (dep_table_id: u64) (dep_name: string)

fun is_registered_derived :: "DerivedTableDependency \<Rightarrow> bool" where
  "is_registered_derived (RegisteredDerived _ _) = True"
| "is_registered_derived (RegisteredSource _ _) = False"

text \<open>
  The derived \<open>Ord\<close>: first the variant in declaration order, then the fields in declaration
  order. Texts are ordered by their bytes.
\<close>

instantiation DerivedTableDependency :: linorder
begin

definition less_eq_DerivedTableDependency ::
    "DerivedTableDependency \<Rightarrow> DerivedTableDependency \<Rightarrow> bool" where
  "less_eq_DerivedTableDependency a b \<longleftrightarrow>
     (if is_registered_derived a = is_registered_derived b then
        dep_table_id a < dep_table_id b \<or>
        dep_table_id a = dep_table_id b \<and> dep_name a \<le> dep_name b
      else is_registered_derived b)"

definition less_DerivedTableDependency ::
    "DerivedTableDependency \<Rightarrow> DerivedTableDependency \<Rightarrow> bool" where
  "less_DerivedTableDependency a b \<longleftrightarrow> a \<le> b \<and> a \<noteq> b"

instance
proof
  fix a b c :: DerivedTableDependency
  note defs = less_DerivedTableDependency_def less_eq_DerivedTableDependency_def
  show "a < b \<longleftrightarrow> a \<le> b \<and> \<not> b \<le> a"
    by (cases a; cases b) (auto simp: defs)
  show "a \<le> a"
    by (simp add: defs)
  show "a \<le> c" if "a \<le> b" "b \<le> c"
    using that by (cases a; cases b; cases c) (auto simp: defs)
  show "a = b" if "a \<le> b" "b \<le> a"
    using that by (cases a; cases b) (auto simp: defs)
  show "a \<le> b \<or> b \<le> a"
    by (cases a; cases b) (auto simp: defs)
qed

end

record DerivedTableLineage =
  direct_dependencies :: "DerivedTableDependency list"
  local_references :: "string list"
  unknown_references :: "string list"
  incomplete_reason :: "string option"

definition lineage_complete ::
    "DerivedTableDependency list \<Rightarrow> string list \<Rightarrow> string list \<Rightarrow> DerivedTableLineage" where
  "lineage_complete deps locals unknowns =
     \<lparr>direct_dependencies = deps, local_references = locals, unknown_references = unknowns,
      incomplete_reason = None\<rparr>"

definition lineage_incomplete :: "string \<Rightarrow> DerivedTableLineage" where
  "lineage_incomplete message =
     \<lparr>direct_dependencies = [], local_references = [], unknown_references = [],
      incomplete_reason = Some message\<rparr>"

definition is_complete :: "DerivedTableLineage \<Rightarrow> bool" where
  "is_complete l \<longleftrightarrow> incomplete_reason l = None"

subsection \<open>Registered tables\<close>

record DeltaProtocolReport =
  dpr_source_name :: string
  dpr_table_uri :: string
  dpr_snapshot_version :: u64
  dpr_min_reader_version :: int
  dpr_min_writer_version :: int
  dpr_reader_features :: "string list"
  dpr_writer_features :: "string list"

record RegisteredSessionSource =
  rs_table :: LazyTable
  rs_source_uri :: string
  rs_snapshot_version :: u64
  rs_schema :: Schema
  rs_protocol :: DeltaProtocolReport
  rs_phase_timings :: "PhaseTimingReport list"

record RegisteredDerivedTable =
  rd_table :: LazyTable
  rd_schema :: Schema
  rd_sql_text :: string
  rd_lineage :: DerivedTableLineage
  rd_phase_timings :: "PhaseTimingReport list"

record 'p PendingDerivedTable =
  pd_table :: LazyTable
  pd_provider :: 'p
  pd_schema :: Schema
  pd_sql_text :: string
  pd_lineage :: DerivedTableLineage
  pd_phase_timings :: "PhaseTimingReport list"

abbreviation rs_name :: "RegisteredSessionSource \<Rightarrow> string" where
  "rs_name source \<equiv> lt_name (rs_table source)"

abbreviation rd_name :: "RegisteredDerivedTable \<Rightarrow> string" where
  "rd_name derived \<equiv> lt_name (rd_table derived)"

abbreviation rs_id :: "RegisteredSessionSource \<Rightarrow> u64" where
  "rs_id source \<equiv> lt_id (rs_table source)"

abbreviation rd_id :: "RegisteredDerivedTable \<Rightarrow> u64" where
  "rd_id derived \<equiv> lt_id (rd_table derived)"

abbreviation pd_id :: "'p PendingDerivedTable \<Rightarrow> u64" where
  "pd_id pending \<equiv> lt_id (pd_table pending)"

definition dependency_registered_source :: "RegisteredSessionSource \<Rightarrow> DerivedTableDependency" where
  "dependency_registered_source source = RegisteredSource (rs_id source) (rs_name source)"

definition dependency_registered_derived :: "RegisteredDerivedTable \<Rightarrow> DerivedTableDependency" where
  "dependency_registered_derived derived = RegisteredDerived (rd_id derived) (rd_name derived)"

subsection \<open>The session\<close>

record ('c, 'p) DeltaFunnelSession =
  ds_options :: SessionOptions
  ds_context :: 'c
  next_table_id :: u64
  ds_sources :: "RegisteredSessionSource list"
  derived_tables :: "RegisteredDerivedTable list"
  pending_derived_tables :: "'p PendingDerivedTable list"

definition DeltaFunnelSession_new ::
    "('g, 'c) datafusion_config \<Rightarrow> SessionOptions
       \<Rightarrow> DeltaFunnelError + ('c, 'p) DeltaFunnelSession" where
  "DeltaFunnelSession_new df opts =
     res_bind (SessionOptions_validate opts) (\<lambda>_.
     res_bind (datafusion_session_context df (query_options opts)) (\<lambda>ctx.
       Inr \<lparr>ds_options = opts, ds_context = ctx, next_table_id = 0, ds_sources = [],
            derived_tables = [], pending_derived_tables = []\<rparr>))"

definition sql_table_error :: "SqlTablePhase \<Rightarrow> string \<Rightarrow> DeltaFunnelError + 'a" where
  "sql_table_error phase message = Inl (SqlTable phase message)"

definition unknown_lazy_table_error :: "LazyTable \<Rightarrow> DeltaFunnelError" where
  "unknown_lazy_table_error t =
     MssqlWorkflowPlanning
       (''lazy table '' @ quoted (sanitize_text_for_display (lt_name t))
        @ '' is not registered in this session'')"

definition registered_source ::
    "('c, 'p) DeltaFunnelSession \<Rightarrow> string \<Rightarrow> RegisteredSessionSource option" where
  "registered_source s name =
     find (\<lambda>source. eq_ignore_ascii_case (rs_name source) name) (ds_sources s)"

definition registered_derived_table ::
    "('c, 'p) DeltaFunnelSession \<Rightarrow> string \<Rightarrow> RegisteredDerivedTable option" where
  "registered_derived_table s name =
     find (\<lambda>derived. eq_ignore_ascii_case (rd_name derived) name) (derived_tables s)"

definition registered_derived_table_by_id ::
    "('c, 'p) DeltaFunnelSession \<Rightarrow> u64 \<Rightarrow> RegisteredDerivedTable option" where
  "registered_derived_table_by_id s i = find (\<lambda>derived. rd_id derived = i) (derived_tables s)"

definition pending_derived_table_by_id ::
    "('c, 'p) DeltaFunnelSession \<Rightarrow> u64 \<Rightarrow> 'p PendingDerivedTable option" where
  "pending_derived_table_by_id s i =
     find (\<lambda>pending. pd_id pending = i) (pending_derived_tables s)"

definition ok_or :: "'a option \<Rightarrow> 'e \<Rightarrow> 'e + 'a" where
  "ok_or v e = (case v of None \<Rightarrow> Inl e | Some a \<Rightarrow> Inr a)"

text \<open>
  The shape the lookups of a derived handle share: among the registered aliases first, then
  among the pending tables.
\<close>

definition derived_or_pending ::
    "('c, 'p) DeltaFunnelSession \<Rightarrow> (RegisteredDerivedTable \<Rightarrow> 'a) \<Rightarrow> ('p PendingDerivedTable \<Rightarrow> 'a)
       \<Rightarrow> LazyTable \<Rightarrow> DeltaFunnelError + 'a" where
  "derived_or_pending s of_derived of_pending t =
     ok_or
       (case registered_derived_table_by_id s (lt_id t) of
          Some derived \<Rightarrow> Some (of_derived derived)
        | None \<Rightarrow> map_option of_pending (pending_derived_table_by_id s (lt_id t)))
       (unknown_lazy_table_error t)"

definition lineage_for_derived_table ::
    "('c, 'p) DeltaFunnelSession \<Rightarrow> LazyTable \<Rightarrow> DeltaFunnelError + DerivedTableLineage" where
  "lineage_for_derived_table s t =
     (if lt_kind t \<noteq> DerivedSql then Inl (unknown_lazy_table_error t)
      else derived_or_pending s rd_lineage pd_lineage t)"

definition sql_text_for_derived_table ::
    "('c, 'p) DeltaFunnelSession \<Rightarrow> LazyTable \<Rightarrow> DeltaFunnelError + string" where
  "sql_text_for_derived_table s t =
     (if lt_kind t \<noteq> DerivedSql then Inl (unknown_lazy_table_error t)
      else derived_or_pending s rd_sql_text pd_sql_text t)"

definition schema_for_lazy_table ::
    "('c, 'p) DeltaFunnelSession \<Rightarrow> LazyTable \<Rightarrow> DeltaFunnelError + Schema" where
  "schema_for_lazy_table s t =
     (case lt_kind t of
        DeltaSource \<Rightarrow>
          ok_or (map_option rs_schema (find (\<lambda>source. rs_id source = lt_id t) (ds_sources s)))
            (unknown_lazy_table_error t)
      | DerivedSql \<Rightarrow> derived_or_pending s rd_schema pd_schema t)"

definition phase_timings_for_lazy_table ::
    "('c, 'p) DeltaFunnelSession \<Rightarrow> LazyTable \<Rightarrow> DeltaFunnelError + PhaseTimingReport list" where
  "phase_timings_for_lazy_table s t =
     (if lt_kind t = DeltaSource then Inr []
      else derived_or_pending s rd_phase_timings pd_phase_timings t)"

definition registered_derived_for_scoped_cache_alias ::
    "('c, 'p) DeltaFunnelSession \<Rightarrow> LazyTable \<Rightarrow> DeltaFunnelError + RegisteredDerivedTable" where
  "registered_derived_for_scoped_cache_alias s t =
     (if lt_kind t \<noteq> DerivedSql then Inl (unknown_lazy_table_error t)
      else ok_or (registered_derived_table_by_id s (lt_id t)) (unknown_lazy_table_error t))"

lemma ok_or_eq_Inr [res_simps]: "ok_or v e = Inr a \<longleftrightarrow> v = Some a"
  by (cases v) (simp_all add: ok_or_def)

lemma ok_or_eq_Inl [res_simps]: "ok_or v e = Inl d \<longleftrightarrow> v = None \<and> d = e"
  by (cases v) (auto simp: ok_or_def)

end
