(* ===== verification/DF_Lineage.thy ===== *)
theory DF_Lineage
  imports DF_Session
begin

section \<open>Lineage of derived tables\<close>

text \<open>
  \<open>session/registry/lineage.rs\<close>: the classification of the table references of one SQL
  statement, and the walks over the captured lineage that answer which registered aliases and
  which Delta sources a table reads, directly or through other aliases.

  The two walks are the recursive functions of the source with their visited sets. They are
  total: every nested call adds the id of a registered alias to the visited set. A
  \<open>BTreeSet\<close> that is turned into a vector is a sorted list without repetition, one that is
  only asked for membership is a set.
\<close>

subsection \<open>Classifying references\<close>

text \<open>\<open>TableReference\<close> of DataFusion.\<close>

datatype TableReference =
    Bare string
  | Partial string string
  | Full string string string

text \<open>What the registry uses of DataFusion (see \<open>DF_Session\<close> for the type arguments).\<close>

record SQLOptions =
  allow_ddl :: bool
  allow_dml :: bool
  allow_statements :: bool

record ('c, 'd, 'p, 'q) datafusion =
  df_sql_with_options :: "'c \<Rightarrow> string \<Rightarrow> SQLOptions \<Rightarrow> string + 'd"
  df_frame_schema :: "'d \<Rightarrow> Schema"
  df_into_view :: "'d \<Rightarrow> 'p"
  df_register_table :: "string \<Rightarrow> 'p \<Rightarrow> ('c, string, unit) io"
  df_parse_sql :: "string \<Rightarrow> string + 'q list"
  df_resolve_table_references ::
    "'q \<Rightarrow> bool \<Rightarrow> string + TableReference list \<times> TableReference list"
  df_reference_to_string :: "TableReference \<Rightarrow> string"

fun bare_table_reference_name :: "TableReference \<Rightarrow> string option" where
  "bare_table_reference_name (Bare t) = Some t"
| "bare_table_reference_name (Partial _ _) = None"
| "bare_table_reference_name (Full _ _ _) = None"

definition sorted_reference_strings ::
    "(TableReference \<Rightarrow> string) \<Rightarrow> TableReference list \<Rightarrow> string list" where
  "sorted_reference_strings to_string refs =
     fold (\<lambda>r acc. insort_insert (to_string r) acc) refs []"

fun classify_references_loop ::
    "(TableReference \<Rightarrow> string) \<Rightarrow> ('c, 'p) DeltaFunnelSession \<Rightarrow> string list
       \<Rightarrow> TableReference list \<Rightarrow> DerivedTableDependency list \<Rightarrow> string list
       \<Rightarrow> DerivedTableDependency list \<times> string list" where
  "classify_references_loop to_string s locals [] deps unknown = (deps, unknown)"
| "classify_references_loop to_string s locals (r # rs) deps unknown =
     (case bare_table_reference_name r of
        None \<Rightarrow>
          classify_references_loop to_string s locals rs deps
            (insort_insert (to_string r) unknown)
      | Some name \<Rightarrow>
          if name \<in> set locals then
            classify_references_loop to_string s locals rs deps unknown
          else
            (case registered_derived_table s name of
               Some derived \<Rightarrow>
                 classify_references_loop to_string s locals rs
                   (insort_insert (dependency_registered_derived derived) deps) unknown
             | None \<Rightarrow>
                 (case registered_source s name of
                    Some source \<Rightarrow>
                      classify_references_loop to_string s locals rs
                        (insort_insert (dependency_registered_source source) deps) unknown
                  | None \<Rightarrow>
                      classify_references_loop to_string s locals rs deps
                        (insort_insert (to_string r) unknown))))"

definition classify_lineage_references ::
    "(TableReference \<Rightarrow> string) \<Rightarrow> ('c, 'p) DeltaFunnelSession \<Rightarrow> TableReference list
       \<Rightarrow> TableReference list \<Rightarrow> DerivedTableLineage" where
  "classify_lineage_references to_string s relations ctes =
     (let locals = sorted_reference_strings to_string ctes in
      case classify_references_loop to_string s locals relations [] [] of
        (deps, unknown) \<Rightarrow> lineage_complete deps locals unknown)"

definition extract_table_lineage_from_sql ::
    "('c, 'd, 'p, 'q) datafusion \<Rightarrow> ('c, 'p) DeltaFunnelSession \<Rightarrow> string
       \<Rightarrow> DeltaFunnelError + DerivedTableLineage" where
  "extract_table_lineage_from_sql df s sql =
     res_bind (map_err (SqlTable ValidateSql) (df_parse_sql df sql)) (\<lambda>statements.
       if length statements \<noteq> 1 then
         sql_table_error ValidateSql
           ''expected exactly one SQL statement for lineage extraction''
       else
         (case statements of
            [] \<Rightarrow> Inl (SqlTable ValidateSql
                    ''expected parsed SQL statement for lineage extraction'')
          | statement # _ \<Rightarrow>
              res_bind
                (map_err (SqlTable ValidateSql) (df_resolve_table_references df statement True))
                (\<lambda>(relations, ctes).
                   Inr (classify_lineage_references (df_reference_to_string df) s relations ctes))))"

definition derive_table_lineage_from_sql ::
    "('c, 'd, 'p, 'q) datafusion \<Rightarrow> ('c, 'p) DeltaFunnelSession \<Rightarrow> string \<Rightarrow> DerivedTableLineage" where
  "derive_table_lineage_from_sql df s sql =
     (case extract_table_lineage_from_sql df s sql of
        Inr lineage \<Rightarrow> lineage
      | Inl error \<Rightarrow> lineage_incomplete (DeltaFunnelError_display error))"

subsection \<open>Walking the lineage\<close>

definition missing_dependency_error :: "string \<Rightarrow> DeltaFunnelError" where
  "missing_dependency_error name =
     MssqlWorkflowPlanning
       (''registered derived lineage dependency '' @ quoted (sanitize_text_for_display name)
        @ '' is not registered in this session'')"

text \<open>
  \<open>registered_ids\<close> is the set the visited ids are drawn from; it is the bound that makes the
  walks end.
\<close>

definition registered_ids :: "('c, 'p) DeltaFunnelSession \<Rightarrow> u64 set" where
  "registered_ids s = rd_id ` set (derived_tables s)"

lemma finite_registered_ids [simp]: "finite (registered_ids s)"
  by (simp add: registered_ids_def)

lemma registered_by_id_ids:
  "registered_derived_table_by_id s i = Some d \<Longrightarrow> i \<in> registered_ids s \<and> rd_id d = i"
  by (auto simp: registered_derived_table_by_id_def registered_ids_def find_Some_iff)

lemma registered_by_id_None:
  "registered_derived_table_by_id s i = None \<longleftrightarrow> i \<notin> registered_ids s"
  by (auto simp: registered_derived_table_by_id_def registered_ids_def find_None_iff)

lemma unvisited_shrinks:
  assumes "i \<notin> visited" "registered_derived_table_by_id s i = Some d" "insert i visited \<subseteq> V"
  shows "registered_ids s - V \<subset> registered_ids s - visited"
  using assms registered_by_id_ids [OF assms(2)] by auto

function collect_transitive_registered_derived_dependencies ::
    "('c, 'p) DeltaFunnelSession \<Rightarrow> DerivedTableDependency list \<Rightarrow> u64 set
       \<Rightarrow> DerivedTableDependency list
       \<Rightarrow> DeltaFunnelError + u64 set \<times> DerivedTableDependency list" where
  "collect_transitive_registered_derived_dependencies s [] visited found = Inr (visited, found)"
| "collect_transitive_registered_derived_dependencies s (RegisteredSource i name # deps)
     visited found =
     collect_transitive_registered_derived_dependencies s deps visited found"
| "collect_transitive_registered_derived_dependencies s (RegisteredDerived i name # deps)
     visited found =
     (if i \<in> visited then collect_transitive_registered_derived_dependencies s deps visited found
      else
        (case registered_derived_table_by_id s i of
           None \<Rightarrow> Inl (missing_dependency_error name)
         | Some derived \<Rightarrow>
             (case collect_transitive_registered_derived_dependencies s
                     (direct_dependencies (rd_lineage derived)) (insert i visited)
                     (insort_insert (RegisteredDerived i name) found) of
                Inl e \<Rightarrow> Inl e
              | Inr (visited', found') \<Rightarrow>
                  collect_transitive_registered_derived_dependencies s deps visited' found')))"
  by pat_completeness auto

lemma collect_registered_visited:
  assumes "collect_transitive_registered_derived_dependencies_dom (s, deps, visited, found)"
    and "collect_transitive_registered_derived_dependencies s deps visited found = Inr r"
  shows "visited \<subseteq> fst r"
  using assms
proof (induction s deps visited found arbitrary: r
    rule: collect_transitive_registered_derived_dependencies.pinduct)
  case (3 s i name deps visited found)
  show ?case
  proof (cases "i \<in> visited")
    case True
    with 3 show ?thesis
      by (simp add: collect_transitive_registered_derived_dependencies.psimps)
  next
    case False
    with "3.prems" "3.hyps" obtain d V1 F1
      where d: "registered_derived_table_by_id s i = Some d"
        and nested: "collect_transitive_registered_derived_dependencies s
          (direct_dependencies (rd_lineage d)) (insert i visited)
          (insort_insert (RegisteredDerived i name) found) = Inr (V1, F1)"
        and rest: "collect_transitive_registered_derived_dependencies s deps V1 F1 = Inr r"
      by (auto simp: collect_transitive_registered_derived_dependencies.psimps
          split: option.splits sum.splits)
    have "insert i visited \<subseteq> V1"
      using "3.IH"(2) [OF False d nested] by simp
    moreover have "V1 \<subseteq> fst r"
      using "3.IH"(3) [OF False d nested refl rest] .
    ultimately show ?thesis by blast
  qed
qed (auto simp: collect_transitive_registered_derived_dependencies.psimps)

termination collect_transitive_registered_derived_dependencies
proof (relation "inv_image (finite_psubset <*lex*> less_than)
         (\<lambda>(s, deps, visited, found). (registered_ids s - visited, length deps))",
       goal_cases)
  case (4 s i name deps visited found d)
  then show ?case by (simp add: unvisited_shrinks)
next
  case (5 s i name deps visited found d r V1 F1)
  then have "insert i visited \<subseteq> V1"
    using collect_registered_visited by fastforce
  with 5 unvisited_shrinks [OF 5(1,2), of V1] show ?case by auto
qed auto

definition transitive_registered_derived_dependencies ::
    "('c, 'p) DeltaFunnelSession \<Rightarrow> LazyTable \<Rightarrow> DeltaFunnelError + DerivedTableDependency list" where
  "transitive_registered_derived_dependencies s t =
     res_bind (lineage_for_derived_table s t) (\<lambda>lineage.
     res_bind
       (collect_transitive_registered_derived_dependencies s (direct_dependencies lineage) {} [])
       (\<lambda>(visited, found). Inr found))"

function collect_transitive_source_dependencies ::
    "('c, 'p) DeltaFunnelSession \<Rightarrow> DerivedTableDependency list \<Rightarrow> u64 set \<Rightarrow> u64 set \<Rightarrow> bool
       \<Rightarrow> DeltaFunnelError + u64 set \<times> u64 set \<times> bool" where
  "collect_transitive_source_dependencies s [] visited found known = Inr (visited, found, known)"
| "collect_transitive_source_dependencies s (RegisteredSource i name # deps) visited found known =
     collect_transitive_source_dependencies s deps visited (insert i found) known"
| "collect_transitive_source_dependencies s (RegisteredDerived i name # deps) visited found known =
     (if i \<in> visited then collect_transitive_source_dependencies s deps visited found known
      else
        (case registered_derived_table_by_id s i of
           None \<Rightarrow> Inl (missing_dependency_error name)
         | Some derived \<Rightarrow>
             if \<not> is_complete (rd_lineage derived) then
               collect_transitive_source_dependencies s deps (insert i visited) found False
             else
               (case collect_transitive_source_dependencies s
                       (direct_dependencies (rd_lineage derived)) (insert i visited) found True of
                  Inl e \<Rightarrow> Inl e
                | Inr (visited', found', known') \<Rightarrow>
                    collect_transitive_source_dependencies s deps visited' found'
                      (known \<and> known'))))"
  by pat_completeness auto

lemma collect_source_visited:
  assumes "collect_transitive_source_dependencies_dom (s, deps, visited, found, known)"
    and "collect_transitive_source_dependencies s deps visited found known = Inr r"
  shows "visited \<subseteq> fst r"
  using assms
proof (induction s deps visited found known arbitrary: r
    rule: collect_transitive_source_dependencies.pinduct)
  case (3 s i name deps visited found known)
  show ?case
  proof (cases "i \<in> visited")
    case True
    with 3 show ?thesis
      by (simp add: collect_transitive_source_dependencies.psimps)
  next
    case False
    with "3.prems" "3.hyps" obtain d where d: "registered_derived_table_by_id s i = Some d"
      by (auto simp: collect_transitive_source_dependencies.psimps split: option.splits)
    show ?thesis
    proof (cases "is_complete (rd_lineage d)")
      case complete: True
      with "3.prems" "3.hyps" d False obtain V1 F1 K1
        where nested: "collect_transitive_source_dependencies s
            (direct_dependencies (rd_lineage d)) (insert i visited) found True
              = Inr (V1, F1, K1)"
          and rest: "collect_transitive_source_dependencies s deps V1 F1 (known \<and> K1) = Inr r"
        by (auto simp: collect_transitive_source_dependencies.psimps split: sum.splits)
      have "insert i visited \<subseteq> V1"
        using "3.IH"(3) [OF False d _ nested] complete by simp
      moreover have "V1 \<subseteq> fst r"
        using "3.IH"(4) [OF False d _ nested refl refl rest] complete by simp
      ultimately show ?thesis by blast
    next
      case incomplete: False
      with "3.prems" "3.hyps" d False
      have "collect_transitive_source_dependencies s deps (insert i visited) found False = Inr r"
        by (simp add: collect_transitive_source_dependencies.psimps)
      from "3.IH"(2) [OF False d incomplete this] show ?thesis by blast
    qed
  qed
qed (auto simp: collect_transitive_source_dependencies.psimps)

termination collect_transitive_source_dependencies
proof (relation "inv_image (finite_psubset <*lex*> less_than)
         (\<lambda>(s, deps, visited, found, known). (registered_ids s - visited, length deps))",
       goal_cases)
  case (4 s i name deps visited found known d)
  then show ?case by (simp add: unvisited_shrinks)
next
  case (5 s i name deps visited found known d)
  then show ?case by (simp add: unvisited_shrinks)
next
  case (6 s i name deps visited found known d r V1 r' F1 K1)
  then have "insert i visited \<subseteq> V1"
    using collect_source_visited by fastforce
  with 6 show ?case by (simp add: unvisited_shrinks)
qed auto

definition known_source_dependencies_for_table ::
    "('c, 'p) DeltaFunnelSession \<Rightarrow> LazyTable \<Rightarrow> DeltaFunnelError + u64 set option" where
  "known_source_dependencies_for_table s t =
     res_bind (schema_for_lazy_table s t) (\<lambda>_.
       case lt_kind t of
         DeltaSource \<Rightarrow> Inr (Some {lt_id t})
       | DerivedSql \<Rightarrow>
           res_bind (lineage_for_derived_table s t) (\<lambda>lineage.
             if \<not> is_complete lineage then Inr None
             else
               res_bind
                 (collect_transitive_source_dependencies s (direct_dependencies lineage) {} {} True)
                 (\<lambda>(visited, found, known). Inr (if known then Some found else None))))"

definition depends_on_id :: "u64 \<Rightarrow> DerivedTableDependency list \<Rightarrow> bool" where
  "depends_on_id i deps \<longleftrightarrow> list_ex (\<lambda>d. is_registered_derived d \<and> dep_table_id d = i) deps"

definition lazy_table_depends_on_registered_derived ::
    "('c, 'p) DeltaFunnelSession \<Rightarrow> LazyTable \<Rightarrow> LazyTable \<Rightarrow> DeltaFunnelError + bool" where
  "lazy_table_depends_on_registered_derived s t candidate =
     res_bind (schema_for_lazy_table s t) (\<lambda>_.
       if lt_kind candidate \<noteq> DerivedSql then Inl (unknown_lazy_table_error candidate)
       else
         res_bind
           (ok_or (registered_derived_table_by_id s (lt_id candidate))
              (unknown_lazy_table_error candidate)) (\<lambda>_.
           if lt_id t = lt_id candidate then Inr True
           else if lt_kind t = DeltaSource then Inr False
           else
             res_bind (transitive_registered_derived_dependencies s t)
               (\<lambda>deps. Inr (depends_on_id (lt_id candidate) deps))))"

subsection \<open>What the walks compute\<close>

text \<open>
  The specification of both walks: \<open>expand i\<close> lists the direct dependencies of the alias \<open>i\<close>,
  \<open>derived_edges\<close> is the relation it spans, and a walk from the dependencies \<open>deps\<close> visits
  exactly what that relation reaches.
\<close>

definition derived_roots :: "DerivedTableDependency list \<Rightarrow> u64 set" where
  "derived_roots deps = set (map dep_table_id (filter is_registered_derived deps))"

definition source_roots :: "DerivedTableDependency list \<Rightarrow> u64 set" where
  "source_roots deps = set (map dep_table_id (filter (Not \<circ> is_registered_derived) deps))"

definition derived_edges :: "(u64 \<Rightarrow> DerivedTableDependency list) \<Rightarrow> (u64 \<times> u64) set" where
  "derived_edges expand = {(i, j). j \<in> derived_roots (expand i)}"

definition reached ::
    "(u64 \<Rightarrow> DerivedTableDependency list) \<Rightarrow> DerivedTableDependency list \<Rightarrow> u64 set" where
  "reached expand deps = (derived_edges expand)\<^sup>* `` derived_roots deps"

lemma derived_roots_simps [simp]:
  "derived_roots [] = {}"
  "derived_roots (RegisteredSource i name # deps) = derived_roots deps"
  "derived_roots (RegisteredDerived i name # deps) = insert i (derived_roots deps)"
  by (simp_all add: derived_roots_def)

lemma source_roots_simps [simp]:
  "source_roots [] = {}"
  "source_roots (RegisteredSource i name # deps) = insert i (source_roots deps)"
  "source_roots (RegisteredDerived i name # deps) = source_roots deps"
  by (simp_all add: source_roots_def)

lemma derived_roots_def2: "derived_roots deps = {i. \<exists>name. RegisteredDerived i name \<in> set deps}"
proof (induction deps)
  case (Cons d deps)
  then show ?case by (cases d) auto
qed simp

lemma depends_on_id_iff: "depends_on_id i deps \<longleftrightarrow> i \<in> derived_roots deps"
  by (auto simp: depends_on_id_def derived_roots_def list_ex_iff)

lemma reached_simps [simp]:
  "reached expand [] = {}"
  "reached expand (RegisteredSource i name # deps) = reached expand deps"
  by (simp_all add: reached_def)

lemma reached_Cons_derived:
  "reached expand (RegisteredDerived i name # deps) =
     insert i (reached expand (expand i)) \<union> reached expand deps"
proof -
  have "(derived_edges expand)\<^sup>* `` {i} = insert i (reached expand (expand i))"
    by (auto simp: reached_def derived_edges_def elim: converse_rtranclE
        intro: converse_rtrancl_into_rtrancl)
  then show ?thesis
    by (auto simp: reached_def)
qed

lemma roots_reached: "derived_roots deps \<subseteq> reached expand deps"
  by (auto simp: reached_def)

lemma reached_least:
  assumes "derived_roots deps \<subseteq> V" and "\<And>i. i \<in> V \<Longrightarrow> derived_roots (expand i) \<subseteq> V"
  shows "reached expand deps \<subseteq> V"
proof
  fix j assume "j \<in> reached expand deps"
  then obtain i where "i \<in> derived_roots deps" "(i, j) \<in> (derived_edges expand)\<^sup>*"
    by (auto simp: reached_def)
  from this(2,1) assms show "j \<in> V"
    by (induction rule: rtrancl_induct) (auto simp: derived_edges_def)
qed

text \<open>
  \<open>visits expand deps V V'\<close>: a walk from \<open>deps\<close> that had visited \<open>V\<close> has visited \<open>V'\<close>
  afterwards, and every id it added was expanded.
\<close>

definition visits ::
    "(u64 \<Rightarrow> DerivedTableDependency list) \<Rightarrow> DerivedTableDependency list \<Rightarrow> u64 set \<Rightarrow> u64 set
       \<Rightarrow> bool" where
  "visits expand deps V V' \<longleftrightarrow>
     V \<subseteq> V' \<and> derived_roots deps \<subseteq> V' \<and> V' \<subseteq> V \<union> reached expand deps \<and>
     (\<forall>i \<in> V' - V. derived_roots (expand i) \<subseteq> V')"

lemma visits_Nil [simp]: "visits expand [] V V"
  by (simp add: visits_def)

lemma visits_source [simp]:
  "visits expand (RegisteredSource i name # deps) V V' \<longleftrightarrow> visits expand deps V V'"
  by (simp add: visits_def)

lemma visits_skip:
  "i \<in> V \<Longrightarrow> visits expand deps V V' \<Longrightarrow> visits expand (RegisteredDerived i name # deps) V V'"
  by (auto simp: visits_def reached_Cons_derived)

lemma visits_step:
  assumes "visits expand (expand i) (insert i V) V1" and "visits expand deps V1 V'"
  shows "visits expand (RegisteredDerived i name # deps) V V'"
proof -
  have "derived_roots (expand j) \<subseteq> V'" if "j \<in> V' - V" for j
  proof (cases "j \<in> V1")
    case True
    then have "derived_roots (expand j) \<subseteq> V1"
      using assms(1) that by (cases "j = i") (simp_all add: visits_def)
    with assms(2) show ?thesis
      by (auto simp: visits_def)
  next
    case False
    with assms that show ?thesis
      by (auto simp: visits_def)
  qed
  then show ?thesis
    using assms by (auto simp: visits_def reached_Cons_derived)
qed

lemma visits_from_empty:
  assumes "visits expand deps {} V"
  shows "V = reached expand deps"
  using assms reached_least [of deps V expand] by (auto simp: visits_def)

subsection \<open>The walk over the aliases\<close>

definition direct_reads :: "('c, 'p) DeltaFunnelSession \<Rightarrow> u64 \<Rightarrow> DerivedTableDependency list" where
  "direct_reads s i =
     (case registered_derived_table_by_id s i of
        None \<Rightarrow> [] | Some d \<Rightarrow> direct_dependencies (rd_lineage d))"

text \<open>Induction over a walk that succeeds.\<close>

lemma collect_registered_induct [consumes 1, case_names Nil source visited step]:
  assumes "collect_transitive_registered_derived_dependencies s deps V F = Inr (V', F')"
    and "\<And>V F. P [] V F V F"
    and "\<And>i name deps V F V' F'. P deps V F V' F' \<Longrightarrow>
           P (RegisteredSource i name # deps) V F V' F'"
    and "\<And>i name deps V F V' F'. i \<in> V \<Longrightarrow> P deps V F V' F' \<Longrightarrow>
           P (RegisteredDerived i name # deps) V F V' F'"
    and "\<And>i name deps V F V1 F1 V' F'. i \<notin> V \<Longrightarrow> i \<in> registered_ids s \<Longrightarrow>
           P (direct_reads s i) (insert i V) (insort_insert (RegisteredDerived i name) F) V1 F1 \<Longrightarrow>
           P deps V1 F1 V' F' \<Longrightarrow> P (RegisteredDerived i name # deps) V F V' F'"
  shows "P deps V F V' F'"
  using assms
proof (induction s deps V F arbitrary: V' F'
    rule: collect_transitive_registered_derived_dependencies.induct)
  case (3 s i name deps V F)
  show ?case
  proof (cases "i \<in> V")
    case True
    with "3.prems"(1)
    have "collect_transitive_registered_derived_dependencies s deps V F = Inr (V', F')"
      by simp
    from "3.IH"(1) [OF True this "3.prems"(2-5)] show ?thesis
      by (rule "3.prems"(4) [OF True])
  next
    case False
    from "3.prems"(1) False obtain d V1 F1
      where d: "registered_derived_table_by_id s i = Some d"
        and nested: "collect_transitive_registered_derived_dependencies s
          (direct_dependencies (rd_lineage d)) (insert i V)
          (insort_insert (RegisteredDerived i name) F) = Inr (V1, F1)"
        and rest: "collect_transitive_registered_derived_dependencies s deps V1 F1 = Inr (V', F')"
      by (auto split: option.splits sum.splits)
    have "P (direct_reads s i) (insert i V) (insort_insert (RegisteredDerived i name) F) V1 F1"
      using "3.IH"(2) [OF False d nested "3.prems"(2-5)] d by (simp add: direct_reads_def)
    moreover have "P deps V1 F1 V' F'"
      using "3.IH"(3) [OF False d nested _ rest "3.prems"(2-5)] by simp
    ultimately show ?thesis
      using "3.prems"(5) False registered_by_id_ids [OF d] by blast
  qed
qed auto

lemma collect_registered_visits:
  assumes "collect_transitive_registered_derived_dependencies s deps V F = Inr (V', F')"
  shows "visits (direct_reads s) deps V V'"
  using assms by (induction rule: collect_registered_induct) (auto intro: visits_skip visits_step)

lemma collect_registered_found:
  assumes "collect_transitive_registered_derived_dependencies s deps V F = Inr (V', F')"
  shows "V' - V \<subseteq> registered_ids s" "V \<subseteq> V'"
    "dep_table_id ` set F' = dep_table_id ` set F \<union> (V' - V)"
  using assms by (induction rule: collect_registered_induct) (auto simp: set_insort_insert)

lemma collect_registered_shape:
  assumes "collect_transitive_registered_derived_dependencies s deps V F = Inr (V', F')"
    and "list_all is_registered_derived F" "sorted F" "distinct F"
  shows "list_all is_registered_derived F' \<and> sorted F' \<and> distinct F'"
  using assms
  by (induction rule: collect_registered_induct)
    (auto simp: list_all_iff set_insort_insert sorted_insort_insert distinct_insort_insert)

text \<open>The walk fails only at a dependency that is reached and not registered.\<close>

lemma collect_registered_total:
  assumes "reached (direct_reads s) deps \<subseteq> registered_ids s"
  shows "\<exists>V' F'. collect_transitive_registered_derived_dependencies s deps V F = Inr (V', F')"
  using assms
proof (induction s deps V F rule: collect_transitive_registered_derived_dependencies.induct)
  case (3 s i name deps V F)
  show ?case
  proof (cases "i \<in> V")
    case False
    from "3.prems" have "i \<in> registered_ids s"
      by (simp add: reached_Cons_derived)
    then obtain d where d: "registered_derived_table_by_id s i = Some d"
      using registered_by_id_None [of s i] by fast
    then have "direct_reads s i = direct_dependencies (rd_lineage d)"
      by (simp add: direct_reads_def)
    then have "reached (direct_reads s) (direct_dependencies (rd_lineage d)) \<subseteq> registered_ids s"
      using "3.prems" by (auto simp: reached_Cons_derived)
    from "3.IH"(2) [OF False d this] obtain V1 F1
      where nested: "collect_transitive_registered_derived_dependencies s
        (direct_dependencies (rd_lineage d)) (insert i V)
        (insort_insert (RegisteredDerived i name) F) = Inr (V1, F1)"
      by blast
    with "3.IH"(3) [OF False d nested] "3.prems" False d show ?thesis
      by (auto simp: reached_Cons_derived)
  qed (use 3 in \<open>auto simp: reached_Cons_derived\<close>)
qed auto

text \<open>What the walk answers for a handle, in one equation.\<close>

definition reads_of :: "('c, 'p) DeltaFunnelSession \<Rightarrow> LazyTable \<Rightarrow> u64 set" where
  "reads_of s t =
     (case lineage_for_derived_table s t of
        Inl _ \<Rightarrow> {} | Inr l \<Rightarrow> reached (direct_reads s) (direct_dependencies l))"

lemma transitive_dependencies_ok:
  assumes "transitive_registered_derived_dependencies s t = Inr deps"
  shows "derived_roots deps = reads_of s t" "reads_of s t \<subseteq> registered_ids s"
    "list_all is_registered_derived deps" "sorted deps" "distinct deps"
proof -
  from assms obtain l V where l: "lineage_for_derived_table s t = Inr l"
    and walk: "collect_transitive_registered_derived_dependencies s (direct_dependencies l) {} []
      = Inr (V, deps)"
    by (auto simp: transitive_registered_derived_dependencies_def res_simps)
  have V: "V = reads_of s t"
    using visits_from_empty [OF collect_registered_visits [OF walk]] l by (simp add: reads_of_def)
  show "list_all is_registered_derived deps" and "sorted deps" "distinct deps"
    using collect_registered_shape [OF walk] by simp_all
  then have "derived_roots deps = dep_table_id ` set deps"
    by (simp add: derived_roots_def list_all_iff filter_id_conv)
  then show "derived_roots deps = reads_of s t" "reads_of s t \<subseteq> registered_ids s"
    using collect_registered_found [OF walk] V by simp_all
qed

lemma transitive_dependencies_total:
  assumes "lineage_for_derived_table s t = Inr l" and "reads_of s t \<subseteq> registered_ids s"
  obtains deps where "transitive_registered_derived_dependencies s t = Inr deps"
proof -
  obtain V F where "collect_transitive_registered_derived_dependencies s (direct_dependencies l)
      {} [] = Inr (V, F)"
    using collect_registered_total [of s "direct_dependencies l" "{}" "[]"] assms
    by (auto simp: reads_of_def)
  with assms(1) that show thesis
    by (simp add: transitive_registered_derived_dependencies_def)
qed

subsection \<open>The walk over the sources\<close>

text \<open>An alias of incomplete lineage is visited but not followed.\<close>

definition complete_reads :: "('c, 'p) DeltaFunnelSession \<Rightarrow> u64 \<Rightarrow> DerivedTableDependency list" where
  "complete_reads s i =
     (case registered_derived_table_by_id s i of
        None \<Rightarrow> []
      | Some d \<Rightarrow> if is_complete (rd_lineage d) then direct_dependencies (rd_lineage d) else [])"

definition complete_id :: "('c, 'p) DeltaFunnelSession \<Rightarrow> u64 \<Rightarrow> bool" where
  "complete_id s i \<longleftrightarrow>
     (case registered_derived_table_by_id s i of
        None \<Rightarrow> False | Some d \<Rightarrow> is_complete (rd_lineage d))"

lemma collect_source_induct [consumes 1, case_names Nil source visited incomplete step]:
  assumes "collect_transitive_source_dependencies s deps V F K = Inr (V', F', K')"
    and "\<And>V F K. P [] V F K V F K"
    and "\<And>i name deps V F K V' F' K'. P deps V (insert i F) K V' F' K' \<Longrightarrow>
           P (RegisteredSource i name # deps) V F K V' F' K'"
    and "\<And>i name deps V F K V' F' K'. i \<in> V \<Longrightarrow> P deps V F K V' F' K' \<Longrightarrow>
           P (RegisteredDerived i name # deps) V F K V' F' K'"
    and "\<And>i name deps V F K V' F' K'. i \<notin> V \<Longrightarrow> \<not> complete_id s i \<Longrightarrow> complete_reads s i = [] \<Longrightarrow>
           P deps (insert i V) F False V' F' K' \<Longrightarrow>
           P (RegisteredDerived i name # deps) V F K V' F' K'"
    and "\<And>i name deps V F K V1 F1 K1 V' F' K'. i \<notin> V \<Longrightarrow> complete_id s i \<Longrightarrow>
           P (complete_reads s i) (insert i V) F True V1 F1 K1 \<Longrightarrow>
           P deps V1 F1 (K \<and> K1) V' F' K' \<Longrightarrow>
           P (RegisteredDerived i name # deps) V F K V' F' K'"
  shows "P deps V F K V' F' K'"
  using assms
proof (induction s deps V F K arbitrary: V' F' K'
    rule: collect_transitive_source_dependencies.induct)
  case (3 s i name deps V F K)
  show ?case
  proof (cases "i \<in> V")
    case True
    with "3.prems"(1)
    have "collect_transitive_source_dependencies s deps V F K = Inr (V', F', K')"
      by simp
    from "3.IH"(1) [OF True this "3.prems"(2-6)] show ?thesis
      by (rule "3.prems"(4) [OF True])
  next
    case False
    with "3.prems"(1) obtain d where d: "registered_derived_table_by_id s i = Some d"
      by (auto split: option.splits)
    show ?thesis
    proof (cases "is_complete (rd_lineage d)")
      case complete: True
      with "3.prems"(1) d False obtain V1 F1 K1
        where nested: "collect_transitive_source_dependencies s
            (direct_dependencies (rd_lineage d)) (insert i V) F True = Inr (V1, F1, K1)"
          and rest: "collect_transitive_source_dependencies s deps V1 F1 (K \<and> K1)
            = Inr (V', F', K')"
        by (auto split: sum.splits)
      have nn: "\<not> \<not> is_complete (rd_lineage d)" and cr: "complete_id s i"
        "complete_reads s i = direct_dependencies (rd_lineage d)"
        using complete d by (simp_all add: complete_reads_def complete_id_def)
      have "P (complete_reads s i) (insert i V) F True V1 F1 K1"
        unfolding cr(2) by (rule "3.IH"(3) [OF False d nn nested "3.prems"(2-6)])
      moreover have "P deps V1 F1 (K \<and> K1) V' F' K'"
        by (rule "3.IH"(4) [OF False d nn nested refl refl rest "3.prems"(2-6)])
      ultimately show ?thesis
        by (rule "3.prems"(6) [OF False cr(1)])
    next
      case incomplete: False
      with "3.prems"(1) d False
      have "collect_transitive_source_dependencies s deps (insert i V) F False
          = Inr (V', F', K')"
        by simp
      from "3.IH"(2) [OF False d incomplete this "3.prems"(2-6)]
      have "P deps (insert i V) F False V' F' K'" .
      moreover have "\<not> complete_id s i" "complete_reads s i = []"
        using incomplete d by (simp_all add: complete_id_def complete_reads_def)
      ultimately show ?thesis
        by (intro "3.prems"(5) [OF False])
    qed
  qed
qed auto

lemma collect_source_visits:
  assumes "collect_transitive_source_dependencies s deps V F K = Inr (V', F', K')"
  shows "visits (complete_reads s) deps V V'"
  using assms
proof (induction rule: collect_source_induct)
  case (incomplete i name deps V F K V' F' K')
  then show ?case
    using visits_step [of "complete_reads s" i V "insert i V" deps V'] by simp
qed (auto intro: visits_skip visits_step)

lemma collect_source_found:
  assumes "collect_transitive_source_dependencies s deps V F K = Inr (V', F', K')"
  shows "V \<subseteq> V' \<and> F' = F \<union> source_roots deps \<union> (\<Union>i \<in> V' - V. source_roots (complete_reads s i)) \<and>
     (K' \<longleftrightarrow> K \<and> (\<forall>i \<in> V' - V. complete_id s i))"
  using assms
proof (induction rule: collect_source_induct)
  case (incomplete i name deps V F K V' F' K')
  then have "V' - V = insert i (V' - insert i V)"
    by auto
  with incomplete show ?case by auto
next
  case (step i name deps V F K V1 F1 K1 V' F' K')
  then have "V' - V = insert i (V1 - insert i V) \<union> (V' - V1)"
    by auto
  with step show ?case by auto
qed auto

text \<open>
  The answer for a handle: the sources its lineage names, directly or through the aliases it
  reads, when every lineage on the way is complete.
\<close>

lemma known_sources_derived:
  assumes "known_source_dependencies_for_table s t = Inr r" "lt_kind t = DerivedSql"
    and l: "lineage_for_derived_table s t = Inr l"
  defines "R \<equiv> reached (complete_reads s) (direct_dependencies l)"
  shows "r = (if is_complete l \<and> (\<forall>i \<in> R. complete_id s i)
      then Some (source_roots (direct_dependencies l) \<union> (\<Union>i \<in> R. source_roots (complete_reads s i)))
      else None)"
proof (cases "is_complete l")
  case True
  with assms(1,2) l obtain V F K
    where walk: "collect_transitive_source_dependencies s (direct_dependencies l) {} {} True
        = Inr (V, F, K)"
      and r: "r = (if K then Some F else None)"
    by (auto simp: known_source_dependencies_for_table_def res_simps split: if_splits)
  have "V = R"
    using visits_from_empty [OF collect_source_visits [OF walk]] by (simp add: R_def)
  with r True collect_source_found [OF walk] show ?thesis by simp
next
  case False
  with assms(1,2) l show ?thesis
    by (auto simp: known_source_dependencies_for_table_def res_simps)
qed

end
