(* ===== verification/DF_Registry.thy ===== *)
theory DF_Registry
  imports DF_Lineage
begin

section \<open>The registry of derived tables\<close>

text \<open>
  \<open>session/registry/derived.rs\<close>: building a lazy table from SQL, and giving it an alias. The
  session is the state of a \<open>world\<close>, whose clock the phase timers read.

  The second half states the invariant of a session (\<open>session_wf\<close>): ids are unique, alias
  names are unique up to ASCII case, and the lineage of every derived table names objects
  that were registered before it. The operations keep it, and it is what makes the lineage
  acyclic and its walks total.
\<close>

subsection \<open>Operations\<close>

definition LAZY_SQL_PLANNING_PHASE :: string where
  "LAZY_SQL_PLANNING_PHASE = ''lazy_sql_planning''"

definition read_only_sql_options :: SQLOptions where
  "read_only_sql_options = \<lparr>allow_ddl = False, allow_dml = False, allow_statements = False\<rparr>"

definition classify_sql_error_phase :: "string \<Rightarrow> SqlTablePhase" where
  "classify_sql_error_phase error =
     (if find_sub ''DDL not supported'' error \<noteq> None
         \<or> find_sub ''DML not supported'' error \<noteq> None
         \<or> find_sub ''Statement not supported'' error \<noteq> None
         \<or> find_sub ''only supports a single SQL statement'' error \<noteq> None
      then ValidateSql else PlanSql)"

definition plan_read_only_sql ::
    "('c, 'd, 'p, 'q) datafusion \<Rightarrow> ('c, 'p) DeltaFunnelSession \<Rightarrow> string
       \<Rightarrow> DeltaFunnelError + 'd" where
  "plan_read_only_sql df s sql =
     map_err (\<lambda>error. SqlTable (classify_sql_error_phase error) error)
       (df_sql_with_options df (ds_context s) sql read_only_sql_options)"

definition allocate_derived_sql_table ::
    "('c, 'p) DeltaFunnelSession \<Rightarrow> LazyTable \<times> ('c, 'p) DeltaFunnelSession" where
  "allocate_derived_sql_table s =
     (LazyTable_derived_sql (next_table_id s),
      s\<lparr>next_table_id := saturating_add (next_table_id s) 1\<rparr>)"

definition reject_registered_alias_name ::
    "('c, 'p) DeltaFunnelSession \<Rightarrow> string \<Rightarrow> DeltaFunnelError + unit" where
  "reject_registered_alias_name s name =
     (if registered_source s name \<noteq> None \<or> registered_derived_table s name \<noteq> None
      then Inl (DuplicateSourceName name) else Inr ())"

definition find_pending_derived_table ::
    "('c, 'p) DeltaFunnelSession \<Rightarrow> LazyTable \<Rightarrow> nat option" where
  "find_pending_derived_table s t =
     (if lt_kind t \<noteq> DerivedSql then None
      else find_index (\<lambda>pending. pd_id pending = lt_id t) (pending_derived_tables s))"

type_synonym ('c, 'p) session_world = "('c, 'p) DeltaFunnelSession world"

abbreviation w_session :: "('c, 'p) session_world \<Rightarrow> ('c, 'p) DeltaFunnelSession" where
  "w_session w \<equiv> w_conn w"

definition push_pending ::
    "'p PendingDerivedTable \<Rightarrow> ('c, 'p) DeltaFunnelSession \<Rightarrow> ('c, 'p) DeltaFunnelSession" where
  "push_pending pending s =
     s\<lparr>pending_derived_tables := pending_derived_tables s @ [pending]\<rparr>"

definition table_from_sql ::
    "('c, 'd, 'p, 'q) datafusion \<Rightarrow> string
       \<Rightarrow> (('c, 'p) session_world, DeltaFunnelError, LazyTable) io" where
  "table_from_sql df text w =
     (let sql = trim text in
      if sql = [] then (sql_table_error ValidateSql ''SQL text must not be empty'', w)
      else
        (case PhaseTimer_start LAZY_SQL_PLANNING_PHASE (w_clock w) of (timer, k) \<Rightarrow>
         case plan_read_only_sql df (w_session w) sql of
           Inl error \<Rightarrow>
             (case PhaseTimer_failed timer k of (_, k') \<Rightarrow> (Inl error, w\<lparr>w_clock := k'\<rparr>))
         | Inr dataframe \<Rightarrow>
             (let lineage = derive_table_lineage_from_sql df (w_session w) sql in
              case PhaseTimer_completed timer k of (timing, k') \<Rightarrow>
              case allocate_derived_sql_table (w_session w) of (t, s) \<Rightarrow>
                (Inr t,
                 w\<lparr>w_clock := k',
                   w_conn := push_pending
                     \<lparr>pd_table = t, pd_provider = df_into_view df dataframe,
                      pd_schema = df_frame_schema df dataframe, pd_sql_text = sql,
                      pd_lineage = lineage, pd_phase_timings = [timing]\<rparr> s\<rparr>))))"

definition registered_from_pending ::
    "'p PendingDerivedTable \<Rightarrow> LazyTable \<Rightarrow> RegisteredDerivedTable" where
  "registered_from_pending pending t =
     \<lparr>rd_table = t, rd_schema = pd_schema pending, rd_sql_text = pd_sql_text pending,
      rd_lineage = pd_lineage pending, rd_phase_timings = pd_phase_timings pending\<rparr>"

definition register_alias ::
    "('c, 'd, 'p, 'q) datafusion \<Rightarrow> string \<Rightarrow> LazyTable
       \<Rightarrow> (('c, 'p) DeltaFunnelSession, DeltaFunnelError, LazyTable) io" where
  "register_alias df name t =
     io_bind (io_lift (validate_table_source_names [name])) (\<lambda>_.
     io_bind (\<lambda>s. (reject_registered_alias_name s name, s)) (\<lambda>_ s.
       case find_pending_derived_table s t of
         None \<Rightarrow>
           (sql_table_error RegisterDerivedAlias
              ''lazy table is not a pending SQL-derived table owned by this session'', s)
       | Some i \<Rightarrow>
           (let pending = pending_derived_tables s ! i;
                s1 = s\<lparr>pending_derived_tables :=
                         take i (pending_derived_tables s)
                           @ drop (Suc i) (pending_derived_tables s)\<rparr>
            in
            case df_register_table df name (pd_provider pending) (ds_context s1) of
              (Inl message, ctx) \<Rightarrow>
                (sql_table_error RegisterDerivedAlias message,
                 push_pending pending (s1\<lparr>ds_context := ctx\<rparr>))
            | (Inr _, ctx) \<Rightarrow>
                (let alias_table = LazyTable_with_name (pd_table pending) name in
                 (Inr alias_table,
                  s1\<lparr>ds_context := ctx,
                     derived_tables :=
                       derived_tables s1 @ [registered_from_pending pending alias_table]\<rparr>)))))"

subsection \<open>The invariant of a session\<close>

text \<open>\<open>dependency_known s n d\<close>: \<open>d\<close> names a source or one of the first \<open>n\<close> aliases of \<open>s\<close>.\<close>

definition dependency_known ::
    "('c, 'p) DeltaFunnelSession \<Rightarrow> nat \<Rightarrow> DerivedTableDependency \<Rightarrow> bool" where
  "dependency_known s n d \<longleftrightarrow>
     d \<in> dependency_registered_source ` set (ds_sources s)
         \<union> dependency_registered_derived ` set (take n (derived_tables s))"

definition lineage_wf :: "('c, 'p) DeltaFunnelSession \<Rightarrow> nat \<Rightarrow> DerivedTableLineage \<Rightarrow> bool" where
  "lineage_wf s n l \<longleftrightarrow>
     (\<forall>d \<in> set (direct_dependencies l). dependency_known s n d) \<and>
     (is_complete l \<or> direct_dependencies l = [])"

definition session_ids :: "('c, 'p) DeltaFunnelSession \<Rightarrow> u64 list" where
  "session_ids s =
     map rs_id (ds_sources s) @ map rd_id (derived_tables s)
       @ map pd_id (pending_derived_tables s)"

definition alias_names :: "('c, 'p) DeltaFunnelSession \<Rightarrow> string list" where
  "alias_names s =
     map rs_name (ds_sources s) @ map rd_name (derived_tables s)"

definition handles_wf :: "('c, 'p) DeltaFunnelSession \<Rightarrow> bool" where
  "handles_wf s \<longleftrightarrow>
     (\<forall>r \<in> set (ds_sources s). lt_kind (rs_table r) = DeltaSource) \<and>
     (\<forall>d \<in> set (derived_tables s). lt_kind (rd_table d) = DerivedSql) \<and>
     (\<forall>p \<in> set (pending_derived_tables s). lt_kind (pd_table p) = DerivedSql)"

definition session_wf :: "('c, 'p) DeltaFunnelSession \<Rightarrow> bool" where
  "session_wf s \<longleftrightarrow>
     distinct (session_ids s) \<and> (\<forall>i \<in> set (session_ids s). i < next_table_id s) \<and>
     distinct (map to_ascii_lowercase (alias_names s)) \<and> (\<forall>name \<in> set (alias_names s). source_identifier name) \<and>
     handles_wf s \<and>
     (\<forall>n < length (derived_tables s). lineage_wf s n (rd_lineage (derived_tables s ! n))) \<and>
     (\<forall>p \<in> set (pending_derived_tables s). lineage_wf s (length (derived_tables s)) (pd_lineage p))"

subsection \<open>Lookups in a well-formed session\<close>

lemma find_index_SomeD:
  "find_index p xs = Some i \<Longrightarrow> i < length xs \<and> p (xs ! i)"
  by (induction xs arbitrary: i) (auto split: if_splits)

lemma find_unique:
  assumes "x \<in> set xs" "distinct (map f xs)"
  shows "find (\<lambda>y. f y = f x) xs = Some x"
  using assms by (induction xs) auto

lemma session_wf_distinct_ids:
  assumes "session_wf s"
  shows "distinct (map rs_id (ds_sources s))" "distinct (map rd_id (derived_tables s))"
    "distinct (map pd_id (pending_derived_tables s))"
  using assms by (simp_all add: session_wf_def session_ids_def)

lemma registered_by_id_wf:
  assumes "session_wf s" "d \<in> set (derived_tables s)"
  shows "registered_derived_table_by_id s (rd_id d) = Some d"
  using find_unique [OF assms(2) session_wf_distinct_ids(2) [OF assms(1)]]
  by (simp add: registered_derived_table_by_id_def)

lemma registered_by_id_mem:
  "registered_derived_table_by_id s i = Some d \<Longrightarrow> d \<in> set (derived_tables s)"
  by (auto simp: registered_derived_table_by_id_def find_Some_iff)

lemma pending_not_registered:
  assumes "session_wf s" "p \<in> set (pending_derived_tables s)"
  shows "pd_id p \<notin> registered_ids s"
proof -
  have "(rd_id ` set (derived_tables s)) \<inter> (pd_id ` set (pending_derived_tables s)) = {}"
    using assms(1) by (simp add: session_wf_def session_ids_def Int_Un_distrib)
  with assms(2) show ?thesis
    by (auto simp: registered_ids_def)
qed

subsection \<open>The lineage of new SQL is known\<close>

lemma dependency_known_mono:
  assumes "dependency_known s n d" "n \<le> m"
    and "set (ds_sources s) \<subseteq> set (ds_sources s')"
    and "take n (derived_tables s') = take n (derived_tables s)"
  shows "dependency_known s' m d"
proof -
  have "set (take n (derived_tables s)) \<subseteq> set (take m (derived_tables s'))"
    using assms(2,4) set_take_subset_set_take by metis
  with assms show ?thesis
    by (auto simp: dependency_known_def)
qed

lemma lineage_wf_mono:
  assumes "lineage_wf s n l" "n \<le> m" "set (ds_sources s) \<subseteq> set (ds_sources s')"
    and "take n (derived_tables s') = take n (derived_tables s)"
  shows "lineage_wf s' m l"
  using assms dependency_known_mono [OF _ assms(2-4)] by (auto simp: lineage_wf_def)

lemma registered_source_mem:
  "registered_source s name = Some r \<Longrightarrow> r \<in> set (ds_sources s)"
  by (auto simp: registered_source_def find_Some_iff)

lemma registered_derived_mem:
  "registered_derived_table s name = Some d \<Longrightarrow> d \<in> set (derived_tables s)"
  by (auto simp: registered_derived_table_def find_Some_iff)

text \<open>What one reference of a statement contributes to the direct dependencies.\<close>

definition reference_dependency ::
    "('c, 'p) DeltaFunnelSession \<Rightarrow> string list \<Rightarrow> TableReference \<Rightarrow> DerivedTableDependency option"
  where
  "reference_dependency s locals r =
     (case bare_table_reference_name r of
        None \<Rightarrow> None
      | Some name \<Rightarrow>
          if name \<in> set locals then None
          else (case registered_derived_table s name of
                  Some derived \<Rightarrow> Some (dependency_registered_derived derived)
                | None \<Rightarrow> map_option dependency_registered_source (registered_source s name)))"

lemma reference_dependency_known:
  "reference_dependency s locals r = Some d \<Longrightarrow> dependency_known s (length (derived_tables s)) d"
  by (auto simp: reference_dependency_def dependency_known_def
      split: option.splits if_splits dest: registered_source_mem registered_derived_mem)

lemma classify_loop_dependencies:
  "set (fst (classify_references_loop to_string s locals rs deps unknown)) =
     set deps \<union> (\<Union>r \<in> set rs. set_option (reference_dependency s locals r))"
proof (induction rs arbitrary: deps unknown)
  case (Cons r rs)
  show ?case
    by (simp add: reference_dependency_def Cons.IH set_insort_insert split: option.split)
qed simp

lemma classify_dependencies_known:
  "d \<in> set (direct_dependencies (classify_lineage_references to_string s relations ctes)) \<Longrightarrow>
   dependency_known s (length (derived_tables s)) d"
  using classify_loop_dependencies
    [of to_string s "sorted_reference_strings to_string ctes" relations "[]" "[]"]
  by (auto simp: classify_lineage_references_def Let_def lineage_complete_def
      split: prod.splits dest: reference_dependency_known)

lemma derived_lineage_wf:
  "lineage_wf s (length (derived_tables s)) (derive_table_lineage_from_sql df s sql)"
proof (cases "extract_table_lineage_from_sql df s sql")
  case (Inl e)
  then show ?thesis
    by (simp add: derive_table_lineage_from_sql_def lineage_wf_def lineage_incomplete_def)
next
  case (Inr l)
  then obtain relations ctes
    where "l = classify_lineage_references (df_reference_to_string df) s relations ctes"
    by (auto simp: extract_table_lineage_from_sql_def sql_table_error_def res_simps
        split: if_splits list.splits)
  moreover have "is_complete (classify_lineage_references to_string s relations ctes)"
    for to_string
    by (simp add: classify_lineage_references_def Let_def lineage_complete_def is_complete_def
        split: prod.split)
  ultimately show ?thesis
    using Inr classify_dependencies_known
    by (auto simp: derive_table_lineage_from_sql_def lineage_wf_def)
qed

subsection \<open>The operations keep the invariant\<close>

lemma next_id_fresh:
  assumes "n \<noteq> u64_MAX" "i \<le> n"
  shows "i < saturating_add n 1"
proof -
  have "unat n \<noteq> unat u64_MAX"
    using assms(1) word_unat_eq_iff by blast
  then have "unat n + 1 < 2 ^ 64"
    using unat_lt_u64 [of n] by simp
  moreover have "unat i \<le> unat n"
    using assms(2) by (simp add: word_le_nat_alt)
  ultimately show ?thesis
    by (simp add: word_less_nat_alt unat_saturating_add)
qed

text \<open>
  \<open>table_from_sql\<close> either fails and leaves the session as it was, or appends one pending table
  whose lineage is known.
\<close>

lemma table_from_sql_cases:
  assumes "table_from_sql df text w = (r, w')"
  obtains (failed) e where "r = Inl e" "w_session w' = w_session w"
  | (built) p where "r = Inr (pd_table p)"
      "pd_table p = LazyTable_derived_sql (next_table_id (w_session w))"
      "lineage_wf (w_session w) (length (derived_tables (w_session w))) (pd_lineage p)"
      "pd_sql_text p = trim text" "trim text \<noteq> []"
      "w_session w' = push_pending p
         ((w_session w)\<lparr>next_table_id := saturating_add (next_table_id (w_session w)) 1\<rparr>)"
proof (cases "trim text = []")
  case True
  with assms that(1) show thesis
    by (auto simp: table_from_sql_def sql_table_error_def)
next
  case nonempty: False
  obtain timer k where timer: "PhaseTimer_start LAZY_SQL_PLANNING_PHASE (w_clock w) = (timer, k)"
    by fastforce
  show thesis
  proof (cases "plan_read_only_sql df (w_session w) (trim text)")
    case (Inl e)
    with assms nonempty timer show thesis
      by (auto simp: table_from_sql_def split: prod.splits intro: that(1))
  next
    case (Inr d)
    with assms nonempty timer show thesis
      by (auto simp: table_from_sql_def Let_def allocate_derived_sql_table_def
          split: prod.splits intro!: that(2) derived_lineage_wf)
  qed
qed

lemma session_wf_push_pending:
  assumes "session_wf s" "next_table_id s \<noteq> u64_MAX"
    and "pd_table p = LazyTable_derived_sql (next_table_id s)"
    and "lineage_wf s (length (derived_tables s)) (pd_lineage p)"
  shows "session_wf (push_pending p (s\<lparr>next_table_id := saturating_add (next_table_id s) 1\<rparr>))"
proof -
  let ?s = "push_pending p (s\<lparr>next_table_id := saturating_add (next_table_id s) 1\<rparr>)"
  have p: "pd_id p = next_table_id s" "lt_kind (pd_table p) = DerivedSql"
    using assms(3) by (simp_all add: LazyTable_derived_sql_def)
  have same: "ds_sources ?s = ds_sources s" "derived_tables ?s = derived_tables s"
    "next_table_id ?s = saturating_add (next_table_id s) 1"
    "pending_derived_tables ?s = pending_derived_tables s @ [p]"
    by (simp_all add: push_pending_def)
  have ids: "session_ids ?s = session_ids s @ [next_table_id s]"
    by (simp add: session_ids_def same p)
  have lin: "lineage_wf ?s n l \<longleftrightarrow> lineage_wf s n l" for n l
    by (simp add: lineage_wf_def dependency_known_def same)
  have "\<forall>i \<in> set (session_ids ?s). i < next_table_id ?s"
    unfolding ids same(3) using assms(1,2)
    by (auto simp: session_wf_def intro!: next_id_fresh dest: bspec less_imp_le)
  moreover have "distinct (session_ids ?s)"
    using assms(1) by (auto simp: ids session_wf_def)
  ultimately show ?thesis
    using assms(1,4) p(2)
    by (simp add: session_wf_def alias_names_def handles_wf_def same lin ball_Un)
qed

lemma register_alias_cases:
  assumes "register_alias df name t s = (r, s')"
  obtains (rejected) e where "r = Inl e" "s' = s"
  | (refused) ys p zs ctx message where "pending_derived_tables s = ys @ p # zs"
      "r = Inl (SqlTable RegisterDerivedAlias message)"
      "s' = s\<lparr>ds_context := ctx, pending_derived_tables := ys @ zs @ [p]\<rparr>"
  | (registered) ys p zs ctx where "pending_derived_tables s = ys @ p # zs"
      "pd_id p = lt_id t" "source_identifier name"
      "registered_source s name = None" "registered_derived_table s name = None"
      "df_register_table df name (pd_provider p) (ds_context s) = (Inr (), ctx)"
      "r = Inr (LazyTable_with_name (pd_table p) name)"
      "s' = s\<lparr>ds_context := ctx, derived_tables := derived_tables s
               @ [registered_from_pending p (LazyTable_with_name (pd_table p) name)],
             pending_derived_tables := ys @ zs\<rparr>"
proof -
  consider (stopped) e where "r = Inl e" "s' = s"
    | (found) i where "find_pending_derived_table s t = Some i"
        "validate_table_source_names [name] = Inr ()" "reject_registered_alias_name s name = Inr ()"
    using assms
    by (auto simp: register_alias_def io_bind_def sql_table_error_def
        split: sum.splits option.splits)
  then show thesis
  proof cases
    case stopped
    then show thesis by (rule that(1))
  next
    case found
    then have i: "i < length (pending_derived_tables s)"
        "pd_id (pending_derived_tables s ! i) = lt_id t"
      by (auto simp: find_pending_derived_table_def split: if_splits dest: find_index_SomeD)
    obtain ys p zs where split: "pending_derived_tables s = ys @ p # zs" "length ys = i"
      using i(1) id_take_nth_drop [of i "pending_derived_tables s"] by (metis length_take min.absorb4)
    have names: "source_identifier name" "registered_source s name = None"
        "registered_derived_table s name = None"
      using found(2,3)
      by (auto simp: validate_names_ok reject_registered_alias_name_def split: if_splits)
    obtain q ctx where q: "df_register_table df name (pd_provider p) (ds_context s) = (q, ctx)"
      by fastforce
    show thesis
    proof (cases q)
      case (Inl message)
      with assms found split q show thesis
        by (intro that(2) [of ys p zs message ctx])
          (auto simp: register_alias_def io_bind_def sql_table_error_def push_pending_def Let_def
            nth_append)
    next
      case (Inr u)
      with assms found split q i(2) names show thesis
        by (intro that(3) [of ys p zs ctx])
          (auto simp: register_alias_def io_bind_def Let_def nth_append)
    qed
  qed
qed

lemma alias_name_fresh:
  assumes "registered_source s name = None" "registered_derived_table s name = None"
  shows "to_ascii_lowercase name \<notin> set (map to_ascii_lowercase (alias_names s))"
  using assms
  by (auto simp: registered_source_def registered_derived_table_def find_None_iff alias_names_def
      eq_ignore_ascii_case_def)

lemma session_wf_rotate_pending:
  assumes "session_wf s" "pending_derived_tables s = ys @ p # zs"
  shows "session_wf (s\<lparr>ds_context := ctx, pending_derived_tables := ys @ zs @ [p]\<rparr>)"
proof -
  let ?s = "s\<lparr>ds_context := ctx, pending_derived_tables := ys @ zs @ [p]\<rparr>"
  have "set (session_ids ?s) = set (session_ids s)"
      "distinct (session_ids ?s) \<longleftrightarrow> distinct (session_ids s)"
    using assms(2) by (auto simp: session_ids_def)
  moreover have "lineage_wf ?s n l \<longleftrightarrow> lineage_wf s n l" for n l
    by (simp add: lineage_wf_def dependency_known_def)
  moreover have "set (pending_derived_tables ?s) = set (pending_derived_tables s)"
    using assms(2) by auto
  ultimately show ?thesis
    using assms(1) by (simp add: session_wf_def alias_names_def handles_wf_def)
qed

lemma session_wf_register:
  assumes wf: "session_wf s" and pending: "pending_derived_tables s = ys @ p # zs"
    and names: "source_identifier name" "registered_source s name = None"
      "registered_derived_table s name = None"
  defines "d \<equiv> registered_from_pending p (LazyTable_with_name (pd_table p) name)"
  shows "session_wf (s\<lparr>ds_context := ctx, derived_tables := derived_tables s @ [d],
      pending_derived_tables := ys @ zs\<rparr>)" (is "session_wf ?s")
proof -
  have d: "rd_id d = pd_id p" "rd_name d = name" "lt_kind (rd_table d) = lt_kind (pd_table p)"
      "rd_lineage d = pd_lineage p"
    by (simp_all add: d_def registered_from_pending_def LazyTable_with_name_def)
  have "set (session_ids ?s) = set (session_ids s)"
      "distinct (session_ids ?s) \<longleftrightarrow> distinct (session_ids s)"
    using pending by (auto simp: session_ids_def d)
  then have ids: "distinct (session_ids ?s)" "\<forall>i \<in> set (session_ids ?s). i < next_table_id ?s"
    using wf by (simp_all add: session_wf_def)
  have "alias_names ?s = alias_names s @ [name]"
    by (simp add: alias_names_def d)
  then have naming: "distinct (map to_ascii_lowercase (alias_names ?s))"
      "\<forall>n \<in> set (alias_names ?s). source_identifier n"
    using wf names alias_name_fresh [OF names(2,3)] by (simp_all add: session_wf_def)
  have handles: "handles_wf ?s"
    using wf pending by (auto simp: session_wf_def handles_wf_def d)
  have mono: "lineage_wf ?s m l" if "lineage_wf s n l" "n \<le> m" "n \<le> length (derived_tables s)"
    for n m l
    using that by (intro lineage_wf_mono [OF that(1,2)]) simp_all
  have "lineage_wf ?s n (rd_lineage (derived_tables ?s ! n))"
    if "n < length (derived_tables ?s)" for n
  proof (cases "n < length (derived_tables s)")
    case True
    with wf show ?thesis
      by (auto simp: session_wf_def nth_append intro: mono)
  next
    case False
    with that have "n = length (derived_tables s)" by simp
    with wf pending show ?thesis
      by (auto simp: session_wf_def nth_append d intro: mono)
  qed
  moreover have "lineage_wf ?s (length (derived_tables ?s)) (pd_lineage q)"
    if "q \<in> set (pending_derived_tables ?s)" for q
    using that wf pending
    by (intro mono [of "length (derived_tables s)"]) (auto simp: session_wf_def)
  ultimately show ?thesis
    using ids naming handles by (simp add: session_wf_def)
qed

lemma register_alias_wf:
  assumes "session_wf s" "register_alias df name t s = (r, s')"
  shows "session_wf s'"
  using assms(2)
proof (cases rule: register_alias_cases)
  case rejected
  with assms(1) show ?thesis by simp
next
  case refused
  with assms(1) show ?thesis by (simp add: session_wf_rotate_pending)
next
  case registered
  with session_wf_register [OF assms(1)] show ?thesis by simp
qed

lemma table_from_sql_wf:
  assumes "session_wf (w_session w)" "next_table_id (w_session w) \<noteq> u64_MAX"
    and "table_from_sql df sql w = (r, w')"
  shows "session_wf (w_session w')"
  using assms(3)
proof (cases rule: table_from_sql_cases)
  case failed
  with assms(1) show ?thesis by simp
next
  case built
  with session_wf_push_pending [OF assms(1,2)] show ?thesis by simp
qed

subsection \<open>Lineage is acyclic\<close>

text \<open>
  In a well-formed session an alias reads only aliases that stand before it in the list of
  registered aliases, so the walks reach only registered aliases and no alias reaches itself.
\<close>

lemma registered_from_nth:
  assumes "session_wf s" "n < length (derived_tables s)"
  shows "registered_derived_table_by_id s (rd_id (derived_tables s ! n)) = Some (derived_tables s ! n)"
  using registered_by_id_wf [OF assms(1)] assms(2) by simp

definition before_ids :: "('c, 'p) DeltaFunnelSession \<Rightarrow> nat \<Rightarrow> u64 set" where
  "before_ids s n = rd_id ` set (take n (derived_tables s))"

lemma before_ids_mono: "k \<le> n \<Longrightarrow> before_ids s k \<subseteq> before_ids s n"
  unfolding before_ids_def by (intro image_mono set_take_subset_set_take)

lemma before_ids_E:
  assumes "i \<in> before_ids s n"
  obtains k where "k < n" "k < length (derived_tables s)" "rd_id (derived_tables s ! k) = i"
  using assms unfolding before_ids_def
  by (metis (no_types, lifting) image_iff in_set_conv_nth length_take min_less_iff_conj nth_take)

lemma lineage_wf_roots:
  assumes "lineage_wf s n l"
  shows "derived_roots (direct_dependencies l) \<subseteq> before_ids s n"
proof
  fix j assume "j \<in> derived_roots (direct_dependencies l)"
  then obtain d where d: "d \<in> set (direct_dependencies l)" "is_registered_derived d"
      "dep_table_id d = j"
    by (auto simp: derived_roots_def)
  with assms have "dependency_known s n d"
    by (simp add: lineage_wf_def)
  with d obtain e where "e \<in> set (take n (derived_tables s))" "d = dependency_registered_derived e"
    by (auto simp: dependency_known_def dependency_registered_source_def)
  with d(3) show "j \<in> before_ids s n"
    by (auto simp: before_ids_def dependency_registered_derived_def)
qed

lemma direct_reads_before:
  assumes "session_wf s" "k < length (derived_tables s)"
  shows "derived_roots (direct_reads s (rd_id (derived_tables s ! k))) \<subseteq> before_ids s k"
proof -
  have "lineage_wf s k (rd_lineage (derived_tables s ! k))"
    using assms by (simp add: session_wf_def)
  from lineage_wf_roots [OF this] registered_from_nth [OF assms] show ?thesis
    by (simp add: direct_reads_def)
qed

lemma reached_before:
  assumes "session_wf s" "lineage_wf s n l"
  shows "reached (direct_reads s) (direct_dependencies l) \<subseteq> before_ids s n"
proof (rule reached_least [OF lineage_wf_roots [OF assms(2)]])
  fix i assume "i \<in> before_ids s n"
  then obtain k where "k < n" "k < length (derived_tables s)" "rd_id (derived_tables s ! k) = i"
    by (rule before_ids_E)
  with direct_reads_before [OF assms(1)] before_ids_mono [of k n s]
  show "derived_roots (direct_reads s i) \<subseteq> before_ids s n" by fastforce
qed

lemma before_ids_registered: "before_ids s n \<subseteq> registered_ids s"
  by (auto simp: before_ids_def registered_ids_def dest: in_set_takeD)

lemma lineage_for_wf:
  assumes "session_wf s" "lineage_for_derived_table s t = Inr l"
  shows "lineage_wf s (length (derived_tables s)) l"
proof -
  consider d where "registered_derived_table_by_id s (lt_id t) = Some d" "l = rd_lineage d"
    | p where "pending_derived_table_by_id s (lt_id t) = Some p" "l = pd_lineage p"
    using assms(2)
    by (auto simp: lineage_for_derived_table_def derived_or_pending_def res_simps
        split: if_splits option.splits)
  then show ?thesis
  proof cases
    case 1
    then obtain n where n: "n < length (derived_tables s)" "derived_tables s ! n = d"
      using registered_by_id_mem by (metis in_set_conv_nth)
    from assms(1) n(1) have "lineage_wf s n (rd_lineage (derived_tables s ! n))"
      by (simp add: session_wf_def)
    with 1 n(2) have "lineage_wf s n l"
      by simp
    with n(1) show ?thesis
      using lineage_wf_mono [of s n l "length (derived_tables s)" s] by simp
  next
    case 2
    then have "p \<in> set (pending_derived_tables s)"
      by (auto simp: pending_derived_table_by_id_def find_Some_iff)
    with assms(1) 2 show ?thesis
      by (simp add: session_wf_def)
  qed
qed

text \<open>Hence, for every handle of the session, the walk over the aliases succeeds.\<close>

lemma transitive_dependencies_wf:
  assumes "session_wf s" "lineage_for_derived_table s t = Inr l"
  obtains deps where "transitive_registered_derived_dependencies s t = Inr deps"
    "derived_roots deps = reads_of s t"
proof -
  have "reads_of s t \<subseteq> registered_ids s"
    using reached_before [OF assms(1) lineage_for_wf [OF assms]] before_ids_registered assms(2)
    by (force simp: reads_of_def)
  from transitive_dependencies_total [OF assms(2) this] that transitive_dependencies_ok(1)
  show thesis by metis
qed

end
