(* ===== verification/DF_Storage.thy ===== *)
theory DF_Storage
  imports DF_Prelude
begin

section \<open>Storage options of a Delta source\<close>

text \<open>
  \<open>table_formats.rs\<close>: which credentials an S3 source is opened with, and the merge of the
  \<open>AWS_*\<close> variables of the process environment into the options of the caller.

  A \<open>HashMap\<close> from texts to texts is an association list without repeated keys; \<open>insert\<close>
  replaces or appends. The URL parser and the key names the object store knows are parameters:
  \<open>url_parse\<close> gives scheme and host of a URL, \<open>s3_keys\<close> the keys \<open>'k\<close> of
  \<open>AmazonS3ConfigKey\<close>.
\<close>

type_synonym DeltaStorageOptions = "(string \<times> string) list"

fun options_insert :: "string \<Rightarrow> string \<Rightarrow> DeltaStorageOptions \<Rightarrow> DeltaStorageOptions" where
  "options_insert k v [] = [(k, v)]"
| "options_insert k v ((k', v') # rest) =
     (if k' = k then (k, v) # rest else (k', v') # options_insert k v rest)"

definition options_extend ::
    "DeltaStorageOptions \<Rightarrow> (string \<times> string) list \<Rightarrow> DeltaStorageOptions" where
  "options_extend m entries = fold (\<lambda>(k, v). options_insert k v) entries m"

record 'k s3_keys =
  s3_key_parse :: "string \<Rightarrow> 'k option"
  s3_key_is_region :: "'k \<Rightarrow> bool"
  s3_key_as_ref :: "'k \<Rightarrow> string"

datatype S3AuthModeHint =
    ExplicitStatic | ExplicitWebIdentity | ExplicitContainer | ImplicitProviderChain
  | OtherExplicit

fun S3AuthModeHint_as_str :: "S3AuthModeHint \<Rightarrow> string" where
  "S3AuthModeHint_as_str ExplicitStatic = ''explicit_static''"
| "S3AuthModeHint_as_str ExplicitWebIdentity = ''explicit_web_identity''"
| "S3AuthModeHint_as_str ExplicitContainer = ''explicit_container''"
| "S3AuthModeHint_as_str ImplicitProviderChain = ''implicit_provider_chain''"
| "S3AuthModeHint_as_str OtherExplicit = ''other_explicit''"

definition ends_with :: "string \<Rightarrow> string \<Rightarrow> bool" where
  "ends_with s suffix \<longleftrightarrow> take (length suffix) (rev s) = rev suffix"

definition starts_with :: "string \<Rightarrow> string \<Rightarrow> bool" where
  "starts_with s prefix \<longleftrightarrow> take (length prefix) s = prefix"

definition is_s3_compatible_uri :: "string \<Rightarrow> string option \<Rightarrow> bool" where
  "is_s3_compatible_uri scheme host =
     (case host of
        None \<Rightarrow> False
      | Some h \<Rightarrow>
          if scheme = ''s3'' \<or> scheme = ''s3a'' then True
          else if scheme = ''https'' then
            (let h' = to_ascii_lowercase h in
             ends_with h' ''amazonaws.com'' \<or> ends_with h' ''r2.cloudflarestorage.com'')
          else False)"

text \<open>The flags the classification loop sets, one per group of key names.\<close>

record s3_auth_flags =
  fl_access_key :: bool
  fl_secret_key :: bool
  fl_web_identity_token :: bool
  fl_role_arn :: bool
  fl_container_relative_uri :: bool
  fl_container_full_uri :: bool
  fl_container_token_file :: bool
  fl_auth_option :: bool

definition no_flags :: s3_auth_flags where
  "no_flags =
     \<lparr>fl_access_key = False, fl_secret_key = False, fl_web_identity_token = False,
      fl_role_arn = False, fl_container_relative_uri = False, fl_container_full_uri = False,
      fl_container_token_file = False, fl_auth_option = False\<rparr>"

definition flag_key :: "string \<Rightarrow> s3_auth_flags \<Rightarrow> s3_auth_flags" where
  "flag_key key f =
     (let k = to_ascii_lowercase key in
      if k \<in> {''aws_access_key_id'', ''access_key_id''} then
        f\<lparr>fl_access_key := True, fl_auth_option := True\<rparr>
      else if k \<in> {''aws_secret_access_key'', ''secret_access_key''} then
        f\<lparr>fl_secret_key := True, fl_auth_option := True\<rparr>
      else if k \<in> {''aws_session_token'', ''aws_token'', ''session_token'', ''token''} then
        f\<lparr>fl_auth_option := True\<rparr>
      else if k \<in> {''aws_web_identity_token_file'', ''web_identity_token_file''} then
        f\<lparr>fl_web_identity_token := True, fl_auth_option := True\<rparr>
      else if k \<in> {''aws_role_arn'', ''role_arn''} then
        f\<lparr>fl_role_arn := True, fl_auth_option := True\<rparr>
      else if k \<in> {''aws_role_session_name'', ''role_session_name'', ''aws_endpoint_url_sts'',
                   ''endpoint_url_sts''} then
        f\<lparr>fl_auth_option := True\<rparr>
      else if k \<in> {''aws_container_credentials_relative_uri'',
                   ''container_credentials_relative_uri''} then
        f\<lparr>fl_container_relative_uri := True, fl_auth_option := True\<rparr>
      else if k \<in> {''aws_container_credentials_full_uri'', ''container_credentials_full_uri''} then
        f\<lparr>fl_container_full_uri := True, fl_auth_option := True\<rparr>
      else if k \<in> {''aws_container_authorization_token_file'',
                   ''container_authorization_token_file''} then
        f\<lparr>fl_container_token_file := True, fl_auth_option := True\<rparr>
      else if k \<in> {''aws_imdsv1_fallback'', ''imdsv1_fallback'', ''aws_metadata_endpoint'',
                   ''metadata_endpoint'', ''aws_unsigned_payload'', ''unsigned_payload'',
                   ''aws_skip_signature'', ''skip_signature''} then
        f\<lparr>fl_auth_option := True\<rparr>
      else f)"

definition classify_s3_auth_mode :: "DeltaStorageOptions \<Rightarrow> S3AuthModeHint" where
  "classify_s3_auth_mode opts =
     (let f = fold flag_key (map fst opts) no_flags in
      if fl_access_key f \<and> fl_secret_key f then ExplicitStatic
      else if fl_web_identity_token f \<and> fl_role_arn f then ExplicitWebIdentity
      else if fl_container_relative_uri f \<or> fl_container_full_uri f \<and> fl_container_token_file f
      then ExplicitContainer
      else if fl_auth_option f then OtherExplicit
      else ImplicitProviderChain)"

definition s3_auth_mode_hint_for_source ::
    "(string \<Rightarrow> (string \<times> string option) option) \<Rightarrow> string \<Rightarrow> DeltaStorageOptions
       \<Rightarrow> S3AuthModeHint option" where
  "s3_auth_mode_hint_for_source url_parse table_uri opts =
     (case url_parse table_uri of
        None \<Rightarrow> None
      | Some (scheme, host) \<Rightarrow>
          if \<not> is_s3_compatible_uri scheme host then None else Some (classify_s3_auth_mode opts))"

definition s3_option_precedence_key :: "'k s3_keys \<Rightarrow> string \<Rightarrow> string option" where
  "s3_option_precedence_key keys key =
     map_option (\<lambda>k. if s3_key_is_region keys k then ''aws_region'' else s3_key_as_ref keys k)
       (s3_key_parse keys (to_ascii_lowercase key))"

definition effective_storage_options_for_source_from_env ::
    "(string \<Rightarrow> (string \<times> string option) option) \<Rightarrow> 'k s3_keys \<Rightarrow> string \<Rightarrow> DeltaStorageOptions
       \<Rightarrow> (string \<times> string) list \<Rightarrow> DeltaStorageOptions" where
  "effective_storage_options_for_source_from_env url_parse keys table_uri opts env =
     (if s3_auth_mode_hint_for_source url_parse table_uri opts = None then opts
      else
        (let caller_keys = set (List.map_filter (s3_option_precedence_key keys) (map fst opts));
             env1 = filter (\<lambda>(k, v). starts_with k ''AWS_'') env;
             env2 = filter (\<lambda>(k, v). case s3_option_precedence_key keys k of
                               Some p \<Rightarrow> p \<notin> caller_keys | None \<Rightarrow> True) env1
         in options_extend (options_extend [] env2) opts))"

record DeltaSourceConfig =
  sc_name :: string
  sc_table_uri :: string
  sc_version :: "64 word option"
  sc_storage_options :: DeltaStorageOptions

definition DeltaSourceConfig_new :: "string \<Rightarrow> string \<Rightarrow> DeltaSourceConfig" where
  "DeltaSourceConfig_new name uri =
     \<lparr>sc_name = name, sc_table_uri = uri, sc_version = None, sc_storage_options = []\<rparr>"

definition apply_environment_storage_options ::
    "(string \<Rightarrow> (string \<times> string option) option) \<Rightarrow> 'k s3_keys \<Rightarrow> (string \<times> string) list
       \<Rightarrow> DeltaSourceConfig \<Rightarrow> DeltaSourceConfig" where
  "apply_environment_storage_options url_parse keys env source =
     source\<lparr>sc_storage_options :=
       effective_storage_options_for_source_from_env url_parse keys (sc_table_uri source)
         (sc_storage_options source) env\<rparr>"

definition s3_auth_mode_hint ::
    "(string \<Rightarrow> (string \<times> string option) option) \<Rightarrow> DeltaSourceConfig \<Rightarrow> S3AuthModeHint option" where
  "s3_auth_mode_hint url_parse source =
     s3_auth_mode_hint_for_source url_parse (sc_table_uri source) (sc_storage_options source)"

subsection \<open>The merged options\<close>

lemma map_of_insert:
  "map_of (options_insert k v m) = (map_of m)(k \<mapsto> v)"
  by (induction m rule: options_insert.induct) (auto simp: fun_upd_twist)

lemma map_of_extend:
  "map_of (options_extend m entries) = map_of m ++ map_of (rev entries)"
proof (induction entries arbitrary: m)
  case (Cons e entries)
  then show ?case
    by (cases e) (simp add: options_extend_def map_of_insert map_add_def fun_eq_iff split: option.split)
qed (simp add: options_extend_def)

lemma map_of_extend_distinct:
  "distinct (map fst entries) \<Longrightarrow> map_of (options_extend m entries) = map_of m ++ map_of entries"
  using map_of_inject_set [of "rev entries" entries] by (simp add: map_of_extend rev_map [symmetric])

text \<open>
  \<open>shadowed\<close>: the caller's options already set what an environment variable names, possibly
  under another spelling of the same key.
\<close>

definition shadowed :: "'k s3_keys \<Rightarrow> DeltaStorageOptions \<Rightarrow> string \<Rightarrow> bool" where
  "shadowed keys opts k \<longleftrightarrow>
     (\<exists>p. s3_option_precedence_key keys k = Some p \<and>
        (\<exists>k' \<in> set (map fst opts). s3_option_precedence_key keys k' = Some p))"

lemma map_of_filter_keys: "map_of (filter (\<lambda>(k, v). P k) m) k = (if P k then map_of m k else None)"
  by (induction m) auto

lemma distinct_filter_keys: "distinct (map fst m) \<Longrightarrow> distinct (map fst (filter P m))"
  by (simp add: distinct_map_filter)

lemma set_map_filter_iff: "y \<in> set (List.map_filter f xs) \<longleftrightarrow> (\<exists>x \<in> set xs. f x = Some y)"
  by (induction xs) (auto simp: map_filter_simps split: option.splits)

lemma effective_options_lookup:
  assumes "s3_auth_mode_hint_for_source url_parse uri opts \<noteq> None"
    and "distinct (map fst opts)" "distinct (map fst env)"
  shows "map_of (effective_storage_options_for_source_from_env url_parse keys uri opts env) k =
     (case map_of opts k of
        Some v \<Rightarrow> Some v
      | None \<Rightarrow> if starts_with k ''AWS_'' \<and> \<not> shadowed keys opts k then map_of env k else None)"
proof -
  let ?caller = "set (List.map_filter (s3_option_precedence_key keys) (map fst opts))"
  let ?P = "\<lambda>k. case s3_option_precedence_key keys k of Some p \<Rightarrow> p \<notin> ?caller | None \<Rightarrow> True"
  have caller: "p \<in> ?caller \<longleftrightarrow>
      (\<exists>k' \<in> set (map fst opts). s3_option_precedence_key keys k' = Some p)" for p
    by (rule set_map_filter_iff)
  have "?P k \<longleftrightarrow> \<not> shadowed keys opts k" for k
    by (simp add: shadowed_def caller split: option.split)
  moreover have "map_of (effective_storage_options_for_source_from_env url_parse keys uri opts env) k =
      (map_of (filter (\<lambda>(k, v). ?P k) (filter (\<lambda>(k, v). starts_with k ''AWS_'') env))
         ++ map_of opts) k"
    using assms
    by (auto simp: effective_storage_options_for_source_from_env_def Let_def map_of_extend_distinct
        distinct_filter_keys case_prod_beta)
  ultimately show ?thesis
    by (simp add: map_add_def map_of_filter_keys del: filter_filter split: option.split)
qed

end
