(* ===== verification/DF_Sources.thy ===== *)
theory DF_Sources
  imports DF_Registry DF_Storage
begin

section \<open>Delta sources\<close>

text \<open>
  \<open>session/registry/source.rs\<close> and \<open>query_engine/datafusion/catalog/registration.rs\<close>: loading
  the snapshot of a Delta table, checking its protocol, registering it in the DataFusion
  catalog and adding it to the session; and the public function that registers several loaded
  tables at once and takes back what it had registered when one of them fails.

  The Delta reader is a parameter, \<open>delta_reader\<close>, over its snapshots \<open>'n\<close> and tables \<open>'t\<close>; so
  are the calls of the catalog that concern sources, \<open>source_catalog\<close>, over the context \<open>'c\<close>.
\<close>

subsection \<open>The reader and the catalog\<close>

datatype DeltaReaderPhase =
  ReaderConfiguration | TableLocation | Storage | Snapshot | ReaderSchema | OtherPhase

record DeltaReaderError =
  re_phase :: DeltaReaderPhase
  re_display :: string
  re_source :: "string option"

datatype DeltaSnapshotSelection = Latest | Version u64

record DeltaProtocol =
  min_reader_version :: int
  min_writer_version :: int
  reader_features :: "string list"
  writer_features :: "string list"
  first_unsupported_reader_feature :: "string option"

record ('n, 't) delta_reader =
  load_snapshot ::
    "string \<Rightarrow> DeltaStorageOptions \<Rightarrow> DeltaSnapshotSelection \<Rightarrow> DeltaScanExecutionOptions
       \<Rightarrow> DeltaReaderError + 'n"
  snap_version :: "'n \<Rightarrow> u64"
  snap_table_url :: "'n \<Rightarrow> string"
  snap_protocol :: "'n \<Rightarrow> DeltaProtocol"
  snap_validate_protocol :: "'n \<Rightarrow> DeltaReaderError + unit"
  snap_into_table :: "'n \<Rightarrow> DeltaReaderError + 't"
  tab_version :: "'t \<Rightarrow> u64"
  tab_table_url :: "'t \<Rightarrow> string"
  tab_schema :: "'t \<Rightarrow> Schema"
  tab_protocol :: "'t \<Rightarrow> DeltaProtocol"
  tab_validate_protocol :: "'t \<Rightarrow> DeltaReaderError + unit"

record ScanOptions =
  so_execution_options :: DeltaScanExecutionOptions
  so_target_partitions :: "nat option"
  so_intra_file_repartitioning :: IntraFileRepartitioning
  so_use_arrow_view_types :: bool

text \<open>
  \<open>cat_table_names\<close> are the names of the default schema of the default catalog;
  \<open>cat_deregister\<close> is \<open>deregister_table\<close> with its result dropped.
\<close>

record ('c, 't) source_catalog =
  cat_table_names :: "'c \<Rightarrow> string list"
  cat_register :: "string \<Rightarrow> 't \<Rightarrow> ScanOptions \<Rightarrow> ('c, DeltaReaderError, unit) io"
  cat_deregister :: "string \<Rightarrow> 'c \<Rightarrow> 'c"

definition reader_error_source_reason :: "DeltaReaderError \<Rightarrow> string" where
  "reader_error_source_reason e = (case re_source e of None \<Rightarrow> re_display e | Some s \<Rightarrow> s)"

subsection \<open>Loading errors\<close>

definition SNAPSHOT_LOAD_FAILED :: string where
  "SNAPSHOT_LOAD_FAILED = ''snapshot could not be loaded''"

definition EMPTY_TABLE_URI :: string where
  "EMPTY_TABLE_URI = ''table location must not be empty''"

definition INVALID_TABLE_URI :: string where
  "INVALID_TABLE_URI = ''table location could not be parsed or normalized''"

definition ENGINE_CONSTRUCTION_FAILED :: string where
  "ENGINE_CONSTRUCTION_FAILED = ''object store engine could not be constructed''"

definition S3_IMPLICIT_CREDENTIAL_HINT :: string where
  "S3_IMPLICIT_CREDENTIAL_HINT =
     ''S3 credential hint: no explicit S3 credentials were supplied through storage_options; '' @
     ''local shells may need explicit AWS_ACCESS_KEY_ID, AWS_SECRET_ACCESS_KEY, optional '' @
     ''AWS_SESSION_TOKEN, and AWS_REGION.''"

text \<open>\<open>str::split_whitespace\<close>: the maximal runs of characters that are not white space.\<close>

function split_whitespace :: "string \<Rightarrow> string list" where
  "split_whitespace s =
     (let t = dropWhile is_whitespace s in
      if t = [] then []
      else takeWhile (\<lambda>c. \<not> is_whitespace c) t
             # split_whitespace (dropWhile (\<lambda>c. \<not> is_whitespace c) t))"
  by pat_completeness auto

termination split_whitespace
proof (relation "measure length", goal_cases)
  case (2 s t)
  then obtain c u where "t = c # u" "\<not> is_whitespace c"
    by (metis hd_dropWhile list.collapse)
  then have "length (dropWhile (\<lambda>c. \<not> is_whitespace c) t) < length t"
    using length_dropWhile_le [of "\<lambda>c. \<not> is_whitespace c" u] by simp
  also have "length t \<le> length s"
    using 2 by (simp add: length_dropWhile_le)
  finally show ?case by simp
qed simp

declare split_whitespace.simps [simp del]

fun join_space :: "string list \<Rightarrow> string" where
  "join_space [] = []"
| "join_space [s] = s"
| "join_space (s # t # rest) = s @ '' '' @ join_space (t # rest)"

definition sanitize_snapshot_load_cause :: "string \<Rightarrow> string" where
  "sanitize_snapshot_load_cause cause =
     join_space
       (map (\<lambda>token. if find_sub ''://'' token \<noteq> None then sanitize_uri_for_display token
                     else sanitize_text_for_display token)
          (split_whitespace cause))"

definition snapshot_load_failed_reason :: "DeltaReaderError \<Rightarrow> S3AuthModeHint option \<Rightarrow> string" where
  "snapshot_load_failed_reason error auth_mode =
     (let reason = SNAPSHOT_LOAD_FAILED @ '': ''
            @ sanitize_snapshot_load_cause (reader_error_source_reason error)
      in if auth_mode = Some ImplicitProviderChain
         then reason @ '' '' @ S3_IMPLICIT_CREDENTIAL_HINT else reason)"

definition map_load_error ::
    "string \<Rightarrow> string \<Rightarrow> S3AuthModeHint option \<Rightarrow> DeltaReaderError \<Rightarrow> DeltaFunnelError" where
  "map_load_error source_name table_uri auth_mode error =
     (case re_phase error of
        ReaderConfiguration \<Rightarrow> Config (re_display error)
      | TableLocation \<Rightarrow>
          InvalidSourceUri (if trim table_uri = [] then EMPTY_TABLE_URI else INVALID_TABLE_URI)
      | Storage \<Rightarrow> DeltaSourceEngine ENGINE_CONSTRUCTION_FAILED
      | Snapshot \<Rightarrow> DeltaSnapshotLoad (snapshot_load_failed_reason error auth_mode)
      | ReaderSchema \<Rightarrow>
          DeltaSourceSchema source_name table_uri (reader_error_source_reason error)
      | OtherPhase \<Rightarrow> DeltaSnapshotLoad (re_display error))"

subsection \<open>Protocol preflight and registration\<close>

definition protocol_report ::
    "string \<Rightarrow> string \<Rightarrow> u64 \<Rightarrow> DeltaProtocol \<Rightarrow> DeltaProtocolReport" where
  "protocol_report source_name table_uri version protocol =
     \<lparr>dpr_source_name = source_name, dpr_table_uri = sanitize_uri_for_display table_uri,
      dpr_snapshot_version = version, dpr_min_reader_version = min_reader_version protocol,
      dpr_min_writer_version = min_writer_version protocol,
      dpr_reader_features = reader_features protocol,
      dpr_writer_features = writer_features protocol\<rparr>"

definition show_int :: "int \<Rightarrow> string" where
  "show_int i = (if i < 0 then ''-'' @ show_nat (nat (- i)) else show_nat (nat i))"

definition unsupported_protocol_reason :: "DeltaProtocol \<Rightarrow> string" where
  "unsupported_protocol_reason protocol =
     (if \<not> (1 \<le> min_reader_version protocol \<and> min_reader_version protocol \<le> 3) then
        ''unsupported Delta minReaderVersion '' @ show_int (min_reader_version protocol)
      else
        ''unsupported Delta reader feature ''
          @ quoted (concat (map escape_default
              (case first_unsupported_reader_feature protocol of None \<Rightarrow> [] | Some f \<Rightarrow> f))))"

definition validate_protocol ::
    "string \<Rightarrow> string \<Rightarrow> u64 \<Rightarrow> DeltaProtocol \<Rightarrow> (DeltaReaderError + unit)
       \<Rightarrow> DeltaFunnelError + unit" where
  "validate_protocol source_name table_uri version protocol validation =
     (if is_ok validation then Inr ()
      else
        (let report = protocol_report source_name table_uri version protocol in
         Inl (DeltaProtocolCompatibility (dpr_source_name report) (dpr_table_uri report)
                (dpr_snapshot_version report) (unsupported_protocol_reason protocol))))"

definition validate_delta_table_protocol ::
    "('n, 't) delta_reader \<Rightarrow> string \<Rightarrow> 't \<Rightarrow> DeltaFunnelError + unit" where
  "validate_delta_table_protocol rd source_name t =
     validate_protocol source_name (tab_table_url rd t) (tab_version rd t) (tab_protocol rd t)
       (tab_validate_protocol rd t)"

definition validate_delta_table_snapshot_protocol ::
    "('n, 't) delta_reader \<Rightarrow> string \<Rightarrow> 'n \<Rightarrow> DeltaFunnelError + unit" where
  "validate_delta_table_snapshot_protocol rd source_name n =
     validate_protocol source_name (snap_table_url rd n) (snap_version rd n) (snap_protocol rd n)
       (snap_validate_protocol rd n)"

definition reject_existing_delta_registration_name ::
    "('c, 't) source_catalog \<Rightarrow> 'c \<Rightarrow> string \<Rightarrow> string \<Rightarrow> DeltaFunnelError + unit" where
  "reject_existing_delta_registration_name cat ctx source_name table_uri =
     (case find (\<lambda>existing. eq_ignore_ascii_case existing source_name) (cat_table_names cat ctx) of
        None \<Rightarrow> Inr ()
      | Some existing \<Rightarrow>
          Inl (DataFusionRegistration source_name table_uri
                 (''table already exists: '' @ existing)))"

record RegisteredDeltaSource =
  rds_name :: string
  rds_table_uri :: string
  rds_snapshot_version :: u64
  rds_schema :: Schema
  rds_protocol :: DeltaProtocolReport

definition map_registration_error :: "string \<Rightarrow> string \<Rightarrow> DeltaReaderError \<Rightarrow> DeltaFunnelError" where
  "map_registration_error source_name table_uri error =
     DataFusionRegistration source_name (sanitize_uri_for_display table_uri)
       (reader_error_source_reason error)"

definition registered_delta_source ::
    "('n, 't) delta_reader \<Rightarrow> string \<Rightarrow> 't \<Rightarrow> RegisteredDeltaSource" where
  "registered_delta_source rd source_name t =
     \<lparr>rds_name = source_name, rds_table_uri = sanitize_uri_for_display (tab_table_url rd t),
      rds_snapshot_version = tab_version rd t, rds_schema = tab_schema rd t,
      rds_protocol =
        protocol_report source_name (tab_table_url rd t) (tab_version rd t) (tab_protocol rd t)\<rparr>"

definition register_table_with_tracing ::
    "('n, 't) delta_reader \<Rightarrow> ('c, 't) source_catalog \<Rightarrow> string \<Rightarrow> 't \<Rightarrow> ScanOptions
       \<Rightarrow> ('c, DeltaFunnelError, RegisteredDeltaSource) io" where
  "register_table_with_tracing rd cat source_name t options =
     io_bind
       (io_map_err (map_registration_error source_name (tab_table_url rd t))
          (cat_register cat source_name t options))
       (\<lambda>_. io_lift (Inr (registered_delta_source rd source_name t)))"

definition rollback_registered_delta_sources ::
    "('c, 't) source_catalog \<Rightarrow> string list \<Rightarrow> 'c \<Rightarrow> 'c" where
  "rollback_registered_delta_sources cat names ctx = fold (cat_deregister cat) (rev names) ctx"

fun register_sources_loop ::
    "('n, 't) delta_reader \<Rightarrow> ('c, 't) source_catalog \<Rightarrow> DeltaScanExecutionOptions
       \<Rightarrow> IntraFileRepartitioning \<Rightarrow> (string \<times> 't \<times> nat option) list
       \<Rightarrow> RegisteredDeltaSource list
       \<Rightarrow> ('c, DeltaFunnelError, RegisteredDeltaSource list) io" where
  "register_sources_loop rd cat execution repartitioning [] registered ctx = (Inr registered, ctx)"
| "register_sources_loop rd cat execution repartitioning ((name, t, partitions) # rest)
     registered ctx =
     (case register_table_with_tracing rd cat name t
             \<lparr>so_execution_options = execution, so_target_partitions = partitions,
              so_intra_file_repartitioning = repartitioning, so_use_arrow_view_types = False\<rparr>
             ctx of
        (Inr source, ctx') \<Rightarrow>
          register_sources_loop rd cat execution repartitioning rest (registered @ [source]) ctx'
      | (Inl error, ctx') \<Rightarrow>
          (Inl error, rollback_registered_delta_sources cat (map rds_name registered) ctx'))"

fun check_each :: "('a \<Rightarrow> 'e + unit) \<Rightarrow> 'a list \<Rightarrow> 'e + unit" where
  "check_each f [] = Inr ()"
| "check_each f (x # xs) = res_bind (f x) (\<lambda>_. check_each f xs)"

text \<open>\<open>repartitioning\<close> is the reader's default.\<close>

definition register_delta_sources_with_options ::
    "('n, 't) delta_reader \<Rightarrow> ('c, 't) source_catalog \<Rightarrow> IntraFileRepartitioning
       \<Rightarrow> (string \<times> 't \<times> nat option) list \<Rightarrow> DeltaScanExecutionOptions
       \<Rightarrow> ('c, DeltaFunnelError, RegisteredDeltaSource list) io" where
  "register_delta_sources_with_options rd cat repartitioning sources execution =
     io_bind (io_lift (validate_table_source_names (map fst sources))) (\<lambda>_.
     io_bind (io_lift (check_each (\<lambda>(name, t, _). validate_delta_table_protocol rd name t)
                         sources)) (\<lambda>_.
     io_bind (\<lambda>ctx. (check_each (\<lambda>(name, t, _).
                        reject_existing_delta_registration_name cat ctx name (tab_table_url rd t))
                        sources, ctx)) (\<lambda>_.
       register_sources_loop rd cat execution repartitioning sources [])))"

subsection \<open>Registering a source in the session\<close>

definition SOURCE_LOADING_PHASE :: string where
  "SOURCE_LOADING_PHASE = ''source_loading''"

definition PROTOCOL_PREFLIGHT_PHASE :: string where
  "PROTOCOL_PREFLIGHT_PHASE = ''protocol_preflight''"

definition DATAFUSION_REGISTRATION_PHASE :: string where
  "DATAFUSION_REGISTRATION_PHASE = ''datafusion_registration''"

text \<open>What opening a source depends on outside the session.\<close>

record ('n, 't, 'c, 'k) source_env =
  se_reader :: "('n, 't) delta_reader"
  se_catalog :: "('c, 't) source_catalog"
  se_url_parse :: "string \<Rightarrow> (string \<times> string option) option"
  se_s3_keys :: "'k s3_keys"
  se_env_vars :: "(string \<times> string) list"

definition load_delta_snapshot ::
    "('n, 't, 'c, 'k) source_env \<Rightarrow> DeltaSourceConfig \<Rightarrow> DeltaScanExecutionOptions
       \<Rightarrow> DeltaFunnelError + string \<times> 'n" where
  "load_delta_snapshot env source execution =
     (let source' = apply_environment_storage_options (se_url_parse env) (se_s3_keys env)
                      (se_env_vars env) source;
          auth_mode = s3_auth_mode_hint (se_url_parse env) source';
          selection = (case sc_version source' of None \<Rightarrow> Latest | Some v \<Rightarrow> Version v)
      in map_err (map_load_error (sc_name source') (sc_table_uri source') auth_mode)
           (map_sum id (Pair (sc_name source'))
              (load_snapshot (se_reader env) (sc_table_uri source') (sc_storage_options source')
                 selection execution)))"

definition emit_registration_phase ::
    "ProgressReporter option \<Rightarrow> ProgressPhase \<Rightarrow> 's world \<Rightarrow> 's world" where
  "emit_registration_phase reporter phase w = w_emit reporter (phase_changed phase None) w"

text \<open>
  One timed step: the timer is started, \<open>step\<close> runs, and the timer completes or fails with it.
  The timing of a failed step is dropped with the local list it is pushed to.
\<close>

definition timed_step ::
    "string \<Rightarrow> ('s world, DeltaFunnelError, 'a) io
       \<Rightarrow> ('s world, DeltaFunnelError, 'a \<times> PhaseTimingReport) io" where
  "timed_step name step w =
     (case w_timer_start name w of (timer, w1) \<Rightarrow>
      case step w1 of
        (Inr a, w2) \<Rightarrow> (case w_timer_completed timer w2 of (t, w3) \<Rightarrow> (Inr (a, t), w3))
      | (Inl e, w2) \<Rightarrow> (case w_timer_failed timer w2 of (t, w3) \<Rightarrow> (Inl e, w3)))"

definition on_context ::
    "('c, 'e, 'a) io \<Rightarrow> (('c, 'p) session_world, 'e, 'a) io" where
  "on_context m w =
     (case m (ds_context (w_session w)) of
        (r, ctx) \<Rightarrow> (r, w\<lparr>w_conn := (w_session w)\<lparr>ds_context := ctx\<rparr>\<rparr>))"

definition register_delta_source_with_scan_options ::
    "('n, 't) delta_reader \<Rightarrow> ('c, 't) source_catalog \<Rightarrow> string \<Rightarrow> 't \<Rightarrow> ScanOptions
       \<Rightarrow> ProgressReporter option
       \<Rightarrow> (('c, 'p) session_world, DeltaFunnelError, RegisteredDeltaSource) io" where
  "register_delta_source_with_scan_options rd cat source_name t options reporter =
     io_bind (io_lift (validate_table_source_names [source_name])) (\<lambda>_.
     io_bind (\<lambda>w. (reject_existing_delta_registration_name cat (ds_context (w_session w))
                      source_name (tab_table_url rd t), w)) (\<lambda>_ w.
       on_context (register_table_with_tracing rd cat source_name t options)
         (emit_registration_phase reporter RegisteringDeltaSource w)))"

definition allocate_delta_source_table ::
    "string \<Rightarrow> ('c, 'p) DeltaFunnelSession \<Rightarrow> LazyTable \<times> ('c, 'p) DeltaFunnelSession" where
  "allocate_delta_source_table name s =
     (LazyTable_delta_source (next_table_id s) name,
      s\<lparr>next_table_id := saturating_add (next_table_id s) 1\<rparr>)"

definition session_source_from_registered ::
    "LazyTable \<Rightarrow> RegisteredDeltaSource \<Rightarrow> PhaseTimingReport list \<Rightarrow> RegisteredSessionSource" where
  "session_source_from_registered t r timings =
     \<lparr>rs_table = t, rs_source_uri = rds_table_uri r, rs_snapshot_version = rds_snapshot_version r,
      rs_schema = rds_schema r, rs_protocol = rds_protocol r, rs_phase_timings = timings\<rparr>"

definition add_source ::
    "RegisteredDeltaSource \<Rightarrow> PhaseTimingReport list \<Rightarrow> ('c, 'p) DeltaFunnelSession
       \<Rightarrow> LazyTable \<times> ('c, 'p) DeltaFunnelSession" where
  "add_source r timings s =
     (case allocate_delta_source_table (rds_name r) s of (t, s') \<Rightarrow>
        (t, s'\<lparr>ds_sources := ds_sources s' @ [session_source_from_registered t r timings]\<rparr>))"

definition session_scan_options :: "('c, 'p) DeltaFunnelSession \<Rightarrow> ScanOptions" where
  "session_scan_options s =
     \<lparr>so_execution_options = provider_scan_options (ds_options s), so_target_partitions = None,
      so_intra_file_repartitioning = provider_file_repartitioning (ds_options s),
      so_use_arrow_view_types = provider_use_view_types (ds_options s)\<rparr>"

text \<open>The three steps of a registration, each with its timing.\<close>

definition loading_step ::
    "('n, 't, 'c, 'k) source_env \<Rightarrow> DeltaSourceConfig \<Rightarrow> ProgressReporter option
       \<Rightarrow> (('c, 'p) session_world, DeltaFunnelError, (string \<times> 'n) \<times> PhaseTimingReport) io" where
  "loading_step env source reporter w =
     timed_step SOURCE_LOADING_PHASE
       (\<lambda>w. (load_delta_snapshot env source (provider_scan_options (ds_options (w_session w))), w))
       (emit_registration_phase reporter LoadingDeltaMetadata w)"

definition preflight_step ::
    "('n, 't, 'c, 'k) source_env \<Rightarrow> string \<Rightarrow> 'n \<Rightarrow> ProgressReporter option
       \<Rightarrow> (('c, 'p) session_world, DeltaFunnelError, unit \<times> PhaseTimingReport) io" where
  "preflight_step env source_name n reporter w =
     timed_step PROTOCOL_PREFLIGHT_PHASE
       (io_lift (validate_delta_table_snapshot_protocol (se_reader env) source_name n))
       (emit_registration_phase reporter ValidatingDeltaProtocol w)"

definition registration_step ::
    "('n, 't, 'c, 'k) source_env \<Rightarrow> string \<Rightarrow> 'n \<Rightarrow> ProgressReporter option
       \<Rightarrow> (('c, 'p) session_world, DeltaFunnelError, RegisteredDeltaSource \<times> PhaseTimingReport) io"
  where
  "registration_step env source_name n reporter =
     timed_step DATAFUSION_REGISTRATION_PHASE (\<lambda>w.
       io_bind
         (io_lift
            (map_err (map_load_error source_name (snap_table_url (se_reader env) n) None)
               (snap_into_table (se_reader env) n)))
         (\<lambda>t w'. register_delta_source_with_scan_options (se_reader env) (se_catalog env)
                   source_name t (session_scan_options (w_session w')) reporter w')
         (emit_registration_phase reporter PreparingDeltaProvider w))"

definition register_delta_source ::
    "('n, 't, 'c, 'k) source_env \<Rightarrow> DeltaSourceConfig \<Rightarrow> ProgressReporter option
       \<Rightarrow> (('c, 'p) session_world, DeltaFunnelError, LazyTable) io" where
  "register_delta_source env source reporter =
     io_bind (loading_step env source reporter) (\<lambda>((source_name, n), t1).
     io_bind (preflight_step env source_name n reporter) (\<lambda>(_, t2).
     io_bind (registration_step env source_name n reporter) (\<lambda>(registered, t3) w.
       case add_source registered [t1, t2, t3] (w_session w) of
         (table, s) \<Rightarrow> (Inr table, w\<lparr>w_conn := s\<rparr>))))"

definition validate_delta_source_registration ::
    "('n, 't, 'c, 'k) source_env \<Rightarrow> DeltaSourceConfig \<Rightarrow> ('c, 'p) DeltaFunnelSession
       \<Rightarrow> DeltaFunnelError + unit" where
  "validate_delta_source_registration env source s =
     res_bind (validate_table_source_names [sc_name source]) (\<lambda>_.
     res_bind (reject_registered_alias_name s (sc_name source)) (\<lambda>_.
       reject_existing_delta_registration_name (se_catalog env) (ds_context s) (sc_name source)
         (sc_table_uri source)))"

definition delta_lake ::
    "('n, 't, 'c, 'k) source_env \<Rightarrow> DeltaSourceConfig
       \<Rightarrow> (('c, 'p) session_world, DeltaFunnelError, LazyTable) io" where
  "delta_lake env source =
     io_bind (\<lambda>w. (validate_delta_source_registration env source (w_session w), w))
       (\<lambda>_. register_delta_source env source None)"

definition delta_lake_with_progress ::
    "('n, 't, 'c, 'k) source_env \<Rightarrow> DeltaSourceConfig \<Rightarrow> ProgressReporter
       \<Rightarrow> (('c, 'p) session_world, DeltaFunnelError, LazyTable) io" where
  "delta_lake_with_progress env source reporter =
     io_bind (\<lambda>w. (validate_delta_source_registration env source (w_session w), w)) (\<lambda>_ w.
       case register_delta_source env source (Some reporter)
              (w_emit (Some reporter) (ProgressEvent.Started RegisterDeltaSource) w) of
         (result, w') \<Rightarrow>
           (result,
            w_emit (Some reporter)
              (if is_ok result then ProgressEvent.Completed else ProgressEvent.Failed) w'))"

subsection \<open>All or nothing\<close>

text \<open>
  What the rollback relies on: names are compared up to ASCII case, a successful registration
  adds its name, a failed one adds nothing, and deregistering takes the name away.
\<close>

definition table_names_in :: "('c, 't) source_catalog \<Rightarrow> 'c \<Rightarrow> string set" where
  "table_names_in cat ctx = to_ascii_lowercase ` set (cat_table_names cat ctx)"

definition catalog_laws :: "('c, 't) source_catalog \<Rightarrow> bool" where
  "catalog_laws cat \<longleftrightarrow>
     (\<forall>name t options ctx ctx'. cat_register cat name t options ctx = (Inr (), ctx') \<longrightarrow>
        table_names_in cat ctx' = insert (to_ascii_lowercase name) (table_names_in cat ctx)) \<and>
     (\<forall>name t options ctx ctx' e. cat_register cat name t options ctx = (Inl e, ctx') \<longrightarrow>
        table_names_in cat ctx' = table_names_in cat ctx) \<and>
     (\<forall>name ctx. table_names_in cat (cat_deregister cat name ctx) =
        table_names_in cat ctx - {to_ascii_lowercase name})"

lemma catalog_lawsD:
  assumes "catalog_laws cat"
  shows "cat_register cat name t options ctx = (Inr (), ctx') \<Longrightarrow>
      table_names_in cat ctx' = insert (to_ascii_lowercase name) (table_names_in cat ctx)"
    and "cat_register cat name t options ctx = (Inl e, ctx') \<Longrightarrow>
      table_names_in cat ctx' = table_names_in cat ctx"
    and "table_names_in cat (cat_deregister cat name ctx) =
      table_names_in cat ctx - {to_ascii_lowercase name}"
  using assms unfolding catalog_laws_def by (simp_all, metis)

lemma rollback_names:
  assumes "catalog_laws cat"
  shows "table_names_in cat (rollback_registered_delta_sources cat names ctx) =
     table_names_in cat ctx - to_ascii_lowercase ` set names"
proof -
  have "table_names_in cat (fold (cat_deregister cat) xs ctx) =
      table_names_in cat ctx - to_ascii_lowercase ` set xs" for xs ctx
    by (induction xs arbitrary: ctx) (auto simp: catalog_lawsD(3) [OF assms])
  then show ?thesis
    by (simp add: rollback_registered_delta_sources_def)
qed

lemma register_with_tracing_cases:
  assumes "register_table_with_tracing rd cat name t options ctx = (r, ctx')"
  obtains (ok) "r = Inr (registered_delta_source rd name t)"
      "cat_register cat name t options ctx = (Inr (), ctx')"
  | (err) e where "r = Inl (map_registration_error name (tab_table_url rd t) e)"
      "cat_register cat name t options ctx = (Inl e, ctx')"
  using assms
  by (auto simp: register_table_with_tracing_def io_bind_def io_map_err_def map_err_def
      split: prod.splits sum.splits)

lemma register_loop_names:
  assumes laws: "catalog_laws cat"
    and "register_sources_loop rd cat execution repartitioning sources registered ctx = (r, ctx')"
    and "table_names_in cat ctx = B \<union> to_ascii_lowercase ` rds_name ` set registered"
    and "B \<inter> to_ascii_lowercase ` rds_name ` set registered = {}"
    and "to_ascii_lowercase ` fst ` set sources \<inter> table_names_in cat ctx = {}"
    and "distinct (map (to_ascii_lowercase \<circ> fst) sources)"
  shows "case r of
      Inl _ \<Rightarrow> table_names_in cat ctx' = B
    | Inr done \<Rightarrow>
        done = registered @ map (\<lambda>(name, t, _). registered_delta_source rd name t) sources \<and>
        table_names_in cat ctx' = table_names_in cat ctx \<union> to_ascii_lowercase ` fst ` set sources"
  using assms(2-)
proof (induction sources arbitrary: registered ctx)
  case Nil
  then show ?case by auto
next
  case (Cons source rest)
  obtain name t partitions where source: "source = (name, t, partitions)"
    by (cases source)
  let ?options = "\<lparr>so_execution_options = execution, so_target_partitions = partitions,
    so_intra_file_repartitioning = repartitioning, so_use_arrow_view_types = False\<rparr>"
  obtain q ctx1 where q: "register_table_with_tracing rd cat name t ?options ctx = (q, ctx1)"
    by fastforce
  from q show ?case
  proof (cases rule: register_with_tracing_cases)
    case ok
    let ?new = "registered_delta_source rd name t"
    have names: "table_names_in cat ctx1 = insert (to_ascii_lowercase name) (table_names_in cat ctx)"
      by (rule catalog_lawsD(1) [OF laws ok(2)])
    have new: "rds_name ?new = name"
      by (simp add: registered_delta_source_def)
    have loop: "register_sources_loop rd cat execution repartitioning rest (registered @ [?new]) ctx1
        = (r, ctx')"
      using Cons.prems(1) q ok(1) by (simp add: source)
    from Cons.prems(2-5)
    have "table_names_in cat ctx1 = B \<union> to_ascii_lowercase ` rds_name ` set (registered @ [?new])"
      "B \<inter> to_ascii_lowercase ` rds_name ` set (registered @ [?new]) = {}"
      "to_ascii_lowercase ` fst ` set rest \<inter> table_names_in cat ctx1 = {}"
      "distinct (map (to_ascii_lowercase \<circ> fst) rest)"
      by (auto simp: names new source comp_def)
    from Cons.IH [OF loop this] show ?thesis
      by (auto simp: source names split: sum.splits)
  next
    case (err e)
    have "table_names_in cat ctx1 = table_names_in cat ctx"
      by (rule catalog_lawsD(2) [OF laws err(2)])
    moreover have "r = Inl (map_registration_error name (tab_table_url rd t) e)"
      "ctx' = rollback_registered_delta_sources cat (map rds_name registered) ctx1"
      using Cons.prems(1) q err(1) by (simp_all add: source)
    ultimately show ?thesis
      using Cons.prems(2,3) by (auto simp: rollback_names [OF laws])
  qed
qed

lemma check_each_ok: "check_each f xs = Inr () \<longleftrightarrow> (\<forall>x \<in> set xs. f x = Inr ())"
  by (induction xs) (auto simp: res_simps)

lemma reject_existing_ok:
  "reject_existing_delta_registration_name cat ctx name uri = Inr () \<longleftrightarrow>
     to_ascii_lowercase name \<notin> table_names_in cat ctx"
proof -
  have "reject_existing_delta_registration_name cat ctx name uri = Inr () \<longleftrightarrow>
      find (\<lambda>existing. eq_ignore_ascii_case existing name) (cat_table_names cat ctx) = None"
    by (simp add: reject_existing_delta_registration_name_def split: option.split)
  also have "\<dots> \<longleftrightarrow> to_ascii_lowercase name \<notin> table_names_in cat ctx"
    unfolding find_None_iff table_names_in_def eq_ignore_ascii_case_def image_iff by metis
  finally show ?thesis .
qed

lemma register_sources_all_or_nothing:
  assumes laws: "catalog_laws cat"
    and run: "register_delta_sources_with_options rd cat repartitioning sources execution ctx
      = (r, ctx')"
  shows "case r of
      Inl _ \<Rightarrow> table_names_in cat ctx' = table_names_in cat ctx
    | Inr done \<Rightarrow>
        done = map (\<lambda>(name, t, _). registered_delta_source rd name t) sources \<and>
        table_names_in cat ctx' = table_names_in cat ctx \<union> to_ascii_lowercase ` fst ` set sources"
proof -
  consider (rejected) e where "r = Inl e" "ctx' = ctx"
    | (checked) "validate_table_source_names (map fst sources) = Inr ()"
        "check_each (\<lambda>(name, t, _).
           reject_existing_delta_registration_name cat ctx name (tab_table_url rd t)) sources = Inr ()"
        "register_sources_loop rd cat execution repartitioning sources [] ctx = (r, ctx')"
    using run
    by (auto simp: register_delta_sources_with_options_def io_bind_def split: sum.splits)
  then show ?thesis
  proof cases
    case rejected
    then show ?thesis by simp
  next
    case checked
    have "distinct (map (to_ascii_lowercase \<circ> fst) sources)"
      using checked(1) by (simp add: validate_names_ok)
    moreover have "to_ascii_lowercase ` fst ` set sources \<inter> table_names_in cat ctx = {}"
      using checked(2) by (force simp: check_each_ok reject_existing_ok)
    ultimately show ?thesis
      using register_loop_names [OF laws checked(3), of "table_names_in cat ctx"]
      by (simp split: sum.splits)
  qed
qed

subsection \<open>The session after a registration\<close>

lemma emit_registration_conn [simp]: "w_conn (emit_registration_phase reporter phase w) = w_conn w"
  by (simp add: emit_registration_phase_def)

lemma timed_step_cases:
  assumes "timed_step name step w = (r, w')"
  obtains (ok) a t w1 w2 where "r = Inr (a, t)" "step w1 = (Inr a, w2)" "w_conn w1 = w_conn w"
      "w_conn w' = w_conn w2" "w_events w1 = w_events w" "w_events w' = w_events w2"
  | (err) e w1 w2 where "r = Inl e" "step w1 = (Inl e, w2)" "w_conn w1 = w_conn w"
      "w_conn w' = w_conn w2" "w_events w1 = w_events w" "w_events w' = w_events w2"
proof -
  obtain q w2 where q: "step (tick w) = (q, w2)"
    by fastforce
  show thesis
  proof (cases q)
    case (Inl e)
    with assms q show thesis
      by (intro that(2) [of e "tick w" w2]) (auto simp: timed_step_def)
  next
    case (Inr a)
    with assms q show thesis
      by (intro that(1) [of a "timing_completed name (reading w2 - reading w)" "tick w" w2])
        (auto simp: timed_step_def)
  qed
qed

lemma register_with_scan_options_session:
  assumes "register_delta_source_with_scan_options rd cat name t options reporter w = (r, w')"
  obtains ctx where "w_session w' = (w_session w)\<lparr>ds_context := ctx\<rparr>"
    "\<And>reg. r = Inr reg \<Longrightarrow> reg = registered_delta_source rd name t"
proof -
  let ?w = "emit_registration_phase reporter RegisteringDeltaSource w"
  obtain q ctx where q: "register_table_with_tracing rd cat name t options (ds_context (w_session w))
      = (q, ctx)"
    by fastforce
  consider (stopped) e where "r = Inl e" "w' = w"
    | (called) "r = q" "w' = ?w\<lparr>w_conn := (w_session w)\<lparr>ds_context := ctx\<rparr>\<rparr>"
    using assms q
    by (auto simp: register_delta_source_with_scan_options_def io_bind_def on_context_def
        split: sum.splits)
  then show thesis
  proof cases
    case stopped
    then show thesis
      by (intro that [of "ds_context (w_session w)"]) simp_all
  next
    case called
    have "q = Inr reg \<Longrightarrow> reg = registered_delta_source rd name t" for reg
      using q by (cases rule: register_with_tracing_cases) simp_all
    with called show thesis
      by (intro that [of ctx]) simp_all
  qed
qed

lemma load_delta_snapshot_name:
  "load_delta_snapshot env source execution = Inr (name, n) \<Longrightarrow> name = sc_name source"
  by (auto simp: load_delta_snapshot_def Let_def apply_environment_storage_options_def
      map_err_eq_Inr map_sum_def split: sum.splits)

text \<open>What each step does to the session, and what its success says.\<close>

lemma loading_step_session:
  assumes "loading_step env source reporter w = (r, w')"
  shows "w_session w' = w_session w" "r = Inr ((name, n), t1) \<Longrightarrow> name = sc_name source"
proof -
  show "w_session w' = w_session w"
    using assms unfolding loading_step_def by (cases rule: timed_step_cases) auto
  assume "r = Inr ((name, n), t1)"
  with assms show "name = sc_name source"
    unfolding loading_step_def by (cases rule: timed_step_cases) (auto dest: load_delta_snapshot_name)
qed

lemma preflight_step_session:
  assumes "preflight_step env name n reporter w = (r, w')"
  shows "w_session w' = w_session w"
    "r = Inr a \<Longrightarrow> snap_validate_protocol (se_reader env) n = Inr ()"
proof -
  show "w_session w' = w_session w"
    using assms unfolding preflight_step_def by (cases rule: timed_step_cases) auto
  assume "r = Inr a"
  with assms show "snap_validate_protocol (se_reader env) n = Inr ()"
    unfolding preflight_step_def
    by (cases rule: timed_step_cases)
      (auto simp: validate_delta_table_snapshot_protocol_def validate_protocol_def Let_def
        is_ok_def split: if_splits sum.splits)
qed

lemma registration_step_session:
  assumes "registration_step env name n reporter w = (r, w')"
  obtains ctx where "w_session w' = (w_session w)\<lparr>ds_context := ctx\<rparr>"
    "\<forall>reg t3. r = Inr (reg, t3) \<longrightarrow> (\<exists>t. snap_into_table (se_reader env) n = Inr t \<and>
       reg = registered_delta_source (se_reader env) name t)"
  using assms unfolding registration_step_def
proof (cases rule: timed_step_cases)
  case (ok a t3 v1 v2)
  then obtain t where t: "snap_into_table (se_reader env) n = Inr t"
      "register_delta_source_with_scan_options (se_reader env) (se_catalog env) name t
         (session_scan_options (w_session v1)) reporter
         (emit_registration_phase reporter PreparingDeltaProvider v1) = (Inr a, v2)"
    by (auto simp: io_bind_def map_err_def split: sum.splits)
  from t(2) show thesis
    by (rule register_with_scan_options_session) (use t(1) ok that in auto)
next
  case (err e v1 v2)
  then consider (table) "v2 = emit_registration_phase reporter PreparingDeltaProvider v1"
    | (refused) t where
        "register_delta_source_with_scan_options (se_reader env) (se_catalog env) name t
           (session_scan_options (w_session v1)) reporter
           (emit_registration_phase reporter PreparingDeltaProvider v1) = (Inl e, v2)"
    by (auto simp: io_bind_def map_err_def split: sum.splits)
  then show thesis
  proof cases
    case table
    with err that [of "ds_context (w_session w)"] show thesis by simp
  next
    case refused
    then show thesis
      by (rule register_with_scan_options_session) (use err that in auto)
  qed
qed

text \<open>
  A registration either fails and leaves the registry of the session as it was, or appends one
  source under the configured name, with the timings of its three phases.
\<close>

lemma register_delta_source_cases:
  assumes "register_delta_source env source reporter w = (r, w')"
  obtains (failed) e ctx where "r = Inl e" "w_session w' = (w_session w)\<lparr>ds_context := ctx\<rparr>"
  | (registered) t n t1 t2 t3 ctx where "r = Inr (fst (add_source
        (registered_delta_source (se_reader env) (sc_name source) t) [t1, t2, t3]
        ((w_session w)\<lparr>ds_context := ctx\<rparr>)))"
      "w_session w' = snd (add_source
        (registered_delta_source (se_reader env) (sc_name source) t) [t1, t2, t3]
        ((w_session w)\<lparr>ds_context := ctx\<rparr>))"
      "snap_into_table (se_reader env) n = Inr t"
      "snap_validate_protocol (se_reader env) n = Inr ()"
proof -
  note def = register_delta_source_def io_bind_def
  have same: "s = s\<lparr>ds_context := ds_context s\<rparr>" for s :: "('c, 'p) DeltaFunnelSession"
    by simp
  obtain r1 w1 where 1: "loading_step env source reporter w = (r1, w1)" by fastforce
  show thesis
  proof (cases r1)
    case (Inl e)
    with assms 1 loading_step_session(1) [OF 1] same show thesis
      by (intro that(1) [of e "ds_context (w_session w)"]) (auto simp: def)
  next
    case (Inr a1)
    then obtain name n t1 where a1: "r1 = Inr ((name, n), t1)" by (metis surj_pair)
    obtain r2 w2 where 2: "preflight_step env name n reporter w1 = (r2, w2)" by fastforce
    have s2: "w_session w2 = w_session w"
      using loading_step_session(1) [OF 1] preflight_step_session(1) [OF 2] by simp
    show thesis
    proof (cases r2)
      case (Inl e)
      with assms 1 a1 2 s2 show thesis
        by (intro that(1) [of e "ds_context (w_session w)"]) (auto simp: def)
    next
      case (Inr a2)
      then obtain t2 where a2: "r2 = Inr ((), t2)" by (metis surj_pair old.unit.exhaust)
      obtain r3 w3 where 3: "registration_step env name n reporter w2 = (r3, w3)" by fastforce
      from 3 obtain ctx where ctx: "w_session w3 = (w_session w2)\<lparr>ds_context := ctx\<rparr>"
        and reg: "\<forall>reg t3. r3 = Inr (reg, t3) \<longrightarrow> (\<exists>t. snap_into_table (se_reader env) n = Inr t \<and>
             reg = registered_delta_source (se_reader env) name t)"
        by (rule registration_step_session)
      show thesis
      proof (cases r3)
        case (Inl e)
        with assms 1 a1 2 a2 3 ctx s2 show thesis
          by (intro that(1) [of e ctx]) (auto simp: def)
      next
        case (Inr a3)
        then obtain t t3 where "r3 = Inr (registered_delta_source (se_reader env) name t, t3)"
            and "snap_into_table (se_reader env) n = Inr t"
          using reg by (metis surj_pair)
        with assms 1 a1 2 a2 3 ctx s2 preflight_step_session(2) [OF 2 a2]
          loading_step_session(2) [OF 1 a1] show thesis
          by (intro that(2) [of t t1 t2 t3 ctx n]) (auto simp: def split: prod.splits)
      qed
    qed
  qed
qed

subsection \<open>The invariant\<close>

lemma session_wf_add_source:
  assumes wf: "session_wf s" and free: "next_table_id s \<noteq> u64_MAX"
    and names: "source_identifier (rds_name r)" "registered_source s (rds_name r) = None"
      "registered_derived_table s (rds_name r) = None"
  shows "session_wf (snd (add_source r timings (s\<lparr>ds_context := ctx\<rparr>)))" (is "session_wf ?s")
proof -
  let ?src = "session_source_from_registered (LazyTable_delta_source (next_table_id s) (rds_name r))
    r timings"
  have s: "ds_sources ?s = ds_sources s @ [?src]" "derived_tables ?s = derived_tables s"
      "pending_derived_tables ?s = pending_derived_tables s"
      "next_table_id ?s = saturating_add (next_table_id s) 1"
    by (simp_all add: add_source_def allocate_delta_source_table_def)
  have src: "rs_id ?src = next_table_id s" "rs_name ?src = rds_name r"
      "lt_kind (rs_table ?src) = DeltaSource"
    by (simp_all add: session_source_from_registered_def LazyTable_delta_source_def)
  have "set (session_ids ?s) = insert (next_table_id s) (set (session_ids s))"
    by (auto simp: session_ids_def s src)
  moreover have "next_table_id s \<notin> set (session_ids s)"
    using wf by (auto simp: session_wf_def)
  then have "distinct (session_ids ?s)"
    using wf by (auto simp: session_wf_def session_ids_def s src)
  ultimately have ids: "distinct (session_ids ?s)" "\<forall>i \<in> set (session_ids ?s). i < next_table_id ?s"
    using wf free by (auto simp: session_wf_def s intro!: next_id_fresh dest: bspec less_imp_le)
  have naming: "distinct (map to_ascii_lowercase (alias_names ?s))"
      "\<forall>name \<in> set (alias_names ?s). source_identifier name"
    using wf names(1) alias_name_fresh [OF names(2,3)]
    by (auto simp: session_wf_def alias_names_def s src)
  have handles: "handles_wf ?s"
    using wf by (auto simp: session_wf_def handles_wf_def s src(3))
  have mono: "lineage_wf ?s n l" if "lineage_wf s n l" for n l
    by (rule lineage_wf_mono [OF that]) (auto simp: s)
  show ?thesis
    using wf ids naming handles by (simp add: session_wf_def s(2,3) mono)
qed

lemma validate_registration_ok:
  assumes "validate_delta_source_registration env source s = Inr ()"
  shows "source_identifier (sc_name source)" "registered_source s (sc_name source) = None"
    "registered_derived_table s (sc_name source) = None"
  using assms
  by (auto simp: validate_delta_source_registration_def res_bind_eq_Inr validate_names_ok
      reject_registered_alias_name_def split: if_splits)

lemma session_wf_context: "session_wf (s\<lparr>ds_context := ctx\<rparr>) \<longleftrightarrow> session_wf s"
  by (simp add: session_wf_def session_ids_def alias_names_def handles_wf_def lineage_wf_def
      dependency_known_def)

lemma register_delta_source_wf:
  assumes "session_wf (w_session w)" "next_table_id (w_session w) \<noteq> u64_MAX"
    and "validate_delta_source_registration env source (w_session w) = Inr ()"
    and "register_delta_source env source reporter w = (r, w')"
  shows "session_wf (w_session w')"
  using assms(4)
proof (cases rule: register_delta_source_cases)
  case failed
  with assms(1) show ?thesis by (simp add: session_wf_context)
next
  case registered
  with session_wf_add_source [OF assms(1,2)] validate_registration_ok [OF assms(3)] show ?thesis
    by (simp add: registered_delta_source_def)
qed

end
