(* ===== verification/DF_Cache_Plan.thy ===== *)
theory DF_Cache_Plan
  imports DF_Registry
begin

section \<open>Planning the shared caches of a multi-output write\<close>

text \<open>
  \<open>write_all/cache_plan.rs\<close>: which registered aliases a \<open>write_all\<close> call materialises once
  for several outputs. The automatic planner caches the frontier of the aliases that at least
  two outputs use: those that no other such alias reads. The explicit planner takes the
  aliases the caller names, when they are eligible and their choice is replay-closed.
\<close>

subsection \<open>Data\<close>

datatype MssqlNoCacheReason =
  FewerThanTwoOutputs | NoSharedRegisteredDerivedAlias | AmbiguousSharedDerivedAlias

record MssqlDerivedCacheAliasPlan =
  cap_table_id :: u64
  cap_alias :: string
  cap_output_indexes :: "nat list"

datatype MssqlCacheCandidateSkipReason =
    NotShared nat
  | MissingSqlText
  | IncompleteLineage
  | CoveredByDeeperSharedAlias u64
  | AmbiguousDepth
  | NotExplicitlySelected

record MssqlCacheCandidateSkip =
  ccs_table_id :: u64
  ccs_alias :: string
  ccs_reason :: MssqlCacheCandidateSkipReason

datatype MssqlOutputCacheDecision =
    NoCache MssqlNoCacheReason
  | CacheAliases "MssqlDerivedCacheAliasPlan list"

record MssqlOutputCachePlan =
  cp_decision :: MssqlOutputCacheDecision
  cp_skipped_candidates :: "MssqlCacheCandidateSkip list"

record MssqlCoveredCacheAlias =
  cov_alias :: MssqlDerivedCacheAliasPlan
  cov_selected_table_id :: u64

datatype MssqlCacheFrontierSelection =
    FrontierSelected "MssqlDerivedCacheAliasPlan list" "MssqlCoveredCacheAlias list"
  | FrontierAmbiguous "MssqlDerivedCacheAliasPlan list"

definition cache_plan_no_cache :: "MssqlNoCacheReason \<Rightarrow> MssqlOutputCachePlan" where
  "cache_plan_no_cache reason = \<lparr>cp_decision = NoCache reason, cp_skipped_candidates = []\<rparr>"

definition alias_plan_from_registered ::
    "RegisteredDerivedTable \<Rightarrow> nat list \<Rightarrow> MssqlDerivedCacheAliasPlan" where
  "alias_plan_from_registered derived indexes =
     \<lparr>cap_table_id = rd_id derived, cap_alias = rd_name derived, cap_output_indexes = indexes\<rparr>"

definition skip_from_registered ::
    "RegisteredDerivedTable \<Rightarrow> MssqlCacheCandidateSkipReason \<Rightarrow> MssqlCacheCandidateSkip" where
  "skip_from_registered derived reason =
     \<lparr>ccs_table_id = rd_id derived, ccs_alias = rd_name derived, ccs_reason = reason\<rparr>"

subsection \<open>Candidates\<close>

definition cache_output_uses_registered_derived ::
    "('c, 'p) DeltaFunnelSession \<Rightarrow> LazyTable \<Rightarrow> RegisteredDerivedTable \<Rightarrow> bool" where
  "cache_output_uses_registered_derived s t candidate =
     (if lt_id t = rd_id candidate then True
      else if lt_kind t = DeltaSource then False
      else
        (case transitive_registered_derived_dependencies s t of
           Inl _ \<Rightarrow> False
         | Inr deps \<Rightarrow> depends_on_id (rd_id candidate) deps))"

definition using_outputs ::
    "('c, 'p) DeltaFunnelSession \<Rightarrow> OutputWritePlan list \<Rightarrow> RegisteredDerivedTable \<Rightarrow> nat list" where
  "using_outputs s requests derived =
     filter (\<lambda>i. cache_output_uses_registered_derived s (owp_table (requests ! i)) derived)
       [0..<length requests]"

fun shared_candidates_loop ::
    "('c, 'p) DeltaFunnelSession \<Rightarrow> OutputWritePlan list \<Rightarrow> RegisteredDerivedTable list
       \<Rightarrow> MssqlDerivedCacheAliasPlan list \<Rightarrow> MssqlCacheCandidateSkip list
       \<Rightarrow> MssqlDerivedCacheAliasPlan list \<times> MssqlCacheCandidateSkip list" where
  "shared_candidates_loop s requests [] shared skipped = (shared, skipped)"
| "shared_candidates_loop s requests (derived # rest) shared skipped =
     (if trim (rd_sql_text derived) = [] then
        shared_candidates_loop s requests rest shared
          (skipped @ [skip_from_registered derived MissingSqlText])
      else if \<not> is_complete (rd_lineage derived) then
        shared_candidates_loop s requests rest shared
          (skipped @ [skip_from_registered derived IncompleteLineage])
      else
        (let indexes = using_outputs s requests derived in
         if 2 \<le> length indexes then
           shared_candidates_loop s requests rest
             (shared @ [alias_plan_from_registered derived indexes]) skipped
         else
           shared_candidates_loop s requests rest shared
             (skipped @ [skip_from_registered derived (NotShared (length indexes))])))"

definition shared_mssql_output_cache_candidates ::
    "('c, 'p) DeltaFunnelSession \<Rightarrow> OutputWritePlan list
       \<Rightarrow> MssqlDerivedCacheAliasPlan list \<times> MssqlCacheCandidateSkip list" where
  "shared_mssql_output_cache_candidates s requests =
     shared_candidates_loop s requests (derived_tables s) [] []"

subsection \<open>The frontier\<close>

definition cache_candidate_is_deeper_than ::
    "('c, 'p) DeltaFunnelSession \<Rightarrow> MssqlDerivedCacheAliasPlan \<Rightarrow> MssqlDerivedCacheAliasPlan \<Rightarrow> bool"
  where
  "cache_candidate_is_deeper_than s candidate other =
     (if cap_table_id candidate = cap_table_id other then False
      else
        (case registered_derived_table_by_id s (cap_table_id candidate) of
           None \<Rightarrow> False
         | Some candidate_table \<Rightarrow>
             (case registered_derived_table_by_id s (cap_table_id other) of
                None \<Rightarrow> False
              | Some other_table \<Rightarrow>
                  cache_output_uses_registered_derived s (rd_table candidate_table) other_table)))"

definition deepest_indexes ::
    "('c, 'p) DeltaFunnelSession \<Rightarrow> MssqlDerivedCacheAliasPlan list \<Rightarrow> nat list" where
  "deepest_indexes s candidates =
     filter (\<lambda>i. \<not> list_ex (\<lambda>j. i \<noteq> j \<and>
                    cache_candidate_is_deeper_than s (candidates ! j) (candidates ! i))
                 [0..<length candidates])
       [0..<length candidates]"

definition covered_aliases ::
    "('c, 'p) DeltaFunnelSession \<Rightarrow> MssqlDerivedCacheAliasPlan list \<Rightarrow> nat list
       \<Rightarrow> MssqlDerivedCacheAliasPlan list \<Rightarrow> MssqlCoveredCacheAlias list" where
  "covered_aliases s candidates deepest selected =
     List.map_filter
       (\<lambda>i. if i \<in> set deepest then None
            else map_option
                   (\<lambda>sel. \<lparr>cov_alias = candidates ! i, cov_selected_table_id = cap_table_id sel\<rparr>)
                   (find (\<lambda>sel. cache_candidate_is_deeper_than s sel (candidates ! i)) selected))
       [0..<length candidates]"

definition select_shared_cache_frontier ::
    "('c, 'p) DeltaFunnelSession \<Rightarrow> MssqlDerivedCacheAliasPlan list
       \<Rightarrow> MssqlCacheFrontierSelection" where
  "select_shared_cache_frontier s candidates =
     (let deepest = deepest_indexes s candidates in
      if deepest = [] then FrontierAmbiguous candidates
      else
        (let selected = map ((!) candidates) deepest;
             covered = covered_aliases s candidates deepest selected
         in if length deepest + length covered \<noteq> length candidates
            then FrontierAmbiguous candidates
            else FrontierSelected selected covered))"

definition skip_by_id ::
    "('c, 'p) DeltaFunnelSession \<Rightarrow> u64 \<Rightarrow> MssqlCacheCandidateSkipReason
       \<Rightarrow> MssqlCacheCandidateSkip option" where
  "skip_by_id s i reason =
     map_option (\<lambda>derived. skip_from_registered derived reason) (registered_derived_table_by_id s i)"

definition plan_mssql_output_cache ::
    "('c, 'p) DeltaFunnelSession \<Rightarrow> OutputWritePlan list \<Rightarrow> MssqlOutputCachePlan" where
  "plan_mssql_output_cache s requests =
     (if length requests < 2 then cache_plan_no_cache FewerThanTwoOutputs
      else
        (case shared_mssql_output_cache_candidates s requests of (shared, skipped) \<Rightarrow>
           if length shared = 1 then
             \<lparr>cp_decision = CacheAliases [hd shared], cp_skipped_candidates = skipped\<rparr>
           else if 1 < length shared then
             (case select_shared_cache_frontier s shared of
                FrontierSelected selected covered \<Rightarrow>
                  \<lparr>cp_decision = CacheAliases selected,
                   cp_skipped_candidates = skipped @ List.map_filter
                     (\<lambda>c. skip_by_id s (cap_table_id (cov_alias c))
                            (CoveredByDeeperSharedAlias (cov_selected_table_id c))) covered\<rparr>
              | FrontierAmbiguous ambiguous \<Rightarrow>
                  \<lparr>cp_decision = NoCache AmbiguousSharedDerivedAlias,
                   cp_skipped_candidates = skipped @ List.map_filter
                     (\<lambda>c. skip_by_id s (cap_table_id c) AmbiguousDepth) ambiguous\<rparr>)
           else
             \<lparr>cp_decision = NoCache NoSharedRegisteredDerivedAlias,
              cp_skipped_candidates = skipped\<rparr>))"

subsection \<open>Explicit selection\<close>

definition empty_cache_aliases_error :: DeltaFunnelError where
  "empty_cache_aliases_error =
     MssqlWorkflowPlanning ''write_all cache_aliases must not be empty''"

fun explicit_aliases_loop ::
    "('c, 'p) DeltaFunnelSession \<Rightarrow> MssqlDerivedCacheAliasPlan list \<Rightarrow> string list
       \<Rightarrow> string set \<Rightarrow> u64 set \<Rightarrow> DeltaFunnelError + u64 set" where
  "explicit_aliases_loop s shared [] names ids = Inr ids"
| "explicit_aliases_loop s shared (a # rest) names ids =
     (if to_ascii_lowercase a \<in> names then
        Inl (MssqlWorkflowPlanning
               (''write_all cache_aliases contains duplicate alias ''
                  @ quoted (sanitize_text_for_display a)))
      else
        (case registered_derived_table s a of
           None \<Rightarrow>
             Inl (MssqlWorkflowPlanning
                    (''write_all cache_aliases contains unknown registered alias ''
                       @ quoted (sanitize_text_for_display a)))
         | Some derived \<Rightarrow>
             if \<not> list_ex (\<lambda>c. cap_table_id c = rd_id derived) shared then
               Inl (MssqlWorkflowPlanning
                      (''write_all cache alias '' @ quoted (sanitize_text_for_display a)
                         @ '' is not eligible for the selected outputs''))
             else
               explicit_aliases_loop s shared rest (insert (to_ascii_lowercase a) names)
                 (insert (rd_id derived) ids)))"

definition hidden_alias_error :: "string \<Rightarrow> string \<Rightarrow> string \<Rightarrow> string \<Rightarrow> DeltaFunnelError" where
  "hidden_alias_error selected consumer_kind consumer_name intermediate =
     MssqlWorkflowPlanning
       (''write_all explicit cache alias '' @ quoted (sanitize_text_for_display selected)
          @ '' is hidden from replanned '' @ consumer_kind @ '' ''
          @ quoted (sanitize_text_for_display consumer_name)
          @ '' by unselected intermediate alias '' @ quoted (sanitize_text_for_display intermediate)
          @ ''; explicit cache aliases must form a replay-closed dependency chain'')"

definition unresolved_cache_dependency_error :: "string \<Rightarrow> DeltaFunnelError" where
  "unresolved_cache_dependency_error name =
     MssqlWorkflowPlanning
       (''write_all could not resolve registered cache dependency ''
          @ quoted (sanitize_text_for_display name))"

fun replay_root_loop ::
    "('c, 'p) DeltaFunnelSession \<Rightarrow> string \<Rightarrow> string \<Rightarrow> u64 set \<Rightarrow> DerivedTableDependency list
       \<Rightarrow> DeltaFunnelError + unit" where
  "replay_root_loop s kind name selected [] = Inr ()"
| "replay_root_loop s kind name selected (RegisteredSource i n # deps) =
     replay_root_loop s kind name selected deps"
| "replay_root_loop s kind name selected (RegisteredDerived i n # deps) =
     (if i \<in> selected then replay_root_loop s kind name selected deps
      else
        res_bind
          (ok_or (registered_derived_table_by_id s i) (unresolved_cache_dependency_error n))
          (\<lambda>intermediate.
        res_bind (transitive_registered_derived_dependencies s (rd_table intermediate))
          (\<lambda>reads.
             case find (\<lambda>d. is_registered_derived d \<and> dep_table_id d \<in> selected) reads of
               Some d \<Rightarrow> Inl (hidden_alias_error (dep_name d) kind name n)
             | None \<Rightarrow> replay_root_loop s kind name selected deps)))"

definition validate_explicit_cache_replay_root ::
    "('c, 'p) DeltaFunnelSession \<Rightarrow> LazyTable \<Rightarrow> string \<Rightarrow> string \<Rightarrow> u64 set
       \<Rightarrow> DeltaFunnelError + unit" where
  "validate_explicit_cache_replay_root s t kind name selected =
     res_bind (lineage_for_derived_table s t)
       (\<lambda>lineage. replay_root_loop s kind name selected (direct_dependencies lineage))"

fun check_all :: "('a \<Rightarrow> 'e + unit) \<Rightarrow> 'a list \<Rightarrow> 'e + unit" where
  "check_all f [] = Inr ()"
| "check_all f (x # xs) = res_bind (f x) (\<lambda>_. check_all f xs)"

definition validate_explicit_cache_replay_closure ::
    "('c, 'p) DeltaFunnelSession \<Rightarrow> OutputWritePlan list \<Rightarrow> u64 set \<Rightarrow> DeltaFunnelError + unit" where
  "validate_explicit_cache_replay_closure s requests selected =
     res_bind
       (check_all
          (\<lambda>derived. validate_explicit_cache_replay_root s (rd_table derived) ''cache alias''
                       (rd_name derived) selected)
          (filter (\<lambda>derived. rd_id derived \<in> selected) (derived_tables s))) (\<lambda>_.
       check_all
         (\<lambda>request. validate_explicit_cache_replay_root s (owp_table request) ''output''
                      (ot_output_name (owp_target request)) selected)
         (filter (\<lambda>request. lt_kind (owp_table request) = DerivedSql \<and>
                            lt_id (owp_table request) \<notin> selected) requests))"

definition plan_mssql_output_cache_explicit ::
    "('c, 'p) DeltaFunnelSession \<Rightarrow> OutputWritePlan list \<Rightarrow> string list
       \<Rightarrow> DeltaFunnelError + MssqlOutputCachePlan" where
  "plan_mssql_output_cache_explicit s requests aliases =
     (if aliases = [] then Inl empty_cache_aliases_error
      else
        (case shared_mssql_output_cache_candidates s requests of (shared, skipped) \<Rightarrow>
           res_bind (explicit_aliases_loop s shared aliases {} {}) (\<lambda>ids.
           res_bind (validate_explicit_cache_replay_closure s requests ids) (\<lambda>_.
             Inr \<lparr>cp_decision = CacheAliases (filter (\<lambda>c. cap_table_id c \<in> ids) shared),
                  cp_skipped_candidates = skipped @ List.map_filter
                    (\<lambda>c. skip_by_id s (cap_table_id c) NotExplicitlySelected)
                    (filter (\<lambda>c. cap_table_id c \<notin> ids) shared)\<rparr>))))"

subsection \<open>Reading between aliases is a strict order\<close>

definition reads_alias :: "('c, 'p) DeltaFunnelSession \<Rightarrow> (u64 \<times> u64) set" where
  "reads_alias s = (derived_edges (direct_reads s))\<^sup>+"

lemma reads_of_registered:
  assumes "session_wf s" "d \<in> set (derived_tables s)"
  shows "reads_of s (rd_table d) = reads_alias s `` {rd_id d}"
    "lineage_for_derived_table s (rd_table d) = Inr (rd_lineage d)"
proof -
  have kind: "lt_kind (rd_table d) = DerivedSql"
    using assms by (simp add: session_wf_def handles_wf_def)
  then show l: "lineage_for_derived_table s (rd_table d) = Inr (rd_lineage d)"
    by (simp add: lineage_for_derived_table_def derived_or_pending_def ok_or_def
        registered_by_id_wf [OF assms])
  have "direct_dependencies (rd_lineage d) = direct_reads s (rd_id d)"
    by (simp add: direct_reads_def registered_by_id_wf [OF assms])
  then have "reads_of s (rd_table d) = reached (direct_reads s) (direct_reads s (rd_id d))"
    using l by (simp add: reads_of_def)
  also have "\<dots> = reads_alias s `` {rd_id d}"
    by (auto simp: reached_def reads_alias_def derived_edges_def trancl_unfold_left)
  finally show "reads_of s (rd_table d) = reads_alias s `` {rd_id d}" .
qed

lemma reads_alias_earlier:
  assumes "session_wf s" "k < length (derived_tables s)" "(rd_id (derived_tables s ! k), j) \<in> reads_alias s"
  shows "j \<in> before_ids s k"
proof -
  let ?d = "derived_tables s ! k"
  have "lineage_wf s k (rd_lineage ?d)"
    using assms by (simp add: session_wf_def)
  from reached_before [OF assms(1) this] reads_of_registered [OF assms(1), of ?d] assms(2,3)
  show ?thesis
    by (auto simp: reads_of_def)
qed

lemma id_not_before_itself:
  assumes "session_wf s" "k < length (derived_tables s)"
  shows "rd_id (derived_tables s ! k) \<notin> before_ids s k"
proof
  assume "rd_id (derived_tables s ! k) \<in> before_ids s k"
  then obtain m where "m < k" "m < length (derived_tables s)"
      "rd_id (derived_tables s ! m) = rd_id (derived_tables s ! k)"
    by (rule before_ids_E)
  with session_wf_distinct_ids(2) [OF assms(1)] assms(2) show False
    by (auto simp: distinct_conv_nth)
qed

lemma reads_alias_irrefl:
  assumes "session_wf s" "d \<in> set (derived_tables s)"
  shows "(rd_id d, rd_id d) \<notin> reads_alias s"
  using assms reads_alias_earlier id_not_before_itself by (metis in_set_conv_nth)

lemma reads_alias_trans: "trans (reads_alias s)"
  by (simp add: reads_alias_def)

lemma uses_registered_iff:
  assumes "session_wf s" "d \<in> set (derived_tables s)"
  shows "cache_output_uses_registered_derived s (rd_table d) e \<longleftrightarrow>
     rd_id d = rd_id e \<or> (rd_id d, rd_id e) \<in> reads_alias s"
proof -
  obtain deps where "transitive_registered_derived_dependencies s (rd_table d) = Inr deps"
      "derived_roots deps = reads_of s (rd_table d)"
    using transitive_dependencies_wf [OF assms(1) reads_of_registered(2) [OF assms]] .
  moreover have "lt_kind (rd_table d) = DerivedSql"
    using assms by (simp add: session_wf_def handles_wf_def)
  ultimately show ?thesis
    by (simp add: cache_output_uses_registered_derived_def depends_on_id_iff
        reads_of_registered(1) [OF assms])
qed

text \<open>A handle uses an alias when it is the alias or reads it.\<close>

definition output_uses :: "('c, 'p) DeltaFunnelSession \<Rightarrow> LazyTable \<Rightarrow> u64 \<Rightarrow> bool" where
  "output_uses s t i \<longleftrightarrow> lt_id t = i \<or> lt_kind t = DerivedSql \<and> i \<in> reads_of s t"

lemma output_uses_iff:
  assumes "session_wf s"
  shows "cache_output_uses_registered_derived s t d \<longleftrightarrow> output_uses s t (rd_id d)"
proof (cases "lineage_for_derived_table s t")
  case (Inl e)
  then have "transitive_registered_derived_dependencies s t = Inl e" "reads_of s t = {}"
    by (simp_all add: transitive_registered_derived_dependencies_def reads_of_def)
  then show ?thesis
    by (simp add: cache_output_uses_registered_derived_def output_uses_def)
next
  case (Inr l)
  obtain deps where "transitive_registered_derived_dependencies s t = Inr deps"
      "derived_roots deps = reads_of s t"
    by (rule transitive_dependencies_wf [OF assms Inr])
  then show ?thesis
    by (cases "lt_kind t")
      (simp_all add: cache_output_uses_registered_derived_def output_uses_def depends_on_id_iff)
qed

subsection \<open>The candidates\<close>

definition cache_eligible ::
    "('c, 'p) DeltaFunnelSession \<Rightarrow> OutputWritePlan list \<Rightarrow> RegisteredDerivedTable \<Rightarrow> bool" where
  "cache_eligible s requests d \<longleftrightarrow>
     trim (rd_sql_text d) \<noteq> [] \<and> is_complete (rd_lineage d) \<and>
     2 \<le> length (using_outputs s requests d)"

definition ineligible_reason ::
    "('c, 'p) DeltaFunnelSession \<Rightarrow> OutputWritePlan list \<Rightarrow> RegisteredDerivedTable
       \<Rightarrow> MssqlCacheCandidateSkipReason" where
  "ineligible_reason s requests d =
     (if trim (rd_sql_text d) = [] then MissingSqlText
      else if \<not> is_complete (rd_lineage d) then IncompleteLineage
      else NotShared (length (using_outputs s requests d)))"

abbreviation candidate_plan ::
    "('c, 'p) DeltaFunnelSession \<Rightarrow> OutputWritePlan list \<Rightarrow> RegisteredDerivedTable
       \<Rightarrow> MssqlDerivedCacheAliasPlan" where
  "candidate_plan s requests d \<equiv> alias_plan_from_registered d (using_outputs s requests d)"

lemma shared_candidates_loop_eq:
  "shared_candidates_loop s requests ds shared skipped =
     (shared @ map (candidate_plan s requests) (filter (cache_eligible s requests) ds),
      skipped @ map (\<lambda>d. skip_from_registered d (ineligible_reason s requests d))
                  (filter (\<lambda>d. \<not> cache_eligible s requests d) ds))"
  by (induction ds arbitrary: shared skipped)
    (simp_all add: cache_eligible_def ineligible_reason_def Let_def)

lemma shared_candidates_eq:
  "shared_mssql_output_cache_candidates s requests =
     (map (candidate_plan s requests) (filter (cache_eligible s requests) (derived_tables s)),
      map (\<lambda>d. skip_from_registered d (ineligible_reason s requests d))
        (filter (\<lambda>d. \<not> cache_eligible s requests d) (derived_tables s)))"
  by (simp add: shared_mssql_output_cache_candidates_def shared_candidates_loop_eq)

lemma using_outputs_eq:
  assumes "session_wf s"
  shows "using_outputs s requests d =
     filter (\<lambda>i. output_uses s (owp_table (requests ! i)) (rd_id d)) [0..<length requests]"
  by (simp add: using_outputs_def output_uses_iff [OF assms])

subsection \<open>The frontier of a set of candidates\<close>

text \<open>
  A list of candidates of a session: aliases registered in it, none twice. \<open>frontier_of\<close> keeps
  those no other candidate reads.
\<close>

definition candidates_of ::
    "('c, 'p) DeltaFunnelSession \<Rightarrow> MssqlDerivedCacheAliasPlan list \<Rightarrow> bool" where
  "candidates_of s cs \<longleftrightarrow>
     distinct (map cap_table_id cs) \<and> (\<forall>c \<in> set cs. cap_table_id c \<in> registered_ids s)"

definition on_frontier ::
    "('c, 'p) DeltaFunnelSession \<Rightarrow> MssqlDerivedCacheAliasPlan list \<Rightarrow> MssqlDerivedCacheAliasPlan
       \<Rightarrow> bool" where
  "on_frontier s cs c \<longleftrightarrow> (\<forall>b \<in> set cs. (cap_table_id b, cap_table_id c) \<notin> reads_alias s)"

lemma registered_idE:
  assumes "session_wf s" "i \<in> registered_ids s"
  obtains d where "d \<in> set (derived_tables s)" "rd_id d = i"
    "registered_derived_table_by_id s i = Some d"
  using assms registered_by_id_wf by (auto simp: registered_ids_def)

lemma deeper_iff:
  assumes "session_wf s" "cap_table_id a \<in> registered_ids s" "cap_table_id b \<in> registered_ids s"
  shows "cache_candidate_is_deeper_than s a b \<longleftrightarrow> (cap_table_id a, cap_table_id b) \<in> reads_alias s"
proof -
  obtain d where d: "d \<in> set (derived_tables s)" "rd_id d = cap_table_id a"
      "registered_derived_table_by_id s (cap_table_id a) = Some d"
    using assms(1,2) by (rule registered_idE)
  obtain e where e: "rd_id e = cap_table_id b"
      "registered_derived_table_by_id s (cap_table_id b) = Some e"
    using assms(1,3) by (rule registered_idE)
  have "(rd_id d, rd_id d) \<notin> reads_alias s"
    by (rule reads_alias_irrefl [OF assms(1) d(1)])
  with d e show ?thesis
    by (auto simp: cache_candidate_is_deeper_than_def uses_registered_iff [OF assms(1) d(1)])
qed

lemma filter_nth: "map ((!) xs) (filter (\<lambda>i. P (xs ! i)) [0..<length xs]) = filter P xs"
proof -
  have "filter P (map ((!) xs) [0..<length xs]) = map ((!) xs) (filter (P \<circ> (!) xs) [0..<length xs])"
    by (rule filter_map)
  then show ?thesis
    by (simp add: map_nth o_def)
qed

lemma map_filter_cong:
  "(\<And>x. x \<in> set xs \<Longrightarrow> f x = g x) \<Longrightarrow> List.map_filter f xs = List.map_filter g xs"
  by (induction xs) (simp_all add: map_filter_simps split: option.split)

lemma map_filter_if:
  "List.map_filter (\<lambda>x. if P x then None else Some (f x)) xs = map f (filter (\<lambda>x. \<not> P x) xs)"
  by (induction xs) (simp_all add: map_filter_simps)

lemma map_filter_nth:
  "List.map_filter (\<lambda>i. if P (xs ! i) then None else Some (f (xs ! i))) [0..<length xs] =
     map f (filter (\<lambda>x. \<not> P x) xs)"
  unfolding map_filter_if filter_nth [of xs "\<lambda>x. \<not> P x", symmetric] by simp

lemma deepest_indexes_eq:
  assumes "session_wf s" "candidates_of s cs"
  shows "deepest_indexes s cs = filter (\<lambda>i. on_frontier s cs (cs ! i)) [0..<length cs]"
proof -
  have "list_ex (\<lambda>j. i \<noteq> j \<and> cache_candidate_is_deeper_than s (cs ! j) (cs ! i)) [0..<length cs]
      \<longleftrightarrow> \<not> on_frontier s cs (cs ! i)" if i: "i < length cs" for i
  proof -
    have reg: "cap_table_id (cs ! j) \<in> registered_ids s" if "j < length cs" for j
      using assms(2) that by (simp add: candidates_of_def)
    have "i \<noteq> j" if "(cap_table_id (cs ! j), cap_table_id (cs ! i)) \<in> reads_alias s" for j
    proof
      assume "i = j"
      moreover obtain d where "d \<in> set (derived_tables s)" "rd_id d = cap_table_id (cs ! i)"
        using assms(1) reg [OF i] by (rule registered_idE)
      ultimately show False
        using that reads_alias_irrefl [OF assms(1)] by metis
    qed
    then have "(\<exists>j \<in> set [0..<length cs]. i \<noteq> j \<and>
        cache_candidate_is_deeper_than s (cs ! j) (cs ! i)) \<longleftrightarrow>
      (\<exists>j < length cs. (cap_table_id (cs ! j), cap_table_id (cs ! i)) \<in> reads_alias s)"
      using deeper_iff [OF assms(1) reg reg [OF i]] by fastforce
    then show ?thesis
      by (simp add: list_ex_iff on_frontier_def all_set_conv_all_nth)
  qed
  then show ?thesis
    by (auto simp: deepest_indexes_def intro!: filter_cong)
qed

text \<open>Every candidate off the frontier is read by one on it.\<close>

lemma wf_reads_alias:
  assumes "session_wf s"
  shows "wf (reads_alias s \<inter> registered_ids s \<times> registered_ids s)"
proof (rule finite_acyclic_wf)
  let ?r = "reads_alias s \<inter> registered_ids s \<times> registered_ids s"
  show "finite ?r" by simp
  have "trans ?r"
    using reads_alias_trans [of s] by (auto simp: trans_def)
  then have "?r\<^sup>+ = ?r" by (rule trancl_id)
  moreover have "(i, i) \<notin> ?r" for i
    using reads_alias_irrefl [OF assms] by (auto elim: registered_idE [OF assms])
  ultimately show "acyclic ?r"
    by (simp add: acyclic_def)
qed

lemma frontier_covers:
  assumes "session_wf s" "candidates_of s cs" "c \<in> set cs" "\<not> on_frontier s cs c"
  obtains b where "b \<in> set cs" "on_frontier s cs b" "(cap_table_id b, cap_table_id c) \<in> reads_alias s"
proof -
  let ?r = "reads_alias s \<inter> registered_ids s \<times> registered_ids s"
  let ?B = "{i. (i, cap_table_id c) \<in> reads_alias s \<and> i \<in> cap_table_id ` set cs}"
  obtain a where "a \<in> ?B"
    using assms(4) by (auto simp: on_frontier_def)
  from wfE_min [OF wf_reads_alias [OF assms(1)] this]
  obtain i where i: "i \<in> ?B" and minimal: "\<And>j. (j, i) \<in> ?r \<Longrightarrow> j \<notin> ?B"
    by blast
  then obtain b where b: "b \<in> set cs" "cap_table_id b = i" by blast
  have reg: "cap_table_id a \<in> registered_ids s" if "a \<in> set cs" for a
    using assms(2) that by (simp add: candidates_of_def)
  have "(cap_table_id a, i) \<notin> reads_alias s" if "a \<in> set cs" for a
  proof
    assume a: "(cap_table_id a, i) \<in> reads_alias s"
    then have "(cap_table_id a, i) \<in> ?r"
      using reg [OF that] reg [OF b(1)] b(2) by simp
    moreover have "(cap_table_id a, cap_table_id c) \<in> reads_alias s"
      using reads_alias_trans a i by (blast dest: transD)
    ultimately show False
      using minimal that by blast
  qed
  with b i that show thesis
    by (auto simp: on_frontier_def)
qed

definition covering_id ::
    "('c, 'p) DeltaFunnelSession \<Rightarrow> MssqlDerivedCacheAliasPlan list \<Rightarrow> MssqlDerivedCacheAliasPlan \<Rightarrow> u64"
  where
  "covering_id s cs c =
     (case find (\<lambda>b. cache_candidate_is_deeper_than s b c) (filter (on_frontier s cs) cs) of
        None \<Rightarrow> 0 | Some b \<Rightarrow> cap_table_id b)"

lemma covering_find:
  assumes "session_wf s" "candidates_of s cs" "c \<in> set cs" "\<not> on_frontier s cs c"
  obtains b where
    "find (\<lambda>b. cache_candidate_is_deeper_than s b c) (filter (on_frontier s cs) cs) = Some b"
    "b \<in> set cs" "on_frontier s cs b" "(cap_table_id b, cap_table_id c) \<in> reads_alias s"
    "covering_id s cs c = cap_table_id b"
proof -
  have reg: "cap_table_id a \<in> registered_ids s" if "a \<in> set cs" for a
    using assms(2) that by (simp add: candidates_of_def)
  obtain b where b: "b \<in> set cs" "on_frontier s cs b"
      "(cap_table_id b, cap_table_id c) \<in> reads_alias s"
    using frontier_covers [OF assms] .
  then have "find (\<lambda>b. cache_candidate_is_deeper_than s b c) (filter (on_frontier s cs) cs) \<noteq> None"
    using deeper_iff [OF assms(1) reg reg] assms(3) by (auto simp: find_None_iff)
  then obtain a where a:
      "find (\<lambda>b. cache_candidate_is_deeper_than s b c) (filter (on_frontier s cs) cs) = Some a"
    by blast
  then have "a \<in> set (filter (on_frontier s cs) cs)" "cache_candidate_is_deeper_than s a c"
    by (auto simp: find_Some_iff in_set_conv_nth simp del: set_filter)
  then show thesis
    using that [OF a] a deeper_iff [OF assms(1) reg reg] assms(3) by (auto simp: covering_id_def)
qed

lemma select_frontier_eq:
  assumes "session_wf s" "candidates_of s cs" "cs \<noteq> []"
  shows "select_shared_cache_frontier s cs =
     FrontierSelected (filter (on_frontier s cs) cs)
       (map (\<lambda>c. \<lparr>cov_alias = c, cov_selected_table_id = covering_id s cs c\<rparr>)
          (filter (\<lambda>c. \<not> on_frontier s cs c) cs))"
proof -
  let ?deep = "deepest_indexes s cs" and ?sel = "filter (on_frontier s cs) cs"
  have deep: "map ((!) cs) ?deep = ?sel"
    by (simp add: deepest_indexes_eq [OF assms(1,2)] filter_nth)
  obtain c where "c \<in> set cs" "on_frontier s cs c"
    using assms frontier_covers [OF assms(1,2)] by (metis hd_in_set)
  then have "?sel \<noteq> []"
    by (auto simp: filter_empty_conv)
  then have nonempty: "?deep \<noteq> []"
    using deep by auto
  have "covered_aliases s cs ?deep ?sel = List.map_filter
      (\<lambda>i. if on_frontier s cs (cs ! i) then None
           else Some \<lparr>cov_alias = cs ! i, cov_selected_table_id = covering_id s cs (cs ! i)\<rparr>)
      [0..<length cs]"
    unfolding covered_aliases_def
  proof (rule map_filter_cong)
    fix i assume "i \<in> set [0..<length cs]"
    then have i: "i < length cs" "i \<in> set ?deep \<longleftrightarrow> on_frontier s cs (cs ! i)"
      by (simp_all add: deepest_indexes_eq [OF assms(1,2)])
    show "(if i \<in> set ?deep then None
        else map_option (\<lambda>sel. \<lparr>cov_alias = cs ! i, cov_selected_table_id = cap_table_id sel\<rparr>)
          (find (\<lambda>sel. cache_candidate_is_deeper_than s sel (cs ! i)) ?sel)) =
      (if on_frontier s cs (cs ! i) then None
       else Some \<lparr>cov_alias = cs ! i, cov_selected_table_id = covering_id s cs (cs ! i)\<rparr>)"
    proof (cases "on_frontier s cs (cs ! i)")
      case False
      with i(1) obtain b where
          "find (\<lambda>b. cache_candidate_is_deeper_than s b (cs ! i)) ?sel = Some b"
          "covering_id s cs (cs ! i) = cap_table_id b"
        using covering_find [OF assms(1,2) nth_mem] by metis
      with False i(2) show ?thesis by simp
    qed (simp add: i(2))
  qed
  also have "\<dots> = map (\<lambda>c. \<lparr>cov_alias = c, cov_selected_table_id = covering_id s cs c\<rparr>)
      (filter (\<lambda>c. \<not> on_frontier s cs c) cs)"
    by (rule map_filter_nth)
  finally have cov: "covered_aliases s cs ?deep ?sel = \<dots>" .
  have "length ?deep = length ?sel"
    using deep length_map by metis
  then have "length ?deep + length (covered_aliases s cs ?deep ?sel) = length cs"
    by (simp add: cov sum_length_filter_compl)
  with nonempty deep cov show ?thesis
    by (simp add: select_shared_cache_frontier_def Let_def)
qed

subsection \<open>The automatic plan\<close>

lemma eligible_candidates:
  assumes "session_wf s"
  shows "candidates_of s (map (candidate_plan s requests) (filter P (derived_tables s)))"
  using session_wf_distinct_ids(2) [OF assms]
  by (auto simp: candidates_of_def alias_plan_from_registered_def registered_ids_def comp_def
      distinct_map_filter)

lemma skip_by_id_registered:
  assumes "session_wf s" "d \<in> set (derived_tables s)"
  shows "skip_by_id s (rd_id d) reason = Some (skip_from_registered d reason)"
  by (simp add: skip_by_id_def registered_by_id_wf [OF assms])

text \<open>
  \<open>frontier_alias\<close>: an eligible alias that no eligible alias reads. \<open>cover_of\<close>: the selected
  alias reported as covering one that is not on the frontier.
\<close>

definition frontier_alias ::
    "('c, 'p) DeltaFunnelSession \<Rightarrow> OutputWritePlan list \<Rightarrow> RegisteredDerivedTable \<Rightarrow> bool" where
  "frontier_alias s requests d \<longleftrightarrow>
     cache_eligible s requests d \<and>
     (\<forall>e \<in> set (derived_tables s). cache_eligible s requests e \<longrightarrow>
        (rd_id e, rd_id d) \<notin> reads_alias s)"

definition cover_of ::
    "('c, 'p) DeltaFunnelSession \<Rightarrow> OutputWritePlan list \<Rightarrow> RegisteredDerivedTable \<Rightarrow> u64" where
  "cover_of s requests d =
     covering_id s
       (map (candidate_plan s requests) (filter (cache_eligible s requests) (derived_tables s)))
       (candidate_plan s requests d)"

lemma candidate_plan_id [simp]: "cap_table_id (candidate_plan s requests d) = rd_id d"
  by (simp add: alias_plan_from_registered_def)

lemma on_frontier_candidate:
  "on_frontier s (map (candidate_plan s requests) (filter (cache_eligible s requests)
     (derived_tables s))) (candidate_plan s requests d) \<longleftrightarrow>
   (\<forall>e \<in> set (derived_tables s). cache_eligible s requests e \<longrightarrow>
      (rd_id e, rd_id d) \<notin> reads_alias s)"
  by (auto simp: on_frontier_def)

lemma cover_of_correct:
  assumes "session_wf s" "d \<in> set (derived_tables s)" "cache_eligible s requests d"
    and "\<not> frontier_alias s requests d"
  obtains e where "e \<in> set (derived_tables s)" "frontier_alias s requests e"
    "rd_id e = cover_of s requests d" "(rd_id e, rd_id d) \<in> reads_alias s"
proof -
  let ?cs = "map (candidate_plan s requests) (filter (cache_eligible s requests) (derived_tables s))"
  have "candidate_plan s requests d \<in> set ?cs"
    "\<not> on_frontier s ?cs (candidate_plan s requests d)"
    using assms(2-4) by (simp_all add: on_frontier_candidate frontier_alias_def)
  then obtain b where b: "b \<in> set ?cs" "on_frontier s ?cs b"
      "(cap_table_id b, cap_table_id (candidate_plan s requests d)) \<in> reads_alias s"
      "covering_id s ?cs (candidate_plan s requests d) = cap_table_id b"
    by (rule covering_find [OF assms(1) eligible_candidates [OF assms(1)]])
  from b(1) obtain e where e: "e \<in> set (derived_tables s)" "cache_eligible s requests e"
      "b = candidate_plan s requests e"
    by auto
  show thesis
  proof (rule that [OF e(1)])
    show "frontier_alias s requests e"
      using b(2) e(2) by (simp add: e(3) on_frontier_candidate frontier_alias_def)
    show "rd_id e = cover_of s requests d"
      using b(4) by (simp add: e(3) cover_of_def)
    show "(rd_id e, rd_id d) \<in> reads_alias s"
      using b(3) by (simp add: e(3))
  qed
qed

lemma single_candidate_frontier:
  assumes "session_wf s" "filter (cache_eligible s requests) (derived_tables s) = [d]"
  shows "filter (frontier_alias s requests) (derived_tables s) = [d]"
    "frontier_alias s requests d"
proof -
  have mem: "e \<in> set (derived_tables s) \<and> cache_eligible s requests e \<longleftrightarrow> e = d" for e
    using arg_cong [OF assms(2), of set] by auto
  from mem [of d] have d: "d \<in> set (derived_tables s)" "cache_eligible s requests d"
    by simp_all
  show *: "frontier_alias s requests d"
    unfolding frontier_alias_def
  proof (intro conjI ballI impI)
    fix e assume "e \<in> set (derived_tables s)" "cache_eligible s requests e"
    with mem [of e] reads_alias_irrefl [OF assms(1) d(1)] show "(rd_id e, rd_id d) \<notin> reads_alias s"
      by simp
  qed (fact d(2))
  then have "filter (frontier_alias s requests) (filter (cache_eligible s requests) (derived_tables s))
      = [d]"
    by (simp add: assms(2))
  moreover have "filter (frontier_alias s requests) (filter (cache_eligible s requests) xs)
      = filter (frontier_alias s requests) xs" for xs
    by (auto simp: frontier_alias_def intro: filter_cong)
  ultimately show "filter (frontier_alias s requests) (derived_tables s) = [d]" by simp
qed

lemma filter_frontier:
  fixes s :: "('c, 'p) DeltaFunnelSession" and requests
  defines "cs \<equiv> map (candidate_plan s requests)
      (filter (cache_eligible s requests) (derived_tables s))"
  shows "filter (on_frontier s cs) cs =
      map (candidate_plan s requests) (filter (frontier_alias s requests) (derived_tables s))"
    and "filter (\<lambda>c. \<not> on_frontier s cs c) cs =
      map (candidate_plan s requests)
        (filter (\<lambda>d. cache_eligible s requests d \<and> \<not> frontier_alias s requests d)
           (derived_tables s))"
proof -
  have "on_frontier s cs (candidate_plan s requests d) \<longleftrightarrow> frontier_alias s requests d"
    if "cache_eligible s requests d" for d
    using that by (simp add: cs_def on_frontier_candidate frontier_alias_def)
  moreover have "frontier_alias s requests d \<Longrightarrow> cache_eligible s requests d" for d
    by (simp add: frontier_alias_def)
  ultimately have *:
    "filter (on_frontier s cs \<circ> candidate_plan s requests) (filter (cache_eligible s requests) ds)
       = filter (frontier_alias s requests) ds"
    "filter ((\<lambda>c. \<not> on_frontier s cs c) \<circ> candidate_plan s requests)
         (filter (cache_eligible s requests) ds)
       = filter (\<lambda>d. cache_eligible s requests d \<and> \<not> frontier_alias s requests d) ds" for ds
    unfolding filter_filter comp_def by (auto intro!: filter_cong)
  show "filter (on_frontier s cs) cs =
      map (candidate_plan s requests) (filter (frontier_alias s requests) (derived_tables s))"
    by (subst (2) cs_def) (simp only: filter_map *)
  show "filter (\<lambda>c. \<not> on_frontier s cs c) cs =
      map (candidate_plan s requests)
        (filter (\<lambda>d. cache_eligible s requests d \<and> \<not> frontier_alias s requests d)
           (derived_tables s))"
    by (subst (2) cs_def) (simp only: filter_map *)
qed

lemma plan_cache_eq:
  assumes "session_wf s" "2 \<le> length requests"
  shows "plan_mssql_output_cache s requests =
     \<lparr>cp_decision =
        (if filter (cache_eligible s requests) (derived_tables s) = []
         then NoCache NoSharedRegisteredDerivedAlias
         else CacheAliases (map (candidate_plan s requests)
                (filter (frontier_alias s requests) (derived_tables s)))),
      cp_skipped_candidates =
        map (\<lambda>d. skip_from_registered d (ineligible_reason s requests d))
          (filter (\<lambda>d. \<not> cache_eligible s requests d) (derived_tables s)) @
        map (\<lambda>d. skip_from_registered d (CoveredByDeeperSharedAlias (cover_of s requests d)))
          (filter (\<lambda>d. cache_eligible s requests d \<and> \<not> frontier_alias s requests d)
             (derived_tables s))\<rparr>"
proof -
  let ?el = "filter (cache_eligible s requests) (derived_tables s)"
  let ?cs = "map (candidate_plan s requests) ?el"
  let ?skipped = "map (\<lambda>d. skip_from_registered d (ineligible_reason s requests d))
    (filter (\<lambda>d. \<not> cache_eligible s requests d) (derived_tables s))"
  let ?off = "filter (\<lambda>d. cache_eligible s requests d \<and> \<not> frontier_alias s requests d)
    (derived_tables s)"
  consider (none) "?el = []" | (one) d where "?el = [d]" | (many) "1 < length ?el"
    by (cases ?el; cases "tl ?el") auto
  then show ?thesis
  proof cases
    case none
    then have "?off = []"
      by (simp add: filter_empty_conv)
    with none assms(2) show ?thesis
      by (simp add: plan_mssql_output_cache_def shared_candidates_eq)
  next
    case one
    then have "set ?el = {d}"
      by simp
    with single_candidate_frontier(2) [OF assms(1) one] have "?off = []"
      by (auto simp: filter_empty_conv)
    with one single_candidate_frontier(1) [OF assms(1) one] assms(2) show ?thesis
      by (simp add: plan_mssql_output_cache_def shared_candidates_eq)
  next
    case many
    then have "?cs \<noteq> []" by auto
    note frontier = select_frontier_eq [OF assms(1) eligible_candidates [OF assms(1)] this]
    have "List.map_filter
        (\<lambda>c. skip_by_id s (cap_table_id (cov_alias c))
               (CoveredByDeeperSharedAlias (cov_selected_table_id c)))
        (map (\<lambda>c. \<lparr>cov_alias = c, cov_selected_table_id = covering_id s ?cs c\<rparr>)
           (map (candidate_plan s requests) ds)) =
      map (\<lambda>d. skip_from_registered d (CoveredByDeeperSharedAlias (cover_of s requests d))) ds"
      if "set ds \<subseteq> set (derived_tables s)" for ds
      using that
      by (induction ds)
        (simp_all add: map_filter_simps skip_by_id_registered [OF assms(1)] cover_of_def)
    then have "List.map_filter
        (\<lambda>c. skip_by_id s (cap_table_id (cov_alias c))
               (CoveredByDeeperSharedAlias (cov_selected_table_id c)))
        (map (\<lambda>c. \<lparr>cov_alias = c, cov_selected_table_id = covering_id s ?cs c\<rparr>)
           (filter (\<lambda>c. \<not> on_frontier s ?cs c) ?cs)) =
      map (\<lambda>d. skip_from_registered d (CoveredByDeeperSharedAlias (cover_of s requests d))) ?off"
      unfolding filter_frontier(2) by simp
    with many assms(2) show ?thesis
      unfolding plan_mssql_output_cache_def shared_candidates_eq prod.case
      by (simp only: frontier filter_frontier(1)) auto
  qed
qed

lemma frontier_alias_iff:
  assumes "session_wf s" "d \<in> set (derived_tables s)"
  shows "frontier_alias s requests d \<longleftrightarrow> cache_eligible s requests d \<and>
     list_all (\<lambda>e. cache_eligible s requests e \<longrightarrow>
        rd_id e = rd_id d \<or> \<not> cache_output_uses_registered_derived s (rd_table e) d)
       (derived_tables s)"
proof -
  have "(rd_id e, rd_id d) \<in> reads_alias s \<longleftrightarrow>
      rd_id e \<noteq> rd_id d \<and> cache_output_uses_registered_derived s (rd_table e) d"
    if "e \<in> set (derived_tables s)" for e
    using uses_registered_iff [OF assms(1) that] reads_alias_irrefl [OF assms] by auto
  then show ?thesis
    by (auto simp: frontier_alias_def list_all_iff)
qed

subsection \<open>The explicit plan\<close>

text \<open>
  \<open>explicit_choice s requests aliases ids\<close>: the names of the caller are distinct up to ASCII
  case, each is an eligible alias, and \<open>ids\<close> are their ids.
\<close>

definition explicit_choice ::
    "('c, 'p) DeltaFunnelSession \<Rightarrow> OutputWritePlan list \<Rightarrow> string list \<Rightarrow> u64 set \<Rightarrow> bool" where
  "explicit_choice s requests aliases ids \<longleftrightarrow>
     aliases \<noteq> [] \<and> distinct (map to_ascii_lowercase aliases) \<and>
     (\<forall>a \<in> set aliases. \<exists>d. registered_derived_table s a = Some d \<and> cache_eligible s requests d) \<and>
     ids = (\<lambda>a. rd_id (the (registered_derived_table s a))) ` set aliases"

lemma candidate_id_iff:
  "list_ex (\<lambda>c. cap_table_id c = i) cs \<longleftrightarrow> i \<in> cap_table_id ` set cs"
  by (induction cs) auto

lemma explicit_aliases_loop_ok:
  "explicit_aliases_loop s shared aliases names ids = Inr ids' \<longleftrightarrow>
     distinct (map to_ascii_lowercase aliases) \<and> set (map to_ascii_lowercase aliases) \<inter> names = {} \<and>
     (\<forall>a \<in> set aliases. \<exists>d. registered_derived_table s a = Some d \<and>
        rd_id d \<in> cap_table_id ` set shared) \<and>
     ids' = ids \<union> (\<lambda>a. rd_id (the (registered_derived_table s a))) ` set aliases"
proof (induction aliases arbitrary: names ids)
  case (Cons a aliases)
  show ?case
    by (auto simp: Cons.IH candidate_id_iff split: option.split)
qed auto

lemma eligible_ids:
  assumes "session_wf s" "d \<in> set (derived_tables s)"
  shows "rd_id d \<in> cap_table_id ` set (fst (shared_mssql_output_cache_candidates s requests)) \<longleftrightarrow>
     cache_eligible s requests d"
proof -
  have "e = d" if "e \<in> set (derived_tables s)" "rd_id e = rd_id d" for e
    using registered_by_id_wf [OF assms(1) that(1)] registered_by_id_wf [OF assms] that(2)
    by (metis option.inject)
  moreover have "cap_table_id ` set (fst (shared_mssql_output_cache_candidates s requests)) =
      rd_id ` {e \<in> set (derived_tables s). cache_eligible s requests e}"
    by (simp add: shared_candidates_eq image_image)
  ultimately show ?thesis
    using assms(2) by (auto intro: rev_image_eqI)
qed

lemma explicit_choice_iff:
  assumes "session_wf s"
  shows "explicit_aliases_loop s (fst (shared_mssql_output_cache_candidates s requests)) aliases {} {}
      = Inr ids \<and> aliases \<noteq> [] \<longleftrightarrow> explicit_choice s requests aliases ids"
proof -
  have "rd_id d \<in> cap_table_id ` set (fst (shared_mssql_output_cache_candidates s requests)) \<longleftrightarrow>
      cache_eligible s requests d" if "registered_derived_table s a = Some d" for a d
    using eligible_ids [OF assms registered_derived_mem [OF that]] .
  then have "(\<forall>a \<in> set aliases. \<exists>d. registered_derived_table s a = Some d \<and>
        rd_id d \<in> cap_table_id ` set (fst (shared_mssql_output_cache_candidates s requests))) \<longleftrightarrow>
      (\<forall>a \<in> set aliases. \<exists>d. registered_derived_table s a = Some d \<and> cache_eligible s requests d)"
    by (simp cong: conj_cong)
  then show ?thesis
    unfolding explicit_aliases_loop_ok explicit_choice_def by simp blast
qed

lemma explicit_choice_ids:
  assumes "explicit_choice s requests aliases ids"
  shows "rd_id ` {d \<in> set (derived_tables s). cache_eligible s requests d \<and> rd_id d \<in> ids} = ids"
proof -
  have "\<exists>d \<in> set (derived_tables s). cache_eligible s requests d \<and> rd_id d = i" if "i \<in> ids" for i
    using assms that registered_derived_mem unfolding explicit_choice_def by fastforce
  then show ?thesis by auto
qed

text \<open>
  A consumer with the direct dependencies \<open>deps\<close> is replay-closed for the selection when every
  direct dependency through which it reaches a selected alias is itself selected: planning its
  SQL again then sees the cached provider and not the plan of an intermediate alias.
\<close>

definition replay_closed ::
    "('c, 'p) DeltaFunnelSession \<Rightarrow> u64 set \<Rightarrow> DerivedTableDependency list \<Rightarrow> bool" where
  "replay_closed s selected deps \<longleftrightarrow>
     (\<forall>j \<in> derived_roots deps. \<forall>k \<in> selected. j = k \<or> (j, k) \<in> reads_alias s \<longrightarrow> j \<in> selected)"

lemma replay_closed_simps:
  "replay_closed s selected []"
  "replay_closed s selected (RegisteredSource i n # deps) \<longleftrightarrow> replay_closed s selected deps"
  "replay_closed s selected (RegisteredDerived i n # deps) \<longleftrightarrow>
     (i \<in> selected \<or> (reads_alias s `` {i}) \<inter> selected = {}) \<and> replay_closed s selected deps"
  by (auto simp: replay_closed_def)

lemma replay_root_loop_ok:
  assumes "session_wf s" "derived_roots deps \<subseteq> registered_ids s"
  shows "replay_root_loop s kind name selected deps = Inr () \<longleftrightarrow> replay_closed s selected deps"
  using assms(2)
proof (induction deps)
  case (Cons x deps)
  show ?case
  proof (cases x)
    case (RegisteredSource i n)
    with Cons show ?thesis
      by (simp add: replay_closed_simps)
  next
    case (RegisteredDerived i n)
    show ?thesis
    proof (cases "i \<in> selected")
      case True
      with Cons RegisteredDerived show ?thesis
        by (simp add: replay_closed_simps)
    next
      case False
      have "i \<in> registered_ids s"
        using Cons.prems RegisteredDerived by simp
      then obtain e where e: "e \<in> set (derived_tables s)" "rd_id e = i"
          "registered_derived_table_by_id s i = Some e"
        by (rule registered_idE [OF assms(1)])
      obtain reads where reads:
          "transitive_registered_derived_dependencies s (rd_table e) = Inr reads"
          "derived_roots reads = reads_alias s `` {i}"
        using transitive_dependencies_wf [OF assms(1) reads_of_registered(2) [OF assms(1) e(1)]]
          reads_of_registered(1) [OF assms(1) e(1)] e(2) by metis
      have "find (\<lambda>d. is_registered_derived d \<and> dep_table_id d \<in> selected) reads = None \<longleftrightarrow>
          derived_roots reads \<inter> selected = {}"
        by (auto simp: find_None_iff derived_roots_def)
      with Cons RegisteredDerived False e reads show ?thesis
        by (auto simp: replay_closed_simps ok_or_def split: option.splits)
    qed
  qed
qed (simp add: replay_closed_simps)

lemma check_all_ok: "check_all f xs = Inr () \<longleftrightarrow> (\<forall>x \<in> set xs. f x = Inr ())"
  by (induction xs) (auto simp: res_simps)

definition consumer_closed ::
    "('c, 'p) DeltaFunnelSession \<Rightarrow> u64 set \<Rightarrow> LazyTable \<Rightarrow> bool" where
  "consumer_closed s selected t \<longleftrightarrow>
     (case lineage_for_derived_table s t of
        Inl _ \<Rightarrow> False | Inr l \<Rightarrow> replay_closed s selected (direct_dependencies l))"

lemma replay_root_ok:
  assumes "session_wf s"
  shows "validate_explicit_cache_replay_root s t kind name selected = Inr () \<longleftrightarrow>
     consumer_closed s selected t"
proof (cases "lineage_for_derived_table s t")
  case (Inr l)
  have "derived_roots (direct_dependencies l) \<subseteq> registered_ids s"
    using lineage_wf_roots [OF lineage_for_wf [OF assms Inr]] before_ids_registered by blast
  from replay_root_loop_ok [OF assms this] Inr show ?thesis
    by (simp add: validate_explicit_cache_replay_root_def consumer_closed_def)
qed (simp add: validate_explicit_cache_replay_root_def consumer_closed_def)

text \<open>The selection as a whole: every selected alias and every other derived output is closed.\<close>

definition selection_closed ::
    "('c, 'p) DeltaFunnelSession \<Rightarrow> OutputWritePlan list \<Rightarrow> u64 set \<Rightarrow> bool" where
  "selection_closed s requests selected \<longleftrightarrow>
     (\<forall>d \<in> set (derived_tables s). rd_id d \<in> selected \<longrightarrow> consumer_closed s selected (rd_table d)) \<and>
     (\<forall>r \<in> set requests. lt_kind (owp_table r) = DerivedSql \<and> lt_id (owp_table r) \<notin> selected \<longrightarrow>
        consumer_closed s selected (owp_table r))"

lemma replay_closure_ok:
  assumes "session_wf s"
  shows "validate_explicit_cache_replay_closure s requests selected = Inr () \<longleftrightarrow>
     selection_closed s requests selected"
  by (auto simp: validate_explicit_cache_replay_closure_def selection_closed_def res_bind_eq_Inr
      check_all_ok replay_root_ok [OF assms])

lemma plan_explicit_ok:
  assumes "session_wf s"
  shows "plan_mssql_output_cache_explicit s requests aliases = Inr plan \<longleftrightarrow>
     (\<exists>ids. explicit_choice s requests aliases ids \<and> selection_closed s requests ids \<and>
        plan = \<lparr>cp_decision = CacheAliases (map (candidate_plan s requests)
                  (filter (\<lambda>d. cache_eligible s requests d \<and> rd_id d \<in> ids) (derived_tables s))),
                cp_skipped_candidates =
                  map (\<lambda>d. skip_from_registered d (ineligible_reason s requests d))
                    (filter (\<lambda>d. \<not> cache_eligible s requests d) (derived_tables s)) @
                  map (\<lambda>d. skip_from_registered d NotExplicitlySelected)
                    (filter (\<lambda>d. cache_eligible s requests d \<and> rd_id d \<notin> ids)
                       (derived_tables s))\<rparr>)"
proof -
  have skips: "List.map_filter (\<lambda>c. skip_by_id s (cap_table_id c) reason)
      (map (candidate_plan s requests) ds) = map (\<lambda>d. skip_from_registered d reason) ds"
    if "set ds \<subseteq> set (derived_tables s)" for ds reason
    using that
    by (induction ds) (simp_all add: map_filter_simps skip_by_id_registered [OF assms])
  let ?shared = "fst (shared_mssql_output_cache_candidates s requests)"
  have "plan_mssql_output_cache_explicit s requests aliases = Inr plan \<longleftrightarrow>
      (\<exists>ids. (explicit_aliases_loop s ?shared aliases {} {} = Inr ids \<and> aliases \<noteq> []) \<and>
         validate_explicit_cache_replay_closure s requests ids = Inr () \<and>
         plan = \<lparr>cp_decision = CacheAliases (filter (\<lambda>c. cap_table_id c \<in> ids) ?shared),
           cp_skipped_candidates = snd (shared_mssql_output_cache_candidates s requests) @
             List.map_filter (\<lambda>c. skip_by_id s (cap_table_id c) NotExplicitlySelected)
               (filter (\<lambda>c. cap_table_id c \<notin> ids) ?shared)\<rparr>)"
    by (auto simp: plan_mssql_output_cache_explicit_def res_bind_eq_Inr split: prod.splits)
  then show ?thesis
    unfolding explicit_choice_iff [OF assms] replay_closure_ok [OF assms]
    by (simp add: shared_candidates_eq filter_map comp_def skips)
qed

text \<open>Registration order is dependency order.\<close>

lemma registration_order:
  assumes "session_wf s"
  shows "sorted_wrt (\<lambda>a b. (rd_id a, rd_id b) \<notin> reads_alias s) (derived_tables s)"
proof (unfold sorted_wrt_iff_nth_less, intro allI impI notI)
  fix i j assume ij: "i < j" "j < length (derived_tables s)"
    and "(rd_id (derived_tables s ! i), rd_id (derived_tables s ! j)) \<in> reads_alias s"
  then have "rd_id (derived_tables s ! j) \<in> before_ids s i"
    using reads_alias_earlier [OF assms] by simp
  with ij id_not_before_itself [OF assms, of j] before_ids_mono [of i j s] show False
    by auto
qed

end
