(* ===== verification/DF_Session_Steps.thy ===== *)
theory DF_Session_Steps
  imports DF_Sources DF_Cache_Plan
begin

section \<open>The session as a state machine\<close>

text \<open>
  A session starts empty and changes only by the public operations that build its registry:
  a table from SQL, an alias, a Delta source with or without progress. \<open>session_step\<close> is one
  such call, whatever it returns; \<open>session_reachable\<close> are the states a program can bring a
  session to. The id counter saturates at the largest \<open>u64\<close>; below it every reachable session
  is well formed.
\<close>

inductive session_step ::
    "('c, 'd, 'p, 'q) datafusion \<Rightarrow> ('n, 't, 'c, 'k) source_env
       \<Rightarrow> ('c, 'p) session_world \<Rightarrow> ('c, 'p) session_world \<Rightarrow> bool"
  for df env where
  sql: "table_from_sql df text w = (r, w') \<Longrightarrow> session_step df env w w'"
| named: "register_alias df name t (w_session w) = (r, s) \<Longrightarrow>
     session_step df env w (w\<lparr>w_conn := s\<rparr>)"
| source: "delta_lake env config w = (r, w') \<Longrightarrow> session_step df env w w'"
| source_progress: "delta_lake_with_progress env config reporter w = (r, w') \<Longrightarrow>
     session_step df env w w'"

inductive session_reachable ::
    "('c, 'd, 'p, 'q) datafusion \<Rightarrow> ('n, 't, 'c, 'k) source_env \<Rightarrow> ('g, 'c) datafusion_config
       \<Rightarrow> ('c, 'p) session_world \<Rightarrow> bool"
  for df env cfg where
  new: "DeltaFunnelSession_new cfg opts = Inr s \<Longrightarrow> w_session w = s \<Longrightarrow>
     session_reachable df env cfg w"
| step: "session_reachable df env cfg w \<Longrightarrow> session_step df env w w' \<Longrightarrow>
     session_reachable df env cfg w'"

lemma session_new_wf:
  "DeltaFunnelSession_new cfg opts = Inr s \<Longrightarrow> session_wf s \<and> next_table_id s = 0"
  by (auto simp: DeltaFunnelSession_new_def res_simps session_wf_def session_ids_def
      alias_names_def handles_wf_def)

lemma saturating_add_MAX: "saturating_add u64_MAX 1 = u64_MAX"
  by (simp add: saturating_add_def)

definition registry_ok :: "('c, 'p) DeltaFunnelSession \<Rightarrow> bool" where
  "registry_ok s \<longleftrightarrow> (next_table_id s \<noteq> u64_MAX \<longrightarrow> session_wf s)"

lemma registry_ok_sql:
  assumes "registry_ok (w_session w)" "table_from_sql df sql w = (r, w')"
  shows "registry_ok (w_session w')"
proof (cases "next_table_id (w_session w) = u64_MAX")
  case True
  from assms(2) have "next_table_id (w_session w') = u64_MAX"
    by (cases rule: table_from_sql_cases)
      (simp_all add: True push_pending_def saturating_add_MAX)
  then show ?thesis by (simp add: registry_ok_def)
next
  case False
  with assms table_from_sql_wf show ?thesis
    by (auto simp: registry_ok_def)
qed

lemma registry_ok_alias:
  assumes "registry_ok s" "register_alias df name t s = (r, s')"
  shows "registry_ok s'"
proof -
  have "next_table_id s' = next_table_id s"
    using assms(2) by (cases rule: register_alias_cases) simp_all
  with assms register_alias_wf show ?thesis
    by (auto simp: registry_ok_def)
qed

lemma registry_ok_source:
  assumes "registry_ok (w_session w)"
    and "validate_delta_source_registration env config (w_session w) = Inr ()"
    and "register_delta_source env config reporter w = (r, w')"
  shows "registry_ok (w_session w')"
proof (cases "next_table_id (w_session w) = u64_MAX")
  case True
  from assms(3) have "next_table_id (w_session w') = u64_MAX"
    by (cases rule: register_delta_source_cases)
      (simp_all add: True add_source_def allocate_delta_source_table_def saturating_add_MAX)
  then show ?thesis by (simp add: registry_ok_def)
next
  case False
  with assms register_delta_source_wf show ?thesis
    by (auto simp: registry_ok_def)
qed

text \<open>Both public registrations validate first, and then run the same registration.\<close>

lemma delta_lake_run:
  assumes "delta_lake env config w = (r, w')"
  shows "w_session w' = w_session w \<or>
     validate_delta_source_registration env config (w_session w) = Inr () \<and>
     register_delta_source env config None w = (r, w')"
  using assms by (auto simp: delta_lake_def io_bind_def split: sum.splits)

lemma delta_lake_with_progress_run:
  assumes "delta_lake_with_progress env config reporter w = (r, w')"
  obtains (rejected) "w' = w"
  | (run) w1 where "validate_delta_source_registration env config (w_session w) = Inr ()"
      "register_delta_source env config (Some reporter)
         (w_emit (Some reporter) (ProgressEvent.Started RegisterDeltaSource) w) = (r, w1)"
      "w_session w' = w_session w1"
  using assms
  by (auto simp: delta_lake_with_progress_def io_bind_def split: sum.splits prod.splits)

lemma session_step_ok:
  assumes "session_step df env w w'" "registry_ok (w_session w)"
  shows "registry_ok (w_session w')"
  using assms(1)
proof (cases rule: session_step.cases)
  case (sql sql r)
  then show ?thesis using registry_ok_sql [OF assms(2)] by blast
next
  case (named name t r s)
  then show ?thesis using registry_ok_alias [OF assms(2)] by simp
next
  case (source config r)
  then show ?thesis
    using delta_lake_run [of env config w r w'] registry_ok_source [OF assms(2)] assms(2) by metis
next
  case (source_progress config reporter r)
  then show ?thesis
  proof (cases rule: delta_lake_with_progress_run)
    case rejected
    with assms(2) show ?thesis by simp
  next
    case (run w1)
    have "registry_ok (w_session w1)"
      using run assms(2) by (intro registry_ok_source [OF _ _ run(2)]) simp_all
    with run(3) show ?thesis by simp
  qed
qed

lemma reachable_ok: "session_reachable df env cfg w \<Longrightarrow> registry_ok (w_session w)"
proof (induction rule: session_reachable.induct)
  case (new opts s w)
  then show ?case using session_new_wf by (auto simp: registry_ok_def)
next
  case (step w w')
  then show ?case using session_step_ok by blast
qed

end
