(* ===== verification/DF_Liveness.thy ===== *)
theory DF_Liveness
  imports DF_Sink_Protocol
begin

section \<open>A cooperative server\<close>

text \<open>
  The request protocol says what a run that succeeds has done. This theory shows when a run
  does succeed: on a server that accepts every request, reports the tables the load mode
  expects and the row count of the loaded batches, the run of a planned output over a stream
  of valid batches returns a report.
\<close>

definition returns :: "('s, 'e, 'a) io \<Rightarrow> 'a \<Rightarrow> bool" where
  "returns m a \<longleftrightarrow> (\<forall>s. fst (m s) = Inr a)"

lemma returnsE:
  assumes "returns m a"
  obtains s' where "m s = (Inr a, s')"
  using assms unfolding returns_def by (metis prod.collapse)

lemma returns_lift: "r = Inr a \<Longrightarrow> returns (io_lift r) a"
  by (simp add: returns_def)

lemma returns_map_err: "returns m a \<Longrightarrow> returns (io_map_err g m) a"
  by (auto simp: returns_def io_map_err_def res_simps split: prod.splits) (metis fst_conv map_err_simps(2))

lemma returns_bind:
  assumes "returns m a" and "returns (f a) b"
  shows "returns (io_bind m f) b"
  unfolding returns_def
proof
  fix s
  obtain s' where "m s = (Inr a, s')"
    using assms(1) by (rule returnsE)
  with assms(2) show "fst (io_bind m f s) = Inr b"
    by (simp add: io_bind_def returns_def)
qed

lemma returns_send: "returns act a \<Longrightarrow> returns (send req act) a"
  by (auto simp: returns_def send_def split: prod.splits) (metis fst_conv)

lemma returns_on_conn:
  assumes "returns m a"
  obtains w' where "on_conn m w = (Inr a, w')"
  using assms by (auto simp: on_conn_def elim: returnsE [of m a "w_conn w"])

text \<open>Running a computation whose first step is known to return.\<close>

lemma io_bind_run:
  "io_bind m f s =
     (case fst (m s) of Inl e \<Rightarrow> (Inl e, snd (m s)) | Inr a \<Rightarrow> f a (snd (m s)))"
  by (cases "m s") (auto simp: io_bind_def split: sum.splits)

lemma io_map_err_run:
  "fst (io_map_err g m s) = map_err g (fst (m s))" "snd (io_map_err g m s) = snd (m s)"
  by (simp_all add: io_map_err_def split: prod.splits)

lemmas run_simps = io_bind_run io_map_err_run

definition answers :: "'s sql_server \<Rightarrow> bool \<Rightarrow> u64 \<Rightarrow> bool" where
  "answers srv exists rows \<longleftrightarrow>
     (\<forall>ado. returns (srv_connect srv ado) ()) \<and>
     (\<forall>t. returns (srv_table_exists srv t) exists) \<and>
     (\<forall>sql. returns (srv_execute_statement srv sql) ()) \<and>
     (\<forall>t on. returns (srv_set_bulk_load_table_lock srv t on) ()) \<and>
     (\<forall>t. returns (srv_target_row_count srv t) rows) \<and>
     (\<forall>t ps b. returns (srv_bulk_writer srv t ps b) ()) \<and>
     (\<forall>b. returns (srv_write_batch srv b) ()) \<and>
     returns (srv_finish srv) ()"

lemma answers_client:
  assumes "answers srv exists rows"
  shows "returns (client_connect srv ado) ()"
    and "returns (client_table_exists srv t) exists"
    and "returns (client_execute_statement srv sql) ()"
    and "returns (client_set_bulk_load_table_lock srv t on) ()"
    and "returns (client_target_row_count srv t) rows"
    and "returns (client_bulk_writer srv t ps b) ()"
    and "returns (client_write_batch srv batch) ()"
    and "returns (client_finish srv) ()"
  using assms
  by (simp_all add: answers_def client_connect_def client_table_exists_def
      client_execute_statement_def client_set_bulk_load_table_lock_def client_target_row_count_def
      client_bulk_writer_def client_write_batch_def client_finish_def returns_send)

lemmas answers_run = answers_client [unfolded returns_def, rule_format]

text \<open>The names the run derives from the target are accepted.\<close>

definition names_accepted :: "arrow_api \<Rightarrow> MssqlTargetOutputPlan \<Rightarrow> bool" where
  "names_accepted api p \<longleftrightarrow>
     is_ok (table_name_from_target api (pl_output_name p) (pl_target_table p)) \<and>
     is_ok (replace_staging_table_name api p 0) \<and> is_ok (replace_backup_table_name api p 0)"

lemma returns_first_available:
  assumes "answers srv False rows" and "name k = Inr t"
  shows "returns (first_available (connected_lifecycle_client srv) name pe ex (k # ks)) t"
  unfolding returns_def
  by (simp add: run_simps answers_run [OF assms(1)] connected_lifecycle_client_def assms(2))

lemma upt_100: "[0..<100] = 0 # [1..<100]"
  by (simp add: upt_rec)

text \<open>
  A run is cooperative when the plan is one the planner made, its names are accepted, and the
  server answers as above, knowing tables exactly when the load appends.
\<close>

definition cooperative ::
    "arrow_api \<Rightarrow> MssqlTargetOutputPlan \<Rightarrow> 's sql_server \<Rightarrow> u64 \<Rightarrow> bool" where
  "cooperative api p srv rows \<longleftrightarrow>
     plan_wf api p \<and> names_accepted api p \<and> answers srv (pl_load_mode p = AppendExisting) rows"

lemma cooperative_names:
  assumes "cooperative api p srv rows"
  obtains final staging backup where
    "table_name_from_target api (pl_output_name p) (pl_target_table p) = Inr final"
    "replace_staging_table_name api p 0 = Inr staging"
    "replace_backup_table_name api p 0 = Inr backup"
  using assms that
  by (auto simp: cooperative_def names_accepted_def is_ok_def split: sum.splits)

lemma cooperative_prepare:
  assumes coop: "cooperative api p srv rows"
  obtains n where "returns (prepare_mssql_target_lifecycle api p (connected_lifecycle_client srv))
    (prepared_value p n)"
proof -
  from coop have wf: "plan_wf api p"
    and srv: "answers srv (pl_load_mode p = AppendExisting) rows"
    by (simp_all add: cooperative_def)
  obtain n m where n: "table_name_from_target api (pl_output_name p) (pl_target_table p) = Inr n"
    and m: "replace_staging_table_name api p 0 = Inr m"
    using coop by (rule cooperative_names)
  note step = run_simps answers_run [OF srv] connected_lifecycle_client_def
    ensure_lifecycle_guardrail_def plan_wf_guardrails [OF wf] n returns_def
    prepared_from_plan_def prepared_from_table_name_value prepare_mssql_target_lifecycle_def
  show thesis
  proof (cases "pl_load_mode p")
    case AppendExisting
    then show ?thesis
      by (intro that [of n])
         (simp add: step prepare_mssql_append_existing_target_def ensure_append_existing_output_def)
  next
    case CreateAndLoad
    with wf obtain sql where "pl_create_table_sql p = Some sql"
      by (auto simp: plan_wf_def Let_def)
    with CreateAndLoad show ?thesis
      by (intro that [of n])
         (simp add: step prepare_mssql_create_and_load_target_def ensure_create_and_load_output_def)
  next
    case Replace
    with srv have "answers srv False rows"
      by simp
    note returns_first_available [where name = "replace_staging_table_name api p" and k = 0,
        OF this m, unfolded returns_def, rule_format]
    with Replace show ?thesis
      by (intro that [of m])
         (simp add: step prepare_mssql_replace_target_def ensure_replace_output_def
           available_replace_staging_table_def upt_100 del: first_available.simps)
  qed
qed

lemma cooperative_swap:
  assumes coop: "cooperative api p srv rows" and mode: "pl_load_mode p = Replace"
  shows "returns (swap_mssql_replace_target api p (prepared_value p n)
           (connected_lifecycle_client srv)) ()"
proof -
  from coop mode have srv: "answers srv False rows"
    by (simp add: cooperative_def)
  obtain f b where f: "table_name_from_target api (pl_output_name p) (pl_target_table p) = Inr f"
    and b: "replace_backup_table_name api p 0 = Inr b"
    using coop by (rule cooperative_names)
  note backup = returns_first_available [where name = "replace_backup_table_name api p" and k = 0,
      OF srv b, unfolded returns_def, rule_format]
  have "prepared_target_matches_output_plan p (prepared_value p n)"
    by (simp add: prepared_target_matches_output_plan_def prepared_value_def)
  moreover have "ptr_action (pt_report (prepared_value p n)) = CreatedStagingTable"
    using mode by (simp add: prepared_value_def)
  ultimately show ?thesis
    using mode
    by (simp add: returns_def run_simps answers_run [OF srv] connected_lifecycle_client_def f backup
        [unfolded connected_lifecycle_client_def] swap_mssql_replace_target_def
        ensure_replace_output_def available_replace_backup_table_def upt_100
        del: first_available.simps)
qed

lemma cooperative_open:
  assumes coop: "cooperative api p srv rows"
  shows "returns (initialize_mssql_bulk_writer srv p (prepared_value p n) backend)
           (connected_bulk_writer srv)"
proof -
  from coop have wf: "plan_wf api p"
    and srv: "answers srv (pl_load_mode p = AppendExisting) rows"
    by (simp_all add: cooperative_def)
  have "prepared_target_matches_output_plan p (prepared_value p n)"
    by (simp add: prepared_target_matches_output_plan_def prepared_value_def)
  with plan_wf_guardrails(2) [OF wf] show ?thesis
    by (simp add: returns_def run_simps answers_run [OF srv] initialize_mssql_bulk_writer_def
        initialization_request_def writer_ensure_prepared_target_def)
qed

lemma write_loop_returns:
  assumes "list_all (valid_batch api p) bs"
    and "\<And>b. returns (bw_write_batch writer b) ()"
  shows "\<exists>st' w'. write_loop api writer p reporter started st (map Inr bs) w = (Inr st', w')"
  using assms(1)
proof (induction bs arbitrary: st w)
  case (Cons b bs)
  then obtain u where valid: "api_validate_record_batch_schema api b (pl_schema_mappings p) = Inr u"
    by (auto simp: valid_batch_def is_ok_def split: sum.splits)
  obtain s where wrote: "bw_write_batch writer b (w_conn w) = (Inr (), s)"
    using assms(2) by (rule returnsE)
  obtain f g w2 where "write_loop api writer p reporter started st (Inr b # map Inr bs) w =
      write_loop api writer p reporter started
         (accept b (with_timings f (with_timings g (consume b (with_timings
           (add_poll_batch_stream (reading (tick w) - reading w)) st))))) (map Inr bs) w2"
    by (rule write_loop_accepted [OF valid wrote])
  with Cons show ?case
    unfolding list.map by simp
qed simp

lemma write_returns:
  assumes "list_all (valid_batch api p) bs" and "answers srv x rows"
  shows "\<exists>rep w'. write_mssql_batches_with_writer api (connected_bulk_writer srv) p (map Inr bs)
           reporter w = (Inr rep, w')"
proof -
  have writer: "returns (bw_write_batch (connected_bulk_writer srv) b) ()"
    "returns (bw_finish (connected_bulk_writer srv)) ()" for b
    using answers_client [OF assms(2)] by (simp_all add: connected_bulk_writer_def)
  obtain st w1 where loop: "write_loop api (connected_bulk_writer srv) p reporter (reading w)
      loop_init (map Inr bs) (tick w) = (Inr st, w1)"
    using write_loop_returns [OF assms(1), of "connected_bulk_writer srv"] writer(1) by blast
  obtain w2 where "on_conn (bw_finish (connected_bulk_writer srv)) (tick w1) = (Inr (), w2)"
    using writer(2) by (rule returns_on_conn)
  with loop show ?thesis
    by (simp add: write_mssql_batches_with_writer_def Let_def)
qed

text \<open>
  The validation the run has to pass: it may be disabled unless the target is replaced, and
  with it enabled a server that counts the loaded rows passes an output that is not appended.
\<close>

definition validation_passes :: "ValidationOptions \<Rightarrow> MssqlTargetOutputPlan \<Rightarrow> bool" where
  "validation_passes options p \<longleftrightarrow>
     (if target_validation_mode options = TargetValidationMode.Disabled
      then pl_load_mode p \<noteq> Replace else pl_load_mode p \<noteq> AppendExisting)"

lemma cooperative_finish:
  assumes coop: "cooperative api p srv rows" and opts: "validation_passes options p"
    and rep: "wr_output_row_count rep = RowCount.Exact rows"
  shows "\<exists>rep' w'. finish_written_output (connected_output_client api srv p) p (prepared_value p n)
    options prior lock reporter rep w = (Inr rep', w')"
proof -
  let ?conn = "connected_output_client api srv p" and ?t = "prepared_value p n"
  from coop have srv: "answers srv (pl_load_mode p = AppendExisting) rows"
    by (simp add: cooperative_def)
  have count: "returns (sc_target_row_count ?conn p ?t) rows"
    "returns (sc_disable_bulk_load_table_lock ?conn p ?t) ()"
    by (simp_all add: connected_output_client_def connected_target_row_count_def
        disable_bulk_load_table_lock_def returns_map_err answers_client [OF srv])
  have swap: "returns (sc_swap_prepared_replace_target ?conn p ?t) ()" if "pl_load_mode p = Replace"
    using cooperative_swap [OF coop that] by (simp add: connected_output_client_def)
  have val: "\<exists>rep' w'. validate_written_target ?conn p ?t rep options prior w = (Inr rep', w') \<and>
      (pl_load_mode p = Replace \<longrightarrow> wr_validation_status rep' = ValidationStatus.Passed)" for w
  proof -
    obtain w1 where "on_conn (sc_target_row_count ?conn p ?t) (tick w) = (Inr rows, w1)"
      using count(1) by (rule returns_on_conn)
    with opts rep show ?thesis
      by (cases "target_validation_mode options"; cases "pl_load_mode p")
         (simp_all add: validate_written_target_def validation_passes_def Let_def report_simps)
  qed
  have swapped: "\<exists>rep'' w'. swap_replace_target_after_validation ?conn p ?t rep' lock w = (Inr rep'', w')"
    if "pl_load_mode p = Replace \<longrightarrow> wr_validation_status rep' = ValidationStatus.Passed" for rep' w
  proof (cases "pl_load_mode p = Replace")
    case True
    obtain w1 where "(if lock then on_conn (sc_disable_bulk_load_table_lock ?conn p ?t) (tick w)
        else (Inr (), tick w)) = (Inr (), w1)"
      by (cases lock) (auto intro: returns_on_conn [OF count(2), of "tick w"])
    moreover obtain w2 where "on_conn (sc_swap_prepared_replace_target ?conn p ?t) w1 = (Inr (), w2)"
      using swap [OF True] by (rule returns_on_conn)
    ultimately show ?thesis
      using True that by (simp add: swap_replace_target_after_validation_def Let_def)
  qed (simp add: swap_replace_target_after_validation_def)
  obtain rep' w1 where "validate_written_target ?conn p ?t rep options prior
      (if validates options p then emit_progress_phase reporter Validating (pl_output_name p) w
       else w) = (Inr rep', w1)"
    and passed: "pl_load_mode p = Replace \<longrightarrow> wr_validation_status rep' = ValidationStatus.Passed"
    using val by blast
  moreover obtain rep'' w2 where "swap_replace_target_after_validation ?conn p ?t rep' lock
      (if pl_load_mode p = Replace
       then emit_progress_phase reporter SwappingTarget (pl_output_name p) w1 else w1) =
      (Inr rep'', w2)"
    using swapped [OF passed] by blast
  ultimately show ?thesis
    by (simp add: finish_written_output_def Let_def)
qed

lemma cooperative_output:
  assumes coop: "cooperative api p srv (sum_rows 0 bs)" and opts: "validation_passes options p"
    and valid: "list_all (valid_batch api p) bs"
  shows "\<exists>rep w'. write_prepared_output api (connected_output_client api srv p) p
    (prepared_value p n) (map Inr bs) backend options timings lock reporter w = (Inr rep, w')"
proof -
  let ?conn = "connected_output_client api srv p" and ?t = "prepared_value p n"
  from coop have srv: "answers srv (pl_load_mode p = AppendExisting) (sum_rows 0 bs)"
    by (simp add: cooperative_def)
  have before: "target_row_count_before_append_write ?conn p ?t options w = (Inr NotRequired, w)"
    using opts by (auto simp: target_row_count_before_append_write_def validation_passes_def
        split: if_splits)
  define w0 where "w0 = emit_progress_phase reporter Writing (pl_output_name p) w"
  have "returns (sc_initialize_writer ?conn p ?t backend) (connected_bulk_writer srv)"
    using cooperative_open [OF coop] by (simp add: connected_output_client_def)
  then obtain w1 where opened:
    "on_conn (sc_initialize_writer ?conn p ?t backend) (tick w0) = (Inr (connected_bulk_writer srv), w1)"
    by (rule returns_on_conn)
  obtain rep w2 where "write_mssql_batches_with_writer api (connected_bulk_writer srv) p (map Inr bs)
      reporter (tick w1) = (Inr rep, w2)"
    using write_returns [OF valid srv] by blast
  with opened obtain rep where load: "write_prepared_batches api ?conn p ?t (map Inr bs) backend
      reporter w0 = (Inr rep, w2)"
    by (simp add: write_prepared_batches_def Let_def)
  from production.write_step [OF load] have "wr_output_row_count rep = RowCount.Exact (sum_rows 0 bs)"
    by (auto simp: load_post_def written_report_def dest: map_injective)
  with cooperative_finish [OF coop opts] before load show ?thesis
    by (simp add: write_prepared_output_def w0_def Let_def report_simps)
qed

lemma cooperative_run:
  assumes coop: "cooperative api (cr_output_plan request) srv (sum_rows 0 bs)"
    and opts: "validation_passes options (cr_output_plan request)"
    and valid: "list_all (valid_batch api (cr_output_plan request)) bs"
  shows "\<exists>rep w'. run_mssql_output_connection_request api srv request (map Inr bs) backend options
    reporter w = (Inr rep, w')"
proof -
  let ?p = "cr_output_plan request"
  let ?conn = "connected_output_client api srv ?p"
  from coop have srv: "answers srv (pl_load_mode ?p = AppendExisting) (sum_rows 0 bs)"
    by (simp add: cooperative_def)
  obtain w1 where "on_conn (client_connect srv (cc_connection_string (cr_connection request)))
      (tick w) = (Inr (), w1)"
    using answers_client(1) [OF srv] by (rule returns_on_conn)
  then obtain ts where connect: "connect_mssql_output_client srv request w = (Inr ts, tick w1)"
    by (simp add: connect_mssql_output_client_def Let_def)
  define w2 where "w2 = tick (emit_progress_phase reporter PreparingTarget (pl_output_name ?p) (tick w1))"
  obtain n where "returns (prepare_mssql_target_lifecycle api ?p (connected_lifecycle_client srv))
      (prepared_value ?p n)"
    using coop by (rule cooperative_prepare)
  then have "returns (sc_prepare_target_lifecycle ?conn ?p) (prepared_value ?p n)"
    by (simp add: connected_output_client_def)
  then obtain w3 where prepare:
    "on_conn (sc_prepare_target_lifecycle ?conn ?p) w2 = (Inr (prepared_value ?p n), w3)"
    by (rule returns_on_conn)
  have "returns (sc_enable_bulk_load_table_lock ?conn ?p (prepared_value ?p n)) True"
    by (auto simp: returns_def connected_output_client_def enable_bulk_load_table_lock_def
        split: prod.splits sum.splits dest: arg_cong [of _ _ fst] simp: answers_run [OF srv])
  then obtain w5 where "on_conn (sc_enable_bulk_load_table_lock ?conn ?p (prepared_value ?p n)) w3 =
      (Inr True, w5)"
    by (rule returns_on_conn)
  then obtain lock w4 where "(if pl_load_mode ?p = Replace
      then on_conn (sc_enable_bulk_load_table_lock ?conn ?p (prepared_value ?p n)) w3
      else (Inr False, w3)) = (Inr lock, w4)"
    by (cases "pl_load_mode ?p = Replace") auto
  with connect prepare cooperative_output [OF coop opts valid] show ?thesis
    by (simp add: run_mssql_output_connection_request_def run_mssql_output_batches_on_connection_def
        w2_def Let_def)
qed

end
