(* ===== verification/DF_Example.thy ===== *)
theory DF_Example
  imports DF_Liveness DF_Workflow
begin

section \<open>A concrete server\<close>

text \<open>
  Instances of the two parameters of the execution model, for the examples that show the
  hypotheses of the theorems can hold: an \<open>arrow_api\<close> that accepts every name, schema and
  batch, and a server that accepts every request, knows either every table or none, and reports
  a fixed row count.
\<close>

definition demo_quoted :: "TableName \<Rightarrow> string" where
  "demo_quoted n =
     (case tn_schema n of Some s \<Rightarrow> ''['' @ s @ ''].'' | None \<Rightarrow> []) @ ''['' @ tn_table n @ '']''"

definition demo_mapping :: "Field \<Rightarrow> SchemaMapping" where
  "demo_mapping f =
     \<lparr>sm_arrow = \<lparr>af_index = 0, af_name = fd_name f, af_data_type = ''Int64'',
        af_nullable = fd_nullable f\<rparr>\<rparr>"

definition demo_api :: arrow_api where
  "demo_api =
     \<lparr>api_TableName_new = (\<lambda>s t. Inr \<lparr>tn_schema = Some s, tn_table = t\<rparr>),
      api_TableName_unqualified = (\<lambda>t. Inr \<lparr>tn_schema = None, tn_table = t\<rparr>),
      api_quoted_sql = demo_quoted,
      api_create_table_sql_from_mappings = (\<lambda>n ms. ''CREATE TABLE '' @ demo_quoted n),
      api_plan_arrow_schema =
        (\<lambda>schema options. Inr (\<lparr>pls_mappings = map demo_mapping (sch_fields schema),
                               pls_options = options\<rparr>, [])),
      api_validate_record_batch_schema = (\<lambda>b ms. Inr ()),
      api_validate_arrow_schema = (\<lambda>s ms. Inr ())\<rparr>"

definition demo_server :: "bool \<Rightarrow> u64 \<Rightarrow> unit sql_server" where
  "demo_server known rows =
     \<lparr>srv_connect = (\<lambda>_ s. (Inr (), s)),
      srv_table_exists = (\<lambda>_ s. (Inr known, s)),
      srv_execute_statement = (\<lambda>_ s. (Inr (), s)),
      srv_set_bulk_load_table_lock = (\<lambda>_ _ s. (Inr (), s)),
      srv_target_row_count = (\<lambda>_ s. (Inr rows, s)),
      srv_bulk_writer = (\<lambda>_ _ _ s. (Inr (), s)),
      srv_write_batch = (\<lambda>_ s. (Inr (), s)),
      srv_finish = (\<lambda>s. (Inr (), s))\<rparr>"

lemma demo_answers: "answers (demo_server known rows) known rows"
  by (simp add: answers_def returns_def demo_server_def)

lemma demo_naming: "naming_contract demo_api"
  by (simp add: naming_contract_def demo_api_def)

definition demo_schema :: Schema where
  "demo_schema = \<lparr>sch_fields = [Field ''id'' Int64 False False fmempty], sch_metadata = fmempty\<rparr>"

definition demo_target :: "LoadMode \<Rightarrow> ResolvedMssqlTarget" where
  "demo_target m =
     \<lparr>rt_output_name = ''orders'', rt_table = \<lparr>tt_schema = Some ''dbo'', tt_table = ''orders''\<rparr>,
      rt_load_mode = m,
      rt_connection = \<lparr>cc_connection_string = ''server=db'', cc_display_label = None\<rparr>,
      rt_connection_source = TargetOverride\<rparr>"

definition demo_plan :: "LoadMode \<Rightarrow> MssqlTargetOutputPlan" where
  "demo_plan m =
     projr (plan_mssql_target_for_resolved_output demo_api demo_schema (demo_target m) 0)"

definition demo_batch :: "nat \<Rightarrow> RecordBatch" where
  "demo_batch n = \<lparr>rb_schema = demo_schema, rb_num_rows = n\<rparr>"

definition demo_world :: "unit conn world" where
  "demo_world =
     \<lparr>w_clock = \<lparr>ck_reading = (\<lambda>n. n), ck_next = 0\<rparr>, w_events = [],
      w_conn = \<lparr>cn_server = (), cn_sent = []\<rparr>\<rparr>"

definition demo_request :: "LoadMode \<Rightarrow> MssqlOutputConnectionRequest" where
  "demo_request m = request_from_planned_output (demo_plan m) (demo_target m)"

lemma demo_plan_eq:
  "plan_mssql_target_for_resolved_output demo_api demo_schema (demo_target m) 0 = Inr (demo_plan m)"
proof -
  have "is_ok (plan_mssql_target_for_resolved_output demo_api demo_schema (demo_target m) 0)"
    by (cases m)
       (simp_all add: plan_mssql_target_for_resolved_output_def plan_mssql_output_schema_def
         validate_output_identity_def validate_unique_output_field_names_def
         plan_mssql_target_output_def plan_mssql_create_table_ddl_def ddl_requires_mapping_def
         schema_mappings_def table_name_from_target_def table_name_from_parts_def
         lifecycle_plan_defs demo_api_def demo_target_def demo_schema_def trim_def is_whitespace_def is_ok_def Let_def
         target_summary_def)
  then show ?thesis
    by (auto simp: demo_plan_def is_ok_def split: sum.splits)
qed

lemmas demo_plan_wf = plan_for_resolved_wf [OF demo_plan_eq]

lemma demo_load_mode [simp]: "pl_load_mode (demo_plan m) = m"
  by (simp add: demo_plan_wf(2) demo_target_def)

lemma demo_request_plan [simp]: "cr_output_plan (demo_request m) = demo_plan m"
  by (simp add: demo_request_def request_from_planned_output_def)

lemma demo_cooperative:
  "cooperative demo_api (demo_plan m) (demo_server (m = AppendExisting) rows) rows"
  using demo_plan_wf(1) [of m] demo_answers [of "m = AppendExisting" rows]
  by (auto simp: cooperative_def names_accepted_def table_name_from_target_def
      table_name_from_parts_def replace_staging_table_name_def replace_backup_table_name_def
      replace_auxiliary_table_name_def demo_api_def is_ok_def split: option.splits)

lemma demo_valid: "list_all (valid_batch demo_api p) bs"
  by (simp add: valid_batch_def demo_api_def is_ok_def list_all_iff)

lemma demo_run_succeeds:
  assumes "m \<noteq> AppendExisting"
  shows "\<exists>rep w'. run_mssql_output_connection_request demo_api
     (demo_server (m = AppendExisting) (sum_rows 0 bs)) (demo_request m) (map Inr bs) backend
     ValidationOptions_new reporter w = (Inr rep, w')"
proof (rule cooperative_run)
  show "cooperative demo_api (cr_output_plan (demo_request m))
      (demo_server (m = AppendExisting) (sum_rows 0 bs)) (sum_rows 0 bs)"
    unfolding demo_request_plan by (rule demo_cooperative)
qed (use assms in \<open>simp_all add: demo_valid validation_passes_def ValidationOptions_new_def\<close>)

lemma demo_create_table_sql: "\<exists>sql. pl_create_table_sql (demo_plan CreateAndLoad) = Some sql"
  using demo_plan_wf(1) [of CreateAndLoad] by (auto simp: plan_wf_def Let_def)

lemma demo_existing_table_fails:
  "\<exists>e. fst (run_mssql_output_connection_request demo_api (demo_server True rows)
     (demo_request CreateAndLoad) items backend options reporter w) = Inl e"
proof -
  let ?srv = "demo_server True rows" and ?p = "demo_plan CreateAndLoad"
  have "\<exists>e. fst (prepare_mssql_target_lifecycle demo_api ?p (connected_lifecycle_client ?srv) c) = Inl e"
    for c
    using plan_wf_guardrails [OF demo_plan_wf(1) [of CreateAndLoad]]
    by (simp add: prepare_mssql_target_lifecycle_def prepare_mssql_create_and_load_target_def
        run_simps answers_run [OF demo_answers] connected_lifecycle_client_def
        ensure_create_and_load_output_def ensure_lifecycle_guardrail_def table_name_from_target_def
        table_name_from_parts_def demo_api_def split: option.split)
  then have "\<exists>e. fst (run_mssql_output_batches_on_connection demo_api
      (connected_output_client demo_api ?srv ?p) ?p items backend options ts reporter w) = Inl e" for ts w
    by (simp add: run_mssql_output_batches_on_connection_def connected_output_client_def on_conn_def
        Let_def split: prod.split sum.split) (metis fst_conv sum.distinct(1))
  then show ?thesis
    by (simp add: run_mssql_output_connection_request_def split: prod.split sum.split)
qed

subsection \<open>Scan metrics\<close>

definition demo_metrics :: "u64 \<Rightarrow> u64 \<Rightarrow> u64 \<Rightarrow> DeltaDataFusionMetricsSnapshot" where
  "demo_metrics planned completed pruned =
     \<lparr>ms_reader =
        \<lparr>rm_snapshot_version = 7, rm_reader_backend = DeltaKernel,
         rm_scan_metadata_exhausted = Some True, rm_scan_partitions_planned = 1,
         rm_files_planned = planned, rm_files_filtered_during_planning = None,
         rm_estimated_rows = None, rm_estimated_bytes = None, rm_scan_partitions_started = 1,
         rm_scan_partitions_completed = 1, rm_files_started = completed,
         rm_files_completed = completed, rm_batches_produced = 1, rm_rows_produced = 10,
         rm_deletion_vector_payloads_loaded = 0, rm_deletion_vectors_applied = 0,
         rm_deletion_vector_rows_deleted = 0, rm_deletion_vector_failures = 0,
         rm_deletion_vector_rejections = 0, rm_parquet_data_file_range_get_operations = None,
         rm_parquet_data_file_full_get_operations = None,
         rm_parquet_data_file_bytes_received = None, rm_parquet_data_file_opened_bytes = None\<rparr>,
      ms_use_view_types = False, ms_output_batch_size = None,
      ms_dynamic_partition_files_pruned = pruned, ms_dynamic_partition_files_kept = 0,
      ms_dynamic_filters_received = 0, ms_dynamic_filters_accepted = 0,
      ms_dynamic_filters_unsupported = 0, ms_dynamic_filter_snapshots = 0,
      ms_dynamic_files_not_pruned_missing_metadata = 0,
      ms_dynamic_files_not_pruned_unsupported_expression = 0\<rparr>"

subsection \<open>Jobs\<close>

definition demo_job :: "LoadMode \<Rightarrow> (DeltaFunnelError + batch_stream) \<Rightarrow> unit conn MssqlOutputWriteJob" where
  "demo_job m stream =
     job_with_default_write_backend demo_schema (demo_target m) 0 (io_lift stream)"

definition demo_failing_job :: "unit conn MssqlOutputWriteJob" where
  "demo_failing_job = demo_job AppendExisting (Inl (Config ''no such table''))"

lemma demo_job_wf: "job_wf cn_sent (demo_job m stream)"
  by (cases stream)
     (auto simp: job_wf_def demo_job_def job_with_default_write_backend_def job_new_def
       job_new_with_query_execution_factory_def io_map_err_def io_bind_def)

lemma demo_job_target [simp]: "job_resolved_target (demo_job m stream) = demo_target m"
  by (simp add: demo_job_def job_with_default_write_backend_def job_new_def
      job_new_with_query_execution_factory_def)

lemma demo_failing_job_fails:
  "\<exists>f w'. write_mssql_output_job demo_failing_job writer w = (MssqlOutputWriteStatus.Failed f, w')"
  by (simp add: demo_failing_job_def demo_job_def job_with_default_write_backend_def job_new_def
      job_new_with_query_execution_factory_def write_mssql_output_job_def io_map_err_def io_bind_def
      Let_def)

end
