(* ===== verification/DF_Session_Example.thy ===== *)
theory DF_Session_Example
  imports DF_Session_Steps DF_Example
begin

section \<open>A concrete session\<close>

text \<open>
  A small session for the examples that show the hypotheses of the session theorems can hold:
  the source \<open>raw\<close>, the alias \<open>base\<close> over it, \<open>big\<close> over \<open>base\<close>, and \<open>west\<close> and \<open>east\<close> over
  \<open>big\<close>; two outputs write \<open>west\<close> and \<open>east\<close>. The catalog of the examples is a list of names.
\<close>

definition demo_lineage :: "DerivedTableDependency list \<Rightarrow> DerivedTableLineage" where
  "demo_lineage deps = lineage_complete deps [] []"

definition demo_source :: RegisteredSessionSource where
  "demo_source =
     \<lparr>rs_table = LazyTable_delta_source 0 ''raw'', rs_source_uri = ''s3://lake/raw'',
      rs_snapshot_version = 7, rs_schema = demo_schema,
      rs_protocol = \<lparr>dpr_source_name = ''raw'', dpr_table_uri = ''s3://lake/raw'',
        dpr_snapshot_version = 7, dpr_min_reader_version = 1, dpr_min_writer_version = 2,
        dpr_reader_features = [], dpr_writer_features = []\<rparr>,
      rs_phase_timings = []\<rparr>"

definition demo_alias :: "u64 \<Rightarrow> string \<Rightarrow> DerivedTableDependency list \<Rightarrow> RegisteredDerivedTable" where
  "demo_alias i name deps =
     \<lparr>rd_table = LazyTable_with_name (LazyTable_derived_sql i) name, rd_schema = demo_schema,
      rd_sql_text = ''select id from t'', rd_lineage = demo_lineage deps, rd_phase_timings = []\<rparr>"

definition demo_aliases :: "RegisteredDerivedTable list" where
  "demo_aliases =
     [demo_alias 1 ''base'' [RegisteredSource 0 ''raw''],
      demo_alias 2 ''big'' [RegisteredDerived 1 ''base''],
      demo_alias 3 ''west'' [RegisteredDerived 2 ''big''],
      demo_alias 4 ''east'' [RegisteredDerived 2 ''big'']]"

definition demo_options :: SessionOptions where
  "demo_options =
     SessionOptions_new
       \<lparr>parquet_backend = DeltaKernel, max_concurrent_file_reads_per_scan = None,
        max_concurrent_file_reads_per_partition = 2, output_buffer_batches_per_partition = 2,
        prefetch_files_per_partition = 1, parquet_metadata_size_hint_bytes = None,
        parquet_full_file_read_threshold_bytes = None\<rparr> 0 0"

definition demo_session :: "(string list, unit) DeltaFunnelSession" where
  "demo_session =
     \<lparr>ds_options = demo_options, ds_context = [''raw'', ''base'', ''big'', ''west'', ''east''],
      next_table_id = 5, ds_sources = [demo_source], derived_tables = demo_aliases,
      pending_derived_tables = []\<rparr>"

definition demo_output :: "RegisteredDerivedTable \<Rightarrow> OutputWritePlan" where
  "demo_output d =
     \<lparr>owp_table = rd_table d,
      owp_target = \<lparr>ot_output_name = rd_name d,
        ot_target = \<lparr>tc_table = \<lparr>tt_schema = Some ''dbo'', tt_table = rd_name d\<rparr>,
          tc_load_mode = AppendExisting, tc_connection = None\<rparr>,
        ot_run_mode = Execute\<rparr>\<rparr>"

definition demo_requests :: "OutputWritePlan list" where
  "demo_requests = [demo_output (demo_aliases ! 2), demo_output (demo_aliases ! 3)]"

lemmas demo_session_defs =
  demo_session_def demo_aliases_def demo_alias_def demo_source_def demo_lineage_def
  lineage_complete_def LazyTable_derived_sql_def LazyTable_with_name_def LazyTable_delta_source_def

lemma demo_identifiers: "\<forall>name \<in> set (alias_names demo_session). source_identifier name"
  by (simp add: alias_names_def demo_session_defs source_identifier_def RESERVED_SQL_KEYWORDS_def
      is_valid_first_character_def is_valid_following_character_def is_ascii_alphabetic_def
      is_ascii_alphanumeric_def to_ascii_lowercase_def lower_char_def is_ascii_uppercase_def)

lemma demo_names_distinct: "distinct (map to_ascii_lowercase (alias_names demo_session))"
  by (simp add: alias_names_def demo_session_defs to_ascii_lowercase_def lower_char_def is_ascii_uppercase_def)

lemma demo_lineage_known:
  "n < 4 \<Longrightarrow> lineage_wf demo_session n (rd_lineage (demo_aliases ! n))"
  by (auto simp: lineage_wf_def dependency_known_def demo_session_defs is_complete_def
      dependency_registered_source_def dependency_registered_derived_def less_Suc_eq numeral_eq_Suc)

lemma demo_session_wf: "session_wf demo_session"
  unfolding session_wf_def
proof (intro conjI)
  show "distinct (session_ids demo_session)"
    "\<forall>i \<in> set (session_ids demo_session). i < next_table_id demo_session"
    by (simp_all add: session_ids_def demo_session_defs)
  show "handles_wf demo_session"
    by (simp add: handles_wf_def demo_session_defs)
  show "\<forall>n < length (derived_tables demo_session).
      lineage_wf demo_session n (rd_lineage (derived_tables demo_session ! n))"
    using demo_lineage_known by (simp add: demo_session_def demo_aliases_def)
qed (use demo_identifiers demo_names_distinct in \<open>simp_all add: demo_session_def\<close>)

lemma demo_direct_reads:
  "direct_reads demo_session 2 = [RegisteredDerived 1 ''base'']"
  "direct_reads demo_session 1 = [RegisteredSource 0 ''raw'']"
  by (simp_all add: direct_reads_def registered_derived_table_by_id_def demo_session_defs)

lemma demo_derived_tables [simp]: "derived_tables demo_session = demo_aliases"
  by (simp add: demo_session_def)

lemma demo_frontier:
  "filter (cache_eligible demo_session demo_requests) demo_aliases
     = [demo_aliases ! 0, demo_aliases ! 1]"
  "filter (frontier_alias demo_session demo_requests) demo_aliases
     = [demo_aliases ! 1]"
  "map (\<lambda>d. \<lparr>cap_table_id = rd_id d, cap_alias = rd_name d,
       cap_output_indexes = using_outputs demo_session demo_requests d\<rparr>) [demo_aliases ! 1]
     = [\<lparr>cap_table_id = 2, cap_alias = ''big'', cap_output_indexes = [0, 1]\<rparr>]"
proof -
  have el: "filter (cache_eligible demo_session demo_requests) demo_aliases
      = [demo_aliases ! 0, demo_aliases ! 1]"
    by code_simp
  have "filter (\<lambda>d. list_all (\<lambda>e. cache_eligible demo_session demo_requests e \<longrightarrow>
        rd_id e = rd_id d \<or> \<not> cache_output_uses_registered_derived demo_session (rd_table e) d)
      demo_aliases) [demo_aliases ! 0, demo_aliases ! 1] = [demo_aliases ! 1]"
    by code_simp
  moreover have "filter (frontier_alias demo_session demo_requests) demo_aliases =
      filter (\<lambda>d. list_all (\<lambda>e. cache_eligible demo_session demo_requests e \<longrightarrow>
          rd_id e = rd_id d \<or> \<not> cache_output_uses_registered_derived demo_session (rd_table e) d)
        demo_aliases) (filter (cache_eligible demo_session demo_requests) demo_aliases)"
    unfolding filter_filter
    by (rule filter_cong) (simp_all add: frontier_alias_iff [OF demo_session_wf])
  ultimately show "filter (cache_eligible demo_session demo_requests) demo_aliases
      = [demo_aliases ! 0, demo_aliases ! 1]"
    "filter (frontier_alias demo_session demo_requests) demo_aliases
      = [demo_aliases ! 1]"
    by (simp_all add: el)
qed code_simp

subsection \<open>Parameters of the session operations\<close>

text \<open>
  A DataFusion that plans every statement and resolves no table references, a catalog that is a
  list of names, and a reader that loads every table at version 7.
\<close>

definition demo_datafusion :: "(string list, unit, unit, string) datafusion" where
  "demo_datafusion =
     \<lparr>df_sql_with_options = (\<lambda>ctx sql options. Inr ()), df_frame_schema = (\<lambda>_. demo_schema),
      df_into_view = (\<lambda>_. ()), df_register_table = (\<lambda>name p ctx. (Inr (), name # ctx)),
      df_parse_sql = (\<lambda>sql. Inr [sql]),
      df_resolve_table_references = (\<lambda>statement flag. Inr ([], [])),
      df_reference_to_string = (\<lambda>r. [])\<rparr>"

definition demo_catalog :: "string list \<Rightarrow> (string list, string) source_catalog" where
  "demo_catalog rejected =
     \<lparr>cat_table_names = (\<lambda>ctx. ctx),
      cat_register = (\<lambda>name t options ctx.
        if name \<in> set rejected
        then (Inl \<lparr>re_phase = Snapshot, re_display = ''rejected'', re_source = None\<rparr>, ctx)
        else (Inr (), name # ctx)),
      cat_deregister = (\<lambda>name ctx.
        filter (\<lambda>n. to_ascii_lowercase n \<noteq> to_ascii_lowercase name) ctx)\<rparr>"

definition demo_protocol :: DeltaProtocol where
  "demo_protocol =
     \<lparr>min_reader_version = 1, min_writer_version = 2, reader_features = [], writer_features = [],
      first_unsupported_reader_feature = None\<rparr>"

definition demo_reader :: "(string, string) delta_reader" where
  "demo_reader =
     \<lparr>load_snapshot = (\<lambda>uri options selection execution. Inr uri), snap_version = (\<lambda>_. 7),
      snap_table_url = (\<lambda>uri. uri), snap_protocol = (\<lambda>_. demo_protocol),
      snap_validate_protocol = (\<lambda>_. Inr ()), snap_into_table = Inr, tab_version = (\<lambda>_. 7),
      tab_table_url = (\<lambda>uri. uri), tab_schema = (\<lambda>_. demo_schema),
      tab_protocol = (\<lambda>_. demo_protocol), tab_validate_protocol = (\<lambda>_. Inr ())\<rparr>"

definition demo_env :: "(string, string, string list, string) source_env" where
  "demo_env =
     \<lparr>se_reader = demo_reader, se_catalog = demo_catalog [], se_url_parse = (\<lambda>_. None),
      se_s3_keys = \<lparr>s3_key_parse = Some, s3_key_is_region = (\<lambda>k. k = ''region''),
        s3_key_as_ref = (\<lambda>k. k)\<rparr>,
      se_env_vars = []\<rparr>"

definition demo_config :: "(unit, string list) datafusion_config" where
  "demo_config =
     \<lparr>SessionConfig_new = (), cfg_with_target_partitions = (\<lambda>n c. c),
      cfg_with_batch_size = (\<lambda>n c. c), SessionContext_new_with_config = (\<lambda>_. [])\<rparr>"

definition demo_new_session :: "(string list, unit) DeltaFunnelSession" where
  "demo_new_session = projr (DeltaFunnelSession_new demo_config demo_options)"

definition demo_new_world :: "(string list, unit) session_world" where
  "demo_new_world =
     \<lparr>w_clock = \<lparr>ck_reading = (\<lambda>n. n), ck_next = 0\<rparr>, w_events = [], w_conn = demo_new_session\<rparr>"

definition demo_planned_world :: "(string list, unit) session_world" where
  "demo_planned_world = snd (table_from_sql demo_datafusion ''select 1'' demo_new_world)"

lemma demo_new_session_eq:
  "DeltaFunnelSession_new demo_config demo_options = Inr demo_new_session"
  "demo_new_session =
     \<lparr>ds_options = demo_options, ds_context = [], next_table_id = 0, ds_sources = [],
      derived_tables = [], pending_derived_tables = []\<rparr>"
  by (simp_all add: demo_new_session_def DeltaFunnelSession_new_def SessionOptions_validate_def
      datafusion_session_context_def datafusion_session_config_def apply_to_session_config_def
      QueryOptions_validate_def QueryOptions_default_def demo_options_def SessionOptions_new_def
      ValidationOptions_validate_def workflow_options_validate_def MssqlWorkflowWriteOptions_new_def
      demo_config_def)

lemma demo_planned_reachable:
  "session_reachable demo_datafusion demo_env demo_config demo_planned_world"
proof (rule session_reachable.step [OF session_reachable.new [OF demo_new_session_eq(1)]])
  show "w_session demo_new_world = demo_new_session"
    by (simp add: demo_new_world_def)
  show "session_step demo_datafusion demo_env demo_new_world demo_planned_world"
    unfolding demo_planned_world_def
    by (rule session_step.sql [of _ "''select 1''" _ "fst (table_from_sql demo_datafusion ''select 1'' demo_new_world)"])
      simp
qed

lemma demo_planned_pending:
  "length (pending_derived_tables (w_session demo_planned_world)) = 1"
  "next_table_id (w_session demo_planned_world) = 1"
  by (simp_all add: demo_planned_world_def table_from_sql_def demo_new_world_def
      demo_new_session_eq(2) trim_def is_whitespace_def plan_read_only_sql_def demo_datafusion_def
      allocate_derived_sql_table_def push_pending_def saturating_add_def u64_MAX_def
      Let_def split: prod.split)

lemma demo_planned_below_MAX: "next_table_id (w_session demo_planned_world) \<noteq> u64_MAX"
  by (simp add: demo_planned_pending(2) u64_MAX_def)

lemma demo_catalog_laws: "catalog_laws (demo_catalog rejected)"
  by (auto simp: catalog_laws_def demo_catalog_def table_names_in_def split: if_splits)

end
