(* ===== verification/DF_Query_Plan.thy ===== *)
theory DF_Query_Plan
  imports DF_Metrics DF_Types
begin

section \<open>Physical plans\<close>

text \<open>
  \<open>query_engine/datafusion.rs\<close>: the traversal of a physical plan that finds the counters of its
  Delta scans, and the choice of the plan that is executed as one stream.

  A physical plan of DataFusion is a tree of shared nodes: \<open>plan_identity\<close> is the address of a
  node, so that one node reached twice has one identity, and \<open>plan_info\<close> is what DataFusion knows
  about it, of the parameter type \<open>'i\<close>.
\<close>

datatype 'i ExecutionPlan =
  PlanNode (plan_identity: nat) (plan_info: 'i) (plan_children: "'i ExecutionPlan list")

text \<open>The counters of one scan: its registered name and what they read when the scan has ended.\<close>

record ScanMetrics =
  scm_registration_name :: "string option"
  scm_snapshot :: ScanMetricsSnapshot

record DeltaProviderReadStatsHandle =
  rsh_metrics :: ScanMetrics
  rsh_plan_identity :: nat

definition handle_same_instance ::
    "DeltaProviderReadStatsHandle \<Rightarrow> DeltaProviderReadStatsHandle \<Rightarrow> bool" where
  "handle_same_instance a b \<longleftrightarrow> rsh_plan_identity a = rsh_plan_identity b"

definition handle_snapshot :: "DeltaProviderReadStatsHandle \<Rightarrow> DeltaDataFusionMetricsSnapshot" where
  "handle_snapshot h = metrics_from (scm_snapshot (rsh_metrics h))"

definition handle_source_name :: "DeltaProviderReadStatsHandle \<Rightarrow> string option" where
  "handle_source_name h = scm_registration_name (rsh_metrics h)"

text \<open>What the source uses of DataFusion's plans and executions.\<close>

record 'i plan_engine =
  collect_scan_metrics :: "'i ExecutionPlan \<Rightarrow> ScanMetrics list"
  plan_partition_count :: "'i ExecutionPlan \<Rightarrow> nat"
  plan_schema :: "'i ExecutionPlan \<Rightarrow> Schema"
  plan_execute :: "'i ExecutionPlan \<Rightarrow> nat \<Rightarrow> string + (string + RecordBatch) list"
  coalesce_partitions :: "'i ExecutionPlan \<Rightarrow> 'i ExecutionPlan"

definition delta_datafusion_metrics_for_plan ::
    "'i plan_engine \<Rightarrow> 'i ExecutionPlan \<Rightarrow> DeltaProviderReadStatsHandle option" where
  "delta_datafusion_metrics_for_plan pe plan =
     (if plan_children plan \<noteq> [] then None
      else
        (case collect_scan_metrics pe plan of
           [metrics] \<Rightarrow> Some \<lparr>rsh_metrics = metrics, rsh_plan_identity = plan_identity plan\<rparr>
         | _ \<Rightarrow> None))"

definition push_new_handle ::
    "DeltaProviderReadStatsHandle option \<Rightarrow> DeltaProviderReadStatsHandle list
       \<Rightarrow> DeltaProviderReadStatsHandle list" where
  "push_new_handle handle found =
     (case handle of
        None \<Rightarrow> found
      | Some h \<Rightarrow> if list_ex (\<lambda>existing. handle_same_instance existing h) found then found
                  else found @ [h])"

lemma size_plan_child [termination_simp]:
  "c \<in> set (plan_children plan) \<Longrightarrow> size c < size plan"
  by (cases plan) (auto simp: less_Suc_eq_le dest: size_list_estimation')

fun collect_handles ::
    "'i plan_engine \<Rightarrow> 'i ExecutionPlan \<Rightarrow> nat set \<times> DeltaProviderReadStatsHandle list
       \<Rightarrow> nat set \<times> DeltaProviderReadStatsHandle list" where
  "collect_handles pe plan (seen, found) =
     (if plan_identity plan \<in> seen then (seen, found)
      else
        fold (collect_handles pe) (plan_children plan)
          (insert (plan_identity plan) seen,
           push_new_handle (delta_datafusion_metrics_for_plan pe plan) found))"

definition collect_delta_provider_read_stats_handles ::
    "'i plan_engine \<Rightarrow> 'i ExecutionPlan \<Rightarrow> DeltaProviderReadStatsHandle list" where
  "collect_delta_provider_read_stats_handles pe plan = snd (collect_handles pe plan ({}, []))"

definition snapshot_delta_provider_read_stats ::
    "DeltaProviderReadStatsHandle list \<Rightarrow> DeltaDataFusionMetricsSnapshot list" where
  "snapshot_delta_provider_read_stats handles = map handle_snapshot handles"

definition collect_named_delta_datafusion_metrics ::
    "'i plan_engine \<Rightarrow> 'i ExecutionPlan \<Rightarrow> NamedDeltaDataFusionMetricsSnapshot list" where
  "collect_named_delta_datafusion_metrics pe plan =
     map (\<lambda>m. \<lparr>nm_source_name = (case scm_registration_name m of None \<Rightarrow> [] | Some n \<Rightarrow> n),
               nm_snapshot = metrics_from (scm_snapshot m)\<rparr>)
       (collect_scan_metrics pe plan)"

subsection \<open>One stream for a plan\<close>

record 'i DFQueryExecution =
  dfx_stream :: "(string + RecordBatch) list"
  dfx_effective_profile_root :: "'i ExecutionPlan"

record 'i DFQueryExecutionSetupError =
  dfe_source :: string
  dfe_effective_profile_root :: "'i ExecutionPlan"

definition prepare_datafusion_query_output ::
    "'i plan_engine \<Rightarrow> 'i ExecutionPlan \<Rightarrow> 'i ExecutionPlan \<times> bool" where
  "prepare_datafusion_query_output pe plan =
     (if plan_partition_count pe plan = 0 then (plan, False)
      else if plan_partition_count pe plan = 1 then (plan, True)
      else (coalesce_partitions pe plan, True))"

definition execute_datafusion_query_output ::
    "'i plan_engine \<Rightarrow> 'i ExecutionPlan \<Rightarrow> bool
       \<Rightarrow> 'i DFQueryExecutionSetupError + 'i DFQueryExecution" where
  "execute_datafusion_query_output pe root execute =
     res_bind
       (if execute
        then map_err (\<lambda>e. \<lparr>dfe_source = e, dfe_effective_profile_root = root\<rparr>) (plan_execute pe root 0)
        else Inr [])
       (\<lambda>stream. Inr \<lparr>dfx_stream = stream, dfx_effective_profile_root = root\<rparr>)"

definition datafusion_query_output_stream_with_effective_root ::
    "'i plan_engine \<Rightarrow> 'i ExecutionPlan \<Rightarrow> 'i DFQueryExecutionSetupError + 'i DFQueryExecution" where
  "datafusion_query_output_stream_with_effective_root pe plan =
     (case prepare_datafusion_query_output pe plan of
        (root, execute) \<Rightarrow> execute_datafusion_query_output pe root execute)"

definition datafusion_query_output_stream ::
    "'i plan_engine \<Rightarrow> 'i ExecutionPlan \<Rightarrow> string + (string + RecordBatch) list" where
  "datafusion_query_output_stream pe plan =
     res_bind (map_err dfe_source (datafusion_query_output_stream_with_effective_root pe plan))
       (\<lambda>execution. Inr (dfx_stream execution))"

subsection \<open>The scans of a plan, each once\<close>

primrec plan_nodes :: "'i ExecutionPlan \<Rightarrow> 'i ExecutionPlan set" where
  "plan_nodes (PlanNode i x children) = insert (PlanNode i x children) (\<Union>(set (map plan_nodes children)))"

lemma plan_nodes_self [simp]: "plan \<in> plan_nodes plan"
  by (cases plan) simp

lemma plan_nodes_child: "c \<in> set (plan_children plan) \<Longrightarrow> plan_nodes c \<subseteq> plan_nodes plan"
  by (cases plan) auto

lemma plan_nodes_closed: "p \<in> plan_nodes plan \<Longrightarrow> c \<in> set (plan_children p) \<Longrightarrow> c \<in> plan_nodes plan"
proof (induction plan)
  case (PlanNode i x children)
  then obtain d where "d \<in> set children" "c \<in> plan_nodes d"
    using plan_nodes_self [of c] by auto
  then show ?case by auto
qed

text \<open>Two nodes at one address are one node.\<close>

definition identities_consistent :: "'i ExecutionPlan \<Rightarrow> bool" where
  "identities_consistent plan \<longleftrightarrow> inj_on plan_identity (plan_nodes plan)"

text \<open>
  \<open>walked pe U (V, F) (V', F')\<close>: a traversal inside the plan \<open>U\<close> that had seen \<open>V\<close> and found \<open>F\<close>
  has now seen \<open>V'\<close> and found \<open>F'\<close>; the children of what it added are seen, and its scans found.
\<close>

definition handles_in ::
    "'i plan_engine \<Rightarrow> 'i ExecutionPlan \<Rightarrow> nat set \<Rightarrow> DeltaProviderReadStatsHandle set" where
  "handles_in pe U V =
     {h. \<exists>p \<in> plan_nodes U. plan_identity p \<in> V \<and> delta_datafusion_metrics_for_plan pe p = Some h}"

definition walk_ok :: "nat set \<times> DeltaProviderReadStatsHandle list \<Rightarrow> bool" where
  "walk_ok st \<longleftrightarrow> distinct (map rsh_plan_identity (snd st)) \<and> rsh_plan_identity ` set (snd st) \<subseteq> fst st"

definition walked ::
    "'i plan_engine \<Rightarrow> 'i ExecutionPlan \<Rightarrow> nat set \<times> DeltaProviderReadStatsHandle list
       \<Rightarrow> nat set \<times> DeltaProviderReadStatsHandle list \<Rightarrow> bool" where
  "walked pe U st st' \<longleftrightarrow>
     walk_ok st' \<and> fst st \<subseteq> fst st' \<and> fst st' \<subseteq> fst st \<union> plan_identity ` plan_nodes U \<and>
     (\<forall>p \<in> plan_nodes U. plan_identity p \<in> fst st' - fst st \<longrightarrow>
        plan_identity ` set (plan_children p) \<subseteq> fst st') \<and>
     set (snd st') = set (snd st) \<union> handles_in pe U (fst st' - fst st)"

lemma metrics_for_plan_identity:
  "delta_datafusion_metrics_for_plan pe p = Some h \<Longrightarrow> rsh_plan_identity h = plan_identity p"
  by (auto simp: delta_datafusion_metrics_for_plan_def split: if_splits list.splits)

lemma walked_refl: "walk_ok st \<Longrightarrow> walked pe U st st"
  by (simp add: walked_def handles_in_def)

lemma walked_trans:
  assumes "walked pe U a b" "walked pe U b c"
  shows "walked pe U a c"
proof -
  have sub: "fst a \<subseteq> fst b" "fst b \<subseteq> fst c"
    using assms by (simp_all add: walked_def)
  then have "fst c - fst a = (fst b - fst a) \<union> (fst c - fst b)"
    by blast
  then have "handles_in pe U (fst c - fst a) =
      handles_in pe U (fst b - fst a) \<union> handles_in pe U (fst c - fst b)"
    by (auto simp: handles_in_def)
  then have "set (snd c) = set (snd a) \<union> handles_in pe U (fst c - fst a)"
    using assms by (simp add: walked_def Un_assoc)
  moreover have "plan_identity ` set (plan_children p) \<subseteq> fst c"
    if p: "p \<in> plan_nodes U" "plan_identity p \<in> fst c - fst a" for p
  proof (cases "plan_identity p \<in> fst b")
    case True
    then have "plan_identity ` set (plan_children p) \<subseteq> fst b"
      using assms(1) p by (simp add: walked_def)
    with sub(2) show ?thesis by blast
  next
    case False
    with assms(2) p show ?thesis by (simp add: walked_def)
  qed
  moreover have "fst b \<subseteq> fst a \<union> plan_identity ` plan_nodes U"
      "fst c \<subseteq> fst b \<union> plan_identity ` plan_nodes U" "walk_ok c"
    using assms by (simp_all add: walked_def)
  then have "walk_ok c" "fst a \<subseteq> fst c" "fst c \<subseteq> fst a \<union> plan_identity ` plan_nodes U"
    using sub by blast+
  ultimately show ?thesis
    by (simp add: walked_def)
qed

lemma walked_fold:
  assumes "walk_ok st"
    and "\<And>c st. c \<in> set cs \<Longrightarrow> walk_ok st \<Longrightarrow>
      walked pe U st (collect_handles pe c st) \<and> plan_identity c \<in> fst (collect_handles pe c st)"
  shows "walked pe U st (fold (collect_handles pe) cs st) \<and>
     plan_identity ` set cs \<subseteq> fst (fold (collect_handles pe) cs st)"
  using assms
proof (induction cs arbitrary: st)
  case Nil
  then show ?case by (simp add: walked_refl)
next
  case (Cons c cs)
  let ?st = "collect_handles pe c st"
  have c: "walked pe U st ?st" "plan_identity c \<in> fst ?st"
    using Cons.prems by simp_all
  then have "walk_ok ?st"
    by (simp add: walked_def)
  with Cons have rest: "walked pe U ?st (fold (collect_handles pe) cs ?st)"
      "plan_identity ` set cs \<subseteq> fst (fold (collect_handles pe) cs ?st)"
    by simp_all
  moreover have "fst ?st \<subseteq> fst (fold (collect_handles pe) cs ?st)"
    using rest(1) by (simp add: walked_def)
  ultimately show ?case
    using c walked_trans [OF c(1) rest(1)] by auto
qed

abbreviation found_at :: "'i plan_engine \<Rightarrow> 'i ExecutionPlan \<Rightarrow> DeltaProviderReadStatsHandle list" where
  "found_at pe plan \<equiv> (case delta_datafusion_metrics_for_plan pe plan of None \<Rightarrow> [] | Some h \<Rightarrow> [h])"

lemma push_new_handle_fresh:
  assumes "walk_ok (V, F)" "plan_identity plan \<notin> V"
  shows "push_new_handle (delta_datafusion_metrics_for_plan pe plan) F = F @ found_at pe plan"
proof (cases "delta_datafusion_metrics_for_plan pe plan")
  case (Some h)
  have "\<forall>e \<in> set F. rsh_plan_identity e \<noteq> plan_identity plan"
    using assms by (auto simp: walk_ok_def)
  with Some metrics_for_plan_identity [OF Some] show ?thesis
    by (simp add: push_new_handle_def handle_same_instance_def list_ex_iff)
qed (simp add: push_new_handle_def)

lemma walk_ok_visit:
  assumes "walk_ok (V, F)" "plan_identity plan \<notin> V"
  shows "walk_ok (insert (plan_identity plan) V, F @ found_at pe plan)"
  using assms metrics_for_plan_identity [of pe plan]
  by (cases "delta_datafusion_metrics_for_plan pe plan") (auto simp: walk_ok_def)

lemma same_identity:
  assumes "identities_consistent U" "plan \<in> plan_nodes U" "p \<in> plan_nodes U"
    and "plan_identity p = plan_identity plan"
  shows "p = plan"
  using assms by (auto simp: identities_consistent_def dest: inj_onD)

lemma handles_in_node:
  assumes "identities_consistent U" "plan \<in> plan_nodes U"
  shows "handles_in pe U {plan_identity plan} = set (found_at pe plan)"
proof -
  have "(\<exists>p \<in> plan_nodes U. plan_identity p \<in> {plan_identity plan} \<and>
      delta_datafusion_metrics_for_plan pe p = Some h) \<longleftrightarrow>
      delta_datafusion_metrics_for_plan pe plan = Some h" for h
    using same_identity [OF assms] assms(2) by (metis singletonD singletonI)
  then show ?thesis
    by (cases "delta_datafusion_metrics_for_plan pe plan") (auto simp: handles_in_def)
qed

text \<open>Visiting a node and then its children is a traversal.\<close>

lemma walked_visit:
  assumes U: "identities_consistent U" "plan \<in> plan_nodes U" and new: "plan_identity plan \<notin> V"
    and kids: "walked pe U (insert (plan_identity plan) V, F @ found_at pe plan) st'"
      "plan_identity ` set (plan_children plan) \<subseteq> fst st'"
  shows "walked pe U (V, F) st'"
proof -
  let ?i = "plan_identity plan"
  have split: "fst st' - V = insert ?i (fst st' - insert ?i V)"
    using kids new by (auto simp: walked_def)
  have "handles_in pe U (fst st' - V) = handles_in pe U {?i} \<union> handles_in pe U (fst st' - insert ?i V)"
    unfolding split by (auto simp: handles_in_def)
  moreover have "plan_identity ` set (plan_children p) \<subseteq> fst st'"
    if "p \<in> plan_nodes U" "plan_identity p \<in> fst st' - V" for p
  proof (cases "plan_identity p = ?i")
    case True
    with same_identity [OF U that(1)] kids show ?thesis by simp
  next
    case False
    with kids that show ?thesis by (auto simp: walked_def)
  qed
  moreover have "walk_ok st'" "insert ?i V \<subseteq> fst st'"
      "fst st' \<subseteq> insert ?i V \<union> plan_identity ` plan_nodes U"
      "set (snd st') = set (F @ found_at pe plan) \<union> handles_in pe U (fst st' - insert ?i V)"
    using kids by (simp_all add: walked_def)
  moreover have "?i \<in> plan_identity ` plan_nodes U"
    using U(2) by simp
  ultimately show ?thesis
    unfolding walked_def using handles_in_node [OF U, of pe] by (simp add: Un_assoc) blast
qed

lemma collect_handles_walked:
  assumes "identities_consistent U" "plan \<in> plan_nodes U" "walk_ok st"
  shows "walked pe U st (collect_handles pe plan st) \<and>
     plan_identity plan \<in> fst (collect_handles pe plan st)"
  using assms(2,3)
proof (induction plan arbitrary: st)
  case (PlanNode i x children)
  let ?plan = "PlanNode i x children"
  obtain V F where st: "st = (V, F)" by (cases st)
  show ?case
  proof (cases "i \<in> V")
    case True
    with PlanNode.prems(2) st show ?thesis by (simp add: walked_refl)
  next
    case False
    let ?st = "(insert i V, F @ found_at pe ?plan)"
    let ?last = "fold (collect_handles pe) children ?st"
    have fresh: "push_new_handle (delta_datafusion_metrics_for_plan pe ?plan) F = F @ found_at pe ?plan"
      using push_new_handle_fresh [of V F ?plan pe] PlanNode.prems(2) st False by simp
    have ok: "walk_ok ?st"
      using walk_ok_visit [of V F ?plan pe] PlanNode.prems(2) st False by simp
    have kids: "walked pe U ?st ?last \<and> plan_identity ` set children \<subseteq> fst ?last"
    proof (rule walked_fold [OF ok])
      fix c st assume "c \<in> set children" "walk_ok st"
      moreover have "c \<in> plan_nodes U"
        using plan_nodes_closed [OF PlanNode.prems(1)] \<open>c \<in> set children\<close> by simp
      ultimately show "walked pe U st (collect_handles pe c st) \<and>
          plan_identity c \<in> fst (collect_handles pe c st)"
        using PlanNode.IH by blast
    qed
    then have "walked pe U (V, F) ?last"
      using walked_visit [OF assms(1) PlanNode.prems(1), of V pe F ?last] False by simp
    moreover have "i \<in> fst ?last"
      using kids by (auto simp: walked_def)
    ultimately show ?thesis
      using False st fresh by simp
  qed
qed

lemma collected_handles:
  assumes "identities_consistent plan"
  shows "distinct (map rsh_plan_identity (collect_delta_provider_read_stats_handles pe plan)) \<and>
     set (collect_delta_provider_read_stats_handles pe plan) =
       {h. \<exists>p \<in> plan_nodes plan. delta_datafusion_metrics_for_plan pe p = Some h}"
proof -
  let ?last = "collect_handles pe plan ({}, [])"
  have "walk_ok ({}, [])" by (simp add: walk_ok_def)
  from collect_handles_walked [OF assms plan_nodes_self this]
  have w: "walked pe plan ({}, []) ?last" "plan_identity plan \<in> fst ?last" by simp_all
  have "plan_identity p \<in> fst ?last" if "p \<in> plan_nodes q" "plan_identity q \<in> fst ?last"
      "q \<in> plan_nodes plan" for p q
    using that
  proof (induction q)
    case (PlanNode i x children)
    show ?case
    proof (cases "p = PlanNode i x children")
      case False
      with PlanNode.prems obtain c where c: "c \<in> set children" "p \<in> plan_nodes c" by auto
      have "plan_identity c \<in> fst ?last"
        using w(1) PlanNode.prems(2,3) c(1) by (force simp: walked_def)
      with PlanNode.IH [OF c] plan_nodes_closed [OF PlanNode.prems(3)] c(1) show ?thesis by simp
    qed (use PlanNode.prems in simp)
  qed
  with w(2) have "plan_identity p \<in> fst ?last" if "p \<in> plan_nodes plan" for p
    using that by simp
  with w(1) show ?thesis
    by (auto simp: walked_def walk_ok_def handles_in_def collect_delta_provider_read_stats_handles_def)
qed

end
