(* ===== verification/DF_Execution_Profile.thy ===== *)
theory DF_Execution_Profile
  imports DF_Query_Plan "HOL-Library.Option_ord" "HOL-Library.Product_Lexorder"
    "HOL-Library.List_Lexorder" "HOL-Library.Char_ord"
begin

section \<open>Profiles of executed queries\<close>

text \<open>
  \<open>query_engine/datafusion/execution_profile.rs\<close>: turning an executed physical plan into the
  profile of a report, one entry per operator, with the operator's metrics in a stable order and
  the counters of its Delta scan.

  The metrics of an operator are DataFusion's: \<open>Metric\<close> and \<open>MetricValue\<close> have its constructors,
  with a timestamp as its nanoseconds since the epoch.
\<close>

subsection \<open>Metrics\<close>

datatype MetricValue =
    mv_OutputRows nat
  | mv_OutputBatches nat
  | mv_SpillCount nat
  | mv_SpilledRows nat
  | mv_Count string nat
  | mv_SpilledBytes nat
  | mv_OutputBytes nat
  | mv_CurrentMemoryUsage nat
  | mv_ElapsedCompute nat
  | mv_Time string nat
  | mv_Gauge string nat
  | mv_StartTimestamp "int option"
  | mv_EndTimestamp "int option"
  | mv_PruningMetrics string nat nat nat
  | mv_Ratio string nat nat
  | mv_Custom string nat

datatype MetricType = mt_Summary | mt_Dev

record Metric =
  mc_name :: string
  mc_type :: MetricType
  mc_partition :: "nat option"
  mc_labels :: "(string \<times> string) list"
  mc_value :: MetricValue

text \<open>
  What DataFusion knows about the operator at a node and its metrics. \<open>pm_aggregate_by_name\<close> is
  the library's aggregation of a metric set.
\<close>

record 'i plan_metrics_api =
  pm_operator_name :: "'i ExecutionPlan \<Rightarrow> string"
  pm_metrics :: "'i ExecutionPlan \<Rightarrow> Metric list option"
  pm_aggregate_by_name :: "Metric list \<Rightarrow> Metric list"

definition timestamp_nanos_opt :: "int \<Rightarrow> u64 option" where
  "timestamp_nanos_opt t =
     (if - (2 ^ 63) \<le> t \<and> t < 2 ^ 63 then Some (word_of_int t) else None)"

fun convert_metric_value :: "MetricValue \<Rightarrow> QueryExecutionMetricValue" where
  "convert_metric_value (mv_OutputRows v) = Count (usize_to_u64_saturating v)"
| "convert_metric_value (mv_OutputBatches v) = Count (usize_to_u64_saturating v)"
| "convert_metric_value (mv_SpillCount v) = Count (usize_to_u64_saturating v)"
| "convert_metric_value (mv_SpilledRows v) = Count (usize_to_u64_saturating v)"
| "convert_metric_value (mv_Count _ v) = Count (usize_to_u64_saturating v)"
| "convert_metric_value (mv_SpilledBytes v) = Bytes (usize_to_u64_saturating v)"
| "convert_metric_value (mv_OutputBytes v) = Bytes (usize_to_u64_saturating v)"
| "convert_metric_value (mv_CurrentMemoryUsage v) = Bytes (usize_to_u64_saturating v)"
| "convert_metric_value (mv_ElapsedCompute v) = Nanoseconds (usize_to_u64_saturating v)"
| "convert_metric_value (mv_Time _ v) = Nanoseconds (usize_to_u64_saturating v)"
| "convert_metric_value (mv_Gauge _ v) = Gauge (usize_to_u64_saturating v)"
| "convert_metric_value (mv_StartTimestamp t) =
     TimestampNanoseconds (Option.bind t timestamp_nanos_opt)"
| "convert_metric_value (mv_EndTimestamp t) =
     TimestampNanoseconds (Option.bind t timestamp_nanos_opt)"
| "convert_metric_value (mv_PruningMetrics _ pruned matched fully) =
     Pruning (usize_to_u64_saturating pruned) (usize_to_u64_saturating matched)
       (usize_to_u64_saturating fully)"
| "convert_metric_value (mv_Ratio _ part whole) =
     Ratio (usize_to_u64_saturating part) (usize_to_u64_saturating whole)"
| "convert_metric_value (mv_Custom _ v) = Custom (usize_to_u64_saturating v)"

text \<open>\<open>str::parse\<close> of a text of digits fails only above \<open>u64::MAX\<close>.\<close>

definition parse_output_partition :: "string \<Rightarrow> u64 option" where
  "parse_output_partition v =
     (if v = [] \<or> \<not> list_all is_ascii_digit v then None
      else let n = digits_val 10 0 v in if n < 2 ^ 64 then Some (of_nat n) else None)"

fun find_map :: "('a \<Rightarrow> 'b option) \<Rightarrow> 'a list \<Rightarrow> 'b option" where
  "find_map f [] = None"
| "find_map f (x # xs) = (case f x of Some y \<Rightarrow> Some y | None \<Rightarrow> find_map f xs)"

definition output_partition :: "Metric \<Rightarrow> u64 option" where
  "output_partition m =
     find_map (\<lambda>label. parse_output_partition (snd label))
       (filter (\<lambda>label. fst label = ''outputPartition'') (mc_labels m))"

definition convert_metric :: "Metric \<Rightarrow> bool \<Rightarrow> QueryExecutionMetric" where
  "convert_metric m aggregated =
     \<lparr>qm_name = mc_name m,
      qm_category = (case mc_type m of mt_Summary \<Rightarrow> Summary | mt_Dev \<Rightarrow> Dev),
      qm_partition = (if aggregated then None else map_option usize_to_u64_saturating (mc_partition m)),
      qm_output_partition = (if aggregated then None else output_partition m),
      qm_value = convert_metric_value (mc_value m)\<rparr>"

subsection \<open>The order of metrics\<close>

datatype Ordering = Less | Equal | Greater

definition cmp :: "'a :: linorder \<Rightarrow> 'a \<Rightarrow> Ordering" where
  "cmp a b = (if a < b then Less else if a = b then Equal else Greater)"

fun then_with :: "Ordering \<Rightarrow> Ordering \<Rightarrow> Ordering" where
  "then_with Equal next_order = next_order"
| "then_with order next_order = order"

text \<open>\<open>slice::sort_by\<close>, a stable sort.\<close>

fun insert_by :: "('a \<Rightarrow> 'a \<Rightarrow> Ordering) \<Rightarrow> 'a \<Rightarrow> 'a list \<Rightarrow> 'a list" where
  "insert_by c x [] = [x]"
| "insert_by c x (y # ys) = (if c x y = Greater then y # insert_by c x ys else x # y # ys)"

definition sort_by :: "('a \<Rightarrow> 'a \<Rightarrow> Ordering) \<Rightarrow> 'a list \<Rightarrow> 'a list" where
  "sort_by c xs = foldr (insert_by c) xs []"

fun metric_category_rank :: "QueryExecutionMetricCategory \<Rightarrow> nat" where
  "metric_category_rank Summary = 0"
| "metric_category_rank Dev = 1"

text \<open>A timestamp is an \<open>i64\<close>, compared as one.\<close>

fun compare_metric_values ::
    "QueryExecutionMetricValue \<Rightarrow> QueryExecutionMetricValue \<Rightarrow> Ordering" where
  "compare_metric_values (Count l) (Count r) = cmp l r"
| "compare_metric_values (Bytes l) (Bytes r) = cmp l r"
| "compare_metric_values (Nanoseconds l) (Nanoseconds r) = cmp l r"
| "compare_metric_values (Gauge l) (Gauge r) = cmp l r"
| "compare_metric_values (Custom l) (Custom r) = cmp l r"
| "compare_metric_values (TimestampNanoseconds l) (TimestampNanoseconds r) =
     cmp (map_option sint l) (map_option sint r)"
| "compare_metric_values (Pruning lp lm lf) (Pruning rp rm rf) = cmp (lp, lm, lf) (rp, rm, rf)"
| "compare_metric_values (Ratio lp lt) (Ratio rp rt) = cmp (lp, lt) (rp, rt)"
| "compare_metric_values _ _ = Equal"

definition compare_entries ::
    "nat \<times> QueryExecutionMetric \<Rightarrow> nat \<times> QueryExecutionMetric \<Rightarrow> Ordering" where
  "compare_entries a b =
     (let l = snd a; r = snd b in
      then_with (cmp (metric_category_rank (qm_category l)) (metric_category_rank (qm_category r)))
      (then_with (cmp (qm_name l) (qm_name r))
      (then_with (cmp (qm_partition l) (qm_partition r))
      (then_with (cmp (qm_output_partition l) (qm_output_partition r))
      (then_with (cmp (QueryExecutionMetricValue_value_kind (qm_value l))
                      (QueryExecutionMetricValue_value_kind (qm_value r)))
      (then_with (compare_metric_values (qm_value l) (qm_value r))
      (cmp (fst a) (fst b))))))))"

definition convert_metrics :: "Metric list \<Rightarrow> bool \<Rightarrow> QueryExecutionMetric list" where
  "convert_metrics metrics aggregated =
     map snd (sort_by compare_entries
       (map (\<lambda>(position, m). (position, convert_metric m aggregated)) (List.enumerate 0 metrics)))"

definition collect_query_execution_metrics ::
    "'i plan_metrics_api \<Rightarrow> Metric list \<Rightarrow> QueryExecutionMetric list \<times> QueryExecutionMetric list" where
  "collect_query_execution_metrics pm metrics =
     (convert_metrics (pm_aggregate_by_name pm metrics) True, convert_metrics metrics False)"

subsection \<open>The profile of a plan\<close>

type_synonym snapshot_set = "(DeltaProviderReadStatsHandle \<times> DeltaDataFusionMetricsSnapshot) list"

fun snapshot_set_loop ::
    "(DeltaProviderReadStatsHandle \<times> DeltaDataFusionMetricsSnapshot) list \<Rightarrow> snapshot_set
       \<Rightarrow> snapshot_set" where
  "snapshot_set_loop [] unique = unique"
| "snapshot_set_loop ((h, snapshot) # rest) unique =
     (if list_ex (\<lambda>(existing, _). handle_same_instance existing h) unique
      then snapshot_set_loop rest unique
      else snapshot_set_loop rest (unique @ [(h, snapshot)]))"

definition delta_provider_read_stats_snapshot_set ::
    "DeltaProviderReadStatsHandle list \<Rightarrow> DeltaDataFusionMetricsSnapshot list \<Rightarrow> snapshot_set" where
  "delta_provider_read_stats_snapshot_set handles snapshots =
     snapshot_set_loop (zip handles snapshots) []"

definition find_snapshot ::
    "DeltaProviderReadStatsHandle \<Rightarrow> snapshot_set \<Rightarrow> DeltaDataFusionMetricsSnapshot option" where
  "find_snapshot h snapshots =
     map_option snd (find (\<lambda>(candidate, _). handle_same_instance candidate h) snapshots)"

definition provider_snapshot ::
    "'i plan_engine \<Rightarrow> 'i ExecutionPlan \<Rightarrow> snapshot_set option \<Rightarrow> snapshot_set
       \<Rightarrow> (string option \<times> DeltaDataFusionMetricsSnapshot) option \<times> snapshot_set" where
  "provider_snapshot pe plan supplied fallback =
     (case delta_datafusion_metrics_for_plan pe plan of
        None \<Rightarrow> (None, fallback)
      | Some h \<Rightarrow>
          (case supplied of
             Some snapshots \<Rightarrow>
               (map_option (\<lambda>snapshot. (handle_source_name h, snapshot)) (find_snapshot h snapshots),
                fallback)
           | None \<Rightarrow>
               (case find_snapshot h fallback of
                  Some snapshot \<Rightarrow> (Some (handle_source_name h, snapshot), fallback)
                | None \<Rightarrow>
                    (let snapshot = handle_snapshot h
                     in (Some (handle_source_name h, snapshot), fallback @ [(h, snapshot)])))))"

definition operator_profile ::
    "'i plan_engine \<Rightarrow> 'i plan_metrics_api \<Rightarrow> 'i ExecutionPlan \<Rightarrow> u64 \<Rightarrow> u64 option
       \<Rightarrow> (string option \<times> DeltaDataFusionMetricsSnapshot) option \<Rightarrow> QueryExecutionOperatorProfile" where
  "operator_profile pe pm plan node_id parent_node_id provider =
     (case (case pm_metrics pm plan of
              Some metrics \<Rightarrow> (True, collect_query_execution_metrics pm metrics)
            | None \<Rightarrow> (False, ([], []))) of
        (available, aggregated, raw) \<Rightarrow>
          \<lparr>op_node_id = node_id, op_parent_node_id = parent_node_id,
           op_operator_name = pm_operator_name pm plan,
           op_output_partition_count = usize_to_u64_saturating (plan_partition_count pe plan),
           op_metrics_available = available, op_aggregated_metrics = aggregated, op_metrics = raw,
           op_delta_provider_source_name = Option.bind provider fst,
           op_delta_provider_read_stats = map_option snd provider\<rparr>)"

text \<open>
  The loop over the stack of plans to visit; the last entry of the code's vector is the head of
  the list, so that a node's first child is the next plan to visit.
\<close>

lemma sum_size_children:
  "sum_list (map size (plan_children plan)) < size plan"
proof (cases plan)
  case (PlanNode i x cs)
  have "sum_list (map size cs) \<le> size_list size cs"
    by (induction cs) simp_all
  with PlanNode show ?thesis by simp
qed

function profile_loop ::
    "'i plan_engine \<Rightarrow> 'i plan_metrics_api \<Rightarrow> snapshot_set option \<Rightarrow> ('i ExecutionPlan \<times> u64 option) list
       \<Rightarrow> nat set \<Rightarrow> snapshot_set \<Rightarrow> QueryExecutionOperatorProfile list
       \<Rightarrow> QueryExecutionOperatorProfile list" where
  "profile_loop pe pm supplied [] seen fallback operators = operators"
| "profile_loop pe pm supplied ((plan, parent_node_id) # stack) seen fallback operators =
     (if plan_identity plan \<in> seen then profile_loop pe pm supplied stack seen fallback operators
      else
        (let node_id = usize_to_u64_saturating (length operators) in
         case provider_snapshot pe plan supplied fallback of
           (provider, fallback') \<Rightarrow>
             profile_loop pe pm supplied
               (map (\<lambda>child. (child, Some node_id)) (plan_children plan) @ stack)
               (insert (plan_identity plan) seen) fallback'
               (operators @ [operator_profile pe pm plan node_id parent_node_id provider])))"
  by pat_completeness auto
termination
proof (relation "measure (\<lambda>(pe, pm, supplied, stack, seen, fallback, operators).
    sum_list (map (size \<circ> fst) stack) + length stack)", goal_cases)
  case (2 pe pm supplied plan parent stack seen fallback operators)
  then show ?case by (cases plan) simp
next
  case (3 pe pm supplied plan)
  have "sum_list (map size (plan_children plan)) + length (plan_children plan) < Suc (size plan)"
  proof (cases plan)
    case (PlanNode i x cs)
    have "sum_list (map size cs) + length cs = size_list size cs"
      by (induction cs) simp_all
    with PlanNode show ?thesis by simp
  qed
  then show ?case by (simp add: comp_def)
qed simp

definition collect_query_execution_profile ::
    "'i plan_engine \<Rightarrow> 'i plan_metrics_api \<Rightarrow> 'i ExecutionPlan \<Rightarrow> QueryExecutionScope
       \<Rightarrow> QueryExecutionOutcome \<Rightarrow> u64 \<Rightarrow> snapshot_set option \<Rightarrow> QueryExecutionProfile" where
  "collect_query_execution_profile pe pm root scope outcome row_limit supplied =
     (let operators = profile_loop pe pm supplied [(root, None)] {} [] [] in
      case scope of
        Preview \<Rightarrow> profile_preview outcome row_limit operators
      | MssqlOutput \<Rightarrow> profile_mssql_output outcome operators
      | WriteAllCacheAlias \<Rightarrow> profile_write_all_cache_alias outcome operators)"

text \<open>
  \<open>QueryExecutionProfileConsumer\<close> keeps the plan until the execution ends. Its result is a cell
  that is filled once: here \<open>consume_terminal\<close> maps the content of the cell to its new content.
\<close>

record 'i QueryExecutionProfileConsumer =
  pc_root :: "'i ExecutionPlan"
  pc_scope :: QueryExecutionScope
  pc_delta_funnel_row_limit :: "u64 option"

definition consume_terminal ::
    "'i plan_engine \<Rightarrow> 'i plan_metrics_api \<Rightarrow> 'i QueryExecutionProfileConsumer
       \<Rightarrow> QueryExecutionOutcome \<Rightarrow> snapshot_set \<Rightarrow> QueryExecutionProfile option
       \<Rightarrow> QueryExecutionProfile option" where
  "consume_terminal pe pm consumer outcome snapshots cell =
     (case cell of
        Some profile \<Rightarrow> Some profile
      | None \<Rightarrow> Some (collect_query_execution_profile pe pm (pc_root consumer) (pc_scope consumer)
                 outcome (case pc_delta_funnel_row_limit consumer of None \<Rightarrow> 0 | Some n \<Rightarrow> n)
                 (Some snapshots)))"

subsection \<open>The order is a sort by key\<close>

text \<open>
  The chain of comparisons is the lexicographic order of the keys below, so that the converted
  metrics are the stable sort of the metrics by that key.
\<close>

fun value_key :: "QueryExecutionMetricValue \<Rightarrow> int list" where
  "value_key (Count v) = [uint v]"
| "value_key (Bytes v) = [uint v]"
| "value_key (Nanoseconds v) = [uint v]"
| "value_key (Gauge v) = [uint v]"
| "value_key (Custom v) = [uint v]"
| "value_key (TimestampNanoseconds t) = (case t of None \<Rightarrow> [] | Some v \<Rightarrow> [sint v])"
| "value_key (Pruning a b c) = [uint a, uint b, uint c]"
| "value_key (Ratio a b) = [uint a, uint b]"

type_synonym metric_key =
  "nat \<times> string \<times> u64 option \<times> u64 option \<times> string \<times> int list \<times> nat"

definition metric_key :: "nat \<times> QueryExecutionMetric \<Rightarrow> metric_key" where
  "metric_key e =
     (metric_category_rank (qm_category (snd e)), qm_name (snd e), qm_partition (snd e),
      qm_output_partition (snd e), QueryExecutionMetricValue_value_kind (qm_value (snd e)),
      value_key (qm_value (snd e)), fst e)"

lemma cmp_Pair: "cmp (a, b) (c, d) = then_with (cmp a c) (cmp b d)"
  by (simp add: cmp_def)

lemma cmp_Equal [simp]: "cmp a b = Equal \<longleftrightarrow> a = b"
  by (simp add: cmp_def)

lemma cmp_refl [simp]: "cmp a a = Equal"
  by simp

lemma cmp_Cons: "cmp (a # as) (b # bs) = then_with (cmp a b) (cmp as bs)"
  by (auto simp: cmp_def)

lemma cmp_uint: "cmp (uint a) (uint b) = cmp a b"
  by (auto simp: cmp_def word_less_def intro: word_uint_eqI)

lemma then_with_assoc: "then_with (then_with a b) c = then_with a (then_with b c)"
  by (cases a) simp_all

lemma then_with_Equal [simp]: "then_with a Equal = a"
  by (cases a) simp_all

lemma compare_metric_values_key:
  assumes "QueryExecutionMetricValue_value_kind l = QueryExecutionMetricValue_value_kind r"
  shows "compare_metric_values l r = cmp (value_key l) (value_key r)"
  using assms
  by (cases l; cases r)
     (simp_all add: cmp_Cons cmp_Pair cmp_uint split: option.split, auto simp: cmp_def)

lemma compare_entries_key: "compare_entries a b = cmp (metric_key a) (metric_key b)"
proof -
  let ?l = "qm_value (snd a)" and ?r = "qm_value (snd b)"
  have "then_with (cmp (QueryExecutionMetricValue_value_kind ?l) (QueryExecutionMetricValue_value_kind ?r))
      (then_with (compare_metric_values ?l ?r) c) =
    then_with (cmp (QueryExecutionMetricValue_value_kind ?l) (QueryExecutionMetricValue_value_kind ?r))
      (then_with (cmp (value_key ?l) (value_key ?r)) c)" for c
    by (cases "QueryExecutionMetricValue_value_kind ?l = QueryExecutionMetricValue_value_kind ?r")
       (simp_all add: compare_metric_values_key, simp add: cmp_def)
  then show ?thesis
    by (simp add: compare_entries_def metric_key_def cmp_Pair Let_def)
qed

lemma sort_by_key:
  assumes "\<And>a b. c a b = cmp (f a) (f b)"
  shows "sort_by c xs = sort_key f xs"
proof -
  have "c x y = Greater \<longleftrightarrow> \<not> f x \<le> f y" for x y
    by (auto simp: assms cmp_def)
  then have "insert_by c x ys = insort_key f x ys" for x ys
    by (induction ys) auto
  then show ?thesis
    by (induction xs) (simp_all add: sort_by_def)
qed

lemma convert_metrics_sorted:
  "convert_metrics metrics aggregated =
     map snd (sort_key metric_key
       (map (\<lambda>(position, m). (position, convert_metric m aggregated)) (List.enumerate 0 metrics)))"
  by (simp add: convert_metrics_def sort_by_key [OF compare_entries_key])

subsection \<open>Every operator once\<close>

text \<open>
  \<open>profiled nodes ops\<close>: the operators \<open>ops\<close> describe the nodes \<open>nodes\<close>, in order, numbered from
  zero, and a parent is an earlier node that has the node among its children.
\<close>

definition parent_ok ::
    "'i ExecutionPlan list \<Rightarrow> 'i ExecutionPlan \<Rightarrow> u64 option \<Rightarrow> bool" where
  "parent_ok nodes plan parent \<longleftrightarrow>
     (case parent of
        None \<Rightarrow> nodes = []
      | Some p \<Rightarrow> \<exists>j < length nodes. p = usize_to_u64_saturating j \<and> plan \<in> set (plan_children (nodes ! j)))"

definition describes ::
    "'i plan_engine \<Rightarrow> 'i plan_metrics_api \<Rightarrow> snapshot_set \<Rightarrow> nat \<Rightarrow> 'i ExecutionPlan
       \<Rightarrow> QueryExecutionOperatorProfile \<Rightarrow> bool" where
  "describes pe pm supplied i plan op \<longleftrightarrow>
     op_node_id op = usize_to_u64_saturating i \<and> op_operator_name op = pm_operator_name pm plan \<and>
     op_output_partition_count op = usize_to_u64_saturating (plan_partition_count pe plan) \<and>
     op_delta_provider_read_stats op =
       Option.bind (delta_datafusion_metrics_for_plan pe plan) (\<lambda>h. find_snapshot h supplied)"

definition profiled ::
    "'i plan_engine \<Rightarrow> 'i plan_metrics_api \<Rightarrow> snapshot_set \<Rightarrow> 'i ExecutionPlan list
       \<Rightarrow> QueryExecutionOperatorProfile list \<Rightarrow> bool" where
  "profiled pe pm supplied nodes ops \<longleftrightarrow>
     length ops = length nodes \<and>
     (\<forall>i < length nodes. describes pe pm supplied i (nodes ! i) (ops ! i) \<and>
        parent_ok (take i nodes) (nodes ! i) (op_parent_node_id (ops ! i)))"

lemma operator_profile_describes:
  assumes "provider_snapshot pe plan (Some supplied) fallback = (provider, fallback')"
  shows "describes pe pm supplied i plan
      (operator_profile pe pm plan (usize_to_u64_saturating i) parent provider)"
    and "op_parent_node_id (operator_profile pe pm plan node_id parent provider) = parent"
  using assms
  by (auto simp: describes_def operator_profile_def provider_snapshot_def option.map_comp comp_def
      option.map_ident split: option.splits prod.splits)

lemma profiled_snoc:
  assumes "profiled pe pm supplied nodes ops" "describes pe pm supplied (length nodes) plan op"
    and "parent_ok nodes plan (op_parent_node_id op)"
  shows "profiled pe pm supplied (nodes @ [plan]) (ops @ [op])"
  using assms by (auto simp: profiled_def nth_append less_Suc_eq)

text \<open>
  The invariant of the loop: the nodes visited so far are distinct and profiled, the stack holds
  nodes of the plan with visited parents, and the children of a visited node are visited or on
  the stack.
\<close>

definition visiting ::
    "'i ExecutionPlan \<Rightarrow> 'i ExecutionPlan list \<Rightarrow> ('i ExecutionPlan \<times> u64 option) list \<Rightarrow> nat set \<Rightarrow> bool" where
  "visiting U nodes stack seen \<longleftrightarrow>
     distinct (map plan_identity nodes) \<and> seen = plan_identity ` set nodes \<and>
     set nodes \<subseteq> plan_nodes U \<and> fst ` set stack \<subseteq> plan_nodes U \<and>
     (\<forall>p \<in> set nodes. set (plan_children p) \<subseteq> set nodes \<union> fst ` set stack) \<and>
     U \<in> set nodes \<union> fst ` set stack \<and>
     (\<forall>p parent. (p, parent) \<in> set stack \<longrightarrow> parent_ok nodes p parent)"

lemma parent_ok_snoc:
  "parent_ok nodes p (Some j) \<Longrightarrow> parent_ok (nodes @ ms) p (Some j)"
  by (auto simp: parent_ok_def nth_append)

lemma visitingD:
  assumes "visiting U nodes stack seen"
  shows "distinct (map plan_identity nodes)" "seen = plan_identity ` set nodes"
    "set nodes \<subseteq> plan_nodes U" "fst ` set stack \<subseteq> plan_nodes U"
    "p \<in> set nodes \<Longrightarrow> set (plan_children p) \<subseteq> set nodes \<union> fst ` set stack"
    "U \<in> set nodes \<union> fst ` set stack" "(p, parent) \<in> set stack \<Longrightarrow> parent_ok nodes p parent"
  using assms by (simp_all add: visiting_def)

lemma visitingI:
  assumes "distinct (map plan_identity nodes)" "seen = plan_identity ` set nodes"
    "set nodes \<subseteq> plan_nodes U" "fst ` set stack \<subseteq> plan_nodes U"
    "\<And>p. p \<in> set nodes \<Longrightarrow> set (plan_children p) \<subseteq> set nodes \<union> fst ` set stack"
    "U \<in> set nodes \<union> fst ` set stack"
    "\<And>p parent. (p, parent) \<in> set stack \<Longrightarrow> parent_ok nodes p parent"
  shows "visiting U nodes stack seen"
  using assms by (simp add: visiting_def)

lemma visiting_skip:
  assumes "identities_consistent U" "visiting U nodes ((plan, parent) # stack) seen"
    and "plan_identity plan \<in> seen"
  shows "visiting U nodes stack seen"
proof -
  note v = visitingD [OF assms(2)]
  obtain p where p: "p \<in> set nodes" "plan_identity plan = plan_identity p"
    using assms(3) v(2) by blast
  with v(3,4) same_identity [OF assms(1), of p plan] have "plan \<in> set nodes"
    by auto
  then have "set nodes \<union> fst ` set ((plan, parent) # stack) = set nodes \<union> fst ` set stack"
    by auto
  note eq = this
  show ?thesis
    using v(1-4,7) v(5,6) [unfolded eq] by (intro visitingI) simp_all
qed

lemma visiting_step:
  assumes "visiting U nodes ((plan, parent) # stack) seen" "plan_identity plan \<notin> seen"
    and "nodes = [] \<longrightarrow> stack = []"
  shows "visiting U (nodes @ [plan])
     (map (\<lambda>child. (child, Some (usize_to_u64_saturating (length nodes)))) (plan_children plan) @ stack)
     (insert (plan_identity plan) seen)" (is "visiting U ?nodes ?stack ?seen")
proof (rule visitingI)
  note v = visitingD [OF assms(1)]
  have stack: "fst ` set ?stack = set (plan_children plan) \<union> fst ` set stack"
    by (simp add: image_Un image_image)
  show "distinct (map plan_identity ?nodes)" "?seen = plan_identity ` set ?nodes"
    using v(1,2) assms(2) by simp_all
  have plan: "plan \<in> plan_nodes U"
    using v(4) by simp
  then show "set ?nodes \<subseteq> plan_nodes U"
    using v(3) by simp
  show "fst ` set ?stack \<subseteq> plan_nodes U"
    unfolding stack using v(4) plan_nodes_closed [OF plan] by auto
  show "set (plan_children p) \<subseteq> set ?nodes \<union> fst ` set ?stack" if "p \<in> set ?nodes" for p
    unfolding stack using that v(5) [of p] by auto
  show "U \<in> set ?nodes \<union> fst ` set ?stack"
    unfolding stack using v(6) by auto
  show "parent_ok ?nodes p q" if "(p, q) \<in> set ?stack" for p q
  proof (cases "(p, q) \<in> set stack")
    case True
    then have "parent_ok nodes p q"
      using v(7) by simp
    moreover have "nodes \<noteq> []"
      using True assms(3) by auto
    ultimately show ?thesis
      by (cases q) (simp add: parent_ok_def, metis parent_ok_snoc)
  next
    case False
    with that show ?thesis
      by (auto simp: parent_ok_def intro!: exI [of _ "length nodes"])
  qed
qed

lemma visiting_done:
  assumes "visiting U nodes [] seen"
  shows "set nodes = plan_nodes U"
proof -
  have "q \<in> set nodes" if "p \<in> set nodes" "q \<in> plan_nodes p" for p q
    using that
  proof (induction p)
    case (PlanNode i x cs)
    moreover have "set cs \<subseteq> set nodes"
      using visitingD(5) [OF assms PlanNode.prems(1)] by simp
    ultimately show ?case by auto
  qed
  with visitingD(3,6) [OF assms] show ?thesis by auto
qed

lemma profile_loop_profiled:
  assumes "identities_consistent U" "visiting U nodes stack seen" "profiled pe pm supplied nodes ops"
    and "nodes = [] \<longrightarrow> length stack = 1"
  shows "\<exists>nodes'. profiled pe pm supplied nodes' (profile_loop pe pm (Some supplied) stack seen fallback ops) \<and>
      distinct nodes' \<and> set nodes' = plan_nodes U"
  using assms(2-)
proof (induction pe pm "Some supplied" stack seen fallback ops arbitrary: nodes rule: profile_loop.induct)
  case (1 pe pm seen fallback ops)
  then show ?case
    using visiting_done [OF 1(1)] visitingD(1) [OF 1(1)] by (auto simp: distinct_map)
next
  case (2 pe pm plan parent stack seen fallback ops)
  show ?case
  proof (cases "plan_identity plan \<in> seen")
    case True
    moreover have "nodes \<noteq> []"
      using True visitingD(2) [OF 2(3)] by auto
    ultimately show ?thesis
      using 2(1) [OF True visiting_skip [OF assms(1) 2(3) True] 2(4)] by simp
  next
    case False
    obtain provider fallback' where p: "provider_snapshot pe plan (Some supplied) fallback = (provider, fallback')"
      by (metis surj_pair)
    have len: "length ops = length nodes"
      using 2(4) by (simp add: profiled_def)
    have "parent_ok nodes plan parent"
      using visitingD(7) [OF 2(3)] by simp
    with profiled_snoc [OF 2(4)] operator_profile_describes [OF p]
    have step: "profiled pe pm supplied (nodes @ [plan])
        (ops @ [operator_profile pe pm plan (usize_to_u64_saturating (length ops)) parent provider])"
      by (simp add: len)
    have "nodes = [] \<longrightarrow> stack = []"
      using 2(5) by simp
    from 2(2) [OF False refl p [symmetric] visiting_step [OF 2(3) False this, folded len] step] p False
    show ?thesis by (simp add: Let_def)
  qed
qed

lemma profile_describes_plan:
  assumes "identities_consistent root"
  shows "\<exists>nodes. distinct nodes \<and> set nodes = plan_nodes root \<and>
    profiled pe pm snapshots nodes
      (qp_operators (collect_query_execution_profile pe pm root scope outcome limit (Some snapshots)))"
proof -
  have "visiting root [] [(root, None)] {}" "profiled pe pm snapshots [] []"
    by (simp_all add: visiting_def parent_ok_def profiled_def)
  from profile_loop_profiled [OF assms this, of "[]"] show ?thesis
    by (cases scope)
       (auto simp: collect_query_execution_profile_def profile_preview_def profile_mssql_output_def
          profile_write_all_cache_alias_def Let_def)
qed

end
