(* ===== verification/DF_Query_Tracking.thy ===== *)
theory DF_Query_Tracking
  imports DF_Execution_Profile DF_Progress
begin

section \<open>Tracking the execution of a query\<close>

text \<open>
  The stream wrappers of \<open>orchestrator/session/query_handoff.rs\<close> that observe a query while its
  batches are consumed: the terminal stream of a merged execution, the streams of a partitioned
  execution with their shared coordinator, and the sampler of file progress.

  A wrapper is a state machine driven by what its inner stream answers to a poll and by being
  dropped. What it leaves behind is an \<open>execution_log\<close>: the scan counters retained for the
  source report, the scan summaries given to the observability layer and the published profile.
  The counters of a scan are live in the code; a \<^typ>\<open>ScanMetrics\<close> holds what they read when the
  execution ends, and the sampler receives the counters of the moment as an argument.
\<close>

datatype DeltaProviderScanOutcome = Success | Error | Cancelled

fun query_execution_outcome :: "DeltaProviderScanOutcome \<Rightarrow> QueryExecutionOutcome" where
  "query_execution_outcome Success = QueryExecutionOutcome.Success"
| "query_execution_outcome Error = QueryExecutionOutcome.Error"
| "query_execution_outcome Cancelled = QueryExecutionOutcome.Cancelled"

record execution_log =
  el_retained :: "NamedDeltaDataFusionMetricsSnapshot list"
  el_summaries :: "(string option \<times> DeltaDataFusionMetricsSnapshot \<times> DeltaProviderScanOutcome) list"
  el_profile :: "QueryExecutionProfile option"

definition retained_snapshots :: "snapshot_set \<Rightarrow> NamedDeltaDataFusionMetricsSnapshot list" where
  "retained_snapshots snapshots =
     map (\<lambda>(h, snapshot).
       \<lparr>nm_source_name = (case handle_source_name h of None \<Rightarrow> [] | Some n \<Rightarrow> n),
        nm_snapshot = snapshot\<rparr>) snapshots"

definition finalize_tracked_query_execution ::
    "'i plan_engine \<Rightarrow> 'i plan_metrics_api \<Rightarrow> DeltaProviderReadStatsHandle list \<Rightarrow> bool
       \<Rightarrow> 'i QueryExecutionProfileConsumer option \<Rightarrow> DeltaProviderScanOutcome
       \<Rightarrow> execution_log \<Rightarrow> execution_log" where
  "finalize_tracked_query_execution pe pm handles retains consumer outcome log =
     (let snapshots = snapshot_delta_provider_read_stats handles;
          terminal = delta_provider_read_stats_snapshot_set handles snapshots
      in if terminal = [] \<and> consumer = None then log
         else
           \<lparr>el_retained = el_retained log @ (if retains then retained_snapshots terminal else []),
            el_summaries = el_summaries log
              @ map (\<lambda>(h, snapshot). (handle_source_name h, snapshot, outcome)) terminal,
            el_profile = (case consumer of
               None \<Rightarrow> el_profile log
             | Some c \<Rightarrow> consume_terminal pe pm c (query_execution_outcome outcome) terminal
                         (el_profile log))\<rparr>)"

subsection \<open>A merged execution\<close>

text \<open>The answer of a stream to a poll.\<close>

datatype ('e, 'b) poll = Pending | ReadyNone | ReadyErr 'e | ReadyOk 'b

datatype ('e, 'b) stream_event = Polled "('e, 'b) poll" | Dropped

record 'i QueryExecutionTerminalStream =
  qs_read_stats_handles :: "DeltaProviderReadStatsHandle list option"
  qs_provider_stats_snapshots :: bool
  qs_profile_consumer :: "'i QueryExecutionProfileConsumer option"

definition QueryExecutionTerminalStream_new ::
    "DeltaProviderReadStatsHandle list \<Rightarrow> bool \<Rightarrow> 'i QueryExecutionProfileConsumer option
       \<Rightarrow> 'i QueryExecutionTerminalStream" where
  "QueryExecutionTerminalStream_new handles retains consumer =
     \<lparr>qs_read_stats_handles = Some handles, qs_provider_stats_snapshots = retains,
      qs_profile_consumer = consumer\<rparr>"

definition finalize_if_needed ::
    "'i plan_engine \<Rightarrow> 'i plan_metrics_api \<Rightarrow> DeltaProviderScanOutcome
       \<Rightarrow> 'i QueryExecutionTerminalStream \<times> execution_log
       \<Rightarrow> 'i QueryExecutionTerminalStream \<times> execution_log" where
  "finalize_if_needed pe pm outcome st =
     (case qs_read_stats_handles (fst st) of
        None \<Rightarrow> st
      | Some handles \<Rightarrow>
          (\<lparr>qs_read_stats_handles = None, qs_provider_stats_snapshots = False,
            qs_profile_consumer = None\<rparr>,
           finalize_tracked_query_execution pe pm handles (qs_provider_stats_snapshots (fst st))
             (qs_profile_consumer (fst st)) outcome (snd st)))"

fun terminal_stream_step ::
    "'i plan_engine \<Rightarrow> 'i plan_metrics_api \<Rightarrow> ('e, 'b) stream_event
       \<Rightarrow> 'i QueryExecutionTerminalStream \<times> execution_log
       \<Rightarrow> 'i QueryExecutionTerminalStream \<times> execution_log" where
  "terminal_stream_step pe pm (Polled ReadyNone) st = finalize_if_needed pe pm Success st"
| "terminal_stream_step pe pm (Polled (ReadyErr e)) st = finalize_if_needed pe pm Error st"
| "terminal_stream_step pe pm (Polled (ReadyOk b)) st = st"
| "terminal_stream_step pe pm (Polled Pending) st = st"
| "terminal_stream_step pe pm Dropped st = finalize_if_needed pe pm Cancelled st"

text \<open>The outcome of one stream is decided by its first terminal event.\<close>

fun event_outcome :: "('e, 'b) stream_event \<Rightarrow> DeltaProviderScanOutcome option" where
  "event_outcome (Polled ReadyNone) = Some Success"
| "event_outcome (Polled (ReadyErr e)) = Some Error"
| "event_outcome (Polled (ReadyOk b)) = None"
| "event_outcome (Polled Pending) = None"
| "event_outcome Dropped = Some Cancelled"

definition stream_outcome :: "('e, 'b) stream_event list \<Rightarrow> DeltaProviderScanOutcome option" where
  "stream_outcome events = find_map event_outcome events"

lemma terminal_stream_step_outcome:
  "terminal_stream_step pe pm ev st =
     (case event_outcome ev of None \<Rightarrow> st | Some outcome \<Rightarrow> finalize_if_needed pe pm outcome st)"
  by (cases "(pe, pm, ev, st)" rule: terminal_stream_step.cases) simp_all

lemma terminal_stream_finished:
  assumes "qs_read_stats_handles (fst st) = None"
  shows "fold (terminal_stream_step pe pm) events st = st"
  using assms
  by (induction events) (simp_all add: terminal_stream_step_outcome finalize_if_needed_def split: option.split)

lemma terminal_stream_finalizes:
  "snd (fold (terminal_stream_step pe pm) events (QueryExecutionTerminalStream_new handles retains consumer, log)) =
     (case stream_outcome events of
        None \<Rightarrow> log
      | Some outcome \<Rightarrow> finalize_tracked_query_execution pe pm handles retains consumer outcome log)"
proof (induction events)
  case (Cons ev events)
  then show ?case
    by (cases "event_outcome ev")
       (simp_all add: stream_outcome_def terminal_stream_step_outcome [of pe pm ev] finalize_if_needed_def
          QueryExecutionTerminalStream_new_def terminal_stream_finished)
qed (simp add: stream_outcome_def)

subsection \<open>A partitioned execution\<close>

record 'i PartitionExecutionState =
  ps_remaining_streams :: nat
  ps_outcome :: DeltaProviderScanOutcome
  ps_read_stats_handles :: "DeltaProviderReadStatsHandle list"
  ps_profile_consumer :: "'i QueryExecutionProfileConsumer option"

definition PartitionExecutionCoordinator_new ::
    "DeltaProviderReadStatsHandle list \<Rightarrow> 'i QueryExecutionProfileConsumer option \<Rightarrow> nat
       \<Rightarrow> 'i PartitionExecutionState" where
  "PartitionExecutionCoordinator_new handles consumer stream_count =
     \<lparr>ps_remaining_streams = stream_count, ps_outcome = Success, ps_read_stats_handles = handles,
      ps_profile_consumer = consumer\<rparr>"

fun strongest_provider_scan_outcome ::
    "DeltaProviderScanOutcome \<Rightarrow> DeltaProviderScanOutcome \<Rightarrow> DeltaProviderScanOutcome" where
  "strongest_provider_scan_outcome Error _ = Error"
| "strongest_provider_scan_outcome _ Error = Error"
| "strongest_provider_scan_outcome Cancelled _ = Cancelled"
| "strongest_provider_scan_outcome _ Cancelled = Cancelled"
| "strongest_provider_scan_outcome _ _ = Success"

definition state_record_stream_terminal ::
    "DeltaProviderScanOutcome \<Rightarrow> 'i PartitionExecutionState
       \<Rightarrow> (DeltaProviderReadStatsHandle list \<times> 'i QueryExecutionProfileConsumer option
             \<times> DeltaProviderScanOutcome) option \<times> 'i PartitionExecutionState" where
  "state_record_stream_terminal outcome st =
     (if ps_remaining_streams st = 0 then (None, st)
      else
        (let st1 = st\<lparr>ps_outcome := strongest_provider_scan_outcome (ps_outcome st) outcome,
                      ps_remaining_streams := ps_remaining_streams st - 1\<rparr>
         in if ps_remaining_streams st1 \<noteq> 0 then (None, st1)
            else (Some (ps_read_stats_handles st1, ps_profile_consumer st1, ps_outcome st1),
                  st1\<lparr>ps_read_stats_handles := [], ps_profile_consumer := None\<rparr>)))"

definition record_stream_terminal ::
    "'i plan_engine \<Rightarrow> 'i plan_metrics_api \<Rightarrow> DeltaProviderScanOutcome
       \<Rightarrow> 'i PartitionExecutionState \<times> execution_log \<Rightarrow> 'i PartitionExecutionState \<times> execution_log" where
  "record_stream_terminal pe pm outcome c =
     (case state_record_stream_terminal outcome (fst c) of
        (None, st) \<Rightarrow> (st, snd c)
      | (Some (handles, consumer, final), st) \<Rightarrow>
          (st, finalize_tracked_query_execution pe pm handles False consumer final (snd c)))"

text \<open>
  The streams of a partitioned execution, which poll in any order: \<open>pe_attached\<close> tells for each
  stream whether it still holds its coordinator, and an event names the stream it concerns.
\<close>

record 'i partitioned_execution =
  px_attached :: "bool list"
  px_coordinator :: "'i PartitionExecutionState"
  px_log :: execution_log

definition track_partitioned_query_execution_completion ::
    "'i plan_engine \<Rightarrow> 'i plan_metrics_api \<Rightarrow> nat \<Rightarrow> DeltaProviderReadStatsHandle list
       \<Rightarrow> 'i QueryExecutionProfileConsumer option \<Rightarrow> execution_log \<Rightarrow> 'i partitioned_execution" where
  "track_partitioned_query_execution_completion pe pm stream_count handles consumer log =
     (if handles = [] \<and> consumer = None then
        \<lparr>px_attached = replicate stream_count False,
         px_coordinator = PartitionExecutionCoordinator_new [] None 0, px_log = log\<rparr>
      else if stream_count = 0 then
        \<lparr>px_attached = [], px_coordinator = PartitionExecutionCoordinator_new [] None 0,
         px_log = finalize_tracked_query_execution pe pm handles False consumer Success log\<rparr>
      else
        \<lparr>px_attached = replicate stream_count True,
         px_coordinator = PartitionExecutionCoordinator_new handles consumer stream_count,
         px_log = log\<rparr>)"

definition record_terminal_once ::
    "'i plan_engine \<Rightarrow> 'i plan_metrics_api \<Rightarrow> nat \<Rightarrow> DeltaProviderScanOutcome
       \<Rightarrow> 'i partitioned_execution \<Rightarrow> 'i partitioned_execution" where
  "record_terminal_once pe pm i outcome px =
     (if i < length (px_attached px) \<and> px_attached px ! i then
        (case record_stream_terminal pe pm outcome (px_coordinator px, px_log px) of
           (coordinator, log) \<Rightarrow>
             \<lparr>px_attached = (px_attached px)[i := False], px_coordinator = coordinator, px_log = log\<rparr>)
      else px)"

fun partition_stream_step ::
    "'i plan_engine \<Rightarrow> 'i plan_metrics_api \<Rightarrow> nat \<times> ('e, 'b) stream_event
       \<Rightarrow> 'i partitioned_execution \<Rightarrow> 'i partitioned_execution" where
  "partition_stream_step pe pm (i, Polled ReadyNone) px = record_terminal_once pe pm i Success px"
| "partition_stream_step pe pm (i, Polled (ReadyErr e)) px = record_terminal_once pe pm i Error px"
| "partition_stream_step pe pm (i, Polled (ReadyOk b)) px = px"
| "partition_stream_step pe pm (i, Polled Pending) px = px"
| "partition_stream_step pe pm (i, Dropped) px = record_terminal_once pe pm i Cancelled px"

text \<open>
  The outcome of the execution, by its streams: an error if one of them failed, cancelled if one
  of them was dropped early, and a success otherwise.
\<close>

definition strongest_of :: "DeltaProviderScanOutcome set \<Rightarrow> DeltaProviderScanOutcome" where
  "strongest_of outcomes =
     (if Error \<in> outcomes then Error else if Cancelled \<in> outcomes then Cancelled else Success)"

definition outcome_of_stream ::
    "nat \<Rightarrow> (nat \<times> ('e, 'b) stream_event) list \<Rightarrow> DeltaProviderScanOutcome option" where
  "outcome_of_stream i events = stream_outcome (map snd (filter (\<lambda>(j, _). j = i) events))"

definition outcomes_below ::
    "nat \<Rightarrow> (nat \<times> ('e, 'b) stream_event) list \<Rightarrow> DeltaProviderScanOutcome set" where
  "outcomes_below n events = {outcome. \<exists>i < n. outcome_of_stream i events = Some outcome}"

lemma strongest_of_insert:
  "strongest_provider_scan_outcome (strongest_of S) outcome = strongest_of (insert outcome S)"
  by (cases outcome) (auto simp: strongest_of_def)

lemma find_map_snoc: "find_map f (xs @ [x]) = (case find_map f xs of None \<Rightarrow> f x | Some y \<Rightarrow> Some y)"
  by (induction xs) (auto split: option.split)

lemma outcome_of_stream_snoc:
  "outcome_of_stream i (events @ [(j, ev)]) =
     (case outcome_of_stream i events of
        Some outcome \<Rightarrow> Some outcome
      | None \<Rightarrow> if i = j then event_outcome ev else None)"
  by (auto simp: outcome_of_stream_def stream_outcome_def find_map_snoc split: option.split)

lemma partition_stream_step_outcome:
  "partition_stream_step pe pm (i, ev) px =
     (case event_outcome ev of None \<Rightarrow> px | Some outcome \<Rightarrow> record_terminal_once pe pm i outcome px)"
  by (cases "(pe, pm, (i, ev), px)" rule: partition_stream_step.cases) simp_all

text \<open>The invariant: the coordinator counts the streams without outcome and joins the others'.\<close>

definition attached_of :: "nat \<Rightarrow> (nat \<times> ('e, 'b) stream_event) list \<Rightarrow> bool list" where
  "attached_of n events = map (\<lambda>i. outcome_of_stream i events = None) [0..<n]"

definition open_streams :: "nat \<Rightarrow> (nat \<times> ('e, 'b) stream_event) list \<Rightarrow> nat set" where
  "open_streams n events = {i. i < n \<and> outcome_of_stream i events = None}"

definition partition_inv ::
    "'i plan_engine \<Rightarrow> 'i plan_metrics_api \<Rightarrow> nat \<Rightarrow> DeltaProviderReadStatsHandle list
       \<Rightarrow> 'i QueryExecutionProfileConsumer option \<Rightarrow> execution_log
       \<Rightarrow> (nat \<times> ('e, 'b) stream_event) list \<Rightarrow> 'i partitioned_execution \<Rightarrow> bool" where
  "partition_inv pe pm n handles consumer log events px \<longleftrightarrow>
     px_attached px = attached_of n events \<and>
     ps_remaining_streams (px_coordinator px) = card (open_streams n events) \<and>
     (if open_streams n events \<noteq> {} then
        px_log px = log \<and> ps_read_stats_handles (px_coordinator px) = handles \<and>
        ps_profile_consumer (px_coordinator px) = consumer \<and>
        ps_outcome (px_coordinator px) = strongest_of (outcomes_below n events)
      else px_log px = finalize_tracked_query_execution pe pm handles False consumer
             (strongest_of (outcomes_below n events)) log)"

lemma finite_open_streams [simp]: "finite (open_streams n events)"
  by (simp add: open_streams_def)

lemma quiet_event:
  assumes "i \<notin> open_streams n events \<or> event_outcome ev = None"
  shows "attached_of n (events @ [(i, ev)]) = attached_of n events"
    "open_streams n (events @ [(i, ev)]) = open_streams n events"
    "outcomes_below n (events @ [(i, ev)]) = outcomes_below n events"
proof -
  have same: "outcome_of_stream j (events @ [(i, ev)]) = outcome_of_stream j events" if "j < n" for j
    using assms that by (auto simp: outcome_of_stream_snoc open_streams_def split: option.split)
  show "attached_of n (events @ [(i, ev)]) = attached_of n events"
    using same by (simp add: attached_of_def)
  show "open_streams n (events @ [(i, ev)]) = open_streams n events"
    using same by (auto simp: open_streams_def)
  show "outcomes_below n (events @ [(i, ev)]) = outcomes_below n events"
    using same by (auto simp: outcomes_below_def)
qed

lemma terminal_event:
  assumes "i \<in> open_streams n events" "event_outcome ev = Some outcome"
  shows "attached_of n (events @ [(i, ev)]) = (attached_of n events)[i := False]"
    "open_streams n (events @ [(i, ev)]) = open_streams n events - {i}"
    "outcomes_below n (events @ [(i, ev)]) = insert outcome (outcomes_below n events)"
proof -
  have upd: "outcome_of_stream j (events @ [(i, ev)]) =
      (if j = i then Some outcome else outcome_of_stream j events)" for j
    using assms by (auto simp: outcome_of_stream_snoc open_streams_def split: option.split)
  show "attached_of n (events @ [(i, ev)]) = (attached_of n events)[i := False]"
    by (rule nth_equalityI) (simp_all add: attached_of_def upd nth_list_update)
  show "open_streams n (events @ [(i, ev)]) = open_streams n events - {i}"
    by (auto simp: open_streams_def upd)
  show "outcomes_below n (events @ [(i, ev)]) = insert outcome (outcomes_below n events)"
  proof (rule set_eqI)
    fix x
    have "i < n" "outcome_of_stream i events = None"
      using assms(1) by (simp_all add: open_streams_def)
    then have "(\<exists>j < n. (if j = i then Some outcome else outcome_of_stream j events) = Some x) \<longleftrightarrow>
        x = outcome \<or> (\<exists>j < n. outcome_of_stream j events = Some x)"
      by (metis option.distinct(1) option.inject)
    then show "x \<in> outcomes_below n (events @ [(i, ev)]) \<longleftrightarrow> x \<in> insert outcome (outcomes_below n events)"
      by (simp add: outcomes_below_def upd)
  qed
qed

lemma attached_nth: "i < n \<Longrightarrow> attached_of n events ! i \<longleftrightarrow> i \<in> open_streams n events"
  by (simp add: attached_of_def open_streams_def)

lemma partition_inv_step:
  assumes inv: "partition_inv pe pm n handles consumer log events px"
  shows "partition_inv pe pm n handles consumer log (events @ [(i, ev)])
    (partition_stream_step pe pm (i, ev) px)"
proof (cases "event_outcome ev")
  case None
  with inv show ?thesis
    by (simp add: partition_inv_def partition_stream_step_outcome quiet_event)
next
  case (Some outcome)
  have att: "px_attached px = attached_of n events"
    using inv by (simp add: partition_inv_def)
  show ?thesis
  proof (cases "i \<in> open_streams n events")
    case False
    then have "\<not> (i < length (px_attached px) \<and> px_attached px ! i)"
      by (auto simp: att attached_of_def open_streams_def)
    then have "partition_stream_step pe pm (i, ev) px = px"
      by (simp only: partition_stream_step_outcome record_terminal_once_def Some option.case if_False)
    with inv False show ?thesis
      by (simp add: partition_inv_def quiet_event)
  next
    case True
    define R where "R = open_streams n events - {i}"
    have i: "i < length (px_attached px) \<and> px_attached px ! i"
      using True by (auto simp: att attached_of_def open_streams_def)
    have card: "card (open_streams n events) = Suc (card R)"
      using card.remove [OF finite_open_streams True] by (simp only: R_def)
    have c: "ps_remaining_streams (px_coordinator px) = Suc (card R)"
        "px_log px = log" "ps_read_stats_handles (px_coordinator px) = handles"
        "ps_profile_consumer (px_coordinator px) = consumer"
        "ps_outcome (px_coordinator px) = strongest_of (outcomes_below n events)"
      using inv [unfolded partition_inv_def] True unfolding card [symmetric]
      by (auto split: if_splits)
    have step: "partition_stream_step pe pm (i, ev) px = record_terminal_once pe pm i outcome px"
      by (simp add: partition_stream_step_outcome Some)
    note defs = record_terminal_once_def record_stream_terminal_def state_record_stream_terminal_def
      partition_inv_def terminal_event [OF True Some, folded R_def]
    show ?thesis
    proof (cases "R = {}")
      case True
      with i c show ?thesis
        unfolding step by (simp add: defs strongest_of_insert att)
    next
      case False
      then have "0 < card R" by (simp add: R_def card_gt_0_iff)
      with False i c show ?thesis unfolding step by (simp add: defs strongest_of_insert att)
    qed
  qed
qed

lemma no_events:
  "open_streams n [] = {0..<n}" "outcomes_below n [] = {}" "attached_of n [] = replicate n True"
  by (auto simp: open_streams_def outcomes_below_def attached_of_def outcome_of_stream_def
      stream_outcome_def map_replicate_const)

lemma partition_inv_run:
  assumes "0 < n" "handles \<noteq> [] \<or> consumer \<noteq> None"
  shows "partition_inv pe pm n handles consumer log events
    (fold (partition_stream_step pe pm) events
       (track_partitioned_query_execution_completion pe pm n handles consumer log))"
proof (induction events rule: rev_induct)
  case Nil
  from assms show ?case
    by (auto simp: partition_inv_def no_events track_partitioned_query_execution_completion_def
        PartitionExecutionCoordinator_new_def strongest_of_def)
next
  case (snoc x events)
  then show ?case
    using partition_inv_step by (cases x) fastforce
qed

lemma partitioned_execution_finalizes:
  assumes "0 < n" "handles \<noteq> [] \<or> consumer \<noteq> None"
  shows "px_log (fold (partition_stream_step pe pm) events
       (track_partitioned_query_execution_completion pe pm n handles consumer log)) =
     (if \<exists>i < n. outcome_of_stream i events = None then log
      else finalize_tracked_query_execution pe pm handles False consumer
             (strongest_of (outcomes_below n events)) log)"
proof -
  have "open_streams n events \<noteq> {} \<longleftrightarrow> (\<exists>i < n. outcome_of_stream i events = None)"
    by (auto simp: open_streams_def)
  with partition_inv_run [OF assms, of pe pm log events] show ?thesis
    by (auto simp: partition_inv_def)
qed

subsection \<open>File progress\<close>

record DeltaFileProgressSampler =
  fs_reporter :: ProgressReporter
  fs_phase :: ProgressPhase
  fs_output_name :: "string option"
  fs_last_file_progress :: "(u64 \<times> u64) option"

definition DeltaFileProgressSampler_new ::
    "ProgressReporter \<Rightarrow> ProgressPhase \<Rightarrow> string option \<Rightarrow> DeltaFileProgressSampler" where
  "DeltaFileProgressSampler_new reporter phase name =
     \<lparr>fs_reporter = reporter, fs_phase = phase, fs_output_name = name, fs_last_file_progress = None\<rparr>"

definition event_files_handled :: "ProgressEvent \<Rightarrow> u64 option" where
  "event_files_handled e = map_option fp_handled (event_file_progress e)"

definition event_files_total :: "ProgressEvent \<Rightarrow> u64 option" where
  "event_files_total e = map_option fp_total (event_file_progress e)"

definition zip_option :: "'a option \<Rightarrow> 'b option \<Rightarrow> ('a \<times> 'b) option" where
  "zip_option a b = (case (a, b) of (Some x, Some y) \<Rightarrow> Some (x, y) | _ \<Rightarrow> None)"

definition emit_if_changed ::
    "DeltaDataFusionMetricsSnapshot list \<Rightarrow> DeltaFileProgressSampler \<times> events
       \<Rightarrow> DeltaFileProgressSampler \<times> events" where
  "emit_if_changed snapshots st =
     (case st of (sampler, received) \<Rightarrow>
      case file_progress_from_provider_stats (fs_phase sampler) (fs_output_name sampler) snapshots of
        None \<Rightarrow> st
      | Some event \<Rightarrow>
          (case zip_option (event_files_handled event) (event_files_total event) of
             None \<Rightarrow> st
           | Some file_progress \<Rightarrow>
               if fs_last_file_progress sampler = Some file_progress then st
               else (sampler\<lparr>fs_last_file_progress := Some file_progress\<rparr>,
                     emit (fs_reporter sampler) event received)))"

text \<open>
  Polling the progress stream samples the counters of the moment after every ready answer of the
  inner stream, and not when it is pending.
\<close>

fun progress_stream_step ::
    "('e, 'b) poll \<times> DeltaDataFusionMetricsSnapshot list \<Rightarrow> DeltaFileProgressSampler \<times> events
       \<Rightarrow> DeltaFileProgressSampler \<times> events" where
  "progress_stream_step (ReadyNone, counters) st = emit_if_changed counters st"
| "progress_stream_step (ReadyErr e, counters) st = emit_if_changed counters st"
| "progress_stream_step (ReadyOk b, counters) st = emit_if_changed counters st"
| "progress_stream_step (Pending, counters) st = st"

text \<open>The counts of a sample, when the counters allow an event at all.\<close>

definition sampled_counts :: "DeltaDataFusionMetricsSnapshot list \<Rightarrow> (u64 \<times> u64) option" where
  "sampled_counts snapshots =
     map_option (\<lambda>p. (fp_handled p, fp_total p)) (DeltaFileProgress_from_provider_stats snapshots)"

lemma emit_if_changed_counts:
  "emit_if_changed snapshots (sampler, received) =
     (case sampled_counts snapshots of
        None \<Rightarrow> (sampler, received)
      | Some counts \<Rightarrow>
          if fs_last_file_progress sampler = Some counts then (sampler, received)
          else (sampler\<lparr>fs_last_file_progress := Some counts\<rparr>,
                emit (fs_reporter sampler)
                  (the (file_progress_from_provider_stats (fs_phase sampler) (fs_output_name sampler) snapshots))
                  received))"
  by (auto simp: emit_if_changed_def sampled_counts_def file_progress_from_provider_stats_def
      event_files_handled_def event_files_total_def event_file_progress_def zip_option_def Let_def
      split: option.split)

text \<open>
  The counts that reach the host are the sampled counts without consecutive repetitions.
\<close>

definition event_counts :: "ProgressEvent \<Rightarrow> (u64 \<times> u64) option" where
  "event_counts e = zip_option (event_files_handled e) (event_files_total e)"

lemma emit_file_progress:
  assumes "reporter_wf r" "pr_callback r" "sampled_counts snapshots = Some counts"
  shows "\<exists>e. emit r (the (file_progress_from_provider_stats phase name snapshots)) received =
      received @ [e] \<and> event_counts e = Some counts"
proof -
  obtain p where p: "DeltaFileProgress_from_provider_stats snapshots = Some p"
    "counts = (fp_handled p, fp_total p)"
    using assms(3) by (auto simp: sampled_counts_def)
  let ?s = "(ProgressSnapshot_new phase name)\<lparr>ss_file_progress := Some p\<rparr>"
  have e: "the (file_progress_from_provider_stats phase name snapshots) = ProgressEvent.Progress ?s"
    by (simp add: file_progress_from_provider_stats_def p)
  have counts: "event_counts (ProgressEvent.Progress s) = Some counts" if "ss_file_progress s = Some p" for s
    using that by (simp add: event_counts_def zip_option_def event_files_handled_def event_files_total_def
        event_file_progress_def p(2))
  show ?thesis
  proof (cases "pr_output_position r")
    case None
    with assms(2) counts show ?thesis by (simp add: emit_def e)
  next
    case (Some position)
    with assms(1) have "ProgressOutputPosition_new (po_index position) (po_count position) = Some position"
      by (simp add: reporter_wf_def position_new_iff)
    with Some assms(2) counts show ?thesis
      by (simp add: emit_def e with_output_position_def)
  qed
qed

fun changes :: "'a option \<Rightarrow> 'a list \<Rightarrow> 'a list" where
  "changes previous [] = []"
| "changes previous (x # xs) =
     (if previous = Some x then changes previous xs else x # changes (Some x) xs)"

lemma changes_Some: "a # changes (Some a) xs = remdups_adj (a # xs)"
  by (induction xs arbitrary: a) auto

lemma changes_None: "changes None xs = remdups_adj xs"
  by (cases xs) (simp_all add: changes_Some)

lemma sampled_changes:
  assumes "reporter_wf (fs_reporter sampler)" "pr_callback (fs_reporter sampler)"
  shows "\<exists>new. snd (fold emit_if_changed samples (sampler, received)) = received @ new \<and>
     map event_counts new =
       map Some (changes (fs_last_file_progress sampler) (List.map_filter sampled_counts samples))"
  using assms
proof (induction samples arbitrary: sampler received)
  case (Cons sample samples)
  show ?case
  proof (cases "sampled_counts sample")
    case None
    with Cons show ?thesis
      by (simp add: emit_if_changed_counts List.map_filter_simps)
  next
    case (Some counts)
    show ?thesis
    proof (cases "fs_last_file_progress sampler = Some counts")
      case True
      with Some Cons.IH [OF Cons.prems] show ?thesis
        by (simp add: emit_if_changed_counts List.map_filter_simps)
    next
      case False
      obtain e where e: "emit (fs_reporter sampler)
          (the (file_progress_from_provider_stats (fs_phase sampler) (fs_output_name sampler) sample))
          received = received @ [e]" "event_counts e = Some counts"
        using emit_file_progress [OF Cons.prems Some] by blast
      from Cons.IH [of "sampler\<lparr>fs_last_file_progress := Some counts\<rparr>" "received @ [e]"] Cons.prems
      obtain new where "snd (fold emit_if_changed samples
          (sampler\<lparr>fs_last_file_progress := Some counts\<rparr>, received @ [e])) = (received @ [e]) @ new"
          "map event_counts new = map Some (changes (Some counts) (List.map_filter sampled_counts samples))"
        by auto
      with e Some False show ?thesis
        by (intro exI [of _ "e # new"]) (simp add: emit_if_changed_counts List.map_filter_simps)
    qed
  qed
qed (simp add: List.map_filter_simps)

lemma sampler_reports_changes:
  assumes "reporter_wf reporter" "pr_callback reporter"
  shows "map event_counts (snd (fold emit_if_changed samples
      (DeltaFileProgressSampler_new reporter phase name, []))) =
    map Some (remdups_adj (List.map_filter sampled_counts samples))"
  using sampled_changes [of "DeltaFileProgressSampler_new reporter phase name" samples "[]"] assms
  by (auto simp: DeltaFileProgressSampler_new_def changes_None)

end
