(* ===== verification/DF_Query.thy ===== *)
theory DF_Query
  imports DF_Query_Tracking DF_Registry
begin

section \<open>Queries of a session and the one-output write\<close>

text \<open>
  \<open>session/query_handoff.rs\<close> (resolving a lazy table to a data frame, creating its tracked batch
  stream) and \<open>sql_server_workflows/output.rs\<close> (planning one output, running its query phases and
  handing the stream to the writer).

  Writing does not change the session: it is an argument of every operation. What changes is an
  \<open>engine_state\<close>: the catalog context, which \<open>write_all\<close> changes when it installs caches, the
  shared vector of retained scan counters, the scans of the stream that is being consumed, and
  the state behind the writer.
\<close>

subsection \<open>The query engine\<close>

record ('c, 'd, 'p, 'q, 'i) query_engine = "('c, 'd, 'p, 'q) datafusion" +
  qe_table :: "'c \<Rightarrow> string \<Rightarrow> string + 'd"
  qe_read_table :: "'c \<Rightarrow> 'p \<Rightarrow> string + 'd"
  qe_create_physical_plan :: "'d \<Rightarrow> string + 'i ExecutionPlan"
  qe_plans :: "'i plan_engine"
  qe_metrics :: "'i plan_metrics_api"

text \<open>
  How the consumer of a stream leaves it. A batch stream is a list here, which does not record
  how far it was read, so that this is an argument, by the result of the write.
\<close>

type_synonym consumption = "DeltaFunnelError + MssqlWriteReport \<Rightarrow> DeltaProviderScanOutcome"

record ('c, 's) engine_state =
  es_context :: 'c
  es_retained :: "NamedDeltaDataFusionMetricsSnapshot list"
  es_open :: "DeltaProviderReadStatsHandle list option"
  es_sql :: 's

type_synonym ('c, 's) engine_world = "('c, 's) engine_state world"

abbreviation w_context :: "('c, 's) engine_world \<Rightarrow> 'c" where
  "w_context w \<equiv> es_context (w_conn w)"

definition terminal_snapshots :: "DeltaProviderReadStatsHandle list \<Rightarrow> snapshot_set" where
  "terminal_snapshots handles =
     delta_provider_read_stats_snapshot_set handles (snapshot_delta_provider_read_stats handles)"

text \<open>The stream ends, fails or is dropped: its scans are retained, once.\<close>

definition retain_snapshots ::
    "DeltaProviderReadStatsHandle list \<Rightarrow> ('c, 's) engine_state \<Rightarrow> ('c, 's) engine_state" where
  "retain_snapshots handles st =
     st\<lparr>es_retained := es_retained st @ retained_snapshots (terminal_snapshots handles)\<rparr>"

definition close_stream :: "('c, 's) engine_state \<Rightarrow> ('c, 's) engine_state" where
  "close_stream st =
     (case es_open st of
        None \<Rightarrow> st
      | Some handles \<Rightarrow> (retain_snapshots handles st)\<lparr>es_open := None\<rparr>)"

definition w_update :: "('s \<Rightarrow> 's) \<Rightarrow> 's world \<Rightarrow> 's world" where
  "w_update f w = w\<lparr>w_conn := f (w_conn w)\<rparr>"

text \<open>An action of the writer's state, run in the engine's world.\<close>

definition on_sql :: "('s world, 'e, 'a) io \<Rightarrow> (('c, 's) engine_world, 'e, 'a) io" where
  "on_sql m w =
     (case m \<lparr>w_clock = w_clock w, w_events = w_events w, w_conn = es_sql (w_conn w)\<rparr> of
        (r, v) \<Rightarrow>
          (r, \<lparr>w_clock = w_clock v, w_events = w_events v,
               w_conn = (w_conn w)\<lparr>es_sql := w_conn v\<rparr>\<rparr>))"

text \<open>A writer owns the stream it is given, and drops it when it returns.\<close>

definition consuming :: "('s world, 'e, 'a) io \<Rightarrow> (('c, 's) engine_world, 'e, 'a) io" where
  "consuming m w = (case on_sql m w of (r, w') \<Rightarrow> (r, w_update close_stream w'))"

subsection \<open>Data frames and streams\<close>

definition datafusion_handoff_setup_error :: "string \<Rightarrow> string \<Rightarrow> DeltaFunnelError" where
  "datafusion_handoff_setup_error opt error = BatchPipeline HandoffSetup opt error"

definition dataframe_for_lazy_table_from_session_parts ::
    "('c, 'd, 'p, 'q, 'i) query_engine \<Rightarrow> 'c \<Rightarrow> LazyTable \<Rightarrow> RegisteredSessionSource list
       \<Rightarrow> RegisteredDerivedTable list \<Rightarrow> 'p PendingDerivedTable list \<Rightarrow> DeltaFunnelError + 'd" where
  "dataframe_for_lazy_table_from_session_parts en ctx t sources derived pending =
     (case lt_kind t of
        DeltaSource \<Rightarrow>
          res_bind (ok_or (find (\<lambda>source. rs_id source = lt_id t) sources) (unknown_lazy_table_error t))
            (\<lambda>source. map_err (datafusion_handoff_setup_error ''registered_table'')
                        (qe_table en ctx (rs_name source)))
      | DerivedSql \<Rightarrow>
          (case find (\<lambda>d. rd_id d = lt_id t) derived of
             Some d \<Rightarrow> map_err (datafusion_handoff_setup_error ''registered_table'')
                         (qe_table en ctx (rd_name d))
           | None \<Rightarrow>
               res_bind (ok_or (find (\<lambda>p. pd_id p = lt_id t) pending) (unknown_lazy_table_error t))
                 (\<lambda>p. map_err (datafusion_handoff_setup_error ''pending_table'')
                        (qe_read_table en ctx (pd_provider p)))))"

definition dataframe_for_lazy_table ::
    "('c, 'd, 'p, 'q, 'i) query_engine \<Rightarrow> 'c \<Rightarrow> ('c, 'p) DeltaFunnelSession \<Rightarrow> LazyTable
       \<Rightarrow> DeltaFunnelError + 'd" where
  "dataframe_for_lazy_table en ctx s t =
     dataframe_for_lazy_table_from_session_parts en ctx t (ds_sources s) (derived_tables s)
       (pending_derived_tables s)"

text \<open>
  The result handle of a registered profile: what it will hold, by the way the execution ends.
\<close>

type_synonym profile_result = "DeltaProviderScanOutcome \<Rightarrow> QueryExecutionProfile"

definition register_profile ::
    "('c, 'd, 'p, 'q, 'i) query_engine \<Rightarrow> 'i QueryExecutionProfileConsumer
       \<Rightarrow> DeltaProviderReadStatsHandle list \<Rightarrow> profile_result" where
  "register_profile en consumer handles outcome =
     the (consume_terminal (qe_plans en) (qe_metrics en) consumer (query_execution_outcome outcome)
            (terminal_snapshots handles) None)"

record QueryStreamSetup =
  qss_stream :: batch_stream
  qss_profile_result :: "profile_result option"

record QueryStreamSetupFailure =
  qsf_source :: DeltaFunnelError
  qsf_execution_profile :: "QueryExecutionProfile option"

text \<open>
  \<open>batch_stream_for_physical_plan\<close>: \<open>retains\<close> tells whether a shared vector was given. A failed
  setup finalizes the scans at once; otherwise the stream is open until its consumer ends it.
\<close>

definition batch_stream_for_physical_plan ::
    "('c, 'd, 'p, 'q, 'i) query_engine \<Rightarrow> 'i ExecutionPlan \<Rightarrow> bool \<Rightarrow> QueryExecutionScope option
       \<Rightarrow> (('c, 's) engine_world, QueryStreamSetupFailure, QueryStreamSetup) io" where
  "batch_stream_for_physical_plan en physical_plan retains profile_scope w =
     (let handles = collect_delta_provider_read_stats_handles (qe_plans en) physical_plan;
          profile = (\<lambda>root. map_option (\<lambda>scope.
            register_profile en \<lparr>pc_root = root, pc_scope = scope, pc_delta_funnel_row_limit = None\<rparr>
              handles) profile_scope)
      in case datafusion_query_output_stream_with_effective_root (qe_plans en) physical_plan of
           Inl failure \<Rightarrow>
             (Inl \<lparr>qsf_source = datafusion_handoff_setup_error ''query_output_stream'' (dfe_source failure),
                   qsf_execution_profile =
                     map_option (\<lambda>result. result Error) (profile (dfe_effective_profile_root failure))\<rparr>,
              if retains then w_update (retain_snapshots handles) w else w)
         | Inr execution \<Rightarrow>
             (Inr \<lparr>qss_stream = map (map_err (datafusion_handoff_setup_error ''query_output_stream''))
                     (dfx_stream execution),
                   qss_profile_result = profile (dfx_effective_profile_root execution)\<rparr>,
              w_update (\<lambda>st. st\<lparr>es_open := if retains then Some handles else None\<rparr>) w))"

subsection \<open>Planning one output\<close>

definition OUTPUT_SCHEMA_PLANNING_PHASE :: string where
  "OUTPUT_SCHEMA_PLANNING_PHASE = ''output_schema_planning''"

definition SQL_TARGET_PLANNING_PHASE :: string where
  "SQL_TARGET_PLANNING_PHASE = ''sql_target_planning''"

definition QUERY_DATAFRAME_PLANNING_PHASE :: string where
  "QUERY_DATAFRAME_PLANNING_PHASE = ''query_dataframe_planning''"

definition QUERY_PHYSICAL_PLANNING_PHASE :: string where
  "QUERY_PHYSICAL_PLANNING_PHASE = ''query_physical_planning''"

definition QUERY_STREAM_SETUP_PHASE :: string where
  "QUERY_STREAM_SETUP_PHASE = ''query_stream_setup''"

definition QUERY_PHASE_NAMES :: "string list" where
  "QUERY_PHASE_NAMES =
     [QUERY_DATAFRAME_PLANNING_PHASE, QUERY_PHYSICAL_PLANNING_PHASE, QUERY_STREAM_SETUP_PHASE]"

definition plan_mssql_output ::
    "arrow_api \<Rightarrow> ('c, 'p) DeltaFunnelSession \<Rightarrow> OutputWritePlan
       \<Rightarrow> ('s world, DeltaFunnelError, PlannedMssqlOutput) io" where
  "plan_mssql_output api s request w =
     (case phase_timings_for_lazy_table s (owp_table request) of
        Inl e \<Rightarrow> (Inl e, w)
      | Inr phase_timings \<Rightarrow>
          (let (schema_timer, w) = w_timer_start OUTPUT_SCHEMA_PLANNING_PHASE w in
           case schema_for_lazy_table s (owp_table request) of
             Inl e \<Rightarrow> let (timing, w) = w_timer_failed schema_timer w in (Inl e, w)
           | Inr schema \<Rightarrow>
               (let (schema_timing, w) = w_timer_completed schema_timer w;
                    (target_timer, w) = w_timer_start SQL_TARGET_PLANNING_PHASE w
                in case res_bind
                     (resolve (ot_target (owp_target request))
                        \<lparr>rc_output_name = Some (ot_output_name (owp_target request)),
                         rc_default_connection = default_mssql_connection (ds_options s)\<rparr>)
                     (\<lambda>target. res_bind
                        (plan_mssql_target_for_resolved_output api schema target
                           (mssql_schema_options (ds_options s)))
                        (\<lambda>plan. Inr (target, plan))) of
                     Inl e \<Rightarrow> let (timing, w) = w_timer_failed target_timer w in (Inl e, w)
                   | Inr (target, plan) \<Rightarrow>
                       let (target_timing, w) = w_timer_completed target_timer w
                       in (Inr \<lparr>pmo_request = request, pmo_resolved_target = target,
                                pmo_output_plan = plan,
                                pmo_phase_timings = phase_timings @ [schema_timing, target_timing]\<rparr>,
                           w))))"

subsection \<open>Query phases\<close>

definition query_failure_cleanup :: "LoadMode \<Rightarrow> MssqlTargetCleanupStatus" where
  "query_failure_cleanup mode =
     (case mode of
        AppendExisting \<Rightarrow> NotApplicable
      | CreateAndLoad \<Rightarrow> NotAttempted
      | Replace \<Rightarrow> NotAttempted)"

definition mssql_output_query_error ::
    "PlannedMssqlOutput \<Rightarrow> MssqlWritePhase \<Rightarrow> PhaseTimingReport list \<Rightarrow> PhaseTimingReport
       \<Rightarrow> DeltaFunnelError \<Rightarrow> QueryExecutionProfile option \<Rightarrow> MssqlOutputQueryError" where
  "mssql_output_query_error planned phase query_phase_timings failed_timing source profile =
     (let failed = query_phase_timings @ [failed_timing];
          all = failed @ map (\<lambda>name. timing_not_started name PriorFailure)
                  (drop (length failed) QUERY_PHASE_NAMES)
      in \<lparr>qx_error =
            MssqlQueryPhase
              (context_with_execution_profile profile
                 (context_with_phase_timings (pmo_phase_timings planned @ all)
                    (context_from_plan (pmo_output_plan planned) phase 0 0 0 False
                       (query_failure_cleanup (pl_load_mode (pmo_output_plan planned))))))
              source,
          qx_query_phase_timings = all\<rparr>)"

definition with_mssql_write_execution_profile ::
    "DeltaFunnelError \<Rightarrow> QueryExecutionProfile option \<Rightarrow> DeltaFunnelError" where
  "with_mssql_write_execution_profile error profile =
     (case error of
        ErrMssqlWritePhase c msg \<Rightarrow> ErrMssqlWritePhase (context_with_execution_profile profile c) msg
      | MssqlQueryPhase c source \<Rightarrow> MssqlQueryPhase (context_with_execution_profile profile c) source
      | MssqlBatchSchemaValidation c source \<Rightarrow>
          MssqlBatchSchemaValidation (context_with_execution_profile profile c) source
      | other \<Rightarrow> other)"

definition attach_profile ::
    "consumption \<Rightarrow> profile_result \<Rightarrow> DeltaFunnelError + MssqlWriteReport
       \<Rightarrow> DeltaFunnelError + MssqlWriteReport" where
  "attach_profile consumed profile_result result =
     (let profile = Some (profile_result (consumed result)) in
      case result of
        Inr report \<Rightarrow> Inr (report_with_execution_profile profile report)
      | Inl error \<Rightarrow> Inl (with_mssql_write_execution_profile error profile))"

definition create_mssql_output_query_execution_from_dataframe ::
    "('c, 'd, 'p, 'q, 'i) query_engine \<Rightarrow> consumption \<Rightarrow> PlannedMssqlOutput \<Rightarrow> 'd
       \<Rightarrow> PhaseTimingReport list \<Rightarrow> bool \<Rightarrow> ExecutionProfileMode
       \<Rightarrow> (('c, 's) engine_world, MssqlOutputQueryError, MssqlOutputQueryExecution) io" where
  "create_mssql_output_query_execution_from_dataframe en consumed planned dataframe timings retains
       profile_mode w =
     (let (plan_timer, w) = w_timer_start QUERY_PHYSICAL_PLANNING_PHASE w in
      case qe_create_physical_plan en dataframe of
        Inl error \<Rightarrow>
          (let (timing, w) = w_timer_failed plan_timer w
           in (Inl (mssql_output_query_error planned QueryPhysicalPlanning timings timing
                      (datafusion_handoff_setup_error ''physical_plan'' error) None), w))
      | Inr physical_plan \<Rightarrow>
          (let (plan_timing, w) = w_timer_completed plan_timer w;
               timings = timings @ [plan_timing];
               (setup_timer, w) = w_timer_start QUERY_STREAM_SETUP_PHASE w;
               scope = (case profile_mode of
                          ExecutionProfileMode.Disabled \<Rightarrow> None
                        | Detailed \<Rightarrow> Some MssqlOutput)
           in case batch_stream_for_physical_plan en physical_plan retains scope w of
                (Inl failure, w) \<Rightarrow>
                  (let (timing, w) = w_timer_failed setup_timer w
                   in (Inl (mssql_output_query_error planned QueryStreamSetup timings timing
                              (qsf_source failure) (qsf_execution_profile failure)), w))
              | (Inr tracked, w) \<Rightarrow>
                  (let (timing, w) = w_timer_completed setup_timer w
                   in (Inr \<lparr>qe_stream = qss_stream tracked,
                            qe_query_phase_timings = timings @ [timing],
                            qe_attach_profile_to_result =
                              map_option (attach_profile consumed) (qss_profile_result tracked)\<rparr>, w))))"

definition create_mssql_output_query_execution ::
    "('c, 'd, 'p, 'q, 'i) query_engine \<Rightarrow> consumption \<Rightarrow> ('c, 'p) DeltaFunnelSession
       \<Rightarrow> PlannedMssqlOutput \<Rightarrow> bool \<Rightarrow> ExecutionProfileMode
       \<Rightarrow> (('c, 's) engine_world, MssqlOutputQueryError, MssqlOutputQueryExecution) io" where
  "create_mssql_output_query_execution en consumed s planned retains profile_mode w =
     (let (timer, w) = w_timer_start QUERY_DATAFRAME_PLANNING_PHASE w in
      case dataframe_for_lazy_table_from_session_parts en (w_context w)
             (owp_table (pmo_request planned)) (ds_sources s) (derived_tables s)
             (pending_derived_tables s) of
        Inl source \<Rightarrow>
          (let (timing, w) = w_timer_failed timer w
           in (Inl (mssql_output_query_error planned QueryDataFramePlanning [] timing source None), w))
      | Inr dataframe \<Rightarrow>
          (let (timing, w) = w_timer_completed timer w
           in create_mssql_output_query_execution_from_dataframe en consumed planned dataframe [timing]
                retains profile_mode w))"

text \<open>
  \<open>mssql_output_query_factory_with_trace_context\<close>: the deferred creation, on the clones of the
  session's parts that the closure captures.
\<close>

definition mssql_output_query_factory ::
    "('c, 'd, 'p, 'q, 'i) query_engine \<Rightarrow> consumption \<Rightarrow> ('c, 'p) DeltaFunnelSession
       \<Rightarrow> PlannedMssqlOutput \<Rightarrow> bool \<Rightarrow> ExecutionProfileMode
       \<Rightarrow> (('c, 's) engine_world, MssqlOutputQueryError, MssqlOutputQueryExecution) io" where
  "mssql_output_query_factory en consumed s planned retains profile_mode =
     create_mssql_output_query_execution en consumed s planned retains profile_mode"

subsection \<open>Writing one output\<close>

definition prepend_mssql_write_phase_timings ::
    "DeltaFunnelError \<Rightarrow> PhaseTimingReport list \<Rightarrow> DeltaFunnelError" where
  "prepend_mssql_write_phase_timings error phase_timings =
     (case error of
        ErrMssqlWritePhase c msg \<Rightarrow> ErrMssqlWritePhase (context_with_phase_timings phase_timings c) msg
      | MssqlBatchSchemaValidation c source \<Rightarrow>
          MssqlBatchSchemaValidation (context_with_phase_timings phase_timings c) source
      | other \<Rightarrow> other)"

definition ensure_validation_phase_timing :: "MssqlWriteReport \<Rightarrow> MssqlWriteReport" where
  "ensure_validation_phase_timing report =
     (if list_ex (\<lambda>timing. phase_name timing = VALIDATION_PHASE) (wr_phase_timings report) then report
      else report_with_appended_phase_timings
             [timing_not_started VALIDATION_PHASE ReportReasonCode.NotExecuted] report)"

definition ensure_execute_run_mode :: "RunMode \<Rightarrow> DeltaFunnelError + unit" where
  "ensure_execute_run_mode mode =
     (case mode of
        Execute \<Rightarrow> Inr ()
      | DryRun \<Rightarrow> Inl (MssqlWorkflowPlanning
          ''write_to_mssql requires RunMode::Execute; use dry_run_to_mssql for dry-run planning''))"

text \<open>\<open>OrchestratorMssqlOutputWriter\<close>, and its implementation by the one-output sink.\<close>

type_synonym 's orchestrator_writer =
  "MssqlTargetOutputPlan \<Rightarrow> ResolvedMssqlTarget \<Rightarrow> batch_stream \<Rightarrow> MssqlWriteBackend
     \<Rightarrow> ValidationOptions \<Rightarrow> ProgressReporter option \<Rightarrow> ('s world, DeltaFunnelError, MssqlWriteReport) io"

definition MssqlOneOutputSinkWriter ::
    "arrow_api \<Rightarrow> 's sql_server \<Rightarrow> 's conn orchestrator_writer" where
  "MssqlOneOutputSinkWriter api srv = write_planned_output_batches_to_mssql_for_workflow api srv"

definition write_query_execution ::
    "('c, 'p) DeltaFunnelSession \<Rightarrow> 's orchestrator_writer \<Rightarrow> PlannedMssqlOutput
       \<Rightarrow> ProgressReporter option \<Rightarrow> MssqlOutputQueryExecution
       \<Rightarrow> (('c, 's) engine_world, DeltaFunnelError, MssqlWriteReport) io" where
  "write_query_execution s writer planned reporter execution w =
     (let phase_timings = pmo_phase_timings planned @ qe_query_phase_timings execution in
      case consuming (writer (pmo_output_plan planned) (pmo_resolved_target planned)
             (qe_stream execution) (mssql_write_backend (ds_options s))
             (validation_options (ds_options s)) reporter) w of
        (written, w) \<Rightarrow>
          (case (case qe_attach_profile_to_result execution of
                   Some attach \<Rightarrow> attach written | None \<Rightarrow> written) of
             Inr report \<Rightarrow>
               (Inr (report_with_phase_timings phase_timings (ensure_validation_phase_timing report)), w)
           | Inl error \<Rightarrow> (Inl (prepend_mssql_write_phase_timings error phase_timings), w)))"

definition plan_and_write_mssql_output ::
    "arrow_api \<Rightarrow> ('c, 'd, 'p, 'q, 'i) query_engine \<Rightarrow> consumption \<Rightarrow> ('c, 'p) DeltaFunnelSession
       \<Rightarrow> OutputWritePlan \<Rightarrow> 's orchestrator_writer \<Rightarrow> ExecutionProfileMode \<Rightarrow> ProgressReporter option
       \<Rightarrow> (('c, 's) engine_world, DeltaFunnelError, MssqlWriteReport) io" where
  "plan_and_write_mssql_output api en consumed s request writer profile_mode reporter w =
     (let name = Some (ot_output_name (owp_target request));
          w = w_emit reporter (phase_changed PlanningOutput name) w
      in case plan_mssql_output api s request w of
           (Inl e, w) \<Rightarrow> (Inl e, w)
         | (Inr planned, w) \<Rightarrow>
             (let w = w_emit reporter (phase_changed SettingUpStream name) w in
              case create_mssql_output_query_execution en consumed s planned False profile_mode w of
                (Inl failure, w) \<Rightarrow> (Inl (qx_error failure), w)
              | (Inr execution, w) \<Rightarrow> write_query_execution s writer planned reporter execution w))"

definition run_mssql_write_with_reporter ::
    "arrow_api \<Rightarrow> ('c, 'd, 'p, 'q, 'i) query_engine \<Rightarrow> consumption \<Rightarrow> ('c, 'p) DeltaFunnelSession
       \<Rightarrow> OutputWritePlan \<Rightarrow> 's orchestrator_writer \<Rightarrow> ExecutionProfileMode \<Rightarrow> ProgressReporter
       \<Rightarrow> (('c, 's) engine_world, DeltaFunnelError, MssqlWriteReport) io" where
  "run_mssql_write_with_reporter api en consumed s request writer profile_mode reporter w =
     (case plan_and_write_mssql_output api en consumed s request writer profile_mode (Some reporter)
             (w_emit (Some reporter) (ProgressEvent.Started WriteToMssql) w) of
        (result, w) \<Rightarrow>
          (result, w_emit (Some reporter)
             (if is_ok result then ProgressEvent.Completed else ProgressEvent.Failed) w))"

text \<open>\<open>run_mssql_write_with_tracing\<close>, without its tracing events.\<close>

definition run_mssql_write ::
    "arrow_api \<Rightarrow> ('c, 'd, 'p, 'q, 'i) query_engine \<Rightarrow> consumption \<Rightarrow> ('c, 'p) DeltaFunnelSession
       \<Rightarrow> OutputWritePlan \<Rightarrow> 's orchestrator_writer \<Rightarrow> ExecutionProfileMode \<Rightarrow> ProgressReporter option
       \<Rightarrow> (('c, 's) engine_world, DeltaFunnelError, MssqlWriteReport) io" where
  "run_mssql_write api en consumed s request writer profile_mode reporter w =
     (case ensure_execute_run_mode (ot_run_mode (owp_target request)) of
        Inl e \<Rightarrow> (Inl e, w)
      | Inr _ \<Rightarrow>
          (case reporter of
             Some r \<Rightarrow>
               run_mssql_write_with_reporter api en consumed s request writer profile_mode r w
           | None \<Rightarrow>
               plan_and_write_mssql_output api en consumed s request writer profile_mode None w))"

definition write_to_mssql_with_profile_mode ::
    "arrow_api \<Rightarrow> 's sql_server \<Rightarrow> ('c, 'd, 'p, 'q, 'i) query_engine \<Rightarrow> consumption
       \<Rightarrow> ('c, 'p) DeltaFunnelSession \<Rightarrow> OutputWritePlan \<Rightarrow> ExecutionProfileMode
       \<Rightarrow> (('c, 's conn) engine_world, DeltaFunnelError, MssqlWriteReport) io" where
  "write_to_mssql_with_profile_mode api srv en consumed s request profile_mode =
     run_mssql_write api en consumed s request (MssqlOneOutputSinkWriter api srv) profile_mode None"

definition write_to_mssql ::
    "arrow_api \<Rightarrow> 's sql_server \<Rightarrow> ('c, 'd, 'p, 'q, 'i) query_engine \<Rightarrow> consumption
       \<Rightarrow> ('c, 'p) DeltaFunnelSession \<Rightarrow> OutputWritePlan
       \<Rightarrow> (('c, 's conn) engine_world, DeltaFunnelError, MssqlWriteReport) io" where
  "write_to_mssql api srv en consumed s request =
     write_to_mssql_with_profile_mode api srv en consumed s request ExecutionProfileMode.Disabled"

definition write_to_mssql_with_profile_mode_and_reporter ::
    "arrow_api \<Rightarrow> 's sql_server \<Rightarrow> ('c, 'd, 'p, 'q, 'i) query_engine \<Rightarrow> consumption
       \<Rightarrow> ('c, 'p) DeltaFunnelSession \<Rightarrow> OutputWritePlan \<Rightarrow> ExecutionProfileMode \<Rightarrow> ProgressReporter
       \<Rightarrow> (('c, 's conn) engine_world, DeltaFunnelError, MssqlWriteReport) io" where
  "write_to_mssql_with_profile_mode_and_reporter api srv en consumed s request profile_mode reporter =
     run_mssql_write api en consumed s request (MssqlOneOutputSinkWriter api srv) profile_mode
       (Some reporter)"

definition write_to_mssql_with_reporter ::
    "arrow_api \<Rightarrow> 's sql_server \<Rightarrow> ('c, 'd, 'p, 'q, 'i) query_engine \<Rightarrow> consumption
       \<Rightarrow> ('c, 'p) DeltaFunnelSession \<Rightarrow> OutputWritePlan \<Rightarrow> ProgressReporter
       \<Rightarrow> (('c, 's conn) engine_world, DeltaFunnelError, MssqlWriteReport) io" where
  "write_to_mssql_with_reporter api srv en consumed s request reporter =
     write_to_mssql_with_profile_mode_and_reporter api srv en consumed s request
       ExecutionProfileMode.Disabled reporter"

subsection \<open>What the query phases do\<close>

text \<open>The stream of a lazy table, without its tracking.\<close>

definition lazy_table_stream ::
    "('c, 'd, 'p, 'q, 'i) query_engine \<Rightarrow> 'c \<Rightarrow> ('c, 'p) DeltaFunnelSession \<Rightarrow> LazyTable
       \<Rightarrow> DeltaFunnelError + batch_stream" where
  "lazy_table_stream en ctx s t =
     res_bind (dataframe_for_lazy_table en ctx s t) (\<lambda>dataframe.
     res_bind (map_err (datafusion_handoff_setup_error ''physical_plan'')
                 (qe_create_physical_plan en dataframe)) (\<lambda>plan.
     res_bind (map_err (datafusion_handoff_setup_error ''query_output_stream'')
                 (datafusion_query_output_stream (qe_plans en) plan)) (\<lambda>stream.
       Inr (map (map_err (datafusion_handoff_setup_error ''query_output_stream'')) stream))))"

definition frame_stream ::
    "('c, 'd, 'p, 'q, 'i) query_engine \<Rightarrow> 'd \<Rightarrow> DeltaFunnelError + batch_stream" where
  "frame_stream en dataframe =
     res_bind (map_err (datafusion_handoff_setup_error ''physical_plan'')
                 (qe_create_physical_plan en dataframe)) (\<lambda>plan.
     res_bind (map_err (datafusion_handoff_setup_error ''query_output_stream'')
                 (datafusion_query_output_stream (qe_plans en) plan)) (\<lambda>stream.
       Inr (map (map_err (datafusion_handoff_setup_error ''query_output_stream'')) stream)))"

lemma lazy_table_stream_frame:
  "lazy_table_stream en ctx s t = res_bind (dataframe_for_lazy_table en ctx s t) (frame_stream en)"
  by (simp add: lazy_table_stream_def frame_stream_def [abs_def])

text \<open>
  A failed query phase: the phases before it completed, those after it did not start, and the
  error carries the context of that phase with all the timings of the output so far.
\<close>

definition query_failure :: "PlannedMssqlOutput \<Rightarrow> MssqlOutputQueryError \<Rightarrow> bool" where
  "query_failure planned x \<longleftrightarrow>
     map phase_name (qx_query_phase_timings x) = QUERY_PHASE_NAMES \<and>
     (\<exists>finished failed rest context source.
        qx_query_phase_timings x = finished @ failed # rest \<and>
        list_all (\<lambda>t. status t = PhaseStatus.Completed) finished \<and> status failed = PhaseStatus.Failed \<and>
        list_all (\<lambda>t. status t = PhaseStatus.NotStarted PriorFailure) rest \<and>
        qx_error x = MssqlQueryPhase context source \<and>
        MssqlWritePhase_display (fc_phase context) = phase_name failed \<and>
        take (length (pmo_phase_timings planned) + 3) (wr_phase_timings (fc_report context)) =
          pmo_phase_timings planned @ qx_query_phase_timings x)"

lemmas query_phases =
  QUERY_PHASE_NAMES_def QUERY_DATAFRAME_PLANNING_PHASE_def QUERY_PHYSICAL_PLANNING_PHASE_def
  QUERY_STREAM_SETUP_PHASE_def

lemma query_failure_error:
  assumes "map phase_name (finished @ [failed]) = take (Suc (length finished)) QUERY_PHASE_NAMES"
    and "list_all (\<lambda>t. status t = PhaseStatus.Completed) finished" "status failed = PhaseStatus.Failed"
    and "MssqlWritePhase_display phase = phase_name failed" "length finished < 3"
  shows "query_failure planned (mssql_output_query_error planned phase finished failed source profile)"
proof -
  let ?rest = "map (\<lambda>name. timing_not_started name PriorFailure)
    (drop (length (finished @ [failed])) QUERY_PHASE_NAMES)"
  have "map phase_name ?rest = drop (Suc (length finished)) QUERY_PHASE_NAMES"
    by (simp add: comp_def timing_not_started_def)
  then have names: "map phase_name (finished @ failed # ?rest) = QUERY_PHASE_NAMES"
    using arg_cong [OF assms(1), of "\<lambda>xs. xs @ drop (Suc (length finished)) QUERY_PHASE_NAMES"] by simp
  then have len: "length (finished @ failed # ?rest) = 3"
    by (metis length_map length_Cons list.size(3) numeral_3_eq_3 QUERY_PHASE_NAMES_def)
  show ?thesis
    unfolding query_failure_def mssql_output_query_error_def Let_def
    using names len assms(2-4)
    by (intro conjI exI [of _ finished] exI [of _ failed] exI [of _ ?rest])
       (auto simp: report_simps list_all_iff timing_not_started_def)
qed

definition engine_quiet :: "('c, 's) engine_world \<Rightarrow> ('c, 's) engine_world \<Rightarrow> bool" where
  "engine_quiet w w' \<longleftrightarrow>
     w_events w' = w_events w \<and> w_context w' = w_context w \<and> es_sql (w_conn w') = es_sql (w_conn w)"

lemma engine_quiet_simps [simp]:
  "engine_quiet w w" "engine_quiet (tick w) w' \<longleftrightarrow> engine_quiet w w'"
  "engine_quiet w (tick w') \<longleftrightarrow> engine_quiet w w'"
  by (simp_all add: engine_quiet_def)

lemma engine_quiet_trans: "engine_quiet a b \<Longrightarrow> engine_quiet b c \<Longrightarrow> engine_quiet a c"
  by (simp add: engine_quiet_def)

lemma batch_stream_step:
  assumes "batch_stream_for_physical_plan en plan retains scope w = (r, w')"
  shows "engine_quiet w w'"
    and "r = Inr x \<Longrightarrow> map_err (datafusion_handoff_setup_error ''query_output_stream'')
           (datafusion_query_output_stream (qe_plans en) plan) = Inr stream \<Longrightarrow>
         qss_stream x = map (map_err (datafusion_handoff_setup_error ''query_output_stream'')) stream"
    and "isl r \<longleftrightarrow> isl (datafusion_query_output_stream (qe_plans en) plan)"
  using assms
  by (auto simp: batch_stream_for_physical_plan_def datafusion_query_output_stream_def engine_quiet_def
      w_update_def retain_snapshots_def Let_def res_simps split: sum.splits if_splits)

lemma attach_profile_keeps: "keeps_target (attach_profile consumed result)"
  by (auto simp: keeps_target_def attach_profile_def Let_def about_target_def
      report_with_execution_profile_def)

definition query_ready :: "MssqlOutputQueryExecution \<Rightarrow> batch_stream \<Rightarrow> bool" where
  "query_ready x stream \<longleftrightarrow>
     qe_stream x = stream \<and> map phase_name (qe_query_phase_timings x) = QUERY_PHASE_NAMES \<and>
     list_all (\<lambda>t. status t = PhaseStatus.Completed) (qe_query_phase_timings x) \<and>
     pred_option keeps_target (qe_attach_profile_to_result x)"

lemma query_execution_from_dataframe_step:
  assumes run: "create_mssql_output_query_execution_from_dataframe en consumed planned dataframe
      [timing_completed QUERY_DATAFRAME_PLANNING_PHASE elapsed] retains mode w = (r, w')"
  shows "engine_quiet w w' \<and>
    (case r of
       Inl x \<Rightarrow> query_failure planned x
     | Inr x \<Rightarrow> \<exists>stream. frame_stream en dataframe = Inr stream \<and> query_ready x stream)"
proof (cases "qe_create_physical_plan en dataframe")
  case (Inl e)
  then have "query_failure planned (mssql_output_query_error planned QueryPhysicalPlanning
      [timing_completed QUERY_DATAFRAME_PLANNING_PHASE elapsed]
      (timing_failed QUERY_PHYSICAL_PLANNING_PHASE d) source None)" for d source
    by (intro query_failure_error) (simp_all add: timing_defs query_phases)
  with Inl run show ?thesis
    by (auto simp: create_mssql_output_query_execution_from_dataframe_def)
next
  case (Inr plan)
  let ?scope = "case mode of ExecutionProfileMode.Disabled \<Rightarrow> None | Detailed \<Rightarrow> Some MssqlOutput"
  obtain q w1 where q: "batch_stream_for_physical_plan en plan retains ?scope (tick (tick (tick w))) = (q, w1)"
    by (metis surj_pair)
  note step = batch_stream_step [OF q]
  show ?thesis
  proof (cases q)
    case (Inl f)
    have "query_failure planned (mssql_output_query_error planned QueryStreamSetup
        [timing_completed QUERY_DATAFRAME_PLANNING_PHASE elapsed,
         timing_completed QUERY_PHYSICAL_PLANNING_PHASE d1]
        (timing_failed QUERY_STREAM_SETUP_PHASE d2) source profile)" for d1 d2 source profile
      by (intro query_failure_error) (simp_all add: timing_defs query_phases)
    with Inl Inr q run step(1) show ?thesis
      by (auto simp: create_mssql_output_query_execution_from_dataframe_def Let_def)
  next
    case (Inr tracked)
    with step(3) obtain stream where stream: "datafusion_query_output_stream (qe_plans en) plan = Inr stream"
      by (cases "datafusion_query_output_stream (qe_plans en) plan") simp_all
    with Inr step(2) have "qss_stream tracked =
        map (map_err (datafusion_handoff_setup_error ''query_output_stream'')) stream"
      by simp
    moreover have "pred_option keeps_target (map_option (attach_profile consumed) (qss_profile_result tracked))"
      by (cases "qss_profile_result tracked") (simp_all add: attach_profile_keeps)
    ultimately show ?thesis
      using Inr \<open>qe_create_physical_plan en dataframe = Inr plan\<close> q run step(1) stream
      by (auto simp: create_mssql_output_query_execution_from_dataframe_def Let_def frame_stream_def
          query_ready_def timing_defs query_phases)
  qed
qed

lemma query_execution_step:
  assumes run: "create_mssql_output_query_execution en consumed s planned retains mode w = (r, w')"
  shows "engine_quiet w w' \<and>
    (case r of
       Inl x \<Rightarrow> query_failure planned x
     | Inr x \<Rightarrow> \<exists>stream. lazy_table_stream en (w_context w) s (owp_table (pmo_request planned)) = Inr stream
           \<and> query_ready x stream)"
proof (cases "dataframe_for_lazy_table en (w_context w) s (owp_table (pmo_request planned))")
  case (Inl e)
  have "query_failure planned (mssql_output_query_error planned QueryDataFramePlanning []
      (timing_failed QUERY_DATAFRAME_PLANNING_PHASE d) source None)" for d source
    by (intro query_failure_error) (simp_all add: timing_defs query_phases)
  with Inl run show ?thesis
    by (auto simp: create_mssql_output_query_execution_def dataframe_for_lazy_table_def)
next
  case (Inr dataframe)
  with run have "create_mssql_output_query_execution_from_dataframe en consumed planned dataframe
      [timing_completed QUERY_DATAFRAME_PLANNING_PHASE (reading (tick w) - reading w)] retains mode
      (tick (tick w)) = (r, w')"
    by (simp add: create_mssql_output_query_execution_def dataframe_for_lazy_table_def)
  from query_execution_from_dataframe_step [OF this] Inr show ?thesis
    unfolding lazy_table_stream_frame by (cases r) simp_all
qed

subsection \<open>What a one-output write does\<close>

definition planned_output ::
    "arrow_api \<Rightarrow> ('c, 'p) DeltaFunnelSession \<Rightarrow> OutputWritePlan \<Rightarrow> ResolvedMssqlTarget
       \<Rightarrow> MssqlTargetOutputPlan \<Rightarrow> bool" where
  "planned_output api s request target plan \<longleftrightarrow>
     resolve (ot_target (owp_target request))
       \<lparr>rc_output_name = Some (ot_output_name (owp_target request)),
        rc_default_connection = default_mssql_connection (ds_options s)\<rparr> = Inr target \<and>
     (\<exists>schema. schema_for_lazy_table s (owp_table request) = Inr schema \<and>
        plan_mssql_target_for_resolved_output api schema target
          (mssql_schema_options (ds_options s)) = Inr plan)"

lemma planned_output_wf:
  assumes "planned_output api s request target plan"
  shows "plan_wf api plan" "pl_target plan = target_summary target"
  using assms plan_for_resolved_wf by (auto simp: planned_output_def)

lemma plan_mssql_output_step:
  assumes "plan_mssql_output api s request w = (r, w')"
  shows "w_conn w' = w_conn w \<and> w_events w' = w_events w \<and>
    (\<forall>planned. r = Inr planned \<longrightarrow> pmo_request planned = request \<and>
       planned_output api s request (pmo_resolved_target planned) (pmo_output_plan planned))"
  using assms
  by (auto simp: plan_mssql_output_def planned_output_def Let_def res_simps
      split: sum.splits prod.splits)

text \<open>
  The requests of one written output, by its result: none when the query could not be set up, and
  otherwise the run of the sink on the stream of the table's query.
\<close>

definition one_output_run ::
    "arrow_api \<Rightarrow> ('c, 'd, 'p, 'q, 'i) query_engine \<Rightarrow> 'c \<Rightarrow> ('c, 'p) DeltaFunnelSession \<Rightarrow> OutputWritePlan
       \<Rightarrow> DeltaFunnelError + MssqlWriteReport \<Rightarrow> sql_request list \<Rightarrow> bool" where
  "one_output_run api en ctx s request r qs \<longleftrightarrow>
     qs = [] \<and> isl r \<or>
     (\<exists>target plan items written rest.
        planned_output api s request target plan \<and>
        lazy_table_stream en ctx s (owp_table request) = Inr items \<and>
        qs = ConnectRequest (cc_connection_string (rt_connection target)) # rest \<and>
        run_post api plan items written rest \<and> (isl r \<longleftrightarrow> isl written) \<and>
        (\<forall>report. r = Inr report \<longrightarrow> about_target target report))"

lemma on_sql_step:
  assumes "on_sql m w = (r, w')"
  obtains v where "m \<lparr>w_clock = w_clock w, w_events = w_events w, w_conn = es_sql (w_conn w)\<rparr> = (r, v)"
    "w_conn w' = (w_conn w)\<lparr>es_sql := w_conn v\<rparr>" "w_events w' = w_events v"
  using assms by (auto simp: on_sql_def split: prod.splits)

lemma consuming_step:
  assumes "consuming m w = (r, w')"
  obtains v where "m \<lparr>w_clock = w_clock w, w_events = w_events w, w_conn = es_sql (w_conn w)\<rparr> = (r, v)"
    "es_sql (w_conn w') = w_conn v" "w_context w' = w_context w" "w_events w' = w_events v"
  using assms
  by (auto simp: consuming_def w_update_def close_stream_def retain_snapshots_def
      split: prod.splits option.splits elim!: on_sql_step)

lemma sink_writer_step:
  assumes "MssqlOneOutputSinkWriter api srv p t items backend vo reporter w = (r, w')"
  shows "\<exists>qs. cn_sent (w_conn w') = cn_sent (w_conn w)
             @ ConnectRequest (cc_connection_string (rt_connection t)) # qs \<and>
           run_post api p items r qs"
  using connection_request_step [OF assms [unfolded MssqlOneOutputSinkWriter_def
        write_planned_output_batches_to_mssql_for_workflow_def
        write_output_connection_request_for_workflow_def]]
  by (simp add: request_from_planned_output_def emit_progress_phase_def)

lemma written_about_target:
  assumes "run_post api p items (Inr rep) qs" "pl_target p = target_summary t"
  shows "about_target t rep"
proof -
  obtain bs where "written_report p bs rep"
    using assms(1) by (auto simp: run_post_def dest: run_ok_written)
  with assms(2) show ?thesis
    by (simp add: about_target_def written_report_def)
qed

lemma final_report_target:
  "about_target t (report_with_phase_timings ts (ensure_validation_phase_timing rep)) \<longleftrightarrow> about_target t rep"
  by (simp add: about_target_def report_with_phase_timings_def ensure_validation_phase_timing_def
      report_with_appended_phase_timings_def)

lemma attached_result:
  assumes "pred_option keeps_target a"
  shows "isl (case a of Some attach \<Rightarrow> attach r | None \<Rightarrow> r) \<longleftrightarrow> isl r"
    and "(case a of Some attach \<Rightarrow> attach r | None \<Rightarrow> r) = Inr rep \<Longrightarrow>
      (\<And>rep0. r = Inr rep0 \<Longrightarrow> about_target t rep0) \<Longrightarrow> about_target t rep"
proof -
  show isl: "isl (case a of Some attach \<Rightarrow> attach r | None \<Rightarrow> r) \<longleftrightarrow> isl r"
  proof (cases a)
    case (Some attach)
    with assms have "keeps_target attach" by simp
    then show ?thesis
      using Some by (cases r) (simp_all add: keeps_target_def, metis isl_def sum.distinct(1))
  qed simp
  show "about_target t rep" if eq: "(case a of Some attach \<Rightarrow> attach r | None \<Rightarrow> r) = Inr rep"
    and about: "\<And>rep0. r = Inr rep0 \<Longrightarrow> about_target t rep0"
  proof (cases r)
    case (Inl e)
    with isl eq show ?thesis by (simp add: isl_def)
  next
    case (Inr rep0)
    with assms eq about [OF Inr] show ?thesis
      by (cases a) (simp_all add: keeps_target_def, metis sum.inject(2))
  qed
qed

lemma write_query_execution_step:
  assumes run: "write_query_execution s (MssqlOneOutputSinkWriter api srv) planned reporter x w = (r, w')"
    and x: "query_ready x items"
    and target: "pl_target (pmo_output_plan planned) = target_summary (pmo_resolved_target planned)"
  shows "w_context w' = w_context w \<and>
    (\<exists>qs written. cn_sent (es_sql (w_conn w')) = cn_sent (es_sql (w_conn w))
        @ ConnectRequest (cc_connection_string (rt_connection (pmo_resolved_target planned))) # qs \<and>
      run_post api (pmo_output_plan planned) items written qs \<and> (isl r \<longleftrightarrow> isl written) \<and>
      (\<forall>report. r = Inr report \<longrightarrow> about_target (pmo_resolved_target planned) report))"
proof -
  let ?t = "pmo_resolved_target planned"
  obtain written w1 where wrote: "consuming (MssqlOneOutputSinkWriter api srv (pmo_output_plan planned) ?t
      items (mssql_write_backend (ds_options s)) (validation_options (ds_options s)) reporter) w = (written, w1)"
    by (metis surj_pair)
  from consuming_step [OF this] obtain v where v: "MssqlOneOutputSinkWriter api srv (pmo_output_plan planned) ?t
      items (mssql_write_backend (ds_options s)) (validation_options (ds_options s)) reporter
      \<lparr>w_clock = w_clock w, w_events = w_events w, w_conn = es_sql (w_conn w)\<rparr> = (written, v)"
      "es_sql (w_conn w1) = w_conn v" "w_context w1 = w_context w"
    by metis
  from sink_writer_step [OF v(1)] obtain qs where
    qs: "cn_sent (w_conn v) = cn_sent (es_sql (w_conn w))
      @ ConnectRequest (cc_connection_string (rt_connection ?t)) # qs"
    and post: "run_post api (pmo_output_plan planned) items written qs"
    by auto
  define attached where "attached = (case qe_attach_profile_to_result x of
    Some attach \<Rightarrow> attach written | None \<Rightarrow> written)"
  have keeps: "pred_option keeps_target (qe_attach_profile_to_result x)"
    using x by (simp add: query_ready_def)
  have written: "about_target ?t rep0" if "written = Inr rep0" for rep0
    using written_about_target [OF _ target] post that by blast
  have about: "isl attached \<longleftrightarrow> isl written" "attached = Inr rep \<Longrightarrow> about_target ?t rep" for rep
    unfolding attached_def
    using attached_result(1) [OF keeps] attached_result(2) [OF keeps _ written] by simp_all
  have "w' = w1" "r = (case attached of
      Inr report \<Rightarrow> Inr (report_with_phase_timings
        (pmo_phase_timings planned @ qe_query_phase_timings x) (ensure_validation_phase_timing report))
    | Inl error \<Rightarrow> Inl (prepend_mssql_write_phase_timings error
        (pmo_phase_timings planned @ qe_query_phase_timings x)))"
    using run wrote x
    by (auto simp: write_query_execution_def query_ready_def attached_def Let_def split: sum.splits)
  with about v qs post show ?thesis
    by (cases attached) (auto simp: final_report_target)
qed

lemma plan_and_write_step:
  assumes run: "plan_and_write_mssql_output api en consumed s request (MssqlOneOutputSinkWriter api srv)
      mode reporter w = (r, w')"
  shows "w_context w' = w_context w \<and>
    (\<exists>qs. cn_sent (es_sql (w_conn w')) = cn_sent (es_sql (w_conn w)) @ qs \<and>
       one_output_run api en (w_context w) s request r qs)"
proof -
  let ?name = "Some (ot_output_name (owp_target request))"
  obtain q w1 where q: "plan_mssql_output api s request (w_emit reporter (phase_changed PlanningOutput ?name) w)
      = (q, w1)"
    by (metis surj_pair)
  note plan = plan_mssql_output_step [OF q]
  show ?thesis
  proof (cases q)
    case (Inl e)
    with run q plan show ?thesis
      by (auto simp: plan_and_write_mssql_output_def one_output_run_def Let_def intro!: exI [of _ "[]"])
  next
    case (Inr planned)
    let ?w2 = "w_emit reporter (phase_changed SettingUpStream ?name) w1"
    obtain x w3 where x: "create_mssql_output_query_execution en consumed s planned False mode ?w2 = (x, w3)"
      by (metis surj_pair)
    have planned: "pmo_request planned = request"
        "planned_output api s request (pmo_resolved_target planned) (pmo_output_plan planned)"
        "w_conn w1 = w_conn w"
      using plan Inr by simp_all
    note query = query_execution_step [OF x]
    have quiet: "w_context w3 = w_context w" "es_sql (w_conn w3) = es_sql (w_conn w)"
      using query planned(3) by (simp_all add: engine_quiet_def)
    show ?thesis
    proof (cases x)
      case (Inl failure)
      with run q Inr x quiet show ?thesis
        by (auto simp: plan_and_write_mssql_output_def one_output_run_def Let_def intro!: exI [of _ "[]"])
    next
      case (Inr execution)
      with query planned obtain items where items: "lazy_table_stream en (w_context w) s (owp_table request) = Inr items"
          "query_ready execution items"
        by auto
      have "write_query_execution s (MssqlOneOutputSinkWriter api srv) planned reporter execution w3 = (r, w')"
        using run q \<open>q = Inr planned\<close> x Inr by (simp add: plan_and_write_mssql_output_def Let_def)
      from write_query_execution_step [OF this items(2) planned_output_wf(2) [OF planned(2)]]
      obtain qs written where w': "w_context w' = w_context w3"
        and qs: "cn_sent (es_sql (w_conn w')) = cn_sent (es_sql (w_conn w3))
          @ ConnectRequest (cc_connection_string (rt_connection (pmo_resolved_target planned))) # qs"
        and post: "run_post api (pmo_output_plan planned) items written qs" "isl r \<longleftrightarrow> isl written"
          "\<forall>report. r = Inr report \<longrightarrow> about_target (pmo_resolved_target planned) report"
        by auto
      have "one_output_run api en (w_context w) s request r
          (ConnectRequest (cc_connection_string (rt_connection (pmo_resolved_target planned))) # qs)"
        unfolding one_output_run_def using planned(2) items(1) post by blast
      with w' qs quiet show ?thesis by auto
    qed
  qed
qed

lemma run_mssql_write_step:
  assumes "run_mssql_write api en consumed s request (MssqlOneOutputSinkWriter api srv) mode reporter w = (r, w')"
  shows "w_context w' = w_context w \<and>
    (\<exists>qs. cn_sent (es_sql (w_conn w')) = cn_sent (es_sql (w_conn w)) @ qs \<and>
       one_output_run api en (w_context w) s request r qs)"
proof (cases "ensure_execute_run_mode (ot_run_mode (owp_target request))")
  case (Inl e)
  with assms show ?thesis
    by (auto simp: run_mssql_write_def one_output_run_def intro!: exI [of _ "[]"])
next
  case (Inr u)
  show ?thesis
  proof (cases reporter)
    case None
    with Inr assms plan_and_write_step show ?thesis by (simp add: run_mssql_write_def)
  next
    case (Some rp)
    obtain q w1 where q: "plan_and_write_mssql_output api en consumed s request
        (MssqlOneOutputSinkWriter api srv) mode (Some rp)
        (w_emit (Some rp) (ProgressEvent.Started WriteToMssql) w) = (q, w1)"
      by (metis surj_pair)
    with Some Inr assms have "r = q" "w_conn w' = w_conn w1"
      by (auto simp: run_mssql_write_def run_mssql_write_with_reporter_def)
    with plan_and_write_step [OF q] show ?thesis by simp
  qed
qed

end
