(* ===== verification/DF_Schema_Compat.thy ===== *)
theory DF_Schema_Compat
  imports DF_Planning "HOL-Library.List_Lexorder" "HOL-Library.Char_ord"
begin

section \<open>Comparing a schema with its replanned version\<close>

text \<open>
  \<open>write_all/cached_stream.rs\<close> and \<open>write_all/cache_alias.rs\<close>: when SQL is planned again over
  cached aliases, its schema is compared with the one planned before. This theory holds the
  comparison (metadata and the width of strings and binaries do not matter, everything else
  does), and the text that explains a mismatch, which is cut so that it stays bounded however
  often it is escaped on its way to a report. How Arrow writes a data type is the parameter
  \<open>dt_display\<close>.
\<close>

subsection \<open>Data types without metadata\<close>

primrec data_type_without_metadata :: "DataType \<Rightarrow> DataType"
  and field_without_metadata :: "Field \<Rightarrow> Field" where
  "data_type_without_metadata NullType = NullType"
| "data_type_without_metadata Boolean = Boolean"
| "data_type_without_metadata Int8 = Int8"
| "data_type_without_metadata Int16 = Int16"
| "data_type_without_metadata Int32 = Int32"
| "data_type_without_metadata Int64 = Int64"
| "data_type_without_metadata UInt8 = UInt8"
| "data_type_without_metadata UInt16 = UInt16"
| "data_type_without_metadata UInt32 = UInt32"
| "data_type_without_metadata UInt64 = UInt64"
| "data_type_without_metadata Float16 = Float16"
| "data_type_without_metadata Float32 = Float32"
| "data_type_without_metadata Float64 = Float64"
| "data_type_without_metadata (Timestamp u z) = Timestamp u z"
| "data_type_without_metadata Date32 = Date32"
| "data_type_without_metadata Date64 = Date64"
| "data_type_without_metadata (Time32 u) = Time32 u"
| "data_type_without_metadata (Time64 u) = Time64 u"
| "data_type_without_metadata (Duration u) = Duration u"
| "data_type_without_metadata (Interval u) = Interval u"
| "data_type_without_metadata Binary = Binary"
| "data_type_without_metadata (FixedSizeBinary n) = FixedSizeBinary n"
| "data_type_without_metadata LargeBinary = LargeBinary"
| "data_type_without_metadata BinaryView = BinaryView"
| "data_type_without_metadata Utf8 = Utf8"
| "data_type_without_metadata LargeUtf8 = LargeUtf8"
| "data_type_without_metadata Utf8View = Utf8View"
| "data_type_without_metadata (ListType f) = ListType (field_without_metadata f)"
| "data_type_without_metadata (ListView f) = ListView (field_without_metadata f)"
| "data_type_without_metadata (FixedSizeList f n) = FixedSizeList (field_without_metadata f) n"
| "data_type_without_metadata (LargeList f) = LargeList (field_without_metadata f)"
| "data_type_without_metadata (LargeListView f) = LargeListView (field_without_metadata f)"
| "data_type_without_metadata (Struct fs) = Struct (map field_without_metadata fs)"
| "data_type_without_metadata (UnionType fs m) =
     UnionType (map (map_prod id field_without_metadata) fs) m"
| "data_type_without_metadata (Dictionary k v) =
     Dictionary (data_type_without_metadata k) (data_type_without_metadata v)"
| "data_type_without_metadata (Decimal32 p s) = Decimal32 p s"
| "data_type_without_metadata (Decimal64 p s) = Decimal64 p s"
| "data_type_without_metadata (Decimal128 p s) = Decimal128 p s"
| "data_type_without_metadata (Decimal256 p s) = Decimal256 p s"
| "data_type_without_metadata (MapType f b) = MapType (field_without_metadata f) b"
| "data_type_without_metadata (RunEndEncoded r v) =
     RunEndEncoded (field_without_metadata r) (field_without_metadata v)"
| "field_without_metadata (Field name t nullable ordered m) =
     Field name (data_type_without_metadata t) nullable ordered fmempty"

subsection \<open>Compatible types\<close>

primrec normalized_cache_replan_data_type :: "DataType \<Rightarrow> DataType"
  and normalized_cache_replan_field :: "Field \<Rightarrow> Field" where
  "normalized_cache_replan_data_type NullType = NullType"
| "normalized_cache_replan_data_type Boolean = Boolean"
| "normalized_cache_replan_data_type Int8 = Int8"
| "normalized_cache_replan_data_type Int16 = Int16"
| "normalized_cache_replan_data_type Int32 = Int32"
| "normalized_cache_replan_data_type Int64 = Int64"
| "normalized_cache_replan_data_type UInt8 = UInt8"
| "normalized_cache_replan_data_type UInt16 = UInt16"
| "normalized_cache_replan_data_type UInt32 = UInt32"
| "normalized_cache_replan_data_type UInt64 = UInt64"
| "normalized_cache_replan_data_type Float16 = Float16"
| "normalized_cache_replan_data_type Float32 = Float32"
| "normalized_cache_replan_data_type Float64 = Float64"
| "normalized_cache_replan_data_type (Timestamp u z) = Timestamp u z"
| "normalized_cache_replan_data_type Date32 = Date32"
| "normalized_cache_replan_data_type Date64 = Date64"
| "normalized_cache_replan_data_type (Time32 u) = Time32 u"
| "normalized_cache_replan_data_type (Time64 u) = Time64 u"
| "normalized_cache_replan_data_type (Duration u) = Duration u"
| "normalized_cache_replan_data_type (Interval u) = Interval u"
| "normalized_cache_replan_data_type Binary = Binary"
| "normalized_cache_replan_data_type (FixedSizeBinary n) = FixedSizeBinary n"
| "normalized_cache_replan_data_type LargeBinary = Binary"
| "normalized_cache_replan_data_type BinaryView = Binary"
| "normalized_cache_replan_data_type Utf8 = Utf8"
| "normalized_cache_replan_data_type LargeUtf8 = Utf8"
| "normalized_cache_replan_data_type Utf8View = Utf8"
| "normalized_cache_replan_data_type (ListType f) = ListType (normalized_cache_replan_field f)"
| "normalized_cache_replan_data_type (ListView f) = ListView (normalized_cache_replan_field f)"
| "normalized_cache_replan_data_type (FixedSizeList f n) =
     FixedSizeList (normalized_cache_replan_field f) n"
| "normalized_cache_replan_data_type (LargeList f) = LargeList (normalized_cache_replan_field f)"
| "normalized_cache_replan_data_type (LargeListView f) =
     LargeListView (normalized_cache_replan_field f)"
| "normalized_cache_replan_data_type (Struct fs) = Struct (map normalized_cache_replan_field fs)"
| "normalized_cache_replan_data_type (UnionType fs m) =
     UnionType (map (map_prod id normalized_cache_replan_field) fs) m"
| "normalized_cache_replan_data_type (Dictionary k v) =
     Dictionary (normalized_cache_replan_data_type k) (normalized_cache_replan_data_type v)"
| "normalized_cache_replan_data_type (Decimal32 p s) = Decimal32 p s"
| "normalized_cache_replan_data_type (Decimal64 p s) = Decimal64 p s"
| "normalized_cache_replan_data_type (Decimal128 p s) = Decimal128 p s"
| "normalized_cache_replan_data_type (Decimal256 p s) = Decimal256 p s"
| "normalized_cache_replan_data_type (MapType f b) = MapType (normalized_cache_replan_field f) b"
| "normalized_cache_replan_data_type (RunEndEncoded r v) =
     RunEndEncoded (normalized_cache_replan_field r) (normalized_cache_replan_field v)"
| "normalized_cache_replan_field (Field name t nullable ordered m) =
     Field name (normalized_cache_replan_data_type t) nullable ordered m"

definition data_types_compatible_for_cache_alias_replan :: "DataType \<Rightarrow> DataType \<Rightarrow> bool" where
  "data_types_compatible_for_cache_alias_replan expected replanned \<longleftrightarrow>
     normalized_cache_replan_data_type (data_type_without_metadata expected) =
     normalized_cache_replan_data_type (data_type_without_metadata replanned)"

definition schemas_compatible_for_cache_alias_replan :: "Schema \<Rightarrow> Schema \<Rightarrow> bool" where
  "schemas_compatible_for_cache_alias_replan expected replanned \<longleftrightarrow>
     length (sch_fields expected) = length (sch_fields replanned) \<and>
     list_all (\<lambda>(e, r). fd_name e = fd_name r \<and> fd_nullable e = fd_nullable r \<and>
         data_types_compatible_for_cache_alias_replan (fd_data_type e) (fd_data_type r))
       (zip (sch_fields expected) (sch_fields replanned))"

subsection \<open>Explaining a mismatch\<close>

text \<open>The \<open>Debug\<close> output of a string, for the characters of the model.\<close>

definition debug_printable :: "char \<Rightarrow> bool" where
  "debug_printable c \<longleftrightarrow> 32 \<le> code c \<and> code c \<le> 126 \<or> 161 \<le> code c \<and> code c \<noteq> 173"

definition escape_debug :: "char \<Rightarrow> string" where
  "escape_debug c =
     (if code c = 0 then [CHR 0x5C, CHR ''0'']
      else if code c = 9 then [CHR 0x5C, CHR ''t'']
      else if code c = 13 then [CHR 0x5C, CHR ''r'']
      else if code c = 10 then [CHR 0x5C, CHR ''n'']
      else if code c = 34 \<or> code c = 92 then [CHR 0x5C, c]
      else if debug_printable c then [c]
      else [CHR 0x5C, CHR ''u'', CHR 0x7B] @ show_hex (code c) @ [CHR 0x7D])"

definition debug_str :: "string \<Rightarrow> string" where
  "debug_str s = [CHR 0x22] @ concat (map escape_debug s) @ [CHR 0x22]"

fun join :: "string \<Rightarrow> string list \<Rightarrow> string" where
  "join sep [] = []"
| "join sep [x] = x"
| "join sep (x # y # ys) = x @ sep @ join sep (y # ys)"

definition MAX_REPORTED_SCHEMA_DIFFERENCES :: nat where
  "MAX_REPORTED_SCHEMA_DIFFERENCES = 16"

definition MAX_SCHEMA_DIAGNOSTIC_BYTES :: nat where
  "MAX_SCHEMA_DIAGNOSTIC_BYTES = 8 * 1024"

definition TRUNCATED_SCHEMA_DIAGNOSTIC_SUFFIX :: string where
  "TRUNCATED_SCHEMA_DIAGNOSTIC_SUFFIX = ''; additional details truncated''"

definition CACHE_REPLAY_DIAGNOSTIC_SANITIZATION_LAYERS :: nat where
  "CACHE_REPLAY_DIAGNOSTIC_SANITIZATION_LAYERS = 6"

definition describe_schema_field :: "(DataType \<Rightarrow> string) \<Rightarrow> Field option \<Rightarrow> string" where
  "describe_schema_field dt_display field =
     (case field of
        None \<Rightarrow> ''<missing>''
      | Some f \<Rightarrow>
          (let t = data_type_without_metadata (fd_data_type f) in
           [CHR 0x7B] @ ''name='' @ debug_str (fd_name f) @ '', data_type='' @ dt_display t
             @ '', nullable='' @ (if fd_nullable f then ''true'' else ''false'')
             @ (if t \<noteq> fd_data_type f then '', nested_metadata=redacted'' else [])
             @ [CHR 0x7D]))"

definition metadata_change :: "metadata \<Rightarrow> metadata \<Rightarrow> string \<Rightarrow> string option" where
  "metadata_change expected replanned k =
     (case (fmlookup expected k, fmlookup replanned k) of
        (Some e, Some r) \<Rightarrow> if e \<noteq> r then Some ''changed'' else None
      | (Some _, None) \<Rightarrow> Some ''removed''
      | (None, Some _) \<Rightarrow> Some ''added''
      | (None, None) \<Rightarrow> None)"

fun metadata_changes_loop ::
    "metadata \<Rightarrow> metadata \<Rightarrow> string list \<Rightarrow> string list \<Rightarrow> nat \<Rightarrow> string list \<times> nat" where
  "metadata_changes_loop expected replanned [] changes omitted = (changes, omitted)"
| "metadata_changes_loop expected replanned (k # ks) changes omitted =
     (case metadata_change expected replanned k of
        None \<Rightarrow> metadata_changes_loop expected replanned ks changes omitted
      | Some change \<Rightarrow>
          if length changes < MAX_REPORTED_SCHEMA_DIFFERENCES then
            metadata_changes_loop expected replanned ks
              (changes @ [debug_str k @ '':'' @ change]) omitted
          else metadata_changes_loop expected replanned ks changes (omitted + 1))"

definition describe_metadata_changes :: "metadata \<Rightarrow> metadata \<Rightarrow> string option" where
  "describe_metadata_changes expected replanned =
     (case metadata_changes_loop expected replanned
             (sorted_list_of_set (fset (fmdom expected) \<union> fset (fmdom replanned))) [] 0 of
        (changes, omitted) \<Rightarrow>
          (let all = changes @ (if 0 < omitted
                then [show_nat omitted @ '' additional changes omitted''] else [])
           in if all = [] then None else Some (join '', '' all)))"

definition len_utf8 :: "char \<Rightarrow> nat" where
  "len_utf8 c = (if code c < 128 then 1 else 2)"

primrec sanitized_display_len :: "nat \<Rightarrow> char \<Rightarrow> nat" where
  "sanitized_display_len 0 c = len_utf8 c"
| "sanitized_display_len (Suc layers) c =
     sum_list (map (sanitized_display_len layers) (escape_default c))"

fun cut_index :: "nat \<Rightarrow> nat \<Rightarrow> nat \<Rightarrow> string \<Rightarrow> nat option" where
  "cut_index layers display_bytes i [] = None"
| "cut_index layers display_bytes i (c # cs) =
     (let escaped_bytes = sanitized_display_len layers c in
      if display_bytes + escaped_bytes > MAX_SCHEMA_DIAGNOSTIC_BYTES then Some i
      else cut_index layers (display_bytes + escaped_bytes) (Suc i) cs)"

definition truncate_schema_diagnostic :: "string \<Rightarrow> nat \<Rightarrow> string" where
  "truncate_schema_diagnostic diagnostic layers =
     (case cut_index layers 0 0 diagnostic of
        None \<Rightarrow> diagnostic
      | Some end_index \<Rightarrow> take end_index diagnostic @ TRUNCATED_SCHEMA_DIAGNOSTIC_SUFFIX)"

definition get :: "'a list \<Rightarrow> nat \<Rightarrow> 'a option" where
  "get xs i = (if i < length xs then Some (xs ! i) else None)"

definition describe_field_difference ::
    "(DataType \<Rightarrow> string) \<Rightarrow> nat \<Rightarrow> Field option \<Rightarrow> Field option \<Rightarrow> string" where
  "describe_field_difference dt_display index expected replanned =
     ''field['' @ show_nat index @ ''] expected='' @ describe_schema_field dt_display expected
       @ '' replanned='' @ describe_schema_field dt_display replanned
       @ (case (expected, replanned) of
            (Some e, Some r) \<Rightarrow>
              (case describe_metadata_changes (fd_metadata e) (fd_metadata r) of
                 None \<Rightarrow> []
               | Some changes \<Rightarrow> ''; field metadata keys=['' @ changes @ '']'')
          | _ \<Rightarrow> [])"

fun field_differences_loop ::
    "(DataType \<Rightarrow> string) \<Rightarrow> Schema \<Rightarrow> Schema \<Rightarrow> nat list \<Rightarrow> string list \<Rightarrow> nat \<Rightarrow> nat
       \<Rightarrow> string list \<times> nat" where
  "field_differences_loop dt_display expected replanned [] differences reported omitted =
     (differences, omitted)"
| "field_differences_loop dt_display expected replanned (i # is) differences reported omitted =
     (let e = get (sch_fields expected) i; r = get (sch_fields replanned) i in
      if e = r then
        field_differences_loop dt_display expected replanned is differences reported omitted
      else if MAX_REPORTED_SCHEMA_DIFFERENCES \<le> reported then
        field_differences_loop dt_display expected replanned is differences reported (omitted + 1)
      else
        field_differences_loop dt_display expected replanned is
          (differences @ [describe_field_difference dt_display i e r]) (reported + 1) omitted)"

definition describe_schema_mismatch ::
    "(DataType \<Rightarrow> string) \<Rightarrow> Schema \<Rightarrow> Schema \<Rightarrow> string" where
  "describe_schema_mismatch dt_display expected replanned =
     (let n = length (sch_fields expected); m = length (sch_fields replanned);
          counts = (if n \<noteq> m then [''field count expected='' @ show_nat n @ '' replanned='' @ show_nat m]
                    else [])
      in case field_differences_loop dt_display expected replanned [0..<max n m] counts 0 0 of
           (differences, omitted) \<Rightarrow>
             (let omissions = (if 0 < omitted
                    then [show_nat omitted @ '' additional field differences omitted''] else []);
                  changes = (case describe_metadata_changes (sch_metadata expected)
                                    (sch_metadata replanned) of
                               None \<Rightarrow> []
                             | Some c \<Rightarrow> [''schema metadata keys=['' @ c @ '']''])
              in truncate_schema_diagnostic (join ''; '' (differences @ omissions @ changes)) 0))"

definition bounded_schema_mismatch_for_nested_error ::
    "(DataType \<Rightarrow> string) \<Rightarrow> Schema \<Rightarrow> Schema \<Rightarrow> string" where
  "bounded_schema_mismatch_for_nested_error dt_display expected replanned =
     truncate_schema_diagnostic (describe_schema_mismatch dt_display expected replanned)
       CACHE_REPLAY_DIAGNOSTIC_SANITIZATION_LAYERS"

subsection \<open>What compatibility means\<close>

text \<open>
  The specification: two types are compatible when they are the same tree of constructors and
  parameters, except that the three string types count as one, the three variable binary types
  count as one, and the metadata of nested fields is ignored. A nested field keeps its name, its
  nullability and its dictionary order.
\<close>

inductive compatible_type :: "DataType \<Rightarrow> DataType \<Rightarrow> bool"
  and compatible_field :: "Field \<Rightarrow> Field \<Rightarrow> bool" where
  same: "compatible_type t t"
| string: "a \<in> {Utf8, LargeUtf8, Utf8View} \<Longrightarrow> b \<in> {Utf8, LargeUtf8, Utf8View} \<Longrightarrow> compatible_type a b"
| binary: "a \<in> {Binary, LargeBinary, BinaryView} \<Longrightarrow> b \<in> {Binary, LargeBinary, BinaryView} \<Longrightarrow>
     compatible_type a b"
| list: "compatible_field f g \<Longrightarrow> compatible_type (ListType f) (ListType g)"
| list_view: "compatible_field f g \<Longrightarrow> compatible_type (ListView f) (ListView g)"
| fixed_list: "compatible_field f g \<Longrightarrow> compatible_type (FixedSizeList f n) (FixedSizeList g n)"
| large_list: "compatible_field f g \<Longrightarrow> compatible_type (LargeList f) (LargeList g)"
| large_list_view: "compatible_field f g \<Longrightarrow> compatible_type (LargeListView f) (LargeListView g)"
| struct: "list_all2 compatible_field fs gs \<Longrightarrow> compatible_type (Struct fs) (Struct gs)"
| union: "map fst fs = map fst gs \<Longrightarrow> list_all2 compatible_field (map snd fs) (map snd gs) \<Longrightarrow>
     compatible_type (UnionType fs m) (UnionType gs m)"
| dictionary: "compatible_type k l \<Longrightarrow> compatible_type v w \<Longrightarrow>
     compatible_type (Dictionary k v) (Dictionary l w)"
| "map": "compatible_field f g \<Longrightarrow> compatible_type (MapType f b) (MapType g b)"
| run_end: "compatible_field r q \<Longrightarrow> compatible_field v w \<Longrightarrow>
     compatible_type (RunEndEncoded r v) (RunEndEncoded q w)"
| field: "compatible_type t u \<Longrightarrow>
     compatible_field (Field name t nullable ordered m) (Field name u nullable ordered m')"

abbreviation replan_normal :: "DataType \<Rightarrow> DataType" where
  "replan_normal t \<equiv> normalized_cache_replan_data_type (data_type_without_metadata t)"

abbreviation replan_normal_field :: "Field \<Rightarrow> Field" where
  "replan_normal_field f \<equiv> normalized_cache_replan_field (field_without_metadata f)"

lemma compatible_sound:
  "compatible_type t u \<Longrightarrow> replan_normal t = replan_normal u"
  "compatible_field f g \<Longrightarrow> replan_normal_field f = replan_normal_field g"
proof (induction rule: compatible_type_compatible_field.inducts)
  case (struct fs gs)
  then show ?case
    by (induction fs gs rule: list_all2_induct) simp_all
next
  case (union fs gs m)
  have "map (map_prod id normalized_cache_replan_field) (map (map_prod id field_without_metadata) xs)
      = zip (map fst xs) (map replan_normal_field (map snd xs))" for xs :: "(int \<times> Field) list"
    by (induction xs) auto
  moreover have "map replan_normal_field (map snd fs) = map replan_normal_field (map snd gs)"
    using union(2) by (induction rule: list_all2_induct) auto
  ultimately show ?case
    using union(1) by simp
qed auto

text \<open>A type is determined by its normal form up to compatibility.\<close>

lemma list_all2_of_images:
  assumes "map h fs = map h gs" "\<And>f g. f \<in> set fs \<Longrightarrow> h f = h g \<Longrightarrow> P f g"
  shows "list_all2 P fs gs"
  using assms
proof (induction fs arbitrary: gs)
  case (Cons f fs)
  then obtain g gs' where "gs = g # gs'" by (cases gs) auto
  with Cons show ?case by simp
qed simp

lemma compatible_complete:
  "replan_normal t = replan_normal u \<Longrightarrow> compatible_type t u"
  "replan_normal_field f = replan_normal_field g \<Longrightarrow> compatible_field f g"
proof (induction t and f arbitrary: u and g)
  case (Struct fs)
  then obtain gs where "u = Struct gs" "map replan_normal_field fs = map replan_normal_field gs"
    by (cases u) (auto simp: comp_def)
  with Struct.IH show ?case
    using list_all2_of_images [of replan_normal_field fs gs compatible_field] by (auto intro: struct)
next
  case (UnionType fs m)
  then obtain gs where gs: "u = UnionType gs m"
      "map (\<lambda>x. (fst x, replan_normal_field (snd x))) fs =
       map (\<lambda>x. (fst x, replan_normal_field (snd x))) gs"
    by (cases u) (auto simp: comp_def map_prod_def case_prod_beta)
  have "map fst fs = map fst gs" "map replan_normal_field (map snd fs) = map replan_normal_field (map snd gs)"
    using arg_cong [OF gs(2), of "map fst"] arg_cong [OF gs(2), of "map snd"] by (simp_all add: comp_def)
  moreover from this(2) have "list_all2 compatible_field (map snd fs) (map snd gs)"
    by (rule list_all2_of_images) (use UnionType.IH in force)
  ultimately show ?case
    using gs(1) by (auto intro: union)
next
  case (Field name t nullable ordered m)
  then show ?case by (cases g) (auto intro: field)
next
  case (ListType f)
  then show ?case by (cases u) (auto intro: compatible_type_compatible_field.intros)
qed (case_tac [!] u, auto intro: compatible_type_compatible_field.intros)

lemma data_types_compatible_iff:
  "data_types_compatible_for_cache_alias_replan expected replanned \<longleftrightarrow>
     compatible_type expected replanned"
  unfolding data_types_compatible_for_cache_alias_replan_def
  using compatible_sound(1) compatible_complete(1) by blast

definition compatible_column :: "Field \<Rightarrow> Field \<Rightarrow> bool" where
  "compatible_column e r \<longleftrightarrow>
     fd_name e = fd_name r \<and> fd_nullable e = fd_nullable r \<and>
     compatible_type (fd_data_type e) (fd_data_type r)"

lemma schemas_compatible_iff:
  "schemas_compatible_for_cache_alias_replan expected replanned \<longleftrightarrow>
     list_all2 compatible_column (sch_fields expected) (sch_fields replanned)"
  by (auto simp: schemas_compatible_for_cache_alias_replan_def list_all2_iff list_all_iff
      data_types_compatible_iff compatible_column_def)

lemma compatible_type_equivp: "equivp compatible_type"
  unfolding data_types_compatible_iff [symmetric] data_types_compatible_for_cache_alias_replan_def
    fun_eq_iff
  by (rule equivpI) (auto simp: reflp_def symp_def transp_def
      data_types_compatible_iff [symmetric] data_types_compatible_for_cache_alias_replan_def)

subsection \<open>The explanation stays bounded\<close>

definition utf8_bytes :: "string \<Rightarrow> nat" where
  "utf8_bytes s = sum_list (map len_utf8 s)"

text \<open>\<open>sanitized_display_len\<close> computes the size of a text after the given number of escapings.\<close>

lemma sanitized_display_len_bytes:
  "sum_list (map (sanitized_display_len layers) s) =
     utf8_bytes ((sanitize_text_for_display ^^ layers) s)"
proof (induction layers arbitrary: s)
  case (Suc layers)
  have "sum_list (map (sanitized_display_len (Suc layers)) s) =
      sum_list (map (sanitized_display_len layers) (sanitize_text_for_display s))"
    by (induction s) (simp_all add: sanitize_text_for_display_def)
  also have "\<dots> = utf8_bytes ((sanitize_text_for_display ^^ layers) (sanitize_text_for_display s))"
    by (rule Suc.IH)
  finally show ?case
    by (simp only: funpow_Suc_right comp_apply)
next
  case 0
  have "sanitized_display_len 0 = len_utf8"
    by (rule ext) simp
  then show ?case
    by (simp add: utf8_bytes_def)
qed

lemma cut_index_spec:
  assumes "display_bytes \<le> MAX_SCHEMA_DIAGNOSTIC_BYTES"
  shows "case cut_index layers display_bytes i s of
      None \<Rightarrow> display_bytes + sum_list (map (sanitized_display_len layers) s)
        \<le> MAX_SCHEMA_DIAGNOSTIC_BYTES
    | Some j \<Rightarrow> \<exists>k. j = i + k \<and> k < length s \<and>
        display_bytes + sum_list (map (sanitized_display_len layers) (take k s))
          \<le> MAX_SCHEMA_DIAGNOSTIC_BYTES \<and>
        MAX_SCHEMA_DIAGNOSTIC_BYTES <
          display_bytes + sum_list (map (sanitized_display_len layers) (take (Suc k) s))"
  using assms
proof (induction layers display_bytes i s rule: cut_index.induct)
  case (2 layers display_bytes i c cs)
  show ?case
  proof (cases "display_bytes + sanitized_display_len layers c > MAX_SCHEMA_DIAGNOSTIC_BYTES")
    case True
    with "2.prems" show ?thesis
      by (auto simp: Let_def intro!: exI [of _ 0])
  next
    case False
    let ?rest = "cut_index layers (display_bytes + sanitized_display_len layers c) (Suc i) cs"
    note IH = "2.IH" [OF refl False]
    show ?thesis
    proof (cases ?rest)
      case None
      with IH False show ?thesis by (simp add: Let_def add.assoc)
    next
      case (Some j)
      with IH False obtain k where "j = Suc i + k" "k < length cs"
          "display_bytes + sanitized_display_len layers c
             + sum_list (map (sanitized_display_len layers) (take k cs)) \<le> MAX_SCHEMA_DIAGNOSTIC_BYTES"
          "MAX_SCHEMA_DIAGNOSTIC_BYTES < display_bytes + sanitized_display_len layers c
             + sum_list (map (sanitized_display_len layers) (take (Suc k) cs))"
        by auto
      with Some False show ?thesis
        by (auto simp: Let_def add.assoc intro!: exI [of _ "Suc k"])
    qed
  qed
qed simp

text \<open>
  A cut text: whatever the text was, what is kept of it is at most \<open>MAX_SCHEMA_DIAGNOSTIC_BYTES\<close>
  after \<open>layers\<close> escapings, and it is cut only when the whole text would be longer.
\<close>

lemma sanitize_funpow_append:
  "(sanitize_text_for_display ^^ n) (s @ t) =
     (sanitize_text_for_display ^^ n) s @ (sanitize_text_for_display ^^ n) t"
  by (induction n) (simp_all add: sanitize_append)

lemma utf8_bytes_append [simp]: "utf8_bytes (s @ t) = utf8_bytes s + utf8_bytes t"
  by (simp add: utf8_bytes_def)

lemma truncation_suffix_plain:
  "(sanitize_text_for_display ^^ n) TRUNCATED_SCHEMA_DIAGNOSTIC_SUFFIX
     = TRUNCATED_SCHEMA_DIAGNOSTIC_SUFFIX"
proof (induction n)
  case (Suc n)
  then show ?case
    by (simp add: TRUNCATED_SCHEMA_DIAGNOSTIC_SUFFIX_def sanitize_text_for_display_def
        escape_default_def)
qed simp

lemma truncate_schema_diagnostic_cases:
  obtains (kept) "truncate_schema_diagnostic d layers = d"
      "utf8_bytes ((sanitize_text_for_display ^^ layers) d) \<le> MAX_SCHEMA_DIAGNOSTIC_BYTES"
  | (cut) k where "k < length d"
      "truncate_schema_diagnostic d layers = take k d @ TRUNCATED_SCHEMA_DIAGNOSTIC_SUFFIX"
      "utf8_bytes ((sanitize_text_for_display ^^ layers) (take k d)) \<le> MAX_SCHEMA_DIAGNOSTIC_BYTES"
      "MAX_SCHEMA_DIAGNOSTIC_BYTES
         < utf8_bytes ((sanitize_text_for_display ^^ layers) (take (Suc k) d))"
proof (cases "cut_index layers 0 0 d")
  case None
  with cut_index_spec [where display_bytes = 0 and layers = layers and i = 0 and s = d] kept show thesis
    by (simp add: truncate_schema_diagnostic_def sanitized_display_len_bytes)
next
  case (Some j)
  with cut_index_spec [where display_bytes = 0 and layers = layers and i = 0 and s = d] cut [of j] show thesis
    by (simp add: truncate_schema_diagnostic_def sanitized_display_len_bytes)
qed

lemma truncated_diagnostic_bounded:
  "utf8_bytes ((sanitize_text_for_display ^^ layers) (truncate_schema_diagnostic d layers))
     \<le> MAX_SCHEMA_DIAGNOSTIC_BYTES + 30"
proof (cases rule: truncate_schema_diagnostic_cases [of d layers])
  case kept
  then show ?thesis by simp
next
  case (cut k)
  have "utf8_bytes TRUNCATED_SCHEMA_DIAGNOSTIC_SUFFIX = 30"
    by (simp add: utf8_bytes_def TRUNCATED_SCHEMA_DIAGNOSTIC_SUFFIX_def len_utf8_def)
  with cut(2,3) show ?thesis
    by (simp add: sanitize_funpow_append truncation_suffix_plain)
qed

end
