(* ===== verification/DF_Cache_Alias.thy ===== *)
theory DF_Cache_Alias
  imports DF_Query DF_Cache_Plan DF_Schema_Compat "HOL-Library.Multiset"
begin

section \<open>Cached aliases\<close>

text \<open>
  \<open>write_all/cache_alias.rs\<close>: materializing a registered alias into memory, replacing its catalog
  entry by the cached table while the outputs are written, and restoring it afterwards.

  \<open>cache_engine\<close> collects what this uses of DataFusion beyond the queries of \<open>DF_Query\<close>.
  \<open>ca_completion_order\<close> is the order in which the collector tasks of a plan's partitions finish,
  \<open>ca_samples\<close> the scan counters at the points where the collecting task samples them, and
  \<open>ca_display_type\<close> Arrow's rendering of a type.
\<close>

record ('c, 'd, 'p, 'q, 'i) cache_engine =
  ca_engine :: "('c, 'd, 'p, 'q, 'i) query_engine"
  ca_has_cache_factory :: "'c \<Rightarrow> bool"
  ca_deregister_table :: "string \<Rightarrow> ('c, string, 'p option) io"
  ca_execute_stream_partitioned :: "'i ExecutionPlan \<Rightarrow> string + (string + RecordBatch) list list"
  ca_mem_table :: "Schema \<Rightarrow> RecordBatch list list \<Rightarrow> string + 'p"
  ca_completion_order :: "'i ExecutionPlan \<Rightarrow> nat list"
  ca_samples :: "'i ExecutionPlan \<Rightarrow> DeltaDataFusionMetricsSnapshot list list"
  ca_display_type :: "DataType \<Rightarrow> string"

subsection \<open>Phases and errors\<close>

definition CACHE_ALIAS_DATAFRAME_RESOLUTION_PHASE :: string where
  "CACHE_ALIAS_DATAFRAME_RESOLUTION_PHASE = ''cache_alias_dataframe_resolution''"

definition CACHE_ALIAS_PHYSICAL_PLANNING_PHASE :: string where
  "CACHE_ALIAS_PHYSICAL_PLANNING_PHASE = ''cache_alias_physical_planning''"

definition CACHE_ALIAS_STREAM_SETUP_PHASE :: string where
  "CACHE_ALIAS_STREAM_SETUP_PHASE = ''cache_alias_stream_setup''"

definition CACHE_ALIAS_EXECUTE_COLLECT_PHASE :: string where
  "CACHE_ALIAS_EXECUTE_COLLECT_PHASE = ''cache_alias_execute_collect''"

definition CACHE_ALIAS_MEMTABLE_BUILD_PHASE :: string where
  "CACHE_ALIAS_MEMTABLE_BUILD_PHASE = ''cache_alias_memtable_build''"

definition CACHE_ALIAS_MATERIALIZATION_TOTAL_PHASE :: string where
  "CACHE_ALIAS_MATERIALIZATION_TOTAL_PHASE = ''cache_alias_materialization_total''"

definition CACHE_ALIAS_INSTALL_PHASE :: string where
  "CACHE_ALIAS_INSTALL_PHASE = ''cache_alias_install''"

definition CACHE_ALIAS_RESTORE_PHASE :: string where
  "CACHE_ALIAS_RESTORE_PHASE = ''cache_alias_restore''"

definition CACHE_ALIAS_MATERIALIZATION_PHASES :: "string list" where
  "CACHE_ALIAS_MATERIALIZATION_PHASES =
     [CACHE_ALIAS_DATAFRAME_RESOLUTION_PHASE, CACHE_ALIAS_PHYSICAL_PLANNING_PHASE,
      CACHE_ALIAS_STREAM_SETUP_PHASE, CACHE_ALIAS_EXECUTE_COLLECT_PHASE,
      CACHE_ALIAS_MEMTABLE_BUILD_PHASE]"

definition unknown_cached_alias_error :: "MssqlDerivedCacheAliasPlan \<Rightarrow> DeltaFunnelError" where
  "unknown_cached_alias_error alias =
     MssqlWorkflowPlanning
       (''cached alias '' @ quoted (sanitize_text_for_display (cap_alias alias))
        @ '' is not registered in this session'')"

definition mssql_scoped_cache_alias_error :: "string \<Rightarrow> string \<Rightarrow> string \<Rightarrow> DeltaFunnelError" where
  "mssql_scoped_cache_alias_error phase alias_name error =
     MssqlWorkflowPlanning
       (''scoped MSSQL cache alias '' @ phase @ '' failed for ''
        @ quoted (sanitize_text_for_display alias_name) @ '': '' @ sanitize_text_for_display error)"

subsection \<open>Reports and failures\<close>

definition alias_report_selected :: "u64 \<Rightarrow> string \<Rightarrow> nat list \<Rightarrow> WriteAllCacheAliasReport" where
  "alias_report_selected table_id alias indexes =
     \<lparr>car_table_id = table_id, car_alias = alias, car_output_indexes = indexes, car_status = Selected,
      car_phase_timings = [], car_failed_phase = None, car_execution_profile = None\<rparr>"

definition alias_report_executed ::
    "u64 \<Rightarrow> string \<Rightarrow> nat list \<Rightarrow> WriteAllCacheAliasStatus \<Rightarrow> PhaseTimingReport list \<Rightarrow> string option
       \<Rightarrow> WriteAllCacheAliasReport" where
  "alias_report_executed table_id alias indexes st timings failed_phase =
     \<lparr>car_table_id = table_id, car_alias = alias, car_output_indexes = indexes, car_status = st,
      car_phase_timings = timings, car_failed_phase = failed_phase, car_execution_profile = None\<rparr>"

definition alias_report_with_execution_profile ::
    "QueryExecutionProfile option \<Rightarrow> WriteAllCacheAliasReport \<Rightarrow> WriteAllCacheAliasReport" where
  "alias_report_with_execution_profile profile report = report\<lparr>car_execution_profile := profile\<rparr>"

record 'p MaterializedCache =
  mat_provider :: 'p
  mat_phase_timings :: "PhaseTimingReport list"
  mat_execution_profile :: "QueryExecutionProfile option"

record CacheAliasPhaseFailure =
  apf_source :: DeltaFunnelError
  apf_phase_timings :: "PhaseTimingReport list"
  apf_failed_phase :: string
  apf_execution_profile :: "QueryExecutionProfile option"

record CacheAliasReplacementFailure =
  arf_source :: DeltaFunnelError
  arf_report :: "WriteAllCacheAliasReport option"

record CacheAliasInstallFailure =
  aif_source :: DeltaFunnelError
  aif_restore_timing :: "PhaseTimingReport option"

record 'p MssqlScopedCacheAliasReplacement =
  sr_table_id :: u64
  sr_alias_name :: string
  sr_output_indexes :: "nat list"
  sr_original_provider :: 'p
  sr_alias_phase_timings :: "PhaseTimingReport list"
  sr_execution_profile :: "QueryExecutionProfile option"

definition into_alias_failure ::
    "CacheAliasPhaseFailure \<Rightarrow> u64 \<Rightarrow> string \<Rightarrow> nat list \<Rightarrow> CacheAliasReplacementFailure" where
  "into_alias_failure failure table_id alias indexes =
     \<lparr>arf_source = apf_source failure,
      arf_report = Some (alias_report_with_execution_profile (apf_execution_profile failure)
        (alias_report_executed table_id alias indexes WriteAllCacheAliasStatus.Failed
           (apf_phase_timings failure) (Some (apf_failed_phase failure))))\<rparr>"

definition before_attempt :: "DeltaFunnelError \<Rightarrow> CacheAliasReplacementFailure" where
  "before_attempt source = \<lparr>arf_source = source, arf_report = None\<rparr>"

definition cache_alias_materialization_failure ::
    "DeltaFunnelError \<Rightarrow> PhaseTimingReport list \<Rightarrow> PhaseTimer \<Rightarrow> PhaseTimer
       \<Rightarrow> QueryExecutionProfile option \<Rightarrow> 's world \<Rightarrow> CacheAliasPhaseFailure \<times> 's world" where
  "cache_alias_materialization_failure source timings failed_timer total_timer profile w =
     (let index = length timings;
          failed_phase = CACHE_ALIAS_MATERIALIZATION_PHASES ! index;
          (failed_timing, w) = w_timer_failed failed_timer w;
          (total_timing, w) = w_timer_failed total_timer w
      in (\<lparr>apf_source = source,
           apf_phase_timings =
             timings @ [failed_timing]
             @ map (\<lambda>name. timing_not_started name PriorFailure)
                 (drop (index + 1) CACHE_ALIAS_MATERIALIZATION_PHASES)
             @ [total_timing]
             @ map (\<lambda>name. timing_not_started name PriorFailure)
                 [CACHE_ALIAS_INSTALL_PHASE, CACHE_ALIAS_RESTORE_PHASE],
           apf_failed_phase = failed_phase, apf_execution_profile = profile\<rparr>, w))"

subsection \<open>Collecting the partitions\<close>

fun try_collect :: "('e + 'a) list \<Rightarrow> 'e + 'a list" where
  "try_collect [] = Inr []"
| "try_collect (Inl e # xs) = Inl e"
| "try_collect (Inr a # xs) = res_bind (try_collect xs) (\<lambda>as. Inr (a # as))"

text \<open>
  \<open>join_cache_partition_tasks\<close> receives the collectors in the order in which they finish and
  returns the error of the first that failed. A partition without stream has no collector.
\<close>

fun join_cache_partition_tasks ::
    "(DeltaFunnelError + RecordBatch) list list \<Rightarrow> nat list \<Rightarrow> (nat \<times> RecordBatch list) list
       \<Rightarrow> DeltaFunnelError + (nat \<times> RecordBatch list) list" where
  "join_cache_partition_tasks streams [] partitions = Inr partitions"
| "join_cache_partition_tasks streams (i # order) partitions =
     res_bind (try_collect (streams ! i)) (\<lambda>batches.
       join_cache_partition_tasks streams order (partitions @ [(i, batches)]))"

definition collect_cache_partitions ::
    "(DeltaFunnelError + RecordBatch) list list \<Rightarrow> nat list \<Rightarrow> DeltaFunnelError + RecordBatch list list" where
  "collect_cache_partitions streams order =
     res_bind (join_cache_partition_tasks streams order []) (\<lambda>partitions.
       Inr (map snd (sort_key fst partitions)))"

definition start_cache_partition_streams ::
    "('c, 'd, 'p, 'q, 'i) cache_engine \<Rightarrow> 'i ExecutionPlan \<Rightarrow> string
       \<Rightarrow> DeltaFunnelError + (DeltaFunnelError + RecordBatch) list list" where
  "start_cache_partition_streams ca plan alias_name =
     res_bind (map_err (mssql_scoped_cache_alias_error ''materialize'' alias_name)
                 (ca_execute_stream_partitioned ca plan))
       (\<lambda>streams. Inr (map (map (map_err (mssql_scoped_cache_alias_error ''materialize'' alias_name)))
                         streams))"

text \<open>\<open>emit_cache_progress\<close> at each sampling point.\<close>

definition sample_cache_progress ::
    "ProgressReporter option \<Rightarrow> DeltaDataFusionMetricsSnapshot list list \<Rightarrow> 's world \<Rightarrow> 's world" where
  "sample_cache_progress reporter samples w =
     (case reporter of
        None \<Rightarrow> w
      | Some r \<Rightarrow>
          w\<lparr>w_events := snd (fold emit_if_changed samples
              (DeltaFileProgressSampler_new r MaterializingCache None, w_events w))\<rparr>)"

subsection \<open>Materialization\<close>

text \<open>The first phase: the data frame of the alias, replanned from its SQL where it is given.\<close>

definition resolve_cache_dataframe ::
    "('c, 'd, 'p, 'q, 'i) cache_engine \<Rightarrow> 'c \<Rightarrow> string \<Rightarrow> string option \<Rightarrow> Schema option
       \<Rightarrow> DeltaFunnelError + 'd" where
  "resolve_cache_dataframe ca ctx alias_name retained_sql expected_schema =
     res_bind
       (map_err (mssql_scoped_cache_alias_error ''resolve'' alias_name)
          (case retained_sql of
             Some sql \<Rightarrow> df_sql_with_options (ca_engine ca) ctx sql read_only_sql_options
           | None \<Rightarrow> qe_table (ca_engine ca) ctx alias_name))
       (\<lambda>dataframe.
          case expected_schema of
            None \<Rightarrow> Inr dataframe
          | Some expected \<Rightarrow>
              (let replanned = df_frame_schema (ca_engine ca) dataframe in
               if schemas_compatible_for_cache_alias_replan expected replanned then Inr dataframe
               else Inl (mssql_scoped_cache_alias_error ''resolve'' alias_name
                 (''replanned cache alias schema is incompatible with the registered schema: ''
                  @ bounded_schema_mismatch_for_nested_error (ca_display_type ca) expected replanned))))"

text \<open>The last two phases: running the partitions and building the in-memory table.\<close>

definition build_cache_table ::
    "('c, 'd, 'p, 'q, 'i) cache_engine \<Rightarrow> string \<Rightarrow> Schema \<Rightarrow> RecordBatch list list
       \<Rightarrow> PhaseTimingReport list \<Rightarrow> PhaseTimer \<Rightarrow> QueryExecutionProfile option
       \<Rightarrow> ('s world, CacheAliasPhaseFailure, 'p MaterializedCache) io" where
  "build_cache_table ca alias_name schema partitions timings total_timer profile w =
     (let (timer, w) = w_timer_start CACHE_ALIAS_MEMTABLE_BUILD_PHASE w in
      case ca_mem_table ca schema partitions of
        Inl error \<Rightarrow>
          (let (failure, w) = cache_alias_materialization_failure
                 (mssql_scoped_cache_alias_error ''materialize'' alias_name error) timings timer
                 total_timer profile w
           in (Inl failure, w))
      | Inr provider \<Rightarrow>
          (let (timing, w) = w_timer_completed timer w;
               (total_timing, w) = w_timer_completed total_timer w
           in (Inr \<lparr>mat_provider = provider, mat_phase_timings = timings @ [timing, total_timing],
                    mat_execution_profile = profile\<rparr>, w)))"

definition execute_cache_plan ::
    "('c, 'd, 'p, 'q, 'i) cache_engine \<Rightarrow> string \<Rightarrow> ProgressReporter option \<Rightarrow> ExecutionProfileMode
       \<Rightarrow> 'i ExecutionPlan \<Rightarrow> PhaseTimingReport list \<Rightarrow> PhaseTimer
       \<Rightarrow> ('s world, CacheAliasPhaseFailure, 'p MaterializedCache) io" where
  "execute_cache_plan ca alias_name reporter profile_mode plan timings total_timer w =
     (let schema = plan_schema (qe_plans (ca_engine ca)) plan;
          handles = collect_delta_provider_read_stats_handles (qe_plans (ca_engine ca)) plan;
          (setup_timer, w) = w_timer_start CACHE_ALIAS_STREAM_SETUP_PHASE w;
          profile = (\<lambda>outcome. case profile_mode of
             ExecutionProfileMode.Disabled \<Rightarrow> None
           | Detailed \<Rightarrow> Some (register_profile (ca_engine ca)
               \<lparr>pc_root = plan, pc_scope = WriteAllCacheAlias, pc_delta_funnel_row_limit = None\<rparr>
               handles outcome))
      in case start_cache_partition_streams ca plan alias_name of
           Inl error \<Rightarrow>
             (let (failure, w) = cache_alias_materialization_failure error timings setup_timer
                    total_timer (profile Error) w
              in (Inl failure, w))
         | Inr streams \<Rightarrow>
             (let (timing, w) = w_timer_completed setup_timer w;
                  timings = timings @ [timing];
                  (collect_timer, w) = w_timer_start CACHE_ALIAS_EXECUTE_COLLECT_PHASE w;
                  w = sample_cache_progress reporter (ca_samples ca plan) w
              in case collect_cache_partitions streams (ca_completion_order ca plan) of
                   Inl error \<Rightarrow>
                     (let (failure, w) = cache_alias_materialization_failure error timings
                            collect_timer total_timer (profile Error) w
                      in (Inl failure, w))
                 | Inr partitions \<Rightarrow>
                     (let (timing, w) = w_timer_completed collect_timer w
                      in build_cache_table ca alias_name schema partitions (timings @ [timing])
                           total_timer (profile Success) w)))"

definition materialize_cache_from_sql ::
    "('c, 'd, 'p, 'q, 'i) cache_engine \<Rightarrow> string \<Rightarrow> ProgressReporter option \<Rightarrow> ExecutionProfileMode
       \<Rightarrow> string option \<Rightarrow> Schema option
       \<Rightarrow> (('c, 's) engine_world, CacheAliasPhaseFailure, 'p MaterializedCache) io" where
  "materialize_cache_from_sql ca alias_name reporter profile_mode retained_sql expected_schema w =
     (let (total_timer, w) = w_timer_start CACHE_ALIAS_MATERIALIZATION_TOTAL_PHASE w;
          (resolution_timer, w) = w_timer_start CACHE_ALIAS_DATAFRAME_RESOLUTION_PHASE w
      in case resolve_cache_dataframe ca (w_context w) alias_name retained_sql expected_schema of
           Inl error \<Rightarrow>
             (let (failure, w) = cache_alias_materialization_failure error [] resolution_timer
                    total_timer None w
              in (Inl failure, w))
         | Inr dataframe \<Rightarrow>
             (let (resolution_timing, w) = w_timer_completed resolution_timer w;
                  (planning_timer, w) = w_timer_start CACHE_ALIAS_PHYSICAL_PLANNING_PHASE w
              in case qe_create_physical_plan (ca_engine ca) dataframe of
                   Inl error \<Rightarrow>
                     (let (failure, w) = cache_alias_materialization_failure
                            (mssql_scoped_cache_alias_error ''materialize'' alias_name error)
                            [resolution_timing] planning_timer total_timer None w
                      in (Inl failure, w))
                 | Inr plan \<Rightarrow>
                     (let (planning_timing, w) = w_timer_completed planning_timer w
                      in execute_cache_plan ca alias_name reporter profile_mode plan
                           [resolution_timing, planning_timing] total_timer w)))"

subsection \<open>Installing and restoring\<close>

text \<open>An action of the catalog in the engine's world.\<close>

definition on_catalog :: "('c, 'e, 'a) io \<Rightarrow> (('c, 's) engine_world, 'e, 'a) io" where
  "on_catalog m w =
     (case m (w_context w) of (r, ctx) \<Rightarrow> (r, w_update (\<lambda>st. st\<lparr>es_context := ctx\<rparr>) w))"

definition restore_original_after_cached_register_failure ::
    "('c, 'd, 'p, 'q, 'i) cache_engine \<Rightarrow> string \<Rightarrow> 'p \<Rightarrow> string
       \<Rightarrow> ('c, 's) engine_world \<Rightarrow> CacheAliasInstallFailure \<times> ('c, 's) engine_world" where
  "restore_original_after_cached_register_failure ca alias_name original register_error w =
     (let (timer, w) = w_timer_start CACHE_ALIAS_RESTORE_PHASE w;
          (restored, w) = on_catalog (df_register_table (ca_engine ca) alias_name original) w;
          (timing, w) = (if is_ok restored then w_timer_completed timer w else w_timer_failed timer w)
      in (\<lparr>aif_source = MssqlWorkflowPlanning
             (''failed to register cached provider for alias ''
              @ quoted (sanitize_text_for_display alias_name) @ '': ''
              @ sanitize_text_for_display register_error),
           aif_restore_timing = Some timing\<rparr>, w))"

definition install_scoped_cache_alias_provider ::
    "('c, 'd, 'p, 'q, 'i) cache_engine \<Rightarrow> string \<Rightarrow> 'p
       \<Rightarrow> (('c, 's) engine_world, CacheAliasInstallFailure, 'p) io" where
  "install_scoped_cache_alias_provider ca alias_name cached w =
     (case on_catalog (ca_deregister_table ca alias_name) w of
        (Inl error, w) \<Rightarrow>
          (Inl \<lparr>aif_source = mssql_scoped_cache_alias_error ''deregister'' alias_name error,
                aif_restore_timing = None\<rparr>, w)
      | (Inr None, w) \<Rightarrow>
          (Inl \<lparr>aif_source = mssql_scoped_cache_alias_error ''deregister'' alias_name
                  ''registered alias was missing from the catalog'',
                aif_restore_timing = None\<rparr>, w)
      | (Inr (Some original), w) \<Rightarrow>
          (case on_catalog (df_register_table (ca_engine ca) alias_name cached) w of
             (Inl register_error, w) \<Rightarrow>
               (let (failure, w) = restore_original_after_cached_register_failure ca alias_name
                      original register_error w
                in (Inl failure, w))
           | (Inr _, w) \<Rightarrow> (Inr original, w)))"

definition restore_with_report ::
    "('c, 'd, 'p, 'q, 'i) cache_engine \<Rightarrow> 'p MssqlScopedCacheAliasReplacement
       \<Rightarrow> ('c, 's) engine_world
       \<Rightarrow> (WriteAllCacheAliasReport \<times> (DeltaFunnelError + unit)) \<times> ('c, 's) engine_world" where
  "restore_with_report ca replacement w =
     (let name = sr_alias_name replacement;
          (timer, w) = w_timer_start CACHE_ALIAS_RESTORE_PHASE w;
          (restored, w) =
            io_bind
              (io_map_err (mssql_scoped_cache_alias_error ''restore_deregister'' name)
                 (on_catalog (ca_deregister_table ca name)))
              (\<lambda>_. io_map_err (mssql_scoped_cache_alias_error ''restore_register'' name)
                 (on_catalog (df_register_table (ca_engine ca) name (sr_original_provider replacement)))) w;
          (timing, w) = (if is_ok restored then w_timer_completed timer w else w_timer_failed timer w);
          timings = sr_alias_phase_timings replacement @ [timing];
          report = alias_report_executed (sr_table_id replacement) name (sr_output_indexes replacement)
            (if is_ok restored then MaterializedAndRestored else WriteAllCacheAliasStatus.Failed) timings
            (if is_ok restored then None else Some CACHE_ALIAS_RESTORE_PHASE)
      in ((alias_report_with_execution_profile (sr_execution_profile replacement) report, restored), w))"

definition replace_attempt ::
    "('c, 'd, 'p, 'q, 'i) cache_engine \<Rightarrow> ('c, 'p) DeltaFunnelSession \<Rightarrow> LazyTable \<Rightarrow> nat list
       \<Rightarrow> ProgressReporter option \<Rightarrow> ExecutionProfileMode \<Rightarrow> string option
       \<Rightarrow> (('c, 's) engine_world, CacheAliasReplacementFailure, 'p MssqlScopedCacheAliasReplacement) io" where
  "replace_attempt ca s t indexes reporter profile_mode retained_sql w =
     (case registered_derived_for_scoped_cache_alias s t of
        Inl e \<Rightarrow> (Inl (before_attempt e), w)
      | Inr registered \<Rightarrow>
          (let name = rd_name registered;
               expected = (if retained_sql = None then None else Some (rd_schema registered))
           in if ca_has_cache_factory ca (w_context w) then
                (Inl (before_attempt (MssqlWorkflowPlanning
                   (''`write_all` cache alias materialization requires DataFusion's default cache behavior; ''
                    @ ''custom cache factories are not supported''))), w)
              else
                (case materialize_cache_from_sql ca name reporter profile_mode retained_sql expected
                        (w_emit reporter (phase_changed MaterializingCache None) w) of
                   (Inl failure, w) \<Rightarrow> (Inl (into_alias_failure failure (lt_id t) name indexes), w)
                 | (Inr materialized, w) \<Rightarrow>
                     (let timings = mat_phase_timings materialized;
                          (timer, w) = w_timer_start CACHE_ALIAS_INSTALL_PHASE w
                      in case install_scoped_cache_alias_provider ca name (mat_provider materialized) w of
                           (Inl failure, w) \<Rightarrow>
                             (let (timing, w) = w_timer_failed timer w;
                                  restore_timing = (case aif_restore_timing failure of
                                      Some timing \<Rightarrow> timing
                                    | None \<Rightarrow> timing_not_started CACHE_ALIAS_RESTORE_PHASE PriorFailure)
                              in (Inl (into_alias_failure
                                     \<lparr>apf_source = aif_source failure,
                                      apf_phase_timings = timings @ [timing, restore_timing],
                                      apf_failed_phase = CACHE_ALIAS_INSTALL_PHASE,
                                      apf_execution_profile = mat_execution_profile materialized\<rparr>
                                     (lt_id t) name indexes), w))
                         | (Inr original, w) \<Rightarrow>
                             (let (timing, w) = w_timer_completed timer w
                              in (Inr \<lparr>sr_table_id = lt_id t, sr_alias_name = name,
                                       sr_output_indexes = indexes, sr_original_provider = original,
                                       sr_alias_phase_timings = timings @ [timing],
                                       sr_execution_profile = mat_execution_profile materialized\<rparr>, w))))))"

subsection \<open>Several aliases\<close>

text \<open>The replacements are restored in reverse order, whatever happens to one of them.\<close>

fun restore_loop ::
    "('c, 'd, 'p, 'q, 'i) cache_engine \<Rightarrow> 'p MssqlScopedCacheAliasReplacement list
       \<Rightarrow> WriteAllCacheAliasReport list \<Rightarrow> (u64 \<times> DeltaFunnelError) option \<Rightarrow> ('c, 's) engine_world
       \<Rightarrow> (WriteAllCacheAliasReport list \<times> (u64 \<times> DeltaFunnelError) option) \<times> ('c, 's) engine_world" where
  "restore_loop ca [] reports first_error w = ((reports, first_error), w)"
| "restore_loop ca (r # rs) reports first_error w =
     (case restore_with_report ca r w of
        ((report, restored), w) \<Rightarrow>
          restore_loop ca rs (reports @ [report])
            (case (restored, first_error) of
               (Inl error, None) \<Rightarrow> Some (car_table_id report, error)
             | _ \<Rightarrow> first_error) w)"

definition restore_mssql_cache_aliases_with_reports ::
    "('c, 'd, 'p, 'q, 'i) cache_engine \<Rightarrow> 'p MssqlScopedCacheAliasReplacement list
       \<Rightarrow> ProgressReporter option \<Rightarrow> ('c, 's) engine_world
       \<Rightarrow> (WriteAllCacheAliasReport list \<times> ((u64 \<times> DeltaFunnelError) + unit)) \<times> ('c, 's) engine_world" where
  "restore_mssql_cache_aliases_with_reports ca replacements reporter w =
     (let w = (if replacements = [] then w
               else w_emit reporter (phase_changed RestoringCache None) w);
          ((reports, first_error), w) = restore_loop ca (rev replacements) [] None w
      in ((rev reports, case first_error of Some error \<Rightarrow> Inl error | None \<Rightarrow> Inr ()), w))"

definition write_all_cache_failure ::
    "DeltaFunnelError \<Rightarrow> WriteAllCacheAliasReport list \<Rightarrow> u64 option \<Rightarrow> MssqlWorkflowWriteReport option
       \<Rightarrow> DeltaFunnelError" where
  "write_all_cache_failure source aliases primary_failed_alias_table_id workflow =
     WriteAllCache
       \<lparr>wcf_aliases = aliases, wcf_primary_failed_alias_table_id = primary_failed_alias_table_id,
        wcf_workflow = workflow\<rparr> source"

definition restore_cache_aliases_after_failure ::
    "('c, 'd, 'p, 'q, 'i) cache_engine \<Rightarrow> DeltaFunnelError \<Rightarrow> 'p MssqlScopedCacheAliasReplacement list
       \<Rightarrow> WriteAllCacheAliasReport option \<Rightarrow> ProgressReporter option
       \<Rightarrow> ('c, 's) engine_world \<Rightarrow> DeltaFunnelError \<times> ('c, 's) engine_world" where
  "restore_cache_aliases_after_failure ca source replacements failed_alias reporter w =
     (case restore_mssql_cache_aliases_with_reports ca replacements reporter w of
        ((reports, _), w) \<Rightarrow>
          (write_all_cache_failure source
             (reports @ (case failed_alias of None \<Rightarrow> [] | Some report \<Rightarrow> [report]))
             (map_option car_table_id failed_alias) None, w))"

text \<open>The SQL of an alias that reads an alias replaced before it.\<close>

definition retained_sql_for ::
    "RegisteredDerivedTable \<Rightarrow> DerivedTableDependency list \<Rightarrow> 'p MssqlScopedCacheAliasReplacement list
       \<Rightarrow> string option" where
  "retained_sql_for registered dependencies replacements =
     (if list_ex (\<lambda>d. is_registered_derived d \<and>
            list_ex (\<lambda>r. sr_table_id r = dep_table_id d) replacements) dependencies
      then Some (rd_sql_text registered) else None)"

fun replace_loop ::
    "('c, 'd, 'p, 'q, 'i) cache_engine \<Rightarrow> ('c, 'p) DeltaFunnelSession \<Rightarrow> ProgressReporter option
       \<Rightarrow> ExecutionProfileMode \<Rightarrow> MssqlDerivedCacheAliasPlan list \<Rightarrow> 'p MssqlScopedCacheAliasReplacement list
       \<Rightarrow> (('c, 's) engine_world, DeltaFunnelError, 'p MssqlScopedCacheAliasReplacement list) io" where
  "replace_loop ca s reporter profile_mode [] replacements w = (Inr replacements, w)"
| "replace_loop ca s reporter profile_mode (a # as) replacements w =
     (case registered_derived_table_by_id s (cap_table_id a) of
        None \<Rightarrow>
          (case restore_cache_aliases_after_failure ca (unknown_cached_alias_error a) replacements None
                  reporter w of (error, w) \<Rightarrow> (Inl error, w))
      | Some registered \<Rightarrow>
          (case transitive_registered_derived_dependencies s (rd_table registered) of
             Inl e \<Rightarrow>
               (case restore_cache_aliases_after_failure ca e replacements None reporter w of
                  (error, w) \<Rightarrow> (Inl error, w))
           | Inr dependencies \<Rightarrow>
               (case replace_attempt ca s (rd_table registered) (cap_output_indexes a) reporter profile_mode
                       (retained_sql_for registered dependencies replacements) w of
                  (Inr replacement, w) \<Rightarrow>
                    replace_loop ca s reporter profile_mode as (replacements @ [replacement]) w
                | (Inl failure, w) \<Rightarrow>
                    (case restore_cache_aliases_after_failure ca (arf_source failure) replacements
                            (arf_report failure) reporter w of (error, w) \<Rightarrow> (Inl error, w)))))"

definition replace_mssql_cache_aliases ::
    "('c, 'd, 'p, 'q, 'i) cache_engine \<Rightarrow> ('c, 'p) DeltaFunnelSession \<Rightarrow> MssqlDerivedCacheAliasPlan list
       \<Rightarrow> ProgressReporter option \<Rightarrow> ExecutionProfileMode
       \<Rightarrow> (('c, 's) engine_world, DeltaFunnelError, 'p MssqlScopedCacheAliasReplacement list) io" where
  "replace_mssql_cache_aliases ca s cache_aliases reporter profile_mode =
     replace_loop ca s reporter profile_mode cache_aliases []"

subsection \<open>The catalog is restored\<close>

text \<open>
  What the replacement relies on: a catalog maps names, up to ASCII case, to tables; deregistering
  returns the table and removes it, registering adds it, and a call that fails changes nothing.
\<close>

definition alias_catalog_laws ::
    "('c, 'd, 'p, 'q, 'i) cache_engine \<Rightarrow> ('c \<Rightarrow> string \<rightharpoonup> 'p) \<Rightarrow> bool" where
  "alias_catalog_laws ca look \<longleftrightarrow>
     (\<forall>name ctx v ctx'. ca_deregister_table ca name ctx = (Inr v, ctx') \<longrightarrow>
        v = look ctx (to_ascii_lowercase name) \<and>
        look ctx' = (look ctx)(to_ascii_lowercase name := None)) \<and>
     (\<forall>name ctx e ctx'. ca_deregister_table ca name ctx = (Inl e, ctx') \<longrightarrow> look ctx' = look ctx) \<and>
     (\<forall>name p ctx v ctx'. df_register_table (ca_engine ca) name p ctx = (Inr v, ctx') \<longrightarrow>
        look ctx' = (look ctx)(to_ascii_lowercase name \<mapsto> p)) \<and>
     (\<forall>name p ctx e ctx'. df_register_table (ca_engine ca) name p ctx = (Inl e, ctx') \<longrightarrow>
        look ctx' = look ctx)"

lemma alias_catalog_lawsD:
  assumes "alias_catalog_laws ca look"
  shows "ca_deregister_table ca name ctx = (Inr v, ctx') \<Longrightarrow> v = look ctx (to_ascii_lowercase name)"
    and "ca_deregister_table ca name ctx = (Inr v, ctx') \<Longrightarrow>
      look ctx' = (look ctx)(to_ascii_lowercase name := None)"
    and "ca_deregister_table ca name ctx = (Inl e, ctx') \<Longrightarrow> look ctx' = look ctx"
    and "df_register_table (ca_engine ca) name p ctx = (Inr u, ctx') \<Longrightarrow>
      look ctx' = (look ctx)(to_ascii_lowercase name \<mapsto> p)"
    and "df_register_table (ca_engine ca) name p ctx = (Inl e, ctx') \<Longrightarrow> look ctx' = look ctx"
  using assms unfolding alias_catalog_laws_def by metis+

text \<open>
  \<open>replaced rs m0 m\<close>: the replacements \<open>rs\<close>, the last one first, lead from the catalog \<open>m0\<close> to \<open>m\<close>,
  and each of them holds the table it replaced.
\<close>

fun replaced ::
    "'p MssqlScopedCacheAliasReplacement list \<Rightarrow> (string \<rightharpoonup> 'p) \<Rightarrow> (string \<rightharpoonup> 'p) \<Rightarrow> bool" where
  "replaced [] m0 m \<longleftrightarrow> m = m0"
| "replaced (r # rs) m0 m \<longleftrightarrow>
     (\<exists>m1 cached. replaced rs m0 m1 \<and>
        m1 (to_ascii_lowercase (sr_alias_name r)) = Some (sr_original_provider r) \<and>
        m = m1(to_ascii_lowercase (sr_alias_name r) \<mapsto> cached))"

text \<open>An alias report that says that its restoration failed.\<close>

definition restore_failed :: "WriteAllCacheAliasReport \<Rightarrow> bool" where
  "restore_failed report \<longleftrightarrow>
     (\<exists>t \<in> set (car_phase_timings report).
        phase_name t = CACHE_ALIAS_RESTORE_PHASE \<and> status t = PhaseStatus.Failed)"

lemma on_catalog_step:
  assumes "on_catalog m w = (r, w')"
  shows "m (w_context w) = (r, w_context w')" and "es_sql (w_conn w') = es_sql (w_conn w)"
  using assms by (auto simp: on_catalog_def w_update_def split: prod.splits)

lemma restore_with_report_step:
  assumes laws: "alias_catalog_laws ca look"
    and run: "restore_with_report ca r w = ((report, restored), w')"
  shows "es_sql (w_conn w') = es_sql (w_conn w)"
    and "restored = Inr u \<Longrightarrow> replaced (r # rs) m0 (look (w_context w)) \<Longrightarrow>
      replaced rs m0 (look (w_context w'))"
    and "restored = Inl e \<Longrightarrow> restore_failed report"
    and "restored = Inr u \<Longrightarrow> car_status report = MaterializedAndRestored"
    and "car_table_id report = sr_table_id r"
proof -
  let ?n = "sr_alias_name r"
  obtain q w1 where q: "on_catalog (ca_deregister_table ca ?n) (tick w) = (q, w1)"
    by (metis surj_pair)
  note q_step = on_catalog_step [OF q]
  obtain p w2 where p: "on_catalog (df_register_table (ca_engine ca) ?n (sr_original_provider r)) w1 = (p, w2)"
    by (metis surj_pair)
  note p_step = on_catalog_step [OF p]
  have w': "w_conn w' = (if is_ok q then w_conn w2 else w_conn w1)"
    and restored: "is_ok restored \<longleftrightarrow> is_ok q \<and> is_ok p"
    and report: "restored = Inl e \<Longrightarrow> restore_failed report"
      "restored = Inr u \<Longrightarrow> car_status report = MaterializedAndRestored" "car_table_id report = sr_table_id r"
    for e u
    using run q p
    by (cases q; cases p; auto simp: restore_with_report_def io_bind_def io_map_err_def Let_def
        restore_failed_def alias_report_executed_def alias_report_with_execution_profile_def timing_defs)+
  show "es_sql (w_conn w') = es_sql (w_conn w)"
    using w' q_step p_step by simp
  show "restored = Inl e \<Longrightarrow> restore_failed report"
    by (rule report(1))
  show "restored = Inr u \<Longrightarrow> car_status report = MaterializedAndRestored"
    by (rule report(2))
  show "car_table_id report = sr_table_id r"
    by (rule report(3))
  show "replaced rs m0 (look (w_context w'))" if "restored = Inr u" "replaced (r # rs) m0 (look (w_context w))"
  proof -
    from that(2) obtain m1 cached where m1: "replaced rs m0 m1"
      "m1 (to_ascii_lowercase ?n) = Some (sr_original_provider r)"
      "look (w_context w) = m1(to_ascii_lowercase ?n \<mapsto> cached)"
      by auto
    from that(1) restored obtain v u where ok: "q = Inr v" "p = Inr u"
      by (cases q; cases p) auto
    have "look (w_context w1) = (look (w_context w))(to_ascii_lowercase ?n := None)"
      using alias_catalog_lawsD(2) [OF laws] q_step ok(1) by simp
    moreover have "look (w_context w2) = (look (w_context w1))(to_ascii_lowercase ?n \<mapsto> sr_original_provider r)"
      using alias_catalog_lawsD(4) [OF laws] p_step ok(2) by simp
    ultimately have "look (w_context w2) = m1"
      using m1(2,3) by (simp add: fun_upd_idem)
    with w' ok m1(1) show ?thesis by simp
  qed
qed

lemma restore_loop_step:
  assumes laws: "alias_catalog_laws ca look"
    and "restore_loop ca rs reports first_error w = ((reports', first_error'), w')"
  shows "es_sql (w_conn w') = es_sql (w_conn w) \<and> set reports \<subseteq> set reports' \<and>
    (first_error = None \<longrightarrow> first_error' = None \<longrightarrow> replaced rs m0 (look (w_context w)) \<longrightarrow>
       look (w_context w') = m0) \<and>
    (first_error = None \<longrightarrow> first_error' \<noteq> None \<longrightarrow> (\<exists>report \<in> set reports'. restore_failed report)) \<and>
    (first_error \<noteq> None \<longrightarrow> first_error' = first_error)"
  using assms(2)
proof (induction rs arbitrary: reports first_error w)
  case (Cons r rs)
  obtain report restored w1 where one: "restore_with_report ca r w = ((report, restored), w1)"
    by (metis surj_pair)
  let ?fe = "case (restored, first_error) of (Inl error, None) \<Rightarrow> Some (car_table_id report, error)
    | _ \<Rightarrow> first_error"
  have tail: "restore_loop ca rs (reports @ [report]) ?fe w1 = ((reports', first_error'), w')"
    using Cons.prems one by simp
  note IH = Cons.IH [OF tail] and step = restore_with_report_step [OF laws one]
  show ?case
  proof (cases restored)
    case (Inl e)
    then have "restore_failed report" by (rule step(3))
    with IH step(1) Inl show ?thesis by (cases first_error) auto
  next
    case (Inr u)
    then have "replaced (r # rs) m0 (look (w_context w)) \<Longrightarrow> replaced rs m0 (look (w_context w1))"
      by (rule step(2))
    with IH step(1) Inr show ?thesis by (cases first_error) (auto simp del: replaced.simps)
  qed
qed simp

lemma restore_aliases_step:
  assumes laws: "alias_catalog_laws ca look"
    and run: "restore_mssql_cache_aliases_with_reports ca replacements reporter w = ((reports, result), w')"
  shows "es_sql (w_conn w') = es_sql (w_conn w) \<and>
    (result = Inr () \<longrightarrow> replaced (rev replacements) m0 (look (w_context w)) \<longrightarrow> look (w_context w') = m0) \<and>
    (isl result \<longrightarrow> (\<exists>report \<in> set reports. restore_failed report))"
proof -
  let ?w = "if replacements = [] then w else w_emit reporter (phase_changed RestoringCache None) w"
  obtain rs fe w1 where loop: "restore_loop ca (rev replacements) [] None ?w = ((rs, fe), w1)"
    by (metis surj_pair)
  have conn: "w_conn ?w = w_conn w" by simp
  have "reports = rev rs" "w' = w1" "result = (case fe of Some error \<Rightarrow> Inl error | None \<Rightarrow> Inr ())"
    using run loop by (auto simp: restore_mssql_cache_aliases_with_reports_def Let_def)
  with restore_loop_step [OF laws loop, of m0] conn show ?thesis
    by (cases fe) auto
qed

lemma restore_after_failure_step:
  assumes laws: "alias_catalog_laws ca look"
    and run: "restore_cache_aliases_after_failure ca source replacements failed_alias reporter w = (error, w')"
    and start: "replaced (rev replacements) m0 (look (w_context w)) \<or> (\<exists>r. failed_alias = Some r \<and> restore_failed r)"
  shows "es_sql (w_conn w') = es_sql (w_conn w) \<and>
    (\<exists>failure. error = WriteAllCache failure source \<and> wcf_workflow failure = None \<and>
       (look (w_context w') = m0 \<or> (\<exists>report \<in> set (wcf_aliases failure). restore_failed report)))"
proof -
  obtain reports result w1 where restore:
    "restore_mssql_cache_aliases_with_reports ca replacements reporter w = ((reports, result), w1)"
    by (metis surj_pair)
  have eq: "w' = w1" "error = write_all_cache_failure source
      (reports @ (case failed_alias of None \<Rightarrow> [] | Some report \<Rightarrow> [report]))
      (map_option car_table_id failed_alias) None"
    using run restore by (simp_all add: restore_cache_aliases_after_failure_def)
  note step = restore_aliases_step [OF laws restore, of m0]
  have "look (w_context w') = m0 \<or> (\<exists>report \<in> set reports. restore_failed report) \<or>
      (\<exists>r. failed_alias = Some r \<and> restore_failed r)"
    using step start eq(1) by (cases result) auto
  with step eq show ?thesis
    by (auto simp: write_all_cache_failure_def)
qed

text \<open>Materialization reads the catalog and does not touch it.\<close>

lemma materialization_failure_conn:
  "cache_alias_materialization_failure source timings timer total_timer profile w = (failure, w') \<Longrightarrow>
     w_conn w' = w_conn w"
  by (auto simp: cache_alias_materialization_failure_def Let_def)

lemma sample_cache_progress_conn [simp]:
  "w_conn (sample_cache_progress reporter samples w) = w_conn w"
  by (simp add: sample_cache_progress_def split: option.split)

lemma build_cache_table_conn:
  "build_cache_table ca name schema partitions timings total_timer profile w = (r, w') \<Longrightarrow>
     w_conn w' = w_conn w"
  by (auto simp: build_cache_table_def Let_def split: sum.splits prod.splits
      dest: materialization_failure_conn)

lemma execute_cache_plan_conn:
  "execute_cache_plan ca name reporter mode plan timings total_timer w = (r, w') \<Longrightarrow> w_conn w' = w_conn w"
  by (auto simp: execute_cache_plan_def Let_def split: sum.splits prod.splits
      dest!: materialization_failure_conn build_cache_table_conn)

lemma materialize_cache_conn:
  "materialize_cache_from_sql ca name reporter mode retained_sql expected w = (r, w') \<Longrightarrow>
     w_conn w' = w_conn w"
  by (auto simp: materialize_cache_from_sql_def Let_def split: sum.splits prod.splits
      dest!: materialization_failure_conn execute_cache_plan_conn)

lemma install_step:
  assumes laws: "alias_catalog_laws ca look"
    and run: "install_scoped_cache_alias_provider ca name cached w = (r, w')"
  shows "es_sql (w_conn w') = es_sql (w_conn w) \<and>
    (\<forall>original. r = Inr original \<longrightarrow> look (w_context w) (to_ascii_lowercase name) = Some original \<and>
       look (w_context w') = (look (w_context w))(to_ascii_lowercase name \<mapsto> cached)) \<and>
    (\<forall>failure. r = Inl failure \<longrightarrow> look (w_context w') = look (w_context w) \<or>
       (\<exists>t. aif_restore_timing failure = Some t \<and> phase_name t = CACHE_ALIAS_RESTORE_PHASE \<and>
          status t = PhaseStatus.Failed))"
proof -
  let ?n = "to_ascii_lowercase name"
  obtain q w1 where q: "on_catalog (ca_deregister_table ca name) w = (q, w1)"
    by (metis surj_pair)
  note q_step = on_catalog_step [OF q]
  show ?thesis
  proof (cases q)
    case (Inl e)
    with run q q_step alias_catalog_lawsD(3) [OF laws] show ?thesis
      by (auto simp: install_scoped_cache_alias_provider_def)
  next
    case (Inr v)
    have v: "v = look (w_context w) ?n" "look (w_context w1) = (look (w_context w))(?n := None)"
      using q_step Inr alias_catalog_lawsD(1,2) [OF laws] by simp_all
    show ?thesis
    proof (cases v)
      case None
      with run q Inr v q_step show ?thesis
        by (auto simp: install_scoped_cache_alias_provider_def fun_upd_idem)
    next
      case (Some original)
      obtain p w2 where p: "on_catalog (df_register_table (ca_engine ca) name cached) w1 = (p, w2)"
        by (metis surj_pair)
      note p_step = on_catalog_step [OF p]
      show ?thesis
      proof (cases p)
        case (Inr u)
        then have "look (w_context w2) = (look (w_context w))(?n \<mapsto> cached)"
          using p_step alias_catalog_lawsD(4) [OF laws] v(2) by simp
        with run q \<open>q = Inr v\<close> Some p Inr v q_step p_step show ?thesis
          by (auto simp: install_scoped_cache_alias_provider_def)
      next
        case (Inl e)
        obtain q3 w3 where q3: "on_catalog (df_register_table (ca_engine ca) name original) (tick w2) = (q3, w3)"
          by (metis surj_pair)
        note q3_step = on_catalog_step [OF q3]
        have returned: "look (w_context w3) = look (w_context w)" if "is_ok q3"
        proof -
          have "look (w_context w3) = (look (w_context w2))(?n \<mapsto> original)"
            using that q3_step alias_catalog_lawsD(4) [OF laws] by (cases q3) simp_all
          moreover have "look (w_context w2) = look (w_context w1)"
            using p_step Inl alias_catalog_lawsD(5) [OF laws] by simp
          ultimately show ?thesis using v Some by (simp add: fun_upd_idem)
        qed
        with run q \<open>q = Inr v\<close> Some p Inl q3 q_step p_step q3_step show ?thesis
          by (auto simp: install_scoped_cache_alias_provider_def
              restore_original_after_cached_register_failure_def Let_def timing_defs split: if_splits)
      qed
    qed
  qed
qed

lemma replace_attempt_step:
  assumes laws: "alias_catalog_laws ca look"
    and run: "replace_attempt ca s t indexes reporter mode retained_sql w = (r, w')"
  shows "es_sql (w_conn w') = es_sql (w_conn w) \<and>
    (\<forall>replacement. r = Inr replacement \<longrightarrow> replaced rs m0 (look (w_context w)) \<longrightarrow>
       replaced (replacement # rs) m0 (look (w_context w'))) \<and>
    (\<forall>failure. r = Inl failure \<longrightarrow> look (w_context w') = look (w_context w) \<or>
       (\<exists>report. arf_report failure = Some report \<and> restore_failed report))"
proof (cases "registered_derived_for_scoped_cache_alias s t")
  case (Inl e)
  with run show ?thesis by (auto simp: replace_attempt_def)
next
  case (Inr registered)
  let ?name = "rd_name registered"
  let ?expected = "if retained_sql = None then None else Some (rd_schema registered)"
  let ?w = "w_emit reporter (phase_changed MaterializingCache None) w"
  show ?thesis
  proof (cases "ca_has_cache_factory ca (w_context w)")
    case True
    with Inr run show ?thesis by (auto simp: replace_attempt_def Let_def)
  next
    case False
    obtain q w1 where q: "materialize_cache_from_sql ca ?name reporter mode retained_sql ?expected ?w = (q, w1)"
      by (metis surj_pair)
    have w1: "w_conn w1 = w_conn w"
      using materialize_cache_conn [OF q] by simp
    show ?thesis
    proof (cases q)
      case (Inl failure)
      with run q \<open>registered_derived_for_scoped_cache_alias s t = Inr registered\<close> False w1 show ?thesis
        by (auto simp: replace_attempt_def Let_def)
    next
      case (Inr materialized)
      obtain p w2 where p: "install_scoped_cache_alias_provider ca ?name (mat_provider materialized) (tick w1) = (p, w2)"
        by (metis surj_pair)
      note step = install_step [OF laws p, simplified tick_sel w1]
      show ?thesis
      proof (cases p)
        case (Inl failure)
        with run q \<open>registered_derived_for_scoped_cache_alias s t = Inr registered\<close> False
          \<open>q = Inr materialized\<close> p step show ?thesis
          by (auto simp: replace_attempt_def Let_def into_alias_failure_def restore_failed_def
              alias_report_executed_def alias_report_with_execution_profile_def)
      next
        case (Inr original)
        with run q \<open>registered_derived_for_scoped_cache_alias s t = Inr registered\<close> False
          \<open>q = Inr materialized\<close> p step show ?thesis
          by (auto simp: replace_attempt_def Let_def intro!: exI [of _ "look (w_context w)"])
      qed
    qed
  qed
qed

definition cache_failure_reported ::
    "('c \<Rightarrow> string \<rightharpoonup> 'p) \<Rightarrow> (string \<rightharpoonup> 'p) \<Rightarrow> DeltaFunnelError \<Rightarrow> ('c, 's) engine_world \<Rightarrow> bool" where
  "cache_failure_reported look m0 error w' \<longleftrightarrow>
     (\<exists>failure source. error = WriteAllCache failure source \<and>
        (look (w_context w') = m0 \<or> (\<exists>report \<in> set (wcf_aliases failure). restore_failed report)))"

lemma replace_loop_step:
  assumes laws: "alias_catalog_laws ca look"
    and "replace_loop ca s reporter mode aliases replacements w = (r, w')"
    and "replaced (rev replacements) m0 (look (w_context w))"
  shows "es_sql (w_conn w') = es_sql (w_conn w) \<and>
    (case r of
       Inl error \<Rightarrow> cache_failure_reported look m0 error w'
     | Inr replacements' \<Rightarrow> replaced (rev replacements') m0 (look (w_context w')))"
  using assms(2,3)
proof (induction aliases arbitrary: replacements w)
  case Nil
  then have "r = Inr replacements" "w' = w" by simp_all
  with Nil.prems(2) show ?case by simp
next
  case (Cons a as)
  have failed: ?case
    if "restore_cache_aliases_after_failure ca source replacements report reporter v = (error, w')"
      "r = Inl error" "es_sql (w_conn v) = es_sql (w_conn w)"
      "replaced (rev replacements) m0 (look (w_context v)) \<or> (\<exists>x. report = Some x \<and> restore_failed x)"
    for source report error v
    using restore_after_failure_step [OF laws that(1,4)] that(2,3)
    by (auto simp: cache_failure_reported_def)
  show ?case
  proof (cases "registered_derived_table_by_id s (cap_table_id a)")
    case None
    with Cons.prems obtain error where "restore_cache_aliases_after_failure ca
        (unknown_cached_alias_error a) replacements None reporter w = (error, w')" "r = Inl error"
      by (auto split: prod.splits)
    then show ?thesis
      by (rule failed) (simp_all add: Cons.prems(2))
  next
    case (Some registered)
    show ?thesis
    proof (cases "transitive_registered_derived_dependencies s (rd_table registered)")
      case (Inl e)
      with Some Cons.prems obtain error where
        "restore_cache_aliases_after_failure ca e replacements None reporter w = (error, w')" "r = Inl error"
        by (auto split: prod.splits)
      then show ?thesis
        by (rule failed) (simp_all add: Cons.prems(2))
    next
      case (Inr dependencies)
      obtain q w1 where q: "replace_attempt ca s (rd_table registered) (cap_output_indexes a) reporter mode
          (retained_sql_for registered dependencies replacements) w = (q, w1)"
        by (metis surj_pair)
      note step = replace_attempt_step [OF laws q, of "rev replacements" m0]
      show ?thesis
      proof (cases q)
        case (Inl failure)
        then have "replaced (rev replacements) m0 (look (w_context w1)) \<or>
            (\<exists>x. arf_report failure = Some x \<and> restore_failed x)"
          using step Cons.prems(2) by auto
        moreover from Inl Inr Some q Cons.prems obtain error where
          "restore_cache_aliases_after_failure ca (arf_source failure) replacements (arf_report failure)
             reporter w1 = (error, w')" "r = Inl error"
          by (auto split: prod.splits)
        ultimately show ?thesis
          using step by (intro failed [of "arf_source failure" "arf_report failure" w1 error]) simp_all
      next
        case (Inr replacement)
        have "replaced (rev (replacements @ [replacement])) m0 (look (w_context w1))"
          using step Inr Cons.prems(2) by simp
        moreover have "replace_loop ca s reporter mode as (replacements @ [replacement]) w1 = (r, w')"
          using Inr \<open>transitive_registered_derived_dependencies s (rd_table registered) = Inr dependencies\<close>
            Some q Cons.prems(1) by simp
        ultimately show ?thesis
          using Cons.IH step by simp
      qed
    qed
  qed
qed

subsection \<open>The collected partitions\<close>

text \<open>Whatever the order in which the collectors finish, the partitions keep their positions.\<close>

lemma sort_key_positions:
  "sort_key fst (map (\<lambda>i. (i, f i)) order) = map (\<lambda>i. (i, f i)) (sort order)"
proof -
  have "insort_key fst (i, f i) (map (\<lambda>i. (i, f i)) ys) = map (\<lambda>i. (i, f i)) (insort i ys)" for i ys
    by (induction ys) auto
  then show ?thesis by (induction order) simp_all
qed

lemma join_all:
  assumes "\<And>i. i \<in> set order \<Longrightarrow> try_collect (streams ! i) = Inr (f i)"
  shows "join_cache_partition_tasks streams order partitions =
    Inr (partitions @ map (\<lambda>i. (i, f i)) order)"
  using assms by (induction order arbitrary: partitions) simp_all

lemma join_first_failure:
  assumes "\<And>i. i \<in> set xs \<Longrightarrow> \<not> isl (try_collect (streams ! i))"
  shows "join_cache_partition_tasks streams (xs @ i # ys) partitions =
    res_bind (try_collect (streams ! i)) (\<lambda>batches. join_cache_partition_tasks streams ys
      (partitions @ map (\<lambda>j. (j, projr (try_collect (streams ! j)))) xs @ [(i, batches)]))"
  using assms
proof (induction xs arbitrary: partitions)
  case (Cons x xs)
  then have "\<not> isl (try_collect (streams ! x))"
    by simp
  then obtain bs where "try_collect (streams ! x) = Inr bs"
    by (cases "try_collect (streams ! x)") simp_all
  with Cons show ?case by simp
qed simp

lemma collected_partitions:
  assumes "mset order = mset [0..<length streams]"
    and "\<And>i. i < length streams \<Longrightarrow> try_collect (streams ! i) = Inr (bs ! i)"
    and "length bs = length streams"
  shows "collect_cache_partitions streams order = Inr bs"
proof -
  have elems: "set order = {0..<length streams}"
    using arg_cong [OF assms(1), of set_mset] by simp
  have "sort order = [0..<length streams]"
    using assms(1) by (metis sort_upt properties_for_sort sorted_upt)
  moreover have "join_cache_partition_tasks streams order [] = Inr (map (\<lambda>i. (i, bs ! i)) order)"
    using join_all [of order streams "\<lambda>i. bs ! i" "[]"] assms(2) elems by simp
  moreover have "map snd (map (\<lambda>i. (i, bs ! i)) [0..<length streams]) = bs"
    using assms(3) map_nth [of bs] by (simp add: comp_def)
  ultimately show ?thesis
    by (simp add: collect_cache_partitions_def sort_key_positions comp_def)
qed

end
