(* ===== verification/DF_Source_Report.thy ===== *)
theory DF_Source_Report
  imports DF_Query
begin

section \<open>Reports about the sources\<close>

text \<open>
  \<open>report/delta/source.rs\<close> and \<open>session/source_report.rs\<close>: what a report says about each registered
  Delta source: its metadata, how its scans are scheduled, which outputs use it, and the counters
  of its last scan. The maps from source names to counters are association lists in which the
  newest entry hides older ones; \<open>remove\<close> takes the entry out.
\<close>

subsection \<open>Data\<close>

datatype SourceUsageStatus = Used | NotUsed | Unknown

fun SourceUsageStatus_as_str :: "SourceUsageStatus \<Rightarrow> string" where
  "SourceUsageStatus_as_str Used = ''used''"
| "SourceUsageStatus_as_str NotUsed = ''not_used''"
| "SourceUsageStatus_as_str Unknown = ''unknown''"

record DeltaProviderSchedulingReport =
  sp_query_target_partitions :: "u64 option"
  sp_reader_backend :: ParquetReaderBackend
  sp_max_concurrent_file_reads_per_scan :: "u64 option"
  sp_max_concurrent_file_reads_per_partition :: u64
  sp_output_buffer_capacity_per_partition :: u64
  sp_native_async_prefetch_file_count_per_partition :: u64
  sp_parquet_metadata_size_hint :: "u64 option"
  sp_parquet_full_file_read_threshold :: "u64 option"

definition scheduling_from_options ::
    "QueryOptions \<Rightarrow> DeltaScanExecutionOptions \<Rightarrow> DeltaProviderSchedulingReport" where
  "scheduling_from_options query scan =
     \<lparr>sp_query_target_partitions = map_option usize_to_u64_saturating (target_partitions query),
      sp_reader_backend = parquet_backend scan,
      sp_max_concurrent_file_reads_per_scan =
        map_option usize_to_u64_saturating (max_concurrent_file_reads_per_scan scan),
      sp_max_concurrent_file_reads_per_partition =
        usize_to_u64_saturating (max_concurrent_file_reads_per_partition scan),
      sp_output_buffer_capacity_per_partition =
        usize_to_u64_saturating (output_buffer_batches_per_partition scan),
      sp_native_async_prefetch_file_count_per_partition =
        usize_to_u64_saturating (prefetch_files_per_partition scan),
      sp_parquet_metadata_size_hint =
        map_option usize_to_u64_saturating (parquet_metadata_size_hint_bytes scan),
      sp_parquet_full_file_read_threshold =
        map_option usize_to_u64_saturating (parquet_full_file_read_threshold_bytes scan)\<rparr>"

record DeltaSourceReport =
  sx_source_name :: string
  sx_source_uri :: string
  sx_snapshot_version :: u64
  sx_protocol :: DeltaProtocolReport
  sx_scheduling :: DeltaProviderSchedulingReport
  sx_file_count :: FileCount
  sx_file_count_reason :: "ReportReasonCode option"
  sx_scan_metadata_exhausted :: bool
  sx_usage_status :: SourceUsageStatus
  sx_used_by_output_names :: "string list"
  sx_provider_read_stats :: "DeltaDataFusionMetricsSnapshot option"
  sx_provider_stats_reason :: "ReportReasonCode option"
  sx_phase_timings :: "PhaseTimingReport list"

definition metadata_only ::
    "string \<Rightarrow> string \<Rightarrow> u64 \<Rightarrow> DeltaProtocolReport \<Rightarrow> DeltaProviderSchedulingReport \<Rightarrow> DeltaSourceReport" where
  "metadata_only name uri snapshot_version protocol scheduling =
     \<lparr>sx_source_name = name, sx_source_uri = sanitize_uri_for_display uri,
      sx_snapshot_version = snapshot_version, sx_protocol = protocol, sx_scheduling = scheduling,
      sx_file_count = FileCount.Unavailable, sx_file_count_reason = Some CostAvoidance,
      sx_scan_metadata_exhausted = False, sx_usage_status = Unknown, sx_used_by_output_names = [],
      sx_provider_read_stats = None,
      sx_provider_stats_reason = Some ReportReasonCode.NotExecuted, sx_phase_timings = []\<rparr>"

definition source_report_with_phase_timings ::
    "PhaseTimingReport list \<Rightarrow> DeltaSourceReport \<Rightarrow> DeltaSourceReport" where
  "source_report_with_phase_timings ts r = r\<lparr>sx_phase_timings := ts\<rparr>"

definition with_usage :: "SourceUsageStatus \<Rightarrow> string list \<Rightarrow> DeltaSourceReport \<Rightarrow> DeltaSourceReport" where
  "with_usage usage names r = r\<lparr>sx_usage_status := usage, sx_used_by_output_names := names\<rparr>"

fun file_count_reason_of :: "FileCount \<Rightarrow> ReportReasonCode option" where
  "file_count_reason_of (FileCount.Exact _) = None"
| "file_count_reason_of (FileCount.Estimated _) = None"
| "file_count_reason_of FileCount.Unavailable = Some CapabilityUnavailable"
| "file_count_reason_of FileCount.Skipped = Some ReportReasonCode.NotExecuted"
| "file_count_reason_of FileCount.NotExecuted = Some ReportReasonCode.NotExecuted"

definition with_provider_read_stats ::
    "DeltaDataFusionMetricsSnapshot \<Rightarrow> DeltaSourceReport \<Rightarrow> DeltaSourceReport" where
  "with_provider_read_stats stats r =
     (let count = (case ms_scan_metadata_exhausted stats of
                     Some True \<Rightarrow> FileCount.Exact (ms_files_planned stats)
                   | Some False \<Rightarrow> FileCount.Estimated (ms_files_planned stats)
                   | None \<Rightarrow> FileCount.Unavailable)
      in r\<lparr>sx_scan_metadata_exhausted := (ms_scan_metadata_exhausted stats = Some True),
           sx_file_count := count, sx_file_count_reason := file_count_reason_of count,
           sx_provider_read_stats := Some stats, sx_provider_stats_reason := None\<rparr>)"

definition with_provider_stats_reason :: "ReportReasonCode \<Rightarrow> DeltaSourceReport \<Rightarrow> DeltaSourceReport" where
  "with_provider_stats_reason reason r =
     r\<lparr>sx_provider_read_stats := None, sx_provider_stats_reason := Some reason\<rparr>"

subsection \<open>Building the reports\<close>

definition delta_source_report_metadata_only ::
    "RegisteredSessionSource \<Rightarrow> DeltaProviderSchedulingReport \<Rightarrow> DeltaSourceReport" where
  "delta_source_report_metadata_only source scheduling =
     source_report_with_phase_timings (rs_phase_timings source)
       (metadata_only (rs_name source) (rs_source_uri source) (rs_snapshot_version source)
          (rs_protocol source) scheduling)"

definition delta_source_scheduling_report ::
    "('c, 'p) DeltaFunnelSession \<Rightarrow> DeltaProviderSchedulingReport" where
  "delta_source_scheduling_report s =
     scheduling_from_options (query_options (ds_options s)) (provider_scan_options (ds_options s))"

definition source_reports :: "('c, 'p) DeltaFunnelSession \<Rightarrow> DeltaSourceReport list" where
  "source_reports s =
     map (\<lambda>source. delta_source_report_metadata_only source (delta_source_scheduling_report s)) (ds_sources s)"

text \<open>Inserting the counters one after the other, so that the last of a source remains.\<close>

type_synonym stats_by_source = "(string \<times> DeltaDataFusionMetricsSnapshot) list"

definition stats_by_source :: "NamedDeltaDataFusionMetricsSnapshot list \<Rightarrow> stats_by_source" where
  "stats_by_source stats =
     fold (\<lambda>n m. (nm_source_name n, nm_snapshot n) # filter (\<lambda>(k, _). k \<noteq> nm_source_name n) m) stats []"

text \<open>The last step of the report builders: the counters of a source, or \<open>otherwise\<close>.\<close>

fun attach_provider_stats ::
    "(DeltaSourceReport \<Rightarrow> DeltaSourceReport) \<Rightarrow> stats_by_source \<Rightarrow> DeltaSourceReport list
       \<Rightarrow> DeltaSourceReport list" where
  "attach_provider_stats otherwise m [] = []"
| "attach_provider_stats otherwise m (r # rs) =
     (case map_of m (sx_source_name r) of
        Some stats \<Rightarrow>
          with_provider_read_stats stats r
            # attach_provider_stats otherwise (filter (\<lambda>(k, _). k \<noteq> sx_source_name r) m) rs
      | None \<Rightarrow> otherwise r # attach_provider_stats otherwise m rs)"

definition source_reports_with_provider_read_stats ::
    "('c, 'p) DeltaFunnelSession \<Rightarrow> NamedDeltaDataFusionMetricsSnapshot list \<Rightarrow> DeltaSourceReport list" where
  "source_reports_with_provider_read_stats s stats =
     attach_provider_stats (\<lambda>r. r) (stats_by_source stats) (source_reports s)"

definition provider_read_stats_for_lazy_table ::
    "('c, 'd, 'p, 'q, 'i) query_engine \<Rightarrow> 'c \<Rightarrow> ('c, 'p) DeltaFunnelSession \<Rightarrow> LazyTable
       \<Rightarrow> DeltaFunnelError + NamedDeltaDataFusionMetricsSnapshot list" where
  "provider_read_stats_for_lazy_table en ctx s t =
     res_bind (dataframe_for_lazy_table en ctx s t) (\<lambda>dataframe.
     res_bind (map_err (datafusion_handoff_setup_error ''physical_plan'')
                 (qe_create_physical_plan en dataframe)) (\<lambda>plan.
       Inr (collect_named_delta_datafusion_metrics (qe_plans en) plan)))"

definition source_reports_for_lazy_table_plan ::
    "('c, 'd, 'p, 'q, 'i) query_engine \<Rightarrow> 'c \<Rightarrow> ('c, 'p) DeltaFunnelSession \<Rightarrow> LazyTable
       \<Rightarrow> DeltaFunnelError + DeltaSourceReport list" where
  "source_reports_for_lazy_table_plan en ctx s t =
     res_bind (dataframe_for_lazy_table en ctx s t) (\<lambda>dataframe.
     res_bind (map_err (datafusion_handoff_setup_error ''physical_plan'')
                 (qe_create_physical_plan en dataframe)) (\<lambda>plan.
       Inr (source_reports_with_provider_read_stats s
              (collect_named_delta_datafusion_metrics (qe_plans en) plan))))"

fun output_sources_loop ::
    "('c, 'p) DeltaFunnelSession \<Rightarrow> (string \<times> LazyTable) list \<Rightarrow> (string \<times> u64 set) list \<Rightarrow> bool
       \<Rightarrow> DeltaFunnelError + (string \<times> u64 set) list \<times> bool" where
  "output_sources_loop s [] output_sources all_known = Inr (output_sources, all_known)"
| "output_sources_loop s ((name, t) # outputs) output_sources all_known =
     res_bind (known_source_dependencies_for_table s t) (\<lambda>known.
       case known of
         Some ids \<Rightarrow> output_sources_loop s outputs (output_sources @ [(name, ids)]) all_known
       | None \<Rightarrow> output_sources_loop s outputs output_sources False)"

definition usage_of :: "(string \<times> u64 set) list \<Rightarrow> bool \<Rightarrow> u64 \<Rightarrow> SourceUsageStatus \<times> string list" where
  "usage_of output_sources all_known source_id =
     (let names = map fst (filter (\<lambda>(_, ids). source_id \<in> ids) output_sources)
      in (if names = [] then (if all_known then NotUsed else Unknown) else Used, names))"

definition source_reports_for_output_tables ::
    "('c, 'p) DeltaFunnelSession \<Rightarrow> (string \<times> LazyTable) list \<Rightarrow> DeltaFunnelError + DeltaSourceReport list" where
  "source_reports_for_output_tables s outputs =
     res_bind (output_sources_loop s outputs [] True) (\<lambda>(output_sources, all_known).
       Inr (map (\<lambda>source.
         (case usage_of output_sources all_known (rs_id source) of
            (usage, names) \<Rightarrow>
              with_usage usage names
                (delta_source_report_metadata_only source (delta_source_scheduling_report s)))) (ds_sources s)))"

definition source_reports_for_planned_outputs_with_provider_stats ::
    "('c, 'p) DeltaFunnelSession \<Rightarrow> PlannedMssqlOutput list \<Rightarrow> NamedDeltaDataFusionMetricsSnapshot list
       \<Rightarrow> DeltaFunnelError + DeltaSourceReport list" where
  "source_reports_for_planned_outputs_with_provider_stats s outputs stats =
     res_bind
       (source_reports_for_output_tables s
          (map (\<lambda>planned. (pl_output_name (pmo_output_plan planned), owp_table (pmo_request planned))) outputs))
       (\<lambda>reports. Inr (attach_provider_stats (with_provider_stats_reason CapabilityUnavailable)
                         (stats_by_source stats) reports))"

subsection \<open>What the reports say\<close>

text \<open>The names of the outputs that are known to read a source, in the order of the outputs.\<close>

definition reading_outputs ::
    "('c, 'p) DeltaFunnelSession \<Rightarrow> (string \<times> LazyTable) list \<Rightarrow> u64 \<Rightarrow> string list" where
  "reading_outputs s outputs source_id =
     map fst (filter (\<lambda>(_, t). \<exists>ids. known_source_dependencies_for_table s t = Inr (Some ids) \<and>
       source_id \<in> ids) outputs)"

lemma output_sources_loop_result:
  assumes "output_sources_loop s outputs acc all_known = Inr (os, k)"
  shows "map fst (filter (\<lambda>(_, ids). i \<in> ids) os) =
      map fst (filter (\<lambda>(_, ids). i \<in> ids) acc) @ reading_outputs s outputs i \<and>
    (k \<longleftrightarrow> all_known \<and> (\<forall>(_, t) \<in> set outputs. known_source_dependencies_for_table s t \<noteq> Inr None))"
  using assms
proof (induction outputs arbitrary: acc all_known)
  case Nil
  then show ?case by (simp add: reading_outputs_def)
next
  case (Cons out outputs)
  obtain name t where out: "out = (name, t)" by (cases out)
  show ?case
  proof (cases "known_source_dependencies_for_table s t")
    case (Inl e)
    with Cons.prems out show ?thesis by simp
  next
    case (Inr known)
    then show ?thesis
      using Cons.IH Cons.prems out by (cases known) (auto simp: reading_outputs_def)
  qed
qed

lemma source_usage_reported:
  assumes "source_reports_for_output_tables s outputs = Inr reports" and "i < length (ds_sources s)"
  defines "names \<equiv> reading_outputs s outputs (rs_id (ds_sources s ! i))"
  shows "length reports = length (ds_sources s) \<and>
    sx_source_name (reports ! i) = rs_name (ds_sources s ! i) \<and>
    sx_used_by_output_names (reports ! i) = names \<and>
    sx_usage_status (reports ! i) =
      (if names \<noteq> [] then Used
       else if \<forall>(_, t) \<in> set outputs. known_source_dependencies_for_table s t \<noteq> Inr None then NotUsed
       else Unknown)"
proof -
  obtain os k where loop: "output_sources_loop s outputs [] True = Inr (os, k)"
    and reports: "reports = map (\<lambda>source. case usage_of os k (rs_id source) of
        (usage, names) \<Rightarrow> with_usage usage names
          (delta_source_report_metadata_only source (delta_source_scheduling_report s))) (ds_sources s)"
    using assms(1) by (auto simp: source_reports_for_output_tables_def res_simps)
  from output_sources_loop_result [OF loop, of "rs_id (ds_sources s ! i)"] assms(2) show ?thesis
    by (auto simp: reports usage_of_def Let_def with_usage_def delta_source_report_metadata_only_def
        source_report_with_phase_timings_def metadata_only_def names_def)
qed

text \<open>The counters of a source are those of the last scan with its name.\<close>

lemma map_of_filter_other: "k \<noteq> name \<Longrightarrow> map_of (filter (\<lambda>(x, _). x \<noteq> name) m) k = map_of m k"
  by (induction m) auto

lemma map_of_filter_same: "map_of (filter (\<lambda>(x, _). x \<noteq> name) m) name = None"
  by (induction m) auto

lemma stats_by_source_lookup:
  "map_of (stats_by_source stats) name =
     map_option nm_snapshot (find (\<lambda>n. nm_source_name n = name) (rev stats))"
proof (induction stats rule: rev_induct)
  case (snoc n stats)
  then show ?case
    by (auto simp: stats_by_source_def map_of_filter_other)
qed (simp add: stats_by_source_def)

lemma attach_provider_stats_map:
  assumes "distinct (map sx_source_name reports)"
  shows "attach_provider_stats otherwise m reports =
    map (\<lambda>r. case map_of m (sx_source_name r) of
      Some stats \<Rightarrow> with_provider_read_stats stats r | None \<Rightarrow> otherwise r) reports"
  using assms
proof (induction reports arbitrary: m)
  case (Cons r rs)
  have "map (\<lambda>x. case map_of (filter (\<lambda>(k, _). k \<noteq> sx_source_name r) m) (sx_source_name x) of
      Some stats \<Rightarrow> with_provider_read_stats stats x | None \<Rightarrow> otherwise x) rs =
    map (\<lambda>x. case map_of m (sx_source_name x) of
      Some stats \<Rightarrow> with_provider_read_stats stats x | None \<Rightarrow> otherwise x) rs"
  proof (rule map_cong [OF refl])
    fix x assume "x \<in> set rs"
    then have "sx_source_name x \<noteq> sx_source_name r"
      using Cons.prems by (metis distinct.simps(2) image_eqI list.set_map list.simps(9))
    then show "(case map_of (filter (\<lambda>(k, _). k \<noteq> sx_source_name r) m) (sx_source_name x) of
        Some stats \<Rightarrow> with_provider_read_stats stats x | None \<Rightarrow> otherwise x) =
      (case map_of m (sx_source_name x) of
        Some stats \<Rightarrow> with_provider_read_stats stats x | None \<Rightarrow> otherwise x)"
      by (simp add: map_of_filter_other)
  qed
  with Cons show ?case by (cases "map_of m (sx_source_name r)") simp_all
qed simp

end
