(* ===== verification/DF_Write_All.thy ===== *)
theory DF_Write_All
  imports DF_Cache_Alias DF_Source_Report
begin

section \<open>Writing several outputs of a session\<close>

text \<open>
  \<open>sql_server_workflows/write_all.rs\<close> and its modules \<open>request.rs\<close> (validation, planning, route and
  report), \<open>workflow.rs\<close> (jobs and the two routes), \<open>cached_stream.rs\<close> (queries while caches are
  installed) and \<open>cache_report.rs\<close>, with the reports of \<open>report/sql_server/write_all.rs\<close>. The shared
  vector of retained scan counters is created anew by every call.
\<close>

subsection \<open>Options\<close>

datatype WriteAllCacheMode = Auto | Disabled | Explicit

record WriteAllOptions =
  wao_cache_mode :: WriteAllCacheMode
  wao_cache_aliases :: "string list option"
  wao_execution_profile_mode :: ExecutionProfileMode

definition WriteAllOptions_new :: WriteAllOptions where
  "WriteAllOptions_new =
     \<lparr>wao_cache_mode = Auto, wao_cache_aliases = None,
      wao_execution_profile_mode = ExecutionProfileMode.Disabled\<rparr>"

definition with_cache_mode :: "WriteAllCacheMode \<Rightarrow> WriteAllOptions \<Rightarrow> WriteAllOptions" where
  "with_cache_mode mode options = options\<lparr>wao_cache_mode := mode\<rparr>"

definition with_explicit_cache_aliases :: "string list \<Rightarrow> WriteAllOptions \<Rightarrow> WriteAllOptions" where
  "with_explicit_cache_aliases aliases options =
     options\<lparr>wao_cache_mode := Explicit, wao_cache_aliases := Some aliases\<rparr>"

definition with_execution_profile_mode :: "ExecutionProfileMode \<Rightarrow> WriteAllOptions \<Rightarrow> WriteAllOptions" where
  "with_execution_profile_mode mode options = options\<lparr>wao_execution_profile_mode := mode\<rparr>"

definition validate_write_all_options :: "WriteAllOptions \<Rightarrow> DeltaFunnelError + unit" where
  "validate_write_all_options options =
     (if wao_cache_aliases options = Some [] then
        Inl (MssqlWorkflowPlanning ''write_all cache_aliases must not be empty'')
      else
        (case (wao_cache_mode options, wao_cache_aliases options) of
           (Explicit, None) \<Rightarrow>
             Inl (MssqlWorkflowPlanning ''write_all explicit caching requires cache_aliases'')
         | (Auto, Some _) \<Rightarrow>
             Inl (MssqlWorkflowPlanning
                    ''write_all cache_aliases cannot be combined with automatic caching'')
         | (Disabled, Some _) \<Rightarrow>
             Inl (MssqlWorkflowPlanning
                    ''write_all cache_aliases cannot be combined with disabled caching'')
         | _ \<Rightarrow> Inr ()))"

definition ensure_write_all_execute_run_mode :: "RunMode \<Rightarrow> DeltaFunnelError + unit" where
  "ensure_write_all_execute_run_mode mode =
     (case mode of
        Execute \<Rightarrow> Inr ()
      | DryRun \<Rightarrow> Inl (MssqlWorkflowPlanning
          ''write_all requires RunMode::Execute; use dry_run_all_to_mssql for dry-run planning''))"

fun unique_names_loop :: "string set \<Rightarrow> OutputWritePlan list \<Rightarrow> DeltaFunnelError + unit" where
  "unique_names_loop names [] = Inr ()"
| "unique_names_loop names (request # requests) =
     (let name = ot_output_name (owp_target request) in
      if name \<in> names then
        Inl (MssqlWorkflowPlanning
               (''write_all output names must be unique; duplicate output name ''
                  @ quoted (sanitize_text_for_display name)))
      else unique_names_loop (insert name names) requests)"

definition ensure_unique_write_all_output_names :: "OutputWritePlan list \<Rightarrow> DeltaFunnelError + unit" where
  "ensure_unique_write_all_output_names requests = unique_names_loop {} requests"

definition validate_write_all_requests :: "OutputWritePlan list \<Rightarrow> DeltaFunnelError + unit" where
  "validate_write_all_requests requests =
     res_bind (ensure_unique_write_all_output_names requests) (\<lambda>_.
       check_all (\<lambda>request. ensure_write_all_execute_run_mode (ot_run_mode (owp_target request))) requests)"

subsection \<open>Reports\<close>

datatype WriteAllNoCacheReason =
  FewerThanTwoOutputs | NoSharedRegisteredDerivedAlias | AmbiguousSharedDerivedAlias

datatype WriteAllCacheCandidateSkipReason =
    NotShared nat
  | MissingSqlText
  | IncompleteLineage
  | CoveredByDeeperSharedAlias u64
  | AmbiguousDepth
  | NotExplicitlySelected

record WriteAllCacheCandidateSkip =
  wcs_table_id :: u64
  wcs_alias :: string
  wcs_reason :: WriteAllCacheCandidateSkipReason

datatype WriteAllCacheReport =
    Disabled
  | NoCache WriteAllNoCacheReason "WriteAllCacheCandidateSkip list"
  | CacheAliases "WriteAllCacheAliasReport list" "WriteAllCacheCandidateSkip list"

record WriteAllReport =
  war_workflow :: MssqlWorkflowWriteReport
  war_cache :: WriteAllCacheReport
  war_sources :: "DeltaSourceReport list"
  war_phase_timings :: "PhaseTimingReport list"

definition WriteAllReport_new ::
    "MssqlWorkflowWriteReport \<Rightarrow> WriteAllCacheReport \<Rightarrow> DeltaSourceReport list \<Rightarrow> WriteAllReport" where
  "WriteAllReport_new workflow cache sources =
     \<lparr>war_workflow = workflow, war_cache = cache, war_sources = sources, war_phase_timings = []\<rparr>"

definition write_all_with_phase_timings ::
    "PhaseTimingReport list \<Rightarrow> WriteAllReport \<Rightarrow> WriteAllReport" where
  "write_all_with_phase_timings timings report = report\<lparr>war_phase_timings := timings\<rparr>"

definition write_all_succeeded :: "WriteAllReport \<Rightarrow> bool" where
  "write_all_succeeded report = all_succeeded (war_workflow report)"

fun no_cache_reason_report :: "MssqlNoCacheReason \<Rightarrow> WriteAllNoCacheReason" where
  "no_cache_reason_report MssqlNoCacheReason.FewerThanTwoOutputs =
     WriteAllNoCacheReason.FewerThanTwoOutputs"
| "no_cache_reason_report MssqlNoCacheReason.NoSharedRegisteredDerivedAlias =
     WriteAllNoCacheReason.NoSharedRegisteredDerivedAlias"
| "no_cache_reason_report MssqlNoCacheReason.AmbiguousSharedDerivedAlias =
     WriteAllNoCacheReason.AmbiguousSharedDerivedAlias"

fun candidate_skip_reason_report ::
    "MssqlCacheCandidateSkipReason \<Rightarrow> WriteAllCacheCandidateSkipReason" where
  "candidate_skip_reason_report (MssqlCacheCandidateSkipReason.NotShared n) =
     WriteAllCacheCandidateSkipReason.NotShared n"
| "candidate_skip_reason_report MssqlCacheCandidateSkipReason.MissingSqlText =
     WriteAllCacheCandidateSkipReason.MissingSqlText"
| "candidate_skip_reason_report MssqlCacheCandidateSkipReason.IncompleteLineage =
     WriteAllCacheCandidateSkipReason.IncompleteLineage"
| "candidate_skip_reason_report (MssqlCacheCandidateSkipReason.CoveredByDeeperSharedAlias i) =
     WriteAllCacheCandidateSkipReason.CoveredByDeeperSharedAlias i"
| "candidate_skip_reason_report MssqlCacheCandidateSkipReason.AmbiguousDepth =
     WriteAllCacheCandidateSkipReason.AmbiguousDepth"
| "candidate_skip_reason_report MssqlCacheCandidateSkipReason.NotExplicitlySelected =
     WriteAllCacheCandidateSkipReason.NotExplicitlySelected"

definition candidate_skip_report :: "MssqlCacheCandidateSkip \<Rightarrow> WriteAllCacheCandidateSkip" where
  "candidate_skip_report skip =
     \<lparr>wcs_table_id = ccs_table_id skip, wcs_alias = ccs_alias skip,
      wcs_reason = candidate_skip_reason_report (ccs_reason skip)\<rparr>"

definition skipped_candidate_reports :: "MssqlOutputCachePlan \<Rightarrow> WriteAllCacheCandidateSkip list" where
  "skipped_candidate_reports plan = map candidate_skip_report (cp_skipped_candidates plan)"

definition cache_report_from_plan :: "MssqlOutputCachePlan \<Rightarrow> WriteAllCacheReport" where
  "cache_report_from_plan plan =
     (case cp_decision plan of
        MssqlOutputCacheDecision.NoCache reason \<Rightarrow>
          WriteAllCacheReport.NoCache (no_cache_reason_report reason) (skipped_candidate_reports plan)
      | MssqlOutputCacheDecision.CacheAliases aliases \<Rightarrow>
          WriteAllCacheReport.CacheAliases
            (map (\<lambda>alias. alias_report_selected (cap_table_id alias) (cap_alias alias)
                            (cap_output_indexes alias)) aliases)
            (skipped_candidate_reports plan))"

definition cache_report_from_executed_plan ::
    "MssqlOutputCachePlan \<Rightarrow> WriteAllCacheAliasReport list \<Rightarrow> WriteAllCacheReport" where
  "cache_report_from_executed_plan plan aliases =
     (case cp_decision plan of
        MssqlOutputCacheDecision.NoCache reason \<Rightarrow>
          WriteAllCacheReport.NoCache (no_cache_reason_report reason) (skipped_candidate_reports plan)
      | MssqlOutputCacheDecision.CacheAliases _ \<Rightarrow>
          WriteAllCacheReport.CacheAliases aliases (skipped_candidate_reports plan))"

subsection \<open>Queries while caches are installed\<close>

definition cached_output_stream_setup_error :: "string \<Rightarrow> string \<Rightarrow> DeltaFunnelError" where
  "cached_output_stream_setup_error output_name message =
     MssqlWorkflowPlanning
       (''cached output stream setup failed for '' @ quoted (sanitize_text_for_display output_name)
        @ '': '' @ sanitize_text_for_display message)"

definition failing_cached_output_query_factory ::
    "string \<Rightarrow> DeltaFunnelError \<Rightarrow> ('s world, MssqlOutputQueryError, MssqlOutputQueryExecution) io" where
  "failing_cached_output_query_factory output_name error w =
     (Inl \<lparr>qx_error = cached_output_stream_setup_error output_name (DeltaFunnelError_display error),
           qx_query_phase_timings = []\<rparr>, w)"

definition validate_replanned_output_schema ::
    "arrow_api \<Rightarrow> (DataType \<Rightarrow> string) \<Rightarrow> string \<Rightarrow> MssqlTargetOutputPlan \<Rightarrow> Schema \<Rightarrow> Schema
       \<Rightarrow> DeltaFunnelError + unit" where
  "validate_replanned_output_schema api dt_display output_name output_plan replanned expected =
     (case validate_mssql_output_schema api output_plan replanned of
        Inr _ \<Rightarrow> Inr ()
      | Inl invalid \<Rightarrow>
          (let diagnostic = truncate_schema_diagnostic
                 (DeltaFunnelError_display invalid @ ''; schema differences: ''
                  @ describe_schema_mismatch dt_display expected replanned)
                 CACHE_REPLAY_DIAGNOSTIC_SANITIZATION_LAYERS
           in Inl (cached_output_stream_setup_error output_name
                (''replanned output schema is incompatible with the planned SQL Server output: ''
                 @ diagnostic))))"

definition create_cached_output_query_execution_from_retained_sql ::
    "arrow_api \<Rightarrow> ('c, 'd, 'p, 'q, 'i) cache_engine \<Rightarrow> consumption \<Rightarrow> PlannedMssqlOutput \<Rightarrow> string
       \<Rightarrow> Schema \<Rightarrow> bool \<Rightarrow> ExecutionProfileMode
       \<Rightarrow> (('c, 's) engine_world, MssqlOutputQueryError, MssqlOutputQueryExecution) io" where
  "create_cached_output_query_execution_from_retained_sql api ca consumed planned sql_text expected
       retains profile_mode w =
     (let output_name = rt_output_name (pmo_resolved_target planned);
          (timer, w) = w_timer_start QUERY_DATAFRAME_PLANNING_PHASE w
      in case df_sql_with_options (ca_engine ca) (w_context w) sql_text read_only_sql_options of
           Inl error \<Rightarrow>
             (let (timing, w) = w_timer_failed timer w
              in (Inl (mssql_output_query_error planned QueryDataFramePlanning [] timing
                         (cached_output_stream_setup_error output_name error) None), w))
         | Inr dataframe \<Rightarrow>
             (case validate_replanned_output_schema api (ca_display_type ca) output_name
                     (pmo_output_plan planned) (df_frame_schema (ca_engine ca) dataframe) expected of
                Inl error \<Rightarrow>
                  (let (timing, w) = w_timer_failed timer w
                   in (Inl (mssql_output_query_error planned QueryDataFramePlanning [] timing error
                              None), w))
              | Inr _ \<Rightarrow>
                  (let (timing, w) = w_timer_completed timer w
                   in create_mssql_output_query_execution_from_dataframe (ca_engine ca) consumed
                        planned dataframe [timing] retains profile_mode w)))"

definition output_requires_cache_replan ::
    "('c, 'p) DeltaFunnelSession \<Rightarrow> OutputWritePlan \<Rightarrow> MssqlDerivedCacheAliasPlan list
       \<Rightarrow> DeltaFunnelError + bool" where
  "output_requires_cache_replan s request active_aliases =
     (if active_aliases = [] then Inr False
      else
        res_bind
          (check_all (\<lambda>alias. res_bind
              (ok_or (registered_derived_table_by_id s (cap_table_id alias))
                 (unknown_cached_alias_error alias)) (\<lambda>_. Inr ())) active_aliases)
          (\<lambda>_.
             if list_ex (\<lambda>alias. lt_id (owp_table request) = cap_table_id alias) active_aliases then
               Inr False
             else if lt_kind (owp_table request) = DeltaSource then Inr False
             else
               res_bind (transitive_registered_derived_dependencies s (owp_table request))
                 (\<lambda>dependencies. Inr (list_ex (\<lambda>alias.
                    list_ex (\<lambda>d. is_registered_derived d \<and> dep_table_id d = cap_table_id alias)
                      dependencies) active_aliases))))"

definition cached_output_query_factory ::
    "arrow_api \<Rightarrow> ('c, 'd, 'p, 'q, 'i) cache_engine \<Rightarrow> consumption \<Rightarrow> ('c, 'p) DeltaFunnelSession
       \<Rightarrow> PlannedMssqlOutput \<Rightarrow> MssqlDerivedCacheAliasPlan list \<Rightarrow> bool \<Rightarrow> ExecutionProfileMode
       \<Rightarrow> DeltaFunnelError
          + (('c, 's) engine_world, MssqlOutputQueryError, MssqlOutputQueryExecution) io" where
  "cached_output_query_factory api ca consumed s planned active_aliases retains profile_mode =
     (let request = pmo_request planned; output_name = ot_output_name (owp_target request) in
      res_bind (output_requires_cache_replan s request active_aliases) (\<lambda>replan.
        if \<not> replan then
          Inr (mssql_output_query_factory (ca_engine ca) consumed s planned retains profile_mode)
        else
          (case sql_text_for_derived_table s (owp_table request) of
             Inl error \<Rightarrow> Inr (failing_cached_output_query_factory output_name error)
           | Inr sql_text \<Rightarrow>
               (case schema_for_lazy_table s (owp_table request) of
                  Inl error \<Rightarrow> Inr (failing_cached_output_query_factory output_name error)
                | Inr expected \<Rightarrow>
                    Inr (create_cached_output_query_execution_from_retained_sql api ca consumed planned
                           sql_text expected retains profile_mode)))))"

subsection \<open>Jobs and routes\<close>

definition output_reporter :: "ProgressReporter option \<Rightarrow> nat \<Rightarrow> nat \<Rightarrow> ProgressReporter option" where
  "output_reporter reporter index n =
     Option.bind reporter (\<lambda>r.
       for_output r (usize_to_u64_saturating (index + 1)) (usize_to_u64_saturating n))"

definition schema_plan_options :: "MssqlTargetOutputPlan \<Rightarrow> MssqlSchemaPlanOptions" where
  "schema_plan_options p = pls_options (sp_planned_schema (pl_schema_plan p))"

definition build_write_all_job ::
    "('c, 'p) DeltaFunnelSession \<Rightarrow> PlannedMssqlOutput \<Rightarrow> Schema
       \<Rightarrow> ('s world, MssqlOutputQueryError, MssqlOutputQueryExecution) io \<Rightarrow> ProgressReporter option
       \<Rightarrow> 's MssqlOutputWriteJob" where
  "build_write_all_job s planned output_schema create_query_execution output_progress =
     job_with_progress_reporter output_progress
       (job_with_phase_timings (pmo_phase_timings planned)
          (job_new_with_query_execution_factory output_schema (pmo_resolved_target planned)
             (schema_plan_options (pmo_output_plan planned)) create_query_execution
             (mssql_write_backend (ds_options s)) (validation_options (ds_options s))))"

definition build_write_all_uncached_jobs ::
    "('c, 'd, 'p, 'q, 'i) query_engine \<Rightarrow> consumption \<Rightarrow> ('c, 'p) DeltaFunnelSession
       \<Rightarrow> PlannedMssqlOutput list \<Rightarrow> bool \<Rightarrow> ProgressReporter option \<Rightarrow> ExecutionProfileMode
       \<Rightarrow> DeltaFunnelError + ('c, 's) engine_state MssqlOutputWriteJob list" where
  "build_write_all_uncached_jobs en consumed s planned_outputs retains reporter profile_mode =
     try_collect (map (\<lambda>(index, planned).
       res_bind (schema_for_lazy_table s (owp_table (pmo_request planned))) (\<lambda>output_schema.
         Inr (build_write_all_job s planned output_schema
                (mssql_output_query_factory en consumed s planned retains profile_mode)
                (output_reporter reporter index (length planned_outputs)))))
       (List.enumerate 0 planned_outputs))"

definition build_write_all_cached_jobs ::
    "arrow_api \<Rightarrow> ('c, 'd, 'p, 'q, 'i) cache_engine \<Rightarrow> consumption \<Rightarrow> ('c, 'p) DeltaFunnelSession
       \<Rightarrow> PlannedMssqlOutput list \<Rightarrow> MssqlDerivedCacheAliasPlan list \<Rightarrow> bool \<Rightarrow> ProgressReporter option
       \<Rightarrow> ExecutionProfileMode \<Rightarrow> DeltaFunnelError + ('c, 's) engine_state MssqlOutputWriteJob list" where
  "build_write_all_cached_jobs api ca consumed s planned_outputs active_aliases retains reporter
       profile_mode =
     try_collect (map (\<lambda>(index, planned).
       res_bind (schema_for_lazy_table s (owp_table (pmo_request planned))) (\<lambda>output_schema.
       res_bind (cached_output_query_factory api ca consumed s planned active_aliases retains
                   profile_mode) (\<lambda>factory.
         Inr (build_write_all_job s planned output_schema factory
                (output_reporter reporter index (length planned_outputs))))))
       (List.enumerate 0 planned_outputs))"

text \<open>The writer in the engine's world: it owns the stream it is given.\<close>

definition engine_writer :: "'s output_writer \<Rightarrow> ('c, 's) engine_state output_writer" where
  "engine_writer writer =
     \<lparr>ow_reports_sql_write_phase = ow_reports_sql_write_phase writer,
      ow_write_output = (\<lambda>schema target schema_options batches backend options reporter.
        consuming (ow_write_output writer schema target schema_options batches backend options reporter))\<rparr>"

definition write_all_uncached_with_writer ::
    "('c, 'd, 'p, 'q, 'i) query_engine \<Rightarrow> consumption \<Rightarrow> ('c, 'p) DeltaFunnelSession
       \<Rightarrow> PlannedMssqlOutput list \<Rightarrow> 's output_writer \<Rightarrow> bool \<Rightarrow> ProgressReporter option
       \<Rightarrow> ExecutionProfileMode
       \<Rightarrow> (('c, 's) engine_world, DeltaFunnelError, MssqlWorkflowWriteReport) io" where
  "write_all_uncached_with_writer en consumed s planned_outputs writer retains reporter profile_mode w =
     (case build_write_all_uncached_jobs en consumed s planned_outputs retains reporter profile_mode of
        Inl e \<Rightarrow> (Inl e, w)
      | Inr jobs \<Rightarrow>
          write_mssql_outputs_with_writer jobs (mssql_workflow_options (ds_options s))
            (engine_writer writer) w)"

definition write_all_cached_with_writer ::
    "arrow_api \<Rightarrow> ('c, 'd, 'p, 'q, 'i) cache_engine \<Rightarrow> consumption \<Rightarrow> ('c, 'p) DeltaFunnelSession
       \<Rightarrow> PlannedMssqlOutput list \<Rightarrow> MssqlDerivedCacheAliasPlan list \<Rightarrow> 's output_writer \<Rightarrow> bool
       \<Rightarrow> ProgressReporter option \<Rightarrow> ExecutionProfileMode
       \<Rightarrow> (('c, 's) engine_world, DeltaFunnelError,
            MssqlWorkflowWriteReport \<times> WriteAllCacheAliasReport list) io" where
  "write_all_cached_with_writer api ca consumed s planned_outputs cache_aliases writer retains reporter
       profile_mode w =
     (case replace_mssql_cache_aliases ca s cache_aliases reporter profile_mode w of
        (Inl e, w) \<Rightarrow> (Inl e, w)
      | (Inr replacements, w) \<Rightarrow>
          (case build_write_all_cached_jobs api ca consumed s planned_outputs cache_aliases retains
                  reporter profile_mode of
             Inl error \<Rightarrow>
               (case restore_cache_aliases_after_failure ca error replacements None reporter w of
                  (failure, w) \<Rightarrow> (Inl failure, w))
           | Inr jobs \<Rightarrow>
               (let (write_result, w) = write_mssql_outputs_with_writer jobs
                      (mssql_workflow_options (ds_options s)) (engine_writer writer) w;
                    ((alias_reports, restore_result), w) =
                      restore_mssql_cache_aliases_with_reports ca replacements reporter w
                in (case (write_result, restore_result) of
                      (Inr report, Inr ()) \<Rightarrow> Inr (report, alias_reports)
                    | (Inr report, Inl (table_id, restore_error)) \<Rightarrow>
                        Inl (write_all_cache_failure restore_error alias_reports (Some table_id)
                               (Some report))
                    | (Inl write_error, _) \<Rightarrow>
                        Inl (write_all_cache_failure write_error alias_reports None None), w))))"

subsection \<open>The request\<close>

definition OUTPUT_PLANNING_PHASE :: string where
  "OUTPUT_PLANNING_PHASE = ''output_planning''"

definition CACHE_PLANNING_PHASE :: string where
  "CACHE_PLANNING_PHASE = ''cache_planning''"

definition WORKFLOW_EXECUTION_PHASE :: string where
  "WORKFLOW_EXECUTION_PHASE = ''workflow_execution''"

definition SOURCE_REPORTING_PHASE :: string where
  "SOURCE_REPORTING_PHASE = ''source_reporting''"

fun plan_outputs_loop ::
    "arrow_api \<Rightarrow> ('c, 'p) DeltaFunnelSession \<Rightarrow> ProgressReporter option \<Rightarrow> nat
       \<Rightarrow> (nat \<times> OutputWritePlan) list \<Rightarrow> ('s world, DeltaFunnelError, PlannedMssqlOutput list) io" where
  "plan_outputs_loop api s reporter n [] w = (Inr [], w)"
| "plan_outputs_loop api s reporter n ((index, request) # requests) w =
     (let w = w_emit (output_reporter reporter index n)
                (phase_changed PlanningOutput (Some (ot_output_name (owp_target request)))) w
      in case plan_mssql_output api s request w of
           (Inl e, w) \<Rightarrow> (Inl e, w)
         | (Inr planned, w) \<Rightarrow>
             (case plan_outputs_loop api s reporter n requests w of
                (Inl e, w) \<Rightarrow> (Inl e, w)
              | (Inr rest, w) \<Rightarrow> (Inr (planned # rest), w)))"

definition plan_write_outputs ::
    "arrow_api \<Rightarrow> ('c, 'p) DeltaFunnelSession \<Rightarrow> OutputWritePlan list \<Rightarrow> ProgressReporter option
       \<Rightarrow> ('s world, DeltaFunnelError, PlannedMssqlOutput list) io" where
  "plan_write_outputs api s requests reporter =
     plan_outputs_loop api s reporter (length requests) (List.enumerate 0 requests)"

text \<open>
  Cache planning. The pairs of mode and aliases that \<open>validate_write_all_options\<close> refuses do not
  get here: the code has \<open>unreachable!()\<close> for them.
\<close>

definition plan_write_all_cache ::
    "('c, 'p) DeltaFunnelSession \<Rightarrow> OutputWritePlan list \<Rightarrow> WriteAllOptions
       \<Rightarrow> ('s world, DeltaFunnelError, MssqlOutputCachePlan option \<times> PhaseTimingReport) io" where
  "plan_write_all_cache s requests options w =
     (case (wao_cache_mode options, wao_cache_aliases options) of
        (WriteAllCacheMode.Auto, None) \<Rightarrow>
          (let (timer, w) = w_timer_start CACHE_PLANNING_PHASE w;
               (timing, w) = w_timer_completed timer w
           in (Inr (Some (plan_mssql_output_cache s requests), timing), w))
      | (WriteAllCacheMode.Explicit, Some aliases) \<Rightarrow>
          (let (timer, w) = w_timer_start CACHE_PLANNING_PHASE w in
           case plan_mssql_output_cache_explicit s requests aliases of
             Inl error \<Rightarrow> (Inl error, w)
           | Inr plan \<Rightarrow>
               (let (timing, w) = w_timer_completed timer w in (Inr (Some plan, timing), w)))
      | (WriteAllCacheMode.Disabled, None) \<Rightarrow>
          (Inr (None, timing_skipped CACHE_PLANNING_PHASE ReportReasonCode.NotExecuted), w)
      | _ \<Rightarrow> undefined)"

definition run_write_all_route ::
    "arrow_api \<Rightarrow> ('c, 'd, 'p, 'q, 'i) cache_engine \<Rightarrow> consumption \<Rightarrow> ('c, 'p) DeltaFunnelSession
       \<Rightarrow> PlannedMssqlOutput list \<Rightarrow> MssqlOutputCachePlan option \<Rightarrow> 's output_writer
       \<Rightarrow> ProgressReporter option \<Rightarrow> ExecutionProfileMode
       \<Rightarrow> (('c, 's) engine_world, DeltaFunnelError, MssqlWorkflowWriteReport \<times> WriteAllCacheReport) io" where
  "run_write_all_route api ca consumed s planned_outputs cache_plan writer reporter profile_mode w =
     (case cache_plan of
        None \<Rightarrow>
          (case write_all_uncached_with_writer (ca_engine ca) consumed s planned_outputs writer True
                  reporter profile_mode w of
             (r, w) \<Rightarrow> (res_bind r (\<lambda>workflow. Inr (workflow, WriteAllCacheReport.Disabled)), w))
      | Some plan \<Rightarrow>
          (case cp_decision plan of
             MssqlOutputCacheDecision.NoCache _ \<Rightarrow>
               (case write_all_uncached_with_writer (ca_engine ca) consumed s planned_outputs writer
                       True reporter profile_mode w of
                  (r, w) \<Rightarrow> (res_bind r (\<lambda>workflow. Inr (workflow, cache_report_from_plan plan)), w))
           | MssqlOutputCacheDecision.CacheAliases cache_aliases \<Rightarrow>
               (case write_all_cached_with_writer api ca consumed s planned_outputs cache_aliases writer
                       True reporter profile_mode w of
                  (r, w) \<Rightarrow>
                    (res_bind r (\<lambda>(workflow, alias_reports).
                       Inr (workflow, cache_report_from_executed_plan plan alias_reports)), w))))"

text \<open>The body of a call, from planning to the report.\<close>

definition run_write_all_phases ::
    "arrow_api \<Rightarrow> ('c, 'd, 'p, 'q, 'i) cache_engine \<Rightarrow> consumption \<Rightarrow> ('c, 'p) DeltaFunnelSession
       \<Rightarrow> OutputWritePlan list \<Rightarrow> WriteAllOptions \<Rightarrow> 's output_writer \<Rightarrow> ProgressReporter option
       \<Rightarrow> (('c, 's) engine_world, DeltaFunnelError, WriteAllReport) io" where
  "run_write_all_phases api ca consumed s requests options writer reporter w =
     (let (planning_timer, w) = w_timer_start OUTPUT_PLANNING_PHASE w in
      case plan_write_outputs api s requests reporter w of
        (Inl e, w) \<Rightarrow> (Inl e, w)
      | (Inr planned_outputs, w) \<Rightarrow>
          (let (planning_timing, w) = w_timer_completed planning_timer w in
           case plan_write_all_cache s requests options w of
             (Inl e, w) \<Rightarrow> (Inl e, w)
           | (Inr (cache_plan, cache_timing), w) \<Rightarrow>
               (let w = w_update (\<lambda>st. st\<lparr>es_retained := []\<rparr>) w;
                    (workflow_timer, w) = w_timer_start WORKFLOW_EXECUTION_PHASE w
                in case run_write_all_route api ca consumed s planned_outputs cache_plan writer reporter
                          (wao_execution_profile_mode options) w of
                     (Inl e, w) \<Rightarrow> (Inl e, w)
                   | (Inr (workflow, cache), w) \<Rightarrow>
                       (let (workflow_timing, w) = w_timer_completed workflow_timer w;
                            w = w_emit reporter (phase_changed ReportingSources None) w;
                            (source_timer, w) = w_timer_start SOURCE_REPORTING_PHASE w
                        in case source_reports_for_planned_outputs_with_provider_stats s planned_outputs
                                  (es_retained (w_conn w)) of
                             Inl e \<Rightarrow> (Inl e, w)
                           | Inr sources \<Rightarrow>
                               (let (source_timing, w) = w_timer_completed source_timer w
                                in (Inr (write_all_with_phase_timings
                                      [planning_timing, cache_timing, workflow_timing, source_timing]
                                      (WriteAllReport_new workflow cache sources)), w))))))"

definition write_all_terminal_event :: "DeltaFunnelError + WriteAllReport \<Rightarrow> ProgressEvent" where
  "write_all_terminal_event result =
     (case result of
        Inr report \<Rightarrow> if write_all_succeeded report then ProgressEvent.Completed
                      else ProgressEvent.CompletedWithFailures
      | Inl _ \<Rightarrow> ProgressEvent.Failed)"

definition execute_write_all_with_writer ::
    "arrow_api \<Rightarrow> ('c, 'd, 'p, 'q, 'i) cache_engine \<Rightarrow> consumption \<Rightarrow> ('c, 'p) DeltaFunnelSession
       \<Rightarrow> OutputWritePlan list \<Rightarrow> WriteAllOptions \<Rightarrow> 's output_writer \<Rightarrow> ProgressReporter option
       \<Rightarrow> (('c, 's) engine_world, DeltaFunnelError, WriteAllReport) io" where
  "execute_write_all_with_writer api ca consumed s requests options writer reporter w =
     (case res_bind (validate_write_all_options options) (\<lambda>_. validate_write_all_requests requests) of
        Inl e \<Rightarrow> (Inl e, w)
      | Inr _ \<Rightarrow>
          (let active_reporter = (if requests = [] then None else reporter);
               w = w_emit active_reporter (ProgressEvent.Started WriteAllToMssql) w;
               (result, w) = run_write_all_phases api ca consumed s requests options writer
                 active_reporter w
           in (result, w_emit active_reporter (write_all_terminal_event result) w)))"

definition write_all_with_options ::
    "arrow_api \<Rightarrow> 's sql_server \<Rightarrow> ('c, 'd, 'p, 'q, 'i) cache_engine \<Rightarrow> consumption
       \<Rightarrow> ('c, 'p) DeltaFunnelSession \<Rightarrow> OutputWritePlan list \<Rightarrow> WriteAllOptions
       \<Rightarrow> (('c, 's conn) engine_world, DeltaFunnelError, WriteAllReport) io" where
  "write_all_with_options api srv ca consumed s requests options =
     execute_write_all_with_writer api ca consumed s requests options (workflow_sink_writer api srv) None"

definition write_all ::
    "arrow_api \<Rightarrow> 's sql_server \<Rightarrow> ('c, 'd, 'p, 'q, 'i) cache_engine \<Rightarrow> consumption
       \<Rightarrow> ('c, 'p) DeltaFunnelSession \<Rightarrow> OutputWritePlan list
       \<Rightarrow> (('c, 's conn) engine_world, DeltaFunnelError, WriteAllReport) io" where
  "write_all api srv ca consumed s requests =
     write_all_with_options api srv ca consumed s requests WriteAllOptions_new"

definition write_all_with_progress ::
    "arrow_api \<Rightarrow> 's sql_server \<Rightarrow> ('c, 'd, 'p, 'q, 'i) cache_engine \<Rightarrow> consumption
       \<Rightarrow> ('c, 'p) DeltaFunnelSession \<Rightarrow> OutputWritePlan list \<Rightarrow> WriteAllOptions \<Rightarrow> ProgressReporter
       \<Rightarrow> (('c, 's conn) engine_world, DeltaFunnelError, WriteAllReport) io" where
  "write_all_with_progress api srv ca consumed s requests options reporter =
     execute_write_all_with_writer api ca consumed s requests options (workflow_sink_writer api srv)
       (Some reporter)"

definition write_all_for_stream_benchmark ::
    "arrow_api \<Rightarrow> ('c, 'd, 'p, 'q, 'i) cache_engine \<Rightarrow> consumption \<Rightarrow> ('c, 'p) DeltaFunnelSession
       \<Rightarrow> OutputWritePlan list \<Rightarrow> WriteAllOptions
       \<Rightarrow> (('c, 's) engine_world, DeltaFunnelError, WriteAllReport) io" where
  "write_all_for_stream_benchmark api ca consumed s requests options =
     execute_write_all_with_writer api ca consumed s requests options (stream_benchmark_output_writer api)
       None"

subsection \<open>Validation\<close>

lemma validate_write_all_options_iff:
  "validate_write_all_options options = Inr () \<longleftrightarrow>
     (case wao_cache_aliases options of
        None \<Rightarrow> wao_cache_mode options \<noteq> WriteAllCacheMode.Explicit
      | Some aliases \<Rightarrow> aliases \<noteq> [] \<and> wao_cache_mode options = WriteAllCacheMode.Explicit)"
  by (cases "wao_cache_mode options"; cases "wao_cache_aliases options")
     (auto simp: validate_write_all_options_def)

lemma unique_names_loop_iff:
  "unique_names_loop names requests = Inr () \<longleftrightarrow>
     distinct (map (ot_output_name \<circ> owp_target) requests) \<and>
     names \<inter> (ot_output_name \<circ> owp_target) ` set requests = {}"
  by (induction requests arbitrary: names) (auto simp: Let_def)

lemma check_all_iff: "check_all f xs = Inr () \<longleftrightarrow> (\<forall>x \<in> set xs. f x = Inr ())"
  by (induction xs) (auto simp: res_simps)

lemma validate_write_all_requests_iff:
  "validate_write_all_requests requests = Inr () \<longleftrightarrow>
     distinct (map (ot_output_name \<circ> owp_target) requests) \<and>
     (\<forall>request \<in> set requests. ot_run_mode (owp_target request) = Execute)"
proof -
  have "ensure_write_all_execute_run_mode mode = Inr () \<longleftrightarrow> mode = Execute" for mode
    by (simp add: ensure_write_all_execute_run_mode_def split: RunMode.split)
  then show ?thesis
    by (auto simp: validate_write_all_requests_def ensure_unique_write_all_output_names_def
        unique_names_loop_iff check_all_iff res_simps)
qed

text \<open>Every refusal is a planning error, and happens before anything else.\<close>

lemma validate_write_all_options_error:
  "validate_write_all_options options = Inl e \<Longrightarrow> \<exists>msg. e = MssqlWorkflowPlanning msg"
  by (cases "wao_cache_mode options"; cases "wao_cache_aliases options")
     (auto simp: validate_write_all_options_def split: if_splits)

lemma unique_names_loop_error:
  "unique_names_loop names requests = Inl e \<Longrightarrow> \<exists>msg. e = MssqlWorkflowPlanning msg"
  by (induction requests arbitrary: names) (auto simp: Let_def split: if_splits)

lemma check_all_error: "check_all f xs = Inl e \<Longrightarrow> \<exists>x \<in> set xs. f x = Inl e"
  by (induction xs) (auto simp: res_bind_def split: sum.splits)

lemma validate_write_all_requests_error:
  assumes "validate_write_all_requests requests = Inl e"
  shows "\<exists>msg. e = MssqlWorkflowPlanning msg"
proof (cases "unique_names_loop {} requests")
  case (Inl e')
  with assms unique_names_loop_error [OF Inl] show ?thesis
    by (simp add: validate_write_all_requests_def ensure_unique_write_all_output_names_def)
next
  case (Inr u)
  with assms have "check_all (\<lambda>request. ensure_write_all_execute_run_mode (ot_run_mode (owp_target request)))
      requests = Inl e"
    by (simp add: validate_write_all_requests_def ensure_unique_write_all_output_names_def)
  from check_all_error [OF this] obtain mode where "ensure_write_all_execute_run_mode mode = Inl e"
    by blast
  then show ?thesis
    by (cases mode) (auto simp: ensure_write_all_execute_run_mode_def)
qed

lemma write_all_refused:
  assumes "\<not> (validate_write_all_options options = Inr () \<and> validate_write_all_requests requests = Inr ())"
  shows "\<exists>msg. execute_write_all_with_writer api ca consumed s requests options writer reporter w =
    (Inl (MssqlWorkflowPlanning msg), w)"
proof (cases "validate_write_all_options options")
  case (Inl e)
  with validate_write_all_options_error [OF Inl] show ?thesis
    by (auto simp: execute_write_all_with_writer_def)
next
  case (Inr u)
  with assms obtain e where e: "validate_write_all_requests requests = Inl e"
    by (cases "validate_write_all_requests requests") auto
  with validate_write_all_requests_error [OF e] Inr show ?thesis
    by (auto simp: execute_write_all_with_writer_def)
qed

subsection \<open>Jobs\<close>

text \<open>
  A query factory reads the catalog and sends nothing; the profile it attaches later keeps the
  report's target.
\<close>

definition factory_ok ::
    "(('c, 's) engine_world, MssqlOutputQueryError, MssqlOutputQueryExecution) io \<Rightarrow> bool" where
  "factory_ok factory \<longleftrightarrow>
     (\<forall>w r w'. factory w = (r, w') \<longrightarrow> engine_quiet w w' \<and>
        (\<forall>x. r = Inr x \<longrightarrow> pred_option keeps_target (qe_attach_profile_to_result x)))"

lemma query_factory_ok: "factory_ok (mssql_output_query_factory en consumed s planned retains mode)"
  unfolding factory_ok_def mssql_output_query_factory_def
  by (auto simp: query_ready_def dest!: query_execution_step)

lemma failing_factory_ok: "factory_ok (failing_cached_output_query_factory name error)"
  by (simp add: factory_ok_def failing_cached_output_query_factory_def)

lemma cached_execution_step:
  assumes run: "create_cached_output_query_execution_from_retained_sql api ca consumed planned sql_text
      expected retains mode w = (r, w')"
  shows "engine_quiet w w' \<and>
    (case r of
       Inl x \<Rightarrow> query_failure planned x
     | Inr x \<Rightarrow> \<exists>dataframe stream.
         df_sql_with_options (ca_engine ca) (w_context w) sql_text read_only_sql_options = Inr dataframe \<and>
         \<not> isl (validate_mssql_output_schema api (pmo_output_plan planned)
                  (df_frame_schema (ca_engine ca) dataframe)) \<and>
         frame_stream (ca_engine ca) dataframe = Inr stream \<and> query_ready x stream)"
proof -
  let ?name = "rt_output_name (pmo_resolved_target planned)"
  have failed: "query_failure planned (mssql_output_query_error planned QueryDataFramePlanning []
      (timing_failed QUERY_DATAFRAME_PLANNING_PHASE d) source None)" for d source
    by (intro query_failure_error) (simp_all add: timing_defs query_phases)
  show ?thesis
  proof (cases "df_sql_with_options (ca_engine ca) (w_context w) sql_text read_only_sql_options")
    case (Inl e)
    with run failed show ?thesis
      by (auto simp: create_cached_output_query_execution_from_retained_sql_def)
  next
    case (Inr dataframe)
    let ?valid = "validate_replanned_output_schema api (ca_display_type ca) ?name (pmo_output_plan planned)
      (df_frame_schema (ca_engine ca) dataframe) expected"
    show ?thesis
    proof (cases ?valid)
      case (Inl e)
      with run failed Inr show ?thesis
        by (auto simp: create_cached_output_query_execution_from_retained_sql_def)
    next
      case (Inr u)
      then have valid: "\<not> isl (validate_mssql_output_schema api (pmo_output_plan planned)
          (df_frame_schema (ca_engine ca) dataframe))"
        by (auto simp: validate_replanned_output_schema_def Let_def split: sum.splits)
      from Inr run \<open>df_sql_with_options _ _ _ _ = Inr dataframe\<close>
      have "create_mssql_output_query_execution_from_dataframe (ca_engine ca) consumed planned dataframe
          [timing_completed QUERY_DATAFRAME_PLANNING_PHASE (reading (tick w) - reading w)] retains mode
          (tick (tick w)) = (r, w')"
        by (simp add: create_cached_output_query_execution_from_retained_sql_def Let_def)
      from query_execution_from_dataframe_step [OF this] valid
        \<open>df_sql_with_options _ _ _ _ = Inr dataframe\<close>
      show ?thesis by (cases r) simp_all
    qed
  qed
qed

lemma cached_query_factory_ok:
  assumes "cached_output_query_factory api ca consumed s planned aliases retains mode = Inr factory"
  shows "factory_ok factory"
proof -
  have "factory_ok (create_cached_output_query_execution_from_retained_sql api ca consumed planned sql_text
      expected retains mode)" for sql_text expected
    unfolding factory_ok_def by (auto simp: query_ready_def dest!: cached_execution_step)
  then show ?thesis
    using assms query_factory_ok failing_factory_ok
    by (auto simp: cached_output_query_factory_def Let_def res_simps split: if_splits sum.splits)
qed

definition job_of_output :: "PlannedMssqlOutput \<Rightarrow> ('c, 's) engine_state MssqlOutputWriteJob \<Rightarrow> bool" where
  "job_of_output planned job \<longleftrightarrow>
     job_resolved_target job = pmo_resolved_target planned \<and> factory_ok (job_create_query_execution job)"

lemma job_of_outputI:
  "factory_ok factory \<Longrightarrow> job_of_output planned (build_write_all_job s planned schema factory reporter)"
  by (simp add: job_of_output_def build_write_all_job_def job_new_with_query_execution_factory_def
      job_with_phase_timings_def job_with_progress_reporter_def)

lemma try_collect_list_all2:
  "try_collect xs = Inr ys \<longleftrightarrow> list_all2 (\<lambda>x y. x = Inr y) xs ys"
proof (induction xs arbitrary: ys)
  case (Cons x xs)
  then show ?case
    by (cases x; cases ys) (auto simp: res_simps list_all2_Cons1)
qed auto

lemma list_all2_enumerate:
  "list_all2 (\<lambda>(i, x) y. P x y) (List.enumerate n xs) ys \<longleftrightarrow> list_all2 P xs ys"
  by (simp add: list_all2_conv_all_nth nth_enumerate_eq)

lemma built_jobs:
  assumes "try_collect (map (\<lambda>(i, x). f i x) (List.enumerate 0 planned)) = Inr jobs"
    and "\<And>i x job. f i x = Inr job \<Longrightarrow> job_of_output x job"
  shows "list_all2 job_of_output planned jobs"
proof -
  from assms(1) have "list_all2 (\<lambda>(i, x) job. f i x = Inr job) (List.enumerate 0 planned) jobs"
    by (simp add: try_collect_list_all2 list.rel_map case_prod_unfold)
  then have "list_all2 (\<lambda>(i, x) job. job_of_output x job) (List.enumerate 0 planned) jobs"
    by (rule list_all2_mono) (auto dest: assms(2))
  then show ?thesis
    by (simp add: list_all2_enumerate)
qed

lemma uncached_jobs_of_outputs:
  "build_write_all_uncached_jobs en consumed s planned retains reporter mode = Inr jobs \<Longrightarrow>
     list_all2 job_of_output planned jobs"
  unfolding build_write_all_uncached_jobs_def
  by (erule built_jobs) (auto simp: res_simps intro!: job_of_outputI query_factory_ok)

lemma cached_jobs_of_outputs:
  "build_write_all_cached_jobs api ca consumed s planned aliases retains reporter mode = Inr jobs \<Longrightarrow>
     list_all2 job_of_output planned jobs"
  unfolding build_write_all_cached_jobs_def
  by (erule built_jobs) (auto simp: res_simps intro!: job_of_outputI dest: cached_query_factory_ok)

subsection \<open>The workflow in the engine's world\<close>

text \<open>A part of the state that neither the factories nor the writer change.\<close>

lemma write_job_keeps:
  assumes run: "write_mssql_output_job job writer w = (outcome, w')"
    and factory: "\<And>w r w'. job_create_query_execution job w = (r, w') \<Longrightarrow> f (w_conn w') = f (w_conn w)"
    and writer: "\<And>schema t so items backend vo reporter w r w'.
      ow_write_output writer schema t so items backend vo reporter w = (r, w') \<Longrightarrow>
        f (w_conn w') = f (w_conn w)"
  shows "f (w_conn w') = f (w_conn w)"
proof -
  define w0 where "w0 = tick (w_emit (job_progress_reporter job)
    (phase_changed SettingUpStream (Some (ts_output_name (job_target_summary job)))) w)"
  obtain q w1 where create: "job_create_query_execution job w0 = (q, w1)"
    by (metis surj_pair)
  have w1: "f (w_conn w1) = f (w_conn w)"
    using factory [OF create] by (simp add: w0_def)
  show ?thesis
  proof (cases q)
    case (Inl failure)
    with run create w1 show ?thesis
      by (auto simp: write_mssql_output_job_def w0_def Let_def)
  next
    case (Inr x)
    with run create obtain timing where stream: "write_job_stream job writer x timing (tick w1) = (outcome, w')"
      by (auto simp: write_mssql_output_job_def w0_def Let_def)
    obtain r w2 where wrote: "ow_write_output writer (job_output_schema job) (job_resolved_target job)
        (job_schema_options job) (qe_stream x) (job_write_backend job) (job_validation_options job)
        (job_progress_reporter job) (tick (tick w1)) = (r, w2)"
      by (metis surj_pair)
    with stream have "w_conn w' = w_conn w2"
      by (auto simp: write_job_stream_def write_timing_of_def Let_def split: sum.splits if_splits option.splits)
    with writer [OF wrote] w1 show ?thesis by simp
  qed
qed

lemma until_failure_keeps:
  assumes "until_failure writer jobs w = (statuses, w')"
    and "\<And>job w r w'. job \<in> set jobs \<Longrightarrow> job_create_query_execution job w = (r, w') \<Longrightarrow>
      f (w_conn w') = f (w_conn w)"
    and "\<And>schema t so items backend vo reporter w r w'.
      ow_write_output writer schema t so items backend vo reporter w = (r, w') \<Longrightarrow>
        f (w_conn w') = f (w_conn w)"
  shows "f (w_conn w') = f (w_conn w)"
  using assms(1,2)
proof (induction jobs arbitrary: w statuses)
  case (Cons job jobs)
  obtain outcome w1 where run: "write_mssql_output_job job writer w = (outcome, w1)"
    by (metis surj_pair)
  have w1: "f (w_conn w1) = f (w_conn w)"
    by (rule write_job_keeps [where f = f, OF run Cons.prems(2) [OF list.set_intros(1)] assms(3)])
  show ?case
  proof (cases "is_failed outcome")
    case True
    with run Cons.prems(1) w1 show ?thesis by (cases outcome) auto
  next
    case False
    obtain rest w2 where tail: "until_failure writer jobs w1 = (rest, w2)"
      by (metis surj_pair)
    with run False Cons.prems(1) have tail: "until_failure writer jobs w1 = (rest, w')"
      by (cases outcome) simp_all
    have "f (w_conn w') = f (w_conn w1)"
      by (rule Cons.IH [OF tail]) (rule Cons.prems(2) [OF list.set_intros(2)])
    with w1 show ?thesis by simp
  qed
qed simp

context workflow_writer
begin

lemma engine_workflow: "workflow_writer (engine_writer writer) (\<lambda>st. sent (es_sql st)) allowed"
proof
  fix schema t so items backend vo reporter w and w' :: "('c, 's) engine_world"
  show "about_target t rep"
    if "ow_write_output (engine_writer writer) schema t so items backend vo reporter w = (Inr rep, w')" for rep
    using that by (auto simp: engine_writer_def elim!: consuming_step dest: writes_target)
  show "\<exists>qs. sent (es_sql (w_conn w')) = sent (es_sql (w_conn w)) @ qs \<and> allowed t qs"
    if "ow_write_output (engine_writer writer) schema t so items backend vo reporter w = (r, w')" for r
    using that by (auto simp: engine_writer_def elim!: consuming_step dest: sends_allowed)
qed (rule allowed_Nil)

end

interpretation engine_sink: workflow_writer "engine_writer (workflow_sink_writer api srv)"
    "\<lambda>st. cn_sent (es_sql st)" "sink_allowed api"
  for api :: arrow_api and srv :: "'s sql_server"
  by (rule sink_workflow.engine_workflow)

interpretation engine_benchmark: workflow_writer "engine_writer (stream_benchmark_output_writer api)"
    "\<lambda>st. sent (es_sql st)" "\<lambda>_ qs. qs = []"
  for api :: arrow_api and sent :: "'s \<Rightarrow> sql_request list"
  by (rule benchmark_workflow.engine_workflow)

lemma job_of_output_wf: "job_of_output planned job \<Longrightarrow> job_wf (\<lambda>st. sent (es_sql st)) job"
  unfolding job_of_output_def factory_ok_def job_wf_def
  by (auto simp: engine_quiet_def) (metis option.pred_inject(2))

lemma jobs_of_outputs_wf:
  "list_all2 job_of_output planned jobs \<Longrightarrow> list_all (job_wf (\<lambda>st. sent (es_sql st))) jobs"
  by (induction rule: list_all2_induct) (auto intro: job_of_output_wf)

lemma jobs_of_outputs_targets:
  "list_all2 job_of_output planned jobs \<Longrightarrow> map job_resolved_target jobs = map pmo_resolved_target planned"
  by (induction rule: list_all2_induct) (auto simp: job_of_output_def)

lemma workflow_keeps_context:
  assumes run: "write_mssql_outputs_with_writer jobs options (engine_writer writer) w = (r, w')"
    and jobs: "list_all2 job_of_output planned jobs"
  shows "w_context w' = w_context w"
proof (cases "ensure_sequential_options options")
  case (Inl e)
  with run show ?thesis by (auto simp: write_mssql_outputs_with_writer_def)
next
  case (Inr u)
  have "factory_ok (job_create_query_execution job)" if "job \<in> set jobs" for job
    using jobs that by (induction rule: list_all2_induct) (auto simp: job_of_output_def)
  then have factory: "w_context w1 = w_context w0"
    if "job \<in> set jobs" "job_create_query_execution job w0 = (q, w1)" for job w0 q w1
    using that unfolding factory_ok_def engine_quiet_def by blast
  obtain statuses w1 where loop: "until_failure (engine_writer writer) jobs w = (statuses, w1)"
    by (metis surj_pair)
  have "w_context w1 = w_context w"
    by (rule until_failure_keeps [where f = es_context, OF loop])
       (use factory in \<open>auto simp: engine_writer_def elim!: consuming_step\<close>)
  with run Inr loop show ?thesis
    by (auto simp: write_mssql_outputs_with_writer_def outputs_loop_until_failure)
qed

subsection \<open>The catalog after a call\<close>

text \<open>
  The catalog holds what it held before, unless the call failed and one of the alias reports of
  its error says that a restoration failed.
\<close>

definition catalog_restored ::
    "('c \<Rightarrow> string \<rightharpoonup> 'p) \<Rightarrow> (string \<rightharpoonup> 'p) \<Rightarrow> DeltaFunnelError + 'a \<Rightarrow> ('c, 's) engine_world \<Rightarrow> bool" where
  "catalog_restored look m0 r w' \<longleftrightarrow>
     look (w_context w') = m0 \<or>
     (\<exists>failure source. r = Inl (WriteAllCache failure source) \<and>
        (\<exists>report \<in> set (wcf_aliases failure). restore_failed report))"

lemma cached_route_step:
  fixes w w' :: "('c, 's) engine_world"
  assumes laws: "alias_catalog_laws ca look"
    and run: "write_all_cached_with_writer api ca consumed s planned aliases writer retains reporter mode w
      = (r, w')"
  shows "catalog_restored look (look (w_context w)) r w'"
proof -
  let ?m = "look (w_context w)"
  obtain q w1 where q: "replace_mssql_cache_aliases ca s aliases reporter mode w = (q, w1)"
    by (metis surj_pair)
  note replace = replace_loop_step [OF laws q [unfolded replace_mssql_cache_aliases_def], of ?m, simplified]
  show ?thesis
  proof (cases q)
    case (Inl error)
    with run q replace show ?thesis
      by (auto simp: write_all_cached_with_writer_def catalog_restored_def cache_failure_reported_def)
  next
    case (Inr replacements)
    with replace have installed: "replaced (rev replacements) ?m (look (w_context w1))" by simp
    show ?thesis
    proof (cases "build_write_all_cached_jobs api ca consumed s planned aliases retains reporter mode
        :: DeltaFunnelError + ('c, 's) engine_state MssqlOutputWriteJob list")
      case (Inl error)
      obtain failure w2 where restore:
        "restore_cache_aliases_after_failure ca error replacements None reporter w1 = (failure, w2)"
        by (metis surj_pair)
      from restore_after_failure_step [OF laws this disjI1 [OF installed]] restore run q Inr Inl
      show ?thesis by (auto simp: write_all_cached_with_writer_def catalog_restored_def)
    next
      case jobs: (Inr jobs)
      obtain written w2 where written: "write_mssql_outputs_with_writer jobs
          (mssql_workflow_options (ds_options s)) (engine_writer writer) w1 = (written, w2)"
        by (metis surj_pair)
      have unchanged: "w_context w2 = w_context w1"
        by (rule workflow_keeps_context [OF written cached_jobs_of_outputs [OF jobs]])
      obtain reports result w3 where restore:
        "restore_mssql_cache_aliases_with_reports ca replacements reporter w2 = ((reports, result), w3)"
        by (metis surj_pair)
      note step = restore_aliases_step [OF laws restore, of ?m]
      have "w' = w3" and r: "r = (case (written, result) of
            (Inr report, Inr ()) \<Rightarrow> Inr (report, reports)
          | (Inr report, Inl (table_id, restore_error)) \<Rightarrow>
              Inl (write_all_cache_failure restore_error reports (Some table_id) (Some report))
          | (Inl write_error, _) \<Rightarrow> Inl (write_all_cache_failure write_error reports None None))"
        using run q Inr jobs written restore by (simp_all add: write_all_cached_with_writer_def)
      with step unchanged installed show ?thesis
        by (cases result; cases written)
           (auto simp: catalog_restored_def write_all_cache_failure_def split: sum.splits prod.splits)
    qed
  qed
qed

lemma uncached_route_step:
  assumes "write_all_uncached_with_writer en consumed s planned writer retains reporter mode w = (r, w')"
  shows "w_context w' = w_context w"
  using assms
  by (auto simp: write_all_uncached_with_writer_def split: sum.splits
      dest: uncached_jobs_of_outputs workflow_keeps_context)

lemma route_step:
  assumes laws: "alias_catalog_laws ca look"
    and run: "run_write_all_route api ca consumed s planned plan writer reporter mode w = (r, w')"
  shows "catalog_restored look (look (w_context w)) r w'"
proof -
  have map: "catalog_restored look m (res_bind q f) v" if "catalog_restored look m q v" for m q f v
    using that by (cases q) (auto simp: catalog_restored_def)
  have uncached: "catalog_restored look (look (w_context w)) (res_bind q f) v"
    if "write_all_uncached_with_writer (ca_engine ca) consumed s planned writer True reporter mode w = (q, v)"
    for q f v
    using uncached_route_step [OF that] by (simp add: catalog_restored_def)
  show ?thesis
    using run
    by (auto simp: run_write_all_route_def split: option.splits MssqlOutputCacheDecision.splits prod.splits
        intro!: map uncached dest: cached_route_step [OF laws])
qed

subsection \<open>Planning\<close>

definition plans_request ::
    "arrow_api \<Rightarrow> ('c, 'p) DeltaFunnelSession \<Rightarrow> OutputWritePlan \<Rightarrow> PlannedMssqlOutput \<Rightarrow> bool" where
  "plans_request api s request planned \<longleftrightarrow>
     pmo_request planned = request \<and>
     planned_output api s request (pmo_resolved_target planned) (pmo_output_plan planned)"

lemma plan_outputs_loop_step:
  assumes "plan_outputs_loop api s reporter n (List.enumerate i requests) w = (r, w')"
  shows "w_conn w' = w_conn w \<and> (\<forall>planned. r = Inr planned \<longrightarrow> list_all2 (plans_request api s) requests planned)"
  using assms
proof (induction requests arbitrary: i w r w')
  case (Cons request requests)
  let ?w = "w_emit (output_reporter reporter i n)
    (phase_changed PlanningOutput (Some (ot_output_name (owp_target request)))) w"
  obtain q w1 where q: "plan_mssql_output api s request ?w = (q, w1)"
    by (metis surj_pair)
  note step = plan_mssql_output_step [OF q]
  show ?case
  proof (cases q)
    case (Inl e)
    with q Cons.prems step show ?thesis by auto
  next
    case (Inr planned)
    obtain rest w2 where tail: "plan_outputs_loop api s reporter n (List.enumerate (Suc i) requests) w1 = (rest, w2)"
      by (metis surj_pair)
    have one: "w_conn w1 = w_conn w" "plans_request api s request planned"
      using step Inr by (simp_all add: plans_request_def)
    note IH = Cons.IH [OF tail]
    show ?thesis
    proof (cases rest)
      case (Inl e)
      with Cons.prems q \<open>q = Inr planned\<close> tail have "r = Inl e" "w' = w2" by simp_all
      with one IH show ?thesis by simp
    next
      case (Inr ps)
      with Cons.prems q \<open>q = Inr planned\<close> tail have "r = Inr (planned # ps)" "w' = w2" by simp_all
      with one IH Inr show ?thesis by simp
    qed
  qed
qed simp

lemma plan_write_outputs_step:
  assumes "plan_write_outputs api s requests reporter w = (r, w')"
  shows "w_conn w' = w_conn w \<and> (\<forall>planned. r = Inr planned \<longrightarrow> list_all2 (plans_request api s) requests planned)"
  using assms plan_outputs_loop_step unfolding plan_write_outputs_def by blast

lemma plan_write_all_cache_conn:
  assumes "plan_write_all_cache s requests options w = (r, w')" "validate_write_all_options options = Inr ()"
  shows "w_conn w' = w_conn w"
  using assms
  by (auto simp: plan_write_all_cache_def validate_write_all_options_iff Let_def
      split: option.splits WriteAllCacheMode.splits sum.splits)

text \<open>
  The phases of a call, in one rule: it failed before its route, or it ran the route on the planned
  outputs, and what follows the route does not touch the engine.
\<close>

lemma write_all_phases_cases:
  assumes run: "run_write_all_phases api ca consumed s requests options writer reporter w = (r, w')"
    and valid: "validate_write_all_options options = Inr ()"
  obtains (unplanned) "isl r" "w_conn w' = w_conn w"
  | (ran) planned plan w1 q w2 where "list_all2 (plans_request api s) requests planned"
      "w_context w1 = w_context w" "es_sql (w_conn w1) = es_sql (w_conn w)"
      "run_write_all_route api ca consumed s planned plan writer reporter (wao_execution_profile_mode options)
         w1 = (q, w2)"
      "w_conn w' = w_conn w2"
      "\<And>e. q = Inl e \<Longrightarrow> r = Inl e"
      "\<And>report. r = Inr report \<Longrightarrow> \<exists>cache. q = Inr (war_workflow report, cache) \<and> war_cache report = cache"
proof -
  obtain p wp where p: "plan_write_outputs api s requests reporter (tick w) = (p, wp)"
    by (metis surj_pair)
  note plan_step = plan_write_outputs_step [OF p]
  show thesis
  proof (cases p)
    case (Inl e)
    with run p plan_step unplanned show thesis
      by (auto simp: run_write_all_phases_def Let_def)
  next
    case (Inr planned)
    obtain c wc where c: "plan_write_all_cache s requests options (tick wp) = (c, wc)"
      by (metis surj_pair)
    note cache_step = plan_write_all_cache_conn [OF c valid]
    show thesis
    proof (cases c)
      case (Inl e)
      with run p Inr c cache_step plan_step unplanned show thesis
        by (auto simp: run_write_all_phases_def Let_def)
    next
      case (Inr cached)
      let ?w1 = "tick (w_update (\<lambda>st. st\<lparr>es_retained := []\<rparr>) wc)"
      obtain plan timing where cached: "cached = (plan, timing)" by fastforce
      obtain q w2 where q: "run_write_all_route api ca consumed s planned plan writer reporter
          (wao_execution_profile_mode options) ?w1 = (q, w2)"
        by (metis surj_pair)
      have conn: "w_conn wc = w_conn w"
        using cache_step plan_step by simp
      show thesis
      proof (rule ran [OF _ _ _ q])
        show "list_all2 (plans_request api s) requests planned"
          using plan_step \<open>p = Inr planned\<close> by simp
        show "w_context ?w1 = w_context w" "es_sql (w_conn ?w1) = es_sql (w_conn w)"
          by (simp_all add: w_update_def conn)
        show "w_conn w' = w_conn w2" "\<And>e. q = Inl e \<Longrightarrow> r = Inl e"
          "\<And>report. r = Inr report \<Longrightarrow> \<exists>cache. q = Inr (war_workflow report, cache) \<and> war_cache report = cache"
          using run p \<open>p = Inr planned\<close> c Inr cached q
          by (auto simp: run_write_all_phases_def Let_def write_all_with_phase_timings_def
              WriteAllReport_new_def split: sum.splits)
      qed
    qed
  qed
qed

lemma execute_write_all_cases:
  assumes run: "execute_write_all_with_writer api ca consumed s requests options writer reporter w = (r, w')"
  obtains (rejected) e where "r = Inl e" "w' = w"
  | (ran) active w1 w2 where "validate_write_all_options options = Inr ()"
      "validate_write_all_requests requests = Inr ()" "w_conn w1 = w_conn w" "w_conn w' = w_conn w2"
      "run_write_all_phases api ca consumed s requests options writer active w1 = (r, w2)"
      "w' = w_emit active (write_all_terminal_event r) w2"
      "active = (if requests = [] then None else reporter)"
proof (cases "res_bind (validate_write_all_options options) (\<lambda>_. validate_write_all_requests requests)")
  case (Inl e)
  with run rejected show thesis by (auto simp: execute_write_all_with_writer_def)
next
  case (Inr u)
  let ?active = "if requests = [] then None else reporter"
  let ?w1 = "w_emit ?active (ProgressEvent.Started WriteAllToMssql) w"
  obtain q w2 where q: "run_write_all_phases api ca consumed s requests options writer ?active ?w1 = (q, w2)"
    by (metis surj_pair)
  with run Inr have "r = q" "w' = w_emit ?active (write_all_terminal_event r) w2"
    by (auto simp: execute_write_all_with_writer_def Let_def)
  with q Inr show thesis
    by (intro ran [of ?w1 w2 ?active]) (auto simp: res_simps)
qed

lemma write_all_catalog_restored:
  assumes laws: "alias_catalog_laws ca look"
    and run: "execute_write_all_with_writer api ca consumed s requests options writer reporter w = (r, w')"
  shows "catalog_restored look (look (w_context w)) r w'"
  using run
proof (cases rule: execute_write_all_cases)
  case rejected
  then show ?thesis by (simp add: catalog_restored_def)
next
  case (ran active w1 w2)
  from ran(5,1) show ?thesis
  proof (cases rule: write_all_phases_cases)
    case unplanned
    with ran(3,4) show ?thesis by (simp add: catalog_restored_def)
  next
    case route: (ran planned plan v1 q v2)
    from route_step [OF laws route(4)] have "catalog_restored look (look (w_context w)) q v2"
      using route(2) ran(3) by simp
    with route(5,6) ran(4) show ?thesis
      by (auto simp: catalog_restored_def)
  qed
qed

subsection \<open>The requests of a call\<close>

text \<open>
  The requests a call adds, for the targets of its outputs: those of the outputs it attempted, in
  their order, each allowed for its target.
\<close>

definition outputs_requested ::
    "('s \<Rightarrow> sql_request list) \<Rightarrow> (ResolvedMssqlTarget \<Rightarrow> sql_request list \<Rightarrow> bool)
       \<Rightarrow> ResolvedMssqlTarget list \<Rightarrow> 's \<Rightarrow> 's \<Rightarrow> bool" where
  "outputs_requested sent allowed targets st st' \<longleftrightarrow>
     (\<exists>qss. sent st' = sent st @ concat qss \<and> list_all2 allowed (take (length qss) targets) qss)"

definition reports_outputs :: "ResolvedMssqlTarget list \<Rightarrow> MssqlWorkflowWriteReport \<Rightarrow> bool" where
  "reports_outputs targets rep \<longleftrightarrow>
     list_all2 status_target_of targets (wf_outputs rep) \<and> stopped_report (wf_outputs rep)"

lemma nothing_requested: "sent st' = sent st \<Longrightarrow> outputs_requested sent allowed targets st st'"
  by (auto simp: outputs_requested_def intro: exI [of _ "[]"])

context workflow_writer
begin

lemma engine_workflow_run:
  assumes run: "write_mssql_outputs_with_writer jobs options (engine_writer writer) w = (r, w')"
    and jobs: "list_all2 job_of_output planned jobs"
  shows "outputs_requested sent allowed (map pmo_resolved_target planned) (es_sql (w_conn w)) (es_sql (w_conn w')) \<and>
    (\<forall>rep. r = Inr rep \<longrightarrow> reports_outputs (map pmo_resolved_target planned) rep)"
proof (cases "ensure_sequential_options options")
  case (Inl e)
  with run show ?thesis
    by (auto simp: write_mssql_outputs_with_writer_def intro: nothing_requested)
next
  case (Inr u)
  obtain statuses w1 where loop: "until_failure (engine_writer writer) jobs w = (statuses, w1)"
    by (metis surj_pair)
  have targets: "map job_resolved_target jobs = map pmo_resolved_target planned"
    using jobs by (rule jobs_of_outputs_targets)
  from workflow_writer.until_failure_run [OF engine_workflow loop jobs_of_outputs_wf [OF jobs]]
  obtain qss where "list_all2 status_target_of (map pmo_resolved_target planned) statuses"
    "sent (es_sql (w_conn w1)) = sent (es_sql (w_conn w)) @ concat qss"
    "list_all2 allowed (take (length qss) (map pmo_resolved_target planned)) qss"
    by (auto simp: targets [symmetric] take_map)
  moreover have "r = Inr \<lparr>wf_outputs = statuses\<rparr>" "w' = w1"
    using run Inr loop by (simp_all add: write_mssql_outputs_with_writer_def outputs_loop_until_failure)
  moreover have "stopped_report statuses"
    using until_failure_stopped [of "engine_writer writer" jobs w] loop by simp
  ultimately show ?thesis
    by (auto simp: outputs_requested_def reports_outputs_def)
qed

lemma engine_cached_run:
  fixes w w' :: "('c, 's) engine_world"
  assumes laws: "alias_catalog_laws ca look"
    and run: "write_all_cached_with_writer api ca consumed s planned aliases writer retains reporter mode w
      = (r, w')"
  shows "outputs_requested sent allowed (map pmo_resolved_target planned) (es_sql (w_conn w)) (es_sql (w_conn w')) \<and>
    (\<forall>rep reports. r = Inr (rep, reports) \<longrightarrow> reports_outputs (map pmo_resolved_target planned) rep)"
proof -
  obtain q w1 where q: "replace_mssql_cache_aliases ca s aliases reporter mode w = (q, w1)"
    by (metis surj_pair)
  have w1: "es_sql (w_conn w1) = es_sql (w_conn w)"
    using replace_loop_step [OF laws q [unfolded replace_mssql_cache_aliases_def], of "look (w_context w)"] by simp
  show ?thesis
  proof (cases q)
    case (Inl error)
    with run q w1 show ?thesis
      by (auto simp: write_all_cached_with_writer_def intro: nothing_requested)
  next
    case (Inr replacements)
    show ?thesis
    proof (cases "build_write_all_cached_jobs api ca consumed s planned aliases retains reporter mode
        :: DeltaFunnelError + ('c, 's) engine_state MssqlOutputWriteJob list")
      case (Inl error)
      obtain reports result w2 where restore:
        "restore_mssql_cache_aliases_with_reports ca replacements reporter w1 = ((reports, result), w2)"
        by (metis surj_pair)
      from restore_aliases_step [OF laws restore] restore run q Inr Inl w1
      show ?thesis
        by (auto simp: write_all_cached_with_writer_def restore_cache_aliases_after_failure_def
            intro: nothing_requested)
    next
      case jobs: (Inr jobs)
      obtain written w2 where written: "write_mssql_outputs_with_writer jobs
          (mssql_workflow_options (ds_options s)) (engine_writer writer) w1 = (written, w2)"
        by (metis surj_pair)
      obtain reports result w3 where restore:
        "restore_mssql_cache_aliases_with_reports ca replacements reporter w2 = ((reports, result), w3)"
        by (metis surj_pair)
      have w3: "es_sql (w_conn w3) = es_sql (w_conn w2)"
        using restore_aliases_step [OF laws restore] by simp
      have "w' = w3" "\<And>rep rs. r = Inr (rep, rs) \<Longrightarrow> written = Inr rep"
        using run q Inr jobs written restore
        by (auto simp: write_all_cached_with_writer_def split: sum.splits unit.splits)
      with engine_workflow_run [OF written cached_jobs_of_outputs [OF jobs]] w1 w3 show ?thesis
        by auto
    qed
  qed
qed

lemma engine_route_run:
  assumes laws: "alias_catalog_laws ca look"
    and run: "run_write_all_route api ca consumed s planned plan writer reporter mode w = (r, w')"
  shows "outputs_requested sent allowed (map pmo_resolved_target planned) (es_sql (w_conn w)) (es_sql (w_conn w')) \<and>
    (\<forall>rep cache. r = Inr (rep, cache) \<longrightarrow> reports_outputs (map pmo_resolved_target planned) rep)"
proof -
  have uncached: ?thesis
    if "write_all_uncached_with_writer (ca_engine ca) consumed s planned writer True reporter mode w = (q, w')"
      "r = res_bind q (\<lambda>workflow. Inr (workflow, c))" for q c
    using that
    by (cases q) (auto simp: write_all_uncached_with_writer_def intro: nothing_requested split: sum.splits
        dest!: engine_workflow_run [OF _ uncached_jobs_of_outputs])
  have cached: ?thesis
    if "write_all_cached_with_writer api ca consumed s planned aliases writer True reporter mode w = (q, w')"
      "r = res_bind q (\<lambda>(workflow, reports). Inr (workflow, f reports))" for aliases q f
    using engine_cached_run [OF laws that(1)] that(2) by (cases q) auto
  obtain q v where q: "write_all_uncached_with_writer (ca_engine ca) consumed s planned writer True reporter
      mode w = (q, v)"
    by (metis surj_pair)
  show ?thesis
  proof (cases plan)
    case None
    with run q have "w' = v" "r = res_bind q (\<lambda>workflow. Inr (workflow, WriteAllCacheReport.Disabled))"
      by (simp_all add: run_write_all_route_def)
    with uncached q show ?thesis by simp
  next
    case (Some p)
    show ?thesis
    proof (cases "cp_decision p")
      case (NoCache reason)
      with Some run q have "w' = v" "r = res_bind q (\<lambda>workflow. Inr (workflow, cache_report_from_plan p))"
        by (simp_all add: run_write_all_route_def)
      with uncached q show ?thesis by simp
    next
      case (CacheAliases aliases)
      obtain c u where c: "write_all_cached_with_writer api ca consumed s planned aliases writer True reporter
          mode w = (c, u)"
        by (metis surj_pair)
      with Some CacheAliases run have "w' = u"
          "r = res_bind c (\<lambda>(workflow, reports). Inr (workflow, cache_report_from_executed_plan p reports))"
        by (simp_all add: run_write_all_route_def)
      with cached c show ?thesis by simp
    qed
  qed
qed

lemma write_all_run:
  assumes laws: "alias_catalog_laws ca look"
    and run: "execute_write_all_with_writer api ca consumed s requests options writer reporter w = (r, w')"
  obtains (failed) "isl r" "es_sql (w_conn w') = es_sql (w_conn w)"
  | (planned) planned where "list_all2 (plans_request api s) requests planned"
      "outputs_requested sent allowed (map pmo_resolved_target planned) (es_sql (w_conn w)) (es_sql (w_conn w'))"
      "\<And>report. r = Inr report \<Longrightarrow> reports_outputs (map pmo_resolved_target planned) (war_workflow report)"
  using run
proof (cases rule: execute_write_all_cases)
  case rejected
  with failed show thesis by simp
next
  case (ran active w1 w2)
  from ran(5,1) show thesis
  proof (cases rule: write_all_phases_cases)
    case unplanned
    with ran(3,4) failed show thesis by simp
  next
    case route: (ran ps plan v1 q v2)
    note run = engine_route_run [OF laws route(4)]
    show thesis
    proof (rule planned [OF route(1)])
      show "outputs_requested sent allowed (map pmo_resolved_target ps) (es_sql (w_conn w)) (es_sql (w_conn w'))"
        using run route(3,5) ran(3,4) by simp
      show "reports_outputs (map pmo_resolved_target ps) (war_workflow report)" if "r = Inr report" for report
        using run route(7) [OF that] by auto
    qed
  qed
qed

end

end
