(* ===== verification/DF_Write_Example.thy ===== *)
theory DF_Write_Example
  imports DF_Session_Example DF_Write_All
begin

section \<open>A concrete query engine\<close>

text \<open>
  The tables of the session example behind a catalog that maps names to numbered providers, and an
  engine whose plans have one partition of one batch of three rows. A cached table has provider 100.
\<close>

type_synonym demo_catalog_context = "(string \<times> nat) list"

definition demo_engine :: "(demo_catalog_context, nat, nat, string, nat) query_engine" where
  "demo_engine =
     \<lparr>df_sql_with_options = (\<lambda>ctx sql options. Inr 7), df_frame_schema = (\<lambda>_. demo_schema),
      df_into_view = (\<lambda>d. d),
      df_register_table = (\<lambda>name p ctx. (Inr (), (to_ascii_lowercase name, p) # ctx)),
      df_parse_sql = (\<lambda>sql. Inr [sql]),
      df_resolve_table_references = (\<lambda>statement flag. Inr ([], [])),
      df_reference_to_string = (\<lambda>r. []),
      qe_table = (\<lambda>ctx name. case map_of ctx (to_ascii_lowercase name) of
        None \<Rightarrow> Inl ''no such table'' | Some p \<Rightarrow> Inr p),
      qe_read_table = (\<lambda>ctx p. Inr p), qe_create_physical_plan = (\<lambda>d. Inr (PlanNode 0 d [])),
      qe_plans = \<lparr>collect_scan_metrics = (\<lambda>_. []), plan_partition_count = (\<lambda>_. 1),
        plan_schema = (\<lambda>_. demo_schema), plan_execute = (\<lambda>_ _. Inr [Inr (demo_batch 3)]),
        coalesce_partitions = (\<lambda>plan. plan)\<rparr>,
      qe_metrics = \<lparr>pm_operator_name = (\<lambda>_. ''Scan''), pm_metrics = (\<lambda>_. None),
        pm_aggregate_by_name = (\<lambda>ms. ms)\<rparr>\<rparr>"

definition demo_cache_engine :: "(demo_catalog_context, nat, nat, string, nat) cache_engine" where
  "demo_cache_engine =
     \<lparr>ca_engine = demo_engine, ca_has_cache_factory = (\<lambda>_. False),
      ca_deregister_table = (\<lambda>name ctx.
        (Inr (map_of ctx (to_ascii_lowercase name)),
         filter (\<lambda>(n, _). n \<noteq> to_ascii_lowercase name) ctx)),
      ca_execute_stream_partitioned = (\<lambda>_. Inr [[Inr (demo_batch 3)]]),
      ca_mem_table = (\<lambda>_ partitions. Inr 100), ca_completion_order = (\<lambda>_. [0]), ca_samples = (\<lambda>_. []),
      ca_display_type = (\<lambda>_. [])\<rparr>"

lemma map_of_without: "map_of (filter (\<lambda>(n, _). n \<noteq> k) xs) = (map_of xs)(k := None)"
  by (induction xs) (auto simp: fun_eq_iff)

lemma demo_cache_engine_laws: "alias_catalog_laws demo_cache_engine map_of"
  by (auto simp: alias_catalog_laws_def demo_cache_engine_def demo_engine_def map_of_without)

definition demo_write_options :: SessionOptions where
  "demo_write_options =
     demo_options\<lparr>default_mssql_connection :=
       Some \<lparr>cc_connection_string = ''server=db'', cc_display_label = None\<rparr>\<rparr>"

definition demo_write_context :: demo_catalog_context where
  "demo_write_context = [(''raw'', 0), (''base'', 1), (''big'', 2), (''west'', 3), (''east'', 4)]"

definition demo_write_session :: "(demo_catalog_context, nat) DeltaFunnelSession" where
  "demo_write_session =
     \<lparr>ds_options = demo_write_options, ds_context = demo_write_context, next_table_id = 5,
      ds_sources = [demo_source], derived_tables = demo_aliases, pending_derived_tables = []\<rparr>"

definition demo_write_world :: "(demo_catalog_context, unit conn) engine_world" where
  "demo_write_world =
     \<lparr>w_clock = \<lparr>ck_reading = (\<lambda>n. n), ck_next = 0\<rparr>, w_events = [],
      w_conn = \<lparr>es_context = demo_write_context, es_retained = [], es_open = None,
        es_sql = \<lparr>cn_server = (), cn_sent = []\<rparr>\<rparr>\<rparr>"

definition demo_write_all ::
    "(DeltaFunnelError + WriteAllReport) \<times> (demo_catalog_context, unit conn) engine_world" where
  "demo_write_all =
     write_all demo_api (demo_server True 3) demo_cache_engine (\<lambda>_. Success) demo_write_session
       demo_requests demo_write_world"

lemma demo_write_all_caches:
  "plan_mssql_output_cache demo_write_session demo_requests =
     \<lparr>cp_decision = MssqlOutputCacheDecision.CacheAliases
        [\<lparr>cap_table_id = 2, cap_alias = ''big'', cap_output_indexes = [0, 1]\<rparr>],
      cp_skipped_candidates =
        [skip_from_registered (demo_aliases ! 2) (MssqlCacheCandidateSkipReason.NotShared 1),
         skip_from_registered (demo_aliases ! 3) (MssqlCacheCandidateSkipReason.NotShared 1),
         skip_from_registered (demo_aliases ! 0)
           (MssqlCacheCandidateSkipReason.CoveredByDeeperSharedAlias 2)]\<rparr>"
  by code_simp

end
