(* ===== verification/DF_Dry_Run.thy ===== *)
theory DF_Dry_Run
  imports DF_Write_All
begin

section \<open>Dry runs\<close>

text \<open>
  \<open>session/dry_run_report.rs\<close>, the dry-run operations of \<open>session/source_report.rs\<close> and the reports
  of \<open>report/sql_server/dry_run.rs\<close>: planning one or several outputs without querying or writing.
  A dry run reads the session and the clock; the variant with scan summaries also plans the
  outputs' queries on the session's context, without running them.
\<close>

subsection \<open>Identity of a SQL text\<close>

definition fnv_step :: "u64 \<Rightarrow> u64 \<Rightarrow> u64" where
  "fnv_step byte hash = (hash XOR byte) * FNV_PRIME"

definition stable_sql_identity_hash :: "string \<Rightarrow> string" where
  "stable_sql_identity_hash sql =
     hex016 (fold fnv_step (concat (map DF_Lifecycle.utf8_bytes sql)) FNV_OFFSET_BASIS)"

subsection \<open>Reports\<close>

record MssqlDryRunOutputFieldReport =
  dff_index :: u64
  dff_name :: string
  dff_arrow_type :: string
  dff_nullable :: bool

definition field_report_from_mapping :: "SchemaMapping \<Rightarrow> MssqlDryRunOutputFieldReport" where
  "field_report_from_mapping mapping =
     \<lparr>dff_index = usize_to_u64_saturating (af_index (sm_arrow mapping)),
      dff_name = af_name (sm_arrow mapping), dff_arrow_type = af_data_type (sm_arrow mapping),
      dff_nullable = af_nullable (sm_arrow mapping)\<rparr>"

datatype MssqlDryRunSqlIdentityState = Present | Absent | Unavailable

fun MssqlDryRunSqlIdentityState_as_str :: "MssqlDryRunSqlIdentityState \<Rightarrow> string" where
  "MssqlDryRunSqlIdentityState_as_str Present = ''present''"
| "MssqlDryRunSqlIdentityState_as_str Absent = ''absent''"
| "MssqlDryRunSqlIdentityState_as_str MssqlDryRunSqlIdentityState.Unavailable = ''unavailable''"

record MssqlDryRunSqlIdentityReport =
  dsi_state :: MssqlDryRunSqlIdentityState
  dsi_hash :: "string option"
  dsi_reason :: "ReportReasonCode option"

definition identity_present :: "string \<Rightarrow> MssqlDryRunSqlIdentityReport" where
  "identity_present hash = \<lparr>dsi_state = Present, dsi_hash = Some hash, dsi_reason = None\<rparr>"

definition identity_absent :: MssqlDryRunSqlIdentityReport where
  "identity_absent = \<lparr>dsi_state = Absent, dsi_hash = None, dsi_reason = None\<rparr>"

definition identity_unavailable :: "ReportReasonCode \<Rightarrow> MssqlDryRunSqlIdentityReport" where
  "identity_unavailable reason =
     \<lparr>dsi_state = MssqlDryRunSqlIdentityState.Unavailable, dsi_hash = None, dsi_reason = Some reason\<rparr>"

record MssqlDryRunOutputReport =
  dro_planned_output :: PlannedMssqlOutput
  dro_output_schema :: "MssqlDryRunOutputFieldReport list"
  dro_sql_identity :: MssqlDryRunSqlIdentityReport
  dro_source_usage_status :: SourceUsageStatus
  dro_used_source_names :: "string list"
  dro_output_row_count :: RowCount
  dro_output_row_count_reason :: "ReportReasonCode option"
  dro_status :: OutputStatus
  dro_validation_status :: ValidationStatus
  dro_phase_timings :: "PhaseTimingReport list"
  dro_sql_server_contacted :: bool
  dro_row_production_started :: bool
  dro_table_lifecycle_started :: bool
  dro_bulk_writer_started :: bool

definition MssqlDryRunOutputReport_new ::
    "PlannedMssqlOutput \<Rightarrow> MssqlDryRunSqlIdentityReport \<Rightarrow> SourceUsageStatus \<Rightarrow> string list
       \<Rightarrow> PhaseTimingReport list \<Rightarrow> MssqlDryRunOutputReport" where
  "MssqlDryRunOutputReport_new planned identity usage names timings =
     \<lparr>dro_planned_output = planned,
      dro_output_schema = map field_report_from_mapping (pl_schema_mappings (pmo_output_plan planned)),
      dro_sql_identity = identity, dro_source_usage_status = usage, dro_used_source_names = names,
      dro_output_row_count = RowCount.Unavailable,
      dro_output_row_count_reason = Some ReportReasonCode.NotExecuted,
      dro_status = OutputStatus.DryRunPlanned,
      dro_validation_status = ValidationStatus.Skipped ReportReasonCode.DryRun,
      dro_phase_timings = timings, dro_sql_server_contacted = False,
      dro_row_production_started = False, dro_table_lifecycle_started = False,
      dro_bulk_writer_started = False\<rparr>"

abbreviation dro_output_name :: "MssqlDryRunOutputReport \<Rightarrow> string" where
  "dro_output_name report \<equiv> pl_output_name (pmo_output_plan (dro_planned_output report))"

abbreviation dro_table :: "MssqlDryRunOutputReport \<Rightarrow> LazyTable" where
  "dro_table report \<equiv> owp_table (pmo_request (dro_planned_output report))"

record MssqlDryRunWorkflowReport =
  drw_outputs :: "MssqlDryRunOutputReport list"
  drw_sources :: "DeltaSourceReport list"
  drw_status :: WorkflowStatus
  drw_phase_timings :: "PhaseTimingReport list"

definition MssqlDryRunWorkflowReport_new ::
    "MssqlDryRunOutputReport list \<Rightarrow> DeltaSourceReport list \<Rightarrow> MssqlDryRunWorkflowReport" where
  "MssqlDryRunWorkflowReport_new outputs sources =
     \<lparr>drw_outputs = outputs, drw_sources = sources,
      drw_status = (if outputs = [] then WorkflowStatus.NoOp ReportReasonCode.NotExecuted
                    else WorkflowStatus.Success),
      drw_phase_timings = []\<rparr>"

definition dry_run_with_phase_timings ::
    "PhaseTimingReport list \<Rightarrow> MssqlDryRunWorkflowReport \<Rightarrow> MssqlDryRunWorkflowReport" where
  "dry_run_with_phase_timings timings report = report\<lparr>drw_phase_timings := timings\<rparr>"

fun used_sources_exhausted_loop :: "bool \<Rightarrow> DeltaSourceReport list \<Rightarrow> bool" where
  "used_sources_exhausted_loop seen [] = seen"
| "used_sources_exhausted_loop seen (source # sources) =
     (if sx_usage_status source = Used then
        (if \<not> sx_scan_metadata_exhausted source then False else used_sources_exhausted_loop True sources)
      else used_sources_exhausted_loop seen sources)"

definition query_used_source_scan_metadata_exhausted :: "MssqlDryRunWorkflowReport \<Rightarrow> bool" where
  "query_used_source_scan_metadata_exhausted report =
     used_sources_exhausted_loop False (drw_sources report)"

definition dry_run_sql_server_contacted :: "MssqlDryRunWorkflowReport \<Rightarrow> bool" where
  "dry_run_sql_server_contacted report = list_ex dro_sql_server_contacted (drw_outputs report)"

definition dry_run_row_production_started :: "MssqlDryRunWorkflowReport \<Rightarrow> bool" where
  "dry_run_row_production_started report = list_ex dro_row_production_started (drw_outputs report)"

definition dry_run_table_lifecycle_started :: "MssqlDryRunWorkflowReport \<Rightarrow> bool" where
  "dry_run_table_lifecycle_started report = list_ex dro_table_lifecycle_started (drw_outputs report)"

definition dry_run_bulk_writer_started :: "MssqlDryRunWorkflowReport \<Rightarrow> bool" where
  "dry_run_bulk_writer_started report = list_ex dro_bulk_writer_started (drw_outputs report)"

subsection \<open>Planning\<close>

definition QUERY_EXECUTION_PHASE :: string where
  "QUERY_EXECUTION_PHASE = ''query_execution''"

definition BATCH_SHAPING_PHASE :: string where
  "BATCH_SHAPING_PHASE = ''batch_shaping''"

definition FINALIZE_PHASE :: string where
  "FINALIZE_PHASE = ''finalize''"

definition ensure_dry_run_mode :: "RunMode \<Rightarrow> DeltaFunnelError + unit" where
  "ensure_dry_run_mode mode =
     (case mode of
        RunMode.DryRun \<Rightarrow> Inr ()
      | Execute \<Rightarrow> Inl (MssqlWorkflowPlanning
          ''dry_run_to_mssql requires RunMode::DryRun; use write_to_mssql for execution''))"

definition ensure_write_all_dry_run_mode :: "RunMode \<Rightarrow> DeltaFunnelError + unit" where
  "ensure_write_all_dry_run_mode mode =
     (case mode of
        RunMode.DryRun \<Rightarrow> Inr ()
      | Execute \<Rightarrow> Inl (MssqlWorkflowPlanning
          ''dry_run_all_to_mssql requires RunMode::DryRun; use write_all for execution''))"

definition validate_dry_run_all_requests :: "OutputWritePlan list \<Rightarrow> DeltaFunnelError + unit" where
  "validate_dry_run_all_requests requests =
     res_bind (ensure_unique_write_all_output_names requests) (\<lambda>_.
       check_all (\<lambda>request. ensure_write_all_dry_run_mode (ot_run_mode (owp_target request))) requests)"

definition dry_run_output_phase_timings :: "PhaseTimingReport list \<Rightarrow> PhaseTimingReport list" where
  "dry_run_output_phase_timings planning_timings =
     planning_timings
     @ [timing_skipped QUERY_EXECUTION_PHASE ReportReasonCode.DryRun,
        timing_skipped BATCH_SHAPING_PHASE ReportReasonCode.DryRun,
        timing_skipped SQL_WRITE_PHASE ReportReasonCode.DryRun,
        timing_skipped FINALIZE_PHASE ReportReasonCode.DryRun,
        timing_skipped VALIDATION_PHASE ReportReasonCode.DryRun]"

definition sql_identity_for_lazy_table ::
    "('c, 'p) DeltaFunnelSession \<Rightarrow> LazyTable \<Rightarrow> MssqlDryRunSqlIdentityReport" where
  "sql_identity_for_lazy_table s t =
     (if lt_kind t \<noteq> DerivedSql then identity_absent
      else
        (case sql_text_for_derived_table s t of
           Inr sql_text \<Rightarrow> identity_present (stable_sql_identity_hash sql_text)
         | Inl _ \<Rightarrow> identity_unavailable CapabilityUnavailable))"

definition source_usage_for_lazy_table ::
    "('c, 'p) DeltaFunnelSession \<Rightarrow> LazyTable \<Rightarrow> DeltaFunnelError + SourceUsageStatus \<times> string list" where
  "source_usage_for_lazy_table s t =
     res_bind (known_source_dependencies_for_table s t) (\<lambda>known.
       case known of
         None \<Rightarrow> Inr (SourceUsageStatus.Unknown, [])
       | Some source_ids \<Rightarrow>
           (let names = map rs_name (filter (\<lambda>source. rs_id source \<in> source_ids) (ds_sources s))
            in Inr (if names = [] then NotUsed else Used, names)))"

definition dry_run_output_report_for_plan ::
    "('c, 'p) DeltaFunnelSession \<Rightarrow> PlannedMssqlOutput \<Rightarrow> PhaseTimingReport list
       \<Rightarrow> DeltaFunnelError + MssqlDryRunOutputReport" where
  "dry_run_output_report_for_plan s planned timings =
     (let t = owp_table (pmo_request planned); identity = sql_identity_for_lazy_table s t in
      res_bind (source_usage_for_lazy_table s t) (\<lambda>(usage, names).
        Inr (MssqlDryRunOutputReport_new planned identity usage names timings)))"

definition plan_dry_run_output ::
    "arrow_api \<Rightarrow> ('c, 'p) DeltaFunnelSession \<Rightarrow> OutputWritePlan
       \<Rightarrow> ('s world, DeltaFunnelError, MssqlDryRunOutputReport) io" where
  "plan_dry_run_output api s request w =
     (case plan_mssql_output api s request w of
        (Inl e, w) \<Rightarrow> (Inl e, w)
      | (Inr planned, w) \<Rightarrow>
          (dry_run_output_report_for_plan s planned
             (dry_run_output_phase_timings (pmo_phase_timings planned)), w))"

fun plan_dry_run_outputs_loop ::
    "arrow_api \<Rightarrow> ('c, 'p) DeltaFunnelSession \<Rightarrow> ProgressReporter option \<Rightarrow> nat
       \<Rightarrow> (nat \<times> OutputWritePlan) list
       \<Rightarrow> ('s world, DeltaFunnelError, MssqlDryRunOutputReport list) io" where
  "plan_dry_run_outputs_loop api s reporter n [] w = (Inr [], w)"
| "plan_dry_run_outputs_loop api s reporter n ((index, request) # requests) w =
     (let w = w_emit (output_reporter reporter index n)
                (phase_changed PlanningOutput (Some (ot_output_name (owp_target request)))) w
      in case plan_dry_run_output api s request w of
           (Inl e, w) \<Rightarrow> (Inl e, w)
         | (Inr report, w) \<Rightarrow>
             (case plan_dry_run_outputs_loop api s reporter n requests w of
                (Inl e, w) \<Rightarrow> (Inl e, w)
              | (Inr reports, w) \<Rightarrow> (Inr (report # reports), w)))"

definition plan_dry_run_outputs ::
    "arrow_api \<Rightarrow> ('c, 'p) DeltaFunnelSession \<Rightarrow> OutputWritePlan list \<Rightarrow> ProgressReporter option
       \<Rightarrow> ('s world, DeltaFunnelError, MssqlDryRunOutputReport list) io" where
  "plan_dry_run_outputs api s requests reporter =
     plan_dry_run_outputs_loop api s reporter (length requests) (List.enumerate 0 requests)"

definition plan_dry_run_all_outputs ::
    "arrow_api \<Rightarrow> ('c, 'p) DeltaFunnelSession \<Rightarrow> OutputWritePlan list
       \<Rightarrow> ('s world, DeltaFunnelError, MssqlDryRunOutputReport list) io" where
  "plan_dry_run_all_outputs api s requests w =
     (case validate_dry_run_all_requests requests of
        Inl e \<Rightarrow> (Inl e, w)
      | Inr _ \<Rightarrow> plan_dry_run_outputs api s requests None w)"

subsection \<open>Sources\<close>

definition source_reports_for_dry_run_outputs ::
    "('c, 'p) DeltaFunnelSession \<Rightarrow> MssqlDryRunOutputReport list
       \<Rightarrow> DeltaFunnelError + DeltaSourceReport list" where
  "source_reports_for_dry_run_outputs s outputs =
     source_reports_for_output_tables s (map (\<lambda>output. (dro_output_name output, dro_table output)) outputs)"

definition source_reports_for_dry_run_outputs_with_provider_stats ::
    "('c, 'p) DeltaFunnelSession \<Rightarrow> MssqlDryRunOutputReport list
       \<Rightarrow> NamedDeltaDataFusionMetricsSnapshot list \<Rightarrow> DeltaFunnelError + DeltaSourceReport list" where
  "source_reports_for_dry_run_outputs_with_provider_stats s outputs stats =
     res_bind (source_reports_for_dry_run_outputs s outputs) (\<lambda>reports.
       Inr (attach_provider_stats (with_provider_stats_reason CapabilityUnavailable)
              (stats_by_source stats) reports))"

fun provider_read_stats_for_dry_run_outputs ::
    "('c, 'd, 'p, 'q, 'i) query_engine \<Rightarrow> 'c \<Rightarrow> ('c, 'p) DeltaFunnelSession
       \<Rightarrow> MssqlDryRunOutputReport list \<Rightarrow> DeltaFunnelError + NamedDeltaDataFusionMetricsSnapshot list" where
  "provider_read_stats_for_dry_run_outputs en ctx s [] = Inr []"
| "provider_read_stats_for_dry_run_outputs en ctx s (output # outputs) =
     res_bind (provider_read_stats_for_lazy_table en ctx s (dro_table output)) (\<lambda>stats.
     res_bind (provider_read_stats_for_dry_run_outputs en ctx s outputs) (\<lambda>rest.
       Inr (stats @ rest)))"

subsection \<open>The operations\<close>

definition dry_run_to_mssql ::
    "arrow_api \<Rightarrow> ('c, 'p) DeltaFunnelSession \<Rightarrow> OutputWritePlan
       \<Rightarrow> ('s world, DeltaFunnelError, MssqlDryRunOutputReport) io" where
  "dry_run_to_mssql api s request w =
     (case ensure_dry_run_mode (ot_run_mode (owp_target request)) of
        Inl e \<Rightarrow> (Inl e, w)
      | Inr _ \<Rightarrow> plan_dry_run_output api s request w)"

definition dry_run_to_mssql_with_reporter ::
    "arrow_api \<Rightarrow> ('c, 'p) DeltaFunnelSession \<Rightarrow> OutputWritePlan \<Rightarrow> ProgressReporter
       \<Rightarrow> ('s world, DeltaFunnelError, MssqlDryRunOutputReport) io" where
  "dry_run_to_mssql_with_reporter api s request reporter w =
     (case ensure_dry_run_mode (ot_run_mode (owp_target request)) of
        Inl e \<Rightarrow> (Inl e, w)
      | Inr _ \<Rightarrow>
          (let w = w_emit (Some reporter) (ProgressEvent.Started DryRunToMssql) w;
               w = w_emit (Some reporter)
                     (phase_changed PlanningOutput (Some (ot_output_name (owp_target request)))) w;
               (result, w) = plan_dry_run_output api s request w
           in (result, w_emit (Some reporter)
                 (if is_ok result then ProgressEvent.Completed else ProgressEvent.Failed) w)))"

definition build_dry_run_all_report ::
    "arrow_api \<Rightarrow> ('c, 'p) DeltaFunnelSession \<Rightarrow> OutputWritePlan list \<Rightarrow> ProgressReporter option
       \<Rightarrow> ('s world, DeltaFunnelError, MssqlDryRunWorkflowReport) io" where
  "build_dry_run_all_report api s requests reporter w =
     (let (planning_timer, w) = w_timer_start OUTPUT_PLANNING_PHASE w in
      case plan_dry_run_outputs api s requests reporter w of
        (Inl e, w) \<Rightarrow> (Inl e, w)
      | (Inr outputs, w) \<Rightarrow>
          (let (planning_timing, w) = w_timer_completed planning_timer w;
               w = w_emit reporter (phase_changed ReportingSources None) w;
               (source_timer, w) = w_timer_start SOURCE_REPORTING_PHASE w
           in case source_reports_for_dry_run_outputs s outputs of
                Inl e \<Rightarrow> (Inl e, w)
              | Inr sources \<Rightarrow>
                  (let (source_timing, w) = w_timer_completed source_timer w
                   in (Inr (dry_run_with_phase_timings [planning_timing, source_timing]
                              (MssqlDryRunWorkflowReport_new outputs sources)), w))))"

definition dry_run_all_to_mssql ::
    "arrow_api \<Rightarrow> ('c, 'p) DeltaFunnelSession \<Rightarrow> OutputWritePlan list
       \<Rightarrow> ('s world, DeltaFunnelError, MssqlDryRunWorkflowReport) io" where
  "dry_run_all_to_mssql api s requests w =
     (case validate_dry_run_all_requests requests of
        Inl e \<Rightarrow> (Inl e, w)
      | Inr _ \<Rightarrow> build_dry_run_all_report api s requests None w)"

definition dry_run_all_to_mssql_with_progress ::
    "arrow_api \<Rightarrow> ('c, 'p) DeltaFunnelSession \<Rightarrow> OutputWritePlan list \<Rightarrow> ProgressReporter
       \<Rightarrow> ('s world, DeltaFunnelError, MssqlDryRunWorkflowReport) io" where
  "dry_run_all_to_mssql_with_progress api s requests reporter w =
     (case validate_dry_run_all_requests requests of
        Inl e \<Rightarrow> (Inl e, w)
      | Inr _ \<Rightarrow>
          if requests = [] then build_dry_run_all_report api s requests None w
          else
            (let w = w_emit (Some reporter) (ProgressEvent.Started DryRunAllToMssql) w;
                 (result, w) = build_dry_run_all_report api s requests (Some reporter) w
             in (result, w_emit (Some reporter)
                   (if is_ok result then ProgressEvent.Completed else ProgressEvent.Failed) w)))"

definition dry_run_all_to_mssql_with_scan_summary ::
    "arrow_api \<Rightarrow> ('c, 'd, 'p, 'q, 'i) query_engine \<Rightarrow> 'c \<Rightarrow> ('c, 'p) DeltaFunnelSession
       \<Rightarrow> OutputWritePlan list \<Rightarrow> ('s world, DeltaFunnelError, MssqlDryRunWorkflowReport) io" where
  "dry_run_all_to_mssql_with_scan_summary api en ctx s requests w =
     (let (planning_timer, w) = w_timer_start OUTPUT_PLANNING_PHASE w in
      case plan_dry_run_all_outputs api s requests w of
        (Inl e, w) \<Rightarrow> (Inl e, w)
      | (Inr outputs, w) \<Rightarrow>
          (let (planning_timing, w) = w_timer_completed planning_timer w;
               (source_timer, w) = w_timer_start SOURCE_REPORTING_PHASE w
           in case (case dry_run_scan_summary_mode (validation_options (ds_options s)) of
                      MetadataOnly \<Rightarrow> source_reports_for_dry_run_outputs s outputs
                    | ExhaustScanMetadata \<Rightarrow>
                        res_bind (provider_read_stats_for_dry_run_outputs en ctx s outputs)
                          (source_reports_for_dry_run_outputs_with_provider_stats s outputs)) of
                Inl e \<Rightarrow> (Inl e, w)
              | Inr sources \<Rightarrow>
                  (let (source_timing, w) = w_timer_completed source_timer w
                   in (Inr (dry_run_with_phase_timings [planning_timing, source_timing]
                              (MssqlDryRunWorkflowReport_new outputs sources)), w))))"

subsection \<open>The identity distinguishes single bytes\<close>

lemma FNV_PRIME_inverse: "FNV_PRIME * 0xce965057aff6957b = 1"
  by (simp add: FNV_PRIME_def)

lemma FNV_PRIME_cancel:
  assumes "x * FNV_PRIME = y * FNV_PRIME"
  shows "x = y"
proof -
  from assms have "x * FNV_PRIME * 0xce965057aff6957b = y * FNV_PRIME * 0xce965057aff6957b"
    by (rule arg_cong)
  then have "x * (FNV_PRIME * 0xce965057aff6957b) = y * (FNV_PRIME * 0xce965057aff6957b)"
    unfolding mult.assoc .
  then show ?thesis
    unfolding FNV_PRIME_inverse mult_1_right .
qed

lemma xor_cancel_right: "a XOR c = b XOR c \<longleftrightarrow> a = b" for a b c :: u64
proof
  assume "a XOR c = b XOR c"
  then have "(a XOR c) XOR c = (b XOR c) XOR c" by simp
  then show "a = b" by (simp add: xor.assoc)
qed simp

lemma fnv_step_hash_eq: "fnv_step byte a = fnv_step byte b \<longleftrightarrow> a = b"
  unfolding fnv_step_def using FNV_PRIME_cancel xor_cancel_right by blast

lemma fnv_step_byte_eq: "fnv_step a hash = fnv_step b hash \<longleftrightarrow> a = b"
  unfolding fnv_step_def xor.commute [of hash] using FNV_PRIME_cancel xor_cancel_right by blast

lemma fold_fnv_step_eq: "fold fnv_step bytes a = fold fnv_step bytes b \<longleftrightarrow> a = b"
  by (induction bytes arbitrary: a b) (simp_all add: fnv_step_hash_eq)

lemma digits_val_zeros: "digits_val 16 0 (replicate n (CHR ''0'') @ s) = digits_val 16 0 s"
  by (induction n) simp_all

lemma hex016_inj: "hex016 a = hex016 b \<longleftrightarrow> a = b"
proof
  assume "hex016 a = hex016 b"
  then have "digits_val 16 0 (hex016 a) = digits_val 16 0 (hex016 b)" by simp
  then have "unat a = unat b"
    by (simp add: hex016_def Let_def digits_val_zeros digits_val_show_hex)
  then show "a = b" by (simp add: word_unat_eq_iff)
qed simp

lemma ascii_utf8_bytes: "code c < 128 \<Longrightarrow> DF_Lifecycle.utf8_bytes c = [of_nat (code c)]"
  by (simp add: DF_Lifecycle.utf8_bytes_def)

lemma ascii_byte_eq:
  assumes "code c < 128" "code d < 128"
  shows "(of_nat (code c) :: u64) = of_nat (code d) \<longleftrightarrow> c = d"
proof -
  have "unat (of_nat (code c) :: u64) = code c" "unat (of_nat (code d) :: u64) = code d"
    using assms by (simp_all add: unat_of_nat)
  then show ?thesis
    by (metis of_char_eq_iff)
qed

lemma identity_distinguishes_character:
  assumes "code c < 128" "code d < 128"
  shows "stable_sql_identity_hash (s @ c # t) = stable_sql_identity_hash (s @ d # t) \<longleftrightarrow> c = d"
  using assms
  by (simp add: stable_sql_identity_hash_def hex016_inj ascii_utf8_bytes fold_fnv_step_eq
      fnv_step_byte_eq ascii_byte_eq)

lemma identity_length: "length (stable_sql_identity_hash sql) = 16"
  by (simp add: stable_sql_identity_hash_def length_hex016)

subsection \<open>What a dry run does\<close>

lemma used_sources_exhausted_loop_iff:
  "used_sources_exhausted_loop seen sources \<longleftrightarrow>
     (seen \<or> (\<exists>source \<in> set sources. sx_usage_status source = Used)) \<and>
     (\<forall>source \<in> set sources. sx_usage_status source = Used \<longrightarrow> sx_scan_metadata_exhausted source)"
  by (induction sources arbitrary: seen) auto

lemma validate_dry_run_all_requests_iff:
  "validate_dry_run_all_requests requests = Inr () \<longleftrightarrow>
     distinct (map (ot_output_name \<circ> owp_target) requests) \<and>
     (\<forall>request \<in> set requests. ot_run_mode (owp_target request) = RunMode.DryRun)"
proof -
  have "ensure_write_all_dry_run_mode mode = Inr () \<longleftrightarrow> mode = RunMode.DryRun" for mode
    by (simp add: ensure_write_all_dry_run_mode_def split: RunMode.split)
  then show ?thesis
    by (auto simp: validate_dry_run_all_requests_def ensure_unique_write_all_output_names_def
        unique_names_loop_iff check_all_iff res_simps)
qed

text \<open>
  The report of one output: its plan is that of the request, exactly as for a write, it names the
  sources the output is known to read, and says that nothing was run.
\<close>

definition dry_run_of ::
    "arrow_api \<Rightarrow> ('c, 'p) DeltaFunnelSession \<Rightarrow> OutputWritePlan \<Rightarrow> MssqlDryRunOutputReport \<Rightarrow> bool" where
  "dry_run_of api s request report \<longleftrightarrow>
     plans_request api s request (dro_planned_output report) \<and>
     source_usage_for_lazy_table s (owp_table request) =
       Inr (dro_source_usage_status report, dro_used_source_names report) \<and>
     dro_sql_identity report = sql_identity_for_lazy_table s (owp_table request) \<and>
     dro_status report = OutputStatus.DryRunPlanned \<and>
     \<not> dro_sql_server_contacted report \<and> \<not> dro_row_production_started report \<and>
     \<not> dro_table_lifecycle_started report \<and> \<not> dro_bulk_writer_started report"

lemma plan_dry_run_output_step:
  assumes run: "plan_dry_run_output api s request w = (r, w')"
  shows "w_conn w' = w_conn w" and "r = Inr report \<Longrightarrow> dry_run_of api s request report"
proof -
  obtain q v where q: "plan_mssql_output api s request w = (q, v)"
    by (metis surj_pair)
  have conn: "w_conn v = w_conn w"
    and plan: "q = Inr planned \<Longrightarrow> plans_request api s request planned" for planned
    using plan_mssql_output_step [OF q] by (simp_all add: plans_request_def)
  have v: "w' = v"
    using run q by (auto simp: plan_dry_run_output_def split: sum.splits)
  with conn show "w_conn w' = w_conn w" by simp
  show "dry_run_of api s request report" if "r = Inr report"
  proof -
    from run q that obtain planned where planned: "q = Inr planned"
      and made: "dry_run_output_report_for_plan s planned
        (dry_run_output_phase_timings (pmo_phase_timings planned)) = Inr report"
      by (auto simp: plan_dry_run_output_def split: sum.splits)
    note plans = plan [OF planned]
    from made plans show ?thesis
      by (auto simp: dry_run_of_def dry_run_output_report_for_plan_def MssqlDryRunOutputReport_new_def
          plans_request_def res_simps Let_def)
  qed
qed

lemma plan_dry_run_outputs_loop_step:
  assumes "plan_dry_run_outputs_loop api s reporter n (List.enumerate i requests) w = (r, w')"
  shows "w_conn w' = w_conn w \<and> (\<forall>reports. r = Inr reports \<longrightarrow> list_all2 (dry_run_of api s) requests reports)"
  using assms
proof (induction requests arbitrary: i w r w')
  case (Cons request requests)
  let ?w = "w_emit (output_reporter reporter i n)
    (phase_changed PlanningOutput (Some (ot_output_name (owp_target request)))) w"
  obtain q w1 where q: "plan_dry_run_output api s request ?w = (q, w1)"
    by (metis surj_pair)
  have conn: "w_conn w1 = w_conn w"
    using plan_dry_run_output_step(1) [OF q] by simp
  show ?case
  proof (cases q)
    case (Inl e)
    with q Cons.prems have "r = Inl e" "w' = w1" by simp_all
    with conn show ?thesis by simp
  next
    case (Inr report)
    obtain rest w2 where tail:
      "plan_dry_run_outputs_loop api s reporter n (List.enumerate (Suc i) requests) w1 = (rest, w2)"
      by (metis surj_pair)
    note one = plan_dry_run_output_step(2) [OF q Inr] and IH = Cons.IH [OF tail]
    show ?thesis
    proof (cases rest)
      case (Inl e)
      with Cons.prems q \<open>q = Inr report\<close> tail have "r = Inl e" "w' = w2" by simp_all
      with conn IH show ?thesis by simp
    next
      case (Inr reports)
      with Cons.prems q \<open>q = Inr report\<close> tail have "r = Inr (report # reports)" "w' = w2" by simp_all
      with conn one IH Inr show ?thesis by simp
    qed
  qed
qed simp

lemma dry_run_all_step:
  assumes run: "dry_run_all_to_mssql api s requests w = (r, w')"
  shows "w_conn w' = w_conn w \<and> (r = Inr report \<longrightarrow>
    distinct (map (ot_output_name \<circ> owp_target) requests) \<and>
    list_all2 (dry_run_of api s) requests (drw_outputs report) \<and>
    drw_status report = (if requests = [] then WorkflowStatus.NoOp ReportReasonCode.NotExecuted
                         else WorkflowStatus.Success))"
proof (cases "validate_dry_run_all_requests requests")
  case (Inl e)
  with run show ?thesis by (auto simp: dry_run_all_to_mssql_def)
next
  case (Inr u)
  then have distinct: "distinct (map (ot_output_name \<circ> owp_target) requests)"
    using validate_dry_run_all_requests_iff by simp
  obtain q w1 where q: "plan_dry_run_outputs api s requests None (tick w) = (q, w1)"
    by (metis surj_pair)
  note step = plan_dry_run_outputs_loop_step [OF q [unfolded plan_dry_run_outputs_def]]
  show ?thesis
  proof (cases q)
    case (Inl e)
    with run Inr q step show ?thesis
      by (auto simp: dry_run_all_to_mssql_def build_dry_run_all_report_def)
  next
    case outputs: (Inr outputs)
    have "list_all2 (dry_run_of api s) requests outputs" "w_conn w1 = w_conn w"
      using step outputs by simp_all
    then have empty: "outputs = [] \<longleftrightarrow> requests = []" by (auto dest: list_all2_lengthD)
    with run Inr q outputs \<open>list_all2 _ requests outputs\<close> \<open>w_conn w1 = w_conn w\<close> distinct show ?thesis
      by (cases "source_reports_for_dry_run_outputs s outputs")
         (auto simp: dry_run_all_to_mssql_def build_dry_run_all_report_def dry_run_with_phase_timings_def
            MssqlDryRunWorkflowReport_new_def Let_def)
  qed
qed

end
