(* ===== verification/DF_Preview.thy ===== *)
theory DF_Preview
  imports DF_Cache_Alias
begin

section \<open>Previews\<close>

text \<open>
  The previews of \<open>session/query_handoff.rs\<close> and their data in \<open>session/handles.rs\<close>: a limited
  query of one table, run to the end and rendered as text and as an HTML table. \<open>preview_engine\<close>
  adds what the preview uses of DataFusion and Arrow: limiting a data frame, the text rendering,
  the cell formatters of a batch (by column and row), the rendering of a type and the scan counters
  at the points where the collected stream samples them.
\<close>

record ('c, 'd, 'p, 'q, 'i) preview_engine =
  pv_engine :: "('c, 'd, 'p, 'q, 'i) query_engine"
  pv_limit :: "'d \<Rightarrow> nat \<Rightarrow> string + 'd"
  pv_pretty_format :: "RecordBatch list \<Rightarrow> string + string"
  pv_formatters :: "RecordBatch \<Rightarrow> string + (nat \<Rightarrow> string) list"
  pv_display_type :: "DataType \<Rightarrow> string"
  pv_samples :: "'i ExecutionPlan \<Rightarrow> DeltaDataFusionMetricsSnapshot list list"

subsection \<open>Data\<close>

definition PREVIEW_DATAFRAME_PLANNING_PHASE :: string where
  "PREVIEW_DATAFRAME_PLANNING_PHASE = ''preview_dataframe_planning''"

definition PREVIEW_PHYSICAL_PLANNING_PHASE :: string where
  "PREVIEW_PHYSICAL_PLANNING_PHASE = ''preview_physical_planning''"

definition PREVIEW_STREAM_SETUP_PHASE :: string where
  "PREVIEW_STREAM_SETUP_PHASE = ''preview_stream_setup''"

definition PREVIEW_EXECUTE_COLLECT_PHASE :: string where
  "PREVIEW_EXECUTE_COLLECT_PHASE = ''preview_execute_collect''"

definition PREVIEW_FORMAT_TEXT_PHASE :: string where
  "PREVIEW_FORMAT_TEXT_PHASE = ''preview_format_text''"

definition PREVIEW_FORMAT_HTML_PHASE :: string where
  "PREVIEW_FORMAT_HTML_PHASE = ''preview_format_html''"

definition PREVIEW_TOTAL_PHASE :: string where
  "PREVIEW_TOTAL_PHASE = ''preview_total''"

definition PREVIEW_PHASE_NAMES :: "string list" where
  "PREVIEW_PHASE_NAMES =
     [PREVIEW_DATAFRAME_PLANNING_PHASE, PREVIEW_PHYSICAL_PLANNING_PHASE, PREVIEW_STREAM_SETUP_PHASE,
      PREVIEW_EXECUTE_COLLECT_PHASE, PREVIEW_FORMAT_TEXT_PHASE, PREVIEW_FORMAT_HTML_PHASE,
      PREVIEW_TOTAL_PHASE]"

record PreviewOptions =
  po_limit :: nat
  po_execution_profile_mode :: ExecutionProfileMode

definition PreviewOptions_new :: "nat \<Rightarrow> PreviewOptions" where
  "PreviewOptions_new limit =
     \<lparr>po_limit = limit, po_execution_profile_mode = ExecutionProfileMode.Disabled\<rparr>"

definition preview_with_execution_profile_mode ::
    "ExecutionProfileMode \<Rightarrow> PreviewOptions \<Rightarrow> PreviewOptions" where
  "preview_with_execution_profile_mode mode options = options\<lparr>po_execution_profile_mode := mode\<rparr>"

record TablePreview =
  tp_text :: string
  tp_html :: string
  tp_phase_timings :: "PhaseTimingReport list"
  tp_execution_profile :: "QueryExecutionProfile option"

definition from_execution ::
    "string \<Rightarrow> string \<Rightarrow> PhaseTimingReport list \<Rightarrow> QueryExecutionProfile option \<Rightarrow> TablePreview" where
  "from_execution text html timings profile =
     \<lparr>tp_text = text, tp_html = html, tp_phase_timings = timings, tp_execution_profile = profile\<rparr>"

definition TablePreview_new :: "string \<Rightarrow> string \<Rightarrow> TablePreview" where
  "TablePreview_new text html =
     from_execution text html
       (map (\<lambda>name. timing_unavailable name ReportReasonCode.NotExecuted) PREVIEW_PHASE_NAMES) None"

subsection \<open>HTML\<close>

definition html_escaped :: "string \<Rightarrow> string" where
  \<open>html_escaped value =
     concat (map (\<lambda>c.
       if c = CHR ''&'' then ''&amp;''
       else if c = CHR ''<'' then ''&lt;''
       else if c = CHR ''>'' then ''&gt;''
       else if c = CHR 0x22 then ''&quot;''
       else if c = CHR 0x27 then ''&#39;''
       else [c]) value)\<close>

fun is_numeric_type :: "DataType \<Rightarrow> bool" where
  "is_numeric_type Int8 = True"
| "is_numeric_type Int16 = True"
| "is_numeric_type Int32 = True"
| "is_numeric_type Int64 = True"
| "is_numeric_type UInt8 = True"
| "is_numeric_type UInt16 = True"
| "is_numeric_type UInt32 = True"
| "is_numeric_type UInt64 = True"
| "is_numeric_type Float16 = True"
| "is_numeric_type Float32 = True"
| "is_numeric_type Float64 = True"
| "is_numeric_type (Decimal32 _ _) = True"
| "is_numeric_type (Decimal64 _ _) = True"
| "is_numeric_type (Decimal128 _ _) = True"
| "is_numeric_type (Decimal256 _ _) = True"
| "is_numeric_type _ = False"

definition cell_class :: "Field \<Rightarrow> string" where
  \<open>cell_class field = (if is_numeric_type (fd_data_type field) then '' class="df-num"'' else [])\<close>

definition preview_html_head :: string where
  \<open>preview_html_head =
     ''<div class="deltafunnel-preview"><style>''
     @ ''.deltafunnel-preview{font-family:ui-sans-serif,system-ui,-apple-system,BlinkMacSystemFont,"Segoe UI",sans-serif;font-size:12px;line-height:1.35;color:var(--vscode-editor-foreground,#111827)}''
     @ ''.deltafunnel-preview .df-wrap{display:inline-block;max-width:100%;overflow:auto;border:1px solid rgba(127,127,127,.35);border-radius:6px;background:var(--vscode-editor-background,#fff)}''
     @ ''.deltafunnel-preview table{border-collapse:separate;border-spacing:0}''
     @ ''.deltafunnel-preview th,.deltafunnel-preview td{padding:6px 10px;border-bottom:1px solid rgba(127,127,127,.18);white-space:nowrap;text-align:left;vertical-align:top}''
     @ ''.deltafunnel-preview th{position:sticky;top:0;background:var(--vscode-editor-background,#fff);font-weight:600;border-bottom:1px solid rgba(127,127,127,.35)}''
     @ ''.deltafunnel-preview tbody tr:nth-child(even){background:rgba(127,127,127,.05)}''
     @ ''.deltafunnel-preview .df-type,.deltafunnel-preview .df-footer{color:var(--vscode-descriptionForeground,#64748b);font-size:11px}''
     @ ''.deltafunnel-preview .df-num{text-align:right;font-variant-numeric:tabular-nums}''
     @ ''.deltafunnel-preview .df-footer{margin-top:6px}''
     @ ''@media (prefers-color-scheme:dark){.deltafunnel-preview{color:var(--vscode-editor-foreground,#e5e7eb)}.deltafunnel-preview .df-wrap,.deltafunnel-preview th{background:var(--vscode-editor-background,#0b1220)}}''
     @ ''</style>''\<close>

definition header_cell :: "(DataType \<Rightarrow> string) \<Rightarrow> Field \<Rightarrow> string" where
  \<open>header_cell display_type field =
     ''<th'' @ cell_class field @ ''><span>'' @ html_escaped (fd_name field)
     @ ''</span><br><span class="df-type">'' @ html_escaped (display_type (fd_data_type field))
     @ ''</span></th>''\<close>

definition body_row :: "Schema \<Rightarrow> (nat \<Rightarrow> string) list \<Rightarrow> nat \<Rightarrow> string" where
  "body_row schema formatters row =
     ''<tr>''
     @ concat (map (\<lambda>(field, formatter).
         ''<td'' @ cell_class field @ ''>'' @ html_escaped (formatter row) @ ''</td>'')
         (zip (sch_fields schema) formatters))
     @ ''</tr>''"

fun body_rows :: "('c, 'd, 'p, 'q, 'i) preview_engine \<Rightarrow> Schema \<Rightarrow> RecordBatch list \<Rightarrow> string + string" where
  "body_rows pv schema [] = Inr []"
| "body_rows pv schema (batch # batches) =
     res_bind (pv_formatters pv batch) (\<lambda>formatters.
     res_bind (body_rows pv schema batches) (\<lambda>rest.
       Inr (concat (map (body_row schema formatters) [0..<rb_num_rows batch]) @ rest)))"

definition preview_batches_to_html ::
    "('c, 'd, 'p, 'q, 'i) preview_engine \<Rightarrow> Schema \<Rightarrow> RecordBatch list \<Rightarrow> string + string" where
  \<open>preview_batches_to_html pv schema batches =
     (let row_count = sum_list (map rb_num_rows batches); column_count = length (sch_fields schema) in
      if column_count = 0 then
        Inr (preview_html_head @ ''<div class="df-wrap" style="padding:10px">(No columns)</div>''
             @ ''<div class="df-footer">Showing <b>'' @ show_nat row_count
             @ ''</b> rows, <b>0</b> columns.</div></div>'')
      else
        res_bind (body_rows pv schema batches) (\<lambda>rows.
          Inr (preview_html_head @ ''<div class="df-wrap"><table><thead><tr>''
               @ concat (map (header_cell (pv_display_type pv)) (sch_fields schema))
               @ ''</tr></thead><tbody>'' @ rows
               @ ''</tbody></table></div><div class="df-footer">Showing <b>'' @ show_nat row_count
               @ ''</b> rows, <b>'' @ show_nat column_count @ ''</b> columns.</div></div>'')))\<close>

subsection \<open>The phases\<close>

definition preview_failed ::
    "PhaseTimer \<Rightarrow> PhaseTimingReport list \<Rightarrow> PhaseTimer \<Rightarrow> QueryExecutionProfile option \<Rightarrow> DeltaFunnelError
       \<Rightarrow> ('s world, DeltaFunnelError, 'a) io" where
  "preview_failed total_timer timings timer profile source w =
     (let (failed_timing, w) = w_timer_failed timer w;
          timings = timings @ [failed_timing];
          rest = drop (length timings) (butlast PREVIEW_PHASE_NAMES);
          (total_timing, w) = w_timer_failed total_timer w
      in (Inl (PreviewFailed
            \<lparr>pfc_failed_phase = phase_name failed_timing,
             pfc_phase_timings =
               timings @ map (\<lambda>name. timing_not_started name PriorFailure) rest @ [total_timing],
             pfc_execution_profile = profile\<rparr> source), w))"

definition preview_dataframe ::
    "('c, 'd, 'p, 'q, 'i) preview_engine \<Rightarrow> 'c \<Rightarrow> ('c, 'p) DeltaFunnelSession \<Rightarrow> LazyTable \<Rightarrow> nat
       \<Rightarrow> DeltaFunnelError + Schema \<times> 'd" where
  "preview_dataframe pv ctx s t limit =
     res_bind (dataframe_for_lazy_table (pv_engine pv) ctx s t) (\<lambda>dataframe.
     res_bind (map_err (datafusion_handoff_setup_error ''preview_limit'') (pv_limit pv dataframe limit))
       (\<lambda>limited. Inr (df_frame_schema (pv_engine pv) dataframe, limited)))"

definition register_preview_execution_profile ::
    "('c, 'd, 'p, 'q, 'i) preview_engine \<Rightarrow> 'i ExecutionPlan \<Rightarrow> PreviewOptions
       \<Rightarrow> DeltaProviderReadStatsHandle list \<Rightarrow> DeltaProviderScanOutcome \<Rightarrow> QueryExecutionProfile option" where
  "register_preview_execution_profile pv root options handles outcome =
     (case po_execution_profile_mode options of
        ExecutionProfileMode.Disabled \<Rightarrow> None
      | Detailed \<Rightarrow>
          Some (register_profile (pv_engine pv)
            \<lparr>pc_root = root, pc_scope = Preview,
             pc_delta_funnel_row_limit = Some (usize_to_u64_saturating (po_limit options))\<rparr>
            handles outcome))"

definition sample_preview_progress ::
    "ProgressReporter option \<Rightarrow> DeltaDataFusionMetricsSnapshot list list \<Rightarrow> 's world \<Rightarrow> 's world" where
  "sample_preview_progress reporter samples w =
     (case reporter of
        None \<Rightarrow> w
      | Some r \<Rightarrow>
          w\<lparr>w_events := snd (fold emit_if_changed samples
              (DeltaFileProgressSampler_new r CollectingPreview None, w_events w))\<rparr>)"

definition format_preview_result ::
    "('c, 'd, 'p, 'q, 'i) preview_engine \<Rightarrow> Schema \<Rightarrow> RecordBatch list \<Rightarrow> PhaseTimer
       \<Rightarrow> PhaseTimingReport list \<Rightarrow> QueryExecutionProfile option
       \<Rightarrow> ('s world, DeltaFunnelError, TablePreview) io" where
  "format_preview_result pv schema batches total_timer timings profile w =
     (let (text_timer, w) = w_timer_start PREVIEW_FORMAT_TEXT_PHASE w in
      case pv_pretty_format pv batches of
        Inl error \<Rightarrow>
          preview_failed total_timer timings text_timer profile
            (datafusion_handoff_setup_error ''preview_text'' error) w
      | Inr rendered \<Rightarrow>
          (let (text_timing, w) = w_timer_completed text_timer w;
               (html_timer, w) = w_timer_start PREVIEW_FORMAT_HTML_PHASE w
           in case preview_batches_to_html pv schema batches of
                Inl error \<Rightarrow>
                  preview_failed total_timer (timings @ [text_timing]) html_timer profile
                    (datafusion_handoff_setup_error ''preview_html'' error) w
              | Inr html \<Rightarrow>
                  (let (html_timing, w) = w_timer_completed html_timer w;
                       (total_timing, w) = w_timer_completed total_timer w
                   in (Inr (from_execution rendered html
                         (timings @ [text_timing, html_timing, total_timing]) profile), w))))"

text \<open>The stream is collected to its end or its first error, which decides the scan's outcome.\<close>

definition collect_preview ::
    "('c, 'd, 'p, 'q, 'i) preview_engine \<Rightarrow> PreviewOptions \<Rightarrow> ProgressReporter option \<Rightarrow> Schema
       \<Rightarrow> 'i ExecutionPlan \<Rightarrow> PhaseTimer \<Rightarrow> PhaseTimingReport list
       \<Rightarrow> ('s world, DeltaFunnelError, TablePreview) io" where
  "collect_preview pv options reporter schema plan total_timer timings w =
     (let (setup_timer, w) = w_timer_start PREVIEW_STREAM_SETUP_PHASE w;
          handles = collect_delta_provider_read_stats_handles (qe_plans (pv_engine pv)) plan;
          w = w_emit reporter (phase_changed CollectingPreview None) w
      in case datafusion_query_output_stream_with_effective_root (qe_plans (pv_engine pv)) plan of
           Inl failure \<Rightarrow>
             preview_failed total_timer timings setup_timer
               (register_preview_execution_profile pv (dfe_effective_profile_root failure) options handles
                  Error)
               (datafusion_handoff_setup_error ''preview_collect'' (dfe_source failure)) w
         | Inr execution \<Rightarrow>
             (let profile = register_preview_execution_profile pv
                    (dfx_effective_profile_root execution) options handles;
                  (setup_timing, w) = w_timer_completed setup_timer w;
                  timings = timings @ [setup_timing];
                  (collect_timer, w) = w_timer_start PREVIEW_EXECUTE_COLLECT_PHASE w;
                  w = sample_preview_progress reporter (pv_samples pv plan) w
              in case try_collect (map (map_err (datafusion_handoff_setup_error ''preview_collect''))
                        (dfx_stream execution)) of
                   Inl source \<Rightarrow>
                     preview_failed total_timer timings collect_timer (profile Error) source w
                 | Inr batches \<Rightarrow>
                     (let (collect_timing, w) = w_timer_completed collect_timer w;
                          w = w_emit reporter (phase_changed FormattingPreview None) w
                      in format_preview_result pv schema batches total_timer (timings @ [collect_timing])
                           (profile Success) w)))"

definition build_preview ::
    "('c, 'd, 'p, 'q, 'i) preview_engine \<Rightarrow> ('c, 'p) DeltaFunnelSession \<Rightarrow> LazyTable \<Rightarrow> PreviewOptions
       \<Rightarrow> ProgressReporter option \<Rightarrow> (('c, 's) engine_world, DeltaFunnelError, TablePreview) io" where
  "build_preview pv s t options reporter w =
     (let (total_timer, w) = w_timer_start PREVIEW_TOTAL_PHASE w;
          w = w_emit reporter (phase_changed PreparingPreview None) w;
          (dataframe_timer, w) = w_timer_start PREVIEW_DATAFRAME_PLANNING_PHASE w
      in case preview_dataframe pv (w_context w) s t (po_limit options) of
           Inl source \<Rightarrow> preview_failed total_timer [] dataframe_timer None source w
         | Inr (schema, dataframe) \<Rightarrow>
             (let (dataframe_timing, w) = w_timer_completed dataframe_timer w;
                  (plan_timer, w) = w_timer_start PREVIEW_PHYSICAL_PLANNING_PHASE w
              in case qe_create_physical_plan (pv_engine pv) dataframe of
                   Inl error \<Rightarrow>
                     preview_failed total_timer [dataframe_timing] plan_timer None
                       (datafusion_handoff_setup_error ''preview_collect'' error) w
                 | Inr plan \<Rightarrow>
                     (let (plan_timing, w) = w_timer_completed plan_timer w
                      in collect_preview pv options reporter schema plan total_timer
                           [dataframe_timing, plan_timing] w)))"

definition preview_table_with_options ::
    "('c, 'd, 'p, 'q, 'i) preview_engine \<Rightarrow> ('c, 'p) DeltaFunnelSession \<Rightarrow> LazyTable \<Rightarrow> PreviewOptions
       \<Rightarrow> (('c, 's) engine_world, DeltaFunnelError, TablePreview) io" where
  "preview_table_with_options pv s t options = build_preview pv s t options None"

definition preview_table ::
    "('c, 'd, 'p, 'q, 'i) preview_engine \<Rightarrow> ('c, 'p) DeltaFunnelSession \<Rightarrow> LazyTable \<Rightarrow> nat
       \<Rightarrow> (('c, 's) engine_world, DeltaFunnelError, TablePreview) io" where
  "preview_table pv s t limit = preview_table_with_options pv s t (PreviewOptions_new limit)"

definition preview_table_with_options_and_progress ::
    "('c, 'd, 'p, 'q, 'i) preview_engine \<Rightarrow> ('c, 'p) DeltaFunnelSession \<Rightarrow> LazyTable \<Rightarrow> PreviewOptions
       \<Rightarrow> ProgressReporter \<Rightarrow> (('c, 's) engine_world, DeltaFunnelError, TablePreview) io" where
  "preview_table_with_options_and_progress pv s t options reporter w =
     (let w = w_emit (Some reporter) (ProgressEvent.Started PreviewTable) w;
          (result, w) = build_preview pv s t options (Some reporter) w
      in (result, w_emit (Some reporter)
            (if is_ok result then ProgressEvent.Completed else ProgressEvent.Failed) w))"

definition preview_table_with_progress ::
    "('c, 'd, 'p, 'q, 'i) preview_engine \<Rightarrow> ('c, 'p) DeltaFunnelSession \<Rightarrow> LazyTable \<Rightarrow> nat
       \<Rightarrow> ProgressReporter \<Rightarrow> (('c, 's) engine_world, DeltaFunnelError, TablePreview) io" where
  "preview_table_with_progress pv s t limit reporter =
     preview_table_with_options_and_progress pv s t (PreviewOptions_new limit) reporter"

subsection \<open>Escaping\<close>

fun html_unescape :: "string \<Rightarrow> string" where
  "html_unescape [] = []"
| "html_unescape (c # s) =
     (if c \<noteq> CHR ''&'' then c # html_unescape s
      else if take 4 s = ''amp;'' then CHR ''&'' # html_unescape (drop 4 s)
      else if take 3 s = ''lt;'' then CHR ''<'' # html_unescape (drop 3 s)
      else if take 3 s = ''gt;'' then CHR ''>'' # html_unescape (drop 3 s)
      else if take 5 s = ''quot;'' then CHR 0x22 # html_unescape (drop 5 s)
      else if take 4 s = ''#39;'' then CHR 0x27 # html_unescape (drop 4 s)
      else c # html_unescape s)"

lemma html_escaped_Nil [simp]: "html_escaped [] = []"
  by (simp add: html_escaped_def)

lemma html_escaped_round_trip: "html_unescape (html_escaped s) = s"
  by (induction s) (simp_all add: html_escaped_def)

lemma html_escaped_no_markup:
  "c \<in> set (html_escaped s) \<Longrightarrow> c \<notin> {CHR ''<'', CHR ''>'', CHR 0x22, CHR 0x27}"
  by (auto simp: html_escaped_def split: if_splits)

definition tags :: "string \<Rightarrow> string" where
  "tags s = filter (\<lambda>c. c = CHR ''<'' \<or> c = CHR ''>'') s"

lemma tags_simps [simp]:
  "tags [] = []" "tags (s @ t) = tags s @ tags t" "tags (concat ss) = concat (map tags ss)"
  "tags (c # s) = (if c = CHR ''<'' \<or> c = CHR ''>'' then c # tags s else tags s)"
  by (simp_all add: tags_def [abs_def] filter_concat)

lemma tags_html_escaped [simp]: "tags (html_escaped s) = []"
  using html_escaped_no_markup by (fastforce simp: tags_def filter_empty_conv)

lemma tags_cell_class [simp]: "tags (cell_class field) = []"
  by (simp add: cell_class_def)

lemma tags_show_nat [simp]: "tags (show_nat n) = []"
proof -
  have "tags [digit_char d] = []" if "d < 10" for d
  proof -
    have "code (digit_char d) < 60" using that by (simp add: code_digit_char)
    then have "digit_char d \<noteq> CHR ''<''" "digit_char d \<noteq> CHR ''>''" by auto
    then show ?thesis by simp
  qed
  then show ?thesis
    by (induction n rule: show_nat.induct) (subst show_nat.simps, simp)
qed

definition row_tags :: "nat \<Rightarrow> string" where
  "row_tags columns = ''<>'' @ concat (replicate columns ''<><>'') @ ''<>''"

lemma tags_body_row:
  assumes "length formatters = length (sch_fields schema)"
  shows "tags (body_row schema formatters row) = row_tags (length (sch_fields schema))"
proof -
  let ?cell = "\<lambda>(field, formatter). tags (''<td'' @ cell_class field @ ''>'' @ html_escaped (formatter row) @ ''</td>'')"
  have cell: "?cell = (\<lambda>_. ''<><>'')" by (auto simp: fun_eq_iff)
  show ?thesis
    using assms by (simp add: body_row_def row_tags_def comp_def case_prod_unfold map_replicate_const)
qed

lemma tags_body_rows:
  assumes "body_rows pv schema batches = Inr rows"
    and "\<And>batch formatters. batch \<in> set batches \<Longrightarrow> pv_formatters pv batch = Inr formatters \<Longrightarrow>
      length formatters = length (sch_fields schema)"
  shows "tags rows =
    concat (replicate (sum_list (map rb_num_rows batches)) (row_tags (length (sch_fields schema))))"
  using assms
proof (induction batches arbitrary: rows)
  case (Cons batch batches)
  from Cons.prems(1) obtain formatters rest where
    f: "pv_formatters pv batch = Inr formatters" "body_rows pv schema batches = Inr rest"
      "rows = concat (map (body_row schema formatters) [0..<rb_num_rows batch]) @ rest"
    by (auto simp: res_simps)
  have "length formatters = length (sch_fields schema)"
    using Cons.prems(2) [OF list.set_intros(1) f(1)] .
  then have "map (tags \<circ> body_row schema formatters) [0..<rb_num_rows batch] =
      replicate (rb_num_rows batch) (row_tags (length (sch_fields schema)))"
    by (simp add: tags_body_row comp_def map_replicate_const)
  moreover have "tags rest = concat (replicate (sum_list (map rb_num_rows batches))
      (row_tags (length (sch_fields schema))))"
    by (rule Cons.IH [OF f(2)]) (rule Cons.prems(2) [OF list.set_intros(2)])
  ultimately show ?case
    by (simp add: f(3) replicate_add)
qed simp

lemma preview_tags:
  assumes run: "preview_batches_to_html pv schema batches = Inr html"
    and columns: "sch_fields schema \<noteq> []"
    and formatters: "\<And>batch formatters. batch \<in> set batches \<Longrightarrow> pv_formatters pv batch = Inr formatters \<Longrightarrow>
      length formatters = length (sch_fields schema)"
  shows "tags html = tags preview_html_head @ ''<><><><>''
    @ concat (replicate (length (sch_fields schema)) ''<><><><><><><>'') @ ''<><><>''
    @ concat (replicate (sum_list (map rb_num_rows batches)) (row_tags (length (sch_fields schema))))
    @ ''<><><><><><><><><><>''"
proof -
  from run columns obtain rows where rows: "body_rows pv schema batches = Inr rows"
    and html: "html = preview_html_head @ ''<div class='' @ [CHR 0x22] @ ''df-wrap'' @ [CHR 0x22] @ ''><table><thead><tr>''
      @ concat (map (header_cell (pv_display_type pv)) (sch_fields schema))
      @ ''</tr></thead><tbody>'' @ rows
      @ ''</tbody></table></div><div class='' @ [CHR 0x22] @ ''df-footer'' @ [CHR 0x22] @ ''>Showing <b>''
      @ show_nat (sum_list (map rb_num_rows batches))
      @ ''</b> rows, <b>'' @ show_nat (length (sch_fields schema)) @ ''</b> columns.</div></div>''"
    by (auto simp: preview_batches_to_html_def Let_def res_simps split: if_splits)
  have head: "tags \<circ> header_cell d = (\<lambda>_. ''<><><><><><><>'')" for d
    by (simp add: header_cell_def fun_eq_iff)
  show ?thesis
    by (simp add: html tags_body_rows [OF rows formatters] head map_replicate_const)
qed

subsection \<open>Phases of a run\<close>

text \<open>
  A report of phases that ran one after the other until phase \<open>k\<close>: the phases before it completed,
  it failed, the later ones did not start, and the total failed with it.
\<close>

definition completed_phases :: "string list \<Rightarrow> PhaseTimingReport list \<Rightarrow> bool" where
  "completed_phases names timings \<longleftrightarrow>
     map phase_name timings = names \<and> (\<forall>t \<in> set timings. status t = PhaseStatus.Completed)"

definition failed_at_phase :: "nat \<Rightarrow> PhaseTimingReport list \<Rightarrow> bool" where
  "failed_at_phase k timings \<longleftrightarrow>
     map phase_name timings = PREVIEW_PHASE_NAMES \<and>
     map status timings =
       replicate k PhaseStatus.Completed @ [PhaseStatus.Failed]
       @ replicate (5 - k) (PhaseStatus.NotStarted PriorFailure) @ [PhaseStatus.Failed]"

definition preview_outcome :: "DeltaFunnelError + TablePreview \<Rightarrow> bool" where
  "preview_outcome r \<longleftrightarrow>
     (case r of
        Inr preview \<Rightarrow> completed_phases PREVIEW_PHASE_NAMES (tp_phase_timings preview)
      | Inl e \<Rightarrow> \<exists>failure source k. e = PreviewFailed failure source \<and> k < 6 \<and>
          pfc_failed_phase failure = PREVIEW_PHASE_NAMES ! k \<and>
          failed_at_phase k (pfc_phase_timings failure))"

lemma completed_phases_snoc:
  "completed_phases names timings \<Longrightarrow> completed_phases (names @ [name]) (timings @ [timing_completed name d])"
  by (simp add: completed_phases_def timing_completed_def)

lemma completed_phases_status:
  "completed_phases names timings \<Longrightarrow> map status timings = replicate (length names) PhaseStatus.Completed"
  by (auto simp: completed_phases_def map_replicate_const intro!: nth_equalityI)

lemma phase_count: "length PREVIEW_PHASE_NAMES = 7"
  by (simp add: PREVIEW_PHASE_NAMES_def)

lemma preview_failed_outcome:
  assumes "completed_phases (take k PREVIEW_PHASE_NAMES) timings" and "k < 6"
    and "timer_phase_name timer = PREVIEW_PHASE_NAMES ! k"
    and "timer_phase_name total_timer = PREVIEW_TOTAL_PHASE"
    and "preview_failed total_timer timings timer profile source w = (r, w')"
  shows "preview_outcome r \<and> w_conn w' = w_conn w"
proof -
  have names: "map phase_name timings = take k PREVIEW_PHASE_NAMES"
    using assms(1) by (simp add: completed_phases_def)
  have len: "length timings = k"
    using arg_cong [OF names, of length] assms(2) by (simp add: PREVIEW_PHASE_NAMES_def)
  have split: "PREVIEW_PHASE_NAMES =
      take k PREVIEW_PHASE_NAMES @ PREVIEW_PHASE_NAMES ! k # drop (Suc k) (butlast PREVIEW_PHASE_NAMES)
      @ [PREVIEW_TOTAL_PHASE]"
  proof -
    have "PREVIEW_PHASE_NAMES = butlast PREVIEW_PHASE_NAMES @ [PREVIEW_TOTAL_PHASE]"
      by (simp add: PREVIEW_PHASE_NAMES_def)
    moreover have "butlast PREVIEW_PHASE_NAMES =
        take k PREVIEW_PHASE_NAMES @ PREVIEW_PHASE_NAMES ! k # drop (Suc k) (butlast PREVIEW_PHASE_NAMES)"
      using assms(2) id_take_nth_drop [of k "butlast PREVIEW_PHASE_NAMES"]
      by (simp add: take_butlast nth_butlast phase_count)
    ultimately show ?thesis by (metis append.assoc append_Cons)
  qed
  have rest: "length (drop (Suc k) (butlast PREVIEW_PHASE_NAMES)) = 5 - k"
    by (simp add: PREVIEW_PHASE_NAMES_def)
  have statuses: "map status timings = replicate k PhaseStatus.Completed"
    using completed_phases_status [OF assms(1)] assms(2) by (simp add: PREVIEW_PHASE_NAMES_def)
  let ?failed = "timing_failed (PREVIEW_PHASE_NAMES ! k) (reading w - started_at timer)"
  let ?rest = "map (\<lambda>name. timing_not_started name PriorFailure)
    (drop (Suc k) (butlast PREVIEW_PHASE_NAMES))"
  let ?total = "timing_failed PREVIEW_TOTAL_PHASE (reading (tick w) - started_at total_timer)"
  have "map phase_name (timings @ ?failed # ?rest @ [?total]) = PREVIEW_PHASE_NAMES"
    using split names by (simp add: comp_def)
  moreover have "map status (timings @ ?failed # ?rest @ [?total]) = replicate k PhaseStatus.Completed
      @ [PhaseStatus.Failed] @ replicate (5 - k) (PhaseStatus.NotStarted PriorFailure) @ [PhaseStatus.Failed]"
    using statuses rest by (simp add: comp_def map_replicate_const timing_failed_def timing_not_started_def)
  ultimately have "failed_at_phase k (timings @ ?failed # ?rest @ [?total])"
    by (simp add: failed_at_phase_def)
  moreover from assms(3-5) len have "r = Inl (PreviewFailed
      \<lparr>pfc_failed_phase = PREVIEW_PHASE_NAMES ! k, pfc_phase_timings = timings @ ?failed # ?rest @ [?total],
       pfc_execution_profile = profile\<rparr> source)" "w' = tick (tick w)"
    by (simp_all add: preview_failed_def Let_def)
  ultimately show ?thesis
    using assms(2) by (auto simp: preview_outcome_def)
qed

text \<open>The phases in the order they run, as prefixes of the list of names.\<close>

lemma phases_run [simp]:
  "take 0 PREVIEW_PHASE_NAMES = []"
  "take (Suc 0) PREVIEW_PHASE_NAMES = [PREVIEW_DATAFRAME_PLANNING_PHASE]"
  "take 2 PREVIEW_PHASE_NAMES = [PREVIEW_DATAFRAME_PLANNING_PHASE, PREVIEW_PHYSICAL_PLANNING_PHASE]"
  "take 3 PREVIEW_PHASE_NAMES = take 2 PREVIEW_PHASE_NAMES @ [PREVIEW_STREAM_SETUP_PHASE]"
  "take 4 PREVIEW_PHASE_NAMES = take 3 PREVIEW_PHASE_NAMES @ [PREVIEW_EXECUTE_COLLECT_PHASE]"
  "take 5 PREVIEW_PHASE_NAMES = take 4 PREVIEW_PHASE_NAMES @ [PREVIEW_FORMAT_TEXT_PHASE]"
  "PREVIEW_PHASE_NAMES ! 0 = PREVIEW_DATAFRAME_PLANNING_PHASE"
  "PREVIEW_PHASE_NAMES ! Suc 0 = PREVIEW_PHYSICAL_PLANNING_PHASE"
  "PREVIEW_PHASE_NAMES ! 2 = PREVIEW_STREAM_SETUP_PHASE"
  "PREVIEW_PHASE_NAMES ! 3 = PREVIEW_EXECUTE_COLLECT_PHASE"
  "PREVIEW_PHASE_NAMES ! 4 = PREVIEW_FORMAT_TEXT_PHASE"
  "PREVIEW_PHASE_NAMES ! 5 = PREVIEW_FORMAT_HTML_PHASE"
  by (simp_all add: PREVIEW_PHASE_NAMES_def)

lemma all_phases:
  "PREVIEW_PHASE_NAMES = (take 5 PREVIEW_PHASE_NAMES @ [PREVIEW_FORMAT_HTML_PHASE]) @ [PREVIEW_TOTAL_PHASE]"
  by (simp add: PREVIEW_PHASE_NAMES_def)

lemma completed_phase_singles:
  "completed_phases [] []"
  "completed_phases [n] [timing_completed n d]"
  "completed_phases [n, m] [timing_completed n d, timing_completed m e]"
  by (simp_all add: completed_phases_def timing_completed_def)

lemma format_preview_outcome:
  assumes timings: "completed_phases (take 4 PREVIEW_PHASE_NAMES) timings"
    and total: "timer_phase_name total_timer = PREVIEW_TOTAL_PHASE"
    and run: "format_preview_result pv schema batches total_timer timings profile w = (r, w')"
  shows "preview_outcome r \<and> w_conn w' = w_conn w"
proof (cases "pv_pretty_format pv batches")
  case (Inl error)
  with run have "preview_failed total_timer timings
      \<lparr>timer_phase_name = PREVIEW_FORMAT_TEXT_PHASE, started_at = reading w\<rparr> profile
      (datafusion_handoff_setup_error ''preview_text'' error) (tick w) = (r, w')"
    by (simp add: format_preview_result_def)
  from preview_failed_outcome [OF timings _ _ total this] show ?thesis by simp
next
  case rendered: (Inr rendered)
  let ?timings = "timings @ [timing_completed PREVIEW_FORMAT_TEXT_PHASE (reading (tick w) - reading w)]"
  have done5: "completed_phases (take 5 PREVIEW_PHASE_NAMES) ?timings"
    using completed_phases_snoc [OF timings] by (simp del: phases_run add: phases_run(6))
  show ?thesis
  proof (cases "preview_batches_to_html pv schema batches")
    case (Inl error)
    with run rendered have "preview_failed total_timer ?timings
        \<lparr>timer_phase_name = PREVIEW_FORMAT_HTML_PHASE, started_at = reading (tick (tick w))\<rparr> profile
        (datafusion_handoff_setup_error ''preview_html'' error) (tick (tick (tick w))) = (r, w')"
      by (simp add: format_preview_result_def)
    from preview_failed_outcome [OF done5 _ _ total this] show ?thesis by simp
  next
    case (Inr html)
    have "completed_phases PREVIEW_PHASE_NAMES ((?timings @ [timing_completed PREVIEW_FORMAT_HTML_PHASE d])
        @ [timing_completed PREVIEW_TOTAL_PHASE e])" for d e
      by (subst all_phases) (intro completed_phases_snoc done5)
    with run rendered Inr total show ?thesis
      by (auto simp: format_preview_result_def Let_def from_execution_def preview_outcome_def)
  qed
qed

lemma sample_preview_conn [simp]: "w_conn (sample_preview_progress reporter samples w) = w_conn w"
  by (simp add: sample_preview_progress_def split: option.split)

lemma collect_preview_outcome:
  assumes timings: "completed_phases (take 2 PREVIEW_PHASE_NAMES) timings"
    and total: "timer_phase_name total_timer = PREVIEW_TOTAL_PHASE"
    and run: "collect_preview pv options reporter schema plan total_timer timings w = (r, w')"
  shows "preview_outcome r \<and> w_conn w' = w_conn w"
proof (cases "datafusion_query_output_stream_with_effective_root (qe_plans (pv_engine pv)) plan")
  case (Inl failure)
  let ?w = "w_emit reporter (phase_changed CollectingPreview None) (tick w)"
  from Inl run have "preview_failed total_timer timings
      \<lparr>timer_phase_name = PREVIEW_STREAM_SETUP_PHASE, started_at = reading w\<rparr>
      (register_preview_execution_profile pv (dfe_effective_profile_root failure) options
         (collect_delta_provider_read_stats_handles (qe_plans (pv_engine pv)) plan) Error)
      (datafusion_handoff_setup_error ''preview_collect'' (dfe_source failure)) ?w = (r, w')"
    by (simp add: collect_preview_def Let_def)
  from preview_failed_outcome [OF timings _ _ total this] show ?thesis by simp
next
  case (Inr execution)
  let ?w = "w_emit reporter (phase_changed CollectingPreview None) (tick w)"
  let ?setup_timing = "timing_completed PREVIEW_STREAM_SETUP_PHASE (reading ?w - reading w)"
  let ?wc = "sample_preview_progress reporter (pv_samples pv plan) (tick (tick ?w))"
  have done3: "completed_phases (take 3 PREVIEW_PHASE_NAMES) (timings @ [?setup_timing])"
    using completed_phases_snoc [OF timings] by (simp del: phases_run add: phases_run(4))
  show ?thesis
  proof (cases "try_collect (map (map_err (datafusion_handoff_setup_error ''preview_collect''))
      (dfx_stream execution))")
    case (Inl source)
    with Inr run have "preview_failed total_timer (timings @ [?setup_timing])
        \<lparr>timer_phase_name = PREVIEW_EXECUTE_COLLECT_PHASE, started_at = reading (tick ?w)\<rparr>
        (register_preview_execution_profile pv (dfx_effective_profile_root execution) options
           (collect_delta_provider_read_stats_handles (qe_plans (pv_engine pv)) plan) Error)
        source ?wc = (r, w')"
      by (simp add: collect_preview_def Let_def)
    from preview_failed_outcome [OF done3 _ _ total this] show ?thesis by simp
  next
    case batches: (Inr batches)
    let ?collect = "timing_completed PREVIEW_EXECUTE_COLLECT_PHASE (reading ?wc - reading (tick ?w))"
    have done4: "completed_phases (take 4 PREVIEW_PHASE_NAMES) ((timings @ [?setup_timing]) @ [?collect])"
      using completed_phases_snoc [OF done3] by (simp del: phases_run add: phases_run(5))
    from Inr batches run have "format_preview_result pv schema batches total_timer
        ((timings @ [?setup_timing]) @ [?collect])
        (register_preview_execution_profile pv (dfx_effective_profile_root execution) options
           (collect_delta_provider_read_stats_handles (qe_plans (pv_engine pv)) plan) Success)
        (w_emit reporter (phase_changed FormattingPreview None) (tick ?wc)) = (r, w')"
      by (simp add: collect_preview_def Let_def)
    from format_preview_outcome [OF done4 total this] show ?thesis by simp
  qed
qed

lemma build_preview_outcome:
  assumes "build_preview pv s t options reporter w = (r, w')"
  shows "preview_outcome r \<and> w_conn w' = w_conn w"
proof -
  let ?total = "\<lparr>timer_phase_name = PREVIEW_TOTAL_PHASE, started_at = reading w\<rparr>"
  let ?w = "w_emit reporter (phase_changed PreparingPreview None) (tick w)"
  have total: "timer_phase_name ?total = PREVIEW_TOTAL_PHASE" by simp
  have done0: "completed_phases (take 0 PREVIEW_PHASE_NAMES) []"
    by (simp add: completed_phase_singles)
  show ?thesis
  proof (cases "preview_dataframe pv (w_context w) s t (po_limit options)")
    case (Inl source)
    with assms have "preview_failed ?total []
        \<lparr>timer_phase_name = PREVIEW_DATAFRAME_PLANNING_PHASE, started_at = reading ?w\<rparr> None source
        (tick ?w) = (r, w')"
      by (simp add: build_preview_def Let_def)
    from preview_failed_outcome [OF done0 _ _ total this] show ?thesis by simp
  next
    case (Inr planned)
    obtain schema dataframe where planned: "planned = (schema, dataframe)" by fastforce
    let ?frame = "timing_completed PREVIEW_DATAFRAME_PLANNING_PHASE (reading (tick ?w) - reading ?w)"
    let ?wp = "tick (tick (tick ?w))"
    have done1: "completed_phases (take (Suc 0) PREVIEW_PHASE_NAMES) [?frame]"
      by (simp add: completed_phase_singles)
    show ?thesis
    proof (cases "qe_create_physical_plan (pv_engine pv) dataframe")
      case (Inl error)
      with Inr planned assms have "preview_failed ?total [?frame]
          \<lparr>timer_phase_name = PREVIEW_PHYSICAL_PLANNING_PHASE, started_at = reading (tick (tick ?w))\<rparr> None
          (datafusion_handoff_setup_error ''preview_collect'' error) ?wp = (r, w')"
        by (simp add: build_preview_def Let_def)
      from preview_failed_outcome [OF done1 _ _ total this] show ?thesis by simp
    next
      case plan: (Inr plan)
      let ?plan = "timing_completed PREVIEW_PHYSICAL_PLANNING_PHASE (reading ?wp - reading (tick (tick ?w)))"
      have done2: "completed_phases (take 2 PREVIEW_PHASE_NAMES) [?frame, ?plan]"
        by (simp add: completed_phase_singles)
      from Inr planned plan assms have "collect_preview pv options reporter schema plan ?total
          [?frame, ?plan] (tick ?wp) = (r, w')"
        by (simp add: build_preview_def Let_def)
      from collect_preview_outcome [OF done2 total this] show ?thesis by simp
    qed
  qed
qed

end
