(* ===== verification/DF_Preview_Example.thy ===== *)
theory DF_Preview_Example
  imports DF_Preview DF_Write_Example
begin

section \<open>A preview engine\<close>

text \<open>
  A concrete instance of the parameters of previews: the engine of \<open>DF_Write_Example\<close> with one formatter,
  whose cells hold markup. It also computes a preview of the demo table.
\<close>

definition demo_preview_engine :: "(demo_catalog_context, nat, nat, string, nat) preview_engine" where
  "demo_preview_engine =
     \<lparr>pv_engine = demo_engine, pv_limit = (\<lambda>d n. Inr d), pv_pretty_format = (\<lambda>_. Inr ''text''),
      pv_formatters = (\<lambda>_. Inr [\<lambda>row. ''<script>'']), pv_display_type = (\<lambda>_. ''Int64''),
      pv_samples = (\<lambda>_. [])\<rparr>"

lemma demo_schema_columns: "length (sch_fields demo_schema) = 1" "sch_fields demo_schema \<noteq> []"
  by (simp_all add: demo_schema_def)

lemma demo_formatters_width:
  "pv_formatters demo_preview_engine batch = Inr formatters \<Longrightarrow>
    length formatters = length (sch_fields demo_schema)"
  by (auto simp: demo_preview_engine_def demo_schema_columns)

lemma demo_preview_rendered:
  "is_ok (preview_batches_to_html demo_preview_engine demo_schema [demo_batch 2])"
  by (simp add: preview_batches_to_html_def demo_preview_engine_def demo_batch_def res_simps Let_def
      demo_schema_columns is_ok_def)

end
