(* ===== verification/DF_Handoff.thy ===== *)
theory DF_Handoff
  imports DF_Query_Plan DF_Write_Loop
begin

section \<open>The batch hand-off\<close>

text \<open>
  \<open>pipeline/batch_handoff.rs\<close>: the pull-driven loop that offers the batches of a query output to a
  consumer one at a time. The trait \<open>RecordBatchConsumer\<close> is the locale \<open>record_batch_consumer\<close>; its
  implementation for the bulk writer of \<open>arrow_sql_server\<close> interprets it.
\<close>

record BatchHandoffStats =
  bh_input_batches :: u64
  bh_input_rows :: u64
  bh_output_batches :: u64
  bh_output_rows :: u64

definition BatchHandoffStats_default :: BatchHandoffStats where
  "BatchHandoffStats_default =
     \<lparr>bh_input_batches = 0, bh_input_rows = 0, bh_output_batches = 0, bh_output_rows = 0\<rparr>"

definition rows_to_u64 :: "nat \<Rightarrow> u64" where
  "rows_to_u64 row_count = (if row_count < 2 ^ 64 then of_nat row_count else u64_MAX)"

definition record_input_batch :: "nat \<Rightarrow> BatchHandoffStats \<Rightarrow> BatchHandoffStats" where
  "record_input_batch row_count stats =
     stats\<lparr>bh_input_batches := saturating_add (bh_input_batches stats) 1,
           bh_input_rows := saturating_add (bh_input_rows stats) (rows_to_u64 row_count)\<rparr>"

definition record_output_batch :: "nat \<Rightarrow> BatchHandoffStats \<Rightarrow> BatchHandoffStats" where
  "record_output_batch row_count stats =
     stats\<lparr>bh_output_batches := saturating_add (bh_output_batches stats) 1,
           bh_output_rows := saturating_add (bh_output_rows stats) (rows_to_u64 row_count)\<rparr>"

record BatchHandoffOutcome =
  bho_stats :: BatchHandoffStats

datatype BatchHandoffError =
  QueryOutputSetup string BatchHandoffStats
| Upstream string BatchHandoffStats
| Downstream DeltaFunnelError BatchHandoffStats

fun BatchHandoffError_stats :: "BatchHandoffError \<Rightarrow> BatchHandoffStats" where
  "BatchHandoffError_stats (QueryOutputSetup _ stats) = stats"
| "BatchHandoffError_stats (Upstream _ stats) = stats"
| "BatchHandoffError_stats (Downstream _ stats) = stats"

type_synonym 's batch_consumer = "RecordBatch \<Rightarrow> ('s, DeltaFunnelError, unit) io"

fun handoff_loop ::
    "'s batch_consumer \<Rightarrow> (string + RecordBatch) list \<Rightarrow> BatchHandoffStats
       \<Rightarrow> ('s, BatchHandoffError, BatchHandoffOutcome) io" where
  "handoff_loop write_record_batch [] stats s = (Inr \<lparr>bho_stats = stats\<rparr>, s)"
| "handoff_loop write_record_batch (Inl source # stream) stats s = (Inl (Upstream source stats), s)"
| "handoff_loop write_record_batch (Inr batch # stream) stats s =
     (let row_count = rb_num_rows batch;
          accepted_stats = stats;
          stats = record_input_batch row_count stats
      in case write_record_batch batch s of
           (Inl source, s) \<Rightarrow> (Inl (Downstream source accepted_stats), s)
         | (Inr _, s) \<Rightarrow> handoff_loop write_record_batch stream (record_output_batch row_count stats) s)"

definition handoff_record_batch_stream ::
    "(string + RecordBatch) list \<Rightarrow> 's batch_consumer \<Rightarrow> ('s, BatchHandoffError, BatchHandoffOutcome) io" where
  "handoff_record_batch_stream stream write_record_batch =
     handoff_loop write_record_batch stream BatchHandoffStats_default"

definition handoff_datafusion_query_output ::
    "'i plan_engine \<Rightarrow> 'i ExecutionPlan \<Rightarrow> 's batch_consumer
       \<Rightarrow> ('s, BatchHandoffError, BatchHandoffOutcome) io" where
  "handoff_datafusion_query_output pe plan write_record_batch s =
     (case datafusion_query_output_stream pe plan of
        Inl source \<Rightarrow> (Inl (QueryOutputSetup source BatchHandoffStats_default), s)
      | Inr stream \<Rightarrow> handoff_record_batch_stream stream write_record_batch s)"

definition bulk_writer_write_record_batch :: "'s sql_server \<Rightarrow> 's conn batch_consumer" where
  "bulk_writer_write_record_batch srv batch = io_map_err MssqlWrite (client_write_batch srv batch)"

subsection \<open>Counters\<close>

definition handoff_stats :: "RecordBatch list \<Rightarrow> BatchHandoffStats" where
  "handoff_stats batches =
     fold (\<lambda>batch stats. record_output_batch (rb_num_rows batch) (record_input_batch (rb_num_rows batch) stats))
       batches BatchHandoffStats_default"

lemma unat_rows_to_u64: "unat (rows_to_u64 n) = min n (2 ^ 64 - 1)"
  by (simp add: rows_to_u64_def unat_of_nat)

lemma handoff_stats_values:
  "unat (bh_input_batches (handoff_stats batches)) = min (length batches) (2 ^ 64 - 1) \<and>
   unat (bh_input_rows (handoff_stats batches)) = min (\<Sum>b \<leftarrow> batches. rb_num_rows b) (2 ^ 64 - 1) \<and>
   bh_output_batches (handoff_stats batches) = bh_input_batches (handoff_stats batches) \<and>
   bh_output_rows (handoff_stats batches) = bh_input_rows (handoff_stats batches)"
proof (induction batches rule: rev_induct)
  case (snoc b batches)
  have step: "handoff_stats (batches @ [b]) =
      record_output_batch (rb_num_rows b) (record_input_batch (rb_num_rows b) (handoff_stats batches))"
    by (simp add: handoff_stats_def)
  show ?case
    unfolding step record_output_batch_def record_input_batch_def
    using snoc by (auto simp: unat_saturating_add unat_rows_to_u64 min_def)
qed (simp add: handoff_stats_def BatchHandoffStats_default_def)

subsection \<open>What is handed off\<close>

text \<open>
  A consumer shows each batch it is offered in its state. Then the batches it was offered are a prefix of
  the stream, one more than it accepted iff it refused the last one, and the counters of the result are
  those of the accepted batches.
\<close>

locale record_batch_consumer =
  fixes write_record_batch :: "'s batch_consumer"
    and offered :: "'s \<Rightarrow> RecordBatch list"
  assumes offers: "write_record_batch batch s = (r, s') \<Longrightarrow> offered s' = offered s @ [batch]"
begin

lemma handoff_loop_offers:
  assumes "handoff_loop write_record_batch stream (handoff_stats before) s = (r, s')"
  shows "case r of
      Inr outcome \<Rightarrow> \<exists>batches. stream = map Inr batches \<and> offered s' = offered s @ batches \<and>
        bho_stats outcome = handoff_stats (before @ batches)
    | Inl (Upstream e stats) \<Rightarrow> \<exists>batches rest. stream = map Inr batches @ Inl e # rest \<and>
        offered s' = offered s @ batches \<and> stats = handoff_stats (before @ batches)
    | Inl (Downstream e stats) \<Rightarrow> \<exists>batches batch rest. stream = map Inr batches @ Inr batch # rest \<and>
        offered s' = offered s @ batches @ [batch] \<and> stats = handoff_stats (before @ batches)
    | Inl (QueryOutputSetup e stats) \<Rightarrow> False"
  using assms
proof (induction stream arbitrary: before s)
  case Nil
  then show ?case by auto
next
  case (Cons item stream)
  show ?case
  proof (cases item)
    case (Inl e)
    with Cons.prems show ?thesis by auto
  next
    case (Inr batch)
    obtain q u where q: "write_record_batch batch s = (q, u)" by fastforce
    note seen = offers [OF q]
    show ?thesis
    proof (cases q)
      case (Inl e)
      with Cons.prems Inr q seen show ?thesis by auto
    next
      case written: (Inr x)
      have "record_output_batch (rb_num_rows batch) (record_input_batch (rb_num_rows batch) (handoff_stats before)) =
          handoff_stats (before @ [batch])"
        by (simp add: handoff_stats_def)
      with Cons.prems Inr q written have
        "handoff_loop write_record_batch stream (handoff_stats (before @ [batch])) u = (r, s')"
        by simp
      note IH = Cons.IH [OF this]
      show ?thesis
      proof (cases r)
        case (Inl e)
        with IH Inr seen show ?thesis
          by (auto split: BatchHandoffError.splits)
      next
        case ok: (Inr outcome)
        with IH Inr seen show ?thesis by (auto intro: exI [of _ "batch # _"])
      qed
    qed
  qed
qed

lemma handoff_offers:
  assumes "handoff_record_batch_stream stream write_record_batch s = (r, s')"
  shows "case r of
      Inr outcome \<Rightarrow> \<exists>batches. stream = map Inr batches \<and> offered s' = offered s @ batches \<and>
        bho_stats outcome = handoff_stats batches
    | Inl (Upstream e stats) \<Rightarrow> \<exists>batches rest. stream = map Inr batches @ Inl e # rest \<and>
        offered s' = offered s @ batches \<and> stats = handoff_stats batches
    | Inl (Downstream e stats) \<Rightarrow> \<exists>batches batch rest. stream = map Inr batches @ Inr batch # rest \<and>
        offered s' = offered s @ batches @ [batch] \<and> stats = handoff_stats batches
    | Inl (QueryOutputSetup e stats) \<Rightarrow> False"
  using handoff_loop_offers [of stream "[]" s r s', unfolded append_Nil] assms
  by (simp add: handoff_record_batch_stream_def handoff_stats_def)

end

fun sent_batches :: "sql_request list \<Rightarrow> RecordBatch list" where
  "sent_batches [] = []"
| "sent_batches (BatchRequest batch # requests) = batch # sent_batches requests"
| "sent_batches (_ # requests) = sent_batches requests"

lemma sent_batches_append [simp]: "sent_batches (xs @ ys) = sent_batches xs @ sent_batches ys"
  by (induction xs rule: sent_batches.induct) simp_all

interpretation bulk_consumer: record_batch_consumer "bulk_writer_write_record_batch srv" "\<lambda>c. sent_batches (cn_sent c)"
  for srv :: "'s sql_server"
  by unfold_locales
    (auto simp: bulk_writer_write_record_batch_def io_map_err_def client_write_batch_def
      split: prod.splits dest!: send_sent)

end
