(* ===== verification/DF_Sample_Fold.thy ===== *)
theory DF_Sample_Fold
  imports DF_Prelude "HOL-Library.AList"
begin

section \<open>Forests of sample counts\<close>

text \<open>
  The graph algorithms of \<open>perfetto_profile/ranked_report.rs\<close>: \<open>fold_inclusive_counts\<close>, which adds
  the samples of every node to its ancestors, and \<open>first_cycle\<close>. A hash map is an association list;
  its order is the order in which the map is iterated. An \<open>i64\<close> is an \<open>int\<close> whose checked additions
  are written out.
\<close>

definition i64_range :: "int \<Rightarrow> bool" where
  "i64_range n \<longleftrightarrow> - (2 ^ 63) \<le> n \<and> n < 2 ^ 63"

definition checked_add_i64 :: "int \<Rightarrow> int \<Rightarrow> int option" where
  "checked_add_i64 a b = (if i64_range (a + b) then Some (a + b) else None)"

definition parent_of :: "('k \<times> 'k option) list \<Rightarrow> 'k \<Rightarrow> 'k option" where
  "parent_of parents k = (case map_of parents k of Some (Some p) \<Rightarrow> Some p | _ \<Rightarrow> None)"

subsection \<open>Adding samples to the ancestors\<close>

fun count_children :: "'k option list \<Rightarrow> ('k \<times> nat) list \<Rightarrow> ('k \<times> nat) list option" where
  "count_children [] remaining = Some remaining"
| "count_children (None # values) remaining = count_children values remaining"
| "count_children (Some parent # values) remaining =
     (case map_of remaining parent of
        None \<Rightarrow> None
      | Some n \<Rightarrow> count_children values (AList.update parent (n + 1) remaining))"

lemma sum_update_pred:
  "map_of xs k = Some n \<Longrightarrow> n \<noteq> 0 \<Longrightarrow>
     Suc (sum_list (map snd (AList.update k (n - 1) xs))) = sum_list (map snd xs)"
  by (induction xs) (auto split: if_splits)

text \<open>
  The loop: \<open>ready\<close> is the stack of nodes whose children are all visited, its top first.
\<close>

function fold_loop ::
    "('k \<times> 'k option) list \<Rightarrow> 'k list \<Rightarrow> ('k \<times> nat) list \<Rightarrow> ('k \<rightharpoonup> int) \<Rightarrow> nat
       \<Rightarrow> ((nat \<times> ('k \<rightharpoonup> int)) option)" where
  "fold_loop parents [] remaining inclusive visited = Some (visited, inclusive)"
| "fold_loop parents (node # ready) remaining inclusive visited =
     (case parent_of parents node of
        None \<Rightarrow> fold_loop parents ready remaining inclusive (visited + 1)
      | Some parent \<Rightarrow>
          (case (inclusive node, inclusive parent) of
             (Some n, Some parent_count) \<Rightarrow>
               (case checked_add_i64 parent_count n of
                  None \<Rightarrow> None
                | Some total_count \<Rightarrow>
                    (case map_of remaining parent of
                       None \<Rightarrow> None
                     | Some children \<Rightarrow>
                         if children = 0 then None
                         else fold_loop parents
                           (if children - 1 = 0 then parent # ready else ready)
                           (AList.update parent (children - 1) remaining)
                           (inclusive(parent \<mapsto> total_count)) (visited + 1)))
           | _ \<Rightarrow> None))"
  by pat_completeness auto
termination
  by (relation "measure (\<lambda>(_, ready, remaining, _, _). length ready + sum_list (map snd remaining))")
    (auto dest: sum_update_pred)

definition fold_inclusive_counts ::
    "('k \<times> 'k option) list \<Rightarrow> ('k \<rightharpoonup> int) \<Rightarrow> ('k \<rightharpoonup> int) option" where
  "fold_inclusive_counts parents self_counts =
     (case count_children (map snd parents) (map (\<lambda>(k, _). (k, 0)) parents) of
        None \<Rightarrow> None
      | Some remaining \<Rightarrow>
          (case fold_loop parents (map fst (filter (\<lambda>(_, children). children = 0) remaining))
                  remaining self_counts 0 of
             None \<Rightarrow> None
           | Some (visited, inclusive) \<Rightarrow>
               if visited = length parents then Some inclusive else None))"

subsection \<open>Finding a cycle\<close>

lemma parent_of_key: "parent_of parents k = Some p \<Longrightarrow> k \<in> fst ` set parents"
  by (auto simp: parent_of_def split: option.splits intro: image_eqI [rotated] dest!: map_of_SomeD)

function cycle_walk ::
    "('k \<times> 'k option) list \<Rightarrow> 'k set \<Rightarrow> 'k list \<Rightarrow> 'k set \<Rightarrow> 'k option \<Rightarrow> 'k + 'k list" where
  "cycle_walk parents complete path positions None = Inr path"
| "cycle_walk parents complete path positions (Some node) =
     (if node \<in> complete then Inr path
      else if node \<in> positions then Inl node
      else cycle_walk parents complete (path @ [node]) (insert node positions) (parent_of parents node))"
  by pat_completeness auto
termination
proof (relation "measures [\<lambda>(parents, _, _, positions, _). card (fst ` set parents - positions),
    \<lambda>(_, _, _, _, current). if current = None then 0 else 1]", goal_cases)
  case (2 parents complete path positions node)
  show ?case
  proof (cases "node \<in> fst ` set parents")
    case True
    with 2 have "fst ` set parents - insert node positions \<subset> fst ` set parents - positions" by auto
    then have "card (fst ` set parents - insert node positions) < card (fst ` set parents - positions)"
      by (intro psubset_card_mono) auto
    then show ?thesis by simp
  next
    case False
    then have "parent_of parents node = None" using parent_of_key by fastforce
    with False show ?thesis by (simp add: Diff_insert0)
  qed
qed auto

fun first_cycle_from :: "('k \<times> 'k option) list \<Rightarrow> 'k set \<Rightarrow> 'k list \<Rightarrow> 'k option" where
  "first_cycle_from parents complete [] = None"
| "first_cycle_from parents complete (start # starts) =
     (if start \<in> complete then first_cycle_from parents complete starts
      else case cycle_walk parents complete [] {} (Some start) of
          Inl node \<Rightarrow> Some node
        | Inr path \<Rightarrow> first_cycle_from parents (complete \<union> set path) starts)"

definition first_cycle :: "('k \<times> 'k option) list \<Rightarrow> 'k list \<Rightarrow> 'k option" where
  "first_cycle parents starts = first_cycle_from parents {} starts"

subsection \<open>Cycles\<close>

definition up :: "('k \<times> 'k option) list \<Rightarrow> ('k \<times> 'k) set" where
  "up parents = {(k, p). parent_of parents k = Some p}"

definition cycle_free :: "('k \<times> 'k option) list \<Rightarrow> 'k \<Rightarrow> bool" where
  "cycle_free parents k \<longleftrightarrow> (\<forall>c. (k, c) \<in> (up parents)\<^sup>* \<longrightarrow> (c, c) \<notin> (up parents)\<^sup>+)"

lemma up_iff [simp]: "(k, p) \<in> up parents \<longleftrightarrow> parent_of parents k = Some p"
  by (simp add: up_def)

lemma no_parent_cycle_free: "parent_of parents k = None \<Longrightarrow> cycle_free parents k"
  unfolding cycle_free_def by (metis converse_rtranclE not_None_eq tranclD up_iff option.distinct(1))

lemma parent_cycle_free:
  assumes "parent_of parents k = Some p" and free: "cycle_free parents p"
  shows "cycle_free parents k"
  unfolding cycle_free_def
proof (intro allI impI notI)
  fix c assume reach: "(k, c) \<in> (up parents)\<^sup>*" and loop: "(c, c) \<in> (up parents)\<^sup>+"
  have "(p, c) \<in> (up parents)\<^sup>*"
  proof (cases "c = k")
    case True
    with loop assms(1) show ?thesis by (auto dest!: tranclD)
  next
    case False
    with reach assms(1) show ?thesis by (auto elim: converse_rtranclE)
  qed
  with loop free show False by (auto simp: cycle_free_def)
qed

lemma cycle_walk_free:
  assumes "cycle_walk parents complete path positions current = Inr path'"
    and "\<And>x. x \<in> complete \<Longrightarrow> cycle_free parents x"
  shows "(\<forall>x \<in> set path'. x \<in> set path \<or> cycle_free parents x) \<and>
    (\<forall>node. current = Some node \<longrightarrow> cycle_free parents node)"
  using assms
proof (induction parents complete path positions current rule: cycle_walk.induct)
  case (2 parents complete path positions node)
  show ?case
  proof (cases "node \<in> complete")
    case True
    with "2.prems" show ?thesis by simp
  next
    case False
    with "2.prems"(1) have fresh: "node \<notin> positions" by (auto split: if_splits)
    with False "2.prems"(1) have rest: "cycle_walk parents complete (path @ [node]) (insert node positions)
        (parent_of parents node) = Inr path'" by simp
    note IH = "2.IH" [OF False fresh rest "2.prems"(2)]
    have "cycle_free parents node"
      using IH no_parent_cycle_free parent_cycle_free by (cases "parent_of parents node") fastforce+
    with IH show ?thesis by auto
  qed
qed simp

lemma cycle_walk_cycle:
  assumes "cycle_walk parents complete path positions (Some node) = Inl n"
    and "\<And>x. x \<in> positions \<Longrightarrow> (x, node) \<in> (up parents)\<^sup>+"
  shows "(n, n) \<in> (up parents)\<^sup>+ \<and> (node, n) \<in> (up parents)\<^sup>*"
  using assms
proof (induction parents complete path positions "Some node" arbitrary: node rule: cycle_walk.induct)
  case (2 parents complete path positions node)
  show ?case
  proof (cases "node \<in> positions")
    case True
    with "2.prems" show ?thesis by (auto split: if_splits)
  next
    case False
    with "2.prems"(1) have walk: "node \<notin> complete" "cycle_walk parents complete (path @ [node])
        (insert node positions) (parent_of parents node) = Inl n"
      by (auto split: if_splits)
    then obtain p where p: "parent_of parents node = Some p"
      by (cases "parent_of parents node") auto
    have "(x, p) \<in> (up parents)\<^sup>+" if "x \<in> insert node positions" for x
    proof (cases "x = node")
      case True
      with p show ?thesis by auto
    next
      case False
      with that "2.prems"(2) have "(x, node) \<in> (up parents)\<^sup>+" by simp
      with p show ?thesis by (auto intro: trancl_into_trancl)
    qed
    from "2.hyps" [OF walk(1) False p walk(2) [unfolded p] this] p show ?thesis
      by (auto intro: converse_rtrancl_into_rtrancl)
  qed
qed

lemma first_cycle_from_correct:
  assumes "\<forall>x \<in> complete. cycle_free parents x"
  shows "case first_cycle_from parents complete starts of
      None \<Rightarrow> \<forall>s \<in> set starts. cycle_free parents s
    | Some n \<Rightarrow> (n, n) \<in> (up parents)\<^sup>+ \<and> (\<exists>s \<in> set starts. (s, n) \<in> (up parents)\<^sup>*)"
  using assms
proof (induction starts arbitrary: complete)
  case (Cons start starts)
  show ?case
  proof (cases "start \<in> complete")
    case True
    with Cons.IH [OF Cons.prems] Cons.prems show ?thesis by (auto split: option.splits)
  next
    case fresh: False
    show ?thesis
    proof (cases "cycle_walk parents complete [] {} (Some start)")
      case (Inl n)
      with cycle_walk_cycle [OF Inl] fresh show ?thesis by auto
    next
      case (Inr path)
      note free = cycle_walk_free [OF Inr Cons.prems [rule_format]]
      have "\<forall>x \<in> complete \<union> set path. cycle_free parents x"
        using free Cons.prems by auto
      from Cons.IH [OF this] free fresh Inr show ?thesis by (auto split: option.splits)
    qed
  qed
qed simp

lemma first_cycle_correct:
  "case first_cycle parents starts of
      None \<Rightarrow> \<forall>s \<in> set starts. cycle_free parents s
    | Some n \<Rightarrow> (n, n) \<in> (up parents)\<^sup>+ \<and> (\<exists>s \<in> set starts. (s, n) \<in> (up parents)\<^sup>*)"
  unfolding first_cycle_def by (rule first_cycle_from_correct) simp

lemma first_cycle_None_iff: "first_cycle parents starts = None \<longleftrightarrow> (\<forall>s \<in> set starts. cycle_free parents s)"
  using first_cycle_correct [where parents = parents and starts = starts] by (auto simp: cycle_free_def split: option.splits)

subsection \<open>The state of the fold\<close>

definition node_set :: "('k \<times> 'k option) list \<Rightarrow> 'k set" where
  "node_set parents = fst ` set parents"

lemma finite_node_set [simp]: "finite (node_set parents)"
  by (simp add: node_set_def)

definition children_of :: "('k \<times> 'k option) list \<Rightarrow> 'k \<Rightarrow> 'k set" where
  "children_of parents k = {c. parent_of parents c = Some k}"

definition parents_closed :: "('k \<times> 'k option) list \<Rightarrow> bool" where
  "parents_closed parents \<longleftrightarrow> (\<forall>c p. parent_of parents c = Some p \<longrightarrow> p \<in> node_set parents)"

lemma children_nodes: "children_of parents k \<subseteq> node_set parents"
  unfolding node_set_def using parent_of_key by (auto simp: children_of_def)

lemma finite_children [simp]: "finite (children_of parents k)"
  using children_nodes by (rule finite_subset) simp

text \<open>
  The nodes \<open>V\<close> are visited: a node is visited or ready iff all its children are visited, its counter
  is the number of its other children, its count is its own count and those of its visited children,
  and \<open>f\<close> ranks the visited nodes in the order of their visits.
\<close>

definition fold_state ::
    "('k \<times> 'k option) list \<Rightarrow> ('k \<Rightarrow> int) \<Rightarrow> ('k \<Rightarrow> nat) \<Rightarrow> 'k set \<Rightarrow> 'k list \<Rightarrow> ('k \<times> nat) list
       \<Rightarrow> ('k \<rightharpoonup> int) \<Rightarrow> bool" where
  "fold_state parents self f V ready remaining inclusive \<longleftrightarrow>
     distinct ready \<and> set ready \<inter> V = {} \<and>
     V \<union> set ready = {k \<in> node_set parents. children_of parents k \<subseteq> V} \<and>
     (\<forall>k \<in> node_set parents. map_of remaining k = Some (card (children_of parents k - V))) \<and>
     dom inclusive = node_set parents \<and>
     (\<forall>k \<in> node_set parents. the (inclusive k) =
        self k + (\<Sum>c \<in> children_of parents k \<inter> V. the (inclusive c))) \<and>
     (\<forall>v \<in> V. f v < card V \<and> (\<forall>c \<in> children_of parents v. f c < f v))"

lemma fold_stateD:
  assumes "fold_state parents self f V ready remaining inclusive"
  shows "distinct ready" "set ready \<inter> V = {}"
    "V \<union> set ready = {k \<in> node_set parents. children_of parents k \<subseteq> V}"
    "\<And>k. k \<in> node_set parents \<Longrightarrow> map_of remaining k = Some (card (children_of parents k - V))"
    "dom inclusive = node_set parents"
    "\<And>k. k \<in> node_set parents \<Longrightarrow> the (inclusive k) =
        self k + (\<Sum>c \<in> children_of parents k \<inter> V. the (inclusive c))"
    "\<And>v. v \<in> V \<Longrightarrow> f v < card V" "\<And>v c. v \<in> V \<Longrightarrow> c \<in> children_of parents v \<Longrightarrow> f c < f v"
    "finite V"
proof -
  show "finite V"
    using assms by (auto simp: fold_state_def intro: finite_subset [of V "node_set parents"])
qed (use assms in \<open>simp_all add: fold_state_def\<close>)

lemma top_of_stack:
  assumes inv: "fold_state parents self f V (node # ready) remaining inclusive"
  shows "node \<in> node_set parents" "node \<notin> V" "children_of parents node \<subseteq> V"
    "parent_of parents node = Some p \<Longrightarrow> p \<notin> V" "parent_of parents node \<noteq> Some node"
proof -
  note D = fold_stateD [OF inv]
  have "node \<in> V \<union> set (node # ready)" by simp
  then have "node \<in> {k \<in> node_set parents. children_of parents k \<subseteq> V}" unfolding D(3) .
  then show n: "node \<in> node_set parents" "children_of parents node \<subseteq> V" by simp_all
  show fresh: "node \<notin> V" using D(2) by auto
  show "p \<notin> V" if "parent_of parents node = Some p"
  proof
    assume "p \<in> V"
    with D(3) have "children_of parents p \<subseteq> V" by blast
    with that fresh show False by (auto simp: children_of_def)
  qed
  show "parent_of parents node \<noteq> Some node"
    using n(2) fresh by (auto simp: children_of_def)
qed

lemma rank_visit:
  assumes inv: "fold_state parents self f V (node # ready) remaining inclusive"
  shows "v \<in> insert node V \<Longrightarrow> (f(node := card V)) v < card (insert node V)"
    "v \<in> insert node V \<Longrightarrow> c \<in> children_of parents v \<Longrightarrow> (f(node := card V)) c < (f(node := card V)) v"
proof -
  note D = fold_stateD [OF inv] and T = top_of_stack [OF inv]
  show "(f(node := card V)) v < card (insert node V)" if "v \<in> insert node V"
    using that D(9) T(2) less_SucI [OF D(7)] by auto
  show "(f(node := card V)) c < (f(node := card V)) v" if "v \<in> insert node V" "c \<in> children_of parents v"
  proof (cases "v = node")
    case True
    with that(2) T(3,5) D(7) show ?thesis by (auto simp: children_of_def)
  next
    case False
    with that have "v \<in> V" by simp
    with that(2) T(4) have "c \<noteq> node" by (auto simp: children_of_def)
    with False D(8) [OF \<open>v \<in> V\<close> that(2)] show ?thesis by simp
  qed
qed

lemma visit_root:
  assumes inv: "fold_state parents self f V (node # ready) remaining inclusive"
    and root: "parent_of parents node = None"
  shows "fold_state parents self (f(node := card V)) (insert node V) ready remaining inclusive"
proof -
  note D = fold_stateD [OF inv] and T = top_of_stack [OF inv]
  have no_parent: "node \<notin> children_of parents k" for k
    using root by (simp add: children_of_def)
  then have sub: "children_of parents k \<subseteq> insert node V \<longleftrightarrow> children_of parents k \<subseteq> V" for k
    by blast
  have int: "children_of parents k \<inter> insert node V = children_of parents k \<inter> V"
    "children_of parents k - insert node V = children_of parents k - V" for k
    using no_parent by blast+
  show ?thesis
    unfolding fold_state_def sub int
    using D T rank_visit [OF inv] by auto
qed

lemma visit_child:
  assumes inv: "fold_state parents self f V (node # ready) remaining inclusive"
    and p: "parent_of parents node = Some p" "p \<in> node_set parents"
    and n: "inclusive node = Some n" "inclusive p = Some m"
    and children: "map_of remaining p = Some children"
  shows "children \<noteq> 0"
    and "fold_state parents self (f(node := card V)) (insert node V)
      (if children - 1 = 0 then p # ready else ready) (AList.update p (children - 1) remaining)
      (inclusive(p \<mapsto> m + n))"
proof -
  note D = fold_stateD [OF inv] and T = top_of_stack [OF inv]
  have child: "node \<in> children_of parents k \<longleftrightarrow> k = p" for k
    using p(1) by (auto simp: children_of_def)
  have fresh: "p \<notin> V" "p \<noteq> node" using T(4) [OF p(1)] T(5) p(1) by auto
  have card_eq: "children = card (children_of parents p - V)"
    using D(4) [OF p(2)] children by simp
  have rest: "card (children_of parents p - insert node V) = children - 1"
  proof -
    have "children_of parents p - insert node V = (children_of parents p - V) - {node}" by blast
    moreover have "node \<in> children_of parents p - V" using child [of p] T(2) by simp
    ultimately show ?thesis using card_eq by (simp add: card_Diff_singleton)
  qed
  show pos: "children \<noteq> 0"
    using card_eq child [of p] T(2) by auto
  have others: "children_of parents k \<inter> insert node V = children_of parents k \<inter> V"
    "children_of parents k - insert node V = children_of parents k - V"
    "children_of parents k \<subseteq> insert node V \<longleftrightarrow> children_of parents k \<subseteq> V" if "k \<noteq> p" for k
    using that child by blast+
  have not_done: "\<not> children_of parents p \<subseteq> V"
    using child [of p] T(2) by auto
  have p_done: "children_of parents p \<subseteq> insert node V \<longleftrightarrow> children - 1 = 0"
    using rest card_0_eq [of "children_of parents p - insert node V"] by (metis Diff_eq_empty_iff finite_Diff finite_children)
  have stack: "insert node V \<union> set (if children - 1 = 0 then p # ready else ready) =
      {k \<in> node_set parents. children_of parents k \<subseteq> insert node V}"
  proof (rule set_eqI)
    fix k
    have "k \<in> V \<union> set (node # ready) \<longleftrightarrow> k \<in> node_set parents \<and> children_of parents k \<subseteq> V"
      unfolding D(3) by simp
    then show "k \<in> insert node V \<union> set (if children - 1 = 0 then p # ready else ready) \<longleftrightarrow>
        k \<in> {k \<in> node_set parents. children_of parents k \<subseteq> insert node V}"
      using others(3) [of k] p_done p(2) not_done by (cases "k = p") auto
  qed
  have "p \<notin> set ready"
    using D(3) not_done by auto
  then have "distinct (if children - 1 = 0 then p # ready else ready)"
    "set (if children - 1 = 0 then p # ready else ready) \<inter> insert node V = {}"
    using D(1,2) fresh by auto
  moreover have "map_of (AList.update p (children - 1) remaining) k =
      Some (card (children_of parents k - insert node V))" if "k \<in> node_set parents" for k
    using D(4) [OF that] rest others(2) [of k] by (cases "k = p") (simp_all add: update_conv')
  moreover have "dom (inclusive(p \<mapsto> m + n)) = node_set parents"
    using D(5) p(2) by auto
  moreover have "the ((inclusive(p \<mapsto> m + n)) k) =
      self k + (\<Sum>c \<in> children_of parents k \<inter> insert node V. the ((inclusive(p \<mapsto> m + n)) c))"
    if "k \<in> node_set parents" for k
  proof -
    have same: "(\<Sum>c \<in> children_of parents k \<inter> V. the ((inclusive(p \<mapsto> m + n)) c)) =
        (\<Sum>c \<in> children_of parents k \<inter> V. the (inclusive c))"
      using fresh by (intro sum.cong) auto
    show ?thesis
    proof (cases "k = p")
      case True
      have "children_of parents p \<inter> insert node V = insert node (children_of parents p \<inter> V)"
        using child [of p] by auto
      then have "(\<Sum>c \<in> children_of parents p \<inter> insert node V. the ((inclusive(p \<mapsto> m + n)) c)) =
          n + (\<Sum>c \<in> children_of parents p \<inter> V. the (inclusive c))"
        using T(2) fresh n(1) same True by simp
      with True D(6) [OF p(2)] n(2) show ?thesis by simp
    next
      case False
      with same others(1) D(6) [OF that] show ?thesis by simp
    qed
  qed
  ultimately show "fold_state parents self (f(node := card V)) (insert node V)
      (if children - 1 = 0 then p # ready else ready) (AList.update p (children - 1) remaining)
      (inclusive(p \<mapsto> m + n))"
    unfolding fold_state_def using stack rank_visit [OF inv] by (intro conjI ballI) simp_all
qed

subsection \<open>What the fold computes\<close>

lemma unvisited_less:
  assumes "fold_state parents self f V (node # ready) remaining inclusive"
  shows "card (node_set parents - insert node V) < card (node_set parents - V)"
  using top_of_stack(1,2) [OF assms] by (intro psubset_card_mono) auto

lemma fold_loop_child:
  assumes p: "parent_of parents node = Some p"
    and run: "fold_loop parents (node # ready) remaining inclusive visited = Some res"
  obtains n m children where "inclusive node = Some n" "inclusive p = Some m"
    "map_of remaining p = Some children"
    "fold_loop parents (if children - 1 = 0 then p # ready else ready)
       (AList.update p (children - 1) remaining) (inclusive(p \<mapsto> m + n)) (visited + 1) = Some res"
proof -
  from run p obtain n m where n: "inclusive node = Some n" "inclusive p = Some m"
    by (simp split: option.splits)
  with run p obtain children where c: "map_of remaining p = Some children"
    by (simp split: option.splits)
  from run p n c have "checked_add_i64 m n = Some (m + n)" "children \<noteq> 0"
    by (simp_all add: checked_add_i64_def split: if_splits)
  with run p n c have "fold_loop parents (if children - 1 = 0 then p # ready else ready)
       (AList.update p (children - 1) remaining) (inclusive(p \<mapsto> m + n)) (visited + 1) = Some res"
    by simp
  with that n c show ?thesis by blast
qed

lemma fold_loop_sound:
  assumes "fold_loop parents ready remaining inclusive visited = Some (visited', inclusive')"
    and "fold_state parents self f V ready remaining inclusive" and "visited = card V"
    and closed: "parents_closed parents"
  shows "\<exists>f V remaining'. fold_state parents self f V [] remaining' inclusive' \<and> visited' = card V"
  using assms(1-3)
proof (induction "card (node_set parents - V)" arbitrary: f V ready remaining inclusive visited
    rule: less_induct)
  case less
  note inv = less.prems(2)
  show ?case
  proof (cases ready)
    case Nil
    with less.prems show ?thesis by auto
  next
    case (Cons node rest)
    note inv = inv [unfolded Cons] and run = less.prems(1) [unfolded Cons]
    have size: "visited + 1 = card (insert node V)"
      using top_of_stack(2) [OF inv] fold_stateD(9) [OF inv] less.prems(3) by simp
    show ?thesis
    proof (cases "parent_of parents node")
      case None
      with run have "fold_loop parents rest remaining inclusive (visited + 1) = Some (visited', inclusive')"
        by simp
      from less.hyps [OF unvisited_less [OF inv] this visit_root [OF inv None] size] show ?thesis .
    next
      case (Some p)
      with closed have p: "p \<in> node_set parents" by (auto simp: parents_closed_def)
      obtain n m children where step: "inclusive node = Some n" "inclusive p = Some m"
        "map_of remaining p = Some children"
        "fold_loop parents (if children - 1 = 0 then p # rest else rest)
           (AList.update p (children - 1) remaining) (inclusive(p \<mapsto> m + n)) (visited + 1) =
         Some (visited', inclusive')"
        using fold_loop_child [OF Some run] by blast
      from less.hyps [OF unvisited_less [OF inv] step(4) visit_child(2) [OF inv Some p step(1,2,3)] size]
      show ?thesis .
    qed
  qed
qed

lemma count_children_sound:
  assumes "count_children values remaining = Some remaining'"
  shows "map fst remaining' = map fst remaining \<and>
    (\<forall>p. Some p \<in> set values \<longrightarrow> p \<in> fst ` set remaining) \<and>
    (\<forall>k. map_of remaining' k = map_option (\<lambda>n. n + count_list values (Some k)) (map_of remaining k))"
  using assms
proof (induction "values" remaining rule: count_children.induct)
  case (1 remaining)
  then show ?case by (simp add: option.map_ident)
next
  case (2 "values" remaining)
  then show ?case by simp
next
  case (3 parent "values" remaining)
  from "3.prems" obtain n where n: "map_of remaining parent = Some n"
    "count_children values (AList.update parent (n + 1) remaining) = Some remaining'"
    by (auto split: option.splits)
  have key: "parent \<in> fst ` set remaining"
    using n(1) by (auto simp flip: dom_map_of_conv_image_fst)
  then have keys: "map fst (AList.update parent (n + 1) remaining) = map fst remaining"
    by (simp add: update_keys)
  then have key_set: "fst ` set (AList.update parent (n + 1) remaining) = fst ` set remaining"
    by (metis list.set_map)
  note IH = "3.IH" [OF n]
  have "map_of remaining' k = map_option (\<lambda>n. n + count_list (Some parent # values) (Some k)) (map_of remaining k)" for k
    using IH n(1) by (cases "k = parent") (simp_all add: update_conv')
  with IH keys key key_set show ?case by auto
qed

lemma count_children_total:
  "(\<And>p. Some p \<in> set values \<Longrightarrow> p \<in> fst ` set remaining) \<Longrightarrow> \<exists>remaining'. count_children values remaining = Some remaining'"
proof (induction "values" remaining rule: count_children.induct)
  case (3 parent "values" remaining)
  from "3.prems" have key: "parent \<in> fst ` set remaining" by simp
  then obtain n where n: "map_of remaining parent = Some n"
    by (auto simp flip: dom_map_of_conv_image_fst)
  have "fst ` set (AList.update parent (n + 1) remaining) = fst ` set remaining"
    using key by (metis list.set_map update_keys)
  with "3.IH" [OF n] "3.prems" n show ?case by auto
qed simp_all

lemma card_children:
  assumes "distinct (map fst parents)"
  shows "card (children_of parents k) = count_list (map snd parents) (Some k)"
proof -
  have "parent_of parents c = Some k \<longleftrightarrow> (c, Some k) \<in> set parents" for c
    using map_of_eq_Some_iff [OF assms, of c "Some k"] by (auto simp: parent_of_def split: option.splits)
  then have "children_of parents k = fst ` set (filter (\<lambda>x. snd x = Some k) parents)"
    by (force simp: children_of_def)
  also have "card \<dots> = length (filter (\<lambda>x. snd x = Some k) parents)"
    using assms by (metis distinct_card distinct_map_filter length_map list.set_map)
  also have "\<dots> = count_list (map snd parents) (Some k)"
    by (induction parents) auto
  finally show ?thesis .
qed

lemma parents_closed_iff:
  assumes "distinct (map fst parents)"
  shows "parents_closed parents \<longleftrightarrow> (\<forall>p. Some p \<in> set (map snd parents) \<longrightarrow> p \<in> node_set parents)"
proof -
  have "parent_of parents c = Some p \<longleftrightarrow> (c, Some p) \<in> set parents" for c p
    using map_of_eq_Some_iff [OF assms, of c "Some p"] by (auto simp: parent_of_def split: option.splits)
  then show ?thesis by (force simp: parents_closed_def)
qed

lemma fold_start:
  assumes keys: "distinct (map fst parents)" and self: "dom self = node_set parents"
    and counted: "count_children (map snd parents) (map (\<lambda>(k, _). (k, 0)) parents) = Some remaining"
  shows "parents_closed parents \<and>
    fold_state parents (the \<circ> self) f {} (map fst (filter (\<lambda>(_, children). children = 0) remaining))
      remaining self"
proof -
  have zero_keys: "map fst (map (\<lambda>(k, _). (k, 0 :: nat)) parents) = map fst parents"
    by (simp add: comp_def case_prod_unfold)
  have zero: "map_of (map (\<lambda>(k, _). (k, 0 :: nat)) parents) k = (if k \<in> node_set parents then Some 0 else None)" for k
    unfolding node_set_def by (induction parents) auto
  have zero_set: "fst ` set (map (\<lambda>(k, _). (k, 0 :: nat)) parents) = node_set parents"
    unfolding node_set_def using zero_keys by (metis list.set_map)
  note C = count_children_sound [OF counted, unfolded zero_keys zero_set]
  have remaining: "map_of remaining k = Some (card (children_of parents k))" if "k \<in> node_set parents" for k
    using C that by (simp add: zero card_children [OF keys])
  have names: "map fst remaining = map fst parents" using C by simp
  have "set (map fst (filter (\<lambda>(_, children). children = 0) remaining)) =
      {k \<in> node_set parents. children_of parents k \<subseteq> {}}"
  proof -
    have "distinct (map fst remaining)" using names keys by simp
    then have entry: "(k, 0) \<in> set remaining \<longleftrightarrow> map_of remaining k = Some 0" for k by simp
    have "k \<in> node_set parents" if "(k, 0) \<in> set remaining" for k
      using that names by (metis fst_conv image_eqI list.set_map node_set_def)
    with remaining have "(k, 0) \<in> set remaining \<longleftrightarrow> k \<in> node_set parents \<and> children_of parents k \<subseteq> {}" for k
      by (cases "k \<in> node_set parents") (auto simp: entry)
    moreover have "k \<in> set (map fst (filter (\<lambda>(_, children). children = 0) remaining)) \<longleftrightarrow>
        (k, 0) \<in> set remaining" for k
      by force
    ultimately show ?thesis by blast
  qed
  moreover have "distinct (map fst (filter (\<lambda>(_, children). children = 0) remaining))"
    using names keys by (intro distinct_map_filter) simp
  ultimately show ?thesis
    using C self remaining by (simp add: fold_state_def parents_closed_iff [OF keys])
qed

lemma rank_acyclic:
  assumes "\<And>v c. v \<in> node_set parents \<Longrightarrow> c \<in> children_of parents v \<Longrightarrow> (f c :: nat) < f v"
    and "parents_closed parents"
  shows "acyclic (up parents)"
proof -
  have "f a < f b" if "(a, b) \<in> (up parents)\<^sup>+" for a b
    using that
  proof induction
    case (base b)
    with assms show ?case by (auto simp: children_of_def parents_closed_def)
  next
    case (step b c)
    with assms have "f b < f c" by (auto simp: children_of_def parents_closed_def)
    with step.IH show ?case by simp
  qed
  then show ?thesis by (auto simp: acyclic_def)
qed

text \<open>The nodes below a node, itself included.\<close>

definition subtree :: "('k \<times> 'k option) list \<Rightarrow> 'k \<Rightarrow> 'k set" where
  "subtree parents k = {d \<in> node_set parents. (d, k) \<in> (up parents)\<^sup>*}"

lemma subtree_unfold:
  assumes "k \<in> node_set parents"
  shows "subtree parents k = insert k (\<Union>c \<in> children_of parents k. subtree parents c)"
  using assms by (auto simp: subtree_def children_of_def elim: rtranclE intro: rtrancl_into_rtrancl)

lemma up_chain:
  assumes "(d, a) \<in> (up parents)\<^sup>*" "(d, b) \<in> (up parents)\<^sup>*"
  shows "(a, b) \<in> (up parents)\<^sup>* \<or> (b, a) \<in> (up parents)\<^sup>*"
  using assms
proof (induction rule: converse_rtrancl_induct)
  case (step d e)
  then show ?case
    by (metis converse_rtranclE option.inject r_into_rtrancl rtrancl_trans up_iff converse_rtrancl_into_rtrancl)
qed simp

lemma siblings_disjoint:
  assumes "acyclic (up parents)" "a \<in> children_of parents k" "b \<in> children_of parents k" "a \<noteq> b"
  shows "subtree parents a \<inter> subtree parents b = {}"
proof -
  have no: "(x, y) \<notin> (up parents)\<^sup>*" if "x \<in> children_of parents k" "y \<in> children_of parents k" "x \<noteq> y" for x y
  proof
    assume "(x, y) \<in> (up parents)\<^sup>*"
    with that have "(k, y) \<in> (up parents)\<^sup>*" by (auto simp: children_of_def elim: converse_rtranclE)
    with that(2) have "(k, k) \<in> (up parents)\<^sup>+" by (auto simp: children_of_def intro: rtrancl_into_trancl1)
    with assms(1) show False by (simp add: acyclic_def)
  qed
  show ?thesis
    using up_chain no [OF assms(2,3,4)] no [OF assms(3,2)] assms(4) by (fastforce simp: subtree_def)
qed

lemma subtree_sum:
  assumes acyclic: "acyclic (up parents)" and finite: "finite (up parents)"
    and local: "\<And>k. k \<in> node_set parents \<Longrightarrow> g k = self k + (\<Sum>c \<in> children_of parents k. g c)"
    and k: "k \<in> node_set parents"
  shows "g k = (\<Sum>d \<in> subtree parents k. self d :: int)"
  using finite_acyclic_wf [OF finite acyclic] k
proof (induction k rule: wf_induct_rule)
  case (less k)
  have "g k = self k + (\<Sum>c \<in> children_of parents k. \<Sum>d \<in> subtree parents c. self d)"
    using local [OF less.prems] less.IH children_nodes [of parents k]
    by (simp add: children_of_def) (intro sum.cong, auto)
  also have "(\<Sum>c \<in> children_of parents k. \<Sum>d \<in> subtree parents c. self d) =
      (\<Sum>d \<in> (\<Union>c \<in> children_of parents k. subtree parents c). self d)"
    using siblings_disjoint [OF acyclic]
    by (intro sum.UNION_disjoint [symmetric]) (auto simp: subtree_def)
  also have "self k + \<dots> = (\<Sum>d \<in> subtree parents k. self d)"
  proof -
    have "k \<notin> (\<Union>c \<in> children_of parents k. subtree parents c)"
    proof
      assume "k \<in> (\<Union>c \<in> children_of parents k. subtree parents c)"
      then obtain c where c: "(c, k) \<in> up parents" "(k, c) \<in> (up parents)\<^sup>*"
        by (auto simp: subtree_def children_of_def)
      from rtrancl_into_trancl1 [OF c(2,1)] acyclic show False by (simp add: acyclic_def)
    qed
    then show ?thesis
      unfolding subtree_unfold [OF less.prems] by (subst sum.insert) (auto simp: subtree_def)
  qed
  finally show ?case .
qed

lemma finite_up [simp]: "finite (up parents)"
proof -
  have "up parents \<subseteq> (\<lambda>k. (k, the (parent_of parents k))) ` node_set parents"
    using children_nodes by (force simp: children_of_def)
  then show ?thesis by (rule finite_subset) simp
qed

lemma length_node_set: "distinct (map fst parents) \<Longrightarrow> length parents = card (node_set parents)"
  unfolding node_set_def by (metis distinct_card length_map list.set_map)

lemma finished_state:
  assumes "fold_state parents self f V [] remaining inclusive"
  shows "V = node_set parents \<longleftrightarrow> card V = card (node_set parents)"
    "V = {k \<in> node_set parents. children_of parents k \<subseteq> V}"
proof -
  show V: "V = {k \<in> node_set parents. children_of parents k \<subseteq> V}"
    using fold_stateD(3) [OF assms] by simp
  then have "V \<subseteq> node_set parents" by blast
  then show "V = node_set parents \<longleftrightarrow> card V = card (node_set parents)"
    using card_subset_eq finite_node_set by metis
qed

lemma fold_inclusive_sound:
  assumes keys: "distinct (map fst parents)" and self: "dom self = node_set parents"
    and run: "fold_inclusive_counts parents self = Some inclusive"
  shows "parents_closed parents \<and> acyclic (up parents) \<and> dom inclusive = node_set parents \<and>
    (\<forall>k \<in> node_set parents. the (inclusive k) = (\<Sum>d \<in> subtree parents k. the (self d)))"
proof -
  from run obtain remaining visited where
    counted: "count_children (map snd parents) (map (\<lambda>(k, _). (k, 0)) parents) = Some remaining"
    and loop: "fold_loop parents (map fst (filter (\<lambda>(_, children). children = 0) remaining)) remaining self 0 =
      Some (visited, inclusive)" and all: "visited = length parents"
    by (auto simp: fold_inclusive_counts_def split: option.splits if_splits)
  from fold_start [OF keys self counted] have closed: "parents_closed parents"
    and start: "fold_state parents (the \<circ> self) f {}
      (map fst (filter (\<lambda>(_, children). children = 0) remaining)) remaining self" for f by blast+
  from fold_loop_sound [OF loop start _ closed] obtain f V remaining' where
    final: "fold_state parents (the \<circ> self) f V [] remaining' inclusive" and "visited = card V" by auto
  with all finished_state(1) [OF final] have V: "V = node_set parents"
    by (simp add: length_node_set [OF keys])
  note D = fold_stateD [OF final, unfolded V]
  have "acyclic (up parents)" using D(8) closed by (rule rank_acyclic)
  moreover have "the (inclusive k) = (\<Sum>d \<in> subtree parents k. (the \<circ> self) d)" if "k \<in> node_set parents" for k
  proof (rule subtree_sum [OF \<open>acyclic (up parents)\<close> finite_up _ that])
    fix k assume "k \<in> node_set parents"
    moreover have "children_of parents k \<inter> node_set parents = children_of parents k"
      using children_nodes [of parents k] by blast
    ultimately show "the (inclusive k) = (the \<circ> self) k + (\<Sum>c \<in> children_of parents k. the (inclusive c))"
      using D(6) by simp
  qed
  ultimately show ?thesis using closed D(5) by simp
qed

subsection \<open>When the fold succeeds\<close>

text \<open>Samples never get lost: those of the nodes to visit and of the visited roots are all samples.\<close>

definition kept_total :: "('k \<times> 'k option) list \<Rightarrow> 'k set \<Rightarrow> ('k \<rightharpoonup> int) \<Rightarrow> int" where
  "kept_total parents V inclusive =
     (\<Sum>k \<in> node_set parents - {v \<in> V. parent_of parents v \<noteq> None}. the (inclusive k))"

lemma kept_total_root:
  assumes "parent_of parents node = None"
  shows "kept_total parents (insert node V) inclusive = kept_total parents V inclusive"
proof -
  have "{v \<in> insert node V. parent_of parents v \<noteq> None} = {v \<in> V. parent_of parents v \<noteq> None}"
    using assms by auto
  then show ?thesis by (simp add: kept_total_def)
qed

lemma kept_total_child:
  assumes inv: "fold_state parents self f V (node # ready) remaining inclusive"
    and p: "parent_of parents node = Some p" "p \<in> node_set parents"
    and n: "inclusive node = Some n" "inclusive p = Some m"
  shows "kept_total parents (insert node V) (inclusive(p \<mapsto> m + n)) = kept_total parents V inclusive"
    and "(\<And>k. k \<in> node_set parents \<Longrightarrow> 0 \<le> the (inclusive k)) \<Longrightarrow> m + n \<le> kept_total parents V inclusive"
proof -
  note T = top_of_stack [OF inv]
  have fresh: "p \<notin> V" "p \<noteq> node" using T(4) [OF p(1)] T(5) p(1) by auto
  define rest where "rest = node_set parents - {v \<in> V. parent_of parents v \<noteq> None} - {node, p}"
  have rest: "finite rest" "node \<notin> rest" "p \<notin> rest" "rest \<subseteq> node_set parents"
    by (auto simp: rest_def)
  have "node_set parents - {v \<in> V. parent_of parents v \<noteq> None} = insert node (insert p rest)"
    using T(1,2) fresh p(2) by (auto simp: rest_def)
  then have before: "kept_total parents V inclusive = n + (m + (\<Sum>k \<in> rest. the (inclusive k)))"
    unfolding kept_total_def using n fresh(2) rest by simp
  have "node_set parents - {v \<in> insert node V. parent_of parents v \<noteq> None} = insert p rest"
    using fresh p by (auto simp: rest_def)
  then have after: "kept_total parents (insert node V) (inclusive(p \<mapsto> m + n)) =
      m + n + (\<Sum>k \<in> rest. the ((inclusive(p \<mapsto> m + n)) k))"
    unfolding kept_total_def using rest by simp
  have same: "(\<Sum>k \<in> rest. the ((inclusive(p \<mapsto> m + n)) k)) = (\<Sum>k \<in> rest. the (inclusive k))"
    using rest(3) by (intro sum.cong) auto
  show "kept_total parents (insert node V) (inclusive(p \<mapsto> m + n)) = kept_total parents V inclusive"
    unfolding after same before by simp
  show "m + n \<le> kept_total parents V inclusive"
    if "\<And>k. k \<in> node_set parents \<Longrightarrow> 0 \<le> the (inclusive k)"
    using before sum_nonneg [of rest "\<lambda>k. the (inclusive k)"] that rest(4) by auto
qed

lemma fold_loop_total:
  assumes "fold_state parents self f V ready remaining inclusive"
    and "\<And>k. k \<in> node_set parents \<Longrightarrow> 0 \<le> the (inclusive k)" and "kept_total parents V inclusive < 2 ^ 63"
    and closed: "parents_closed parents"
  shows "\<exists>visited' inclusive'. fold_loop parents ready remaining inclusive visited = Some (visited', inclusive')"
  using assms(1-3)
proof (induction "card (node_set parents - V)" arbitrary: f V ready remaining inclusive visited
    rule: less_induct)
  case less
  note inv = less.prems(1)
  show ?case
  proof (cases ready)
    case (Cons node rest)
    note inv = inv [unfolded Cons]
    note D = fold_stateD [OF inv] and T = top_of_stack [OF inv]
    show ?thesis
    proof (cases "parent_of parents node")
      case None
      with less.prems have "kept_total parents (insert node V) inclusive < 2 ^ 63"
        by (simp add: kept_total_root)
      from less.hyps [OF unvisited_less [OF inv] visit_root [OF inv None] less.prems(2) this] None Cons
      show ?thesis by simp
    next
      case (Some p)
      with closed have p: "p \<in> node_set parents" by (auto simp: parents_closed_def)
      from D(5) T(1) p obtain n m where n: "inclusive node = Some n" "inclusive p = Some m" by blast
      from D(4) [OF p] obtain children where c: "map_of remaining p = Some children" by blast
      note total = kept_total_child [OF inv Some p n]
      have nonneg: "0 \<le> n" "0 \<le> m" using less.prems(2) [OF T(1)] less.prems(2) [OF p] n by simp_all
      have "m + n < 2 ^ 63" using total(2) [OF less.prems(2)] less.prems(3) by simp
      with nonneg have add: "checked_add_i64 m n = Some (m + n)"
        by (simp add: checked_add_i64_def i64_range_def)
      note next_state = visit_child(2) [OF inv Some p n c]
      have "0 \<le> the ((inclusive(p \<mapsto> m + n)) k)" if "k \<in> node_set parents" for k
        using less.prems(2) [OF that] nonneg by simp
      moreover have "kept_total parents (insert node V) (inclusive(p \<mapsto> m + n)) < 2 ^ 63"
        unfolding total(1) by (rule less.prems(3))
      ultimately have "\<exists>visited' inclusive'. fold_loop parents (if children - 1 = 0 then p # rest else rest)
          (AList.update p (children - 1) remaining) (inclusive(p \<mapsto> m + n)) (visited + 1) =
          Some (visited', inclusive')"
        by (rule less.hyps [OF unvisited_less [OF inv] next_state])
      moreover have "fold_loop parents ready remaining inclusive visited =
          fold_loop parents (if children - 1 = 0 then p # rest else rest)
            (AList.update p (children - 1) remaining) (inclusive(p \<mapsto> m + n)) (visited + 1)"
        using visit_child(1) [OF inv Some p n c] Some n c add Cons by simp
      ultimately show ?thesis by simp
    qed
  qed simp
qed

lemma fold_inclusive_total:
  assumes keys: "distinct (map fst parents)" and self: "dom self = node_set parents"
    and closed: "parents_closed parents" and acyclic: "acyclic (up parents)"
    and nonneg: "\<And>k. k \<in> node_set parents \<Longrightarrow> 0 \<le> the (self k)"
    and small: "(\<Sum>k \<in> node_set parents. the (self k)) < 2 ^ 63"
  shows "\<exists>inclusive. fold_inclusive_counts parents self = Some inclusive"
proof -
  have zero_set: "fst ` set (map (\<lambda>(k, _). (k, 0 :: nat)) parents) = node_set parents"
    by (force simp: node_set_def)
  have "\<exists>remaining. count_children (map snd parents) (map (\<lambda>(k, _). (k, 0)) parents) = Some remaining"
    using closed count_children_total [of "map snd parents" "map (\<lambda>(k, _). (k, 0)) parents"]
    unfolding zero_set parents_closed_iff [OF keys] by blast
  then obtain remaining where
    counted: "count_children (map snd parents) (map (\<lambda>(k, _). (k, 0)) parents) = Some remaining" by blast
  from fold_start [OF keys self counted]
  have start: "fold_state parents (the \<circ> self) f {}
      (map fst (filter (\<lambda>(_, children). children = 0) remaining)) remaining self" for f by blast
  have "kept_total parents {} self < 2 ^ 63" using small by (simp add: kept_total_def)
  from fold_loop_total [OF start nonneg this closed] obtain visited inclusive where
    loop: "fold_loop parents (map fst (filter (\<lambda>(_, children). children = 0) remaining)) remaining self 0 =
      Some (visited, inclusive)" by blast
  from fold_loop_sound [OF loop start _ closed] obtain f V remaining' where
    final: "fold_state parents (the \<circ> self) f V [] remaining' inclusive" and visited: "visited = card V" by auto
  have "k \<in> V" if "k \<in> node_set parents" for k
    using finite_acyclic_wf [OF finite_up acyclic] that
  proof (induction k rule: wf_induct_rule)
    case (less k)
    then have "children_of parents k \<subseteq> V"
      using children_nodes [of parents k] by (auto simp: children_of_def)
    with less.prems finished_state(2) [OF final] show ?case by blast
  qed
  with finished_state(2) [OF final] have "V = node_set parents" by blast
  with visited have "visited = length parents" by (simp add: length_node_set [OF keys])
  with counted loop show ?thesis by (simp add: fold_inclusive_counts_def)
qed

end
