(* ===== verification/DF_Ranked_Profile.thy ===== *)
theory DF_Ranked_Profile
  imports DF_Sample_Fold
begin

section \<open>Ranked profiles\<close>

text \<open>
  The document of \<open>perfetto_profile/ranked_report.rs\<close> and its validation: the semantic hierarchy of
  the operations, the native functions sampled below each of its nodes, and the sample counts. The
  archived form of a document is validated by the same macro on the same values. An \<open>i64\<close> or \<open>u32\<close>
  is an \<open>int\<close>.
\<close>

definition MAX_RECORDS_PER_COLLECTION :: nat where
  "MAX_RECORDS_PER_COLLECTION = 500000"

definition RANKED_PROFILE_SCHEMA_VERSION :: int where
  "RANKED_PROFILE_SCHEMA_VERSION = 3"

definition MAX_DISPLAY_STRING_CHARS :: nat where
  "MAX_DISPLAY_STRING_CHARS = 512"

record RankedProfileMetadata =
  rm_capture_complete :: bool
  rm_semantic_complete :: bool
  rm_finalization_observed :: bool
  rm_incomplete_operation_root_count :: int
  rm_truncation_marker_count :: int
  rm_missing_identity_field_count :: int
  rm_missing_terminal_result_count :: int
  rm_crossing_worker_slice_count :: int
  rm_crossing_planning_activity_slice_count :: int
  rm_crossing_execution_activity_slice_count :: int
  rm_invalid_planning_activity_hierarchy_count :: int
  rm_invalid_execution_activity_hierarchy_count :: int
  rm_perf_sample_without_callsite_count :: int
  rm_perf_samples_skipped :: int
  rm_buffer_loss_count :: int
  rm_data_source_loss_count :: int
  rm_flush_failure_count :: int
  rm_schema_version :: int
  rm_sample_frequency_hz :: int
  rm_sampled_cpu_count :: int
  rm_exact_time_unit :: string
  rm_sample_unit :: string
  rm_eligible_sample_count :: int
  rm_direct_sample_count :: int
  rm_ambiguous_sample_count :: int
  rm_unattributed_sample_count :: int
  rm_resolved_function_sample_count :: int
  rm_unresolved_function_sample_count :: int
  rm_unwind_error_sample_count :: int
  rm_missing_callstack_sample_count :: int
  rm_trace_profiler_dropped_sample_count :: int

record RankedSemantic =
  sm_semantic_id :: int
  sm_parent_semantic_id :: "int option"
  sm_operation_id :: int
  sm_name :: string
  sm_semantic_kind :: string
  sm_operation_kind :: "string option"
  sm_stage_category :: "string option"
  sm_stage_name :: "string option"
  sm_activity :: "string option"
  sm_start_ns :: int
  sm_end_ns :: "int option"
  sm_duration_ns :: "int option"
  sm_time_semantics :: string
  sm_result :: "string option"
  sm_is_complete :: bool
  sm_query_execution_id :: "int option"
  sm_query_scope :: "string option"
  sm_query_owner :: "string option"
  sm_worker_lane_id :: "int option"
  sm_worker_kind :: "string option"
  sm_node_id :: "int option"
  sm_parent_node_id :: "int option"
  sm_operator_partition :: "int option"
  sm_execution_stream_id :: "int option"
  sm_stage_owner_id :: "int option"
  sm_direct_sample_count :: int
  sm_inclusive_sample_count :: int
  sm_resolved_function_sample_count :: int
  sm_unresolved_function_sample_count :: int
  sm_unwind_error_sample_count :: int
  sm_missing_callstack_sample_count :: int

definition semantic_requires_terminal_result :: "string \<Rightarrow> bool" where
  "semantic_requires_terminal_result semantic_kind \<longleftrightarrow>
     semantic_kind \<in> {''operation'', ''phase'', ''query_planning'', ''activity''}"

record RankedFunction =
  fn_semantic_id :: int
  fn_function_id :: int
  fn_parent_function_id :: "int option"
  fn_name :: string
  fn_module_name :: "string option"
  fn_source_file :: "string option"
  fn_line_number :: "int option"
  fn_self_sample_count :: int
  fn_inclusive_sample_count :: int

record RankedProfileDocument =
  rd_metadata :: RankedProfileMetadata
  rd_semantics :: "RankedSemantic list"
  rd_functions :: "RankedFunction list"

datatype RankedProfileValidationError =
  TooManyRecords string nat nat
| DisplayStringTooLong string int string nat nat
| UnsafeFunctionMetadata int int string
| UnsupportedSchemaVersion int
| InvalidSampleFrequency
| InvalidUnit string string
| InconsistentCaptureHealth string
| InvalidSemanticTimeSemantics int
| InvalidSemanticInterval int string
| MissingSemanticNodes
| DuplicateSemanticId int
| MissingSemanticParent int int
| CrossOperationSemanticParent int int
| SemanticCycle int
| InvalidOperationRootCount int nat
| InvalidOperationRootKind int int
| MissingFunctionOwner int int
| DuplicateFunctionId int int
| MissingFunctionParent int int int
| CrossSemanticFunctionParent int int int
| FunctionCycle int int
| NegativeSampleCount string int string int
| SampleCountOverflow string
| CoverageMismatch int int
| DirectSampleMismatch int int
| FunctionCoverageMismatch "int option" int int
| FunctionCoverageSummaryMismatch string int int
| SemanticInclusiveMismatch int int int
| FunctionSelfMismatch int int int
| FunctionInclusiveMismatch int int int int

subsection \<open>Paths of the source metadata\<close>

definition is_separator :: "char \<Rightarrow> bool" where
  "is_separator c \<longleftrightarrow> c = CHR ''/'' \<or> c = CHR 0x5C"

fun split_path :: "string \<Rightarrow> string list" where
  "split_path [] = [[]]"
| "split_path (c # s) =
     (if is_separator c then [] # split_path s
      else case split_path s of [] \<Rightarrow> [[c]] | segment # segments \<Rightarrow> (c # segment) # segments)"

definition is_safe_path_segment :: "string \<Rightarrow> bool" where
  "is_safe_path_segment segment \<longleftrightarrow>
     \<not> (segment = [] \<or> segment = ''.'' \<or> segment = ''..'' \<or> hd segment = CHR ''~'') \<and>
     \<not> (2 \<le> length segment \<and> is_ascii_alphabetic (segment ! 0) \<and> segment ! 1 = CHR '':'')"

definition path_segments :: "string \<Rightarrow> string list" where
  "path_segments path = filter (\<lambda>segment. segment \<noteq> [] \<and> segment \<noteq> ''.'') (split_path path)"

definition safe_basename :: "string \<Rightarrow> string option" where
  "safe_basename path =
     (case rev (path_segments path) of
        [] \<Rightarrow> None
      | basename # _ \<Rightarrow> if is_safe_path_segment basename then Some basename else None)"

definition normalize_module_name :: "string \<Rightarrow> string option" where
  "normalize_module_name = safe_basename"

definition is_absolute_path :: "string \<Rightarrow> bool" where
  "is_absolute_path path \<longleftrightarrow>
     (path \<noteq> [] \<and> is_separator (hd path)) \<or>
     (3 \<le> length path \<and> is_ascii_alphabetic (path ! 0) \<and> path ! 1 = CHR '':'' \<and> is_separator (path ! 2))"

definition SOURCE_ROOTS :: "string list" where
  "SOURCE_ROOTS = [''benches'', ''crates'', ''examples'', ''src'', ''tests'', ''xtask'']"

fun rposition :: "('a \<Rightarrow> bool) \<Rightarrow> 'a list \<Rightarrow> nat option" where
  "rposition P [] = None"
| "rposition P (x # xs) =
     (case rposition P xs of Some i \<Rightarrow> Some (Suc i) | None \<Rightarrow> if P x then Some 0 else None)"

fun join_path :: "string list \<Rightarrow> string" where
  "join_path [] = []"
| "join_path [segment] = segment"
| "join_path (segment # segments) = segment @ CHR ''/'' # join_path segments"

definition normalize_source_file :: "string \<Rightarrow> string option" where
  "normalize_source_file path =
     (let segments = path_segments path in
      if segments = [] \<or> \<not> is_safe_path_segment (last segments) then None
      else
        let basename = last segments in
        if ''..'' \<in> set segments then Some basename
        else
          let start =
            (if is_absolute_path path then rposition (\<lambda>segment. segment \<in> set SOURCE_ROOTS) segments
             else if hd segments \<in> set SOURCE_ROOTS then Some 0
             else rposition (\<lambda>segment. segment = ''src'') segments)
          in case start of
               None \<Rightarrow> Some basename
             | Some start \<Rightarrow>
                 let safe_segments = drop start segments in
                 if list_ex (\<lambda>segment. \<not> is_safe_path_segment segment) safe_segments then Some basename
                 else Some (join_path safe_segments))"

definition normalize_source_metadata :: "RankedProfileDocument \<Rightarrow> RankedProfileDocument" where
  "normalize_source_metadata document =
     document\<lparr>rd_functions := map (\<lambda>function. function\<lparr>
       fn_module_name := Option.bind (fn_module_name function) normalize_module_name,
       fn_source_file := Option.bind (fn_source_file function) normalize_source_file\<rparr>)
       (rd_functions document)\<rparr>"

subsection \<open>Bounds and metadata\<close>

fun try_for_each :: "('a \<Rightarrow> 'e + unit) \<Rightarrow> 'a list \<Rightarrow> 'e + unit" where
  "try_for_each f [] = Inr ()"
| "try_for_each f (x # xs) = res_bind (f x) (\<lambda>_. try_for_each f xs)"

definition require_collection_bound :: "string \<Rightarrow> nat \<Rightarrow> RankedProfileValidationError + unit" where
  "require_collection_bound record_kind n =
     ensure (n \<le> MAX_RECORDS_PER_COLLECTION) (TooManyRecords record_kind n MAX_RECORDS_PER_COLLECTION)"

definition require_display_string ::
    "string \<Rightarrow> int \<Rightarrow> string \<Rightarrow> string \<Rightarrow> RankedProfileValidationError + unit" where
  "require_display_string record_kind record_id field text =
     ensure (length text \<le> MAX_DISPLAY_STRING_CHARS)
       (DisplayStringTooLong record_kind record_id field (length text) MAX_DISPLAY_STRING_CHARS)"

definition require_optional_string ::
    "string \<Rightarrow> int \<Rightarrow> string \<times> string option \<Rightarrow> RankedProfileValidationError + unit" where
  "require_optional_string record_kind record_id entry =
     (case entry of
        (field, Some text) \<Rightarrow> require_display_string record_kind record_id field text
      | (_, None) \<Rightarrow> Inr ())"

definition validate_semantic_bounds :: "RankedSemantic \<Rightarrow> RankedProfileValidationError + unit" where
  "validate_semantic_bounds semantic =
     try_for_each (require_optional_string ''semantic'' (sm_semantic_id semantic))
       [(''name'', Some (sm_name semantic)),
        (''semantic_kind'', Some (sm_semantic_kind semantic)),
        (''operation_kind'', sm_operation_kind semantic),
        (''stage_category'', sm_stage_category semantic),
        (''stage_name'', sm_stage_name semantic),
        (''activity'', sm_activity semantic),
        (''time_semantics'', Some (sm_time_semantics semantic)),
        (''result'', sm_result semantic),
        (''query_scope'', sm_query_scope semantic),
        (''query_owner'', sm_query_owner semantic),
        (''worker_kind'', sm_worker_kind semantic)]"

definition validate_function_bounds :: "RankedFunction \<Rightarrow> RankedProfileValidationError + unit" where
  "validate_function_bounds function =
     res_bind (try_for_each (require_optional_string ''function'' (fn_function_id function))
         [(''module_name'', fn_module_name function), (''source_file'', fn_source_file function)]) (\<lambda>_.
       try_for_each
         (\<lambda>(field, text, normalized).
            ensure (text = None \<or> normalized = text)
              (UnsafeFunctionMetadata (fn_semantic_id function) (fn_function_id function) field))
         [(''module_name'', fn_module_name function,
             Option.bind (fn_module_name function) normalize_module_name),
          (''source_file'', fn_source_file function,
             Option.bind (fn_source_file function) normalize_source_file)])"

definition validate_bounds :: "RankedProfileDocument \<Rightarrow> RankedProfileValidationError + unit" where
  "validate_bounds document =
     res_bind (require_collection_bound ''semantic'' (length (rd_semantics document))) (\<lambda>_.
     res_bind (require_collection_bound ''function'' (length (rd_functions document))) (\<lambda>_.
     res_bind (try_for_each validate_semantic_bounds (rd_semantics document)) (\<lambda>_.
       try_for_each validate_function_bounds (rd_functions document))))"

definition validate_semantic_interval :: "RankedSemantic \<Rightarrow> RankedProfileValidationError + unit" where
  "validate_semantic_interval semantic =
     res_bind (ensure (sm_time_semantics semantic \<in> {''wall_clock'', ''lifecycle''})
         (InvalidSemanticTimeSemantics (sm_semantic_id semantic))) (\<lambda>_.
       let invalid = InvalidSemanticInterval (sm_semantic_id semantic) in
       (case (sm_is_complete semantic, sm_end_ns semantic, sm_duration_ns semantic) of
          (False, None, None) \<Rightarrow>
            ensure (sm_result semantic = None) (invalid ''incomplete interval has a terminal result'')
        | (False, _, _) \<Rightarrow> Inl (invalid ''incomplete interval has an end or duration'')
        | (True, Some end_ns, Some duration_ns) \<Rightarrow>
            res_bind (ensure (\<not> (duration_ns < 0 \<or>
                checked_add_i64 end_ns (- sm_start_ns semantic) \<noteq> Some duration_ns))
              (invalid ''complete interval has inconsistent bounds'')) (\<lambda>_.
              ensure (\<not> (semantic_requires_terminal_result (sm_semantic_kind semantic) \<and>
                  sm_result semantic = None))
                (invalid ''complete interval is missing a terminal result''))
        | (True, _, _) \<Rightarrow> Inl (invalid ''complete interval is missing an end or duration'')))"

definition validate_metadata_and_intervals ::
    "RankedProfileDocument \<Rightarrow> RankedProfileValidationError + unit" where
  "validate_metadata_and_intervals document =
     (let metadata = rd_metadata document; semantics = rd_semantics document in
      res_bind (ensure (rm_schema_version metadata = RANKED_PROFILE_SCHEMA_VERSION)
        (UnsupportedSchemaVersion (rm_schema_version metadata))) (\<lambda>_.
      res_bind (ensure (rm_sample_frequency_hz metadata \<noteq> 0) InvalidSampleFrequency) (\<lambda>_.
      res_bind (ensure (rm_exact_time_unit metadata = ''nanoseconds'')
        (InvalidUnit ''exact_time_unit'' ''nanoseconds'')) (\<lambda>_.
      res_bind (ensure (rm_sample_unit metadata = ''samples'')
        (InvalidUnit ''sample_unit'' ''samples'')) (\<lambda>_.
      res_bind (ensure
        (rm_incomplete_operation_root_count metadata =
           int (length (filter (\<lambda>s. sm_semantic_kind s = ''operation'' \<and> \<not> sm_is_complete s) semantics)) \<and>
         rm_missing_terminal_result_count metadata =
           int (length (filter (\<lambda>s. sm_result s = None \<and>
             semantic_requires_terminal_result (sm_semantic_kind s)) semantics)))
        (InconsistentCaptureHealth ''semantic health counts do not match retained records'')) (\<lambda>_.
      res_bind (ensure (\<not> 0 < rm_missing_identity_field_count metadata)
        (InconsistentCaptureHealth ''ownership identity is incomplete'')) (\<lambda>_.
      res_bind (ensure (\<not> list_ex (\<lambda>n. 0 < n)
          [rm_crossing_worker_slice_count metadata, rm_crossing_planning_activity_slice_count metadata,
           rm_crossing_execution_activity_slice_count metadata,
           rm_invalid_planning_activity_hierarchy_count metadata,
           rm_invalid_execution_activity_hierarchy_count metadata])
        (InconsistentCaptureHealth ''semantic hierarchy is invalid'')) (\<lambda>_.
      res_bind (ensure (\<not> (rm_semantic_complete metadata \<and> list_ex (\<lambda>n. 0 < n)
          [rm_incomplete_operation_root_count metadata, rm_truncation_marker_count metadata,
           rm_missing_terminal_result_count metadata]))
        (InconsistentCaptureHealth ''semantic data is complete despite semantic degradation'')) (\<lambda>_.
      res_bind (ensure (\<not> (rm_capture_complete metadata \<and>
          (\<not> rm_semantic_complete metadata \<or> \<not> rm_finalization_observed metadata \<or>
           0 < rm_buffer_loss_count metadata \<or> 0 < rm_data_source_loss_count metadata \<or>
           0 < rm_flush_failure_count metadata \<or> 0 < rm_trace_profiler_dropped_sample_count metadata)))
        (InconsistentCaptureHealth ''capture is complete despite capture degradation'')) (\<lambda>_.
        try_for_each validate_semantic_interval semantics))))))))))"

subsection \<open>Structure\<close>

definition semantic_parents :: "RankedProfileDocument \<Rightarrow> (int \<times> int option) list" where
  "semantic_parents document =
     map (\<lambda>semantic. (sm_semantic_id semantic, sm_parent_semantic_id semantic)) (rd_semantics document)"

definition fn_identity :: "RankedFunction \<Rightarrow> int \<times> int" where
  "fn_identity function = (fn_semantic_id function, fn_function_id function)"

definition function_parents :: "RankedProfileDocument \<Rightarrow> ((int \<times> int) \<times> (int \<times> int) option) list" where
  "function_parents document =
     map (\<lambda>function. (fn_identity function,
       map_option (\<lambda>parent_id. (fn_semantic_id function, parent_id)) (fn_parent_function_id function)))
       (rd_functions document)"

fun unique_keys :: "('a \<Rightarrow> 'k) \<Rightarrow> ('k \<Rightarrow> 'e) \<Rightarrow> 'k set \<Rightarrow> 'a list \<Rightarrow> 'e + unit" where
  "unique_keys key duplicate seen [] = Inr ()"
| "unique_keys key duplicate seen (x # xs) =
     (if key x \<in> seen then Inl (duplicate (key x))
      else unique_keys key duplicate (insert (key x) seen) xs)"

definition validate_semantic_parent ::
    "RankedSemantic list \<Rightarrow> RankedSemantic \<Rightarrow> RankedProfileValidationError + unit" where
  "validate_semantic_parent semantics semantic =
     (case sm_parent_semantic_id semantic of
        None \<Rightarrow> Inr ()
      | Some parent_id \<Rightarrow>
          (case map_of (map (\<lambda>s. (sm_semantic_id s, s)) semantics) parent_id of
             None \<Rightarrow> Inl (MissingSemanticParent (sm_semantic_id semantic) parent_id)
           | Some parent \<Rightarrow>
               ensure (sm_operation_id parent = sm_operation_id semantic)
                 (CrossOperationSemanticParent (sm_semantic_id semantic) parent_id)))"

record OperationRootState =
  or_root_count :: nat
  or_first_root_id :: "int option"
  or_first_root_is_operation :: bool
  or_first_non_root_operation_id :: "int option"

definition OperationRootState_default :: OperationRootState where
  "OperationRootState_default =
     \<lparr>or_root_count = 0, or_first_root_id = None, or_first_root_is_operation = False,
      or_first_non_root_operation_id = None\<rparr>"

definition note_root :: "RankedSemantic \<Rightarrow> OperationRootState \<Rightarrow> OperationRootState" where
  "note_root semantic state =
     (if sm_parent_semantic_id semantic = None then
        let state = state\<lparr>or_root_count := or_root_count state + 1\<rparr> in
        if or_first_root_id state = None then
          state\<lparr>or_first_root_id := Some (sm_semantic_id semantic),
                or_first_root_is_operation := (sm_semantic_kind semantic = ''operation'')\<rparr>
        else state
      else if sm_semantic_kind semantic = ''operation'' \<and> or_first_non_root_operation_id state = None then
        state\<lparr>or_first_non_root_operation_id := Some (sm_semantic_id semantic)\<rparr>
      else state)"

definition operation_step ::
    "RankedSemantic \<Rightarrow> int list \<times> (int \<rightharpoonup> OperationRootState) \<Rightarrow> int list \<times> (int \<rightharpoonup> OperationRootState)" where
  "operation_step semantic st =
     (case st of (operation_order, operations) \<Rightarrow>
        let operation_id = sm_operation_id semantic;
            operation_order = (if operations operation_id = None then operation_order @ [operation_id]
                               else operation_order);
            state = (case operations operation_id of Some state \<Rightarrow> state | None \<Rightarrow> OperationRootState_default)
        in (operation_order, operations(operation_id \<mapsto> note_root semantic state)))"

definition validate_operation_roots ::
    "(int \<rightharpoonup> OperationRootState) \<Rightarrow> int \<Rightarrow> RankedProfileValidationError + unit" where
  "validate_operation_roots operations operation_id =
     (let state = the (operations operation_id) in
      res_bind (ensure (or_root_count state = 1)
        (InvalidOperationRootCount operation_id (or_root_count state))) (\<lambda>_.
        ensure (\<not> (\<not> or_first_root_is_operation state \<or> or_first_non_root_operation_id state \<noteq> None))
          (InvalidOperationRootKind operation_id
            (case or_first_non_root_operation_id state of
               Some semantic_id \<Rightarrow> semantic_id
             | None \<Rightarrow> the (or_first_root_id state)))))"

fun validate_function_owners ::
    "int set \<Rightarrow> (int \<times> int) set \<Rightarrow> RankedFunction list \<Rightarrow> RankedProfileValidationError + unit" where
  "validate_function_owners semantic_ids seen [] = Inr ()"
| "validate_function_owners semantic_ids seen (function # functions) =
     (if fn_semantic_id function \<notin> semantic_ids then
        Inl (MissingFunctionOwner (fn_semantic_id function) (fn_function_id function))
      else if fn_identity function \<in> seen then
        Inl (DuplicateFunctionId (fn_semantic_id function) (fn_function_id function))
      else validate_function_owners semantic_ids (insert (fn_identity function) seen) functions)"

definition validate_function_parent ::
    "RankedFunction list \<Rightarrow> RankedFunction \<Rightarrow> RankedProfileValidationError + unit" where
  "validate_function_parent functions function =
     (case fn_parent_function_id function of
        None \<Rightarrow> Inr ()
      | Some parent_id \<Rightarrow>
          if (fn_semantic_id function, parent_id) \<in> fn_identity ` set functions then Inr ()
          else if parent_id \<in> fn_function_id ` set functions then
            Inl (CrossSemanticFunctionParent (fn_semantic_id function) (fn_function_id function) parent_id)
          else Inl (MissingFunctionParent (fn_semantic_id function) (fn_function_id function) parent_id))"

definition validate_structure :: "RankedProfileDocument \<Rightarrow> RankedProfileValidationError + unit" where
  "validate_structure document =
     (let semantics = rd_semantics document; functions = rd_functions document in
      res_bind (ensure (semantics \<noteq> []) MissingSemanticNodes) (\<lambda>_.
      res_bind (unique_keys sm_semantic_id DuplicateSemanticId {} semantics) (\<lambda>_.
      res_bind (try_for_each (validate_semantic_parent semantics) semantics) (\<lambda>_.
      res_bind (case first_cycle (semantic_parents document) (map sm_semantic_id semantics) of
          Some semantic_id \<Rightarrow> Inl (SemanticCycle semantic_id) | None \<Rightarrow> Inr ()) (\<lambda>_.
      let (operation_order, operations) = fold operation_step semantics ([], Map.empty) in
      res_bind (try_for_each (validate_operation_roots operations) operation_order) (\<lambda>_.
      res_bind (validate_function_owners (sm_semantic_id ` set semantics) {} functions) (\<lambda>_.
      res_bind (try_for_each (validate_function_parent functions) functions) (\<lambda>_.
        case first_cycle (function_parents document) (map fn_identity functions) of
          Some (semantic_id, function_id) \<Rightarrow> Inl (FunctionCycle semantic_id function_id)
        | None \<Rightarrow> Inr ()))))))))"

subsection \<open>Sample counts\<close>

definition require_nonnegative ::
    "string \<Rightarrow> int \<Rightarrow> string \<times> int \<Rightarrow> RankedProfileValidationError + unit" where
  "require_nonnegative record_kind record_id entry =
     (case entry of (field, n) \<Rightarrow> ensure (\<not> n < 0) (NegativeSampleCount record_kind record_id field n))"

fun checked_sum :: "int \<Rightarrow> int list \<Rightarrow> int option" where
  "checked_sum n [] = Some n"
| "checked_sum n (m # ms) = Option.bind (checked_add_i64 n m) (\<lambda>n. checked_sum n ms)"

definition option_ok_or :: "'a option \<Rightarrow> 'e \<Rightarrow> 'e + 'a" where
  "option_ok_or x e = (case x of Some a \<Rightarrow> Inr a | None \<Rightarrow> Inl e)"

definition validate_function_coverage ::
    "int option \<Rightarrow> int \<Rightarrow> int \<Rightarrow> int \<Rightarrow> int \<Rightarrow> int \<Rightarrow> RankedProfileValidationError + unit" where
  "validate_function_coverage semantic_id direct resolved unresolved unwind_error missing_callstack =
     res_bind (option_ok_or (checked_sum resolved [unresolved, unwind_error, missing_callstack])
         (SampleCountOverflow ''native stack coverage'')) (\<lambda>classified.
       ensure (classified = direct) (FunctionCoverageMismatch semantic_id direct classified))"

text \<open>The totals of the loop over the semantic nodes: direct samples and the four kinds of stacks.\<close>

definition semantic_count_step ::
    "RankedSemantic \<Rightarrow> int \<times> int list \<Rightarrow> RankedProfileValidationError + int \<times> int list" where
  "semantic_count_step semantic totals =
     (case totals of (direct_total, function_totals) \<Rightarrow>
      let semantic_id = sm_semantic_id semantic;
          counts = [sm_resolved_function_sample_count semantic, sm_unresolved_function_sample_count semantic,
            sm_unwind_error_sample_count semantic, sm_missing_callstack_sample_count semantic]
      in res_bind (try_for_each (require_nonnegative ''semantic'' semantic_id)
           [(''direct_sample_count'', sm_direct_sample_count semantic),
            (''inclusive_sample_count'', sm_inclusive_sample_count semantic),
            (''resolved_function_sample_count'', sm_resolved_function_sample_count semantic),
            (''unresolved_function_sample_count'', sm_unresolved_function_sample_count semantic),
            (''unwind_error_sample_count'', sm_unwind_error_sample_count semantic),
            (''missing_callstack_sample_count'', sm_missing_callstack_sample_count semantic)]) (\<lambda>_.
         res_bind (validate_function_coverage (Some semantic_id) (sm_direct_sample_count semantic)
           (sm_resolved_function_sample_count semantic) (sm_unresolved_function_sample_count semantic)
           (sm_unwind_error_sample_count semantic) (sm_missing_callstack_sample_count semantic)) (\<lambda>_.
         res_bind (option_ok_or (checked_add_i64 direct_total (sm_direct_sample_count semantic))
           (SampleCountOverflow ''semantic direct'')) (\<lambda>direct_total.
         res_bind (option_ok_or (those (map2 checked_add_i64 function_totals counts))
           (SampleCountOverflow ''semantic function coverage'')) (\<lambda>function_totals.
           Inr (direct_total, function_totals))))))"

fun try_fold_with :: "('a \<Rightarrow> 'b \<Rightarrow> 'e + 'b) \<Rightarrow> 'a list \<Rightarrow> 'b \<Rightarrow> 'e + 'b" where
  "try_fold_with f [] b = Inr b"
| "try_fold_with f (x # xs) b = res_bind (f x b) (try_fold_with f xs)"

definition validate_metadata_counts ::
    "RankedProfileMetadata \<Rightarrow> RankedProfileValidationError + unit" where
  "validate_metadata_counts metadata =
     res_bind (try_for_each (require_nonnegative ''profile'' 0)
       [(''incomplete_operation_root_count'', rm_incomplete_operation_root_count metadata),
        (''truncation_marker_count'', rm_truncation_marker_count metadata),
        (''missing_identity_field_count'', rm_missing_identity_field_count metadata),
        (''missing_terminal_result_count'', rm_missing_terminal_result_count metadata),
        (''crossing_worker_slice_count'', rm_crossing_worker_slice_count metadata),
        (''crossing_planning_activity_slice_count'', rm_crossing_planning_activity_slice_count metadata),
        (''crossing_execution_activity_slice_count'', rm_crossing_execution_activity_slice_count metadata),
        (''invalid_planning_activity_hierarchy_count'', rm_invalid_planning_activity_hierarchy_count metadata),
        (''invalid_execution_activity_hierarchy_count'', rm_invalid_execution_activity_hierarchy_count metadata),
        (''perf_sample_without_callsite_count'', rm_perf_sample_without_callsite_count metadata),
        (''perf_samples_skipped'', rm_perf_samples_skipped metadata),
        (''buffer_loss_count'', rm_buffer_loss_count metadata),
        (''data_source_loss_count'', rm_data_source_loss_count metadata),
        (''flush_failure_count'', rm_flush_failure_count metadata),
        (''eligible_sample_count'', rm_eligible_sample_count metadata),
        (''direct_sample_count'', rm_direct_sample_count metadata),
        (''ambiguous_sample_count'', rm_ambiguous_sample_count metadata),
        (''unattributed_sample_count'', rm_unattributed_sample_count metadata),
        (''resolved_function_sample_count'', rm_resolved_function_sample_count metadata),
        (''unresolved_function_sample_count'', rm_unresolved_function_sample_count metadata),
        (''unwind_error_sample_count'', rm_unwind_error_sample_count metadata),
        (''missing_callstack_sample_count'', rm_missing_callstack_sample_count metadata),
        (''trace_profiler_dropped_sample_count'', rm_trace_profiler_dropped_sample_count metadata)]) (\<lambda>_.
     res_bind (option_ok_or (checked_sum (rm_direct_sample_count metadata)
         [rm_ambiguous_sample_count metadata, rm_unattributed_sample_count metadata])
       (SampleCountOverflow ''coverage'')) (\<lambda>classified.
     res_bind (ensure (classified = rm_eligible_sample_count metadata)
       (CoverageMismatch (rm_eligible_sample_count metadata) classified)) (\<lambda>_.
       validate_function_coverage None (rm_direct_sample_count metadata)
         (rm_resolved_function_sample_count metadata) (rm_unresolved_function_sample_count metadata)
         (rm_unwind_error_sample_count metadata) (rm_missing_callstack_sample_count metadata))))"

definition function_self_step ::
    "RankedFunction \<Rightarrow> (int \<rightharpoonup> int) \<Rightarrow> RankedProfileValidationError + (int \<rightharpoonup> int)" where
  "function_self_step function by_semantic =
     res_bind (try_for_each (require_nonnegative ''function'' (fn_function_id function))
         [(''self_sample_count'', fn_self_sample_count function),
          (''inclusive_sample_count'', fn_inclusive_sample_count function)]) (\<lambda>_.
     res_bind (option_ok_or (checked_add_i64
         (case by_semantic (fn_semantic_id function) of Some n \<Rightarrow> n | None \<Rightarrow> 0)
         (fn_self_sample_count function)) (SampleCountOverflow ''function self'')) (\<lambda>n.
       Inr (by_semantic(fn_semantic_id function \<mapsto> n))))"

definition validate_captured_stacks ::
    "(int \<rightharpoonup> int) \<Rightarrow> RankedSemantic \<Rightarrow> RankedProfileValidationError + unit" where
  "validate_captured_stacks by_semantic semantic =
     (let function_sample_count = (case by_semantic (sm_semantic_id semantic) of Some n \<Rightarrow> n | None \<Rightarrow> 0) in
      res_bind (option_ok_or (checked_add_i64 (sm_resolved_function_sample_count semantic)
          (sm_unresolved_function_sample_count semantic))
        (SampleCountOverflow ''captured native stacks'')) (\<lambda>captured.
        ensure (captured = function_sample_count)
          (FunctionSelfMismatch (sm_semantic_id semantic) captured function_sample_count)))"

definition validate_semantic_inclusive ::
    "(int \<rightharpoonup> int) \<Rightarrow> RankedSemantic \<Rightarrow> RankedProfileValidationError + unit" where
  "validate_semantic_inclusive inclusive semantic =
     res_bind (option_ok_or (inclusive (sm_semantic_id semantic)) (SampleCountOverflow ''semantic inclusive''))
       (\<lambda>computed.
         ensure (sm_inclusive_sample_count semantic = computed)
           (SemanticInclusiveMismatch (sm_semantic_id semantic) (sm_inclusive_sample_count semantic) computed))"

definition validate_function_inclusive ::
    "(int \<times> int \<rightharpoonup> int) \<Rightarrow> RankedFunction \<Rightarrow> RankedProfileValidationError + unit" where
  "validate_function_inclusive inclusive function =
     res_bind (option_ok_or (inclusive (fn_identity function)) (SampleCountOverflow ''function inclusive''))
       (\<lambda>computed.
         ensure (fn_inclusive_sample_count function = computed)
           (FunctionInclusiveMismatch (fn_semantic_id function) (fn_function_id function)
              (fn_inclusive_sample_count function) computed))"

definition semantic_direct :: "RankedProfileDocument \<Rightarrow> int \<rightharpoonup> int" where
  "semantic_direct document =
     map_of (rev (map (\<lambda>s. (sm_semantic_id s, sm_direct_sample_count s)) (rd_semantics document)))"

definition function_self :: "RankedProfileDocument \<Rightarrow> int \<times> int \<rightharpoonup> int" where
  "function_self document =
     map_of (rev (map (\<lambda>f. (fn_identity f, fn_self_sample_count f)) (rd_functions document)))"

definition validate_sample_counts :: "RankedProfileDocument \<Rightarrow> RankedProfileValidationError + unit" where
  "validate_sample_counts document =
     (let metadata = rd_metadata document; semantics = rd_semantics document; functions = rd_functions document in
      res_bind (validate_metadata_counts metadata) (\<lambda>_.
      res_bind (try_fold_with semantic_count_step semantics (0, [0, 0, 0, 0])) (\<lambda>(direct_total, function_totals).
      res_bind (ensure (direct_total = rm_direct_sample_count metadata)
        (DirectSampleMismatch (rm_direct_sample_count metadata) direct_total)) (\<lambda>_.
      res_bind (try_for_each
        (\<lambda>(field, declared, semantic_count).
           ensure (declared = semantic_count) (FunctionCoverageSummaryMismatch field declared semantic_count))
        [(''resolved_function_sample_count'', rm_resolved_function_sample_count metadata, function_totals ! 0),
         (''unresolved_function_sample_count'', rm_unresolved_function_sample_count metadata, function_totals ! 1),
         (''unwind_error_sample_count'', rm_unwind_error_sample_count metadata, function_totals ! 2),
         (''missing_callstack_sample_count'', rm_missing_callstack_sample_count metadata, function_totals ! 3)]) (\<lambda>_.
      res_bind (option_ok_or (fold_inclusive_counts (semantic_parents document) (semantic_direct document))
        (SampleCountOverflow ''semantic inclusive'')) (\<lambda>semantic_inclusive.
      res_bind (try_for_each (validate_semantic_inclusive semantic_inclusive) semantics) (\<lambda>_.
      res_bind (try_fold_with function_self_step functions Map.empty) (\<lambda>function_self_by_semantic.
      res_bind (try_for_each (validate_captured_stacks function_self_by_semantic) semantics) (\<lambda>_.
      res_bind (option_ok_or (fold_inclusive_counts (function_parents document) (function_self document))
        (SampleCountOverflow ''function inclusive'')) (\<lambda>function_inclusive.
        try_for_each (validate_function_inclusive function_inclusive) functions))))))))))"

definition validate :: "RankedProfileDocument \<Rightarrow> RankedProfileValidationError + unit" where
  "validate document =
     res_bind (validate_bounds document) (\<lambda>_.
     res_bind (validate_metadata_and_intervals document) (\<lambda>_.
     res_bind (validate_structure document) (\<lambda>_.
       validate_sample_counts document)))"

subsection \<open>What a valid structure is\<close>

lemma try_for_each_iff [res_simps]: "try_for_each f xs = Inr u \<longleftrightarrow> (\<forall>x \<in> set xs. f x = Inr ())"
  by (induction xs) (auto simp: res_simps)

lemma option_ok_or_iff [res_simps]: "option_ok_or x e = Inr a \<longleftrightarrow> x = Some a"
  by (simp add: option_ok_or_def split: option.split)

lemma unique_keys_iff:
  "unique_keys key duplicate seen xs = Inr u \<longleftrightarrow> distinct (map key xs) \<and> key ` set xs \<inter> seen = {}"
  by (induction xs arbitrary: seen) auto

lemma validate_function_owners_iff:
  "validate_function_owners ids seen fs = Inr u \<longleftrightarrow>
     fn_semantic_id ` set fs \<subseteq> ids \<and> distinct (map fn_identity fs) \<and> fn_identity ` set fs \<inter> seen = {}"
  by (induction fs arbitrary: seen) auto

lemma validate_semantic_parent_iff:
  assumes "distinct (map sm_semantic_id semantics)"
  shows "validate_semantic_parent semantics s = Inr u \<longleftrightarrow>
    (\<forall>p. sm_parent_semantic_id s = Some p \<longrightarrow>
      (\<exists>t \<in> set semantics. sm_semantic_id t = p \<and> sm_operation_id t = sm_operation_id s))"
proof -
  have "map_of (map (\<lambda>s. (sm_semantic_id s, s)) semantics) p = Some t \<longleftrightarrow>
      t \<in> set semantics \<and> sm_semantic_id t = p" for p t
    using assms by (subst map_of_eq_Some_iff) (auto simp: comp_def)
  moreover from this have "map_of (map (\<lambda>s. (sm_semantic_id s, s)) semantics) p = None \<longleftrightarrow>
      p \<notin> sm_semantic_id ` set semantics" for p
    by (simp add: map_of_eq_None_iff image_image)
  moreover have "t = t'" if "t \<in> set semantics" "t' \<in> set semantics" "sm_semantic_id t = sm_semantic_id t'" for t t'
    using assms that by (auto simp: distinct_map dest: inj_onD)
  ultimately show ?thesis
    by (auto simp: validate_semantic_parent_def res_simps split: option.splits) metis
qed

lemma validate_function_parent_iff:
  "validate_function_parent functions f = Inr u \<longleftrightarrow>
     (\<forall>p. fn_parent_function_id f = Some p \<longrightarrow> (fn_semantic_id f, p) \<in> fn_identity ` set functions)"
  by (auto simp: validate_function_parent_def split: option.splits)

lemma first_cycle_keys:
  "first_cycle parents (map fst parents) = None \<longleftrightarrow> acyclic (up parents)"
proof -
  have "acyclic (up parents) \<longleftrightarrow> (\<forall>s \<in> set (map fst parents). cycle_free parents s)"
  proof
    assume "acyclic (up parents)"
    then show "\<forall>s \<in> set (map fst parents). cycle_free parents s" by (simp add: cycle_free_def acyclic_def)
  next
    assume free: "\<forall>s \<in> set (map fst parents). cycle_free parents s"
    show "acyclic (up parents)"
      unfolding acyclic_def
    proof (intro allI notI)
      fix c assume loop: "(c, c) \<in> (up parents)\<^sup>+"
      then obtain p where "parent_of parents c = Some p" by (auto dest: tranclD)
      then have "c \<in> set (map fst parents)" using parent_of_key by fastforce
      with free loop show False by (auto simp: cycle_free_def)
    qed
  qed
  then show ?thesis by (simp only: first_cycle_None_iff)
qed

lemma operations_folded:
  assumes "dom operations = set order"
  shows "case fold operation_step semantics (order, operations) of (order', operations') \<Rightarrow>
    set order' = set order \<union> sm_operation_id ` set semantics \<and>
    (\<forall>i. operations' i = (if i \<in> set order'
       then Some (fold note_root (filter (\<lambda>s. sm_operation_id s = i) semantics)
         (case operations i of Some state \<Rightarrow> state | None \<Rightarrow> OperationRootState_default))
       else None))"
  using assms
proof (induction semantics arbitrary: order operations)
  case Nil
  then show ?case by (auto split: option.split)
next
  case (Cons s semantics)
  let ?i = "sm_operation_id s"
  let ?order = "if operations ?i = None then order @ [?i] else order"
  let ?operations = "operations(?i \<mapsto> note_root s
    (case operations ?i of Some state \<Rightarrow> state | None \<Rightarrow> OperationRootState_default))"
  have step: "operation_step s (order, operations) = (?order, ?operations)"
    by (simp add: operation_step_def Let_def)
  have order: "set ?order = insert ?i (set order)" using Cons.prems by auto
  then have "dom ?operations = set ?order" using Cons.prems by auto
  note IH = Cons.IH [OF this]
  obtain order' operations' where folded: "fold operation_step semantics (?order, ?operations) = (order', operations')"
    by (cases "fold operation_step semantics (?order, ?operations)")
  from IH have set': "set order' = set ?order \<union> sm_operation_id ` set semantics"
    and ops: "operations' i = (if i \<in> set order' then Some (fold note_root
      (filter (\<lambda>s. sm_operation_id s = i) semantics)
      (case ?operations i of Some state \<Rightarrow> state | None \<Rightarrow> OperationRootState_default)) else None)" for i
    unfolding folded prod.case by blast+
  have "fold operation_step (s # semantics) (order, operations) = (order', operations')"
    by (simp only: fold_simps step folded)
  moreover have "operations' i = (if i \<in> set order' then Some (fold note_root
      (filter (\<lambda>s. sm_operation_id s = i) (s # semantics))
      (case operations i of Some state \<Rightarrow> state | None \<Rightarrow> OperationRootState_default)) else None)" for i
    unfolding ops by (cases "i = ?i") simp_all
  ultimately show ?case
    using set' order by simp
qed

lemma roots_noted:
  fixes semantics
  defines "roots \<equiv> filter (\<lambda>s. sm_parent_semantic_id s = None) semantics"
  defines "state \<equiv> fold note_root semantics OperationRootState_default"
  shows "or_root_count state = length roots \<and>
    or_first_root_id state = (if roots = [] then None else Some (sm_semantic_id (hd roots))) \<and>
    or_first_root_is_operation state = (roots \<noteq> [] \<and> sm_semantic_kind (hd roots) = ''operation'') \<and>
    (or_first_non_root_operation_id state = None \<longleftrightarrow>
       (\<forall>s \<in> set semantics. sm_semantic_kind s = ''operation'' \<longrightarrow> sm_parent_semantic_id s = None))"
  unfolding assms
proof (induction semantics rule: rev_induct)
  case (snoc s semantics)
  then show ?case by (auto simp: note_root_def Let_def)
qed (simp add: OperationRootState_default_def)

text \<open>
  A well-structured document: identities are unique, parents exist in the same operation, there are
  no cycles, every operation has one root, which is its only node of kind operation, and functions
  hang below existing nodes, each with its parents below the same node.
\<close>

definition well_structured :: "RankedProfileDocument \<Rightarrow> bool" where
  "well_structured document \<longleftrightarrow>
     rd_semantics document \<noteq> [] \<and> distinct (map sm_semantic_id (rd_semantics document)) \<and>
     (\<forall>s \<in> set (rd_semantics document). \<forall>p. sm_parent_semantic_id s = Some p \<longrightarrow>
        (\<exists>t \<in> set (rd_semantics document). sm_semantic_id t = p \<and> sm_operation_id t = sm_operation_id s)) \<and>
     acyclic (up (semantic_parents document)) \<and>
     (\<forall>i \<in> sm_operation_id ` set (rd_semantics document).
        \<exists>root. filter (\<lambda>s. sm_operation_id s = i \<and> sm_parent_semantic_id s = None) (rd_semantics document) = [root] \<and>
          sm_semantic_kind root = ''operation'' \<and>
          (\<forall>s \<in> set (rd_semantics document). sm_operation_id s = i \<longrightarrow>
             sm_semantic_kind s = ''operation'' \<longrightarrow> sm_parent_semantic_id s = None)) \<and>
     fn_semantic_id ` set (rd_functions document) \<subseteq> sm_semantic_id ` set (rd_semantics document) \<and>
     distinct (map fn_identity (rd_functions document)) \<and>
     (\<forall>f \<in> set (rd_functions document). \<forall>p. fn_parent_function_id f = Some p \<longrightarrow>
        (fn_semantic_id f, p) \<in> fn_identity ` set (rd_functions document)) \<and>
     acyclic (up (function_parents document))"

lemma validate_operation_roots_iff:
  assumes "fold operation_step semantics ([], Map.empty) = (order, operations)"
  shows "try_for_each (validate_operation_roots operations) order = Inr u \<longleftrightarrow>
    (\<forall>i \<in> sm_operation_id ` set semantics.
        \<exists>root. filter (\<lambda>s. sm_operation_id s = i \<and> sm_parent_semantic_id s = None) semantics = [root] \<and>
          sm_semantic_kind root = ''operation'' \<and>
          (\<forall>s \<in> set semantics. sm_operation_id s = i \<longrightarrow>
             sm_semantic_kind s = ''operation'' \<longrightarrow> sm_parent_semantic_id s = None))"
proof -
  from operations_folded [of Map.empty "[]" semantics] assms
  have order: "set order = sm_operation_id ` set semantics" by simp
  from operations_folded [of Map.empty "[]" semantics] assms
  have operations: "operations i = Some (fold note_root (filter (\<lambda>s. sm_operation_id s = i) semantics)
      OperationRootState_default)" if "i \<in> set order" for i
    using that by simp
  have roots: "validate_operation_roots operations i = Inr () \<longleftrightarrow>
      (\<exists>root. filter (\<lambda>s. sm_operation_id s = i \<and> sm_parent_semantic_id s = None) semantics = [root] \<and>
          sm_semantic_kind root = ''operation'' \<and>
          (\<forall>s \<in> set semantics. sm_operation_id s = i \<longrightarrow>
             sm_semantic_kind s = ''operation'' \<longrightarrow> sm_parent_semantic_id s = None))"
    if "i \<in> set order" for i
    using operations [OF that] roots_noted [of "filter (\<lambda>s. sm_operation_id s = i) semantics"]
    by (auto simp: validate_operation_roots_def Let_def res_simps length_Suc_conv conj_commute)
  show ?thesis
    unfolding try_for_each_iff order [symmetric] by (rule ball_cong [OF refl]) (rule roots)
qed

lemma validate_structure_iff: "validate_structure document = Inr () \<longleftrightarrow> well_structured document"
proof -
  obtain order operations where fold: "fold operation_step (rd_semantics document) ([], Map.empty) = (order, operations)"
    by (cases "fold operation_step (rd_semantics document) ([], Map.empty)")
  have keys: "map sm_semantic_id (rd_semantics document) = map fst (semantic_parents document)"
    "map fn_identity (rd_functions document) = map fst (function_parents document)"
    by (simp_all add: semantic_parents_def function_parents_def comp_def)
  have cycles: "(case first_cycle (semantic_parents document) (map sm_semantic_id (rd_semantics document)) of
        Some semantic_id \<Rightarrow> Inl (SemanticCycle semantic_id) | None \<Rightarrow> Inr ()) = Inr () \<longleftrightarrow>
      acyclic (up (semantic_parents document))"
    "(case first_cycle (function_parents document) (map fn_identity (rd_functions document)) of
        Some (semantic_id, function_id) \<Rightarrow> Inl (FunctionCycle semantic_id function_id) | None \<Rightarrow> Inr ()) = Inr () \<longleftrightarrow>
      acyclic (up (function_parents document))"
    unfolding keys first_cycle_keys [symmetric] by (auto split: option.splits)
  show ?thesis
    unfolding validate_structure_def Let_def fold prod.case res_bind_eq_Inr ensure_eq_Inr cycles
      try_for_each_iff [of "validate_semantic_parent _"] try_for_each_iff [of "validate_function_parent _"]
      validate_function_parent_iff unique_keys_iff validate_function_owners_iff
      validate_operation_roots_iff [OF fold] well_structured_def
    by (auto simp: validate_semantic_parent_iff cycles)
qed

subsection \<open>What valid counts are\<close>

lemma checked_add_i64_Some: "checked_add_i64 a b = Some n \<Longrightarrow> n = a + b"
  by (simp add: checked_add_i64_def split: if_splits)

lemma checked_sum_Some: "checked_sum n ms = Some k \<Longrightarrow> k = n + sum_list ms"
  by (induction ms arbitrary: n) (fastforce simp: bind_eq_Some_conv dest!: checked_add_i64_Some)+

lemma semantic_counts_folded:
  assumes "try_fold_with semantic_count_step semantics (direct, totals) = Inr (direct', totals')"
  shows "direct' = direct + (\<Sum>s \<leftarrow> semantics. sm_direct_sample_count s) \<and>
    (\<forall>s \<in> set semantics. 0 \<le> sm_direct_sample_count s)"
  using assms
proof (induction semantics arbitrary: direct totals)
  case (Cons s semantics)
  then obtain direct1 totals1 where step: "semantic_count_step s (direct, totals) = Inr (direct1, totals1)"
    and rest: "try_fold_with semantic_count_step semantics (direct1, totals1) = Inr (direct', totals')"
    by (auto simp: res_simps)
  from step have "direct1 = direct + sm_direct_sample_count s" "0 \<le> sm_direct_sample_count s"
    by (auto simp: semantic_count_step_def Let_def res_simps require_nonnegative_def dest!: checked_add_i64_Some)
  with Cons.IH [OF rest] show ?case by simp
qed simp

lemma key_map: "distinct (map key xs) \<Longrightarrow> map_of (rev (map (\<lambda>x. (key x, f x)) xs)) (key x) = Some (f x)" if "x \<in> set xs"
proof -
  assume "distinct (map key xs)"
  then have "distinct (map fst (rev (map (\<lambda>x. (key x, f x)) xs)))"
    by (simp add: rev_map [symmetric] comp_def)
  moreover have "(key x, f x) \<in> set (rev (map (\<lambda>x. (key x, f x)) xs))" using that by simp
  ultimately show ?thesis by (rule map_of_is_SomeI)
qed

lemma dom_key_map: "dom (map_of (rev (map (\<lambda>x. (key x, f x)) xs))) = key ` set xs"
  by (simp add: dom_map_of_conv_image_fst image_image)

definition semantics_below :: "RankedProfileDocument \<Rightarrow> int \<Rightarrow> RankedSemantic set" where
  "semantics_below document k =
     {s \<in> set (rd_semantics document). (sm_semantic_id s, k) \<in> (up (semantic_parents document))\<^sup>*}"

definition functions_below :: "RankedProfileDocument \<Rightarrow> int \<times> int \<Rightarrow> RankedFunction set" where
  "functions_below document k =
     {f \<in> set (rd_functions document). (fn_identity f, k) \<in> (up (function_parents document))\<^sup>*}"

lemma subtree_sum_records:
  assumes "distinct (map key xs)" and "map fst parents = map key xs"
  shows "(\<Sum>d \<in> subtree parents k. the (map_of (rev (map (\<lambda>x. (key x, f x)) xs)) d)) =
    (\<Sum>x \<in> {x \<in> set xs. (key x, k) \<in> (up parents)\<^sup>*}. f x :: int)"
proof -
  have nodes: "node_set parents = key ` set xs"
    unfolding node_set_def using assms(2) by (metis list.set_map)
  have "subtree parents k = key ` {x \<in> set xs. (key x, k) \<in> (up parents)\<^sup>*}"
    by (auto simp: subtree_def nodes)
  moreover have "inj_on key {x \<in> set xs. (key x, k) \<in> (up parents)\<^sup>*}"
    using assms(1) by (auto simp: distinct_map intro: inj_on_subset)
  ultimately show ?thesis
    using key_map [OF _ assms(1), where f = f] by (simp add: sum.reindex)
qed

definition counts_reconciled :: "RankedProfileDocument \<Rightarrow> bool" where
  "counts_reconciled document \<longleftrightarrow>
     rm_eligible_sample_count (rd_metadata document) =
       rm_direct_sample_count (rd_metadata document) + rm_ambiguous_sample_count (rd_metadata document)
       + rm_unattributed_sample_count (rd_metadata document) \<and>
     rm_direct_sample_count (rd_metadata document) =
       (\<Sum>s \<leftarrow> rd_semantics document. sm_direct_sample_count s) \<and>
     (\<forall>s \<in> set (rd_semantics document). sm_inclusive_sample_count s =
        (\<Sum>t \<in> semantics_below document (sm_semantic_id s). sm_direct_sample_count t)) \<and>
     (\<forall>f \<in> set (rd_functions document). fn_inclusive_sample_count f =
        (\<Sum>g \<in> functions_below document (fn_identity f). fn_self_sample_count g))"

lemma validate_sample_counts_sound:
  assumes shape: "well_structured document" and counts: "validate_sample_counts document = Inr ()"
  shows "counts_reconciled document"
proof -
  let ?m = "rd_metadata document"
  from counts obtain direct totals inclusive function_inclusive where
    metadata: "validate_metadata_counts ?m = Inr ()"
    and direct: "try_fold_with semantic_count_step (rd_semantics document) (0, [0, 0, 0, 0]) = Inr (direct, totals)"
      "direct = rm_direct_sample_count ?m"
    and inclusive: "fold_inclusive_counts (semantic_parents document) (semantic_direct document) = Some inclusive"
      "\<forall>s \<in> set (rd_semantics document). validate_semantic_inclusive inclusive s = Inr ()"
    and function_inclusive:
      "fold_inclusive_counts (function_parents document) (function_self document) = Some function_inclusive"
      "\<forall>f \<in> set (rd_functions document). validate_function_inclusive function_inclusive f = Inr ()"
    by (auto simp: validate_sample_counts_def Let_def res_simps)
  from shape have keys: "distinct (map sm_semantic_id (rd_semantics document))"
    "distinct (map fn_identity (rd_functions document))" by (simp_all add: well_structured_def)
  have fst_keys: "map fst (semantic_parents document) = map sm_semantic_id (rd_semantics document)"
    "map fst (function_parents document) = map fn_identity (rd_functions document)"
    by (simp_all add: semantic_parents_def function_parents_def comp_def)
  have nodes: "node_set (semantic_parents document) = sm_semantic_id ` set (rd_semantics document)"
    "node_set (function_parents document) = fn_identity ` set (rd_functions document)"
    unfolding node_set_def using fst_keys by (metis list.set_map)+
  have "dom (semantic_direct document) = node_set (semantic_parents document)"
    "dom (function_self document) = node_set (function_parents document)"
    by (simp_all add: semantic_direct_def function_self_def dom_key_map nodes)
  with fold_inclusive_sound [OF _ _ inclusive(1)] fold_inclusive_sound [OF _ _ function_inclusive(1)] keys
  have sums: "\<forall>k \<in> sm_semantic_id ` set (rd_semantics document). the (inclusive k) =
        (\<Sum>d \<in> subtree (semantic_parents document) k. the (semantic_direct document d))"
      "dom inclusive = sm_semantic_id ` set (rd_semantics document)"
    and function_sums: "\<forall>k \<in> fn_identity ` set (rd_functions document). the (function_inclusive k) =
        (\<Sum>d \<in> subtree (function_parents document) k. the (function_self document d))"
      "dom function_inclusive = fn_identity ` set (rd_functions document)"
    by (simp_all add: fst_keys nodes)
  have "sm_inclusive_sample_count s =
      (\<Sum>t \<in> semantics_below document (sm_semantic_id s). sm_direct_sample_count t)"
    if "s \<in> set (rd_semantics document)" for s
    using that inclusive(2) sums(1) subtree_sum_records [OF keys(1) fst_keys(1), where k = "sm_semantic_id s" and f = sm_direct_sample_count]
    by (fastforce simp: validate_semantic_inclusive_def res_simps semantics_below_def semantic_direct_def)
  moreover have "fn_inclusive_sample_count f =
      (\<Sum>g \<in> functions_below document (fn_identity f). fn_self_sample_count g)"
    if "f \<in> set (rd_functions document)" for f
    using that function_inclusive(2) function_sums(1)
      subtree_sum_records [OF keys(2) fst_keys(2), where k = "fn_identity f" and f = fn_self_sample_count]
    by (fastforce simp: validate_function_inclusive_def res_simps functions_below_def function_self_def)
  moreover have "rm_eligible_sample_count ?m = rm_direct_sample_count ?m + rm_ambiguous_sample_count ?m
      + rm_unattributed_sample_count ?m"
  proof -
    from metadata have "checked_sum (rm_direct_sample_count ?m)
        [rm_ambiguous_sample_count ?m, rm_unattributed_sample_count ?m] = Some (rm_eligible_sample_count ?m)"
      unfolding validate_metadata_counts_def by (auto simp: res_simps simp del: checked_sum.simps)
    from checked_sum_Some [OF this] show ?thesis by simp
  qed
  moreover have "rm_direct_sample_count ?m = (\<Sum>s \<leftarrow> rd_semantics document. sm_direct_sample_count s)"
    using semantic_counts_folded [OF direct(1)] direct(2) by simp
  ultimately show ?thesis
    by (simp add: counts_reconciled_def)
qed

lemma validated_document:
  assumes "validate document = Inr ()"
  shows "well_structured document \<and> counts_reconciled document"
proof -
  from assms have shape: "well_structured document" and counts: "validate_sample_counts document = Inr ()"
    by (auto simp: validate_def res_simps validate_structure_iff [symmetric])
  from shape validate_sample_counts_sound [OF shape counts] show ?thesis ..
qed

subsection \<open>Normalized paths\<close>

lemma split_path_Nil [simp]: "split_path s \<noteq> []"
  by (induction s) (auto split: list.splits)

lemma split_path_segment: "segment \<in> set (split_path s) \<Longrightarrow> c \<in> set segment \<Longrightarrow> \<not> is_separator c"
  by (induction s arbitrary: segment) (fastforce split: list.splits if_splits)+

lemma split_path_plain: "(\<And>c. c \<in> set s \<Longrightarrow> \<not> is_separator c) \<Longrightarrow> split_path s = [s]"
  by (induction s) auto

lemma split_path_append:
  "(\<And>c. c \<in> set s \<Longrightarrow> \<not> is_separator c) \<Longrightarrow> split_path (s @ CHR ''/'' # rest) = s # split_path rest"
  by (induction s) (auto simp: is_separator_def)

lemma split_join:
  assumes "segments \<noteq> []" and "\<forall>segment \<in> set segments. \<forall>c \<in> set segment. \<not> is_separator c"
  shows "split_path (join_path segments) = segments"
  using assms
  by (induction segments rule: join_path.induct) (auto simp: split_path_plain split_path_append)

lemma segments_plain: "\<forall>segment \<in> set (path_segments path). \<forall>c \<in> set segment. \<not> is_separator c"
  by (auto simp: path_segments_def dest: split_path_segment)

lemma safe_segment_kept: "is_safe_path_segment segment \<Longrightarrow> segment \<noteq> [] \<and> segment \<noteq> ''.'' \<and> segment \<noteq> ''..''"
  by (auto simp: is_safe_path_segment_def)

lemma path_segments_join:
  assumes "segments \<noteq> []" and "\<forall>segment \<in> set segments. is_safe_path_segment segment"
    and "\<forall>segment \<in> set segments. \<forall>c \<in> set segment. \<not> is_separator c"
  shows "path_segments (join_path segments) = segments"
  unfolding path_segments_def split_join [OF assms(1,3)]
  using assms(2) safe_segment_kept by (intro filter_True) blast

lemma rposition_Some: "rposition P xs = Some i \<Longrightarrow> i < length xs \<and> P (xs ! i)"
  by (induction xs arbitrary: i) (fastforce split: option.splits if_splits)+

lemma join_not_absolute:
  assumes "segments \<noteq> []" and safe: "\<forall>segment \<in> set segments. is_safe_path_segment segment"
    and plain: "\<forall>segment \<in> set segments. \<forall>c \<in> set segment. \<not> is_separator c"
  shows "\<not> is_absolute_path (join_path segments)"
proof -
  obtain segment rest where segments: "segments = segment # rest" using assms(1) by (cases segments) auto
  with safe have seg: "is_safe_path_segment segment" by simp
  then obtain c cs where segment: "segment = c # cs" using safe_segment_kept by (cases segment) auto
  have prefix: "\<exists>tail. join_path segments = segment @ tail \<and> (tail = [] \<or> hd tail = CHR ''/'')"
    by (cases rest) (auto simp: segments)
  then obtain tail where tail: "join_path segments = segment @ tail" "tail = [] \<or> hd tail = CHR ''/''" by blast
  have "\<not> is_separator c" using plain segments segment by auto
  moreover have "\<not> (is_ascii_alphabetic c \<and> join_path segments ! 1 = CHR '':'' \<and> 3 \<le> length (join_path segments))"
  proof
    assume drive: "is_ascii_alphabetic c \<and> join_path segments ! 1 = CHR '':'' \<and> 3 \<le> length (join_path segments)"
    show False
    proof (cases cs)
      case Nil
      with tail segment drive show False by (cases tail) auto
    next
      case (Cons d ds)
      with tail segment drive have "d = CHR '':''" by simp
      with seg segment Cons drive show False by (simp add: is_safe_path_segment_def)
    qed
  qed
  ultimately show ?thesis
    using tail segment by (auto simp: is_absolute_path_def)
qed

lemma normalize_joined:
  assumes "segments \<noteq> []" and safe: "\<forall>segment \<in> set segments. is_safe_path_segment segment"
    and plain: "\<forall>segment \<in> set segments. \<forall>c \<in> set segment. \<not> is_separator c"
    and start: "hd segments \<in> set SOURCE_ROOTS \<or> length segments = 1"
  shows "normalize_source_file (join_path segments) = Some (join_path segments)"
proof -
  note kept = path_segments_join [OF assms(1,2) plain] and relative = join_not_absolute [OF assms(1,2) plain]
  have no_up: "''..'' \<notin> set segments" using safe safe_segment_kept by blast
  have last: "is_safe_path_segment (last segments)" using safe assms(1) by simp
  have "\<not> list_ex (\<lambda>segment. \<not> is_safe_path_segment segment) segments" using safe by (simp add: list_ex_iff)
  with kept relative no_up last assms(1) show ?thesis
  proof (cases "hd segments \<in> set SOURCE_ROOTS")
    case False
    with start obtain segment where "segments = [segment]"
      by (auto simp: length_Suc_conv)
    with False kept relative no_up last show ?thesis
      by (auto simp: normalize_source_file_def Let_def SOURCE_ROOTS_def)
  qed (simp add: normalize_source_file_def Let_def)
qed

lemma normalized_source_file:
  assumes "normalize_source_file path = Some normalized"
  obtains segments where "normalized = join_path segments" "segments \<noteq> []"
    "\<forall>segment \<in> set segments. is_safe_path_segment segment"
    "\<forall>segment \<in> set segments. \<forall>c \<in> set segment. \<not> is_separator c"
    "hd segments \<in> set SOURCE_ROOTS \<or> length segments = 1"
proof -
  let ?segments = "path_segments path"
  have base: "?segments \<noteq> []" "is_safe_path_segment (last ?segments)"
    using assms by (auto simp: normalize_source_file_def Let_def split: if_splits)
  show ?thesis
  proof (cases "normalized = last ?segments")
    case True
    show ?thesis
      by (rule that [of "[last ?segments]"]) (use True base segments_plain [of path] in auto)
  next
    case False
    with assms base obtain start where start: "normalized = join_path (drop start ?segments)"
      "\<not> list_ex (\<lambda>segment. \<not> is_safe_path_segment segment) (drop start ?segments)"
      "(if is_absolute_path path then rposition (\<lambda>segment. segment \<in> set SOURCE_ROOTS) ?segments
        else if hd ?segments \<in> set SOURCE_ROOTS then Some 0
        else rposition (\<lambda>segment. segment = ''src'') ?segments) = Some start"
      by (auto simp: normalize_source_file_def Let_def split: if_splits option.splits)
    have "start < length ?segments \<and> ?segments ! start \<in> set SOURCE_ROOTS"
      using start(3) base(1) by (auto simp: SOURCE_ROOTS_def hd_conv_nth dest!: rposition_Some split: if_splits)
    then have "drop start ?segments \<noteq> []" "hd (drop start ?segments) \<in> set SOURCE_ROOTS"
      by (simp_all add: hd_drop_conv_nth)
    moreover have "\<forall>segment \<in> set (drop start ?segments). \<forall>c \<in> set segment. \<not> is_separator c"
      using segments_plain [of path] in_set_dropD by metis
    ultimately show ?thesis
      using that [OF start(1)] start(2) by (auto simp: list_ex_iff)
  qed
qed

lemma normalize_source_file_safe:
  assumes "normalize_source_file path = Some normalized"
  shows "normalize_source_file normalized = Some normalized \<and> \<not> is_absolute_path normalized \<and>
    (\<forall>segment \<in> set (path_segments normalized). is_safe_path_segment segment)"
proof -
  from assms obtain segments where s: "normalized = join_path segments" "segments \<noteq> []"
    "\<forall>segment \<in> set segments. is_safe_path_segment segment"
    "\<forall>segment \<in> set segments. \<forall>c \<in> set segment. \<not> is_separator c"
    "hd segments \<in> set SOURCE_ROOTS \<or> length segments = 1"
    by (rule normalized_source_file) blast
  show ?thesis
    using normalize_joined [OF s(2,3,4,5)] join_not_absolute [OF s(2,3,4)] path_segments_join [OF s(2,3,4)] s(1,3)
    by simp
qed

lemma normalize_module_name_idem:
  assumes "normalize_module_name path = Some normalized"
  shows "normalize_module_name normalized = Some normalized"
proof -
  from assms have n: "normalized \<in> set (path_segments path)" "is_safe_path_segment normalized"
    by (auto simp: normalize_module_name_def safe_basename_def split: list.splits if_splits)
  have "path_segments normalized = [normalized]"
    using path_segments_join [of "[normalized]"] segments_plain [of path] n by simp
  with n(2) show ?thesis by (simp add: normalize_module_name_def safe_basename_def)
qed

text \<open>A normalized document is never refused for its source metadata.\<close>

lemma normalized_function_bounds:
  assumes "f \<in> set (rd_functions (normalize_source_metadata document))"
    and "validate_function_bounds f = Inl e"
  shows "\<exists>field n. e = DisplayStringTooLong ''function'' (fn_function_id f) field n MAX_DISPLAY_STRING_CHARS"
proof -
  from assms(1) have normal: "Option.bind (fn_module_name f) normalize_module_name = fn_module_name f"
    "Option.bind (fn_source_file f) normalize_source_file = fn_source_file f"
    by (auto simp: normalize_source_metadata_def bind_eq_Some_conv normalize_module_name_idem
        normalize_source_file_safe split: bind_splits)
  from assms(2) show ?thesis
    by (auto simp: validate_function_bounds_def normal res_simps require_optional_string_def
        require_display_string_def split: option.splits)
qed

end
