(* ===== verification/DF_Trace_Sanitizer.thy ===== *)
theory DF_Trace_Sanitizer
  imports DF_Prelude
begin

unbundle bit_operations_syntax

section \<open>Preparing traces for ranked reports\<close>

text \<open>
  \<open>perfetto_profile/report_trace_sanitizer.rs\<close>: a streaming rewrite of a trace that unpacks its
  compressed chunks, drops the samples of threads out of scope and packs what it keeps again. A
  reader is the bytes it still has and the error a read reports beyond them (\<open>UnexpectedEof\<close> at
  the end of a file). Field numbers of the trace format, the codecs, the temporary file and the
  outcome of its writes are parameters (\<open>trace_env\<close>).
\<close>

type_synonym u8 = "8 word"
type_synonym bytes = "u8 list"

datatype io_error = InvalidData string | UnexpectedEof | OtherError

record reader =
  rd_bytes :: bytes
  rd_end :: io_error

record trace_env =
  te_packet :: u64
  te_sequence_flags :: u64
  te_seq_needs_incremental_state :: u64
  te_first_packet_on_sequence :: u64
  te_timestamp :: u64
  te_timestamp_clock_id :: u64
  te_trusted_packet_sequence_id :: u64
  te_trusted_pid :: u64
  te_trusted_uid :: u64
  te_zlib_decoder :: "bytes \<Rightarrow> reader"
  te_zstd_decoder :: "bytes \<Rightarrow> io_error + reader"
  te_zlib_encode :: "bytes \<Rightarrow> bytes"
  te_temp_file :: "io_error option"
  te_write_error :: "bytes \<Rightarrow> bytes \<Rightarrow> io_error option"

definition TRACE_PACKET_TAG :: "trace_env \<Rightarrow> u64" where
  "TRACE_PACKET_TAG env = push_bit 3 (te_packet env) OR 2"

definition PERF_SAMPLE_FIELD :: u64 where "PERF_SAMPLE_FIELD = 66"
definition COMPRESSED_PACKETS_FIELD :: u64 where "COMPRESSED_PACKETS_FIELD = 50"
definition ZSTD_COMPRESSED_PACKETS_FIELD :: u64 where "ZSTD_COMPRESSED_PACKETS_FIELD = 133"
definition SAMPLE_SKIPPED_REASON_FIELD :: u64 where "SAMPLE_SKIPPED_REASON_FIELD = 18"
definition PROFILER_SKIP_NOT_IN_SCOPE :: u64 where "PROFILER_SKIP_NOT_IN_SCOPE = 4"
definition PREVIOUS_PACKET_DROPPED_FIELD :: u64 where "PREVIOUS_PACKET_DROPPED_FIELD = 42"
definition COMPRESSED_CHUNK_BYTES :: nat where "COMPRESSED_CHUNK_BYTES = 384 * 1024"
definition MAX_TRACE_PACKET_BYTES :: nat where "MAX_TRACE_PACKET_BYTES = 64 * 1024 * 1024"
definition MAX_DECOMPRESSED_CHUNK_BYTES :: nat where "MAX_DECOMPRESSED_CHUNK_BYTES = 64 * 1024 * 1024"

subsection \<open>Reading\<close>

definition read_exact :: "nat \<Rightarrow> reader \<Rightarrow> io_error + bytes \<times> reader" where
  "read_exact n r =
     (if n \<le> length (rd_bytes r) then Inr (take n (rd_bytes r), r\<lparr>rd_bytes := drop n (rd_bytes r)\<rparr>)
      else Inl (rd_end r))"

text \<open>\<open>Read::take\<close>: a reader of at most \<open>n\<close> bytes; its limit is used up iff the inner reader has them.\<close>

definition take_reader :: "nat \<Rightarrow> reader \<Rightarrow> reader" where
  "take_reader n r =
     (if n \<le> length (rd_bytes r) then \<lparr>rd_bytes = take n (rd_bytes r), rd_end = UnexpectedEof\<rparr> else r)"

definition map_truncated :: "io_error \<Rightarrow> string \<Rightarrow> io_error" where
  "map_truncated error message = (if error = UnexpectedEof then InvalidData message else error)"

definition add_group :: "nat \<Rightarrow> u8 \<Rightarrow> u64 \<Rightarrow> u64" where
  "add_group index byte value = value OR push_bit (index * 7) (ucast (byte AND 0x7F))"

function read_varint_loop :: "nat \<Rightarrow> u64 \<Rightarrow> reader \<Rightarrow> io_error + u64 option \<times> reader" where
  "read_varint_loop index value r =
     (if 10 \<le> index then Inl (InvalidData ''protobuf varint exceeds 64 bits'')
      else case rd_bytes r of
          [] \<Rightarrow>
            if index = 0 \<and> rd_end r = UnexpectedEof then Inr (None, r)
            else Inl (map_truncated (rd_end r) ''protobuf varint is truncated'')
        | byte # rest \<Rightarrow>
            if index = 9 \<and> 1 < byte then Inl (InvalidData ''protobuf varint exceeds 64 bits'')
            else let value = add_group index byte value; r = r\<lparr>rd_bytes := rest\<rparr>
              in if byte < 0x80 then Inr (Some value, r)
                 else read_varint_loop (index + 1) value r)"
  by pat_completeness auto
termination by (relation "measure (\<lambda>(index, _). 10 - index)") auto

declare read_varint_loop.simps [simp del]

definition read_varint :: "reader \<Rightarrow> io_error + u64 option \<times> reader" where
  "read_varint = read_varint_loop 0 0"

definition read_packet :: "trace_env \<Rightarrow> reader \<Rightarrow> io_error + (bytes \<times> reader) option" where
  "read_packet env r =
     (case read_varint r of
        Inl e \<Rightarrow> Inl e
      | Inr (None, _) \<Rightarrow> Inr None
      | Inr (Some tag, r) \<Rightarrow>
          if tag \<noteq> TRACE_PACKET_TAG env then
            Inl (InvalidData ''trace contains an unexpected outer protobuf field'')
          else case read_varint r of
              Inl e \<Rightarrow> Inl e
            | Inr (None, _) \<Rightarrow> Inl (InvalidData ''trace packet length is truncated'')
            | Inr (Some len, r) \<Rightarrow>
                if MAX_TRACE_PACKET_BYTES < unat len then
                  Inl (InvalidData ''trace packet exceeds the 64 MiB limit'')
                else case read_exact (unat len) r of
                    Inl e \<Rightarrow> Inl (map_truncated e ''trace packet is truncated'')
                  | Inr (packet, r) \<Rightarrow> Inr (Some (packet, r)))"

subsection \<open>Fields of a packet\<close>

function decode_varint_loop :: "bytes \<Rightarrow> nat \<Rightarrow> nat \<Rightarrow> u64 \<Rightarrow> io_error + u64 \<times> nat" where
  "decode_varint_loop data index offset value =
     (if 10 \<le> index then Inl (InvalidData ''protobuf varint exceeds 64 bits'')
      else if length data \<le> offset then Inl (InvalidData ''protobuf varint is truncated'')
      else let byte = data ! offset; offset = offset + 1
        in if index = 9 \<and> 1 < byte then Inl (InvalidData ''protobuf varint exceeds 64 bits'')
           else let value = add_group index byte value
             in if byte < 0x80 then Inr (value, offset)
                else decode_varint_loop data (index + 1) offset value)"
  by pat_completeness auto
termination by (relation "measure (\<lambda>(_, index, _). 10 - index)") auto

declare decode_varint_loop.simps [simp del]

definition decode_varint :: "bytes \<Rightarrow> nat \<Rightarrow> io_error + u64 \<times> nat" where
  "decode_varint data offset = decode_varint_loop data 0 offset 0"

record Field =
  f_number :: u64
  f_varint :: "u64 option"
  f_delimited :: "bytes option"

definition skip_bytes :: "bytes \<Rightarrow> nat \<Rightarrow> nat \<Rightarrow> io_error + nat" where
  "skip_bytes data offset n =
     (if offset + n \<le> length data then Inr (offset + n)
      else Inl (InvalidData ''protobuf fixed-width field is truncated''))"

definition next_field :: "bytes \<Rightarrow> nat \<Rightarrow> io_error + Field \<times> nat" where
  "next_field data offset =
     (case decode_varint data offset of
        Inl e \<Rightarrow> Inl e
      | Inr (tag, offset) \<Rightarrow>
          let number = drop_bit 3 tag; wire_type = tag AND 7;
              field = \<lparr>f_number = number, f_varint = None, f_delimited = None\<rparr>
          in if number = 0 \<or> 0x1FFFFFFF < number then
               Inl (InvalidData ''protobuf field number is invalid'')
             else if wire_type = 0 then
               (case decode_varint data offset of
                  Inl e \<Rightarrow> Inl e
                | Inr (v, offset) \<Rightarrow> Inr (field\<lparr>f_varint := Some v\<rparr>, offset))
             else if wire_type = 1 then
               (case skip_bytes data offset 8 of Inl e \<Rightarrow> Inl e | Inr offset \<Rightarrow> Inr (field, offset))
             else if wire_type = 2 then
               (case decode_varint data offset of
                  Inl e \<Rightarrow> Inl e
                | Inr (len, offset) \<Rightarrow>
                    if offset + unat len \<le> length data then
                      Inr (field\<lparr>f_delimited := Some (take (unat len) (drop offset data))\<rparr>,
                           offset + unat len)
                    else Inl (InvalidData ''protobuf field is truncated''))
             else if wire_type = 5 then
               (case skip_bytes data offset 4 of Inl e \<Rightarrow> Inl e | Inr offset \<Rightarrow> Inr (field, offset))
             else Inl (InvalidData ''protobuf wire type is unsupported''))"

lemma decode_varint_loop_progress:
  "decode_varint_loop data index offset value = Inr (v, offset') \<Longrightarrow> offset < offset' \<and> offset' \<le> length data"
proof (induction data index offset "value" rule: decode_varint_loop.induct)
  case (1 data index offset "value")
  from "1.IH" "1.prems" decode_varint_loop.simps [of data index offset "value"] show ?case
    by (fastforce simp: Let_def not_le split: if_splits)
qed

lemma decode_varint_progress:
  "decode_varint data offset = Inr (v, offset') \<Longrightarrow> offset < offset' \<and> offset' \<le> length data"
  unfolding decode_varint_def by (rule decode_varint_loop_progress)

lemma next_field_progress:
  "next_field data offset = Inr (field, offset') \<Longrightarrow> offset < offset' \<and> offset' \<le> length data"
  by (auto simp: next_field_def Let_def skip_bytes_def split: sum.splits prod.splits if_splits
      dest!: decode_varint_progress)

subsection \<open>What to do with a packet\<close>

datatype PacketAction = Keep | KeepUncompressed | Drop | Deflate bytes | Zstd bytes

function not_in_scope_loop :: "bytes \<Rightarrow> nat \<Rightarrow> u64 option \<Rightarrow> bool" where
  "not_in_scope_loop sample offset skipped_reason =
     (if length sample \<le> offset then skipped_reason = Some PROFILER_SKIP_NOT_IN_SCOPE
      else case next_field sample offset of
          Inl _ \<Rightarrow> False
        | Inr (field, offset) \<Rightarrow>
            if f_number field = SAMPLE_SKIPPED_REASON_FIELD then
              (case f_varint field of
                 None \<Rightarrow> False
               | Some reason \<Rightarrow> if skipped_reason \<noteq> None then False
                   else not_in_scope_loop sample offset (Some reason))
            else if f_number field \<in> {1, 2, 3, 5, 6, 7} \<and> f_varint field \<noteq> None then
              not_in_scope_loop sample offset skipped_reason
            else False)"
  by pat_completeness auto
termination
  by (relation "measure (\<lambda>(sample, offset, _). length sample - offset)") (auto dest!: next_field_progress)

declare not_in_scope_loop.simps [simp del]

definition is_not_in_scope_sample :: "bytes \<Rightarrow> bool" where
  "is_not_in_scope_sample sample = not_in_scope_loop sample 0 None"

definition inspected :: "nat \<Rightarrow> PacketAction option \<Rightarrow> bytes option \<Rightarrow> bool \<Rightarrow> PacketAction" where
  "inspected field_count compressed perf_sample only_skip_envelope_fields =
     (case compressed of
        Some action \<Rightarrow> if field_count = 1 then action else KeepUncompressed
      | None \<Rightarrow>
          if only_skip_envelope_fields \<and>
             (case perf_sample of None \<Rightarrow> False | Some sample \<Rightarrow> is_not_in_scope_sample sample)
          then Drop else Keep)"

definition envelope_field :: "trace_env \<Rightarrow> Field \<Rightarrow> bool" where
  "envelope_field env field =
     (if f_number field = te_trusted_packet_sequence_id env then f_varint field \<noteq> None
      else if f_number field = te_sequence_flags env then
        (case f_varint field of
           None \<Rightarrow> False
         | Some flags \<Rightarrow> flags = 0 \<or> flags = te_seq_needs_incremental_state env)
      else if f_number field \<in> {PREVIOUS_PACKET_DROPPED_FIELD, te_first_packet_on_sequence env} then
        f_varint field = Some 0
      else if f_number field \<in> {te_trusted_uid env, te_timestamp env, te_timestamp_clock_id env,
          te_trusted_pid env} then
        f_varint field \<noteq> None
      else False)"

function inspect_loop ::
    "trace_env \<Rightarrow> bytes \<Rightarrow> nat \<Rightarrow> nat \<Rightarrow> PacketAction option \<Rightarrow> bytes option \<Rightarrow> bool
       \<Rightarrow> io_error + PacketAction" where
  "inspect_loop env packet offset field_count compressed perf_sample only =
     (if length packet \<le> offset then Inr (inspected field_count compressed perf_sample only)
      else case next_field packet offset of
          Inl e \<Rightarrow> Inl e
        | Inr (field, offset) \<Rightarrow>
            let field_count = field_count + 1 in
            if f_number field = COMPRESSED_PACKETS_FIELD then
              (case f_delimited field of
                 None \<Rightarrow> Inr Keep
               | Some bs \<Rightarrow> if compressed \<noteq> None then Inr KeepUncompressed
                   else inspect_loop env packet offset field_count (Some (Deflate bs)) perf_sample only)
            else if f_number field = ZSTD_COMPRESSED_PACKETS_FIELD then
              (case f_delimited field of
                 None \<Rightarrow> Inr Keep
               | Some bs \<Rightarrow> if compressed \<noteq> None then Inr KeepUncompressed
                   else inspect_loop env packet offset field_count (Some (Zstd bs)) perf_sample only)
            else if f_number field = PERF_SAMPLE_FIELD then
              (case f_delimited field of
                 None \<Rightarrow> inspect_loop env packet offset field_count compressed perf_sample False
               | Some bs \<Rightarrow>
                   inspect_loop env packet offset field_count compressed (Some bs)
                     (if perf_sample \<noteq> None then False else only))
            else inspect_loop env packet offset field_count compressed perf_sample
                   (only \<and> envelope_field env field))"
  by pat_completeness auto
termination
  by (relation "measure (\<lambda>(_, packet, offset, _). length packet - offset)")
    (auto dest!: next_field_progress)

declare inspect_loop.simps [simp del]

definition inspect_packet :: "trace_env \<Rightarrow> bytes \<Rightarrow> io_error + PacketAction" where
  "inspect_packet env packet = inspect_loop env packet 0 0 None None True"

subsection \<open>Writing\<close>

function encode_varint :: "u64 \<Rightarrow> bytes" where
  "encode_varint v =
     (if 0x80 \<le> v then ((ucast v AND 0x7F) OR 0x80) # encode_varint (drop_bit 7 v) else [ucast v])"
  by pat_completeness auto

lemma drop_bit_7_less: "0x80 \<le> (v :: u64) \<Longrightarrow> unat (drop_bit 7 v) < unat v"
  by (simp add: drop_bit_eq_div unat_div word_le_nat_alt)

termination encode_varint
  by (relation "measure unat") (auto simp: drop_bit_7_less)

declare encode_varint.simps [simp del]

function varint_length :: "u64 \<Rightarrow> nat" where
  "varint_length v = (if 0x80 \<le> v then varint_length (drop_bit 7 v) + 1 else 1)"
  by pat_completeness auto

termination varint_length
  by (relation "measure unat") (auto simp: drop_bit_7_less)

declare varint_length.simps [simp del]

record SanitizedTraceWriter =
  sw_output :: bytes
  sw_chunk :: bytes

definition SanitizedTraceWriter_new :: SanitizedTraceWriter where
  "SanitizedTraceWriter_new = \<lparr>sw_output = [], sw_chunk = []\<rparr>"

definition write_all_bytes :: "trace_env \<Rightarrow> bytes \<Rightarrow> bytes \<Rightarrow> io_error + bytes" where
  "write_all_bytes env output bs =
     (case te_write_error env output bs of Some e \<Rightarrow> Inl e | None \<Rightarrow> Inr (output @ bs))"

definition write_trace_packet :: "trace_env \<Rightarrow> bytes \<Rightarrow> bytes \<Rightarrow> io_error + bytes" where
  "write_trace_packet env output packet =
     res_bind (write_all_bytes env output
         (ucast (TRACE_PACKET_TAG env) # encode_varint (of_nat (length packet))))
       (\<lambda>output. write_all_bytes env output packet)"

definition append_trace_packet :: "trace_env \<Rightarrow> bytes \<Rightarrow> bytes \<Rightarrow> bytes" where
  "append_trace_packet env output packet =
     output @ ucast (TRACE_PACKET_TAG env) # encode_varint (of_nat (length packet)) @ packet"

definition flush_chunk :: "trace_env \<Rightarrow> SanitizedTraceWriter \<Rightarrow> io_error + SanitizedTraceWriter" where
  "flush_chunk env w =
     (if sw_chunk w = [] then Inr w
      else
        let compressed = te_zlib_encode env (sw_chunk w);
            wrapper = encode_varint (push_bit 3 COMPRESSED_PACKETS_FIELD OR 2)
              @ encode_varint (of_nat (length compressed)) @ compressed
        in res_bind (write_trace_packet env (sw_output w) wrapper) (\<lambda>output.
             Inr \<lparr>sw_output = output, sw_chunk = []\<rparr>))"

definition trace_packet_framed_length :: "nat \<Rightarrow> io_error + nat" where
  "trace_packet_framed_length packet_length =
     (let n = 1 + varint_length (of_nat packet_length) + packet_length in
      if n < 2 ^ 64 then Inr n else Inl (InvalidData ''trace packet framed length overflowed''))"

definition write_uncompressed_packet ::
    "trace_env \<Rightarrow> SanitizedTraceWriter \<Rightarrow> bytes \<Rightarrow> io_error + SanitizedTraceWriter" where
  "write_uncompressed_packet env w packet =
     res_bind (flush_chunk env w) (\<lambda>w.
     res_bind (write_trace_packet env (sw_output w) packet) (\<lambda>output.
       Inr (w\<lparr>sw_output := output\<rparr>)))"

definition write_packet ::
    "trace_env \<Rightarrow> SanitizedTraceWriter \<Rightarrow> bytes \<Rightarrow> io_error + SanitizedTraceWriter" where
  "write_packet env w packet =
     res_bind (trace_packet_framed_length (length packet)) (\<lambda>framed_length.
       if COMPRESSED_CHUNK_BYTES < framed_length then
         res_bind (flush_chunk env w) (\<lambda>w.
         res_bind (write_trace_packet env (sw_output w) packet) (\<lambda>output.
           Inr (w\<lparr>sw_output := output\<rparr>)))
       else
         res_bind (if COMPRESSED_CHUNK_BYTES < length (sw_chunk w) + framed_length
                   then flush_chunk env w else Inr w) (\<lambda>w.
           Inr (w\<lparr>sw_chunk := append_trace_packet env (sw_chunk w) packet\<rparr>)))"

definition finish_writer :: "trace_env \<Rightarrow> SanitizedTraceWriter \<Rightarrow> io_error + bytes" where
  "finish_writer env w =
     res_bind (flush_chunk env w) (\<lambda>w. write_all_bytes env (sw_output w) [])"

subsection \<open>Rewriting a trace\<close>

lemma read_varint_loop_progress:
  "read_varint_loop index v r = Inr (x, r') \<Longrightarrow>
     rd_end r' = rd_end r \<and>
     (if x = None then index = 0 \<and> r' = r else length (rd_bytes r') < length (rd_bytes r))"
proof (induction index v r rule: read_varint_loop.induct)
  case (1 index v r)
  note unfold = read_varint_loop.simps [of index v r]
  show ?case
  proof (cases "rd_bytes r")
    case Nil
    with "1.prems" unfold show ?thesis by (auto split: if_splits)
  next
    case (Cons byte rest)
    let ?v = "add_group index byte v" and ?r = "r\<lparr>rd_bytes := rest\<rparr>"
    have low: "index < 10" "\<not> (index = 9 \<and> 1 < byte)"
      using "1.prems" unfold Cons by (auto split: if_splits)
    show ?thesis
    proof (cases "byte < 0x80")
      case True
      with low "1.prems" unfold Cons show ?thesis by auto
    next
      case False
      with low "1.prems" unfold Cons have next_byte: "read_varint_loop (index + 1) ?v ?r = Inr (x, r')"
        by auto
      from "1.IH" [OF _ Cons low(2) refl refl False next_byte] low(1) Cons show ?thesis
        by (auto split: if_splits)
    qed
  qed
qed

lemma read_packet_progress:
  assumes "read_packet env r = Inr (Some (packet, r'))"
  shows "length (rd_bytes r') < length (rd_bytes r)"
  using assms unfolding read_packet_def read_varint_def read_exact_def
  by (auto split: sum.splits prod.splits option.splits if_splits dest!: read_varint_loop_progress)

function sanitize_packets ::
    "trace_env \<Rightarrow> bool \<Rightarrow> reader \<Rightarrow> SanitizedTraceWriter \<Rightarrow> io_error + SanitizedTraceWriter"
  and sanitize_compressed_packets ::
    "trace_env \<Rightarrow> reader \<Rightarrow> SanitizedTraceWriter \<Rightarrow> io_error + SanitizedTraceWriter" where
  "sanitize_packets env inside_compressed_chunk r w =
     (case read_packet env r of
        Inl e \<Rightarrow> Inl e
      | Inr None \<Rightarrow> Inr w
      | Inr (Some (packet, r)) \<Rightarrow>
          (case inspect_packet env packet of
             Inl e \<Rightarrow> Inl e
           | Inr action \<Rightarrow>
               (case (case action of
                        Keep \<Rightarrow> write_packet env w packet
                      | KeepUncompressed \<Rightarrow> write_uncompressed_packet env w packet
                      | Drop \<Rightarrow> Inr w
                      | Deflate compressed \<Rightarrow>
                          if \<not> inside_compressed_chunk then
                            sanitize_compressed_packets env (te_zlib_decoder env compressed) w
                          else write_uncompressed_packet env w packet
                      | Zstd compressed \<Rightarrow>
                          if \<not> inside_compressed_chunk then
                            (case te_zstd_decoder env compressed of
                               Inl e \<Rightarrow> Inl e
                             | Inr decoder \<Rightarrow> sanitize_compressed_packets env decoder w)
                          else write_uncompressed_packet env w packet) of
                  Inl e \<Rightarrow> Inl e
                | Inr w \<Rightarrow> sanitize_packets env inside_compressed_chunk r w)))"
| "sanitize_compressed_packets env decoder w =
     (let n = MAX_DECOMPRESSED_CHUNK_BYTES + 1 in
      case sanitize_packets env True (take_reader n decoder) w of
        Inl e \<Rightarrow> Inl e
      | Inr w \<Rightarrow>
          if n \<le> length (rd_bytes decoder) then
            Inl (InvalidData ''decompressed packet chunk exceeds the 64 MiB limit'')
          else Inr w)"
  by pat_completeness auto
termination
  by (relation "measures [\<lambda>x. case x of Inl (_, inside, _, _) \<Rightarrow> if inside then 0 else 2 | Inr _ \<Rightarrow> 1,
      \<lambda>x. case x of Inl (_, _, r, _) \<Rightarrow> length (rd_bytes r) | Inr _ \<Rightarrow> 0]")
    (auto dest!: read_packet_progress)

declare sanitize_packets.simps [simp del] sanitize_compressed_packets.simps [simp del]

definition sanitize_trace_inner :: "trace_env \<Rightarrow> io_error + reader \<Rightarrow> io_error + bytes" where
  "sanitize_trace_inner env input =
     (case te_temp_file env of
        Some e \<Rightarrow> Inl e
      | None \<Rightarrow>
          res_bind input (\<lambda>r.
          res_bind (sanitize_packets env False r SanitizedTraceWriter_new) (\<lambda>writer.
            finish_writer env writer)))"

datatype RankedReportFailurePhase =
  Argument | Input | Health | TraceProcessor | Query | AggregateValidation | Serialization | Output

record RankedReportFailure =
  rrf_phase :: RankedReportFailurePhase
  rrf_kind :: string
  rrf_message :: string

definition sanitize_failure :: "io_error \<Rightarrow> RankedReportFailure" where
  "sanitize_failure error =
     (case error of
        InvalidData _ \<Rightarrow>
          \<lparr>rrf_phase = Input, rrf_kind = ''malformed_trace'',
           rrf_message = ''input trace could not be prepared for ranked analysis''\<rparr>
      | _ \<Rightarrow>
          \<lparr>rrf_phase = Input, rrf_kind = ''sanitize_failed'',
           rrf_message = ''input trace could not be prepared for ranked analysis''\<rparr>)"

definition sanitize_trace :: "trace_env \<Rightarrow> io_error + reader \<Rightarrow> RankedReportFailure + bytes" where
  "sanitize_trace env input = map_err sanitize_failure (sanitize_trace_inner env input)"

subsection \<open>Variable-length integers\<close>

lemma byte_bits:
  "bit (0x7F :: u8) n \<longleftrightarrow> n < 7" "bit (0x80 :: u8) n \<longleftrightarrow> n = 7"
  "bit (0x7F :: u64) n \<longleftrightarrow> n < 7" "bit (0x80 :: u64) n \<longleftrightarrow> n = 7"
proof -
  have mask7: "(0x7F :: u8) = mask 7" "(0x7F :: u64) = mask 7"
    by (simp_all add: mask_eq_exp_minus_1)
  have one: "bit (push_bit k 1 :: u8) n \<longleftrightarrow> n < 8 \<and> n = k" "bit (push_bit k 1 :: u64) n \<longleftrightarrow> n < 64 \<and> n = k" for k
    by (auto simp: bit_simps)
  show "bit (0x7F :: u8) n \<longleftrightarrow> n < 7"
    by (subst mask7) (auto simp: bit_simps)
  show "bit (0x7F :: u64) n \<longleftrightarrow> n < 7"
    by (subst mask7) (auto simp: bit_simps)
  show "bit (0x80 :: u8) n \<longleftrightarrow> n = 7" "bit (0x80 :: u64) n \<longleftrightarrow> n = 7"
    using one [of 7] by auto
qed

lemma group_bits: "push_bit n (take_bit 7 u) OR push_bit (n + 7) (drop_bit 7 u) = push_bit n (u :: u64)"
proof (rule bit_eqI)
  fix m assume "possible_bit TYPE(u64) m"
  show "bit (push_bit n (take_bit 7 u) OR push_bit (n + 7) (drop_bit 7 u)) m = bit (push_bit n u) m"
    by (cases "m < n + 7") (auto simp: bit_simps)
qed

lemma group_of_continued_byte:
  "ucast (((ucast (u :: u64) AND 0x7F) OR 0x80 :: u8) AND 0x7F) = (take_bit 7 u :: u64)"
  by (rule bit_eqI) (simp only: bit_and_iff bit_or_iff bit_unsigned_iff bit_take_bit_iff byte_bits, auto)

lemma group_of_last_byte:
  assumes "(u :: u64) < 0x80"
  shows "ucast ((ucast u :: u8) AND 0x7F) = u"
proof -
  have "take_bit 7 u = u"
    using assms by (simp add: take_bit_eq_mod mod_word_less)
  then have low: "n < 7" if "bit u n" for n
    using that by (metis bit_take_bit_iff)
  show ?thesis
    by (rule bit_eqI) (simp only: bit_and_iff bit_unsigned_iff byte_bits, auto dest: low)
qed

lemma continued_byte_high: "\<not> ((x AND 0x7F) OR 0x80 :: u8) < 0x80"
  using le_word_or1 [of "0x80 :: u8" "x AND 0x7F"] by (simp add: not_less)

lemma varint_length_encode: "length (encode_varint v) = varint_length v"
  by (induction v rule: encode_varint.induct) (subst encode_varint.simps, subst varint_length.simps, simp)

lemma varint_length_le: "unat v < 2 ^ (7 * Suc k) \<Longrightarrow> varint_length v \<le> Suc k"
proof (induction v arbitrary: k rule: varint_length.induct)
  case (1 v)
  show ?case
  proof (cases "0x80 \<le> v")
    case True
    with "1.prems" obtain m where m: "k = Suc m"
      by (cases k) (auto simp: word_le_nat_alt)
    from "1.prems" have "unat (drop_bit 7 v) < 2 ^ (7 * Suc m)"
      by (simp add: m drop_bit_eq_div unat_div less_mult_imp_div_less power_add)
    from "1.IH" [OF True this] True m show ?thesis
      by (subst varint_length.simps) simp
  qed (subst varint_length.simps, simp)
qed

lemma varint_length_bound: "varint_length v \<le> 10"
  using varint_length_le [of v 9] unat_lt_u64 [of v] by simp

lemma read_varint_loop_encode:
  assumes "index < 10" and "unat u < 2 ^ (64 - 7 * index)"
  shows "read_varint_loop index acc (r\<lparr>rd_bytes := encode_varint u @ rest\<rparr>) =
    Inr (Some (acc OR push_bit (index * 7) u), r\<lparr>rd_bytes := rest\<rparr>)"
  using assms
proof (induction u arbitrary: index acc rule: encode_varint.induct)
  case (1 u)
  show ?case
  proof (cases "0x80 \<le> u")
    case True
    have small: "index < 9"
    proof (rule ccontr)
      assume "\<not> index < 9"
      with "1.prems"(1) have "index = 9" by simp
      with "1.prems"(2) have "unat u < 2" by simp
      with True show False by (simp add: word_le_nat_alt)
    qed
    have "unat (drop_bit 7 u) < 2 ^ (64 - 7 * Suc index)"
    proof -
      have "2 ^ (64 - 7 * index) = (2 ^ (64 - 7 * Suc index) * 128 :: nat)"
        using small power_add [of "2 :: nat" "64 - 7 * Suc index" 7] by (simp add: Suc_diff_Suc)
      with "1.prems"(2) show ?thesis
        by (simp add: drop_bit_eq_div unat_div less_mult_imp_div_less)
    qed
    then have IH: "read_varint_loop (Suc index) (add_group index ((ucast u AND 0x7F) OR 0x80) acc)
        (r\<lparr>rd_bytes := encode_varint (drop_bit 7 u) @ rest\<rparr>) =
        Inr (Some (add_group index ((ucast u AND 0x7F) OR 0x80) acc OR push_bit (Suc index * 7) (drop_bit 7 u)),
          r\<lparr>rd_bytes := rest\<rparr>)"
      using "1.IH" [OF True] small by simp
    have "add_group index ((ucast u AND 0x7F) OR 0x80) acc OR push_bit (Suc index * 7) (drop_bit 7 u) =
        acc OR push_bit (index * 7) u"
      using group_bits [of "index * 7" u]
      by (simp add: add_group_def group_of_continued_byte or.assoc algebra_simps)
    with IH True small continued_byte_high [of "ucast u"] show ?thesis
      by (subst read_varint_loop.simps, subst encode_varint.simps) simp
  next
    case False
    then have small: "u < 0x80" by simp
    have byte: "ucast u < (0x80 :: u8)"
      using small by (simp add: word_less_nat_alt unsigned_ucast_eq take_bit_eq_mod)
    have top: "\<not> (index = 9 \<and> 1 < (ucast u :: u8))"
      using "1.prems"(2) by (auto simp: word_less_nat_alt unsigned_ucast_eq take_bit_eq_mod)
    show ?thesis
      using False "1.prems"(1) byte top
      by (subst read_varint_loop.simps, subst encode_varint.simps)
        (simp add: add_group_def group_of_last_byte [OF small])
  qed
qed

lemma read_varint_encode:
  "read_varint \<lparr>rd_bytes = encode_varint v @ rest, rd_end = e\<rparr> =
     Inr (Some v, \<lparr>rd_bytes = rest, rd_end = e\<rparr>)"
  using read_varint_loop_encode [where index = 0 and u = v and acc = 0
      and r = "\<lparr>rd_bytes = [], rd_end = e\<rparr>" and rest = rest] unat_lt_u64 [of v]
  by (simp add: read_varint_def)

text \<open>Reading from a slice at an offset agrees with reading the rest of the slice.\<close>

lemma decode_varint_loop_reads:
  assumes "offset \<le> length data"
    and "read_varint_loop index acc \<lparr>rd_bytes = drop offset data, rd_end = e\<rparr> =
      Inr (Some v, \<lparr>rd_bytes = rest, rd_end = e\<rparr>)"
  shows "decode_varint_loop data index offset acc = Inr (v, length data - length rest)"
  using assms
proof (induction data index offset acc rule: decode_varint_loop.induct)
  case (1 data index offset acc)
  note unfold = read_varint_loop.simps [of index acc "\<lparr>rd_bytes = drop offset data, rd_end = e\<rparr>"]
  show ?case
  proof (cases "offset < length data")
    case False
    with "1.prems" unfold show ?thesis by (auto split: if_splits)
  next
    case True
    then have bytes: "drop offset data = data ! offset # drop (Suc offset) data"
      by (simp add: Cons_nth_drop_Suc)
    have low: "index < 10" "\<not> (index = 9 \<and> 1 < data ! offset)"
      using "1.prems"(2) unfold bytes by (auto split: if_splits)
    show ?thesis
    proof (cases "data ! offset < 0x80")
      case small: True
      with low "1.prems"(2) unfold bytes have "v = add_group index (data ! offset) acc" "rest = drop (Suc offset) data"
        by auto
      with small low True show ?thesis
        by (subst decode_varint_loop.simps) (simp add: Let_def)
    next
      case False
      with low "1.prems"(2) unfold bytes
      have rest: "read_varint_loop (index + 1) (add_group index (data ! offset) acc)
          \<lparr>rd_bytes = drop (offset + 1) data, rd_end = e\<rparr> = Inr (Some v, \<lparr>rd_bytes = rest, rd_end = e\<rparr>)"
        by (auto split: if_splits)
      have "decode_varint_loop data (index + 1) (offset + 1) (add_group index (data ! offset) acc) =
          Inr (v, length data - length rest)"
        by (rule "1.IH" [OF _ _ refl refl low(2) refl False _ rest]) (use low True in simp_all)
      with low True False show ?thesis
        by (subst decode_varint_loop.simps) (simp add: Let_def)
    qed
  qed
qed

lemma decode_varint_encode:
  assumes "drop offset data = encode_varint v @ rest" and "offset \<le> length data"
  shows "decode_varint data offset = Inr (v, length data - length rest)"
  unfolding decode_varint_def
  using assms(2) read_varint_encode [of v rest UnexpectedEof]
  by (intro decode_varint_loop_reads [where e = UnexpectedEof]) (simp_all add: assms(1) read_varint_def)

subsection \<open>Frames\<close>

definition frame :: "trace_env \<Rightarrow> bytes \<Rightarrow> bytes" where
  "frame env packet = ucast (TRACE_PACKET_TAG env) # encode_varint (of_nat (length packet)) @ packet"

text \<open>
  What is relied on of the trace format and of zlib: the tag of a packet fits in one byte, and
  decoding the encoding of a chunk gives its bytes back, where the encoding of a chunk is not larger
  than a packet may be.
\<close>

definition trace_format_laws :: "trace_env \<Rightarrow> bool" where
  "trace_format_laws env \<longleftrightarrow>
     te_packet env < 16 \<and>
     (\<forall>bs. length bs \<le> COMPRESSED_CHUNK_BYTES \<longrightarrow>
        te_zlib_decoder env (te_zlib_encode env bs) = \<lparr>rd_bytes = bs, rd_end = UnexpectedEof\<rparr> \<and>
        length (te_zlib_encode env bs) + 20 \<le> MAX_TRACE_PACKET_BYTES)"

lemma tag_fits:
  assumes "te_packet env < 16"
  shows "encode_varint (TRACE_PACKET_TAG env) = [ucast (TRACE_PACKET_TAG env)]"
proof -
  have "take_bit 4 (te_packet env) = te_packet env"
    using assms by (simp add: take_bit_eq_mod mod_word_less)
  then have low: "n < 4" if "bit (te_packet env) n" for n
    using that by (metis bit_take_bit_iff)
  have "take_bit 7 (TRACE_PACKET_TAG env) = TRACE_PACKET_TAG env"
  proof (rule bit_eqI)
    fix n
    have "n < 7" if "bit (push_bit 3 (te_packet env)) n"
      using that low [of "n - 3"] by (auto simp: bit_push_bit_iff)
    moreover have "n < 7" if "bit (2 :: u64) n"
      using that bit_exp_iff [of 1 n, where 'a = u64] by simp
    ultimately show "bit (take_bit 7 (TRACE_PACKET_TAG env)) n = bit (TRACE_PACKET_TAG env) n"
      by (auto simp: TRACE_PACKET_TAG_def bit_take_bit_iff bit_or_iff)
  qed
  moreover have "unat (take_bit 7 (TRACE_PACKET_TAG env)) < 2 ^ 7"
    by (simp add: take_bit_eq_mod unat_mod)
  ultimately have "unat (TRACE_PACKET_TAG env) < 128" by simp
  then show ?thesis
    by (subst encode_varint.simps) (simp add: word_le_nat_alt)
qed

lemma read_packet_frame:
  assumes "te_packet env < 16" and "length packet \<le> MAX_TRACE_PACKET_BYTES"
  shows "read_packet env \<lparr>rd_bytes = frame env packet @ rest, rd_end = e\<rparr> =
    Inr (Some (packet, \<lparr>rd_bytes = rest, rd_end = e\<rparr>))"
proof -
  have len: "unat (of_nat (length packet) :: u64) = length packet"
    using assms(2) by (simp add: unat_of_nat MAX_TRACE_PACKET_BYTES_def)
  have "frame env packet @ rest =
      encode_varint (TRACE_PACKET_TAG env) @ encode_varint (of_nat (length packet)) @ packet @ rest"
    by (simp add: frame_def tag_fits [OF assms(1)])
  then show ?thesis
    using assms(2) len by (simp add: read_packet_def read_varint_encode read_exact_def)
qed

subsection \<open>The packets of a trace\<close>

text \<open>
  The packets of a trace with its compressed chunks, of at most 64 MiB, replaced by their packets; a
  compressed chunk inside a chunk counts as a packet.
\<close>

function trace_packets :: "trace_env \<Rightarrow> bool \<Rightarrow> reader \<Rightarrow> io_error + bytes list" where
  "trace_packets env inside r =
     (case read_packet env r of
        Inl e \<Rightarrow> Inl e
      | Inr None \<Rightarrow> Inr []
      | Inr (Some (packet, r)) \<Rightarrow>
          (case inspect_packet env packet of
             Inl e \<Rightarrow> Inl e
           | Inr action \<Rightarrow>
               (case (case action of
                        Deflate compressed \<Rightarrow>
                          if inside then Inr [packet]
                          else if MAX_DECOMPRESSED_CHUNK_BYTES
                              < length (rd_bytes (te_zlib_decoder env compressed)) then
                            Inl (InvalidData ''decompressed packet chunk exceeds the 64 MiB limit'')
                          else trace_packets env True (te_zlib_decoder env compressed)
                      | Zstd compressed \<Rightarrow>
                          if inside then Inr [packet]
                          else (case te_zstd_decoder env compressed of
                                  Inl e \<Rightarrow> Inl e
                                | Inr decoder \<Rightarrow>
                                    if MAX_DECOMPRESSED_CHUNK_BYTES < length (rd_bytes decoder) then
                                      Inl (InvalidData ''decompressed packet chunk exceeds the 64 MiB limit'')
                                    else trace_packets env True decoder)
                      | _ \<Rightarrow> Inr [packet]) of
                  Inl e \<Rightarrow> Inl e
                | Inr packets \<Rightarrow>
                    (case trace_packets env inside r of
                       Inl e \<Rightarrow> Inl e
                     | Inr rest \<Rightarrow> Inr (packets @ rest)))))"
  by pat_completeness auto
termination
  by (relation "measures [\<lambda>(_, inside, _). if inside then 0 else 1, \<lambda>(_, _, r). length (rd_bytes r)]")
    (auto dest!: read_packet_progress)

declare trace_packets.simps [simp del]

definition nested :: "trace_env \<Rightarrow> bytes \<Rightarrow> bool" where
  "nested env packet \<longleftrightarrow>
     (case inspect_packet env packet of Inr (Deflate _) \<Rightarrow> True | Inr (Zstd _) \<Rightarrow> True | _ \<Rightarrow> False)"

definition in_scope :: "trace_env \<Rightarrow> bytes \<Rightarrow> bool" where
  "in_scope env packet \<longleftrightarrow> inspect_packet env packet \<noteq> Inr Drop"

text \<open>Bytes that contribute some packets to every trace they start.\<close>

definition yields :: "trace_env \<Rightarrow> bool \<Rightarrow> bytes \<Rightarrow> bytes list \<Rightarrow> bool" where
  "yields env inside bs packets \<longleftrightarrow>
     (\<forall>rest e. trace_packets env inside \<lparr>rd_bytes = bs @ rest, rd_end = e\<rparr> =
        (case trace_packets env inside \<lparr>rd_bytes = rest, rd_end = e\<rparr> of
           Inl error \<Rightarrow> Inl error
         | Inr ps \<Rightarrow> Inr (packets @ ps)))"

lemma yields_Nil [simp]: "yields env inside [] []"
  by (simp add: yields_def split: sum.split)

lemma yields_append:
  assumes "yields env inside xs ps" and "yields env inside ys qs"
  shows "yields env inside (xs @ ys) (ps @ qs)"
  using assms by (simp add: yields_def split: sum.split)

lemma trace_packets_end [simp]:
  "trace_packets env inside \<lparr>rd_bytes = [], rd_end = UnexpectedEof\<rparr> = Inr []"
  by (subst trace_packets.simps, simp add: read_packet_def read_varint_def, subst read_varint_loop.simps, simp)

lemma yields_whole:
  "yields env inside bs ps \<Longrightarrow> trace_packets env inside \<lparr>rd_bytes = bs, rd_end = UnexpectedEof\<rparr> = Inr ps"
  unfolding yields_def by (drule spec [of _ "[]"], drule spec [of _ UnexpectedEof]) simp

lemma yields_frame:
  assumes "te_packet env < 16" and "length packet \<le> MAX_TRACE_PACKET_BYTES"
    and "inspect_packet env packet = Inr action" and "inside \<or> \<not> nested env packet"
  shows "yields env inside (frame env packet) [packet]"
proof -
  have "trace_packets env inside \<lparr>rd_bytes = frame env packet @ rest, rd_end = e\<rparr> =
      (case trace_packets env inside \<lparr>rd_bytes = rest, rd_end = e\<rparr> of
         Inl error \<Rightarrow> Inl error
       | Inr ps \<Rightarrow> Inr ([packet] @ ps))" for rest e
    using assms(3,4)
    by (subst trace_packets.simps)
      (auto simp: read_packet_frame [OF assms(1,2)] nested_def split: PacketAction.splits sum.splits)
  then show ?thesis by (simp add: yields_def)
qed

lemma inspect_wrapper:
  assumes "length compressed < 2 ^ 64"
  shows "inspect_packet env (encode_varint (push_bit 3 COMPRESSED_PACKETS_FIELD OR 2)
      @ encode_varint (of_nat (length compressed)) @ compressed) = Inr (Deflate compressed)"
proof -
  have tag: "push_bit 3 COMPRESSED_PACKETS_FIELD OR 2 = (402 :: u64)"
    by (simp add: COMPRESSED_PACKETS_FIELD_def)
  define rest where "rest = encode_varint (of_nat (length compressed) :: u64) @ compressed"
  define data where "data = encode_varint (402 :: u64) @ rest"
  define offset where "offset = length data - length rest"
  have len: "unat (of_nat (length compressed) :: u64) = length compressed"
    using assms by (simp add: unat_of_nat)
  have d0: "decode_varint data 0 = Inr (402, offset)"
    unfolding offset_def by (rule decode_varint_encode) (simp_all add: data_def)
  have d1: "decode_varint data offset = Inr (of_nat (length compressed), length data - length compressed)"
    by (rule decode_varint_encode) (simp_all add: data_def offset_def rest_def)
  have tail: "drop (length data - length compressed) data = compressed"
    by (simp add: data_def rest_def)
  have fits: "length compressed \<le> length data"
    by (simp add: data_def rest_def)
  have "next_field data 0 =
      Inr (\<lparr>f_number = 50, f_varint = None, f_delimited = Some compressed\<rparr>, length data)"
    by (simp add: next_field_def d0 d1 len tail fits)
  moreover have "0 < length data"
    unfolding data_def by (subst encode_varint.simps) simp
  ultimately have "inspect_packet env data = Inr (Deflate compressed)"
    unfolding inspect_packet_def
    by (subst inspect_loop.simps)
      (simp add: COMPRESSED_PACKETS_FIELD_def inspect_loop.simps [of _ _ "length _"] inspected_def)
  then show ?thesis
    by (simp only: tag data_def rest_def)
qed

subsection \<open>What the writer holds\<close>

text \<open>
  The writer holds the packets \<open>ps\<close>: those of its output are followed by those of its chunk, which
  is never larger than a chunk may be.
\<close>

definition holds :: "trace_env \<Rightarrow> SanitizedTraceWriter \<Rightarrow> bytes list \<Rightarrow> bool" where
  "holds env w ps \<longleftrightarrow>
     (\<exists>out chunk. ps = out @ chunk \<and> yields env False (sw_output w) out \<and>
        yields env True (sw_chunk w) chunk \<and> length (sw_chunk w) \<le> COMPRESSED_CHUNK_BYTES)"

lemma holds_new: "holds env SanitizedTraceWriter_new []"
  by (simp add: holds_def SanitizedTraceWriter_new_def)

lemma write_trace_packet_frame:
  "write_trace_packet env output packet = Inr output' \<Longrightarrow> output' = output @ frame env packet"
  by (auto simp: write_trace_packet_def write_all_bytes_def frame_def res_simps split: option.splits)

lemma yields_chunk:
  assumes laws: "trace_format_laws env" and chunk: "length bs \<le> COMPRESSED_CHUNK_BYTES"
    and bs: "yields env True bs ps"
  shows "yields env False (frame env (encode_varint (push_bit 3 COMPRESSED_PACKETS_FIELD OR 2)
    @ encode_varint (of_nat (length (te_zlib_encode env bs))) @ te_zlib_encode env bs)) ps"
proof -
  let ?compressed = "te_zlib_encode env bs"
  let ?wrapper = "encode_varint (push_bit 3 COMPRESSED_PACKETS_FIELD OR 2)
    @ encode_varint (of_nat (length ?compressed)) @ ?compressed"
  have decoded: "te_zlib_decoder env ?compressed = \<lparr>rd_bytes = bs, rd_end = UnexpectedEof\<rparr>"
    and small: "length ?compressed + 20 \<le> MAX_TRACE_PACKET_BYTES" and tag: "te_packet env < 16"
    using laws chunk by (simp_all add: trace_format_laws_def)
  have inspected: "inspect_packet env ?wrapper = Inr (Deflate ?compressed)"
    using small by (intro inspect_wrapper) (simp add: MAX_TRACE_PACKET_BYTES_def)
  have len: "length ?wrapper \<le> MAX_TRACE_PACKET_BYTES"
    using small varint_length_bound [of "of_nat (length ?compressed)"]
      varint_length_bound [of "push_bit 3 COMPRESSED_PACKETS_FIELD OR 2"]
    by (simp add: varint_length_encode)
  have "trace_packets env False \<lparr>rd_bytes = frame env ?wrapper @ rest, rd_end = e\<rparr> =
      (case trace_packets env False \<lparr>rd_bytes = rest, rd_end = e\<rparr> of
         Inl error \<Rightarrow> Inl error
       | Inr qs \<Rightarrow> Inr (ps @ qs))" for rest e
    using chunk by (subst trace_packets.simps)
      (simp add: read_packet_frame [OF tag len] inspected decoded yields_whole [OF bs]
        COMPRESSED_CHUNK_BYTES_def MAX_DECOMPRESSED_CHUNK_BYTES_def)
  then show ?thesis by (simp add: yields_def)
qed

lemma flush_chunk_holds:
  assumes laws: "trace_format_laws env" and flushed: "flush_chunk env w = Inr w'" and holds: "holds env w ps"
  shows "yields env False (sw_output w') ps \<and> sw_chunk w' = []"
proof -
  from holds obtain out chunk where w: "ps = out @ chunk" "yields env False (sw_output w) out"
      "yields env True (sw_chunk w) chunk" "length (sw_chunk w) \<le> COMPRESSED_CHUNK_BYTES"
    by (auto simp: holds_def)
  show ?thesis
  proof (cases "sw_chunk w = []")
    case True
    with yields_whole [OF w(3)] w flushed show ?thesis by (simp add: flush_chunk_def)
  next
    case False
    with flushed obtain bs where "w' = \<lparr>sw_output = bs, sw_chunk = []\<rparr>"
      "bs = sw_output w @ frame env (encode_varint (push_bit 3 COMPRESSED_PACKETS_FIELD OR 2)
        @ encode_varint (of_nat (length (te_zlib_encode env (sw_chunk w)))) @ te_zlib_encode env (sw_chunk w))"
      by (auto simp: flush_chunk_def Let_def res_simps dest!: write_trace_packet_frame)
    with yields_append [OF w(2) yields_chunk [OF laws w(4,3)]] w(1) show ?thesis by simp
  qed
qed

lemma flushed_holds: "yields env False (sw_output w) ps \<Longrightarrow> sw_chunk w = [] \<Longrightarrow> holds env w ps"
  unfolding holds_def by (rule exI [of _ ps], rule exI [of _ "[]"]) simp

lemma write_uncompressed_packet_holds:
  assumes laws: "trace_format_laws env" and run: "write_uncompressed_packet env w packet = Inr w'"
    and holds: "holds env w ps" and packet: "yields env False (frame env packet) [packet]"
  shows "holds env w' (ps @ [packet])"
proof -
  from run obtain v where v: "flush_chunk env w = Inr v"
    "w' = v\<lparr>sw_output := sw_output v @ frame env packet\<rparr>"
    by (auto simp: write_uncompressed_packet_def res_simps dest!: write_trace_packet_frame)
  with flush_chunk_holds [OF laws v(1) holds] yields_append [OF _ packet] show ?thesis
    by (auto intro!: flushed_holds)
qed

lemma write_packet_holds:
  assumes laws: "trace_format_laws env" and run: "write_packet env w packet = Inr w'"
    and holds: "holds env w ps" and packet: "\<And>inside. yields env inside (frame env packet) [packet]"
  shows "holds env w' (ps @ [packet])"
proof -
  from run obtain n where n: "trace_packet_framed_length (length packet) = Inr n"
    by (auto simp: write_packet_def res_simps)
  then have n_eq: "n = length (frame env packet)"
    by (auto simp: trace_packet_framed_length_def frame_def varint_length_encode Let_def split: if_splits)
  show ?thesis
  proof (cases "COMPRESSED_CHUNK_BYTES < n")
    case True
    with run n have "write_uncompressed_packet env w packet = Inr w'"
      by (simp add: write_packet_def write_uncompressed_packet_def)
    from write_uncompressed_packet_holds [OF laws this holds packet] show ?thesis .
  next
    case False
    with run n obtain v where v: "(if COMPRESSED_CHUNK_BYTES < length (sw_chunk w) + n
        then flush_chunk env w else Inr w) = Inr v"
      "w' = v\<lparr>sw_chunk := sw_chunk v @ frame env packet\<rparr>"
      by (auto simp: write_packet_def res_simps append_trace_packet_def frame_def)
    have "holds env v ps \<and> length (sw_chunk v) + n \<le> COMPRESSED_CHUNK_BYTES"
      using v(1) flush_chunk_holds [OF laws _ holds] holds False by (auto intro: flushed_holds split: if_splits)
    then obtain out chunk where "ps = out @ chunk" "yields env False (sw_output v) out"
      "yields env True (sw_chunk v) chunk" "length (sw_chunk v) + n \<le> COMPRESSED_CHUNK_BYTES"
      by (auto simp: holds_def)
    then show ?thesis
      unfolding holds_def using v(2) n_eq yields_append [OF _ packet [of True]]
      by (intro exI [of _ out] exI [of _ "chunk @ [packet]"]) simp
  qed
qed

subsection \<open>The rewritten trace\<close>

definition carries :: "trace_env \<Rightarrow> SanitizedTraceWriter \<Rightarrow> SanitizedTraceWriter \<Rightarrow> bytes list \<Rightarrow> bool" where
  "carries env w w' packets \<longleftrightarrow>
     (\<forall>ps. holds env w ps \<longrightarrow> (\<forall>p \<in> set packets. \<not> nested env p) \<longrightarrow>
        holds env w' (ps @ filter (in_scope env) packets))"

lemma carries_Nil [simp]: "carries env w w []"
  by (simp add: carries_def)

lemma carries_append:
  "carries env w v ps \<Longrightarrow> carries env v w' qs \<Longrightarrow> carries env w w' (ps @ qs)"
  unfolding carries_def by (metis Un_iff append.assoc filter_append set_append)

lemma read_packet_size:
  "read_packet env r = Inr (Some (packet, r')) \<Longrightarrow> length packet \<le> MAX_TRACE_PACKET_BYTES"
  by (auto simp: read_packet_def read_exact_def split: sum.splits prod.splits option.splits if_splits)

definition packet_written ::
    "trace_env \<Rightarrow> PacketAction \<Rightarrow> SanitizedTraceWriter \<Rightarrow> bytes \<Rightarrow> io_error + SanitizedTraceWriter" where
  "packet_written env action w packet =
     (case action of
        Keep \<Rightarrow> write_packet env w packet
      | Drop \<Rightarrow> Inr w
      | _ \<Rightarrow> write_uncompressed_packet env w packet)"

lemma packet_carried:
  assumes laws: "trace_format_laws env" and size: "length packet \<le> MAX_TRACE_PACKET_BYTES"
    and action: "inspect_packet env packet = Inr action"
    and run: "packet_written env action w packet = Inr w'"
  shows "carries env w w' [packet]"
  unfolding carries_def
proof (intro allI impI)
  fix ps assume holds: "holds env w ps" and flat: "\<forall>p \<in> set [packet]. \<not> nested env p"
  have frame: "yields env inside (frame env packet) [packet]" for inside
    using laws flat by (intro yields_frame [OF _ size action]) (simp_all add: trace_format_laws_def)
  show "holds env w' (ps @ filter (in_scope env) [packet])"
    using run action flat holds frame write_packet_holds [OF laws _ holds frame]
      write_uncompressed_packet_holds [OF laws _ holds frame]
    by (cases action) (simp_all add: packet_written_def in_scope_def nested_def)
qed

lemma sanitize_packets_carries:
  assumes laws: "trace_format_laws env"
    and chunks: "\<And>decoder v v'. \<not> inside \<Longrightarrow> sanitize_compressed_packets env decoder v = Inr v' \<Longrightarrow>
      length (rd_bytes decoder) \<le> MAX_DECOMPRESSED_CHUNK_BYTES \<and>
      (\<exists>ps. trace_packets env True decoder = Inr ps \<and> carries env v v' ps)"
    and run: "sanitize_packets env inside r w = Inr w'"
  shows "\<exists>ps. trace_packets env inside r = Inr ps \<and> carries env w w' ps"
  using run
proof (induction "length (rd_bytes r)" arbitrary: r w rule: less_induct)
  case less
  show ?case
  proof (cases "\<exists>packet r'. read_packet env r = Inr (Some (packet, r'))")
    case False
    with less.prems have "read_packet env r = Inr None" "w' = w"
      by (auto simp: sanitize_packets.simps [of env inside r w] split: sum.splits option.splits)
    then show ?thesis by (subst trace_packets.simps) simp
  next
    case True
    then obtain packet r' where packet: "read_packet env r = Inr (Some (packet, r'))" by blast
    obtain action v where action: "inspect_packet env packet = Inr action"
      and rest: "sanitize_packets env inside r' v = Inr w'"
      and written: "if inside \<or> \<not> nested env packet then packet_written env action w packet = Inr v
        else (\<exists>decoder. (case action of Deflate c \<Rightarrow> Inr (te_zlib_decoder env c)
                | Zstd c \<Rightarrow> te_zstd_decoder env c | _ \<Rightarrow> Inl OtherError) = Inr decoder \<and>
              sanitize_compressed_packets env decoder w = Inr v)"
      using less.prems packet unfolding sanitize_packets.simps [of env inside r w]
      by (auto simp: packet_written_def nested_def split: sum.splits PacketAction.splits if_splits)
    from less.hyps [OF read_packet_progress [OF packet] rest] obtain qs
      where qs: "trace_packets env inside r' = Inr qs" "carries env v w' qs" by blast
    show ?thesis
    proof (cases "inside \<or> \<not> nested env packet")
      case True
      with written packet_carried [OF laws read_packet_size [OF packet] action]
      have "carries env w v [packet]" by simp
      from carries_append [OF this qs(2)] True packet action qs(1) show ?thesis
        by (intro exI [of _ "[packet] @ qs"], subst trace_packets.simps)
          (auto simp: nested_def split: PacketAction.splits)
    next
      case False
      with written obtain decoder where decoder:
        "(case action of Deflate c \<Rightarrow> Inr (te_zlib_decoder env c)
            | Zstd c \<Rightarrow> te_zstd_decoder env c | _ \<Rightarrow> Inl OtherError) = Inr decoder"
        "sanitize_compressed_packets env decoder w = Inr v" by auto
      from chunks [OF _ decoder(2)] False obtain ps
        where ps: "trace_packets env True decoder = Inr ps" "carries env w v ps"
          and size: "length (rd_bytes decoder) \<le> MAX_DECOMPRESSED_CHUNK_BYTES" by blast
      from carries_append [OF ps(2) qs(2)] False packet action qs(1) ps(1) decoder(1) size show ?thesis
        by (intro exI [of _ "ps @ qs"], subst trace_packets.simps)
          (auto simp: nested_def split: PacketAction.splits)
    qed
  qed
qed

lemma sanitize_compressed_carries:
  assumes laws: "trace_format_laws env" and run: "sanitize_compressed_packets env decoder w = Inr w'"
  shows "length (rd_bytes decoder) \<le> MAX_DECOMPRESSED_CHUNK_BYTES \<and>
    (\<exists>ps. trace_packets env True decoder = Inr ps \<and> carries env w w' ps)"
proof -
  from run have "length (rd_bytes decoder) \<le> MAX_DECOMPRESSED_CHUNK_BYTES" "take_reader (MAX_DECOMPRESSED_CHUNK_BYTES + 1) decoder = decoder"
    "sanitize_packets env True (take_reader (MAX_DECOMPRESSED_CHUNK_BYTES + 1) decoder) w = Inr w'"
    by (auto simp: sanitize_compressed_packets.simps Let_def take_reader_def split: sum.splits if_splits)
  with sanitize_packets_carries [OF laws, of True decoder w w'] show ?thesis by simp
qed

lemma sanitized_trace_packets:
  assumes laws: "trace_format_laws env"
    and run: "sanitize_trace env (Inr input) = Inr sanitized"
  obtains packets where "trace_packets env False input = Inr packets"
    and "(\<forall>p \<in> set packets. \<not> nested env p) \<Longrightarrow>
      trace_packets env False \<lparr>rd_bytes = sanitized, rd_end = UnexpectedEof\<rparr> =
        Inr (filter (in_scope env) packets)"
proof -
  from run obtain w v where w: "sanitize_packets env False input SanitizedTraceWriter_new = Inr w"
    and v: "flush_chunk env w = Inr v" "sanitized = sw_output v"
    by (auto simp: sanitize_trace_def sanitize_trace_inner_def finish_writer_def write_all_bytes_def res_simps
        split: option.splits)
  from sanitize_packets_carries [OF laws sanitize_compressed_carries [OF laws] w] obtain packets
    where packets: "trace_packets env False input = Inr packets"
      "carries env SanitizedTraceWriter_new w packets" by blast
  show ?thesis
  proof (rule that [OF packets(1)])
    assume "\<forall>p \<in> set packets. \<not> nested env p"
    with packets(2) holds_new have "holds env w (filter (in_scope env) packets)"
      by (fastforce simp: carries_def)
    from flush_chunk_holds [OF laws v(1) this] show
      "trace_packets env False \<lparr>rd_bytes = sanitized, rd_end = UnexpectedEof\<rparr> =
        Inr (filter (in_scope env) packets)"
      by (simp add: v(2) yields_whole)
  qed
qed

text \<open>The other way round, a readable trace is rewritten unless writing fails.\<close>

definition writes_succeed :: "trace_env \<Rightarrow> bool" where
  "writes_succeed env \<longleftrightarrow> te_temp_file env = None \<and> (\<forall>out bs. te_write_error env out bs = None)"

lemma writes_ok:
  assumes "writes_succeed env"
  shows "write_all_bytes env out bs = Inr (out @ bs)" "\<exists>out'. write_trace_packet env out packet = Inr out'"
    "\<exists>w'. flush_chunk env w = Inr w'" "\<exists>w'. write_uncompressed_packet env w packet = Inr w'"
proof -
  show all: "write_all_bytes env out bs = Inr (out @ bs)" for out bs
    using assms by (simp add: write_all_bytes_def writes_succeed_def)
  show packet: "\<exists>out'. write_trace_packet env out packet = Inr out'" for out packet
    by (simp add: write_trace_packet_def all)
  show flush: "\<exists>w'. flush_chunk env w = Inr w'" for w
    by (simp add: flush_chunk_def write_trace_packet_def all Let_def)
  from flush [of w] show "\<exists>w'. write_uncompressed_packet env w packet = Inr w'"
    by (auto simp: write_uncompressed_packet_def write_trace_packet_def all)
qed

lemma packet_written_ok:
  assumes env: "writes_succeed env" and size: "length packet \<le> MAX_TRACE_PACKET_BYTES"
  shows "\<exists>w'. packet_written env action w packet = Inr w'"
proof -
  have "\<exists>n. trace_packet_framed_length (length packet) = Inr n"
    using size varint_length_bound [of "of_nat (length packet)"]
    by (simp add: trace_packet_framed_length_def Let_def MAX_TRACE_PACKET_BYTES_def)
  then have "\<exists>w'. write_packet env w packet = Inr w'"
    using writes_ok(3) [OF env, of w] by (auto simp: write_packet_def write_trace_packet_def writes_ok(1) [OF env])
  with writes_ok(4) [OF env] show ?thesis
    by (auto simp: packet_written_def split: PacketAction.split)
qed

lemma sanitize_packets_ok:
  assumes env: "writes_succeed env"
    and chunks: "\<And>decoder v ps. \<not> inside \<Longrightarrow> length (rd_bytes decoder) \<le> MAX_DECOMPRESSED_CHUNK_BYTES \<Longrightarrow>
      trace_packets env True decoder = Inr ps \<Longrightarrow> \<exists>v'. sanitize_compressed_packets env decoder v = Inr v'"
    and readable: "trace_packets env inside r = Inr ps"
  shows "\<exists>w'. sanitize_packets env inside r w = Inr w'"
  using readable
proof (induction "length (rd_bytes r)" arbitrary: r w ps rule: less_induct)
  case less
  show ?case
  proof (cases "\<exists>packet r'. read_packet env r = Inr (Some (packet, r'))")
    case False
    with less.prems have "read_packet env r = Inr None"
      by (auto simp: trace_packets.simps [of env inside r] split: sum.splits option.splits)
    then show ?thesis by (subst sanitize_packets.simps) simp
  next
    case True
    then obtain packet r' where packet: "read_packet env r = Inr (Some (packet, r'))" by blast
    from less.prems packet obtain action qs where action: "inspect_packet env packet = Inr action"
      and qs: "trace_packets env inside r' = Inr qs"
      by (auto simp: trace_packets.simps [of env inside r] split: sum.splits)
    note rest = less.hyps [OF read_packet_progress [OF packet] qs]
    show ?thesis
    proof (cases "inside \<or> \<not> nested env packet")
      case True
      from packet_written_ok [OF env read_packet_size [OF packet]] obtain v
        where "packet_written env action w packet = Inr v" by blast
      with True packet action rest [of v] show ?thesis
        by (subst sanitize_packets.simps) (auto simp: packet_written_def nested_def split: PacketAction.splits)
    next
      case False
      with less.prems packet action obtain decoder ps' where decoder:
        "(case action of Deflate c \<Rightarrow> Inr (te_zlib_decoder env c)
            | Zstd c \<Rightarrow> te_zstd_decoder env c | _ \<Rightarrow> Inl OtherError) = Inr decoder"
        "length (rd_bytes decoder) \<le> MAX_DECOMPRESSED_CHUNK_BYTES"
        "trace_packets env True decoder = Inr ps'"
        by (auto simp: trace_packets.simps [of env inside r] nested_def
            split: sum.splits PacketAction.splits if_splits)
      from chunks [OF _ decoder(2,3)] False obtain v where "sanitize_compressed_packets env decoder w = Inr v"
        by blast
      with False packet action decoder(1) rest [of v] show ?thesis
        by (subst sanitize_packets.simps) (auto simp: nested_def split: PacketAction.splits)
    qed
  qed
qed

lemma sanitize_readable:
  assumes env: "writes_succeed env" and readable: "trace_packets env False input = Inr ps"
  shows "\<exists>sanitized. sanitize_trace env (Inr input) = Inr sanitized"
proof -
  have chunks: "\<exists>v'. sanitize_compressed_packets env decoder v = Inr v'"
    if "length (rd_bytes decoder) \<le> MAX_DECOMPRESSED_CHUNK_BYTES" "trace_packets env True decoder = Inr qs"
    for decoder v qs
    using sanitize_packets_ok [OF env _ that(2), of v] that(1)
    by (auto simp: sanitize_compressed_packets.simps take_reader_def Let_def)
  have "\<exists>w. sanitize_packets env False input SanitizedTraceWriter_new = Inr w"
    by (rule sanitize_packets_ok [OF env _ readable]) (rule chunks)
  then obtain w where "sanitize_packets env False input SanitizedTraceWriter_new = Inr w" by blast
  with env writes_ok(3) [OF env, of w] show ?thesis
    by (auto simp: sanitize_trace_def sanitize_trace_inner_def finish_writer_def writes_ok(1) [OF env]
        writes_succeed_def)
qed

subsection \<open>An example\<close>

text \<open>
  A trace of two packets: one with an event, and one with a sample of a thread out of scope, as the
  profiler writes it. The codec of the example stores its bytes as they are.
\<close>

definition demo_trace_env :: trace_env where
  "demo_trace_env =
     \<lparr>te_packet = 1, te_sequence_flags = 13, te_seq_needs_incremental_state = 2,
      te_first_packet_on_sequence = 87, te_timestamp = 8, te_timestamp_clock_id = 58,
      te_trusted_packet_sequence_id = 10, te_trusted_pid = 79, te_trusted_uid = 3,
      te_zlib_decoder = (\<lambda>bs. \<lparr>rd_bytes = bs, rd_end = UnexpectedEof\<rparr>),
      te_zstd_decoder = (\<lambda>bs. Inr \<lparr>rd_bytes = bs, rd_end = UnexpectedEof\<rparr>),
      te_zlib_encode = (\<lambda>bs. bs), te_temp_file = None, te_write_error = (\<lambda>_ _. None)\<rparr>"

definition event_packet :: bytes where
  "event_packet = [0x40, 0x64, 0x5A, 0x02, 0x68, 0x69]"

definition skipped_sample_packet :: bytes where
  "skipped_sample_packet = [0x40, 0x64, 0x92, 0x04, 0x05, 0x08, 0x00, 0x90, 0x01, 0x04, 0x50, 0x01]"

lemma demo_trace_laws: "trace_format_laws demo_trace_env" "writes_succeed demo_trace_env"
  by (simp_all add: trace_format_laws_def writes_succeed_def demo_trace_env_def
      COMPRESSED_CHUNK_BYTES_def MAX_TRACE_PACKET_BYTES_def)

lemma demo_packets:
  "inspect_packet demo_trace_env event_packet = Inr Keep"
  "inspect_packet demo_trace_env skipped_sample_packet = Inr Drop"
  by code_simp+

end
