(* ===== verification/DF_Report_Aggregate.thy ===== *)
theory DF_Report_Aggregate
  imports DF_Ranked_Profile DF_Trace_Sanitizer "HOL-Library.Product_Lexorder"
begin

unbundle bit_operations_syntax

section \<open>Aggregating a ranked profile\<close>

text \<open>
  \<open>perfetto_profile/report_aggregate.rs\<close>: the records of the trace query are read, checked, folded
  and assembled into a ranked profile. Reading one record from JSON is a parameter. Hash maps are
  association lists; the function records are sorted by their unique identity, so that the order of
  the map does not matter.
\<close>

record CompactMetadata = RankedProfileMetadata +
  cm_audit_error_count :: int

record CompactFrame =
  cf_function_id :: int
  cf_parent_function_id :: "int option"
  cf_name :: string
  cf_module_name :: "string option"
  cf_source_file :: "string option"
  cf_line_number :: "int option"
  cf_official_self_sample_count :: int
  cf_official_inclusive_sample_count :: int

record CompactFunctionSelf =
  cs_semantic_id :: int
  cs_function_id :: int
  cs_self_sample_count :: int

datatype CompactRecord =
  MetadataRecord CompactMetadata
| SemanticRecord RankedSemantic
| FrameRecord CompactFrame
| FunctionSelfRecord CompactFunctionSelf

definition MAX_RECORD_HEX_CHARS :: nat where
  "MAX_RECORD_HEX_CHARS = 64 * 1024"

definition ascii :: "string \<Rightarrow> bytes" where
  "ascii s = map (\<lambda>c. of_nat (code c)) s"

definition RECORD_HEADER :: bytes where
  "RECORD_HEADER = ascii (CHR 0x22 # ''record_hex'' @ [CHR 0x22])"

definition malformed_result :: RankedReportFailure where
  "malformed_result =
     \<lparr>rrf_phase = Query, rrf_kind = ''malformed_result'',
      rrf_message = ''ranked profile query returned an unexpected result''\<rparr>"

definition result_too_large :: RankedReportFailure where
  "result_too_large =
     \<lparr>rrf_phase = Query, rrf_kind = ''result_too_large'',
      rrf_message = ''ranked profile query returned too many records''\<rparr>"

definition aggregate_failure :: "string \<Rightarrow> string \<Rightarrow> RankedReportFailure" where
  "aggregate_failure kind message =
     \<lparr>rrf_phase = AggregateValidation, rrf_kind = kind, rrf_message = message\<rparr>"

subsection \<open>Folding and expanding\<close>

definition fold_semantics :: "RankedSemantic list \<Rightarrow> RankedReportFailure + RankedSemantic list" where
  "fold_semantics semantics =
     res_bind (option_ok_or
       (fold_inclusive_counts (map (\<lambda>s. (sm_semantic_id s, sm_parent_semantic_id s)) semantics)
          (map_of (rev (map (\<lambda>s. (sm_semantic_id s, sm_direct_sample_count s)) semantics))))
       (aggregate_failure ''count_overflow'' ''semantic sample fold failed'')) (\<lambda>inclusive.
     option_ok_or (those (map (\<lambda>s. map_option (\<lambda>n. s\<lparr>sm_inclusive_sample_count := n\<rparr>)
         (inclusive (sm_semantic_id s))) semantics))
       (aggregate_failure ''invalid_structure'' ''semantic fold is incomplete''))"

fun insert_frames ::
    "CompactFrame list \<Rightarrow> (int \<times> CompactFrame) list \<Rightarrow> RankedReportFailure + (int \<times> CompactFrame) list" where
  "insert_frames [] by_id = Inr by_id"
| "insert_frames (fr # frames) by_id =
     (if cf_function_id fr < 0 \<or> cf_official_self_sample_count fr < 0 \<or>
         cf_official_inclusive_sample_count fr < 0 \<or> cf_function_id fr \<in> fst ` set by_id
      then Inl (aggregate_failure ''invalid_function_graph'' ''native function graph is invalid'')
      else insert_frames frames (by_id @ [(cf_function_id fr, fr)]))"

definition frame_parents :: "(int \<times> CompactFrame) list \<Rightarrow> (int \<times> int option) list" where
  "frame_parents frames = map (\<lambda>(_, fr). (cf_function_id fr, cf_parent_function_id fr)) frames"

definition validate_frames :: "CompactFrame list \<Rightarrow> RankedReportFailure + (int \<times> CompactFrame) list" where
  "validate_frames frames =
     res_bind (insert_frames frames []) (\<lambda>by_id.
     res_bind (option_ok_or (fold_inclusive_counts (frame_parents by_id)
         (map_of (rev (map (\<lambda>(_, fr). (cf_function_id fr, cf_official_self_sample_count fr)) by_id))))
       (aggregate_failure ''invalid_function_graph'' ''native function graph could not be folded'')) (\<lambda>inclusive.
     res_bind (try_for_each (\<lambda>(_, fr).
         ensure (inclusive (cf_function_id fr) = Some (cf_official_inclusive_sample_count fr))
           (aggregate_failure ''official_count_mismatch'' ''native function summary did not reconcile''))
       by_id) (\<lambda>_.
       Inr by_id)))"

definition expanded_function :: "int \<Rightarrow> int \<Rightarrow> CompactFrame \<Rightarrow> int \<Rightarrow> RankedFunction" where
  "expanded_function semantic_id function_id fr self_count =
     \<lparr>fn_semantic_id = semantic_id, fn_function_id = function_id,
      fn_parent_function_id = cf_parent_function_id fr, fn_name = cf_name fr,
      fn_module_name = cf_module_name fr, fn_source_file = cf_source_file fr,
      fn_line_number = cf_line_number fr, fn_self_sample_count = self_count,
      fn_inclusive_sample_count = 0\<rparr>"

definition over_limit :: "'a list \<Rightarrow> bool" where
  "over_limit records \<longleftrightarrow> MAX_RECORDS_PER_COLLECTION < length records"

lemma over_limit_code [code]: "over_limit records \<longleftrightarrow> 500000 < int (length records)"
  by (auto simp: over_limit_def MAX_RECORDS_PER_COLLECTION_def)

lemma require_collection_bound_code [code]:
  "require_collection_bound record_kind n =
     (if int n \<le> 500000 then Inr ()
      else Inl (TooManyRecords record_kind n MAX_RECORDS_PER_COLLECTION))"
proof -
  have "int n \<le> 500000 \<longleftrightarrow> n \<le> MAX_RECORDS_PER_COLLECTION"
    by (auto simp: MAX_RECORDS_PER_COLLECTION_def)
  then show ?thesis by (simp add: require_collection_bound_def ensure_def)
qed

lemma require_display_string_code [code]:
  "require_display_string record_kind record_id field text =
     (if int (length text) \<le> 512 then Inr ()
      else Inl (DisplayStringTooLong record_kind record_id field (length text) MAX_DISPLAY_STRING_CHARS))"
proof -
  have "int (length text) \<le> 512 \<longleftrightarrow> length text \<le> MAX_DISPLAY_STRING_CHARS"
    by (auto simp: MAX_DISPLAY_STRING_CHARS_def)
  then show ?thesis by (simp add: require_display_string_def ensure_def)
qed

type_synonym function_table = "((int \<times> int) \<times> RankedFunction) list"

function expand_walk ::
    "(int \<times> CompactFrame) list \<Rightarrow> CompactFunctionSelf \<Rightarrow> int \<Rightarrow> bool \<Rightarrow> int set \<Rightarrow> function_table
       \<Rightarrow> RankedReportFailure + function_table" where
  "expand_walk frames r function_id is_self path functions =
     (if function_id \<in> path then
        Inl (aggregate_failure ''invalid_function_graph'' ''native function graph contains a cycle'')
      else case map_of frames function_id of
          None \<Rightarrow> Inl (aggregate_failure ''invalid_function_graph'' ''native function frame is missing'')
        | Some fr \<Rightarrow>
            (case map_of functions (cs_semantic_id r, function_id) of
               Some function \<Rightarrow>
                 if is_self then
                   (case checked_add_i64 (fn_self_sample_count function) (cs_self_sample_count r) of
                      None \<Rightarrow> Inl (aggregate_failure ''count_overflow'' ''function self count overflowed'')
                    | Some n \<Rightarrow> Inr (AList.update (cs_semantic_id r, function_id)
                        (function\<lparr>fn_self_sample_count := n\<rparr>) functions))
                 else Inr functions
             | None \<Rightarrow>
                 let functions = AList.update (cs_semantic_id r, function_id)
                       (expanded_function (cs_semantic_id r) function_id fr
                          (if is_self then cs_self_sample_count r else 0)) functions
                 in if over_limit functions then Inl result_too_large
                    else (case cf_parent_function_id fr of
                            None \<Rightarrow> Inr functions
                          | Some parent_id \<Rightarrow>
                              expand_walk frames r parent_id False (insert function_id path) functions)))"
  by pat_completeness auto
termination
proof (relation "measure (\<lambda>(frames, _, _, _, path, _). card (fst ` set frames - path))", goal_cases)
  case (2 frames r function_id is_self path fs fr fs' parent_id)
  then have "function_id \<in> fst ` set frames - path"
    by (auto simp flip: dom_map_of_conv_image_fst)
  then have "card (fst ` set frames - insert function_id path) < card (fst ` set frames - path)"
    by (intro psubset_card_mono) auto
  then show ?case by simp
qed simp

declare expand_walk.simps [simp del]

fun expand_records ::
    "(int \<times> CompactFrame) list \<Rightarrow> CompactFunctionSelf list \<Rightarrow> (int \<times> int) set \<Rightarrow> function_table
       \<Rightarrow> RankedReportFailure + function_table" where
  "expand_records frames [] self_identities functions = Inr functions"
| "expand_records frames (r # records) self_identities functions =
     (if cs_self_sample_count r < 0 \<or> (cs_semantic_id r, cs_function_id r) \<in> self_identities then
        Inl (aggregate_failure ''invalid_function_self_count'' ''function self counts are invalid'')
      else
        res_bind (expand_walk frames r (cs_function_id r) True {} functions) (\<lambda>functions.
          expand_records frames records (insert (cs_semantic_id r, cs_function_id r) self_identities) functions))"

definition expand_functions ::
    "(int \<times> CompactFrame) list \<Rightarrow> CompactFunctionSelf list \<Rightarrow> RankedReportFailure + RankedFunction list" where
  "expand_functions frames function_self_records =
     res_bind (expand_records frames function_self_records {} []) (\<lambda>functions. Inr (map snd functions))"

definition fold_functions :: "RankedFunction list \<Rightarrow> RankedReportFailure + RankedFunction list" where
  "fold_functions functions =
     res_bind (option_ok_or
       (fold_inclusive_counts
          (map (\<lambda>f. (fn_identity f, map_option (\<lambda>parent. (fn_semantic_id f, parent)) (fn_parent_function_id f)))
             functions)
          (map_of (rev (map (\<lambda>f. (fn_identity f, fn_self_sample_count f)) functions))))
       (aggregate_failure ''count_overflow'' ''function sample fold failed'')) (\<lambda>inclusive.
     option_ok_or (those (map (\<lambda>f. map_option (\<lambda>n. f\<lparr>fn_inclusive_sample_count := n\<rparr>)
         (inclusive (fn_identity f))) functions))
       (aggregate_failure ''invalid_structure'' ''function fold is incomplete''))"

definition actual_self_step :: "RankedFunction \<Rightarrow> (int \<rightharpoonup> int) \<Rightarrow> RankedReportFailure + (int \<rightharpoonup> int)" where
  "actual_self_step function actual =
     res_bind (option_ok_or (checked_add_i64
         (case actual (fn_function_id function) of Some n \<Rightarrow> n | None \<Rightarrow> 0) (fn_self_sample_count function))
       (aggregate_failure ''count_overflow'' ''official function reconciliation overflowed'')) (\<lambda>n.
       Inr (actual(fn_function_id function \<mapsto> n)))"

definition reconcile_official_self_counts ::
    "(int \<times> CompactFrame) list \<Rightarrow> RankedFunction list \<Rightarrow> RankedReportFailure + unit" where
  "reconcile_official_self_counts frames functions =
     res_bind (try_fold_with actual_self_step functions Map.empty) (\<lambda>actual.
       ensure (\<not> list_ex (\<lambda>(function_id, fr).
           (case actual function_id of Some n \<Rightarrow> n | None \<Rightarrow> 0) \<noteq> cf_official_self_sample_count fr) frames)
         (aggregate_failure ''official_count_mismatch'' ''native function self counts did not reconcile''))"

subsection \<open>The document\<close>

definition build_document ::
    "CompactMetadata \<Rightarrow> RankedSemantic list \<Rightarrow> CompactFrame list \<Rightarrow> CompactFunctionSelf list
       \<Rightarrow> RankedReportFailure + RankedProfileDocument" where
  "build_document metadata semantics frames function_self_records =
     res_bind (ensure (\<not> 0 < rm_missing_identity_field_count metadata)
       (aggregate_failure ''unsafe_identity'' ''ranked profile ownership identity is incomplete'')) (\<lambda>_.
     res_bind (ensure (semantics \<noteq> [])
       \<lparr>rrf_phase = Health, rrf_kind = ''incomplete_capture'',
        rrf_message = ''input trace contains no retained Delta Funnel operation''\<rparr>) (\<lambda>_.
     res_bind (ensure (cm_audit_error_count metadata = 0)
       (aggregate_failure ''audit_failed'' ''Trace Processor aggregate audit failed'')) (\<lambda>_.
     res_bind (ensure (\<not> list_ex (\<lambda>n. 0 < n)
         [rm_crossing_worker_slice_count metadata, rm_crossing_planning_activity_slice_count metadata,
          rm_crossing_execution_activity_slice_count metadata,
          rm_invalid_planning_activity_hierarchy_count metadata,
          rm_invalid_execution_activity_hierarchy_count metadata])
       (aggregate_failure ''invalid_hierarchy'' ''ranked profile semantic hierarchy is invalid'')) (\<lambda>_.
     let semantics = sort_key (\<lambda>s. (sm_operation_id s, sm_semantic_id s)) semantics;
         document = \<lparr>rd_metadata = RankedProfileMetadata.truncate metadata, rd_semantics = semantics,
           rd_functions = []\<rparr>
     in
     res_bind (map_err (\<lambda>_. aggregate_failure ''invalid_structure'' ''semantic hierarchy is invalid'')
       (validate_structure document)) (\<lambda>_.
     res_bind (fold_semantics semantics) (\<lambda>semantics.
     res_bind (validate_frames frames) (\<lambda>frames.
     res_bind (expand_functions frames function_self_records) (\<lambda>functions.
     let functions = sort_key fn_identity functions;
         document = document\<lparr>rd_semantics := semantics, rd_functions := functions\<rparr>
     in
     res_bind (map_err (\<lambda>_. aggregate_failure ''invalid_structure'' ''function hierarchy is invalid'')
       (validate_structure document)) (\<lambda>_.
     res_bind (fold_functions functions) (\<lambda>functions.
     res_bind (reconcile_official_self_counts frames functions) (\<lambda>_.
     let document = normalize_source_metadata (document\<lparr>rd_functions := functions\<rparr>) in
     res_bind (map_err (\<lambda>_. aggregate_failure ''invalid_aggregate''
         ''ranked profile aggregate validation failed'') (validate document)) (\<lambda>_.
       Inr document))))))))))))"

subsection \<open>Reading the records\<close>

definition hex_digit :: "u8 \<Rightarrow> u8 option" where
  "hex_digit b =
     (if 0x30 \<le> b \<and> b \<le> 0x39 then Some (b - 0x30)
      else if 0x61 \<le> b \<and> b \<le> 0x66 then Some (b - 0x61 + 10)
      else if 0x41 \<le> b \<and> b \<le> 0x46 then Some (b - 0x41 + 10)
      else None)"

fun decode_pairs :: "bytes \<Rightarrow> bytes option" where
  "decode_pairs (high # low # rest) =
     Option.bind (hex_digit high) (\<lambda>high.
     Option.bind (hex_digit low) (\<lambda>low.
     Option.bind (decode_pairs rest) (\<lambda>decoded. Some ((push_bit 4 high OR low) # decoded))))"
| "decode_pairs _ = Some []"

definition decode_hex :: "bytes \<Rightarrow> RankedReportFailure + bytes" where
  "decode_hex hex =
     (if odd (length hex) then Inl malformed_result else option_ok_or (decode_pairs hex) malformed_result)"

fun split_lines :: "bytes \<Rightarrow> bytes list" where
  "split_lines [] = [[]]"
| "split_lines (b # bs) =
     (if b = 0x0A then [] # split_lines bs
      else case split_lines bs of [] \<Rightarrow> [[b]] | line # lines \<Rightarrow> (b # line) # lines)"

definition strip_carriage_return :: "bytes \<Rightarrow> bytes" where
  "strip_carriage_return line = (if line \<noteq> [] \<and> last line = 0x0D then butlast line else line)"

definition quoted_record :: "bytes \<Rightarrow> bytes option" where
  "quoted_record line =
     (if line \<noteq> [] \<and> hd line = 0x22 \<and> tl line \<noteq> [] \<and> last line = 0x22
      then Some (butlast (tl line)) else None)"

record parsed_records =
  pr_metadata :: "CompactMetadata option"
  pr_semantics :: "RankedSemantic list"
  pr_frames :: "CompactFrame list"
  pr_function_self :: "CompactFunctionSelf list"

definition push_bounded :: "'a list \<Rightarrow> 'a \<Rightarrow> RankedReportFailure + 'a list" where
  "push_bounded records r =
     (if length records = MAX_RECORDS_PER_COLLECTION then Inl result_too_large else Inr (records @ [r]))"

definition push_record :: "CompactRecord \<Rightarrow> parsed_records \<Rightarrow> RankedReportFailure + parsed_records" where
  "push_record r parsed =
     (case r of
        MetadataRecord metadata \<Rightarrow>
          if pr_metadata parsed \<noteq> None then Inl malformed_result
          else Inr (parsed\<lparr>pr_metadata := Some metadata\<rparr>)
      | SemanticRecord semantic \<Rightarrow>
          res_bind (push_bounded (pr_semantics parsed) semantic) (\<lambda>rs. Inr (parsed\<lparr>pr_semantics := rs\<rparr>))
      | FrameRecord fr \<Rightarrow>
          res_bind (push_bounded (pr_frames parsed) fr) (\<lambda>rs. Inr (parsed\<lparr>pr_frames := rs\<rparr>))
      | FunctionSelfRecord self \<Rightarrow>
          res_bind (push_bounded (pr_function_self parsed) self)
            (\<lambda>rs. Inr (parsed\<lparr>pr_function_self := rs\<rparr>)))"

definition parse_line ::
    "(bytes \<Rightarrow> CompactRecord option) \<Rightarrow> bytes \<Rightarrow> parsed_records \<Rightarrow> RankedReportFailure + parsed_records" where
  "parse_line from_json line parsed =
     res_bind (option_ok_or (quoted_record line) malformed_result) (\<lambda>hex.
     res_bind (ensure (length hex \<le> MAX_RECORD_HEX_CHARS) result_too_large) (\<lambda>_.
     res_bind (decode_hex hex) (\<lambda>json.
     res_bind (option_ok_or (from_json json) malformed_result) (\<lambda>r.
       push_record r parsed))))"

definition parse_ranked_report_output ::
    "(bytes \<Rightarrow> CompactRecord option) \<Rightarrow> bytes \<Rightarrow> RankedReportFailure + RankedProfileDocument" where
  "parse_ranked_report_output from_json query_output =
     (case filter (\<lambda>line. line \<noteq> []) (map strip_carriage_return (split_lines query_output)) of
        [] \<Rightarrow> Inl malformed_result
      | header # lines \<Rightarrow>
          if header \<noteq> RECORD_HEADER then Inl malformed_result
          else
            res_bind (try_fold_with (parse_line from_json) lines
              \<lparr>pr_metadata = None, pr_semantics = [], pr_frames = [], pr_function_self = []\<rparr>) (\<lambda>parsed.
            res_bind (option_ok_or (pr_metadata parsed) malformed_result) (\<lambda>metadata.
              build_document metadata (pr_semantics parsed) (pr_frames parsed) (pr_function_self parsed))))"

subsection \<open>What the expansion computes\<close>

definition frames_keyed :: "(int \<times> CompactFrame) list \<Rightarrow> bool" where
  "frames_keyed frames \<longleftrightarrow> distinct (map fst frames) \<and> (\<forall>(k, fr) \<in> set frames. cf_function_id fr = k)"

lemma insert_frames_keyed:
  "insert_frames frames by_id = Inr by_id' \<Longrightarrow> frames_keyed by_id \<Longrightarrow> frames_keyed by_id'"
proof (induction frames arbitrary: by_id)
  case (Cons fr frames)
  from Cons.prems(1) have step: "cf_function_id fr \<notin> fst ` set by_id"
    "insert_frames frames (by_id @ [(cf_function_id fr, fr)]) = Inr by_id'"
    by (simp_all split: if_splits)
  have "frames_keyed (by_id @ [(cf_function_id fr, fr)])"
    using Cons.prems(2) step(1) by (simp add: frames_keyed_def)
  with step(2) show ?case by (rule Cons.IH)
qed simp

lemma frame_parent_of:
  assumes "frames_keyed frames"
  shows "parent_of (frame_parents frames) k = Option.bind (map_of frames k) cf_parent_function_id"
proof -
  have "map_of (frame_parents frames) k = map_option cf_parent_function_id (map_of frames k)"
    using assms unfolding frames_keyed_def frame_parents_def by (induction frames) auto
  then show ?thesis by (simp add: parent_of_def split: option.splits bind_splits)
qed

definition self_of :: "function_table \<Rightarrow> int \<times> int \<Rightarrow> int" where
  "self_of table k = (case map_of table k of Some f \<Rightarrow> fn_self_sample_count f | None \<Rightarrow> 0)"

definition table_ok :: "(int \<times> CompactFrame) list \<Rightarrow> function_table \<Rightarrow> bool" where
  "table_ok frames table \<longleftrightarrow> distinct (map fst table) \<and>
     (\<forall>(k, f) \<in> set table. fn_identity f = k \<and>
        fn_parent_function_id f = parent_of (frame_parents frames) (snd k))"

definition upward_closed :: "(int \<times> CompactFrame) list \<Rightarrow> (int \<times> int) set \<Rightarrow> bool" where
  "upward_closed frames K \<longleftrightarrow>
     (\<forall>s k p. (s, k) \<in> K \<longrightarrow> parent_of (frame_parents frames) k = Some p \<longrightarrow> (s, p) \<in> K)"

definition ancestors :: "(int \<times> CompactFrame) list \<Rightarrow> int \<Rightarrow> int \<Rightarrow> (int \<times> int) set" where
  "ancestors frames s k = {s} \<times> {a. (k, a) \<in> (up (frame_parents frames))\<^sup>*}"

lemma ancestors_unfold:
  "ancestors frames s k = insert (s, k)
     (case parent_of (frame_parents frames) k of None \<Rightarrow> {} | Some p \<Rightarrow> ancestors frames s p)"
  by (auto simp: ancestors_def elim: converse_rtranclE intro: converse_rtrancl_into_rtrancl split: option.splits)

lemma ancestors_closed: "upward_closed frames (ancestors frames s k)"
  by (auto simp: upward_closed_def ancestors_def intro: rtrancl_into_rtrancl)

lemma closed_ancestors:
  assumes "upward_closed frames K" and "(s, k) \<in> K"
  shows "ancestors frames s k \<subseteq> K"
proof -
  have "(s, a) \<in> K" if "(k, a) \<in> (up (frame_parents frames))\<^sup>*" for a
    using that
  proof induction
    case (step a b)
    with assms(1) show ?case by (auto simp: upward_closed_def)
  qed (use assms(2) in simp)
  then show ?thesis by (auto simp: ancestors_def)
qed

lemma update_table:
  assumes "table_ok frames table" and "fn_identity f = k"
    and "fn_parent_function_id f = parent_of (frame_parents frames) (snd k)"
  shows "table_ok frames (AList.update k f table)"
    "dom (map_of (AList.update k f table)) = insert k (dom (map_of table))"
    "self_of (AList.update k f table) = (self_of table)(k := fn_self_sample_count f)"
proof -
  have "distinct (map fst (AList.update k f table))"
    using assms(1) by (simp add: table_ok_def distinct_update)
  moreover have "set (AList.update k f table) \<subseteq> insert (k, f) (set table)"
    by (induction table) auto
  ultimately show "table_ok frames (AList.update k f table)"
    using assms unfolding table_ok_def by blast
  show "dom (map_of (AList.update k f table)) = insert k (dom (map_of table))"
    by (simp add: update_conv')
  show "self_of (AList.update k f table) = (self_of table)(k := fn_self_sample_count f)"
    by (simp add: self_of_def update_conv' fun_eq_iff)
qed

lemma walk_known:
  assumes "expand_walk frames r k is_self path table = Inr table'"
    and "map_of table (cs_semantic_id r, k) = Some f"
  shows "k \<notin> path \<and> table' = (if is_self then AList.update (cs_semantic_id r, k)
    (f\<lparr>fn_self_sample_count := fn_self_sample_count f + cs_self_sample_count r\<rparr>) table else table)"
  using assms by (subst (asm) expand_walk.simps)
    (auto split: if_splits option.splits dest!: checked_add_i64_Some)

lemma walk_new:
  assumes run: "expand_walk frames r k is_self path table = Inr table'"
    and new: "map_of table (cs_semantic_id r, k) = None"
  obtains fr table1 where "k \<notin> path" "map_of frames k = Some fr"
    "table1 = AList.update (cs_semantic_id r, k)
       (expanded_function (cs_semantic_id r) k fr (if is_self then cs_self_sample_count r else 0)) table"
    "case cf_parent_function_id fr of
       None \<Rightarrow> table' = table1
     | Some p \<Rightarrow> expand_walk frames r p False (insert k path) table1 = Inr table'"
proof -
  from run obtain fr where k: "k \<notin> path" "map_of frames k = Some fr"
    by (subst (asm) expand_walk.simps) (auto split: if_splits option.splits)
  with run new that [OF k refl] show ?thesis
    by (subst (asm) expand_walk.simps) (auto simp: Let_def split: if_splits option.splits)
qed

lemma expand_walk_table:
  assumes "frames_keyed frames" and "expand_walk frames r k is_self path table = Inr table'"
    and "table_ok frames table" and "dom (map_of table) = K \<union> {cs_semantic_id r} \<times> path"
    and "upward_closed frames K"
  shows "table_ok frames table' \<and>
    dom (map_of table') = K \<union> {cs_semantic_id r} \<times> path \<union> ancestors frames (cs_semantic_id r) k \<and>
    self_of table' = (self_of table)((cs_semantic_id r, k) :=
      self_of table (cs_semantic_id r, k) + (if is_self then cs_self_sample_count r else 0))"
  using assms
proof (induction frames r k is_self path table rule: expand_walk.induct)
  case (1 frames r k is_self path table)
  let ?s = "cs_semantic_id r"
  note run = "1.prems"(2) and ok = "1.prems"(3) and dom = "1.prems"(4) and closed = "1.prems"(5)
  show ?case
  proof (cases "map_of table (?s, k)")
    case (Some f)
    from walk_known [OF run Some] have k: "k \<notin> path" and table': "table' = (if is_self
      then AList.update (?s, k) (f\<lparr>fn_self_sample_count := fn_self_sample_count f + cs_self_sample_count r\<rparr>) table
      else table)" by blast+
    have "(?s, k) \<in> K" using Some dom k by (auto simp: dom_def)
    then have anc: "ancestors frames ?s k \<subseteq> K" by (rule closed_ancestors [OF closed])
    have f: "fn_identity f = (?s, k)" "fn_parent_function_id f = parent_of (frame_parents frames) k"
      using ok Some by (auto simp: table_ok_def dest!: map_of_SomeD)
    let ?f = "f\<lparr>fn_self_sample_count := fn_self_sample_count f + cs_self_sample_count r\<rparr>"
    have "fn_identity ?f = (?s, k)" "fn_parent_function_id ?f = parent_of (frame_parents frames) (snd (?s, k))"
      using f by (simp_all add: fn_identity_def)
    note U = update_table [OF ok this]
    have "self_of table (?s, k) = fn_self_sample_count f" by (simp add: self_of_def Some)
    with U anc dom ok table' \<open>(?s, k) \<in> K\<close> show ?thesis
      by (cases is_self) (auto simp: fun_upd_idem)
  next
    case None
    from run None obtain fr table1 where k: "k \<notin> path" "map_of frames k = Some fr"
      and table1: "table1 = AList.update (?s, k) (expanded_function ?s k fr (if is_self then cs_self_sample_count r else 0)) table"
      and rest: "case cf_parent_function_id fr of None \<Rightarrow> table' = table1
        | Some p \<Rightarrow> expand_walk frames r p False (insert k path) table1 = Inr table'"
      by (rule walk_new)
    have parent: "parent_of (frame_parents frames) k = cf_parent_function_id fr"
      using frame_parent_of [OF "1.prems"(1)] k(2) by simp
    let ?f = "expanded_function ?s k fr (if is_self then cs_self_sample_count r else 0)"
    have "fn_identity ?f = (?s, k)" "fn_parent_function_id ?f = parent_of (frame_parents frames) (snd (?s, k))"
      by (simp_all add: expanded_function_def fn_identity_def parent)
    note U = update_table [OF ok this, folded table1]
    have self1: "self_of table1 = (self_of table)((?s, k) := self_of table (?s, k) + (if is_self then cs_self_sample_count r else 0))"
      using U(3) None by (simp add: self_of_def expanded_function_def)
    have dom1: "dom (map_of table1) = K \<union> {?s} \<times> insert k path"
      using U(2) dom by auto
    show ?thesis
    proof (cases "cf_parent_function_id fr")
      case None
      with rest U(1) dom1 self1 parent show ?thesis by (auto simp: ancestors_unfold [of frames ?s k])
    next
      case (Some p)
      with rest have walk: "expand_walk frames r p False (insert k path) table1 = Inr table'" by simp
      have small: "\<not> over_limit table1"
        using run k Some \<open>map_of table (?s, k) = None\<close> table1
        by (subst (asm) expand_walk.simps) (auto split: if_splits)
      note IH = "1.IH" [OF k(1,2) \<open>map_of table (?s, k) = None\<close> table1 small Some "1.prems"(1) walk U(1) dom1 closed]
      have "self_of table' = self_of table1" using IH by auto
      with IH self1 Some parent show ?thesis by (auto simp: ancestors_unfold [of frames ?s k])
    qed
  qed
qed

lemma expand_records_table:
  assumes "frames_keyed frames" and "expand_records frames records seen table = Inr table'"
    and "table_ok frames table" and "upward_closed frames (dom (map_of table))"
  shows "table_ok frames table' \<and>
    dom (map_of table') = dom (map_of table) \<union> (\<Union>r \<in> set records. ancestors frames (cs_semantic_id r) (cs_function_id r)) \<and>
    self_of table' k = self_of table k +
      (\<Sum>r \<leftarrow> filter (\<lambda>r. (cs_semantic_id r, cs_function_id r) = k) records. cs_self_sample_count r)"
  using assms(2-4)
proof (induction records arbitrary: seen table)
  case (Cons r records)
  let ?k = "(cs_semantic_id r, cs_function_id r)"
  from Cons.prems(1) obtain table1 where walk: "expand_walk frames r (cs_function_id r) True {} table = Inr table1"
    and rest: "expand_records frames records (insert ?k seen) table1 = Inr table'"
    by (auto simp: res_simps split: if_splits)
  have W: "table_ok frames table1"
    "dom (map_of table1) = dom (map_of table) \<union> ancestors frames (cs_semantic_id r) (cs_function_id r)"
    "self_of table1 = (self_of table)(?k := self_of table ?k + cs_self_sample_count r)"
    using expand_walk_table [OF assms(1) walk Cons.prems(2) _ Cons.prems(3)] by simp_all
  have "upward_closed frames (dom (map_of table1))"
    using Cons.prems(3) ancestors_closed unfolding W(2) upward_closed_def by blast
  from Cons.IH [OF rest W(1) this] W(2,3) show ?case by (auto simp: ac_simps)
qed simp

lemma expanded_functions:
  assumes keyed: "frames_keyed frames" and run: "expand_functions frames records = Inr fs"
  shows "distinct (map fn_identity fs) \<and>
    fn_identity ` set fs = (\<Union>r \<in> set records. ancestors frames (cs_semantic_id r) (cs_function_id r)) \<and>
    (\<forall>f \<in> set fs. fn_self_sample_count f =
       (\<Sum>r \<leftarrow> filter (\<lambda>r. (cs_semantic_id r, cs_function_id r) = fn_identity f) records. cs_self_sample_count r))"
proof -
  from run obtain table where table: "expand_records frames records {} [] = Inr table" "fs = map snd table"
    by (auto simp: expand_functions_def res_simps)
  have start: "table_ok frames []" "upward_closed frames (dom (map_of []))"
    by (simp_all add: table_ok_def upward_closed_def)
  note T = expand_records_table [OF keyed table(1) start]
  have ok: "table_ok frames table" and dom: "fst ` set table = (\<Union>r \<in> set records.
      ancestors frames (cs_semantic_id r) (cs_function_id r))"
    using T by (simp_all add: dom_map_of_conv_image_fst)
  have self: "self_of table k =
      (\<Sum>r \<leftarrow> filter (\<lambda>r. (cs_semantic_id r, cs_function_id r) = k) records. cs_self_sample_count r)" for k
    using T [of k] by (simp add: self_of_def)
  have keys: "map fn_identity fs = map fst table"
    using ok by (auto simp: table(2) table_ok_def)
  have entry: "fn_self_sample_count f = self_of table (fn_identity f)" if "f \<in> set fs" for f
  proof -
    from that obtain k where k: "(k, f) \<in> set table" by (auto simp: table(2))
    with ok have "fn_identity f = k" "map_of table k = Some f" by (auto simp: table_ok_def)
    then show ?thesis by (simp add: self_of_def)
  qed
  have "fn_identity ` set fs = fst ` set table"
    using keys by (metis list.set_map)
  moreover have "distinct (map fn_identity fs)"
    using ok by (simp add: keys table_ok_def)
  ultimately show ?thesis
    using entry self dom by simp
qed

subsection \<open>The assembled document\<close>

lemma those_keeps:
  assumes "those (map (\<lambda>x. map_option (g x) (h x)) xs) = Some ys" and "\<And>x n. key (g x n) = key x"
  shows "map key ys = map key xs"
  using assms(1) by (induction xs arbitrary: ys) (auto simp: assms(2) split: option.splits)

lemma fold_functions_keeps:
  assumes "fold_functions fs = Inr fs'"
  shows "map fn_identity fs' = map fn_identity fs"
  using assms unfolding fold_functions_def
  by (auto simp: res_simps fn_identity_def dest!: those_keeps [where key = fn_identity])

lemma fold_semantics_keeps:
  assumes "fold_semantics semantics = Inr semantics'"
  shows "map sm_semantic_id semantics' = map sm_semantic_id semantics"
  using assms unfolding fold_semantics_def
  by (auto simp: res_simps dest!: those_keeps [where key = sm_semantic_id])

lemma built_document:
  assumes "build_document metadata semantics frames records = Inr document"
  obtains by_id where "insert_frames frames [] = Inr by_id" "validate document = Inr ()"
    "sm_semantic_id ` set (rd_semantics document) = sm_semantic_id ` set semantics"
    "fn_identity ` set (rd_functions document) =
       (\<Union>r \<in> set records. ancestors by_id (cs_semantic_id r) (cs_function_id r))"
proof -
  let ?sorted = "sort_key (\<lambda>s. (sm_operation_id s, sm_semantic_id s)) semantics"
  from assms obtain semantics' by_id fs fs' where
    folded: "fold_semantics ?sorted = Inr semantics'" and frames: "validate_frames frames = Inr by_id"
    and expanded: "expand_functions by_id records = Inr fs"
    and summed: "fold_functions (sort_key fn_identity fs) = Inr fs'"
    and document: "document = normalize_source_metadata \<lparr>rd_metadata = RankedProfileMetadata.truncate metadata,
      rd_semantics = semantics', rd_functions = fs'\<rparr>" and valid: "validate document = Inr ()"
    by (auto simp: build_document_def Let_def res_simps)
  from frames have by_id: "insert_frames frames [] = Inr by_id"
    by (auto simp: validate_frames_def res_simps)
  have "frames_keyed by_id"
    by (rule insert_frames_keyed [OF by_id]) (simp add: frames_keyed_def)
  from expanded_functions [OF this expanded]
  have "fn_identity ` set fs = (\<Union>r \<in> set records. ancestors by_id (cs_semantic_id r) (cs_function_id r))" by blast
  moreover have "fn_identity ` set fs' = fn_identity ` set fs"
    using arg_cong [OF fold_functions_keeps [OF summed], of set] by simp
  moreover have "fn_identity ` set (rd_functions document) = fn_identity ` set fs'"
    by (simp add: document normalize_source_metadata_def image_image fn_identity_def)
  moreover have "sm_semantic_id ` set (rd_semantics document) = sm_semantic_id ` set semantics"
    using arg_cong [OF fold_semantics_keeps [OF folded], of set]
    by (simp add: document normalize_source_metadata_def)
  ultimately show ?thesis
    using that [OF by_id valid] by simp
qed

end
