(* ===== verification/DF_Profile_Example.thy ===== *)
theory DF_Profile_Example
  imports DF_Report_Aggregate
begin

section \<open>An example profile\<close>

text \<open>One operation with a phase below it, and two sampled functions, one calling the other.\<close>

definition demo_profile_metadata :: CompactMetadata where
  "demo_profile_metadata =
     \<lparr>rm_capture_complete = True, rm_semantic_complete = True, rm_finalization_observed = True,
      rm_incomplete_operation_root_count = 0, rm_truncation_marker_count = 0,
      rm_missing_identity_field_count = 0, rm_missing_terminal_result_count = 0,
      rm_crossing_worker_slice_count = 0, rm_crossing_planning_activity_slice_count = 0,
      rm_crossing_execution_activity_slice_count = 0, rm_invalid_planning_activity_hierarchy_count = 0,
      rm_invalid_execution_activity_hierarchy_count = 0, rm_perf_sample_without_callsite_count = 0,
      rm_perf_samples_skipped = 0, rm_buffer_loss_count = 0, rm_data_source_loss_count = 0,
      rm_flush_failure_count = 0, rm_schema_version = 3, rm_sample_frequency_hz = 99,
      rm_sampled_cpu_count = 1, rm_exact_time_unit = ''nanoseconds'', rm_sample_unit = ''samples'',
      rm_eligible_sample_count = 5, rm_direct_sample_count = 5, rm_ambiguous_sample_count = 0,
      rm_unattributed_sample_count = 0, rm_resolved_function_sample_count = 5,
      rm_unresolved_function_sample_count = 0, rm_unwind_error_sample_count = 0,
      rm_missing_callstack_sample_count = 0, rm_trace_profiler_dropped_sample_count = 0,
      cm_audit_error_count = 0\<rparr>"

definition demo_semantic :: "int \<Rightarrow> int option \<Rightarrow> string \<Rightarrow> int \<Rightarrow> RankedSemantic" where
  "demo_semantic i parent kind direct =
     \<lparr>sm_semantic_id = i, sm_parent_semantic_id = parent, sm_operation_id = 1, sm_name = ''write'',
      sm_semantic_kind = kind, sm_operation_kind = None, sm_stage_category = None, sm_stage_name = None,
      sm_activity = None, sm_start_ns = 0, sm_end_ns = Some 10, sm_duration_ns = Some 10,
      sm_time_semantics = ''wall_clock'', sm_result = Some ''ok'', sm_is_complete = True,
      sm_query_execution_id = None, sm_query_scope = None, sm_query_owner = None, sm_worker_lane_id = None,
      sm_worker_kind = None, sm_node_id = None, sm_parent_node_id = None, sm_operator_partition = None,
      sm_execution_stream_id = None, sm_stage_owner_id = None, sm_direct_sample_count = direct,
      sm_inclusive_sample_count = 0, sm_resolved_function_sample_count = direct,
      sm_unresolved_function_sample_count = 0, sm_unwind_error_sample_count = 0,
      sm_missing_callstack_sample_count = 0\<rparr>"

definition demo_frame :: "int \<Rightarrow> int option \<Rightarrow> int \<Rightarrow> int \<Rightarrow> CompactFrame" where
  "demo_frame i parent self_count inclusive =
     \<lparr>cf_function_id = i, cf_parent_function_id = parent, cf_name = ''f'',
      cf_module_name = Some ''/usr/lib/libc.so'', cf_source_file = Some ''/home/user/x/src/lib.rs'',
      cf_line_number = None, cf_official_self_sample_count = self_count,
      cf_official_inclusive_sample_count = inclusive\<rparr>"

definition demo_profile :: "RankedReportFailure + RankedProfileDocument" where
  "demo_profile = build_document demo_profile_metadata
     [demo_semantic 2 (Some 1) ''phase'' 5, demo_semantic 1 None ''operation'' 0]
     [demo_frame 7 None 2 5, demo_frame 8 (Some 7) 3 3]
     [\<lparr>cs_semantic_id = 2, cs_function_id = 8, cs_self_sample_count = 3\<rparr>,
      \<lparr>cs_semantic_id = 2, cs_function_id = 7, cs_self_sample_count = 2\<rparr>]"

lemma demo_profile_built: "\<not> isl demo_profile"
  by code_simp

lemma demo_profile_valid:
  obtains document where "demo_profile = Inr document" and "well_structured document" and "counts_reconciled document"
proof -
  obtain document where document: "demo_profile = Inr document"
    using demo_profile_built by (metis obj_sumE isl_def)
  then have "well_structured document \<and> counts_reconciled document"
    unfolding demo_profile_def by (rule built_document) (use validated_document in blast)
  with that document show ?thesis by blast
qed

end
