(* ===== verification/DF_Compact_Functions.thy ===== *)
theory DF_Compact_Functions
  imports DF_Ranked_Profile DF_Sources
begin

section \<open>Compact views of a ranked profile\<close>

text \<open>
  What \<open>perfetto_profile/ranked_report.rs\<close> shows of a profile: the names of semantic nodes and native
  functions, and \<open>CompactFunctionTree\<close>, the call tree without the frames that have no samples of their
  own and only pass the samples of their single callee on.
\<close>

subsection \<open>Names of semantic nodes\<close>

definition qualified_display_name :: "string \<Rightarrow> string \<Rightarrow> string" where
  "qualified_display_name name qualifier =
     (if MAX_DISPLAY_STRING_CHARS - 3 < length qualifier then take MAX_DISPLAY_STRING_CHARS qualifier
      else take (MAX_DISPLAY_STRING_CHARS - length qualifier - 3) name @ '' ('' @ qualifier @ '')'')"

definition semantic_display_name :: "RankedSemantic \<Rightarrow> string" where
  "semantic_display_name semantic =
     (case (if sm_semantic_kind semantic = ''operation'' then
              Some (''operation '' @ show_int (sm_operation_id semantic))
            else if sm_stage_name semantic = Some ''Execute output'' then
              map_option (\<lambda>owner_id. ''output '' @ show_int owner_id) (sm_stage_owner_id semantic)
            else if sm_semantic_kind semantic \<in> {''query'', ''query_planning''} then
              (case sm_query_owner semantic of Some owner \<Rightarrow> if owner \<noteq> [] then Some owner else None | None \<Rightarrow> None)
            else None) of
        None \<Rightarrow> sm_name semantic
      | Some qualifier \<Rightarrow> qualified_display_name (sm_name semantic) qualifier)"

subsection \<open>Names of native functions\<close>

record SymbolNesting =
  sn_angles :: nat
  sn_parentheses :: nat
  sn_brackets :: nat
  sn_braces :: nat

definition SymbolNesting_default :: SymbolNesting where
  "SymbolNesting_default = \<lparr>sn_angles = 0, sn_parentheses = 0, sn_brackets = 0, sn_braces = 0\<rparr>"

definition is_outside_groups :: "SymbolNesting \<Rightarrow> bool" where
  "is_outside_groups nesting \<longleftrightarrow>
     sn_parentheses nesting = 0 \<and> sn_brackets nesting = 0 \<and> sn_braces nesting = 0"

definition is_top_level :: "SymbolNesting \<Rightarrow> bool" where
  "is_top_level nesting \<longleftrightarrow> sn_angles nesting = 0 \<and> is_outside_groups nesting"

text \<open>\<open>str::rsplit("::").next()\<close>.\<close>

definition last_path_segment :: "string \<Rightarrow> string" where
  "last_path_segment s =
     (case find_sub ''::'' (rev s) of None \<Rightarrow> s | Some n \<Rightarrow> drop (length s - n) s)"

definition is_ascii_whitespace :: "char \<Rightarrow> bool" where
  "is_ascii_whitespace c \<longleftrightarrow> code c \<in> {9, 10, 12, 13, 32}"

definition is_operator_less_than :: "string \<Rightarrow> nat \<Rightarrow> bool" where
  "is_operator_less_than text index \<longleftrightarrow>
     (let segment = last_path_segment (take index text) in
      take 8 segment = ''operator'' \<and> list_all (\<lambda>c. c = CHR ''<'') (drop 8 segment)) \<and>
     (length text \<le> index + 1 \<or>
      is_ascii_whitespace (text ! (index + 1)) \<or> text ! (index + 1) \<in> set ''<=('')"

definition is_directional_arrow :: "string \<Rightarrow> nat \<Rightarrow> bool" where
  "is_directional_arrow text index \<longleftrightarrow> 0 < index \<and> text ! (index - 1) \<in> set ''-=''"

definition is_call_operator :: "string \<Rightarrow> nat \<Rightarrow> bool" where
  "is_call_operator text index \<longleftrightarrow>
     take index text = ''operator'' \<and> index + 1 < length text \<and> text ! (index + 1) = CHR '')''"

text \<open>Saturating \<open>u32\<close> counters.\<close>

definition deeper :: "nat \<Rightarrow> nat" where
  "deeper n = (if n < 2 ^ 32 - 1 then n + 1 else n)"

definition advance :: "string \<Rightarrow> nat \<Rightarrow> SymbolNesting \<Rightarrow> SymbolNesting" where
  "advance text index nesting =
     (let c = text ! index in
      if c = CHR ''<'' \<and> \<not> is_operator_less_than text index then nesting\<lparr>sn_angles := deeper (sn_angles nesting)\<rparr>
      else if c = CHR ''>'' \<and> \<not> is_directional_arrow text index then nesting\<lparr>sn_angles := sn_angles nesting - 1\<rparr>
      else if c = CHR ''('' then nesting\<lparr>sn_parentheses := deeper (sn_parentheses nesting)\<rparr>
      else if c = CHR '')'' then nesting\<lparr>sn_parentheses := sn_parentheses nesting - 1\<rparr>
      else if c = CHR ''['' then nesting\<lparr>sn_brackets := deeper (sn_brackets nesting)\<rparr>
      else if c = CHR '']'' then nesting\<lparr>sn_brackets := sn_brackets nesting - 1\<rparr>
      else if c = CHR ''{'' then nesting\<lparr>sn_braces := deeper (sn_braces nesting)\<rparr>
      else if c = CHR ''}'' then nesting\<lparr>sn_braces := sn_braces nesting - 1\<rparr>
      else nesting)"

function split_as_loop :: "string \<Rightarrow> nat \<Rightarrow> SymbolNesting \<Rightarrow> string option" where
  "split_as_loop text index nesting =
     (if length text \<le> index then None
      else if text ! index = CHR '' '' \<and> is_top_level nesting \<and> take 4 (drop index text) = '' as '' then
        Some (take index text)
      else split_as_loop text (index + 1) (advance text index nesting))"
  by pat_completeness auto
termination by (relation "measure (\<lambda>(text, index, _). length text - index)") auto

definition split_top_level_as :: "string \<Rightarrow> string option" where
  "split_top_level_as text = split_as_loop text 0 SymbolNesting_default"

function separator_loop :: "string \<Rightarrow> nat \<Rightarrow> SymbolNesting \<Rightarrow> nat option \<Rightarrow> nat option" where
  "separator_loop text index nesting found =
     (if length text \<le> index then found
      else if text ! index = CHR '':'' \<and> is_top_level nesting \<and>
          index + 1 < length text \<and> text ! (index + 1) = CHR '':'' \<and>
          \<not> (index + 2 < length text \<and> text ! (index + 2) = CHR ''<'') then
        separator_loop text (index + 2) nesting (Some index)
      else separator_loop text (index + 1) (advance text index nesting) found)"
  by pat_completeness auto
termination by (relation "measure (\<lambda>(text, index, _, _). length text - index)") auto

definition last_top_level_path_separator :: "string \<Rightarrow> nat option" where
  "last_top_level_path_separator text = separator_loop text 0 SymbolNesting_default None"

text \<open>\<open>trim_start_matches\<close> and \<open>trim_end_matches\<close> of a text.\<close>

function trim_start_text :: "string \<Rightarrow> string \<Rightarrow> string" where
  "trim_start_text pat s =
     (if pat \<noteq> [] \<and> take (length pat) s = pat then trim_start_text pat (drop (length pat) s) else s)"
  by pat_completeness auto
termination
  by (relation "measure (\<lambda>(pat, s). length s)")
    (auto, metis diff_less le_zero_eq length_greater_0_conv take_eq_Nil)

definition trim_end_text :: "string \<Rightarrow> string \<Rightarrow> string" where
  "trim_end_text pat s = rev (trim_start_text (rev pat) (rev s))"

definition trim_end :: "string \<Rightarrow> string" where
  "trim_end s = rev (dropWhile is_whitespace (rev s))"

function trim_details_loop :: "string \<Rightarrow> nat \<Rightarrow> SymbolNesting \<Rightarrow> string" where
  "trim_details_loop text index nesting =
     (if length text \<le> index then text
      else if text ! index = CHR ''<'' \<and> is_outside_groups nesting \<and> \<not> is_operator_less_than text index then
        trim_end_text ''::'' (take index text)
      else if text ! index = CHR ''('' \<and> is_top_level nesting \<and> \<not> is_call_operator text index then
        trim_end (take index text)
      else trim_details_loop text (index + 1) (advance text index nesting))"
  by pat_completeness auto
termination by (relation "measure (\<lambda>(text, index, _). length text - index)") auto

definition trim_function_details :: "string \<Rightarrow> string" where
  "trim_function_details text = trim_details_loop text 0 SymbolNesting_default"

definition function_owner :: "string \<Rightarrow> string" where
  "function_owner prefix =
     (let prefix = trim prefix;
          owner = (if prefix \<noteq> [] \<and> hd prefix = CHR ''<'' \<and> last prefix = CHR ''>'' then
                     let qualified = butlast (tl prefix)
                     in case split_top_level_as qualified of Some s \<Rightarrow> s | None \<Rightarrow> qualified
                   else prefix);
          owner = (case last_top_level_path_separator owner of
                     None \<Rightarrow> owner | Some separator \<Rightarrow> drop (separator + 2) owner);
          owner = trim_start_text ''const '' (trim_start_text ''mut ''
                    (dropWhile (\<lambda>c. c \<in> set ''&*'') owner))
      in case find_char (\<lambda>c. c = CHR ''<'') owner of None \<Rightarrow> owner | Some generic \<Rightarrow> take generic owner)"

text \<open>The suffix \<open>(.llvm.N)\<close> of a symbol, found by \<open>rsplit_once\<close>.\<close>

definition strip_llvm_suffix :: "string \<Rightarrow> string" where
  "strip_llvm_suffix symbol =
     (case find_sub (rev '' (.llvm.'') (rev symbol) of
        None \<Rightarrow> symbol
      | Some n \<Rightarrow>
          let suffix = drop (length symbol - n) symbol in
          if suffix \<noteq> [] \<and> last suffix = CHR '')'' \<and> list_all is_ascii_digit (butlast suffix)
          then take (length symbol - n - 8) symbol else symbol)"

definition compact_function_name :: "string \<Rightarrow> string" where
  "compact_function_name symbol =
     (let symbol = strip_llvm_suffix symbol in
      case last_top_level_path_separator symbol of
        None \<Rightarrow>
          let display_name = trim_function_details symbol
          in if display_name = [] then symbol else display_name
      | Some method_separator \<Rightarrow>
          let method_name = trim_function_details (drop (method_separator + 2) symbol);
              owner = function_owner (take method_separator symbol)
          in if owner = [] \<or> method_name = [] then symbol else owner @ ''::'' @ method_name)"

definition function_display_name :: "RankedFunction \<Rightarrow> string" where
  "function_display_name function = compact_function_name (fn_name function)"

subsection \<open>The compact call tree\<close>

record CompactFunctionTree =
  ct_parents :: "int \<times> int \<rightharpoonup> int option"

definition note_child ::
    "RankedFunction \<Rightarrow> (int \<times> int \<rightharpoonup> nat \<times> int) \<Rightarrow> (int \<times> int \<rightharpoonup> nat \<times> int)" where
  "note_child function children =
     (case fn_parent_function_id function of
        None \<Rightarrow> children
      | Some parent_id \<Rightarrow>
          let key = (fn_semantic_id function, parent_id);
              n = (case children key of Some (n, _) \<Rightarrow> n | None \<Rightarrow> 0)
          in children(key \<mapsto> (n + 1, fn_inclusive_sample_count function)))"

definition collapsed_functions :: "RankedFunction list \<Rightarrow> (int \<times> int) set" where
  "collapsed_functions functions =
     (let children = fold note_child functions Map.empty in
      fn_identity ` set (filter (\<lambda>function.
        fn_self_sample_count function = 0 \<and>
        (case children (fn_identity function) of
           None \<Rightarrow> False
         | Some (n, child_inclusive) \<Rightarrow>
             n = 1 \<and> child_inclusive = fn_inclusive_sample_count function)) functions))"

definition parent_in :: "(int \<times> int \<rightharpoonup> int option) \<Rightarrow> int \<times> int \<Rightarrow> int option" where
  "parent_in parents key = (case parents key of Some parent \<Rightarrow> parent | None \<Rightarrow> None)"

partial_function (option) retained_walk ::
    "int \<Rightarrow> (int \<times> int \<rightharpoonup> int option) \<Rightarrow> (int \<times> int) set \<Rightarrow> (int \<times> int \<rightharpoonup> int option)
       \<Rightarrow> int option \<Rightarrow> (int \<times> int) list \<Rightarrow> (int option \<times> (int \<times> int) list) option" where
  "retained_walk semantic_id parents collapsed retained_parents parent path =
     (case parent of
        None \<Rightarrow> Some (None, path)
      | Some parent_id \<Rightarrow>
          if (semantic_id, parent_id) \<notin> collapsed then Some (parent, path)
          else (case retained_parents (semantic_id, parent_id) of
                  Some retained \<Rightarrow> Some (retained, path)
                | None \<Rightarrow>
                    retained_walk semantic_id parents collapsed retained_parents
                      (parent_in parents (semantic_id, parent_id)) (path @ [(semantic_id, parent_id)])))"

definition retained_function_parent ::
    "int \<Rightarrow> int option \<Rightarrow> (int \<times> int \<rightharpoonup> int option) \<Rightarrow> (int \<times> int) set \<Rightarrow> (int \<times> int \<rightharpoonup> int option)
       \<Rightarrow> (int option \<times> (int \<times> int \<rightharpoonup> int option)) option" where
  "retained_function_parent semantic_id parent parents collapsed retained_parents =
     map_option (\<lambda>(parent, path). (parent, fold (\<lambda>key m. m(key \<mapsto> parent)) path retained_parents))
       (retained_walk semantic_id parents collapsed retained_parents parent [])"

fun compact_loop ::
    "(int \<times> int \<rightharpoonup> int option) \<Rightarrow> (int \<times> int) set \<Rightarrow> RankedFunction list \<Rightarrow> (int \<times> int \<rightharpoonup> int option)
       \<Rightarrow> (int \<times> int \<rightharpoonup> int option) \<Rightarrow> (int \<times> int \<rightharpoonup> int option) option" where
  "compact_loop parents collapsed [] retained_parents compact_parents = Some compact_parents"
| "compact_loop parents collapsed (function # functions) retained_parents compact_parents =
     (if fn_identity function \<in> collapsed then
        compact_loop parents collapsed functions retained_parents compact_parents
      else case retained_function_parent (fn_semantic_id function) (fn_parent_function_id function)
                  parents collapsed retained_parents of
             None \<Rightarrow> None
           | Some (parent, retained_parents) \<Rightarrow>
               compact_loop parents collapsed functions retained_parents
                 (compact_parents(fn_identity function \<mapsto> parent)))"

text \<open>\<open>None\<close>: a walk along a cycle of collapsed frames does not end.\<close>

definition CompactFunctionTree_new :: "RankedFunction list \<Rightarrow> CompactFunctionTree option" where
  "CompactFunctionTree_new functions =
     map_option (\<lambda>parents. \<lparr>ct_parents = parents\<rparr>)
       (compact_loop (map_of (rev (map (\<lambda>f. (fn_identity f, fn_parent_function_id f)) functions)))
          (collapsed_functions functions) functions Map.empty Map.empty)"

definition tree_contains :: "CompactFunctionTree \<Rightarrow> RankedFunction \<Rightarrow> bool" where
  "tree_contains tree function \<longleftrightarrow> ct_parents tree (fn_identity function) \<noteq> None"

definition tree_parent_function_id :: "CompactFunctionTree \<Rightarrow> RankedFunction \<Rightarrow> int option" where
  "tree_parent_function_id tree function = parent_in (ct_parents tree) (fn_identity function)"

subsection \<open>Slices stay in range\<close>

declare split_as_loop.simps [simp del] separator_loop.simps [simp del] trim_start_text.simps [simp del]
  trim_details_loop.simps [simp del]

lemma separator_loop_found:
  "separator_loop text index nesting found = Some i \<Longrightarrow>
    found = Some i \<or> (i + 1 < length text \<and> text ! i = CHR '':'' \<and> text ! (i + 1) = CHR '':'')"
proof (induction "text" index nesting found rule: separator_loop.induct)
  case (1 s index nesting found)
  let ?separator = "s ! index = CHR '':'' \<and> is_top_level nesting \<and> index + 1 < length s \<and>
    s ! (index + 1) = CHR '':'' \<and> \<not> (index + 2 < length s \<and> s ! (index + 2) = CHR ''<'')"
  note unfold = separator_loop.simps [of s index nesting found]
  consider "length s \<le> index" | "\<not> length s \<le> index" ?separator | "\<not> length s \<le> index" "\<not> ?separator"
    by blast
  then show ?case
  proof cases
    case 1
    with "1.prems" unfold show ?thesis by simp
  next
    case 2
    with "1.prems" unfold have "separator_loop s (index + 2) nesting (Some index) = Some i" by simp
    from "1.IH"(1) [OF 2 this] 2 show ?thesis by auto
  next
    case 3
    with "1.prems" unfold have "separator_loop s (index + 1) (advance s index nesting) found = Some i"
      by (metis (lifting))
    from "1.IH"(2) [OF 3 this] show ?thesis .
  qed
qed

lemma separator_in_range:
  "last_top_level_path_separator text = Some i \<Longrightarrow>
    i + 2 \<le> length text \<and> take 2 (drop i text) = ''::''"
  unfolding last_top_level_path_separator_def
  by (drule separator_loop_found) (auto simp: take_Suc_conv_app_nth numeral_2_eq_2 Cons_nth_drop_Suc [symmetric])

lemma qualified_display_name_bound: "length (qualified_display_name name qualifier) \<le> MAX_DISPLAY_STRING_CHARS"
  by (auto simp: qualified_display_name_def MAX_DISPLAY_STRING_CHARS_def)

lemma semantic_display_name_bound:
  "length (sm_name semantic) \<le> MAX_DISPLAY_STRING_CHARS \<Longrightarrow>
    length (semantic_display_name semantic) \<le> MAX_DISPLAY_STRING_CHARS"
  unfolding semantic_display_name_def using qualified_display_name_bound by (auto split: option.split)

subsection \<open>The nearest frame that is kept\<close>

inductive nearest_kept ::
    "(int \<times> int \<rightharpoonup> int option) \<Rightarrow> (int \<times> int) set \<Rightarrow> int \<Rightarrow> int option \<Rightarrow> int option \<Rightarrow> bool"
  for parents collapsed semantic_id where
  no_parent: "nearest_kept parents collapsed semantic_id None None"
| kept: "(semantic_id, i) \<notin> collapsed \<Longrightarrow> nearest_kept parents collapsed semantic_id (Some i) (Some i)"
| skipped: "(semantic_id, i) \<in> collapsed \<Longrightarrow>
    nearest_kept parents collapsed semantic_id (parent_in parents (semantic_id, i)) r \<Longrightarrow>
    nearest_kept parents collapsed semantic_id (Some i) r"

inductive_cases nearest_kept_NoneE: "nearest_kept parents collapsed semantic_id None r"
inductive_cases nearest_kept_SomeE: "nearest_kept parents collapsed semantic_id (Some i) r"

lemma nearest_kept_unique:
  "nearest_kept parents collapsed s parent r \<Longrightarrow> nearest_kept parents collapsed s parent r' \<Longrightarrow> r = r'"
proof (induction arbitrary: r' rule: nearest_kept.induct)
  case no_parent
  then show ?case by (auto elim: nearest_kept_NoneE)
next
  case (kept i)
  then show ?case by (auto elim: nearest_kept_SomeE)
next
  case (skipped i r)
  from skipped.prems skipped.hyps(1) skipped.IH show ?case by (auto elim: nearest_kept_SomeE)
qed

text \<open>What earlier walks left in the table is right.\<close>

definition memo_ok ::
    "(int \<times> int \<rightharpoonup> int option) \<Rightarrow> (int \<times> int) set \<Rightarrow> (int \<times> int \<rightharpoonup> int option) \<Rightarrow> bool" where
  "memo_ok parents collapsed memo \<longleftrightarrow>
     (\<forall>s i r. memo (s, i) = Some r \<longrightarrow> nearest_kept parents collapsed s (Some i) r)"

lemma retained_walk_nearest:
  assumes "nearest_kept parents collapsed s parent r" and "memo_ok parents collapsed memo"
  shows "\<exists>passed. retained_walk s parents collapsed memo parent path = Some (r, path @ passed) \<and>
    (\<forall>key \<in> set passed. \<exists>i. key = (s, i) \<and> nearest_kept parents collapsed s (Some i) r)"
  using assms(1)
proof (induction arbitrary: path rule: nearest_kept.induct)
  case no_parent
  then show ?case by (subst retained_walk.simps) simp
next
  case (kept i)
  then show ?case by (subst retained_walk.simps) simp
next
  case (skipped i r)
  note here = nearest_kept.skipped [OF skipped.hyps]
  show ?case
  proof (cases "memo (s, i)")
    case None
    obtain passed where passed: "retained_walk s parents collapsed memo (parent_in parents (s, i)) (path @ [(s, i)]) =
        Some (r, (path @ [(s, i)]) @ passed)"
      "\<forall>key \<in> set passed. \<exists>i. key = (s, i) \<and> nearest_kept parents collapsed s (Some i) r"
      using skipped.IH [of "path @ [(s, i)]"] by blast
    have "retained_walk s parents collapsed memo (Some i) path = Some (r, path @ (s, i) # passed)"
      using skipped.hyps(1) None passed(1) by (subst retained_walk.simps) simp
    moreover have "\<forall>key \<in> set ((s, i) # passed). \<exists>i. key = (s, i) \<and> nearest_kept parents collapsed s (Some i) r"
      using passed(2) here by auto
    ultimately show ?thesis by blast
  next
    case (Some r')
    with assms(2) have "nearest_kept parents collapsed s (Some i) r'" by (simp add: memo_ok_def)
    from nearest_kept_unique [OF here this] Some skipped.hyps(1) show ?thesis
      by (subst retained_walk.simps) simp
  qed
qed

lemma memo_ok_fold:
  assumes "memo_ok parents collapsed memo"
    and "\<forall>key \<in> set passed. \<exists>i. key = (s, i) \<and> nearest_kept parents collapsed s (Some i) r"
  shows "memo_ok parents collapsed (fold (\<lambda>key m. m(key \<mapsto> r)) passed memo)"
  using assms
proof (induction passed arbitrary: memo)
  case (Cons key passed)
  then have "memo_ok parents collapsed (memo(key \<mapsto> r))" by (auto simp: memo_ok_def)
  with Cons show ?case by (simp del: fun_upd_apply)
qed simp

lemma retained_function_parent_nearest:
  assumes "nearest_kept parents collapsed s parent r" and "memo_ok parents collapsed memo"
  obtains memo' where "retained_function_parent s parent parents collapsed memo = Some (r, memo')"
    and "memo_ok parents collapsed memo'"
proof -
  obtain passed where "retained_walk s parents collapsed memo parent [] = Some (r, passed)"
    and "\<forall>key \<in> set passed. \<exists>i. key = (s, i) \<and> nearest_kept parents collapsed s (Some i) r"
    using retained_walk_nearest [OF assms, of "[]"] by auto
  with memo_ok_fold [OF assms(2)] that show ?thesis by (simp add: retained_function_parent_def)
qed

lemma compact_loop_nearest:
  assumes "memo_ok parents collapsed memo"
    and "\<And>f. f \<in> set fs \<Longrightarrow>
      \<exists>r. nearest_kept parents collapsed (fn_semantic_id f) (fn_parent_function_id f) r"
    and "distinct (map fn_identity fs)" and "dom ct \<inter> fn_identity ` set fs = {}"
  shows "\<exists>ct'. compact_loop parents collapsed fs memo ct = Some ct' \<and>
    dom ct' = dom ct \<union> (fn_identity ` set fs - collapsed) \<and>
    (\<forall>f \<in> set fs. fn_identity f \<notin> collapsed \<longrightarrow>
       nearest_kept parents collapsed (fn_semantic_id f) (fn_parent_function_id f)
         (the (ct' (fn_identity f)))) \<and> (\<forall>key \<in> dom ct. ct' key = ct key)"
  using assms
proof (induction fs arbitrary: memo ct)
  case Nil
  then show ?case by simp
next
  case (Cons f fs)
  show ?case
  proof (cases "fn_identity f \<in> collapsed")
    case True
    have "\<exists>ct'. compact_loop parents collapsed fs memo ct = Some ct' \<and>
        dom ct' = dom ct \<union> (fn_identity ` set fs - collapsed) \<and>
        (\<forall>f \<in> set fs. fn_identity f \<notin> collapsed \<longrightarrow>
           nearest_kept parents collapsed (fn_semantic_id f) (fn_parent_function_id f)
             (the (ct' (fn_identity f)))) \<and> (\<forall>key \<in> dom ct. ct' key = ct key)"
      by (rule Cons.IH) (use Cons.prems in auto)
    with True show ?thesis by auto
  next
    case False
    obtain r where r: "nearest_kept parents collapsed (fn_semantic_id f) (fn_parent_function_id f) r"
      using Cons.prems(2) by auto
    obtain memo' where memo': "retained_function_parent (fn_semantic_id f) (fn_parent_function_id f) parents
        collapsed memo = Some (r, memo')" "memo_ok parents collapsed memo'"
      using retained_function_parent_nearest [OF r Cons.prems(1)] .
    have "\<exists>ct'. compact_loop parents collapsed fs memo' (ct(fn_identity f \<mapsto> r)) = Some ct' \<and>
        dom ct' = dom (ct(fn_identity f \<mapsto> r)) \<union> (fn_identity ` set fs - collapsed) \<and>
        (\<forall>f \<in> set fs. fn_identity f \<notin> collapsed \<longrightarrow>
           nearest_kept parents collapsed (fn_semantic_id f) (fn_parent_function_id f)
             (the (ct' (fn_identity f)))) \<and>
        (\<forall>key \<in> dom (ct(fn_identity f \<mapsto> r)). ct' key = (ct(fn_identity f \<mapsto> r)) key)"
    proof (rule Cons.IH)
      show "dom (ct(fn_identity f \<mapsto> r)) \<inter> fn_identity ` set fs = {}"
        using Cons.prems(3,4) by (simp add: disjoint_iff)
    qed (use Cons.prems memo'(2) in auto)
    then obtain ct' where ct': "compact_loop parents collapsed fs memo' (ct(fn_identity f \<mapsto> r)) = Some ct'"
      "dom ct' = insert (fn_identity f) (dom ct) \<union> (fn_identity ` set fs - collapsed)"
      "\<forall>f \<in> set fs. fn_identity f \<notin> collapsed \<longrightarrow>
         nearest_kept parents collapsed (fn_semantic_id f) (fn_parent_function_id f) (the (ct' (fn_identity f)))"
      "\<forall>key \<in> dom (ct(fn_identity f \<mapsto> r)). ct' key = (ct(fn_identity f \<mapsto> r)) key"
      by auto
    from ct'(4) have "ct' (fn_identity f) = Some r" by simp
    moreover from ct'(4) Cons.prems(4) have "\<forall>key \<in> dom ct. ct' key = ct key" by auto
    ultimately show ?thesis
      using False memo'(1) ct'(1-3) r by (intro exI [of _ ct']) auto
  qed
qed

text \<open>On an acyclic call tree every walk ends.\<close>

lemma acyclic_nearest_kept:
  assumes "acyclic (up parent_list)"
    and step: "\<And>s i j. parent_in parents (s, i) = Some j \<Longrightarrow> parent_of parent_list (s, i) = Some (s, j)"
  shows "\<exists>r. nearest_kept parents collapsed s parent r"
proof -
  have wf: "wf ((up parent_list)\<inverse>)"
    using finite_up assms(1) by (rule finite_acyclic_wf_converse)
  have "\<exists>r. nearest_kept parents collapsed s (Some i) r" for i
  proof (induction "(s, i)" arbitrary: i rule: wf_induct_rule [OF wf])
    case (1 i)
    show ?case
    proof (cases "(s, i) \<in> collapsed")
      case False
      then show ?thesis by (blast intro: nearest_kept.kept)
    next
      case True
      have "\<exists>r. nearest_kept parents collapsed s (parent_in parents (s, i)) r"
      proof (cases "parent_in parents (s, i)")
        case None
        then show ?thesis by (auto intro: nearest_kept.no_parent)
      next
        case (Some j)
        with step have "((s, j), (s, i)) \<in> (up parent_list)\<inverse>" by (simp add: up_def)
        from 1 [OF this] Some show ?thesis by simp
      qed
      with True show ?thesis by (blast intro: nearest_kept.skipped)
    qed
  qed
  then show ?thesis by (cases parent) (auto intro: nearest_kept.no_parent)
qed

subsection \<open>What the compact tree is\<close>

text \<open>\<open>compact_up\<close>: from a kept frame to its parent in the compact tree.\<close>

definition compact_up :: "CompactFunctionTree \<Rightarrow> ((int \<times> int) \<times> (int \<times> int)) set" where
  "compact_up tree = {((s, i), (s', j)). s' = s \<and> ct_parents tree (s, i) = Some (Some j)}"

definition frame_parent_map :: "RankedFunction list \<Rightarrow> int \<times> int \<rightharpoonup> int option" where
  "frame_parent_map functions = map_of (rev (map (\<lambda>f. (fn_identity f, fn_parent_function_id f)) functions))"

lemma frame_parent_map_lookup:
  assumes "distinct (map fn_identity functions)" and "f \<in> set functions"
  shows "frame_parent_map functions (fn_identity f) = Some (fn_parent_function_id f)"
proof -
  have "distinct (map fst (rev (map (\<lambda>f. (fn_identity f, fn_parent_function_id f)) functions)))"
    using assms(1) by (simp add: comp_def rev_map [symmetric])
  then show ?thesis
    unfolding frame_parent_map_def using assms(2) by (intro map_of_is_SomeI) auto
qed

lemma frame_parent_map_None:
  "key \<notin> fn_identity ` set functions \<Longrightarrow> frame_parent_map functions key = None"
  by (force simp: frame_parent_map_def map_of_eq_None_iff)

lemma function_parent_of:
  assumes "distinct (map fn_identity (rd_functions document))" and "f \<in> set (rd_functions document)"
  shows "parent_of (function_parents document) (fn_identity f) =
    map_option (Pair (fn_semantic_id f)) (fn_parent_function_id f)"
proof -
  have "map_of (function_parents document) (fn_identity f) =
      Some (map_option (Pair (fn_semantic_id f)) (fn_parent_function_id f))"
    using assms unfolding function_parents_def by (intro map_of_is_SomeI) (auto simp: comp_def)
  then show ?thesis by (simp add: parent_of_def split: option.split)
qed

lemma function_up_parent_in:
  assumes "distinct (map fn_identity (rd_functions document))"
  shows "(a, b) \<in> up (function_parents document) \<longleftrightarrow>
    (\<exists>j. parent_in (frame_parent_map (rd_functions document)) a = Some j \<and> b = (fst a, j))"
proof (cases "a \<in> fn_identity ` set (rd_functions document)")
  case True
  then obtain f where f: "f \<in> set (rd_functions document)" "a = fn_identity f" by auto
  from function_parent_of [OF assms f(1)] frame_parent_map_lookup [OF assms f(1)] f(2) show ?thesis
    by (auto simp: parent_in_def fn_identity_def)
next
  case False
  moreover have "fst ` set (function_parents document) = fn_identity ` set (rd_functions document)"
    by (force simp: function_parents_def)
  ultimately have "parent_of (function_parents document) a = None"
    by (metis not_None_eq parent_of_key)
  with False show ?thesis by (simp add: parent_in_def frame_parent_map_None)
qed

text \<open>A walk goes up the call tree through collapsed frames to a kept one.\<close>

lemma nearest_kept_path:
  assumes "nearest_kept parents collapsed s parent r" and "parent = Some i" and "r = Some j"
    and step: "\<And>a b. parent_in parents a = Some b \<Longrightarrow> (a, (fst a, b)) \<in> R"
  shows "((s, i), (s, j)) \<in> R\<^sup>* \<and> (s, j) \<notin> collapsed"
  using assms(1-3)
proof (induction arbitrary: i rule: nearest_kept.induct)
  case (skipped k r)
  from skipped.IH [OF _ \<open>r = Some j\<close>] skipped.prems skipped.hyps(2) show ?case
    by (cases "parent_in parents (s, k)")
      (auto elim: nearest_kept_NoneE intro: converse_rtrancl_into_rtrancl dest: step)
qed auto

lemma compact_tree:
  assumes "well_structured document"
  obtains tree where "CompactFunctionTree_new (rd_functions document) = Some tree"
    and "dom (ct_parents tree) =
      fn_identity ` set (rd_functions document) - collapsed_functions (rd_functions document)"
    and "\<forall>f \<in> set (rd_functions document). fn_identity f \<notin> collapsed_functions (rd_functions document) \<longrightarrow>
      nearest_kept (frame_parent_map (rd_functions document)) (collapsed_functions (rd_functions document))
        (fn_semantic_id f) (fn_parent_function_id f) (tree_parent_function_id tree f)"
proof -
  let ?fs = "rd_functions document"
  let ?parents = "frame_parent_map ?fs" and ?collapsed = "collapsed_functions ?fs"
  from assms have unique: "distinct (map fn_identity ?fs)" and acyclic: "acyclic (up (function_parents document))"
    by (simp_all add: well_structured_def)
  have step: "parent_of (function_parents document) (s, i) = Some (s, j)"
    if "parent_in ?parents (s, i) = Some j" for s i j
    using function_up_parent_in [OF unique, of "(s, i)" "(s, j)"] that by simp
  have "memo_ok ?parents ?collapsed Map.empty" by (simp add: memo_ok_def)
  from compact_loop_nearest [OF this acyclic_nearest_kept [OF acyclic step] unique, of Map.empty]
  obtain kept where kept: "compact_loop ?parents ?collapsed ?fs Map.empty Map.empty = Some kept"
    "dom kept = fn_identity ` set ?fs - ?collapsed"
    "\<forall>f \<in> set ?fs. fn_identity f \<notin> ?collapsed \<longrightarrow>
       nearest_kept ?parents ?collapsed (fn_semantic_id f) (fn_parent_function_id f) (the (kept (fn_identity f)))"
    by auto
  have parent: "tree_parent_function_id \<lparr>ct_parents = kept\<rparr> f = the (kept (fn_identity f))"
    if "f \<in> set ?fs" "fn_identity f \<notin> ?collapsed" for f
  proof -
    from kept(2) that have "fn_identity f \<in> dom kept" by simp
    then show ?thesis by (auto simp: tree_parent_function_id_def parent_in_def)
  qed
  show ?thesis
  proof (rule that [of "\<lparr>ct_parents = kept\<rparr>"])
    show "CompactFunctionTree_new ?fs = Some \<lparr>ct_parents = kept\<rparr>"
      using kept(1) by (simp add: CompactFunctionTree_new_def frame_parent_map_def)
  qed (use kept parent in auto)
qed

lemma compact_up_iff:
  assumes dom: "dom (ct_parents tree) = fn_identity ` set functions - collapsed" and f: "f \<in> set functions"
    "fn_identity f \<notin> collapsed"
  shows "(fn_identity f, b) \<in> compact_up tree \<longleftrightarrow>
    (\<exists>j. tree_parent_function_id tree f = Some j \<and> b = (fn_semantic_id f, j))"
proof -
  from assms have "fn_identity f \<in> dom (ct_parents tree)" by auto
  then show ?thesis
    by (auto simp: compact_up_def tree_parent_function_id_def parent_in_def fn_identity_def split: option.splits)
qed

lemma compact_reach:
  assumes shape: "well_structured document"
    and dom: "dom (ct_parents tree) =
      fn_identity ` set (rd_functions document) - collapsed_functions (rd_functions document)"
    and nearest: "\<And>f. f \<in> set (rd_functions document) \<Longrightarrow>
      fn_identity f \<notin> collapsed_functions (rd_functions document) \<Longrightarrow>
      nearest_kept (frame_parent_map (rd_functions document)) (collapsed_functions (rd_functions document))
        (fn_semantic_id f) (fn_parent_function_id f) (tree_parent_function_id tree f)"
    and b: "b \<notin> collapsed_functions (rd_functions document)"
    and path: "(a, b) \<in> (up (function_parents document))\<^sup>*"
  shows "if a \<in> collapsed_functions (rd_functions document)
    then \<exists>j. nearest_kept (frame_parent_map (rd_functions document)) (collapsed_functions (rd_functions document))
           (fst a) (Some (snd a)) (Some j) \<and> ((fst a, j), b) \<in> (compact_up tree)\<^sup>*
    else (a, b) \<in> (compact_up tree)\<^sup>*"
  using path
proof (induction rule: converse_rtrancl_induct)
  case base
  with b show ?case by simp
next
  case (step x y)
  let ?fs = "rd_functions document"
  let ?parents = "frame_parent_map ?fs" and ?collapsed = "collapsed_functions ?fs"
  from shape have unique: "distinct (map fn_identity ?fs)" by (simp add: well_structured_def)
  from step.hyps(1) obtain p where p: "parent_in ?parents x = Some p" "y = (fst x, p)"
    unfolding function_up_parent_in [OF unique] by blast
  obtain j where j: "nearest_kept ?parents ?collapsed (fst x) (Some p) (Some j)" "((fst x, j), b) \<in> (compact_up tree)\<^sup>*"
    using step.IH p(2) by (cases "y \<in> ?collapsed") (auto intro: nearest_kept.kept)
  show ?case
  proof (cases "x \<in> ?collapsed")
    case True
    with j(1) p(1) have "nearest_kept ?parents ?collapsed (fst x) (Some (snd x)) (Some j)"
      by (intro nearest_kept.skipped) simp_all
    with True j(2) show ?thesis by auto
  next
    case False
    from p(1) have "x \<in> fn_identity ` set ?fs"
      using frame_parent_map_None by (fastforce simp: parent_in_def split: option.splits)
    then obtain f where f: "f \<in> set ?fs" "x = fn_identity f" by auto
    from p(1) frame_parent_map_lookup [OF unique f(1)] f(2) have "fn_parent_function_id f = Some p"
      by (simp add: parent_in_def)
    with nearest [OF f(1)] False f(2) j(1) have "tree_parent_function_id tree f = Some j"
      by (auto simp: fn_identity_def intro: nearest_kept_unique)
    with compact_up_iff [OF dom f(1)] False f(2) have "(x, (fst x, j)) \<in> compact_up tree"
      by (auto simp: fn_identity_def)
    with j(2) False show ?thesis by (simp add: converse_rtrancl_into_rtrancl)
  qed
qed

text \<open>The other direction: a step of the compact tree goes up the call tree.\<close>

lemma compact_up_subset:
  assumes shape: "well_structured document"
    and dom: "dom (ct_parents tree) =
      fn_identity ` set (rd_functions document) - collapsed_functions (rd_functions document)"
    and nearest: "\<And>f. f \<in> set (rd_functions document) \<Longrightarrow>
      fn_identity f \<notin> collapsed_functions (rd_functions document) \<Longrightarrow>
      nearest_kept (frame_parent_map (rd_functions document)) (collapsed_functions (rd_functions document))
        (fn_semantic_id f) (fn_parent_function_id f) (tree_parent_function_id tree f)"
  shows "compact_up tree \<subseteq> (up (function_parents document))\<^sup>+"
proof (rule subrelI)
  fix a b assume step: "(a, b) \<in> compact_up tree"
  from shape have unique: "distinct (map fn_identity (rd_functions document))" by (simp add: well_structured_def)
  from step have "a \<in> dom (ct_parents tree)" by (auto simp: compact_up_def)
  with dom obtain f where f: "f \<in> set (rd_functions document)" "a = fn_identity f"
    "fn_identity f \<notin> collapsed_functions (rd_functions document)" by auto
  from step compact_up_iff [OF dom f(1,3)] f(2) obtain j where
    j: "tree_parent_function_id tree f = Some j" "b = (fn_semantic_id f, j)" by auto
  note walk = nearest [OF f(1,3), unfolded j(1)]
  then obtain p where p: "fn_parent_function_id f = Some p"
    by (cases "fn_parent_function_id f") (auto elim: nearest_kept_NoneE)
  have "(a, (fn_semantic_id f, p)) \<in> up (function_parents document)"
    using function_parent_of [OF unique f(1)] p f(2) by simp
  moreover have "((fn_semantic_id f, p), b) \<in> (up (function_parents document))\<^sup>*"
    using nearest_kept_path [OF walk p refl, of "up (function_parents document)"]
      function_up_parent_in [OF unique] j(2) by blast
  ultimately show "(a, b) \<in> (up (function_parents document))\<^sup>+" by (rule rtrancl_into_trancl2)
qed

lemma collapsed_no_self:
  "f \<in> set functions \<Longrightarrow> distinct (map fn_identity functions) \<Longrightarrow> fn_identity f \<in> collapsed_functions functions \<Longrightarrow>
    fn_self_sample_count f = 0"
  by (auto simp: collapsed_functions_def Let_def distinct_map dest: inj_onD)

text \<open>The compact tree loses no samples: what is below a kept frame is below it in the compact tree.\<close>

lemma compact_tree_counts:
  assumes shape: "well_structured document" and counts: "counts_reconciled document"
  obtains tree where "CompactFunctionTree_new (rd_functions document) = Some tree"
    and "dom (ct_parents tree) =
      fn_identity ` set (rd_functions document) - collapsed_functions (rd_functions document)"
    and "compact_up tree \<subseteq> (up (function_parents document))\<^sup>+"
    and "\<And>f. f \<in> set (rd_functions document) \<Longrightarrow> fn_identity f \<in> dom (ct_parents tree) \<Longrightarrow>
      fn_inclusive_sample_count f =
        (\<Sum>g | g \<in> set (rd_functions document) \<and> fn_identity g \<in> dom (ct_parents tree) \<and>
           (fn_identity g, fn_identity f) \<in> (compact_up tree)\<^sup>*. fn_self_sample_count g)"
proof -
  let ?fs = "rd_functions document" and ?up = "up (function_parents document)"
  let ?collapsed = "collapsed_functions ?fs"
  obtain tree where tree: "CompactFunctionTree_new ?fs = Some tree"
    and dom: "dom (ct_parents tree) = fn_identity ` set ?fs - ?collapsed"
    and walks: "\<forall>f \<in> set ?fs. fn_identity f \<notin> ?collapsed \<longrightarrow>
      nearest_kept (frame_parent_map ?fs) ?collapsed (fn_semantic_id f) (fn_parent_function_id f)
        (tree_parent_function_id tree f)"
    by (rule compact_tree [OF shape])
  note nearest = walks [rule_format]
  note steps = compact_up_subset [OF shape dom nearest]
  from steps have "(compact_up tree)\<^sup>* \<subseteq> (?up\<^sup>+)\<^sup>*" by (rule rtrancl_mono)
  then have down: "(compact_up tree)\<^sup>* \<subseteq> ?up\<^sup>*" by simp
  from shape have unique: "distinct (map fn_identity ?fs)" by (simp add: well_structured_def)
  have "fn_inclusive_sample_count f =
      (\<Sum>g | g \<in> set ?fs \<and> fn_identity g \<in> dom (ct_parents tree) \<and>
         (fn_identity g, fn_identity f) \<in> (compact_up tree)\<^sup>*. fn_self_sample_count g)"
    if f: "f \<in> set ?fs" and kept: "fn_identity f \<in> dom (ct_parents tree)" for f
  proof -
    from kept dom have top: "fn_identity f \<notin> ?collapsed" by simp
    have reach: "(fn_identity g, fn_identity f) \<in> (compact_up tree)\<^sup>*"
      if "(fn_identity g, fn_identity f) \<in> ?up\<^sup>*" "fn_identity g \<notin> ?collapsed" for g
      using compact_reach [OF shape dom nearest top that(1)] that(2) by simp
    have "fn_inclusive_sample_count f = (\<Sum>g \<in> functions_below document (fn_identity f). fn_self_sample_count g)"
      using counts f by (simp add: counts_reconciled_def)
    also have "\<dots> = (\<Sum>g | g \<in> functions_below document (fn_identity f) \<and> fn_identity g \<notin> ?collapsed.
        fn_self_sample_count g)"
      using collapsed_no_self [OF _ unique] by (intro sum.mono_neutral_right) (auto simp: functions_below_def)
    also have "{g. g \<in> functions_below document (fn_identity f) \<and> fn_identity g \<notin> ?collapsed} =
        {g \<in> set ?fs. fn_identity g \<in> dom (ct_parents tree) \<and> (fn_identity g, fn_identity f) \<in> (compact_up tree)\<^sup>*}"
      using reach down dom by (auto simp: functions_below_def)
    finally show ?thesis by simp
  qed
  with that tree dom steps show ?thesis by blast
qed

end
