(* ===== verification/DF_Terminal_Report.thy ===== *)
theory DF_Terminal_Report
  imports DF_Compact_Functions DF_Execution_Profile "HOL-Library.Multiset"
begin

section \<open>Inspecting a ranked profile in the terminal\<close>

text \<open>
  \<open>perfetto_profile/report_terminal.rs\<close>: the index of a ranked profile, the moves from one selection
  to another, and the rows a selection shows. A stack is a list with its top first. The rendering of a
  percentage from two \<open>f64\<close> values is the parameter \<open>pct\<close>; of the characters that the terminal must
  not see, the control characters are in the range of the model.
\<close>

datatype InspectSort = ByDuration | ByInclusiveCpu | BySelfCpu | ByName

fun InspectSort_as_str :: "InspectSort \<Rightarrow> string" where
  "InspectSort_as_str ByDuration = ''duration''"
| "InspectSort_as_str ByInclusiveCpu = ''inclusive-cpu''"
| "InspectSort_as_str BySelfCpu = ''self-cpu''"
| "InspectSort_as_str ByName = ''name''"

fun for_functions :: "InspectSort \<Rightarrow> InspectSort" where
  "for_functions ByDuration = ByInclusiveCpu"
| "for_functions order = order"

datatype InspectSelection = RootSelection | SemanticSelection int | FunctionSelection int int

datatype TerminalInspectError = SemanticNotFound int | FunctionNotFound int int

fun TerminalInspectError_kind :: "TerminalInspectError \<Rightarrow> string" where
  "TerminalInspectError_kind (SemanticNotFound _) = ''semantic_not_found''"
| "TerminalInspectError_kind (FunctionNotFound _ _) = ''function_not_found''"

fun TerminalInspectError_display :: "TerminalInspectError \<Rightarrow> string" where
  "TerminalInspectError_display (SemanticNotFound semantic_id) =
     ''semantic:'' @ show_int semantic_id @ '' does not exist''"
| "TerminalInspectError_display (FunctionNotFound semantic_id function_id) =
     ''function:'' @ show_int semantic_id @ '':'' @ show_int function_id @ '' does not exist''"

subsection \<open>The index\<close>

record TerminalProfileIndex =
  ti_document :: RankedProfileDocument
  ti_semantics :: "int \<rightharpoonup> RankedSemantic"
  ti_semantic_children :: "int option \<Rightarrow> RankedSemantic list"
  ti_functions :: "int \<times> int \<rightharpoonup> RankedFunction"
  ti_function_parents :: "int \<times> int \<rightharpoonup> int option"
  ti_function_children :: "int \<times> int option \<Rightarrow> RankedFunction list"
  ti_operation_durations :: "int \<rightharpoonup> int option"
  ti_compact_names :: "string \<rightharpoonup> string"
  ti_full_symbols :: bool
  ti_all_frames :: bool

definition index_semantic :: "RankedSemantic \<Rightarrow> TerminalProfileIndex \<Rightarrow> TerminalProfileIndex" where
  "index_semantic semantic index =
     index\<lparr>ti_semantics := (ti_semantics index)(sm_semantic_id semantic \<mapsto> semantic),
           ti_semantic_children := (ti_semantic_children index)(sm_parent_semantic_id semantic :=
             ti_semantic_children index (sm_parent_semantic_id semantic) @ [semantic]),
           ti_operation_durations :=
             (if sm_parent_semantic_id semantic = None
              then (ti_operation_durations index)(sm_operation_id semantic \<mapsto> sm_duration_ns semantic)
              else ti_operation_durations index)\<rparr>"

definition index_name :: "RankedFunction \<Rightarrow> TerminalProfileIndex \<Rightarrow> TerminalProfileIndex" where
  "index_name function index =
     (if ti_compact_names index (fn_name function) = None
      then index\<lparr>ti_compact_names := (ti_compact_names index)(fn_name function \<mapsto> function_display_name function)\<rparr>
      else index)"

definition index_function ::
    "CompactFunctionTree \<Rightarrow> RankedFunction \<Rightarrow> TerminalProfileIndex \<Rightarrow> TerminalProfileIndex" where
  "index_function tree function index =
     (let index = index_name function index in
      if \<not> ti_all_frames index \<and> \<not> tree_contains tree function then index
      else
        let parent_function_id =
          (if ti_all_frames index then fn_parent_function_id function else tree_parent_function_id tree function)
        in index\<lparr>ti_functions := (ti_functions index)(fn_identity function \<mapsto> function),
             ti_function_parents := (ti_function_parents index)(fn_identity function \<mapsto> parent_function_id),
             ti_function_children := (ti_function_children index)((fn_semantic_id function, parent_function_id) :=
               ti_function_children index (fn_semantic_id function, parent_function_id) @ [function])\<rparr>)"

definition empty_index :: "RankedProfileDocument \<Rightarrow> bool \<Rightarrow> bool \<Rightarrow> TerminalProfileIndex" where
  "empty_index document full_symbols all_frames =
     \<lparr>ti_document = document, ti_semantics = Map.empty, ti_semantic_children = (\<lambda>_. []),
      ti_functions = Map.empty, ti_function_parents = Map.empty, ti_function_children = (\<lambda>_. []),
      ti_operation_durations = Map.empty, ti_compact_names = Map.empty,
      ti_full_symbols = full_symbols, ti_all_frames = all_frames\<rparr>"

text \<open>\<open>None\<close>: the compact tree of a document with a cycle is never finished.\<close>

definition TerminalProfileIndex_new :: "RankedProfileDocument \<Rightarrow> bool \<Rightarrow> bool \<Rightarrow> TerminalProfileIndex option" where
  "TerminalProfileIndex_new document full_symbols all_frames =
     (let index = fold index_semantic (rd_semantics document) (empty_index document full_symbols all_frames)
      in map_option (\<lambda>tree. fold (index_function tree) (rd_functions document) index)
           (CompactFunctionTree_new (rd_functions document)))"

definition compact_name :: "TerminalProfileIndex \<Rightarrow> RankedFunction \<Rightarrow> string" where
  "compact_name index function =
     (case ti_compact_names index (fn_name function) of Some name \<Rightarrow> name | None \<Rightarrow> fn_name function)"

definition function_name :: "TerminalProfileIndex \<Rightarrow> RankedFunction \<Rightarrow> string" where
  "function_name index function =
     (if ti_full_symbols index then fn_name function else compact_name index function)"

subsection \<open>Moving\<close>

definition open_semantic ::
    "TerminalProfileIndex \<Rightarrow> InspectSelection \<Rightarrow> int \<Rightarrow> string + InspectSelection" where
  "open_semantic index selection semantic_id =
     (let refused = Inl ''semantic target is not an immediate child'';
          child_of = (\<lambda>parent.
            if map_option sm_parent_semantic_id (ti_semantics index semantic_id) \<noteq> Some parent then refused
            else Inr (SemanticSelection semantic_id))
      in case selection of
           RootSelection \<Rightarrow> child_of None
         | SemanticSelection parent \<Rightarrow> child_of (Some parent)
         | FunctionSelection _ _ \<Rightarrow> refused)"

definition open_function ::
    "TerminalProfileIndex \<Rightarrow> InspectSelection \<Rightarrow> int \<Rightarrow> int \<Rightarrow> string + InspectSelection" where
  "open_function index selection semantic_id function_id =
     (let refused = Inl ''function target is not an immediate child'';
          child_of = (\<lambda>parent.
            if ti_function_parents index (semantic_id, function_id) \<noteq> Some parent then refused
            else Inr (FunctionSelection semantic_id function_id))
      in case selection of
           RootSelection \<Rightarrow> refused
         | SemanticSelection owner \<Rightarrow> if owner = semantic_id then child_of None else refused
         | FunctionSelection owner parent \<Rightarrow> if owner = semantic_id then child_of (Some parent) else refused)"

definition select_up :: "TerminalProfileIndex \<Rightarrow> InspectSelection \<Rightarrow> string + InspectSelection" where
  "select_up index selection =
     (case selection of
        RootSelection \<Rightarrow> Inl ''already at operation roots''
      | SemanticSelection semantic_id \<Rightarrow>
          (case ti_semantics index semantic_id of
             None \<Rightarrow> Inl ''current semantic selection does not exist''
           | Some semantic \<Rightarrow>
               Inr (case sm_parent_semantic_id semantic of
                      None \<Rightarrow> RootSelection | Some parent \<Rightarrow> SemanticSelection parent))
      | FunctionSelection semantic_id function_id \<Rightarrow>
          (case ti_function_parents index (semantic_id, function_id) of
             None \<Rightarrow> Inl ''current function selection does not exist''
           | Some None \<Rightarrow> Inr (SemanticSelection semantic_id)
           | Some (Some parent) \<Rightarrow> Inr (FunctionSelection semantic_id parent)))"

subsection \<open>Matching a filter\<close>

definition strip_prefix :: "string \<Rightarrow> string \<Rightarrow> string option" where
  "strip_prefix prefix s = (if take (length prefix) s = prefix then Some (drop (length prefix) s) else None)"

definition contains_text :: "string \<Rightarrow> string \<Rightarrow> bool" where
  "contains_text s pat \<longleftrightarrow> find_sub pat s \<noteq> None"

definition split_once :: "char \<Rightarrow> string \<Rightarrow> (string \<times> string) option" where
  "split_once c s = map_option (\<lambda>i. (take i s, drop (i + 1) s)) (find_char (\<lambda>x. x = c) s)"

text \<open>\<open>str::parse\<close> of an \<open>i64\<close>.\<close>

definition parse_i64 :: "string \<Rightarrow> int option" where
  "parse_i64 s =
     (let negative = (s \<noteq> [] \<and> hd s = CHR ''-'');
          digits = (if s \<noteq> [] \<and> hd s \<in> set ''+-'' then tl s else s)
      in if digits = [] \<or> \<not> list_all is_ascii_digit digits then None
         else let n = (if negative then - int (digits_val 10 0 digits) else int (digits_val 10 0 digits))
              in if i64_range n then Some n else None)"

definition semantic_matches :: "RankedSemantic \<Rightarrow> string \<Rightarrow> bool" where
  "semantic_matches semantic pat \<longleftrightarrow>
     (case strip_prefix ''semantic:'' pat of
        Some identity \<Rightarrow> parse_i64 identity = Some (sm_semantic_id semantic)
      | None \<Rightarrow>
          contains_text (semantic_display_name semantic) pat \<or> contains_text (sm_name semantic) pat \<or>
          contains_text (sm_semantic_kind semantic) pat \<or>
          (case sm_result semantic of None \<Rightarrow> False | Some result \<Rightarrow> contains_text result pat))"

definition function_matches :: "TerminalProfileIndex \<Rightarrow> RankedFunction \<Rightarrow> string \<Rightarrow> bool" where
  "function_matches index function pat \<longleftrightarrow>
     (case strip_prefix ''function:'' pat of
        Some identity \<Rightarrow>
          (case split_once CHR '':'' identity of
             None \<Rightarrow> False
           | Some (semantic_id, function_id) \<Rightarrow>
               parse_i64 semantic_id = Some (fn_semantic_id function) \<and>
               parse_i64 function_id = Some (fn_function_id function))
      | None \<Rightarrow>
          contains_text (compact_name index function) pat \<or> contains_text (fn_name function) pat \<or>
          (case fn_module_name function of None \<Rightarrow> False | Some m \<Rightarrow> contains_text m pat) \<or>
          (case fn_source_file function of None \<Rightarrow> False | Some file \<Rightarrow> contains_text file pat))"

text \<open>A match keeps its ancestors up to the selection. Along a cycle the loop would not end.\<close>

partial_function (option) keep_ancestors ::
    "('k \<Rightarrow> 'k option) \<Rightarrow> 'k option \<Rightarrow> 'k \<Rightarrow> 'k set \<Rightarrow> 'k set option" where
  "keep_ancestors parent selected k included =
     (if Some k = selected then Some included
      else (case parent k of
              None \<Rightarrow> Some (insert k included)
            | Some p \<Rightarrow> keep_ancestors parent selected p (insert k included)))"

text \<open>
  The loops over a stack of nodes with their depths. Nodes below the depth bound push their children,
  one level deeper, so that the loops end.
\<close>

definition stack_order :: "((nat \<times> (nat \<times> 'a) list) \<times> (nat \<times> (nat \<times> 'a) list)) set" where
  "stack_order = inv_image (mult less_than) (\<lambda>(max_depth, stack). mset (map (\<lambda>e. max_depth - fst e) stack))"

lemma wf_stack_order: "wf stack_order"
  by (simp add: stack_order_def wf_mult)

lemma stack_step:
  assumes "\<forall>e \<in> set pushed. fst e = Suc d"
  shows "((max_depth, (if d < max_depth then pushed else []) @ stack), (max_depth, (d, x) # stack)) \<in> stack_order"
proof -
  let ?rest = "\<lambda>es. mset (map (\<lambda>e. max_depth - fst e) es)"
  let ?pushed = "if d < max_depth then pushed else []"
  have "(?rest stack + ?rest ?pushed, ?rest stack + {#max_depth - d#}) \<in> mult less_than"
    using assms by (intro one_step_implies_mult) (fastforce split: if_splits)+
  then show ?thesis by (simp add: stack_order_def ac_simps split: if_splits)
qed

lemma stack_steps:
  "((max_depth, (if d < max_depth then map (Pair (d + 1)) nodes else []) @ stack), (max_depth, (d, x) # stack))
     \<in> stack_order"
  "((max_depth, (if d < max_depth then rev (map (Pair (d + 1)) nodes) else []) @ stack), (max_depth, (d, x) # stack))
     \<in> stack_order"
  by (rule stack_step; simp)+

function match_loop ::
    "('a \<Rightarrow> 'a list) \<Rightarrow> ('a \<Rightarrow> bool) \<Rightarrow> ('a \<Rightarrow> 'k set \<Rightarrow> 'k set option) \<Rightarrow> nat \<Rightarrow> (nat \<times> 'a) list \<Rightarrow> 'k set
       \<Rightarrow> 'k set option" where
  "match_loop children matches keep max_depth [] included = Some included"
| "match_loop children matches keep max_depth ((depth, node) # stack) included =
     (case (if matches node then keep node included else Some included) of
        None \<Rightarrow> None
      | Some included \<Rightarrow>
          match_loop children matches keep max_depth
            ((if depth < max_depth then rev (map (Pair (depth + 1)) (children node)) else []) @ stack) included)"
  by pat_completeness auto
termination
  by (relation "inv_image stack_order (\<lambda>(_, _, _, max_depth, stack, _). (max_depth, stack))")
    (simp_all add: wf_stack_order stack_steps split del: if_split)

definition contextual_semantic_matches ::
    "TerminalProfileIndex \<Rightarrow> int option \<Rightarrow> nat \<Rightarrow> string \<Rightarrow> int set option" where
  "contextual_semantic_matches index selected_id max_depth pat =
     (let first_depth = (if selected_id = None then 0 else 1) in
      if max_depth < first_depth then Some {}
      else match_loop (\<lambda>semantic. ti_semantic_children index (Some (sm_semantic_id semantic)))
             (\<lambda>semantic. semantic_matches semantic pat)
             (\<lambda>semantic. keep_ancestors
                (\<lambda>k. case ti_semantics index k of None \<Rightarrow> None | Some s \<Rightarrow> sm_parent_semantic_id s)
                selected_id (sm_semantic_id semantic))
             max_depth (rev (map (Pair first_depth) (ti_semantic_children index selected_id))) {})"

definition contextual_function_matches ::
    "TerminalProfileIndex \<Rightarrow> int \<Rightarrow> int \<Rightarrow> nat \<Rightarrow> string \<Rightarrow> int set option" where
  "contextual_function_matches index semantic_id selected_id max_depth pat =
     (if max_depth = 0 then Some {}
      else match_loop (\<lambda>function. ti_function_children index (semantic_id, Some (fn_function_id function)))
             (\<lambda>function. function_matches index function pat)
             (\<lambda>function. keep_ancestors (\<lambda>k. parent_in (ti_function_parents index) (semantic_id, k))
                (Some selected_id) (fn_function_id function))
             max_depth (rev (map (Pair 1) (ti_function_children index (semantic_id, Some selected_id)))) {})"

subsection \<open>Rows\<close>

definition compare_semantics :: "InspectSort \<Rightarrow> RankedSemantic \<Rightarrow> RankedSemantic \<Rightarrow> Ordering" where
  "compare_semantics order left right =
     then_with
       (case order of
          ByDuration \<Rightarrow>
            (case (sm_duration_ns left, sm_duration_ns right) of
               (Some l, Some r) \<Rightarrow> cmp r l
             | (Some _, None) \<Rightarrow> Less
             | (None, Some _) \<Rightarrow> Greater
             | (None, None) \<Rightarrow> Equal)
        | ByInclusiveCpu \<Rightarrow> cmp (sm_inclusive_sample_count right) (sm_inclusive_sample_count left)
        | BySelfCpu \<Rightarrow> cmp (sm_direct_sample_count right) (sm_direct_sample_count left)
        | ByName \<Rightarrow> cmp (semantic_display_name left) (semantic_display_name right))
       (cmp (sm_semantic_id left) (sm_semantic_id right))"

definition compare_functions ::
    "TerminalProfileIndex \<Rightarrow> InspectSort \<Rightarrow> RankedFunction \<Rightarrow> RankedFunction \<Rightarrow> Ordering" where
  "compare_functions index order left right =
     then_with
       (case order of
          BySelfCpu \<Rightarrow> cmp (fn_self_sample_count right) (fn_self_sample_count left)
        | ByName \<Rightarrow> cmp (function_name index left) (function_name index right)
        | _ \<Rightarrow> cmp (fn_inclusive_sample_count right) (fn_inclusive_sample_count left))
       (then_with (cmp (fn_semantic_id left) (fn_semantic_id right))
          (cmp (fn_function_id left) (fn_function_id right)))"

definition sorted_siblings :: "TerminalProfileIndex \<Rightarrow> InspectSort \<Rightarrow> int option \<Rightarrow> RankedSemantic list" where
  "sorted_siblings index order parent = sort_by (compare_semantics order) (ti_semantic_children index parent)"

definition sorted_function_siblings ::
    "TerminalProfileIndex \<Rightarrow> InspectSort \<Rightarrow> int \<Rightarrow> int option \<Rightarrow> RankedFunction list" where
  "sorted_function_siblings index order semantic_id parent =
     sort_by (compare_functions index order) (ti_function_children index (semantic_id, parent))"

function collect_loop ::
    "('a \<Rightarrow> 'a list) \<Rightarrow> ('a \<Rightarrow> bool) \<Rightarrow> nat \<Rightarrow> nat \<Rightarrow> (nat \<times> 'a) list \<Rightarrow> nat \<Rightarrow> (nat \<times> 'a) list
       \<Rightarrow> nat \<times> (nat \<times> 'a) list" where
  "collect_loop children included max_depth limit [] total_count rows = (total_count, rows)"
| "collect_loop children included max_depth limit ((depth, node) # stack) total_count rows =
     (let (total_count, rows) =
            (if included node
             then (total_count + 1, if length rows < limit then rows @ [(depth, node)] else rows)
             else (total_count, rows))
      in collect_loop children included max_depth limit
           ((if depth < max_depth then map (Pair (depth + 1)) (children node) else []) @ stack) total_count rows)"
  by pat_completeness auto
termination
  by (relation "inv_image stack_order (\<lambda>(_, _, max_depth, _, stack, _, _). (max_depth, stack))")
    (simp_all add: wf_stack_order stack_steps split del: if_split)

definition shown :: "'k set option \<Rightarrow> 'k \<Rightarrow> bool" where
  "shown included k \<longleftrightarrow> (case included of None \<Rightarrow> True | Some ks \<Rightarrow> k \<in> ks)"

definition collect_semantic_rows ::
    "TerminalProfileIndex \<Rightarrow> int option \<Rightarrow> nat \<Rightarrow> nat \<Rightarrow> nat \<Rightarrow> InspectSort \<Rightarrow> int set option
       \<Rightarrow> nat \<times> (nat \<times> RankedSemantic) list" where
  "collect_semantic_rows index parent first_depth max_depth limit order included =
     (if max_depth < first_depth then (0, [])
      else collect_loop (\<lambda>semantic. sorted_siblings index order (Some (sm_semantic_id semantic)))
             (\<lambda>semantic. shown included (sm_semantic_id semantic)) max_depth limit
             (map (Pair first_depth) (sorted_siblings index order parent)) 0 [])"

definition collect_function_rows ::
    "TerminalProfileIndex \<Rightarrow> int \<times> int option \<Rightarrow> nat \<Rightarrow> nat \<Rightarrow> nat \<Rightarrow> InspectSort \<Rightarrow> int set option
       \<Rightarrow> nat \<times> (nat \<times> RankedFunction) list" where
  "collect_function_rows index parent first_depth max_depth limit order included =
     (case parent of (semantic_id, parent_function_id) \<Rightarrow>
      if max_depth < first_depth then (0, [])
      else collect_loop (\<lambda>function. sorted_function_siblings index order semantic_id (Some (fn_function_id function)))
             (\<lambda>function. shown included (fn_function_id function)) max_depth limit
             (map (Pair first_depth) (sorted_function_siblings index order semantic_id parent_function_id)) 0 [])"

subsection \<open>Text\<close>

definition is_unsafe_terminal_character :: "char \<Rightarrow> bool" where
  "is_unsafe_terminal_character c \<longleftrightarrow> code c < 32 \<or> 127 \<le> code c \<and> code c < 160"

definition upper_hex :: "nat \<Rightarrow> string" where
  "upper_hex n = map (\<lambda>c. if 97 \<le> code c then char_of (code c - 32) else c) (show_hex n)"

definition terminal_text :: "string \<Rightarrow> string" where
  "terminal_text s =
     concat (map (\<lambda>c.
       if c = CHR 0x5C then [CHR 0x5C, CHR 0x5C]
       else if c = CHR 0x22 then [CHR 0x5C, CHR 0x22]
       else if is_unsafe_terminal_character c then CHR 0x5C # ''u{'' @ upper_hex (code c) @ ''}''
       else [c]) s)"

definition quoted_terminal_text :: "string \<Rightarrow> string" where
  "quoted_terminal_text s = CHR 0x22 # terminal_text s @ [CHR 0x22]"

definition filter_label :: "string option \<Rightarrow> string" where
  "filter_label pat = (case pat of None \<Rightarrow> ''none'' | Some s \<Rightarrow> quoted_terminal_text s)"

definition show_bool :: "bool \<Rightarrow> string" where
  "show_bool b = (if b then ''true'' else ''false'')"

definition line_of :: "string \<Rightarrow> string \<Rightarrow> string" where
  "line_of label s = label @ '': '' @ s @ [CHR 0x0A]"

definition sample_percent :: "(int \<Rightarrow> int \<Rightarrow> string) \<Rightarrow> int \<Rightarrow> int \<Rightarrow> string" where
  "sample_percent pct sample_count context_sample_count =
     (if 0 < context_sample_count then pct sample_count context_sample_count else ''n/a'')"

definition capture_health_header :: "RankedProfileMetadata \<Rightarrow> string" where
  "capture_health_header metadata =
     (if rm_capture_complete metadata \<and> rm_semantic_complete metadata \<and> rm_finalization_observed metadata \<and>
         list_all (\<lambda>n. n = 0)
           [rm_incomplete_operation_root_count metadata, rm_truncation_marker_count metadata,
            rm_missing_identity_field_count metadata, rm_missing_terminal_result_count metadata,
            rm_crossing_worker_slice_count metadata, rm_crossing_planning_activity_slice_count metadata,
            rm_crossing_execution_activity_slice_count metadata,
            rm_invalid_planning_activity_hierarchy_count metadata,
            rm_invalid_execution_activity_hierarchy_count metadata, rm_buffer_loss_count metadata,
            rm_data_source_loss_count metadata, rm_flush_failure_count metadata]
      then []
      else
        line_of ''capture_complete'' (show_bool (rm_capture_complete metadata))
        @ line_of ''semantic_complete'' (show_bool (rm_semantic_complete metadata))
        @ line_of ''finalization_observed'' (show_bool (rm_finalization_observed metadata))
        @ line_of ''incomplete_operation_root_count'' (show_int (rm_incomplete_operation_root_count metadata))
        @ line_of ''truncation_marker_count'' (show_int (rm_truncation_marker_count metadata))
        @ line_of ''missing_identity_field_count'' (show_int (rm_missing_identity_field_count metadata))
        @ line_of ''missing_terminal_result_count'' (show_int (rm_missing_terminal_result_count metadata))
        @ line_of ''crossing_worker_slice_count'' (show_int (rm_crossing_worker_slice_count metadata))
        @ line_of ''crossing_planning_activity_slice_count'' (show_int (rm_crossing_planning_activity_slice_count metadata))
        @ line_of ''crossing_execution_activity_slice_count'' (show_int (rm_crossing_execution_activity_slice_count metadata))
        @ line_of ''invalid_planning_activity_hierarchy_count'' (show_int (rm_invalid_planning_activity_hierarchy_count metadata))
        @ line_of ''invalid_execution_activity_hierarchy_count'' (show_int (rm_invalid_execution_activity_hierarchy_count metadata))
        @ line_of ''perf_sample_without_callsite_count'' (show_int (rm_perf_sample_without_callsite_count metadata))
        @ line_of ''perf_samples_skipped'' (show_int (rm_perf_samples_skipped metadata))
        @ line_of ''buffer_loss_count'' (show_int (rm_buffer_loss_count metadata))
        @ line_of ''data_source_loss_count'' (show_int (rm_data_source_loss_count metadata))
        @ line_of ''flush_failure_count'' (show_int (rm_flush_failure_count metadata)))"

definition optional_text :: "string option \<Rightarrow> string" where
  "optional_text s = (case s of None \<Rightarrow> ''null'' | Some s \<Rightarrow> quoted_terminal_text s)"

definition write_function_row ::
    "(int \<Rightarrow> int \<Rightarrow> string) \<Rightarrow> nat \<Rightarrow> TerminalProfileIndex \<Rightarrow> RankedFunction \<Rightarrow> int \<Rightarrow> string" where
  "write_function_row pct depth index function context_sample_count =
     ''function depth='' @ show_nat depth @ '' id=function:'' @ show_int (fn_semantic_id function) @ '':''
     @ show_int (fn_function_id function) @ '' symbol='' @ quoted_terminal_text (function_name index function)
     @ '' module='' @ optional_text (fn_module_name function) @ '' source='' @ optional_text (fn_source_file function)
     @ '' line='' @ (case fn_line_number function of None \<Rightarrow> ''null'' | Some n \<Rightarrow> show_int n)
     @ '' inclusive_cpu_samples='' @ show_int (fn_inclusive_sample_count function)
     @ '' inclusive_context_percent='' @ sample_percent pct (fn_inclusive_sample_count function) context_sample_count
     @ '' self_cpu_samples='' @ show_int (fn_self_sample_count function)
     @ '' self_context_percent='' @ sample_percent pct (fn_self_sample_count function) context_sample_count
     @ [CHR 0x0A]"

definition write_semantic_row ::
    "(int \<Rightarrow> int \<Rightarrow> string) \<Rightarrow> nat \<Rightarrow> RankedSemantic \<Rightarrow> int option \<Rightarrow> string" where
  "write_semantic_row pct depth semantic operation_duration_ns =
     ''semantic depth='' @ show_nat depth @ '' id=semantic:'' @ show_int (sm_semantic_id semantic)
     @ '' name='' @ quoted_terminal_text (semantic_display_name semantic)
     @ '' kind='' @ quoted_terminal_text (sm_semantic_kind semantic)
     @ '' duration_ns='' @ (case sm_duration_ns semantic of None \<Rightarrow> ''n/a'' | Some n \<Rightarrow> show_int n)
     @ '' time_basis=exact:'' @ terminal_text (sm_time_semantics semantic)
     @ '' operation_wall_percent=''
     @ (case (sm_duration_ns semantic, operation_duration_ns) of
          (Some duration, Some operation_duration) \<Rightarrow>
            if 0 < operation_duration then pct duration operation_duration else ''n/a''
        | _ \<Rightarrow> ''n/a'')
     @ '' complete='' @ show_bool (sm_is_complete semantic) @ '' result='' @ optional_text (sm_result semantic)
     @ '' direct_cpu_samples='' @ show_int (sm_direct_sample_count semantic)
     @ '' inclusive_cpu_samples='' @ show_int (sm_inclusive_sample_count semantic)
     @ '' native_stack_samples_captured=''
     @ show_int (sm_resolved_function_sample_count semantic + sm_unresolved_function_sample_count semantic)
     @ '' native_leaf_symbols_resolved='' @ show_int (sm_resolved_function_sample_count semantic)
     @ '' native_leaf_symbols_unresolved='' @ show_int (sm_unresolved_function_sample_count semantic)
     @ '' native_unwind_failures='' @ show_int (sm_unwind_error_sample_count semantic)
     @ '' native_callstacks_missing='' @ show_int (sm_missing_callstack_sample_count semantic)
     @ [CHR 0x0A]"

text \<open>The lines both views have before and after their own.\<close>

definition view_head ::
    "TerminalProfileIndex \<Rightarrow> string \<Rightarrow> InspectSort \<Rightarrow> string option \<Rightarrow> nat \<Rightarrow> nat \<Rightarrow> nat \<Rightarrow> string" where
  "view_head index context_label order pat max_depth shown_count total_count =
     line_of ''view'' ''ranked-profile'' @ line_of ''context'' context_label
     @ capture_health_header (rd_metadata (ti_document index))
     @ line_of ''sort'' (InspectSort_as_str order) @ line_of ''filter'' (filter_label pat)
     @ line_of ''depth'' (show_nat max_depth)
     @ line_of ''showing'' (show_nat shown_count @ '' of '' @ show_nat total_count @ ''; truncated: ''
         @ show_bool (shown_count < total_count))"

definition view_samples :: "TerminalProfileIndex \<Rightarrow> string" where
  "view_samples index =
     (let metadata = rd_metadata (ti_document index) in
      line_of ''sample_unit'' (terminal_text (rm_sample_unit metadata))
      @ line_of ''symbol_format'' (if ti_full_symbols index then ''full'' else ''compact'')
      @ line_of ''frame_view'' (if ti_all_frames index then ''all'' else ''compact'')
      @ line_of ''sampled_cpu_count'' (show_int (rm_sampled_cpu_count metadata))
      @ line_of ''native_stack_samples_captured''
          (show_int (rm_resolved_function_sample_count metadata + rm_unresolved_function_sample_count metadata))
      @ line_of ''native_leaf_symbols_resolved'' (show_int (rm_resolved_function_sample_count metadata))
      @ line_of ''native_leaf_symbols_unresolved'' (show_int (rm_unresolved_function_sample_count metadata))
      @ line_of ''native_unwind_failures'' (show_int (rm_unwind_error_sample_count metadata))
      @ line_of ''native_callstacks_missing'' (show_int (rm_missing_callstack_sample_count metadata))
      @ line_of ''trace_profiler_samples_dropped'' (show_int (rm_trace_profiler_dropped_sample_count metadata)))"

subsection \<open>Views\<close>

type_synonym view = "(TerminalInspectError + string) option"

definition semantic_view_rows ::
    "TerminalProfileIndex \<Rightarrow> int option \<Rightarrow> RankedSemantic option \<Rightarrow> InspectSort \<Rightarrow> string option \<Rightarrow> nat \<Rightarrow> nat
       \<Rightarrow> int set option \<Rightarrow> (nat \<times> (nat \<times> RankedSemantic) list) \<times> (nat \<times> RankedFunction list)" where
  "semantic_view_rows index selected_semantic_id selected order pat limit max_depth included =
     (let function_roots = sort_by (compare_functions index (for_functions order))
            (case selected of
               None \<Rightarrow> []
             | Some semantic \<Rightarrow>
                 if 0 < max_depth then
                   filter (\<lambda>function. case pat of None \<Rightarrow> True | Some pat \<Rightarrow> function_matches index function pat)
                     (ti_function_children index (sm_semantic_id semantic, None))
                 else []);
          function_total = length function_roots;
          (semantic_total, semantic_rows) =
            collect_semantic_rows index selected_semantic_id (if selected_semantic_id = None then 0 else 1)
              max_depth (limit - (if 0 < function_total then 1 else 0)) order included
      in ((semantic_total, semantic_rows), (function_total, take (limit - length semantic_rows) function_roots)))"

definition semantic_view_text ::
    "(int \<Rightarrow> int \<Rightarrow> string) \<Rightarrow> TerminalProfileIndex \<Rightarrow> int option \<Rightarrow> RankedSemantic option \<Rightarrow> InspectSort
       \<Rightarrow> string option \<Rightarrow> nat \<Rightarrow> nat \<Rightarrow> int set option \<Rightarrow> string" where
  "semantic_view_text pct index selected_semantic_id selected order pat limit max_depth included =
     (let ((semantic_total, semantic_rows), (function_total, function_rows)) =
            semantic_view_rows index selected_semantic_id selected order pat limit max_depth included
      in view_head index
           (case selected_semantic_id of None \<Rightarrow> ''operation-roots'' | Some k \<Rightarrow> ''semantic:'' @ show_int k)
           order pat max_depth (length semantic_rows + length function_rows) (semantic_total + function_total)
         @ line_of ''time_unit'' (terminal_text (rm_exact_time_unit (rd_metadata (ti_document index))))
         @ view_samples index
         @ concat (map (\<lambda>(depth, semantic). write_semantic_row pct depth semantic
             (case ti_operation_durations index (sm_operation_id semantic) of Some d \<Rightarrow> d | None \<Rightarrow> None))
             semantic_rows)
         @ (case selected of
              None \<Rightarrow> []
            | Some semantic \<Rightarrow>
                ''transition: semantic:'' @ show_int (sm_semantic_id semantic) @ '' -> function-roots; sort: ''
                @ InspectSort_as_str (for_functions order) @ ''; showing: '' @ show_nat (length function_rows)
                @ '' of '' @ show_nat function_total @ ''; truncated: ''
                @ show_bool (length function_rows < function_total) @ ''; sample_basis: sampled-cpu'' @ [CHR 0x0A]
                @ concat (map (\<lambda>function.
                    write_function_row pct 1 index function (sm_direct_sample_count semantic)) function_rows)))"

definition matched_filter :: "string option \<Rightarrow> (string \<Rightarrow> 'k set option) \<Rightarrow> 'k set option option" where
  "matched_filter pat matches = (case pat of None \<Rightarrow> Some None | Some s \<Rightarrow> map_option Some (matches s))"

definition render_semantic_view ::
    "(int \<Rightarrow> int \<Rightarrow> string) \<Rightarrow> TerminalProfileIndex \<Rightarrow> int option \<Rightarrow> InspectSort \<Rightarrow> string option \<Rightarrow> nat \<Rightarrow> nat
       \<Rightarrow> view" where
  "render_semantic_view pct index selected_semantic_id order pat limit max_depth =
     (case (case selected_semantic_id of
              None \<Rightarrow> Inr None
            | Some k \<Rightarrow> (case ti_semantics index k of
                None \<Rightarrow> Inl (SemanticNotFound k) | Some semantic \<Rightarrow> Inr (Some semantic))) of
        Inl e \<Rightarrow> Some (Inl e)
      | Inr selected \<Rightarrow>
          map_option (\<lambda>included. Inr (semantic_view_text pct index selected_semantic_id selected order pat limit
              max_depth included))
            (matched_filter pat (contextual_semantic_matches index selected_semantic_id max_depth)))"

definition render_function_view ::
    "(int \<Rightarrow> int \<Rightarrow> string) \<Rightarrow> TerminalProfileIndex \<Rightarrow> int \<Rightarrow> int \<Rightarrow> InspectSort \<Rightarrow> string option \<Rightarrow> nat \<Rightarrow> nat
       \<Rightarrow> view" where
  "render_function_view pct index semantic_id function_id order pat limit max_depth =
     (case ti_functions index (semantic_id, function_id) of
        None \<Rightarrow> Some (Inl (FunctionNotFound semantic_id function_id))
      | Some selected \<Rightarrow>
          map_option (\<lambda>included.
              let (total_count, rows) = collect_function_rows index (semantic_id, Some function_id) 1 max_depth
                    limit order included
              in Inr (view_head index (''function:'' @ show_int semantic_id @ '':'' @ show_int function_id) order pat
                        max_depth (length rows) total_count
                      @ view_samples index @ line_of ''metric_basis'' ''sampled-cpu; exact_wall_time: not-applicable''
                      @ concat (map (\<lambda>(depth, function).
                          write_function_row pct depth index function (fn_inclusive_sample_count selected)) rows)))
            (matched_filter pat (contextual_function_matches index semantic_id function_id max_depth)))"

definition render_view ::
    "(int \<Rightarrow> int \<Rightarrow> string) \<Rightarrow> TerminalProfileIndex \<Rightarrow> InspectSelection \<Rightarrow> InspectSort \<Rightarrow> string option \<Rightarrow> nat \<Rightarrow> nat
       \<Rightarrow> view" where
  "render_view pct index selection order pat limit max_depth =
     (case selection of
        RootSelection \<Rightarrow> render_semantic_view pct index None order pat limit max_depth
      | SemanticSelection semantic_id \<Rightarrow> render_semantic_view pct index (Some semantic_id) order pat limit max_depth
      | FunctionSelection semantic_id function_id \<Rightarrow>
          render_function_view pct index semantic_id function_id order pat limit max_depth)"

subsection \<open>Moves are undone by going up\<close>

lemma open_semantic_up:
  "open_semantic index selection semantic_id = Inr target \<Longrightarrow> select_up index target = Inr selection"
  by (auto simp: open_semantic_def select_up_def Let_def split: InspectSelection.splits if_splits option.splits)

lemma open_function_up:
  "open_function index selection semantic_id function_id = Inr target \<Longrightarrow> select_up index target = Inr selection"
  by (auto simp: open_function_def select_up_def Let_def split: InspectSelection.splits if_splits)

subsection \<open>Rows are a depth-first listing\<close>

fun preorder :: "('a \<Rightarrow> 'a list) \<Rightarrow> nat \<Rightarrow> nat \<Rightarrow> 'a \<Rightarrow> (nat \<times> 'a) list" where
  "preorder children 0 depth node = [(depth, node)]"
| "preorder children (Suc levels) depth node =
     (depth, node) # concat (map (preorder children levels (depth + 1)) (children node))"

definition listing :: "('a \<Rightarrow> 'a list) \<Rightarrow> nat \<Rightarrow> (nat \<times> 'a) list \<Rightarrow> (nat \<times> 'a) list" where
  "listing children max_depth stack =
     concat (map (\<lambda>(depth, node). preorder children (max_depth - depth) depth node) stack)"

lemma listing_Nil [simp]: "listing children max_depth [] = []"
  by (simp add: listing_def)

lemma listing_append: "listing children max_depth (xs @ ys) = listing children max_depth xs @ listing children max_depth ys"
  by (simp add: listing_def)

lemma listing_Cons:
  "listing children max_depth ((depth, node) # stack) =
     (depth, node) # listing children max_depth
       ((if depth < max_depth then map (Pair (depth + 1)) (children node) else []) @ stack)"
proof (cases "depth < max_depth")
  case True
  then obtain n where "max_depth - depth = Suc n" "max_depth - Suc depth = n" by (metis Suc_diff_Suc)
  with True show ?thesis by (simp add: listing_def comp_def)
qed (simp add: listing_def)

lemma collect_loop_listing:
  "collect_loop children included max_depth limit stack n rows =
     (let listed = filter (\<lambda>e. included (snd e)) (listing children max_depth stack)
      in (n + length listed, rows @ take (limit - length rows) listed))"
proof (induction children included max_depth limit stack n rows rule: collect_loop.induct)
  case (2 children included max_depth limit depth node stack n rows)
  let ?stack = "(if depth < max_depth then map (Pair (depth + 1)) (children node) else []) @ stack"
  let ?n = "if included node then n + 1 else n"
  let ?rows = "if included node \<and> length rows < limit then rows @ [(depth, node)] else rows"
  have step: "(if included node
         then (n + 1, if length rows < limit then rows @ [(depth, node)] else rows) else (n, rows)) = (?n, ?rows)"
    by simp
  from "2.IH" [OF refl step [symmetric]] step have "collect_loop children included max_depth limit ((depth, node) # stack) n rows =
      (let listed = filter (\<lambda>e. included (snd e)) (listing children max_depth ?stack)
       in (?n + length listed, ?rows @ take (limit - length ?rows) listed))"
    by (simp add: Let_def split del: if_split)
  moreover have "limit - Suc (length rows) = m" if "limit - length rows = Suc m" for m
    using that by simp
  ultimately show ?case
    by (cases "limit - length rows") (auto simp: listing_Cons Let_def)
qed simp

lemma collect_semantic_rows_listing:
  assumes "first_depth \<le> max_depth"
  shows "collect_semantic_rows index parent first_depth max_depth limit order included =
    (let listed = filter (\<lambda>e. shown included (sm_semantic_id (snd e)))
           (listing (\<lambda>s. sorted_siblings index order (Some (sm_semantic_id s))) max_depth
              (map (Pair first_depth) (sorted_siblings index order parent)))
     in (length listed, take limit listed))"
  using assms by (simp add: collect_semantic_rows_def collect_loop_listing)

lemma collect_function_rows_listing:
  assumes "first_depth \<le> max_depth"
  shows "collect_function_rows index (semantic_id, parent) first_depth max_depth limit order included =
    (let listed = filter (\<lambda>e. shown included (fn_function_id (snd e)))
           (listing (\<lambda>f. sorted_function_siblings index order semantic_id (Some (fn_function_id f))) max_depth
              (map (Pair first_depth) (sorted_function_siblings index order semantic_id parent)))
     in (length listed, take limit listed))"
  using assms by (simp add: collect_function_rows_def collect_loop_listing)

text \<open>The nodes of a listing are those reached over at most as many steps as there are levels.\<close>

lemma preorder_nodes:
  "e \<in> set (preorder children levels depth node) \<longleftrightarrow>
     (\<exists>k \<le> levels. fst e = depth + k \<and> (node, snd e) \<in> {(x, y). y \<in> set (children x)} ^^ k)"
proof (induction levels arbitrary: depth node)
  case 0
  show ?case by (cases e) auto
next
  case (Suc levels)
  let ?R = "{(x, y). y \<in> set (children x)}"
  have "e \<in> set (preorder children (Suc levels) depth node) \<longleftrightarrow>
      e = (depth, node) \<or> (\<exists>y \<in> set (children node). e \<in> set (preorder children levels (Suc depth) y))"
    by auto
  also have "\<dots> \<longleftrightarrow> e = (depth, node) \<or>
      (\<exists>k \<le> levels. fst e = Suc depth + k \<and> (node, snd e) \<in> ?R ^^ Suc k)"
    unfolding Suc.IH relpow_commute [symmetric] relpow.simps(2) by (auto simp: relcomp_unfold relpow_commute) 
  also have "\<dots> \<longleftrightarrow> (\<exists>k \<le> Suc levels. fst e = depth + k \<and> (node, snd e) \<in> ?R ^^ k)"
  proof
    assume "\<exists>k \<le> Suc levels. fst e = depth + k \<and> (node, snd e) \<in> ?R ^^ k"
    then obtain k where k: "k \<le> Suc levels" "fst e = depth + k" "(node, snd e) \<in> ?R ^^ k" by blast
    then show "e = (depth, node) \<or> (\<exists>k \<le> levels. fst e = Suc depth + k \<and> (node, snd e) \<in> ?R ^^ Suc k)"
      by (cases k) (auto simp: prod_eq_iff simp del: relpow.simps(2))
  qed (auto simp del: relpow.simps(2) intro: exI [of _ 0] exI [of _ "Suc _"])
  finally show ?case .
qed

end
