(* ===== verification/DF_Terminal_Index.thy ===== *)
theory DF_Terminal_Index
  imports DF_Terminal_Report
begin

section \<open>The index of a well-structured profile\<close>

text \<open>
  What the index holds, that every walk over it ends, and that a selection that exists is always shown.
\<close>

lemma fold_index_semantic:
  "let result = fold index_semantic semantics index in
     ti_semantics result = ti_semantics index ++ map_of (rev (map (\<lambda>s. (sm_semantic_id s, s)) semantics)) \<and>
     ti_semantic_children result =
       (\<lambda>p. ti_semantic_children index p @ filter (\<lambda>s. sm_parent_semantic_id s = p) semantics) \<and>
     ti_functions result = ti_functions index \<and> ti_function_parents result = ti_function_parents index \<and>
     ti_function_children result = ti_function_children index \<and> ti_all_frames result = ti_all_frames index"
proof (induction semantics arbitrary: index)
  case (Cons s semantics)
  from Cons [of "index_semantic s index"] show ?case
    by (auto simp: Let_def index_semantic_def map_add_def fun_eq_iff split: option.splits)
qed (simp add: Let_def)

definition listed_parent :: "bool \<Rightarrow> CompactFunctionTree \<Rightarrow> RankedFunction \<Rightarrow> int option" where
  "listed_parent all_frames tree function =
     (if all_frames then fn_parent_function_id function else tree_parent_function_id tree function)"

definition listed_functions :: "bool \<Rightarrow> CompactFunctionTree \<Rightarrow> RankedFunction list \<Rightarrow> RankedFunction list" where
  "listed_functions all_frames tree functions = filter (\<lambda>f. all_frames \<or> tree_contains tree f) functions"

lemma fold_index_function:
  "let result = fold (index_function tree) fs index;
       listed = listed_functions (ti_all_frames index) tree fs;
       parent = listed_parent (ti_all_frames index) tree in
     ti_semantics result = ti_semantics index \<and> ti_semantic_children result = ti_semantic_children index \<and>
     ti_functions result = ti_functions index ++ map_of (rev (map (\<lambda>f. (fn_identity f, f)) listed)) \<and>
     ti_function_parents result = ti_function_parents index ++
       map_of (rev (map (\<lambda>f. (fn_identity f, parent f)) listed)) \<and>
     ti_function_children result = (\<lambda>k. ti_function_children index k @
       filter (\<lambda>f. (fn_semantic_id f, parent f) = k) listed) \<and>
     ti_all_frames result = ti_all_frames index"
proof (induction fs arbitrary: index)
  case (Cons f fs)
  have frames: "ti_all_frames (index_function tree f index) = ti_all_frames index"
    by (simp add: index_function_def index_name_def Let_def)
  from Cons [of "index_function tree f index"] show ?case
    unfolding frames
    by (auto simp: Let_def index_function_def index_name_def listed_parent_def listed_functions_def
        map_add_def fun_eq_iff split: option.splits)
qed (simp add: Let_def listed_functions_def)

text \<open>
  \<open>index_ok\<close>: identities are the keys, every parent is in the index, the owner of a function too, and
  there are no cycles.
\<close>

definition semantic_parent_in :: "TerminalProfileIndex \<Rightarrow> int \<Rightarrow> int option" where
  "semantic_parent_in index k =
     (case ti_semantics index k of None \<Rightarrow> None | Some s \<Rightarrow> sm_parent_semantic_id s)"

definition index_ok :: "TerminalProfileIndex \<Rightarrow> bool" where
  "index_ok index \<longleftrightarrow>
     (\<forall>k s. ti_semantics index k = Some s \<longrightarrow> sm_semantic_id s = k) \<and>
     (\<forall>k p. semantic_parent_in index k = Some p \<longrightarrow> p \<in> dom (ti_semantics index)) \<and>
     wf {(p, k). semantic_parent_in index k = Some p} \<and>
     dom (ti_functions index) = dom (ti_function_parents index) \<and>
     fst ` dom (ti_functions index) \<subseteq> dom (ti_semantics index) \<and>
     (\<forall>s i j. ti_function_parents index (s, i) = Some (Some j) \<longrightarrow> (s, j) \<in> dom (ti_functions index)) \<and>
     (\<forall>s. wf {(j, i). ti_function_parents index (s, i) = Some (Some j)})"

lemma map_of_records:
  assumes "distinct (map key xs)"
  shows "map_of (rev (map (\<lambda>x. (key x, v x)) xs)) k = Some y \<longleftrightarrow> (\<exists>x \<in> set xs. key x = k \<and> v x = y)"
proof -
  have "distinct (map fst (rev (map (\<lambda>x. (key x, v x)) xs)))"
    using assms by (simp add: comp_def rev_map [symmetric])
  from map_of_eq_Some_iff [OF this] show ?thesis by auto
qed

lemma wf_parents:
  assumes "acyclic R" and "finite R" and "{(p, k). (f k, f p) \<in> R} = S"
  shows "wf S"
proof -
  have "wf (inv_image (R\<inverse>) f)" using assms(1,2) by (intro wf_inv_image finite_acyclic_wf_converse)
  moreover have "inv_image (R\<inverse>) f = S" using assms(3) by (auto simp: inv_image_def)
  ultimately show ?thesis by simp
qed

lemma function_up_closed:
  assumes shape: "well_structured document" and step: "(a, b) \<in> up (function_parents document)"
  shows "b \<in> fn_identity ` set (rd_functions document)"
proof -
  from shape have unique: "distinct (map fn_identity (rd_functions document))" by (simp add: well_structured_def)
  from step have "a \<in> fst ` set (function_parents document)" by (auto dest: parent_of_key)
  then obtain g where g: "g \<in> set (rd_functions document)" "a = fn_identity g" by (auto simp: function_parents_def)
  with step function_parent_of [OF unique g(1)] shape show ?thesis by (auto simp: well_structured_def)
qed

lemma compact_parent_kept:
  assumes shape: "well_structured document" and tree: "CompactFunctionTree_new (rd_functions document) = Some tree"
    and f: "f \<in> set (rd_functions document)" "tree_contains tree f"
    and parent: "tree_parent_function_id tree f = Some j"
  shows "(fn_semantic_id f, j) \<in> dom (ct_parents tree)"
    and "(fn_identity f, (fn_semantic_id f, j)) \<in> (up (function_parents document))\<^sup>+"
proof -
  let ?fs = "rd_functions document" and ?up = "up (function_parents document)"
  obtain tree' where tree': "CompactFunctionTree_new ?fs = Some tree'"
    "dom (ct_parents tree') = fn_identity ` set ?fs - collapsed_functions ?fs"
    "\<forall>f \<in> set ?fs. fn_identity f \<notin> collapsed_functions ?fs \<longrightarrow>
      nearest_kept (frame_parent_map ?fs) (collapsed_functions ?fs)
        (fn_semantic_id f) (fn_parent_function_id f) (tree_parent_function_id tree' f)"
    by (rule compact_tree [OF shape])
  with tree have dom: "dom (ct_parents tree) = fn_identity ` set ?fs - collapsed_functions ?fs"
    and nearest: "\<forall>f \<in> set ?fs. fn_identity f \<notin> collapsed_functions ?fs \<longrightarrow>
      nearest_kept (frame_parent_map ?fs) (collapsed_functions ?fs)
        (fn_semantic_id f) (fn_parent_function_id f) (tree_parent_function_id tree f)" by simp_all
  from f dom have kept: "fn_identity f \<notin> collapsed_functions ?fs" by (auto simp: tree_contains_def)
  with compact_up_iff [OF dom f(1)] parent have "(fn_identity f, (fn_semantic_id f, j)) \<in> compact_up tree" by simp
  with compact_up_subset [OF shape dom nearest [rule_format]]
  show reach: "(fn_identity f, (fn_semantic_id f, j)) \<in> ?up\<^sup>+" by blast
  from nearest f kept parent have walk: "nearest_kept (frame_parent_map ?fs) (collapsed_functions ?fs)
      (fn_semantic_id f) (fn_parent_function_id f) (Some j)" by fastforce
  then obtain p where p: "fn_parent_function_id f = Some p"
    by (cases "fn_parent_function_id f") (auto elim: nearest_kept_NoneE)
  from nearest_kept_path [OF walk p refl, of UNIV]
  have "(fn_semantic_id f, j) \<notin> collapsed_functions ?fs" by simp
  moreover from reach function_up_closed [OF shape]
  have "(fn_semantic_id f, j) \<in> fn_identity ` set ?fs" by (meson tranclD2)
  ultimately show "(fn_semantic_id f, j) \<in> dom (ct_parents tree)" using dom by simp
qed

lemma compact_dom:
  assumes "well_structured document" and "CompactFunctionTree_new (rd_functions document) = Some tree"
  shows "dom (ct_parents tree) \<subseteq> fn_identity ` set (rd_functions document)"
  by (rule compact_tree [OF assms(1)]) (use assms(2) in auto)

lemma listed_closed:
  assumes shape: "well_structured document" and tree: "CompactFunctionTree_new (rd_functions document) = Some tree"
    and f: "f \<in> set (listed_functions all_frames tree (rd_functions document))"
    and parent: "listed_parent all_frames tree f = Some j"
  shows "(fn_semantic_id f, j) \<in> fn_identity ` set (listed_functions all_frames tree (rd_functions document)) \<and>
    (fn_identity f, (fn_semantic_id f, j)) \<in> (up (function_parents document))\<^sup>+"
proof (cases all_frames)
  case True
  from shape have unique: "distinct (map fn_identity (rd_functions document))" by (simp add: well_structured_def)
  from True f parent have g: "fn_parent_function_id f = Some j" "f \<in> set (rd_functions document)"
    by (auto simp: listed_parent_def listed_functions_def)
  with function_parent_of [OF unique g(2)]
  have "(fn_identity f, (fn_semantic_id f, j)) \<in> up (function_parents document)" by simp
  with function_up_closed [OF shape this] True show ?thesis by (auto simp: listed_functions_def)
next
  case False
  with f parent have g: "f \<in> set (rd_functions document)" "tree_contains tree f"
    "tree_parent_function_id tree f = Some j"
    by (auto simp: listed_parent_def listed_functions_def)
  note kept = compact_parent_kept [OF shape tree g]
  with compact_dom [OF shape tree] obtain h where "h \<in> set (rd_functions document)"
    "(fn_semantic_id f, j) = fn_identity h" by blast
  with kept False show ?thesis by (auto simp: listed_functions_def tree_contains_def)
qed

lemma terminal_index_tables:
  assumes shape: "well_structured document" and tree: "CompactFunctionTree_new (rd_functions document) = Some tree"
  obtains index where "TerminalProfileIndex_new document full_symbols all_frames = Some index"
    and "\<forall>k s. ti_semantics index k = Some s \<longleftrightarrow> s \<in> set (rd_semantics document) \<and> sm_semantic_id s = k"
    and "\<forall>k f. ti_functions index k = Some f \<longleftrightarrow>
      f \<in> set (listed_functions all_frames tree (rd_functions document)) \<and> fn_identity f = k"
    and "\<forall>k p. ti_function_parents index k = Some p \<longleftrightarrow>
      (\<exists>f \<in> set (listed_functions all_frames tree (rd_functions document)).
         fn_identity f = k \<and> listed_parent all_frames tree f = p)"
proof -
  let ?fs = "rd_functions document" and ?ss = "rd_semantics document"
  let ?empty = "empty_index document full_symbols all_frames"
  let ?listed = "listed_functions all_frames tree ?fs" and ?parent = "listed_parent all_frames tree"
  from shape have unique: "distinct (map sm_semantic_id ?ss)" "distinct (map fn_identity ?listed)"
    by (auto simp: well_structured_def listed_functions_def distinct_map intro: inj_on_subset)
  let ?index = "fold (index_function tree) ?fs (fold index_semantic ?ss ?empty)"
  have index: "TerminalProfileIndex_new document full_symbols all_frames = Some ?index"
    using tree by (simp add: TerminalProfileIndex_new_def)
  have tables: "ti_semantics ?index = map_of (rev (map (\<lambda>s. (sm_semantic_id s, s)) ?ss))"
    "ti_functions ?index = map_of (rev (map (\<lambda>f. (fn_identity f, f)) ?listed))"
    "ti_function_parents ?index = map_of (rev (map (\<lambda>f. (fn_identity f, ?parent f)) ?listed))"
    using fold_index_semantic [of ?ss ?empty] fold_index_function [of tree ?fs "fold index_semantic ?ss ?empty"]
    by (simp_all add: empty_index_def Let_def)
  show ?thesis
    by (rule that [OF index]) (auto simp: tables map_of_records [OF unique(1)] map_of_records [OF unique(2)])
qed

lemma dom_values:
  assumes "\<forall>k y. m k = Some y \<longleftrightarrow> (\<exists>x \<in> A. key x = k \<and> v x = y)"
  shows "dom m = key ` A"
proof (rule set_eqI)
  fix k
  have "k \<in> dom m \<longleftrightarrow> (\<exists>y. m k = Some y)" by (simp add: domIff)
  also have "\<dots> \<longleftrightarrow> (\<exists>x \<in> A. key x = k)" using assms by blast
  also have "\<dots> \<longleftrightarrow> k \<in> key ` A" by blast
  finally show "k \<in> dom m \<longleftrightarrow> k \<in> key ` A" .
qed

lemma dom_records: "\<forall>k x. m k = Some x \<longleftrightarrow> x \<in> A \<and> key x = k \<Longrightarrow> dom m = key ` A"
  by (rule dom_values [where v = "\<lambda>x. x"]) blast

lemma semantic_parent_of:
  assumes "distinct (map sm_semantic_id (rd_semantics document))" and "s \<in> set (rd_semantics document)"
  shows "parent_of (semantic_parents document) (sm_semantic_id s) = sm_parent_semantic_id s"
proof -
  have "map_of (semantic_parents document) (sm_semantic_id s) = Some (sm_parent_semantic_id s)"
    using assms unfolding semantic_parents_def by (intro map_of_is_SomeI) (auto simp: comp_def)
  then show ?thesis by (simp add: parent_of_def split: option.split)
qed

lemma terminal_index_ok:
  assumes shape: "well_structured document"
  obtains index where "TerminalProfileIndex_new document full_symbols all_frames = Some index" and "index_ok index"
    and "dom (ti_semantics index) = sm_semantic_id ` set (rd_semantics document)"
proof -
  obtain tree where tree: "CompactFunctionTree_new (rd_functions document) = Some tree"
    by (rule compact_tree [OF shape])
  let ?listed = "listed_functions all_frames tree (rd_functions document)"
  obtain index where index: "TerminalProfileIndex_new document full_symbols all_frames = Some index"
    and semantics: "\<forall>k s. ti_semantics index k = Some s \<longleftrightarrow> s \<in> set (rd_semantics document) \<and> sm_semantic_id s = k"
    and fs: "\<forall>k f. ti_functions index k = Some f \<longleftrightarrow> f \<in> set ?listed \<and> fn_identity f = k"
    and parents: "\<forall>k p. ti_function_parents index k = Some p \<longleftrightarrow>
      (\<exists>f \<in> set ?listed. fn_identity f = k \<and> listed_parent all_frames tree f = p)"
    by (rule terminal_index_tables [OF shape tree])
  have up: "(k, p) \<in> up (semantic_parents document) \<and> p \<in> sm_semantic_id ` set (rd_semantics document)"
    if parent: "semantic_parent_in index k = Some p" for k p
  proof -
    from parent semantics obtain s where s: "s \<in> set (rd_semantics document)" "sm_semantic_id s = k"
      "sm_parent_semantic_id s = Some p"
      by (auto simp: semantic_parent_in_def split: option.splits)
    with semantic_parent_of [OF _ s(1)] shape show ?thesis by (auto simp: well_structured_def)
  qed
  note dom = dom_records [OF semantics] dom_records [OF fs] dom_values [OF parents]
  have frames: "((s, i), (s, j)) \<in> (up (function_parents document))\<^sup>+ \<and> (s, j) \<in> dom (ti_functions index)"
    if "ti_function_parents index (s, i) = Some (Some j)" for s i j
    using that parents listed_closed [OF shape tree] dom(2) by (fastforce simp: fn_identity_def)
  have "index_ok index"
    unfolding index_ok_def
  proof (intro conjI allI impI)
    show "wf {(p, k). semantic_parent_in index k = Some p}"
      by (rule wf_subset [of "(up (semantic_parents document))\<inverse>"])
        (use shape up in \<open>auto simp: well_structured_def intro: finite_acyclic_wf_converse\<close>)
    show "wf {(j, i). ti_function_parents index (s, i) = Some (Some j)}" for s
    proof (rule wf_subset)
      have "acyclic (up (function_parents document))" using shape by (simp add: well_structured_def)
      then show "wf (inv_image (((up (function_parents document))\<inverse>)\<^sup>+) (Pair s))"
        by (intro wf_inv_image wf_trancl finite_acyclic_wf_converse finite_up)
      show "{(j, i). ti_function_parents index (s, i) = Some (Some j)} \<subseteq>
          inv_image (((up (function_parents document))\<inverse>)\<^sup>+) (Pair s)"
        using frames by (auto simp: inv_image_def trancl_converse)
    qed
    show "fst ` dom (ti_functions index) \<subseteq> dom (ti_semantics index)"
      using shape unfolding dom by (fastforce simp: well_structured_def listed_functions_def fn_identity_def)
  qed (use semantics dom frames up shape in auto)
  with index dom(1) that show ?thesis by blast
qed

subsection \<open>What a filter keeps\<close>

definition kept_ancestors :: "('k \<Rightarrow> 'k option) \<Rightarrow> 'k option \<Rightarrow> 'k \<Rightarrow> 'k set" where
  "kept_ancestors parent selected k =
     {a. Some a \<noteq> selected \<and> (k, a) \<in> {(x, y). Some x \<noteq> selected \<and> parent x = Some y}\<^sup>*}"

lemma kept_ancestors_unfold:
  "kept_ancestors parent selected k =
     (if Some k = selected then {}
      else insert k (case parent k of None \<Rightarrow> {} | Some p \<Rightarrow> kept_ancestors parent selected p))"
proof -
  let ?R = "{(x, y). Some x \<noteq> selected \<and> parent x = Some y}"
  have "(k, a) \<in> ?R\<^sup>* \<longleftrightarrow> a = k \<or> (\<exists>p. Some k \<noteq> selected \<and> parent k = Some p \<and> (p, a) \<in> ?R\<^sup>*)" for a
    by (auto elim: converse_rtranclE intro: converse_rtrancl_into_rtrancl)
  then show ?thesis by (auto simp: kept_ancestors_def split: option.split)
qed

lemma keep_ancestors_kept:
  assumes "wf {(p, k). parent k = Some p}"
  shows "keep_ancestors parent selected k included = Some (included \<union> kept_ancestors parent selected k)"
  using assms
proof (induction k arbitrary: included rule: wf_induct_rule)
  case (less k)
  show ?case
    by (subst keep_ancestors.simps, subst kept_ancestors_unfold) (auto simp: less.IH split: option.split)
qed

lemma match_loop_kept:
  assumes "\<And>node included. keep node included = Some (included \<union> kept node)"
  shows "match_loop children matches keep max_depth stack included =
    Some (included \<union> (\<Union>e \<in> set (listing (\<lambda>x. rev (children x)) max_depth stack).
            if matches (snd e) then kept (snd e) else {}))"
  using assms
proof (induction children matches keep max_depth stack included rule: match_loop.induct)
  case (1 children matches keep max_depth included)
  then show ?case by simp
next
  case (2 children matches keep max_depth depth node stack included)
  let ?included = "if matches node then included \<union> kept node else included"
  have step: "(if matches node then keep node included else Some included) = Some ?included"
    using "2.prems" by simp
  from "2.IH" [OF step "2.prems"] step show ?case
    by (simp add: listing_Cons rev_map Un_assoc)
qed

definition selection_in :: "TerminalProfileIndex \<Rightarrow> InspectSelection \<Rightarrow> bool" where
  "selection_in index selection =
     (case selection of
        RootSelection \<Rightarrow> True
      | SemanticSelection semantic_id \<Rightarrow> semantic_id \<in> dom (ti_semantics index)
      | FunctionSelection semantic_id function_id \<Rightarrow> (semantic_id, function_id) \<in> dom (ti_functions index))"

lemma contextual_semantic_matches_kept:
  assumes "index_ok index"
  shows "contextual_semantic_matches index selected_id max_depth pat =
    (let first_depth = if selected_id = None then 0 else 1 in
     Some (if max_depth < first_depth then {}
       else \<Union>e \<in> set (listing (\<lambda>s. rev (ti_semantic_children index (Some (sm_semantic_id s)))) max_depth
             (rev (map (Pair first_depth) (ti_semantic_children index selected_id)))).
           if semantic_matches (snd e) pat
           then kept_ancestors (semantic_parent_in index) selected_id (sm_semantic_id (snd e)) else {}))"
proof -
  have parent: "(\<lambda>k. case ti_semantics index k of None \<Rightarrow> None | Some s \<Rightarrow> sm_parent_semantic_id s) =
      semantic_parent_in index"
    by (simp add: semantic_parent_in_def fun_eq_iff)
  have "wf {(p, k). semantic_parent_in index k = Some p}" using assms by (simp add: index_ok_def)
  then have keep: "keep_ancestors (semantic_parent_in index) selected_id (sm_semantic_id semantic) included =
      Some (included \<union> kept_ancestors (semantic_parent_in index) selected_id (sm_semantic_id semantic))"
    for semantic included
    by (rule keep_ancestors_kept)
  show ?thesis
    unfolding contextual_semantic_matches_def parent Let_def
    by (subst match_loop_kept [OF keep]) (simp del: UN_simps)
qed

lemma contextual_function_matches_kept:
  assumes "index_ok index"
  shows "contextual_function_matches index semantic_id selected_id max_depth pat =
     Some (if max_depth = 0 then {}
       else \<Union>e \<in> set (listing (\<lambda>f. rev (ti_function_children index (semantic_id, Some (fn_function_id f)))) max_depth
             (rev (map (Pair 1) (ti_function_children index (semantic_id, Some selected_id))))).
           if function_matches index (snd e) pat
           then kept_ancestors (\<lambda>k. parent_in (ti_function_parents index) (semantic_id, k)) (Some selected_id)
                  (fn_function_id (snd e)) else {})"
proof -
  let ?parent = "\<lambda>k. parent_in (ti_function_parents index) (semantic_id, k)"
  have "{(p, k). ?parent k = Some p} = {(j, i). ti_function_parents index (semantic_id, i) = Some (Some j)}"
    by (auto simp: parent_in_def split: option.splits)
  then have "wf {(p, k). ?parent k = Some p}" using assms by (simp add: index_ok_def)
  then have keep: "keep_ancestors ?parent (Some selected_id) (fn_function_id g) included =
      Some (included \<union> kept_ancestors ?parent (Some selected_id) (fn_function_id g))"
    for g included
    by (rule keep_ancestors_kept)
  show ?thesis
    unfolding contextual_function_matches_def
    by (subst match_loop_kept [OF keep]) (simp del: UN_simps)
qed

lemma matched_filter_total:
  assumes "\<And>pat. \<exists>included. matches pat = Some included"
  shows "\<exists>included. matched_filter pat matches = Some included"
  using assms by (auto simp: matched_filter_def split: option.split)

text \<open>A selection of the index is always shown, and any other is reported as missing.\<close>

lemma render_view_total:
  assumes "index_ok index"
  shows "if selection_in index selection
    then \<exists>shown. render_view pct index selection order pat limit max_depth = Some (Inr shown)
    else \<exists>e. render_view pct index selection order pat limit max_depth = Some (Inl e) \<and>
      e = (case selection of FunctionSelection semantic_id function_id \<Rightarrow> FunctionNotFound semantic_id function_id
           | SemanticSelection semantic_id \<Rightarrow> SemanticNotFound semantic_id)"
proof -
  have semantic: "\<exists>included. matched_filter pat (contextual_semantic_matches index selected_id max_depth) = Some included"
    for selected_id
    by (rule matched_filter_total) (simp add: contextual_semantic_matches_kept [OF assms] Let_def)
  have frames: "\<exists>included. matched_filter pat (contextual_function_matches index s f max_depth) = Some included"
    for s f
    by (rule matched_filter_total) (simp add: contextual_function_matches_kept [OF assms])
  show ?thesis
  proof (cases selection)
    case RootSelection
    then show ?thesis using semantic [of None]
      by (auto simp: selection_in_def render_view_def render_semantic_view_def)
  next
    case (SemanticSelection k)
    then show ?thesis using semantic [of "Some k"]
      by (auto simp: selection_in_def render_view_def render_semantic_view_def split: option.splits)
  next
    case (FunctionSelection s k)
    then show ?thesis using frames [of s k]
      by (auto simp: selection_in_def render_view_def render_function_view_def case_prod_unfold Let_def
          split: option.splits)
  qed
qed

end
