(* ===== verification/DF_Inspect.thy ===== *)
theory DF_Inspect
  imports DF_Terminal_Index DF_Trace_Sanitizer
begin

section \<open>The diagnostics command line\<close>

text \<open>
  The inspect command and its interactive session, from \<open>perfetto_profile/report_cli.rs\<close>. What clap
  found wrong with the arguments is data, standard input is the sequence of buffers it delivers, and
  a writer is what it line_held together with the results of its next operations. \<open>str::from_utf8\<close> and
  the percentages of the views are parameters.
\<close>

definition DEFAULT_INSPECT_LIMIT :: nat where "DEFAULT_INSPECT_LIMIT = 20"

definition MAX_INSPECT_LIMIT :: nat where "MAX_INSPECT_LIMIT = 200"

definition MAX_INSPECT_DEPTH :: nat where "MAX_INSPECT_DEPTH = 32"

definition MAX_FILTER_CHARS :: nat where "MAX_FILTER_CHARS = 128"

definition MAX_INTERACTIVE_COMMAND_BYTES :: nat where "MAX_INTERACTIVE_COMMAND_BYTES = 1024"

definition INTERACTIVE_END_MARKER :: string where "INTERACTIVE_END_MARKER = ''-- end --'' @ [CHR 0x0A]"

subsection \<open>Failures\<close>

datatype CliArgumentError =
    MissingCommand | UnknownCommand | MissingInput | MissingOutputValue | DuplicateOutput
  | MissingArtifactOutputValue | DuplicateArtifactOutput | MultipleInputs | InvalidLimit | InvalidDepth
  | InvalidSemanticId | InvalidFunctionId | InvalidFilter | InvalidSort | IncompatibleSelectors
  | IncompatibleSort | DuplicateOption | UnknownOption

fun CliArgumentError_display :: "CliArgumentError \<Rightarrow> string" where
  "CliArgumentError_display MissingCommand = ''a diagnostics command is required''"
| "CliArgumentError_display UnknownCommand = ''unknown diagnostics command''"
| "CliArgumentError_display MissingInput = ''a profile input path is required''"
| "CliArgumentError_display MissingOutputValue = ''--output requires a path''"
| "CliArgumentError_display DuplicateOutput = ''--output may be specified only once''"
| "CliArgumentError_display MissingArtifactOutputValue = ''--artifact-output requires a path''"
| "CliArgumentError_display DuplicateArtifactOutput = ''--artifact-output may be specified only once''"
| "CliArgumentError_display MultipleInputs = ''only one profile input path may be provided''"
| "CliArgumentError_display InvalidLimit = ''limit must be between 1 and 200''"
| "CliArgumentError_display InvalidDepth = ''depth must be between 0 and 32''"
| "CliArgumentError_display InvalidSemanticId = ''semantic ID must be a signed integer''"
| "CliArgumentError_display InvalidFunctionId =
     ''function ID must use SEMANTIC_ID:FUNCTION_ID signed integers''"
| "CliArgumentError_display InvalidFilter = ''filter must contain between 1 and 128 characters''"
| "CliArgumentError_display InvalidSort = ''sort must be duration, inclusive-cpu, self-cpu, or name''"
| "CliArgumentError_display IncompatibleSelectors = ''--semantic and --function cannot be used together''"
| "CliArgumentError_display IncompatibleSort = ''function callsites cannot be sorted by exact duration''"
| "CliArgumentError_display DuplicateOption = ''option may be specified only once''"
| "CliArgumentError_display UnknownOption = ''unknown option''"

fun CliArgumentError_kind :: "CliArgumentError \<Rightarrow> string" where
  "CliArgumentError_kind MissingCommand = ''missing_command''"
| "CliArgumentError_kind UnknownCommand = ''unknown_command''"
| "CliArgumentError_kind MissingInput = ''missing_input''"
| "CliArgumentError_kind MissingOutputValue = ''missing_output_value''"
| "CliArgumentError_kind DuplicateOutput = ''duplicate_output''"
| "CliArgumentError_kind MissingArtifactOutputValue = ''missing_artifact_output_value''"
| "CliArgumentError_kind DuplicateArtifactOutput = ''duplicate_artifact_output''"
| "CliArgumentError_kind MultipleInputs = ''multiple_inputs''"
| "CliArgumentError_kind InvalidLimit = ''invalid_limit''"
| "CliArgumentError_kind InvalidDepth = ''invalid_depth''"
| "CliArgumentError_kind InvalidSemanticId = ''invalid_semantic_id''"
| "CliArgumentError_kind InvalidFunctionId = ''invalid_function_id''"
| "CliArgumentError_kind InvalidFilter = ''invalid_filter''"
| "CliArgumentError_kind InvalidSort = ''invalid_sort''"
| "CliArgumentError_kind IncompatibleSelectors = ''incompatible_selectors''"
| "CliArgumentError_kind IncompatibleSort = ''incompatible_sort''"
| "CliArgumentError_kind DuplicateOption = ''duplicate_option''"
| "CliArgumentError_kind UnknownOption = ''unknown_option''"

fun RankedReportFailurePhase_as_str :: "RankedReportFailurePhase \<Rightarrow> string" where
  "RankedReportFailurePhase_as_str Argument = ''argument''"
| "RankedReportFailurePhase_as_str Input = ''input''"
| "RankedReportFailurePhase_as_str Health = ''health''"
| "RankedReportFailurePhase_as_str TraceProcessor = ''trace_processor''"
| "RankedReportFailurePhase_as_str Query = ''query''"
| "RankedReportFailurePhase_as_str AggregateValidation = ''aggregate_validation''"
| "RankedReportFailurePhase_as_str Serialization = ''serialization''"
| "RankedReportFailurePhase_as_str Output = ''output''"

definition RankedReportFailure_new :: "RankedReportFailurePhase \<Rightarrow> string \<Rightarrow> string \<Rightarrow> RankedReportFailure" where
  "RankedReportFailure_new phase kind message = \<lparr>rrf_phase = phase, rrf_kind = kind, rrf_message = message\<rparr>"

definition failure_of_argument :: "CliArgumentError \<Rightarrow> RankedReportFailure" where
  "failure_of_argument e =
     RankedReportFailure_new Argument (CliArgumentError_kind e) (CliArgumentError_display e)"

definition failure_of_inspect :: "TerminalInspectError \<Rightarrow> RankedReportFailure" where
  "failure_of_inspect e =
     RankedReportFailure_new Argument (TerminalInspectError_kind e) (TerminalInspectError_display e)"

definition interactive_input_failure :: RankedReportFailure where
  "interactive_input_failure =
     RankedReportFailure_new Input ''interactive_read_failed'' ''interactive command input could not be read''"

definition terminal_output_failure :: RankedReportFailure where
  "terminal_output_failure =
     RankedReportFailure_new Output ''terminal_write_failed'' ''terminal output could not be written''"

fun failure_exit_code :: "RankedReportFailurePhase \<Rightarrow> int" where
  "failure_exit_code Argument = 64"
| "failure_exit_code Health = 65"
| "failure_exit_code Query = 65"
| "failure_exit_code AggregateValidation = 65"
| "failure_exit_code Input = 66"
| "failure_exit_code TraceProcessor = 69"
| "failure_exit_code Serialization = 70"
| "failure_exit_code Output = 73"

subsection \<open>Arguments\<close>

record FunctionSelector =
  fs_semantic_id :: int
  fs_function_id :: int

definition FilterText_from_str :: "string \<Rightarrow> string + string" where
  "FilterText_from_str s =
     (if s = [] \<or> MAX_FILTER_CHARS < length s then Inl ''filter must contain between 1 and 128 characters''
      else Inr s)"

definition FunctionSelector_from_str :: "string \<Rightarrow> string + FunctionSelector" where
  "FunctionSelector_from_str s =
     (case split_once CHR '':'' s of
        None \<Rightarrow> Inl ''function identity must contain one colon''
      | Some (semantic_id, function_id) \<Rightarrow>
          (case parse_i64 semantic_id of
             None \<Rightarrow> Inl ''semantic function owner must be a signed integer''
           | Some semantic_id \<Rightarrow>
               (case parse_i64 function_id of
                  None \<Rightarrow> Inl ''function ID must be a signed integer''
                | Some function_id \<Rightarrow> Inr \<lparr>fs_semantic_id = semantic_id, fs_function_id = function_id\<rparr>)))"

text \<open>\<open>str::parse\<close> of a \<open>u16\<close>.\<close>

definition parse_u16 :: "string \<Rightarrow> nat option" where
  "parse_u16 s =
     (let digits = (if s \<noteq> [] \<and> hd s = CHR ''+'' then tl s else s)
      in if digits = [] \<or> \<not> list_all is_ascii_digit digits then None
         else let n = digits_val 10 0 digits in if n < 2 ^ 16 then Some n else None)"

record report_flags =
  rg_has_input :: bool
  rg_has_output :: bool
  rg_has_artifact_output :: bool
  rg_has_no_clobber :: bool

function report_argument_loop :: "string list \<Rightarrow> report_flags \<Rightarrow> CliArgumentError option" where
  "report_argument_loop args flags =
     (case args of
        [] \<Rightarrow> if rg_has_input flags then None else Some MissingInput
      | argument # args \<Rightarrow>
          if argument = ''-h'' \<or> argument = ''--help'' then None
          else if argument = ''--output'' then
            if rg_has_output flags then Some DuplicateOutput
            else (case args of
                    [] \<Rightarrow> Some MissingOutputValue
                  | _ # args \<Rightarrow> report_argument_loop args (flags\<lparr>rg_has_output := True\<rparr>))
          else if argument = ''--artifact-output'' then
            if rg_has_artifact_output flags then Some DuplicateArtifactOutput
            else (case args of
                    [] \<Rightarrow> Some MissingArtifactOutputValue
                  | _ # args \<Rightarrow> report_argument_loop args (flags\<lparr>rg_has_artifact_output := True\<rparr>))
          else if argument = ''--no-clobber'' then
            if rg_has_no_clobber flags then Some DuplicateOption
            else report_argument_loop args (flags\<lparr>rg_has_no_clobber := True\<rparr>)
          else if argument \<noteq> [] \<and> hd argument = CHR ''-'' then Some UnknownOption
          else if rg_has_input flags then Some MultipleInputs
          else report_argument_loop args (flags\<lparr>rg_has_input := True\<rparr>))"
  by pat_completeness auto
termination by (relation "measure (length \<circ> fst)") auto

definition first_report_argument_error :: "string list \<Rightarrow> CliArgumentError option" where
  "first_report_argument_error args =
     report_argument_loop args
       \<lparr>rg_has_input = False, rg_has_output = False, rg_has_artifact_output = False, rg_has_no_clobber = False\<rparr>"

definition has_invalid_separated_function_value :: "string list \<Rightarrow> bool" where
  "has_invalid_separated_function_value args \<longleftrightarrow>
     (\<exists>index < length args. args ! index = ''--function'' \<and>
        (if index + 1 < length args then \<not> is_ok (FunctionSelector_from_str (args ! (index + 1))) else True))"

text \<open>What clap reports: the kind of its error and the texts of its context.\<close>

datatype clap_kind =
    MissingRequiredArgument | ArgumentConflict | TooManyValues | ValueValidation | InvalidValue | UnknownArgument
  | OtherKind

datatype ContextValue = StringValue string | StringsValue "string list" | OtherValue

record clap_error =
  ce_kind :: clap_kind
  ce_invalid_arg :: "ContextValue option"
  ce_prior_arg :: "ContextValue option"
  ce_suggested_arg :: "ContextValue option"
  ce_suggested_subcommand :: "ContextValue option"

definition names_argument :: "string \<Rightarrow> ContextValue option \<Rightarrow> bool" where
  "names_argument prefix value =
     (case value of Some (StringValue argument) \<Rightarrow> strip_prefix prefix argument \<noteq> None | _ \<Rightarrow> False)"

definition is_selector_conflict :: "clap_error \<Rightarrow> bool" where
  "is_selector_conflict e \<longleftrightarrow>
     (names_argument ''--semantic'' (ce_invalid_arg e) \<or> names_argument ''--semantic'' (ce_prior_arg e)) \<and>
     (names_argument ''--function'' (ce_invalid_arg e) \<or> names_argument ''--function'' (ce_prior_arg e))"

definition classify_clap_error :: "string \<Rightarrow> string list \<Rightarrow> clap_error \<Rightarrow> CliArgumentError" where
  "classify_clap_error command rest e =
     (let bad_value = (ce_kind e = ValueValidation \<or> ce_kind e = InvalidValue) in
      if ce_kind e = MissingRequiredArgument then MissingInput
      else if ce_kind e = ArgumentConflict \<and> is_selector_conflict e then IncompatibleSelectors
      else if ce_kind e = ArgumentConflict then DuplicateOption
      else if ce_kind e = TooManyValues then MultipleInputs
      else if bad_value \<and> names_argument ''--limit'' (ce_invalid_arg e) then InvalidLimit
      else if bad_value \<and> names_argument ''--depth'' (ce_invalid_arg e) then InvalidDepth
      else if bad_value \<and> names_argument ''--semantic'' (ce_invalid_arg e) then InvalidSemanticId
      else if bad_value \<and> names_argument ''--function'' (ce_invalid_arg e) then InvalidFunctionId
      else if bad_value \<and> names_argument ''--filter'' (ce_invalid_arg e) then InvalidFilter
      else if ce_kind e = InvalidValue \<and> names_argument ''--sort'' (ce_invalid_arg e) then InvalidSort
      else if ce_kind e = UnknownArgument then
        (case ce_invalid_arg e of
           Some (StringValue argument) \<Rightarrow>
             if argument = [] \<or> hd argument \<noteq> CHR ''-'' then
               if command = ''inspect'' \<and> has_invalid_separated_function_value rest then InvalidFunctionId
               else MultipleInputs
             else UnknownOption
         | _ \<Rightarrow> UnknownOption)
      else UnknownOption)"

definition classify_cli_error :: "string list \<Rightarrow> clap_error \<Rightarrow> CliArgumentError" where
  "classify_cli_error args e =
     (case args of
        [] \<Rightarrow> MissingCommand
      | command # rest \<Rightarrow>
          if command \<noteq> ''report'' \<and> command \<noteq> ''inspect'' then UnknownCommand
          else (case (if command = ''report'' then first_report_argument_error rest else None) of
                  Some argument_error \<Rightarrow> argument_error
                | None \<Rightarrow> classify_clap_error command rest e))"

definition context_suggestion :: "ContextValue option \<Rightarrow> string option" where
  "context_suggestion value =
     (case (case value of
              Some (StringValue suggestion) \<Rightarrow> Some suggestion
            | Some (StringsValue (suggestion # _)) \<Rightarrow> Some suggestion
            | _ \<Rightarrow> None) of
        None \<Rightarrow> None
      | Some suggestion \<Rightarrow>
          if length suggestion \<le> 64 \<and> list_all (\<lambda>c. code c < 128) suggestion then Some suggestion else None)"

definition clap_suggestion :: "clap_error \<Rightarrow> string option" where
  "clap_suggestion e =
     (case context_suggestion (ce_suggested_arg e) of
        Some suggestion \<Rightarrow> Some suggestion
      | None \<Rightarrow> context_suggestion (ce_suggested_subcommand e))"

definition cli_failure :: "string list \<Rightarrow> clap_error \<Rightarrow> RankedReportFailure" where
  "cli_failure args e =
     (let argument_error = classify_cli_error args e in
      RankedReportFailure_new Argument (CliArgumentError_kind argument_error)
        (case clap_suggestion e of
           None \<Rightarrow> CliArgumentError_display argument_error
         | Some suggestion \<Rightarrow> CliArgumentError_display argument_error @ ''; did you mean '' @ suggestion @ ''?''))"

subsection \<open>The state of an inspection\<close>

record InspectArgs =
  ia_limit :: nat
  ia_semantic :: "int option"
  ia_function :: "FunctionSelector option"
  ia_filter :: "string option"
  ia_sort :: "InspectSort option"
  ia_depth :: "nat option"
  ia_interactive :: bool
  ia_full_symbols :: bool
  ia_all_frames :: bool

record InspectState =
  ins_selection :: InspectSelection
  ins_sort :: InspectSort
  ins_filter :: "string option"
  ins_limit :: nat
  ins_depth :: "nat option"
  ins_full_symbols :: bool
  ins_all_frames :: bool

definition state_render :: "(int \<Rightarrow> int \<Rightarrow> string) \<Rightarrow> TerminalProfileIndex \<Rightarrow> InspectState \<Rightarrow> view" where
  "state_render pct index state =
     render_view pct index (ins_selection state) (ins_sort state) (ins_filter state) (ins_limit state)
       (case ins_depth state of Some depth \<Rightarrow> depth | None \<Rightarrow> if ins_selection state \<noteq> RootSelection then 1 else 0)"

definition is_function_selection :: "InspectSelection \<Rightarrow> bool" where
  "is_function_selection selection = (case selection of FunctionSelection _ _ \<Rightarrow> True | _ \<Rightarrow> False)"

definition initial_inspect_state :: "InspectArgs \<Rightarrow> CliArgumentError + InspectState" where
  "initial_inspect_state args =
     (let selection = (case ia_function args of
            Some function \<Rightarrow> FunctionSelection (fs_semantic_id function) (fs_function_id function)
          | None \<Rightarrow> (case ia_semantic args of
              Some semantic_id \<Rightarrow> SemanticSelection semantic_id | None \<Rightarrow> RootSelection));
          order = (case ia_sort args of
            Some order \<Rightarrow> order
          | None \<Rightarrow> if is_function_selection selection then ByInclusiveCpu else ByDuration)
      in if is_function_selection selection \<and> order = ByDuration then Inl IncompatibleSort
         else Inr \<lparr>ins_selection = selection, ins_sort = order, ins_filter = ia_filter args,
                   ins_limit = ia_limit args, ins_depth = ia_depth args,
                   ins_full_symbols = ia_full_symbols args, ins_all_frames = ia_all_frames args\<rparr>)"

subsection \<open>Commands\<close>

datatype InteractiveCommandResult = CommandOutput string | CommandQuit

text \<open>
  A command returns its result and the state it leaves. Rendering is a partial operation on a cyclic
  profile, so the result is an option.
\<close>

type_synonym command_run = "((string + InteractiveCommandResult) \<times> InspectState) option"

definition render_interactive_selection ::
    "(int \<Rightarrow> int \<Rightarrow> string) \<Rightarrow> TerminalProfileIndex \<Rightarrow> InspectState \<Rightarrow> command_run" where
  "render_interactive_selection pct index state =
     map_option (\<lambda>view.
       (case view of
          Inl _ \<Rightarrow> Inl ''current profile selection does not exist''
        | Inr response \<Rightarrow> Inr (CommandOutput response), state))
     (state_render pct index state)"

definition HELP :: string where
  "HELP =
     ''commands: show, open semantic:ID, open function:SEMANTIC_ID:FUNCTION_ID, up, root, ''
     @ ''sort METRIC, filter TEXT, clear, limit N, help, quit'' @ [CHR 0x0A]"

definition run_filter_command ::
    "(int \<Rightarrow> int \<Rightarrow> string) \<Rightarrow> TerminalProfileIndex \<Rightarrow> InspectState \<Rightarrow> string \<Rightarrow> command_run" where
  "run_filter_command pct index state command =
     (case strip_prefix ''filter '' command of
        None \<Rightarrow> Some (Inl ''filter must contain between 1 and 128 characters'', state)
      | Some value \<Rightarrow>
          (case FilterText_from_str value of
             Inl _ \<Rightarrow> Some (Inl ''filter must contain between 1 and 128 characters'', state)
           | Inr pat \<Rightarrow> render_interactive_selection pct index (state\<lparr>ins_filter := Some pat\<rparr>)))"

definition parse_sort :: "string \<Rightarrow> InspectSort option" where
  "parse_sort s =
     (if s = ''duration'' then Some ByDuration
      else if s = ''inclusive-cpu'' then Some ByInclusiveCpu
      else if s = ''self-cpu'' then Some BySelfCpu
      else if s = ''name'' then Some ByName
      else None)"

definition run_sort_command ::
    "(int \<Rightarrow> int \<Rightarrow> string) \<Rightarrow> TerminalProfileIndex \<Rightarrow> InspectState \<Rightarrow> string \<Rightarrow> command_run" where
  "run_sort_command pct index state command =
     (case strip_prefix ''sort '' command of
        None \<Rightarrow> Some (Inl ''invalid sort; expected sort METRIC'', state)
      | Some value \<Rightarrow>
          (case parse_sort value of
             None \<Rightarrow> Some (Inl ''invalid sort; expected duration, inclusive-cpu, self-cpu, or name'', state)
           | Some order \<Rightarrow>
               if order = ByDuration \<and> is_function_selection (ins_selection state)
               then Some (Inl ''function callsites cannot be sorted by exact duration'', state)
               else render_interactive_selection pct index (state\<lparr>ins_sort := order\<rparr>)))"

definition run_limit_command ::
    "(int \<Rightarrow> int \<Rightarrow> string) \<Rightarrow> TerminalProfileIndex \<Rightarrow> InspectState \<Rightarrow> string \<Rightarrow> command_run" where
  "run_limit_command pct index state command =
     (case strip_prefix ''limit '' command of
        None \<Rightarrow> Some (Inl ''invalid limit; expected limit N'', state)
      | Some value \<Rightarrow>
          (case parse_u16 value of
             None \<Rightarrow> Some (Inl ''limit must be between 1 and 200'', state)
           | Some limit \<Rightarrow>
               if 1 \<le> limit \<and> limit \<le> MAX_INSPECT_LIMIT
               then render_interactive_selection pct index (state\<lparr>ins_limit := limit\<rparr>)
               else Some (Inl ''limit must be between 1 and 200'', state)))"

definition open_semantic_target :: "TerminalProfileIndex \<Rightarrow> InspectState \<Rightarrow> string \<Rightarrow> string + InspectState" where
  "open_semantic_target index state value =
     (case parse_i64 value of
        None \<Rightarrow> Inl ''invalid semantic identity; expected semantic:ID''
      | Some semantic_id \<Rightarrow>
          res_bind (open_semantic index (ins_selection state) semantic_id)
            (\<lambda>selection. Inr (state\<lparr>ins_selection := selection\<rparr>)))"

definition open_function_target :: "TerminalProfileIndex \<Rightarrow> InspectState \<Rightarrow> string \<Rightarrow> string + InspectState" where
  "open_function_target index state value =
     (case FunctionSelector_from_str value of
        Inl _ \<Rightarrow> Inl ''invalid function identity; expected function:SEMANTIC_ID:FUNCTION_ID''
      | Inr function \<Rightarrow>
          res_bind (open_function index (ins_selection state) (fs_semantic_id function) (fs_function_id function))
            (\<lambda>selection. Inr (state\<lparr>ins_selection := selection,
               ins_sort := if ins_sort state = ByDuration then ByInclusiveCpu else ins_sort state\<rparr>)))"

definition run_open_command ::
    "(int \<Rightarrow> int \<Rightarrow> string) \<Rightarrow> TerminalProfileIndex \<Rightarrow> InspectState \<Rightarrow> string \<Rightarrow> command_run" where
  "run_open_command pct index state command =
     (case strip_prefix ''open '' command of
        None \<Rightarrow> Some (Inl ''unknown interactive command'', state)
      | Some target \<Rightarrow>
          (case (case strip_prefix ''semantic:'' target of
                   Some value \<Rightarrow> open_semantic_target index state value
                 | None \<Rightarrow>
                     (case strip_prefix ''function:'' target of
                        Some value \<Rightarrow> open_function_target index state value
                      | None \<Rightarrow>
                          Inl ''invalid open target; expected semantic:ID or function:SEMANTIC_ID:FUNCTION_ID'')) of
             Inl message \<Rightarrow> Some (Inl message, state)
           | Inr state \<Rightarrow> render_interactive_selection pct index state))"

definition run_interactive_command ::
    "(int \<Rightarrow> int \<Rightarrow> string) \<Rightarrow> TerminalProfileIndex \<Rightarrow> InspectState \<Rightarrow> string \<Rightarrow> command_run" where
  "run_interactive_command pct index state command =
     (if command = ''show'' then render_interactive_selection pct index state
      else if command = ''up'' then
        (case select_up index (ins_selection state) of
           Inl message \<Rightarrow> Some (Inl message, state)
         | Inr selection \<Rightarrow> render_interactive_selection pct index (state\<lparr>ins_selection := selection\<rparr>))
      else if command = ''root'' then
        render_interactive_selection pct index (state\<lparr>ins_selection := RootSelection\<rparr>)
      else if command = ''clear'' then render_interactive_selection pct index (state\<lparr>ins_filter := None\<rparr>)
      else if command = ''help'' then Some (Inr (CommandOutput HELP), state)
      else if command = ''quit'' then Some (Inr CommandQuit, state)
      else if command = ''filter'' \<or> strip_prefix ''filter '' command \<noteq> None then
        run_filter_command pct index state command
      else if command = ''sort'' \<or> strip_prefix ''sort '' command \<noteq> None then
        run_sort_command pct index state command
      else if command = ''limit'' \<or> strip_prefix ''limit '' command \<noteq> None then
        run_limit_command pct index state command
      else run_open_command pct index state command)"

subsection \<open>Reading a line\<close>

text \<open>
  Standard input delivers its bytes in buffers and may fail at the end of them. An empty buffer is
  the end of the input.
\<close>

record BufRead =
  br_buffers :: "bytes list"
  br_failing :: bool

definition fill_buf :: "BufRead \<Rightarrow> unit + bytes" where
  "fill_buf input =
     (case br_buffers input of
        buffer # _ \<Rightarrow> Inr buffer
      | [] \<Rightarrow> if br_failing input then Inl () else Inr [])"

definition br_consume :: "nat \<Rightarrow> BufRead \<Rightarrow> BufRead" where
  "br_consume n input =
     (case br_buffers input of
        [] \<Rightarrow> input
      | buffer # buffers \<Rightarrow>
          input\<lparr>br_buffers := (if n < length buffer then drop n buffer # buffers else buffers)\<rparr>)"

datatype InteractiveLine = EofLine | CommandLine string | InvalidLine string

definition newline_position :: "bytes \<Rightarrow> nat option" where
  "newline_position bs =
     (let n = length (takeWhile (\<lambda>b. b \<noteq> 10) bs) in if n < length bs then Some n else None)"

text \<open>One pass: the line read so far, whether it exceeded the limit, and whether it ended.\<close>

definition read_buffer :: "bytes \<Rightarrow> bytes \<Rightarrow> bool \<Rightarrow> nat \<times> bytes \<times> bool \<times> bool" where
  "read_buffer available line exceeded_limit =
     (let newline = newline_position available;
          consumed = (case newline of None \<Rightarrow> length available | Some position \<Rightarrow> position + 1);
          payload = (case newline of None \<Rightarrow> consumed | Some position \<Rightarrow> position)
      in if exceeded_limit then (consumed, line, True, newline \<noteq> None)
         else
           let retained = min payload (MAX_INTERACTIVE_COMMAND_BYTES + 1 - length line);
               line = line @ take retained available
           in (consumed, line, retained \<noteq> payload \<or> MAX_INTERACTIVE_COMMAND_BYTES < length line, newline \<noteq> None))"

lemma newline_position_less: "newline_position bs = Some n \<Longrightarrow> n < length bs"
  by (auto simp: newline_position_def Let_def split: if_splits)

definition buffered :: "BufRead \<Rightarrow> nat" where
  "buffered input = length (br_buffers input) + length (concat (br_buffers input))"

lemma consume_buffer:
  assumes "fill_buf input = Inr available" and "available \<noteq> []" and "0 < n"
  shows "buffered (br_consume n input) < buffered input"
  using assms by (auto simp: fill_buf_def br_consume_def buffered_def split: list.splits if_splits)

lemma read_buffer_progress:
  "available \<noteq> [] \<Longrightarrow> 0 < fst (read_buffer available line exceeded_limit)"
  by (auto simp: read_buffer_def Let_def split: option.splits)

function read_line_loop ::
    "BufRead \<Rightarrow> bytes \<Rightarrow> bool \<Rightarrow> bool \<Rightarrow> unit + (BufRead \<times> bytes \<times> bool \<times> bool)" where
  "read_line_loop input line read_any exceeded_limit =
     (case fill_buf input of
        Inl e \<Rightarrow> Inl e
      | Inr available \<Rightarrow>
          if available = [] then Inr (input, line, read_any, exceeded_limit)
          else
            (case read_buffer available line exceeded_limit of
               (consumed, line, exceeded_limit, ended) \<Rightarrow>
                 if ended then Inr (br_consume consumed input, line, True, exceeded_limit)
                 else read_line_loop (br_consume consumed input) line True exceeded_limit))"
  by pat_completeness auto
termination
  by (relation "measure (buffered \<circ> fst)")
    (auto intro: consume_buffer dest: read_buffer_progress, metis consume_buffer fst_conv read_buffer_progress)

declare read_line_loop.simps [simp del]

definition read_interactive_line ::
    "(bytes \<Rightarrow> string option) \<Rightarrow> BufRead \<Rightarrow> unit + (InteractiveLine \<times> BufRead)" where
  "read_interactive_line from_utf8 input =
     (case read_line_loop input [] False False of
        Inl e \<Rightarrow> Inl e
      | Inr (input, line, read_any, exceeded_limit) \<Rightarrow>
          Inr
            (if \<not> read_any then EofLine
             else if exceeded_limit then InvalidLine ''interactive command exceeds the 1024-byte limit''
             else
               (case from_utf8 (if line \<noteq> [] \<and> last line = 13 then butlast line else line) of
                  Some command \<Rightarrow> CommandLine command
                | None \<Rightarrow> InvalidLine ''interactive command must be valid UTF-8''), input))"

subsection \<open>Responses\<close>

record TextWriter =
  tw_text :: string
  tw_results :: "bool list"

definition writer_op :: "string \<Rightarrow> TextWriter \<Rightarrow> bool \<times> TextWriter" where
  "writer_op s w =
     (case tw_results w of
        [] \<Rightarrow> (True, w\<lparr>tw_text := tw_text w @ s\<rparr>)
      | True # results \<Rightarrow> (True, w\<lparr>tw_text := tw_text w @ s, tw_results := results\<rparr>)
      | False # results \<Rightarrow> (False, w\<lparr>tw_results := results\<rparr>))"

text \<open>Operations of a writer in sequence, up to the first that fails. A flush writes nothing.\<close>

fun writer_ops :: "string list \<Rightarrow> TextWriter \<Rightarrow> (RankedReportFailure + unit) \<times> TextWriter" where
  "writer_ops [] w = (Inr (), w)"
| "writer_ops (s # ss) w =
     (case writer_op s w of
        (False, w) \<Rightarrow> (Inl terminal_output_failure, w)
      | (True, w) \<Rightarrow> writer_ops ss w)"

definition write_interactive_response :: "TextWriter \<Rightarrow> string \<Rightarrow> (RankedReportFailure + unit) \<times> TextWriter" where
  "write_interactive_response output_writer response =
     writer_ops
       ([response]
        @ (if response \<noteq> [] \<and> last response \<noteq> CHR 0x0A then [[CHR 0x0A]] else [])
        @ [INTERACTIVE_END_MARKER, []]) output_writer"

definition write_interactive_error :: "TextWriter \<Rightarrow> string \<Rightarrow> (RankedReportFailure + unit) \<times> TextWriter" where
  "write_interactive_error error_writer message =
     writer_ops [''error: '', message, [CHR 0x0A], []] error_writer"

subsection \<open>The session\<close>

record interactive_session =
  ss_state :: InspectState
  ss_input :: BufRead
  ss_output :: TextWriter
  ss_error :: TextWriter

text \<open>What a step of the loop leaves: the failure or the return of the session, or nothing to go on.\<close>

type_synonym session_run = "(RankedReportFailure + unit) \<times> interactive_session"

definition respond :: "string \<Rightarrow> interactive_session \<Rightarrow> session_run" where
  "respond response s =
     (case write_interactive_response (ss_output s) response of
        (r, w) \<Rightarrow> (r, s\<lparr>ss_output := w\<rparr>))"

definition complain :: "string \<Rightarrow> interactive_session \<Rightarrow> session_run" where
  "complain message s =
     (case write_interactive_error (ss_error s) message of
        (Inl e, w) \<Rightarrow> (Inl e, s\<lparr>ss_error := w\<rparr>)
      | (Inr _, w) \<Rightarrow> respond [] (s\<lparr>ss_error := w\<rparr>))"

definition going_on :: "session_run \<Rightarrow> (RankedReportFailure + unit) option \<times> interactive_session" where
  "going_on run = (case run of (Inl e, s) \<Rightarrow> (Some (Inl e), s) | (Inr _, s) \<Rightarrow> (None, s))"

definition returning :: "session_run \<Rightarrow> (RankedReportFailure + unit) option \<times> interactive_session" where
  "returning run = (case run of (r, s) \<Rightarrow> (Some r, s))"

definition run_line ::
    "(int \<Rightarrow> int \<Rightarrow> string) \<Rightarrow> TerminalProfileIndex \<Rightarrow> InteractiveLine \<Rightarrow> interactive_session
       \<Rightarrow> ((RankedReportFailure + unit) option \<times> interactive_session) option" where
  "run_line pct index line s =
     (case line of
        EofLine \<Rightarrow> Some (Some (Inr ()), s)
      | InvalidLine message \<Rightarrow> Some (going_on (complain message s))
      | CommandLine command \<Rightarrow>
          map_option (\<lambda>(r, state).
            let s = s\<lparr>ss_state := state\<rparr> in
            case r of
              Inr (CommandOutput response) \<Rightarrow> going_on (respond response s)
            | Inr CommandQuit \<Rightarrow> returning (respond [] s)
            | Inl message \<Rightarrow> going_on (complain message s))
          (run_interactive_command pct index (ss_state s) (trim command)))"

definition inspect_step ::
    "(int \<Rightarrow> int \<Rightarrow> string) \<Rightarrow> (bytes \<Rightarrow> string option) \<Rightarrow> bool \<Rightarrow> TerminalProfileIndex \<Rightarrow> interactive_session
       \<Rightarrow> ((RankedReportFailure + unit) option \<times> interactive_session) option" where
  "inspect_step pct from_utf8 prompt index s =
     (case (if prompt then writer_ops [''profile> '', []] (ss_output s) else (Inr (), ss_output s)) of
        (Inl e, w) \<Rightarrow> Some (Some (Inl e), s\<lparr>ss_output := w\<rparr>)
      | (Inr _, w) \<Rightarrow>
          (case read_interactive_line from_utf8 (ss_input s) of
             Inl _ \<Rightarrow> Some (Some (Inl interactive_input_failure), s\<lparr>ss_output := w\<rparr>)
           | Inr (line, input) \<Rightarrow> run_line pct index line (s\<lparr>ss_output := w, ss_input := input\<rparr>)))"

partial_function (option) interactive_loop ::
    "(int \<Rightarrow> int \<Rightarrow> string) \<Rightarrow> (bytes \<Rightarrow> string option) \<Rightarrow> bool \<Rightarrow> TerminalProfileIndex \<Rightarrow> interactive_session
       \<Rightarrow> session_run option" where
  "interactive_loop pct from_utf8 prompt index s =
     (case inspect_step pct from_utf8 prompt index s of
        None \<Rightarrow> None
      | Some (Some r, s) \<Rightarrow> Some (r, s)
      | Some (None, s) \<Rightarrow> interactive_loop pct from_utf8 prompt index s)"

definition run_interactive_session ::
    "(int \<Rightarrow> int \<Rightarrow> string) \<Rightarrow> (bytes \<Rightarrow> string option) \<Rightarrow> RankedProfileDocument \<Rightarrow> bool \<Rightarrow> interactive_session
       \<Rightarrow> session_run option" where
  "run_interactive_session pct from_utf8 document prompt s =
     (case TerminalProfileIndex_new document (ins_full_symbols (ss_state s)) (ins_all_frames (ss_state s)) of
        None \<Rightarrow> None
      | Some index \<Rightarrow>
          (case state_render pct index (ss_state s) of
             None \<Rightarrow> None
           | Some (Inl e) \<Rightarrow> Some (Inl (failure_of_inspect e), s)
           | Some (Inr response) \<Rightarrow>
               (case respond response s of
                  (Inl e, s) \<Rightarrow> Some (Inl e, s)
                | (Inr _, s) \<Rightarrow> interactive_loop pct from_utf8 prompt index s)))"

text \<open>
  The command: the arguments, what checking and loading the input path answered (\<open>load\<close>), and the
  session or one view. The failure decides the exit code.
\<close>

definition exit_code :: "RankedReportFailure + unit \<Rightarrow> int" where
  "exit_code r = (case r of Inr _ \<Rightarrow> 0 | Inl e \<Rightarrow> failure_exit_code (rrf_phase e))"

definition run_inspect_command ::
    "(int \<Rightarrow> int \<Rightarrow> string) \<Rightarrow> (bytes \<Rightarrow> string option) \<Rightarrow> RankedReportFailure + RankedProfileDocument \<Rightarrow> InspectArgs
       \<Rightarrow> bool \<Rightarrow> BufRead \<Rightarrow> TextWriter \<Rightarrow> TextWriter \<Rightarrow> (RankedReportFailure + unit) option" where
  "run_inspect_command pct from_utf8 load args prompt input out_writer err_writer =
     (case initial_inspect_state args of
        Inl e \<Rightarrow> Some (Inl (failure_of_argument e))
      | Inr state \<Rightarrow>
          (case load of
             Inl e \<Rightarrow> Some (Inl e)
           | Inr document \<Rightarrow>
               if ia_interactive args then
                 map_option fst (run_interactive_session pct from_utf8 document prompt
                   \<lparr>ss_state = state, ss_input = input, ss_output = out_writer, ss_error = err_writer\<rparr>)
               else
                 (case TerminalProfileIndex_new document (ins_full_symbols state) (ins_all_frames state) of
                    None \<Rightarrow> None
                  | Some index \<Rightarrow>
                      map_option (\<lambda>view. case view of
                          Inl e \<Rightarrow> Inl (failure_of_inspect e)
                        | Inr response \<Rightarrow> fst (writer_ops [response, []] out_writer))
                      (state_render pct index state))))"

subsection \<open>Commands keep the state valid\<close>

definition state_ok :: "TerminalProfileIndex \<Rightarrow> InspectState \<Rightarrow> bool" where
  "state_ok index state \<longleftrightarrow>
     selection_in index (ins_selection state) \<and>
     1 \<le> ins_limit state \<and> ins_limit state \<le> MAX_INSPECT_LIMIT \<and>
     (case ins_filter state of None \<Rightarrow> True | Some pat \<Rightarrow> pat \<noteq> [] \<and> length pat \<le> MAX_FILTER_CHARS) \<and>
     (is_function_selection (ins_selection state) \<longrightarrow> ins_sort state \<noteq> ByDuration)"

lemma select_up_in:
  assumes ok: "index_ok index" and up: "select_up index selection = Inr target"
  shows "selection_in index target \<and> (is_function_selection target \<longrightarrow> is_function_selection selection)"
proof (cases selection)
  case RootSelection
  with up show ?thesis by (simp add: select_up_def)
next
  case (SemanticSelection k)
  with up obtain s where s: "ti_semantics index k = Some s" by (auto simp: select_up_def split: option.splits)
  show ?thesis
  proof (cases "sm_parent_semantic_id s")
    case None
    with up s SemanticSelection show ?thesis
      by (auto simp: select_up_def selection_in_def is_function_selection_def)
  next
    case (Some p)
    with s have "semantic_parent_in index k = Some p" by (simp add: semantic_parent_in_def)
    with ok have "p \<in> dom (ti_semantics index)" by (simp add: index_ok_def)
    with up s Some SemanticSelection show ?thesis
      by (auto simp: select_up_def selection_in_def is_function_selection_def)
  qed
next
  case (FunctionSelection s k)
  from ok have owners: "fst ` dom (ti_functions index) \<subseteq> dom (ti_semantics index)"
    and same: "dom (ti_functions index) = dom (ti_function_parents index)"
    and parents: "\<And>j. ti_function_parents index (s, k) = Some (Some j) \<Longrightarrow> (s, j) \<in> dom (ti_functions index)"
    unfolding index_ok_def by blast+
  from up FunctionSelection obtain parent where parent: "ti_function_parents index (s, k) = Some parent"
    by (auto simp: select_up_def split: option.splits)
  then have "(s, k) \<in> dom (ti_functions index)" using same by (metis domI)
  then have "s \<in> dom (ti_semantics index)" using owners by force
  with up FunctionSelection parent parents show ?thesis
    by (cases parent) (auto simp: select_up_def selection_in_def is_function_selection_def)
qed

lemma open_semantic_in:
  assumes "open_semantic index selection k = Inr target"
  shows "selection_in index target" and "\<not> is_function_selection target"
  using assms by (auto simp: open_semantic_def selection_in_def is_function_selection_def Let_def
      split: InspectSelection.splits if_splits option.splits)

lemma open_function_in:
  assumes "index_ok index" and "open_function index selection s k = Inr target"
  shows "selection_in index target"
  using assms by (auto simp: open_function_def selection_in_def index_ok_def Let_def
      split: InspectSelection.splits if_splits)

text \<open>What a command promises: it ends, an error leaves the state alone, and a response is the view of the new state.\<close>

definition command_post ::
    "(int \<Rightarrow> int \<Rightarrow> string) \<Rightarrow> TerminalProfileIndex \<Rightarrow> InspectState \<Rightarrow> command_run \<Rightarrow> bool" where
  "command_post pct index state run \<longleftrightarrow>
     (\<exists>r state'. run = Some (r, state') \<and> state_ok index state' \<and>
        ins_full_symbols state' = ins_full_symbols state \<and> ins_all_frames state' = ins_all_frames state \<and>
        ins_depth state' = ins_depth state \<and>
        (case r of
           Inl _ \<Rightarrow> state' = state
         | Inr CommandQuit \<Rightarrow> state' = state
         | Inr (CommandOutput response) \<Rightarrow>
             response = HELP \<and> state' = state \<or> state_render pct index state' = Some (Inr response)))"

lemma render_selection_post:
  assumes "index_ok index" and "state_ok index state'"
    and "ins_full_symbols state' = ins_full_symbols state" and "ins_all_frames state' = ins_all_frames state"
    and "ins_depth state' = ins_depth state"
  shows "command_post pct index state (render_interactive_selection pct index state')"
proof -
  from assms(2) have "selection_in index (ins_selection state')" by (simp add: state_ok_def)
  with render_view_total [OF assms(1)] obtain response where "state_render pct index state' = Some (Inr response)"
    unfolding state_render_def by meson
  with assms show ?thesis by (simp add: command_post_def render_interactive_selection_def)
qed

lemma refused_post: "state_ok index state \<Longrightarrow> command_post pct index state (Some (Inl message, state))"
  by (simp add: command_post_def)

lemmas posts = render_selection_post refused_post

lemma filter_command_post:
  assumes "index_ok index" and "state_ok index state"
  shows "command_post pct index state (run_filter_command pct index state command)"
  using assms unfolding run_filter_command_def
  by (auto simp: FilterText_from_str_def state_ok_def intro!: posts split: option.splits)

lemma sort_command_post:
  assumes "index_ok index" and "state_ok index state"
  shows "command_post pct index state (run_sort_command pct index state command)"
  using assms unfolding run_sort_command_def
  by (auto simp: state_ok_def intro!: posts split: option.splits)

lemma limit_command_post:
  assumes "index_ok index" and "state_ok index state"
  shows "command_post pct index state (run_limit_command pct index state command)"
  using assms unfolding run_limit_command_def
  by (auto simp: state_ok_def intro!: posts split: option.splits)

lemma open_command_post:
  assumes "index_ok index" and "state_ok index state"
  shows "command_post pct index state (run_open_command pct index state command)"
proof -
  have semantic: "open_semantic_target index state value = Inr state' \<Longrightarrow>
      state_ok index state' \<and> ins_full_symbols state' = ins_full_symbols state \<and>
      ins_all_frames state' = ins_all_frames state \<and> ins_depth state' = ins_depth state" for "value" state'
    using assms open_semantic_in [of index "ins_selection state"]
    by (auto simp: open_semantic_target_def state_ok_def res_bind_def split: option.splits sum.splits)
  have frames: "open_function_target index state value = Inr state' \<Longrightarrow>
      state_ok index state' \<and> ins_full_symbols state' = ins_full_symbols state \<and>
      ins_all_frames state' = ins_all_frames state \<and> ins_depth state' = ins_depth state" for "value" state'
    using assms open_function_in [of index "ins_selection state"]
    by (auto simp: open_function_target_def state_ok_def res_bind_def
        split: option.splits sum.splits if_splits)
  show ?thesis
    using assms unfolding run_open_command_def
    by (auto dest!: semantic frames intro!: posts split: option.splits sum.splits)
qed

lemma interactive_command_post:
  assumes ok: "index_ok index" and state: "state_ok index state"
  shows "command_post pct index state (run_interactive_command pct index state command)"
proof -
  have up: "command_post pct index state
      (case select_up index (ins_selection state) of
         Inl message \<Rightarrow> Some (Inl message, state)
       | Inr selection \<Rightarrow> render_interactive_selection pct index (state\<lparr>ins_selection := selection\<rparr>))"
    using ok state
    by (auto dest!: select_up_in [OF ok] simp: state_ok_def intro!: posts split: sum.splits)
  have root: "command_post pct index state
      (render_interactive_selection pct index (state\<lparr>ins_selection := RootSelection\<rparr>))"
    and clear: "command_post pct index state (render_interactive_selection pct index (state\<lparr>ins_filter := None\<rparr>))"
    and again: "command_post pct index state (render_interactive_selection pct index state)"
    using ok state
    by (auto simp: state_ok_def selection_in_def is_function_selection_def intro!: posts)
  have "command_post pct index state (Some (Inr (CommandOutput HELP), state))"
    and "command_post pct index state (Some (Inr CommandQuit, state))"
    using state by (simp_all add: command_post_def)
  note posts = this up root clear again filter_command_post [OF ok state] sort_command_post [OF ok state]
    limit_command_post [OF ok state] open_command_post [OF ok state]
  show ?thesis
    unfolding run_interactive_command_def by (simp only: posts simp_thms split: if_split)
qed

subsection \<open>A session ends\<close>

lemma read_line_loop_progress:
  "read_line_loop input line read_any exceeded = Inr (input', line', read_any', exceeded') \<Longrightarrow>
     buffered input' \<le> buffered input \<and> (read_any' \<and> \<not> read_any \<longrightarrow> buffered input' < buffered input)"
proof (induction input line read_any exceeded rule: read_line_loop.induct)
  case (1 input line read_any exceeded)
  note unfold = read_line_loop.simps [of input line read_any exceeded]
  show ?case
  proof (cases "\<exists>available. fill_buf input = Inr available \<and> available \<noteq> []")
    case False
    with "1.prems" unfold show ?thesis by (auto split: sum.splits)
  next
    case True
    then obtain available where available: "fill_buf input = Inr available" "available \<noteq> []" by blast
    obtain consumed line1 exceeded1 ended where pass:
      "read_buffer available line exceeded = (consumed, line1, exceeded1, ended)"
      by (metis prod_cases4)
    with available read_buffer_progress [of available line exceeded] consume_buffer [OF available, of consumed]
    have less: "buffered (br_consume consumed input) < buffered input" by simp
    show ?thesis
    proof (cases ended)
      case True
      with "1.prems" unfold available pass less show ?thesis by auto
    next
      case False
      with "1.prems" unfold available pass
      have "read_line_loop (br_consume consumed input) line1 True exceeded1 = Inr (input', line', read_any', exceeded')"
        by simp
      from "1.IH" [OF available pass [symmetric] refl refl False this] less show ?thesis by linarith
    qed
  qed
qed

lemma read_interactive_line_progress:
  assumes "read_interactive_line from_utf8 input = Inr (line, input')" and "line \<noteq> EofLine"
  shows "buffered input' < buffered input"
  using assms by (auto simp: read_interactive_line_def dest: read_line_loop_progress split: sum.splits if_splits)

lemma writer_ops_failure: "fst (writer_ops ss w) = Inr () \<or> fst (writer_ops ss w) = Inl terminal_output_failure"
  by (induction ss arbitrary: w) (auto split: prod.splits bool.splits)

text \<open>
  \<open>session_post\<close>: after the view of the start, a session only fails on its streams, and it leaves a
  valid state.
\<close>

definition session_post :: "TerminalProfileIndex \<Rightarrow> session_run \<Rightarrow> bool" where
  "session_post index run \<longleftrightarrow>
     state_ok index (ss_state (snd run)) \<and>
     (fst run = Inr () \<or> fst run = Inl terminal_output_failure \<or> fst run = Inl interactive_input_failure)"

lemma writer_opsE:
  obtains w' where "writer_ops ss w = (Inr (), w')" | w' where "writer_ops ss w = (Inl terminal_output_failure, w')"
  using writer_ops_failure [of ss w] by (cases "writer_ops ss w") auto

lemma respond_post:
  assumes "state_ok index (ss_state s)"
  shows "session_post index (respond response s) \<and> ss_input (snd (respond response s)) = ss_input s"
proof -
  obtain ss where ops: "write_interactive_response (ss_output s) response = writer_ops ss (ss_output s)"
    unfolding write_interactive_response_def by blast
  show ?thesis
    unfolding respond_def ops by (rule writer_opsE [of ss "ss_output s"]) (use assms in \<open>simp_all add: session_post_def\<close>)
qed

lemma complain_post:
  assumes "state_ok index (ss_state s)"
  shows "session_post index (complain message s) \<and> ss_input (snd (complain message s)) = ss_input s"
  unfolding complain_def write_interactive_error_def
  by (rule writer_opsE [of "[''error: '', message, [CHR 0x0A], []]" "ss_error s"])
    (use assms respond_post [of index "s\<lparr>ss_error := w\<rparr>" "[]" for w] in
      \<open>auto simp: session_post_def simp del: writer_ops.simps\<close>)

text \<open>One step: it returns within the promise of the session, or it goes on with less input.\<close>

definition step_post ::
    "TerminalProfileIndex \<Rightarrow> BufRead \<Rightarrow> (RankedReportFailure + unit) option \<times> interactive_session \<Rightarrow> bool" where
  "step_post index input result \<longleftrightarrow>
     (case result of
        (Some r, s) \<Rightarrow> session_post index (r, s)
      | (None, s) \<Rightarrow> state_ok index (ss_state s) \<and> ss_input s = input)"

lemma going_on_post:
  "session_post index run \<and> ss_input (snd run) = input \<Longrightarrow> step_post index input (going_on run)"
  by (auto simp: step_post_def going_on_def session_post_def split: prod.splits sum.splits)

lemma returning_post: "session_post index run \<and> P \<Longrightarrow> step_post index input (returning run)"
  by (auto simp: step_post_def returning_def split: prod.splits)

lemma run_line_post:
  assumes ok: "index_ok index" and state: "state_ok index (ss_state s)"
  shows "\<exists>result. run_line pct index line s = Some result \<and> step_post index (ss_input s) result \<and>
    (line = EofLine \<longrightarrow> fst result \<noteq> None)"
proof (cases line)
  case EofLine
  then show ?thesis using state by (simp add: run_line_def step_post_def session_post_def)
next
  case (InvalidLine message)
  then show ?thesis using going_on_post [OF complain_post [OF state]] by (simp add: run_line_def)
next
  case (CommandLine command)
  obtain r state' where run: "run_interactive_command pct index (ss_state s) (trim command) = Some (r, state')"
    and state': "state_ok index (ss_state (s\<lparr>ss_state := state'\<rparr>))"
    using interactive_command_post [OF ok state, of pct "trim command"] by (auto simp: command_post_def)
  note posts = going_on_post [OF respond_post [OF state']] going_on_post [OF complain_post [OF state']]
    returning_post [OF respond_post [OF state']]
  show ?thesis
  proof (cases r)
    case (Inl message)
    with CommandLine run posts show ?thesis by (simp add: run_line_def)
  next
    case (Inr result)
    with CommandLine run posts show ?thesis by (cases result) (simp_all add: run_line_def)
  qed
qed

lemma inspect_step_post:
  assumes ok: "index_ok index" and state: "state_ok index (ss_state s)"
  obtains result where "inspect_step pct from_utf8 prompt index s = Some result"
    and "case result of
        (Some r, s') \<Rightarrow> session_post index (r, s')
      | (None, s') \<Rightarrow> state_ok index (ss_state s') \<and> buffered (ss_input s') < buffered (ss_input s)"
proof -
  let ?start = "if prompt then writer_ops [''profile> '', []] (ss_output s) else (Inr (), ss_output s)"
  consider (failed) w where "?start = (Inl terminal_output_failure, w)" | (ready) w where "?start = (Inr (), w)"
    by (rule writer_opsE [of "[''profile> '', []]" "ss_output s"]; cases prompt) auto
  then show ?thesis
  proof cases
    case failed
    with state show ?thesis by (intro that) (auto simp: inspect_step_def session_post_def simp del: writer_ops.simps)
  next
    case ready
    show ?thesis
    proof (cases "read_interactive_line from_utf8 (ss_input s)")
      case (Inl e)
      with ready state show ?thesis
        by (intro that) (auto simp: inspect_step_def session_post_def simp del: writer_ops.simps)
    next
      case (Inr read)
      obtain line input where read: "read = (line, input)" by (cases read)
      let ?s = "s\<lparr>ss_output := w, ss_input := input\<rparr>"
      obtain result where line: "run_line pct index line ?s = Some result" "step_post index input result"
        "line = EofLine \<longrightarrow> fst result \<noteq> None"
        using run_line_post [OF ok, of ?s pct line] state by auto
      moreover have "inspect_step pct from_utf8 prompt index s = Some result"
        using ready Inr read line(1) by (simp add: inspect_step_def del: writer_ops.simps)
      ultimately show ?thesis using read_interactive_line_progress [of from_utf8 "ss_input s" line input] Inr read
        by (intro that) (auto simp: step_post_def split: prod.splits option.splits)
    qed
  qed
qed

lemma session_loop_post:
  assumes ok: "index_ok index"
  shows "state_ok index (ss_state s) \<Longrightarrow>
    \<exists>run. interactive_loop pct from_utf8 prompt index s = Some run \<and> session_post index run"
proof (induction s rule: measure_induct_rule [of "\<lambda>s. buffered (ss_input s)"])
  case (less s)
  obtain result where step: "inspect_step pct from_utf8 prompt index s = Some result"
    "case result of
        (Some r, s') \<Rightarrow> session_post index (r, s')
      | (None, s') \<Rightarrow> state_ok index (ss_state s') \<and> buffered (ss_input s') < buffered (ss_input s)"
    by (rule inspect_step_post [OF ok less.prems])
  show ?case
    by (subst interactive_loop.simps) (use step less.IH in \<open>auto split: prod.splits option.splits\<close>)
qed

lemma interactive_session_ends:
  assumes shape: "well_structured document"
    and index: "TerminalProfileIndex_new document (ins_full_symbols (ss_state s)) (ins_all_frames (ss_state s)) = Some index"
    and state: "state_ok index (ss_state s)"
  shows "\<exists>run. run_interactive_session pct from_utf8 document prompt s = Some run \<and> session_post index run"
proof -
  have ok: "index_ok index"
    by (rule terminal_index_ok [OF shape, of "ins_full_symbols (ss_state s)" "ins_all_frames (ss_state s)"])
      (use index in simp)
  from state have "selection_in index (ins_selection (ss_state s))" by (simp add: state_ok_def)
  with render_view_total [OF ok] obtain response where response: "state_render pct index (ss_state s) = Some (Inr response)"
    unfolding state_render_def by meson
  obtain r s' where run: "respond response s = (r, s')" by (cases "respond response s")
  with respond_post [OF state, of response] have post: "session_post index (r, s')" by simp
  then have "state_ok index (ss_state s')" by (simp add: session_post_def)
  note loop = session_loop_post [OF ok this, of pct from_utf8 prompt]
  show ?thesis
    using index response run post loop by (cases r) (auto simp: run_interactive_session_def)
qed

subsection \<open>A line does not depend on the buffers\<close>

text \<open>
  The reference: the bytes up to the first newline, accepted up to the limit, without a carriage
  return at their end. A failure of the input is seen only when no newline comes before it.
\<close>

definition line_of_bytes :: "(bytes \<Rightarrow> string option) \<Rightarrow> bytes \<Rightarrow> InteractiveLine" where
  "line_of_bytes from_utf8 bs =
     (let line = takeWhile (\<lambda>b. b \<noteq> 10) bs in
      if bs = [] then EofLine
      else if MAX_INTERACTIVE_COMMAND_BYTES < length line
      then InvalidLine ''interactive command exceeds the 1024-byte limit''
      else (case from_utf8 (if line \<noteq> [] \<and> last line = 13 then butlast line else line) of
              Some command \<Rightarrow> CommandLine command
            | None \<Rightarrow> InvalidLine ''interactive command must be valid UTF-8''))"

lemma newline_found: "length (takeWhile (\<lambda>b. b \<noteq> c) bs) < length bs \<longleftrightarrow> c \<in> set bs"
  by (induction bs) auto

lemma newline_absent: "c \<notin> set bs \<Longrightarrow> takeWhile (\<lambda>b. b \<noteq> c) bs = bs"
  by (induction bs) auto

lemma newline_prefix: "take (min (length (takeWhile P bs)) k) bs = take k (takeWhile P bs)"
proof (induction bs arbitrary: k)
  case (Cons b bs)
  then show ?case by (cases k) auto
qed simp

lemma newline_position_iff:
  "newline_position bs =
     (if 10 \<in> set bs then Some (length (takeWhile (\<lambda>b. b \<noteq> 10) bs)) else None)"
  by (simp add: newline_position_def newline_found Let_def)

text \<open>
  What the loop line_held after the bytes \<open>seen\<close> of a line: their first 1025, and whether there are more
  than the limit.
\<close>

definition line_held :: "bytes \<Rightarrow> bytes \<Rightarrow> bool \<Rightarrow> bool" where
  "line_held seen line exceeded \<longleftrightarrow>
     line = take (MAX_INTERACTIVE_COMMAND_BYTES + 1) seen \<and>
     (exceeded \<longleftrightarrow> MAX_INTERACTIVE_COMMAND_BYTES < length seen)"

lemma read_buffer_holds:
  assumes "line_held seen line exceeded"
  shows "case read_buffer available line exceeded of (consumed, line', exceeded', ended) \<Rightarrow>
    consumed = (if 10 \<in> set available then length (takeWhile (\<lambda>b. b \<noteq> 10) available) + 1 else length available) \<and>
    ended = (10 \<in> set available) \<and> line_held (seen @ takeWhile (\<lambda>b. b \<noteq> 10) available) line' exceeded'"
proof -
  let ?payload = "takeWhile (\<lambda>b. b \<noteq> 10) available"
  let ?consumed = "if 10 \<in> set available then length ?payload + 1 else length available"
  show ?thesis
  proof (cases exceeded)
    case True
    with assms show ?thesis by (simp add: read_buffer_def newline_position_iff line_held_def Let_def)
  next
    case False
    with assms have line: "line = seen" "length seen \<le> MAX_INTERACTIVE_COMMAND_BYTES" by (simp_all add: line_held_def)
    let ?retained = "min (length ?payload) (MAX_INTERACTIVE_COMMAND_BYTES + 1 - length seen)"
    have "read_buffer available line exceeded =
        (?consumed, seen @ take ?retained available,
         ?retained \<noteq> length ?payload \<or> MAX_INTERACTIVE_COMMAND_BYTES < length (seen @ take ?retained available),
         10 \<in> set available)"
      using False line(1)
      by (cases "10 \<in> set available")
        (simp_all add: read_buffer_def Let_def newline_position_iff newline_absent)
    with line(2) show ?thesis unfolding newline_prefix by (simp add: line_held_def) arith
  qed
qed

lemma takeWhile_buffers:
  assumes "br_buffers input = buffer # buffers"
  shows "takeWhile (\<lambda>b. b \<noteq> 10) (concat (br_buffers input)) =
      (if 10 \<in> set buffer then takeWhile (\<lambda>b. b \<noteq> 10) buffer
       else buffer @ takeWhile (\<lambda>b. b \<noteq> 10) (concat buffers))"
  using assms by (auto simp: takeWhile_append newline_absent)

lemma read_line_loop_bytes:
  assumes "\<forall>buffer \<in> set (br_buffers input). buffer \<noteq> []" and "line_held seen line exceeded"
  shows "case read_line_loop input line read_any exceeded of
      Inl _ \<Rightarrow> br_failing input \<and> 10 \<notin> set (concat (br_buffers input))
    | Inr (input', line', read_any', exceeded') \<Rightarrow>
        (br_failing input \<longrightarrow> 10 \<in> set (concat (br_buffers input))) \<and>
        line_held (seen @ takeWhile (\<lambda>b. b \<noteq> 10) (concat (br_buffers input))) line' exceeded' \<and>
        read_any' = (read_any \<or> br_buffers input \<noteq> []) \<and>
        (\<forall>buffer \<in> set (br_buffers input'). buffer \<noteq> []) \<and> br_failing input' = br_failing input \<and>
        concat (br_buffers input') =
          drop (length (takeWhile (\<lambda>b. b \<noteq> 10) (concat (br_buffers input))) + 1) (concat (br_buffers input))"
  using assms
proof (induction "br_buffers input" arbitrary: input seen line read_any exceeded)
  case Nil
  then show ?case by (subst read_line_loop.simps) (simp add: fill_buf_def)
next
  case (Cons buffer buffers)
  note input = Cons.hyps(2) [symmetric]
  obtain consumed line1 exceeded1 ended where pass:
    "read_buffer buffer line exceeded = (consumed, line1, exceeded1, ended)" by (metis prod_cases4)
  from read_buffer_holds [OF Cons.prems(2), of buffer] pass
  have consumed: "consumed = (if 10 \<in> set buffer then length (takeWhile (\<lambda>b. b \<noteq> 10) buffer) + 1 else length buffer)"
    and ended: "ended = (10 \<in> set buffer)"
    and held: "line_held (seen @ takeWhile (\<lambda>b. b \<noteq> 10) buffer) line1 exceeded1" by simp_all
  have buffer: "fill_buf input = Inr buffer" "buffer \<noteq> []"
    using Cons.prems(1) input by (simp_all add: fill_buf_def)
  show ?case
  proof (cases ended)
    case True
    with ended newline_found [of 10 buffer]
    have less: "length (takeWhile (\<lambda>b. b \<noteq> 10) buffer) < length buffer" by simp
    show ?thesis
      by (subst read_line_loop.simps)
        (use buffer pass True ended held consumed input less Cons.prems(1) takeWhile_buffers [OF input] in
          \<open>auto simp: br_consume_def dest: in_set_dropD\<close>)
  next
    case False
    let ?input = "input\<lparr>br_buffers := buffers\<rparr>"
    from False ended consumed input have next_input: "br_consume consumed input = ?input"
      by (simp add: br_consume_def)
    have "line_held (seen @ buffer) line1 exceeded1" using held False ended by (simp add: newline_absent)
    with Cons.hyps(1) [of ?input "seen @ buffer" line1 exceeded1 True] Cons.prems(1) input
    show ?thesis
      by (subst read_line_loop.simps)
        (use buffer pass False ended next_input input takeWhile_buffers [OF input] in
          \<open>auto split: sum.splits prod.splits\<close>)
  qed
qed

lemma read_interactive_line_bytes:
  assumes "\<forall>buffer \<in> set (br_buffers input). buffer \<noteq> []"
  shows "if br_failing input \<and> 10 \<notin> set (concat (br_buffers input))
    then read_interactive_line from_utf8 input = Inl ()
    else \<exists>input'. read_interactive_line from_utf8 input =
        Inr (line_of_bytes from_utf8 (concat (br_buffers input)), input') \<and>
      (\<forall>buffer \<in> set (br_buffers input'). buffer \<noteq> []) \<and> br_failing input' = br_failing input \<and>
      concat (br_buffers input') =
        drop (length (takeWhile (\<lambda>b. b \<noteq> 10) (concat (br_buffers input))) + 1) (concat (br_buffers input))"
proof -
  have "line_held [] [] False" by (simp add: line_held_def)
  note loop = read_line_loop_bytes [OF assms this, of False]
  show ?thesis
  proof (cases "read_line_loop input [] False False")
    case (Inl e)
    with loop show ?thesis by (simp add: read_interactive_line_def)
  next
    case (Inr result)
    obtain input' line read_any exceeded where result: "result = (input', line, read_any, exceeded)"
      by (metis prod_cases4)
    let ?line = "takeWhile (\<lambda>b. b \<noteq> 10) (concat (br_buffers input))"
    from loop Inr result have held: "line_held ?line line exceeded" and any: "read_any = (br_buffers input \<noteq> [])"
      and rest: "br_failing input \<longrightarrow> 10 \<in> set (concat (br_buffers input))"
        "\<forall>buffer \<in> set (br_buffers input'). buffer \<noteq> []" "br_failing input' = br_failing input"
        "concat (br_buffers input') = drop (length ?line + 1) (concat (br_buffers input))"
      by simp_all
    from assms have "concat (br_buffers input) = [] \<longleftrightarrow> br_buffers input = []" by (cases "br_buffers input") auto
    with held any have "read_interactive_line from_utf8 input =
        Inr (line_of_bytes from_utf8 (concat (br_buffers input)), input')"
      using Inr result by (auto simp: read_interactive_line_def line_of_bytes_def line_held_def Let_def)
    with rest show ?thesis by auto
  qed
qed

subsection \<open>An example session\<close>

definition demo_inspect_state :: InspectState where
  "demo_inspect_state =
     \<lparr>ins_selection = RootSelection, ins_sort = ByDuration, ins_filter = None, ins_limit = DEFAULT_INSPECT_LIMIT,
      ins_depth = None, ins_full_symbols = False, ins_all_frames = False\<rparr>"

lemma demo_inspect_state_ok: "state_ok index demo_inspect_state"
  by (simp add: demo_inspect_state_def state_ok_def selection_in_def is_function_selection_def
      DEFAULT_INSPECT_LIMIT_def MAX_INSPECT_LIMIT_def)

definition demo_inspect_session :: interactive_session where
  "demo_inspect_session =
     \<lparr>ss_state = demo_inspect_state, ss_input = \<lparr>br_buffers = [[117], [112, 10]], br_failing = True\<rparr>,
      ss_output = \<lparr>tw_text = [], tw_results = []\<rparr>, ss_error = \<lparr>tw_text = [], tw_results = [True]\<rparr>\<rparr>"

end
