(* ===== verification/Spec2Isabelle.thy ===== *)
theory Spec2Isabelle
  imports DF_Redaction DF_Names DF_Target DF_Planning DF_Progress DF_Lifecycle DF_Write_Loop
    DF_Sink_Protocol DF_Workflow DF_Session_Example DF_Write_Example DF_Dry_Run
    DF_Preview_Example DF_Handoff DF_Profile_Example DF_Inspect
begin

text \<open>
  \<^bold>\<open>delta-funnel\<close> copies the results of queries over Delta tables into SQL Server. A session registers
  Delta sources and SQL-derived tables in a DataFusion catalog, plans one or several outputs, streams the
  batches of each query through a bulk writer into a prepared target table, and reports what happened.
  Beside this pipeline the crate records traces of its operations and turns them into ranked profiles,
  which a command line inspects. This development models the crate \<open>crates/delta-funnel\<close> (paths below are
  relative to its \<open>src\<close> directory) and proves what makes its parts correct. The properties are the labelled
  theorems of this theory (C1, C2, \<dots>); the component theories hold the model and the lemmas they rest on.

  \<^bold>\<open>Parts and theories\<close>
  \<^item> \<^emph>\<open>Shared.\<close> \<open>DF_Prelude\<close>: results, options, text and arithmetic of the standard library as the code
    uses them, and the \<open>named_theorems\<close> of the development. \<open>DF_Redaction\<close> (\<open>support/redaction.rs\<close>),
    \<open>DF_Report\<close> (\<open>report.rs\<close>), \<open>DF_Error\<close> (\<open>error.rs\<close>), \<open>DF_Names\<close> (\<open>table_formats/name.rs\<close>),
    \<open>DF_Types\<close> (data of the reports and requests), \<open>DF_Progress\<close> (\<open>progress.rs\<close>).
  \<^item> \<^emph>\<open>Planning.\<close> \<open>DF_Target\<close> (\<open>sql_server/target.rs\<close>), \<open>DF_Planning\<close> (\<open>sql_server/planning\<close>): schema,
    DDL, lifecycle and output plans.
  \<^item> \<^emph>\<open>Writing one output.\<close> \<open>DF_Client\<close> (the requests a connection sends, as a log), \<open>DF_Lifecycle\<close>
    (\<open>sql_server/execution/lifecycle.rs\<close>: prepare, clean up, swap), \<open>DF_Write_Report\<close>, \<open>DF_Write_Loop\<close>
    (\<open>execution/write.rs\<close>), \<open>DF_Sink\<close> (\<open>execution/sink.rs\<close>, \<open>execution/connection.rs\<close>);
    \<open>DF_Sink_Protocol\<close> states the abstract protocol \<open>run_post\<close> and proves that a run refines it,
    \<open>DF_Liveness\<close> that a cooperative server gets the output written.
  \<^item> \<^emph>\<open>Several outputs.\<close> \<open>DF_Workflow\<close> (\<open>execution/workflow.rs\<close>) with the abstract \<open>until_failure\<close>;
    \<open>DF_Cache_Plan\<close>, \<open>DF_Cache_Alias\<close>, \<open>DF_Write_All\<close> (\<open>orchestrator/session/sql_server_workflows\<close>).
  \<^item> \<^emph>\<open>Session.\<close> \<open>DF_Storage\<close>, \<open>DF_Sources\<close> (\<open>table_formats.rs\<close>, catalog registration), \<open>DF_Session\<close>,
    \<open>DF_Registry\<close>, \<open>DF_Lineage\<close> (\<open>orchestrator/session\<close>), \<open>DF_Session_Steps\<close> (the public operations as a
    step relation and the invariant of reachable sessions), \<open>DF_Dry_Run\<close>, \<open>DF_Source_Report\<close>.
  \<^item> \<^emph>\<open>Queries.\<close> \<open>DF_Arrow\<close>, \<open>DF_Query\<close>, \<open>DF_Query_Plan\<close>, \<open>DF_Query_Tracking\<close>, \<open>DF_Preview\<close>
    (\<open>orchestrator/session/query_handoff.rs\<close>), \<open>DF_Handoff\<close> (\<open>pipeline/batch_handoff.rs\<close>),
    \<open>DF_Schema_Compat\<close> (the check of a replanned schema), \<open>DF_Metrics\<close>, \<open>DF_Execution_Profile\<close>
    (\<open>report/execution_profile.rs\<close>, \<open>query_engine/datafusion/execution_profile.rs\<close>).
  \<^item> \<^emph>\<open>Profiles.\<close> \<open>DF_Trace_Sanitizer\<close>, \<open>DF_Sample_Fold\<close>, \<open>DF_Ranked_Profile\<close>, \<open>DF_Report_Aggregate\<close>,
    \<open>DF_Compact_Functions\<close>, \<open>DF_Terminal_Report\<close>, \<open>DF_Terminal_Index\<close>, \<open>DF_Inspect\<close>
    (\<open>perfetto_profile/report_trace_sanitizer.rs\<close>, \<open>ranked_report.rs\<close>, \<open>report_aggregate.rs\<close>,
    \<open>report_terminal.rs\<close>, \<open>report_cli.rs\<close>).
  \<^item> The theories \<open>DF_\<dots>_Example\<close> hold the concrete instances on which the witnesses evaluate the model.

  \<^bold>\<open>How the model reads\<close>
  \<^item> Structs are records and enums datatypes with the source's names; a method \<open>T::f\<close> is \<open>f\<close>, or \<open>T_f\<close>
    where names meet. \<open>Result\<close> is a sum with the error on the left. Operations that change state take it and
    return it: sink and lifecycle run in a \<open>world\<close> (the clock and the connection with the log of requests
    sent), write operations of the session in an \<open>engine_world\<close>. \<open>async\<close> calls are plain calls.
  \<^item> \<open>u64\<close> is \<open>64 word\<close>, with saturating and wrapping additions as in the code; \<open>usize\<close> is \<open>nat\<close>; the
    \<open>i64\<close> and \<open>u32\<close> of profiles are \<open>int\<close> with the checked additions written out. Durations are
    nanoseconds. A Rust string is a \<open>string\<close>, so characters are those up to U+00FF, and byte offsets of the
    code are character offsets.
  \<^item> A \<open>HashMap\<close> is a map or, where the code iterates, an association list in iteration order; a \<open>BTreeSet\<close>
    turned into a vector is a sorted distinct list. A stream of batches is a finite list of results; a reader
    is its bytes with what comes after them, or its buffers; a writer is what it holds and the results of its
    next operations. Physical plans are trees whose nodes have identities.
  \<^item> Code outside the repository is a parameter, with what is relied on as named hypotheses: SQL Server and
    \<open>arrow_sql_server\<close>, DataFusion and its catalog (\<open>catalog_laws\<close>), the Delta reader, URL parsing, Arrow's
    display of types and cells, the codecs and field numbers of traces (\<open>trace_format_laws\<close>), the JSON of
    trace records, the formatting of percentages, \<open>str::from_utf8\<close>, clap's errors.
  \<^item> A writer drops its stream when it returns; how a consumer left a stream is the parameter \<open>consumption\<close>.
    The order in which partition tasks complete is a parameter. File progress of a polled stream is the
    sampler automaton of \<open>DF_Progress\<close>; cache materialization and previews apply sampled counters.
  \<^item> Interfaces are locales, interpreted on the model's own definitions in the theories that provide them.

  \<^bold>\<open>Bounds and termination\<close>
  \<^item> The search for an auxiliary table name makes at most 100 attempts, as in the code, and names fit 128
    characters; the counter of table ids saturates. Traces have packets of at most 64 MiB and are written in
    chunks of 384 KiB, profiles have at most 500000 records, sessions lines of at most 1024 bytes.
  \<^item> Loops of the code are structural recursion or recursion with a measure (the remaining bytes, the levels
    left on a stack). Walks that would not end on cyclic profiles are \<open>partial_function (option)\<close>, where
    \<open>None\<close> is not ending; they are proved to end on well-structured profiles, and the checks of the code
    accept exactly those. No fuel is used.
  \<^item> Branches marked \<open>unreachable!()\<close> in cache planning are \<open>undefined\<close> and excluded by validation.

  \<^bold>\<open>What the theorems show\<close>
  \<^item> One output: the requests sent follow the protocol of the load mode whatever the server answers; a replace
    swaps only a staging table whose rows were counted; appending executes no statement; failures clean up.
  \<^item> Several outputs: outputs run in order until the first failure; write-all writes what was planned, restores
    the catalog, and refuses invalid requests before anything happens; dry runs plan like writes; cache plans
    are the frontier of shared aliases.
  \<^item> Session: reachable sessions are well formed, registration is all or nothing, lineage is the closure of
    direct reads. Queries: scans are finalized once, profiles cover every operator, previews report every
    phase and add no markup, the hand-off counts accepted batches.
  \<^item> Text and names: what is displayed is printable and hides credentials.
  \<^item> Profiles: sanitizing keeps the packets in scope; aggregated profiles are consistent; inclusive counts are
    sums over what is below, in the full and in the compact tree; commands keep an interactive session valid
    and the session ends.

  \<^bold>\<open>Not modelled\<close>
  \<^item> Tracing layers and the recording of profiles (\<open>observability.rs\<close>, \<open>profiling.rs\<close>,
    \<open>perfetto_profile/profile_layer.rs\<close>) beyond the summary of a scan, as they do not change results; the Tokio
    runtime, cancellation and panics of tasks; JSON and rkyv serialization; the HTML report, its checks of
    paths and the trace processor's child process; clap; the binaries; the Python bindings.
\<close>

section \<open>One output, from connection to swap\<close>

text \<open>
  C1. Whatever the server answers, writing one output first sends the connection request and
  then only requests allowed by the protocol \<open>run_post\<close>. On success: the target was prepared
  with the statements of its load mode, the writer was opened on the prepared table, the
  batches of the stream were sent once each in order and the load was finished; the report
  counts them, and a replaced target was swapped after its staging table's row count had been
  requested. On failure: at most the creating statements were executed, followed by the drop of
  the created table, with the swap in between only for a replace whose whole stream was valid.
\<close>

theorem run_follows_protocol:
  "\<exists>qs. cn_sent (w_conn (snd (run_mssql_output_connection_request api srv request items backend
            options reporter w))) =
          cn_sent (w_conn w) @ ConnectRequest (cc_connection_string (cr_connection request)) # qs \<and>
        run_post api (cr_output_plan request) items
          (fst (run_mssql_output_connection_request api srv request items backend options reporter w))
          qs"
  by (rule connection_request_step) simp

text \<open>
  C7. Appending to an existing table never executes a SQL statement of DeltaFunnel's own: no
  table is created, renamed or dropped, whether the run succeeds or fails.
\<close>

theorem append_executes_no_statement:
  assumes "pl_load_mode (cr_output_plan request) = AppendExisting" and "statements (cn_sent (w_conn w)) = []"
  shows "statements (cn_sent (w_conn (snd (run_mssql_output_connection_request api srv request items
           backend options reporter w)))) = []"
proof -
  obtain r w' where run: "run_mssql_output_connection_request api srv request items backend options
      reporter w = (r, w')"
    by (metis surj_pair)
  from connection_request_step [OF run] obtain qs where
    "cn_sent (w_conn w') = cn_sent (w_conn w) @
       ConnectRequest (cc_connection_string (cr_connection request)) # qs"
    "run_post api (cr_output_plan request) items r qs"
    by blast
  with run assms run_post_append [of api "cr_output_plan request" items r qs] show ?thesis
    by simp
qed

theorem append_executes_no_statement_witness:
  "statements (cn_sent (w_conn (snd (run_mssql_output_connection_request demo_api
     (demo_server True 5) (demo_request AppendExisting) [Inr (demo_batch 5)] DirectRawBulk
     ValidationOptions_new None demo_world)))) = []"
  by (rule append_executes_no_statement) (simp_all add: demo_world_def)



text \<open>
  C4. A replace that succeeds created one staging table, loaded and finished it, requested its
  row count, found it equal to the number of rows written, and only then executed the swap of
  that staging table with the target; it executed nothing else.
\<close>

theorem replace_swaps_validated_staging_table:
  assumes "fst (run_mssql_output_connection_request api srv request items backend options reporter w)
             = Inr rep"
    and "pl_load_mode (cr_output_plan request) = Replace"
  shows "wr_validation_status rep = ValidationStatus.Passed \<and>
    wr_target_row_count rep = wr_output_row_count rep \<and>
    (\<exists>qs. cn_sent (w_conn (snd (run_mssql_output_connection_request api srv request items backend
              options reporter w))) = cn_sent (w_conn w) @ qs \<and>
       swap_after_count api (cr_output_plan request) (tl qs))"
proof -
  obtain w' where run: "run_mssql_output_connection_request api srv request items backend options
      reporter w = (Inr rep, w')"
    using assms(1) by (metis fst_conv surj_pair)
  from connection_request_step [OF run] obtain qs where
    sent: "cn_sent (w_conn w') = cn_sent (w_conn w) @
       ConnectRequest (cc_connection_string (cr_connection request)) # qs"
    and post: "run_ok api (cr_output_plan request) items rep qs"
    by (auto simp: run_post_def)
  show ?thesis
    using run_ok_replace [OF post assms(2)] run sent by auto
qed

theorem replace_swaps_validated_staging_table_witness:
  "\<exists>rep. fst (run_mssql_output_connection_request demo_api
     (demo_server (Replace = AppendExisting) (sum_rows 0 [demo_batch 4]))
     (demo_request Replace) (map Inr [demo_batch 4]) DirectRawBulk ValidationOptions_new None
     demo_world) = Inr rep \<and> wr_validation_status rep = ValidationStatus.Passed"
proof -
  obtain rep w' where run: "run_mssql_output_connection_request demo_api
     (demo_server (Replace = AppendExisting) (sum_rows 0 [demo_batch 4]))
     (demo_request Replace) (map Inr [demo_batch 4]) DirectRawBulk ValidationOptions_new None
     demo_world = (Inr rep, w')"
    using demo_run_succeeds [of Replace "[demo_batch 4]" DirectRawBulk None demo_world] by auto
  then have "wr_validation_status rep = ValidationStatus.Passed"
    using replace_swaps_validated_staging_table [of demo_api
        "demo_server (Replace = AppendExisting) (sum_rows 0 [demo_batch 4])" "demo_request Replace"
        "map Inr [demo_batch 4]" DirectRawBulk ValidationOptions_new None demo_world rep]
    by simp
  with run show ?thesis
    by (metis fst_conv)
qed



text \<open>
  Disabling validation does not let a target be replaced unchecked: such a run fails.
\<close>

theorem replace_requires_validation:
  assumes "pl_load_mode (cr_output_plan request) = Replace"
    and "target_validation_mode options = TargetValidationMode.Disabled"
  shows "\<exists>e. fst (run_mssql_output_connection_request api srv request items backend options reporter w)
           = Inl e"
  using replace_without_validation_fails [OF assms]
  by (auto simp: run_mssql_output_connection_request_def isl_def split: prod.splits sum.splits)

theorem replace_requires_validation_witness:
  "\<exists>e. fst (run_mssql_output_connection_request demo_api (demo_server False 1) (demo_request Replace)
     [Inr (demo_batch 1)] DirectRawBulk
     (with_target_validation_mode TargetValidationMode.Disabled ValidationOptions_new) None demo_world)
     = Inl e"
  by (rule replace_requires_validation)
     (simp_all add: with_target_validation_mode_def ValidationOptions_new_def)

section \<open>Several outputs\<close>

text \<open>
  C9. The multi-output workflow behaves as its abstract specification: with the sequential
  options it always returns a report with one status per output, in order, the attempted
  outputs being those up to the first failure; successes come first, then possibly one failure,
  then only skipped outputs that name the failed one.
\<close>

theorem workflow_stops_at_first_failure:
  assumes "max_parallel_outputs options = 1"
  shows "write_mssql_outputs_with_writer jobs options writer w =
      (Inr \<lparr>wf_outputs = fst (until_failure writer jobs w)\<rparr>, snd (until_failure writer jobs w)) \<and>
    length (fst (until_failure writer jobs w)) = length jobs \<and>
    stopped_report (fst (until_failure writer jobs w))"
  using workflow_run [OF assms] by (simp add: until_failure_stopped length_until_failure)

theorem workflow_stops_at_first_failure_witness:
  "\<exists>rep. fst (write_mssql_outputs_with_writer [demo_failing_job, demo_failing_job]
     MssqlWorkflowWriteOptions_new (stream_benchmark_output_writer demo_api) demo_world) = Inr rep \<and>
     length (wf_outputs rep) = 2 \<and> stopped_report (wf_outputs rep)"
  using workflow_stops_at_first_failure [of MssqlWorkflowWriteOptions_new
      "[demo_failing_job, demo_failing_job]" "stream_benchmark_output_writer demo_api" demo_world]
  by (simp add: MssqlWorkflowWriteOptions_new_def)

text \<open>
  C17. An output after the failed one is not attempted: running only the outputs up to the first
  failure leaves exactly the same world, so no stream factory, connection or writer of a later
  output was touched.
\<close>

theorem workflow_later_outputs_untouched:
  assumes "max_parallel_outputs options = 1"
    and "write_mssql_outputs_with_writer jobs options writer w = (Inr rep, w')"
  shows "write_mssql_outputs_with_writer
           (take (length (takeWhile is_succeeded (wf_outputs rep)) + 1) jobs) options writer w =
         (Inr \<lparr>wf_outputs = take (length (takeWhile is_succeeded (wf_outputs rep)) + 1) (wf_outputs rep)\<rparr>,
          w')"
proof -
  from assms have "until_failure writer jobs w = (wf_outputs rep, w')"
    by (auto simp: workflow_run)
  from until_failure_world [OF this] assms(1) show ?thesis
    by (simp add: workflow_run)
qed

theorem workflow_later_outputs_untouched_witness:
  "\<exists>rep w'. write_mssql_outputs_with_writer [demo_failing_job, demo_job Replace (Inr [])]
     MssqlWorkflowWriteOptions_new (workflow_sink_writer demo_api (demo_server False 0)) demo_world =
       (Inr rep, w') \<and>
     snd (write_mssql_outputs_with_writer [demo_failing_job] MssqlWorkflowWriteOptions_new
       (workflow_sink_writer demo_api (demo_server False 0)) demo_world) = w'"
proof -
  let ?writer = "workflow_sink_writer demo_api (demo_server False 0)"
    and ?jobs = "[demo_failing_job, demo_job Replace (Inr [])]"
  obtain f w1 where "write_mssql_output_job demo_failing_job ?writer demo_world =
      (MssqlOutputWriteStatus.Failed f, w1)"
    using demo_failing_job_fails by blast
  then obtain rep w' where run: "write_mssql_outputs_with_writer ?jobs MssqlWorkflowWriteOptions_new
      ?writer demo_world = (Inr rep, w')"
    and "takeWhile is_succeeded (wf_outputs rep) = []"
    by (simp add: workflow_run MssqlWorkflowWriteOptions_new_def)
  with workflow_later_outputs_untouched [OF _ run] show ?thesis
    by (simp add: MssqlWorkflowWriteOptions_new_def)
qed

text \<open>
  Requesting any other number of parallel writers than one is rejected before anything is
  done: an error, and the world unchanged.
\<close>

theorem workflow_rejects_parallel_writers:
  assumes "max_parallel_outputs options \<noteq> 1"
  shows "\<exists>msg. write_mssql_outputs_with_writer jobs options writer w = (Inl (MssqlWorkflowPlanning msg), w)"
  using assms
  by (simp add: write_mssql_outputs_with_writer_def ensure_sequential_options_def
      workflow_options_validate_def)

theorem workflow_rejects_parallel_writers_witness:
  "\<exists>msg. write_mssql_outputs_with_writer [demo_failing_job]
     (with_max_parallel_outputs 4 MssqlWorkflowWriteOptions_new)
     (stream_benchmark_output_writer demo_api) demo_world =
     (Inl (MssqlWorkflowPlanning msg), demo_world)"
  by (rule workflow_rejects_parallel_writers)
     (simp add: with_max_parallel_outputs_def MssqlWorkflowWriteOptions_new_def)

text \<open>
  The counts of a report the workflow returns: every output is counted once, at most one
  has failed, and all have succeeded exactly when none has failed.
\<close>

theorem workflow_report_counts:
  assumes "fst (write_mssql_outputs_with_writer jobs options writer w) = Inr rep"
  shows "succeeded_count rep + failed_count rep + skipped_count rep = length jobs \<and>
    failed_count rep \<le> 1 \<and> (all_succeeded rep \<longleftrightarrow> failed_count rep = 0)"
proof -
  from assms have one: "max_parallel_outputs options = 1"
    by (auto simp: write_mssql_outputs_with_writer_def ensure_sequential_options_def
        workflow_options_validate_def split: if_splits)
  with assms have rep: "wf_outputs rep = fst (until_failure writer jobs w)"
    by (auto simp: workflow_run)
  note stopped = until_failure_stopped [of writer jobs w, folded rep]
  show ?thesis
    using status_partition [of "wf_outputs rep"] stopped_report_counts [OF stopped]
      succeeded_not_failed [of "wf_outputs rep"] length_until_failure [of writer jobs w]
    by (auto simp: succeeded_count_def failed_count_def skipped_count_def all_succeeded_def rep)
qed

theorem workflow_report_counts_witness:
  "\<exists>rep. fst (write_mssql_outputs_with_writer [demo_failing_job, demo_failing_job]
     MssqlWorkflowWriteOptions_new (stream_benchmark_output_writer demo_api) demo_world) = Inr rep \<and>
     succeeded_count rep + failed_count rep + skipped_count rep = 2"
  using workflow_report_counts [of "[demo_failing_job, demo_failing_job]"
      MssqlWorkflowWriteOptions_new "stream_benchmark_output_writer demo_api" demo_world]
  by (simp add: workflow_run MssqlWorkflowWriteOptions_new_def)

text \<open>
  The statuses of a workflow run by the sink are about the jobs, in their order: the
  \<open>i\<close>-th status has the output name, target table and load mode of the \<open>i\<close>-th job's target.
\<close>

theorem workflow_statuses_match_jobs:
  assumes "fst (write_mssql_outputs_to_mssql api srv jobs options w) = Inr rep"
    and "list_all (job_wf cn_sent) jobs"
  shows "list_all2 status_target_of (map job_resolved_target jobs) (wf_outputs rep)"
proof -
  from assms have one: "max_parallel_outputs options = 1"
    by (auto simp: write_mssql_outputs_to_mssql_def write_mssql_outputs_with_writer_def
        ensure_sequential_options_def workflow_options_validate_def split: if_splits)
  obtain statuses w' where run: "until_failure (workflow_sink_writer api srv) jobs w = (statuses, w')"
    by (metis surj_pair)
  with one assms have "wf_outputs rep = statuses"
    by (auto simp: write_mssql_outputs_to_mssql_def workflow_run)
  with sink_workflow.until_failure_run [OF run assms(2)] show ?thesis
    by simp
qed

theorem workflow_statuses_match_jobs_witness:
  "\<exists>rep. fst (write_mssql_outputs_to_mssql demo_api (demo_server False 0)
     [demo_job CreateAndLoad (Inr []), demo_failing_job] MssqlWorkflowWriteOptions_new demo_world) =
     Inr rep \<and>
     list_all2 status_target_of [demo_target CreateAndLoad, demo_target AppendExisting] (wf_outputs rep)"
  using workflow_statuses_match_jobs [of demo_api "demo_server False 0"
      "[demo_job CreateAndLoad (Inr []), demo_failing_job]" MssqlWorkflowWriteOptions_new demo_world]
    demo_job_wf
  by (simp add: write_mssql_outputs_to_mssql_def workflow_run MssqlWorkflowWriteOptions_new_def
      demo_failing_job_def)

text \<open>
  A workflow whose outputs all append executes no statement on the server, however many
  outputs it attempts and however they end.
\<close>

theorem append_workflow_executes_no_statement:
  assumes "list_all (job_wf cn_sent) jobs"
    and "list_all (\<lambda>j. rt_load_mode (job_resolved_target j) = AppendExisting) jobs"
  shows "statements (cn_sent (w_conn (snd (write_mssql_outputs_to_mssql api srv jobs options w)))) =
           statements (cn_sent (w_conn w))"
proof (cases "max_parallel_outputs options = 1")
  case True
  obtain statuses w' where run: "until_failure (workflow_sink_writer api srv) jobs w = (statuses, w')"
    by (metis surj_pair)
  from sink_workflow.until_failure_run [OF run assms(1)] obtain qss where
    "cn_sent (w_conn w') = cn_sent (w_conn w) @ concat qss"
    "list_all2 (sink_allowed api) (map job_resolved_target (take (length qss) jobs)) qss"
    by blast
  with True run append_only_statements [OF _ assms(2), of api qss] show ?thesis
    by (simp add: write_mssql_outputs_to_mssql_def workflow_run)
qed (simp add: write_mssql_outputs_to_mssql_def write_mssql_outputs_with_writer_def
    ensure_sequential_options_def workflow_options_validate_def)

theorem append_workflow_executes_no_statement_witness:
  "statements (cn_sent (w_conn (snd (write_mssql_outputs_to_mssql demo_api (demo_server True 3)
     [demo_job AppendExisting (Inr [Inr (demo_batch 3)]), demo_failing_job]
     MssqlWorkflowWriteOptions_new demo_world)))) = []"
  using append_workflow_executes_no_statement [of
      "[demo_job AppendExisting (Inr [Inr (demo_batch 3)]), demo_failing_job]" demo_api
      "demo_server True 3" MssqlWorkflowWriteOptions_new demo_world] demo_job_wf
  by (simp add: demo_failing_job_def demo_target_def demo_world_def)

text \<open>
  The stream benchmark drains the outputs without touching the server: no request is sent,
  and the statuses are still those of the jobs in order.
\<close>

theorem benchmark_workflow_sends_nothing:
  assumes "list_all (job_wf cn_sent) jobs"
  shows "cn_sent (w_conn (snd (write_mssql_outputs_with_writer jobs options
           (stream_benchmark_output_writer api) w))) = cn_sent (w_conn w)"
proof (cases "max_parallel_outputs options = 1")
  case True
  obtain statuses w' where run: "until_failure (stream_benchmark_output_writer api) jobs w = (statuses, w')"
    by (metis surj_pair)
  from benchmark_workflow.until_failure_run [OF run assms] obtain qss where
    "cn_sent (w_conn w') = cn_sent (w_conn w) @ concat qss" "concat qss = []"
    using list_all2_Nil_concat by blast
  with True run show ?thesis
    by (simp add: workflow_run)
qed (simp add: write_mssql_outputs_with_writer_def ensure_sequential_options_def
    workflow_options_validate_def)

theorem benchmark_workflow_sends_nothing_witness:
  "cn_sent (w_conn (snd (write_mssql_outputs_with_writer [demo_job Replace (Inr [Inr (demo_batch 3)])]
     MssqlWorkflowWriteOptions_new (stream_benchmark_output_writer demo_api) demo_world))) = []"
  using benchmark_workflow_sends_nothing [of "[demo_job Replace (Inr [Inr (demo_batch 3)])]"
      MssqlWorkflowWriteOptions_new demo_api demo_world] demo_job_wf
  by (simp add: demo_world_def)

text \<open>
  The timings of a failed output: for each phase the failure context's last timing when it
  has one, the workflow's otherwise.
\<close>

theorem merged_failure_timings_prefer_context:
  "timing_of (merged_failure_phase_timings ts context) n =
     (case Option.bind context (\<lambda>c. timing_of (rev (wr_phase_timings (fc_report c))) n) of
        Some t \<Rightarrow> Some t
      | None \<Rightarrow> timing_of ts n)"
  by (cases "context") (simp_all add: merged_failure_phase_timings_def fold_merge_timing_of)

section \<open>The write loop\<close>


text \<open>
  C20. The row and batch counters of a completed load are the sums over the stream, saturating
  at the largest 64-bit number instead of wrapping.
\<close>

theorem written_counters_saturate:
  assumes "fst (write_mssql_batches_with_writer api (connected_bulk_writer srv) p (map Inr bs) reporter w)
             = Inr rep"
  shows "unat (st_rows_written (wr_stats rep)) =
      min (\<Sum>b\<leftarrow>bs. unat (batch_row_count b)) (2 ^ 64 - 1) \<and>
    unat (st_batches_written (wr_stats rep)) = min (length bs) (2 ^ 64 - 1) \<and>
    wr_output_row_count rep = RowCount.Exact (st_rows_written (wr_stats rep))"
proof -
  obtain w' where run: "write_mssql_batches_with_writer api (connected_bulk_writer srv) p (map Inr bs)
      reporter w = (Inr rep, w')"
    using assms by (metis fst_conv surj_pair)
  from emitsD [OF connected_writer.emits_write run] have "written_report p bs rep"
    by (auto simp: write_post_def dest: map_injective)
  then show ?thesis
    by (simp add: written_report_def unat_sum_rows unat_sum_batches)
qed

theorem written_counters_saturate_witness:
  "\<exists>rep. fst (write_mssql_batches_with_writer demo_api (connected_bulk_writer (demo_server True 0))
     (demo_plan AppendExisting) (map Inr [demo_batch 2, demo_batch 3]) None demo_world) = Inr rep \<and>
     unat (st_batches_written (wr_stats rep)) = 2"
proof -
  obtain rep w' where run: "write_mssql_batches_with_writer demo_api
      (connected_bulk_writer (demo_server True 0)) (demo_plan AppendExisting)
      (map Inr [demo_batch 2, demo_batch 3]) None demo_world = (Inr rep, w')"
    using write_returns [OF demo_valid demo_answers] by blast
  with written_counters_saturate [of demo_api "demo_server True 0" "demo_plan AppendExisting"
      "[demo_batch 2, demo_batch 3]" None demo_world rep]
  have "unat (st_batches_written (wr_stats rep)) = 2"
    by simp
  with run show ?thesis
    by simp
qed

section \<open>Preparing, cleaning up and swapping targets\<close>

text \<open>
  Preparing a target only asks for tables and executes at most the creating statement of
  the load mode; the prepared target it returns is the target table itself, or for a replace the
  staging table of one of the hundred attempts.
\<close>

theorem prepare_target_contract:
  "\<exists>qs. cn_sent (snd (prepare_mssql_target_lifecycle api p (connected_lifecycle_client srv) c)) =
          cn_sent c @ qs \<and>
        prepare_post api p
          (fst (prepare_mssql_target_lifecycle api p (connected_lifecycle_client srv) c)) qs"
  by (rule emits_run [OF connected.emits_prepare])

text \<open>
  Cleaning up executes one drop, of the prepared table, when the run created that table, and
  nothing when the table was there before or the prepared target is another output's.
\<close>

theorem cleanup_target_contract:
  "\<exists>qs. cn_sent (snd (cleanup_mssql_prepared_target api p (Some t) (connected_lifecycle_client srv) c)) =
          cn_sent c @ qs \<and>
        cleanup_post api p t
          (fst (cleanup_mssql_prepared_target api p (Some t) (connected_lifecycle_client srv) c)) qs"
  by (rule emits_run [OF connected.emits_cleanup])

text \<open>
  The swap executes its script once and last, after asking for the backup names up to one
  the server does not know; a swap that fails before that executes nothing, and only a replace
  output whose staging table was prepared can be swapped.
\<close>

theorem swap_target_contract:
  "\<exists>qs. cn_sent (snd (swap_mssql_replace_target api p t (connected_lifecycle_client srv) c)) =
          cn_sent c @ qs \<and>
        swap_post api p t (fst (swap_mssql_replace_target api p t (connected_lifecycle_client srv) c)) qs"
  by (rule emits_run [OF connected.emits_swap])


text \<open>
  C36. Every staging or backup table name derived for an attempt fits the 128 characters of a SQL
  Server identifier, however long the target's name is.
\<close>

theorem auxiliary_names_fit:
  assumes "naming_contract api" and "attempt < 100"
    and "replace_staging_table_name api p attempt = Inr n \<or>
         replace_backup_table_name api p attempt = Inr n"
  shows "length (tn_table n) \<le> 128"
proof -
  have "length (show_nat attempt) \<le> 2"
    using assms(2) by (rule length_show_nat_two_digits)
  with assms(1,3) show ?thesis
    by (auto simp: replace_staging_table_name_def replace_backup_table_name_def
        replace_auxiliary_table_name_def MAX_IDENTIFIER_CHARS_def
        dest!: table_name_from_parts_ok [OF assms(1)]
        intro!: length_auxiliary_table [unfolded MAX_IDENTIFIER_CHARS_def])
qed

theorem auxiliary_names_fit_witness:
  "\<exists>n. replace_staging_table_name demo_api (demo_plan Replace) 7 = Inr n \<and> length (tn_table n) \<le> 128"
proof -
  obtain n where "replace_staging_table_name demo_api (demo_plan Replace) 7 = Inr n"
    by (cases "tt_schema (pl_target_table (demo_plan Replace))")
       (simp_all add: replace_staging_table_name_def replace_auxiliary_table_name_def
         table_name_from_parts_def demo_api_def)
  with auxiliary_names_fit [OF demo_naming, of 7 "demo_plan Replace" n] show ?thesis
    by simp
qed

text \<open>
  The application lock resource of a replace never exceeds the 255 characters the server
  accepts.
\<close>

theorem lock_resource_fits: "length (replace_lock_resource api final) \<le> 255"
  using length_replace_lock_resource [of api final] by (simp add: MAX_RESOURCE_CHARS_def)

text \<open>
  A name put into the swap script as an \<open>nvarchar\<close> literal is read back unchanged by the
  server, whatever quotes it contains: it can neither end the literal nor alter the script.
\<close>

theorem nvarchar_literal_round_trip:
  assumes "rest = [] \<or> hd rest \<noteq> QUOTE"
  shows "read_nvarchar_literal (sql_nvarchar_literal value @ rest) = Some (value, rest)"
  using assms by (rule read_sql_nvarchar_literal)

theorem nvarchar_literal_round_trip_witness:
  "read_nvarchar_literal (sql_nvarchar_literal [CHR ''a'', QUOTE, CHR '';''] @ '';'') =
     Some ([CHR ''a'', QUOTE, CHR '';''], '';'')"
  by (rule nvarchar_literal_round_trip) (simp add: QUOTE_def)

text \<open>
  C37. The one target name the staging scheme cannot serve: a table name of 128 characters that
  ends in the staging suffix of the first attempt is its own staging name.
\<close>

theorem staging_name_collides_iff:
  assumes "naming_contract api" and "replace_staging_table_name api p 0 = Inr staging"
    and "table_name_from_target api (pl_output_name p) (pl_target_table p) = Inr final"
  shows "staging = final \<longleftrightarrow>
    length (tt_table (pl_target_table p)) = 128 \<and>
    drop 114 (tt_table (pl_target_table p)) = ''__df_replace_0''"
proof -
  have zero: "show_nat 0 = ''0''"
    by (simp add: show_nat.simps digit_char_def, code_simp)
  from assms have "staging = \<lparr>tn_schema = tt_schema (pl_target_table p),
      tn_table = auxiliary_table (tt_table (pl_target_table p)) (''__df_replace_'' @ show_nat 0)\<rparr>"
    "final = \<lparr>tn_schema = tt_schema (pl_target_table p), tn_table = tt_table (pl_target_table p)\<rparr>"
    by (auto simp: replace_staging_table_name_def replace_auxiliary_table_name_def
        table_name_from_target_def dest: table_name_from_parts_ok)
  then show ?thesis
    using auxiliary_table_eq_iff [of "''__df_replace_0''" "tt_table (pl_target_table p)"]
    by (simp add: zero MAX_IDENTIFIER_CHARS_def)
qed

theorem staging_name_collides_iff_witness:
  "\<exists>staging final. replace_staging_table_name demo_api (demo_plan Replace) 0 = Inr staging \<and>
     table_name_from_target demo_api ''orders'' (pl_target_table (demo_plan Replace)) = Inr final \<and>
     staging \<noteq> final"
proof -
  have p: "pl_target_table (demo_plan Replace) = \<lparr>tt_schema = Some ''dbo'', tt_table = ''orders''\<rparr>"
    "pl_output_name (demo_plan Replace) = ''orders''"
    by (simp_all add: demo_plan_wf(2) demo_target_def)
  obtain staging final where
    "replace_staging_table_name demo_api (demo_plan Replace) 0 = Inr staging"
    "table_name_from_target demo_api ''orders'' (pl_target_table (demo_plan Replace)) = Inr final"
    by (simp add: replace_staging_table_name_def replace_auxiliary_table_name_def p
        table_name_from_target_def table_name_from_parts_def demo_api_def)
  with staging_name_collides_iff [OF demo_naming, of "demo_plan Replace" staging final] p
  show ?thesis
    by auto
qed

section \<open>Planning\<close>

text \<open>
  A schema is accepted exactly when its field names are distinct, and otherwise the error
  names the first repeated field with the index of the repetition and of the field it repeats.
\<close>

theorem duplicate_field_detection:
  "(validate_unique_output_field_names out schema = Inr ()) = distinct (map fd_name (sch_fields schema)) \<and>
   (case validate_unique_output_field_names out schema of
      Inr _ \<Rightarrow> True
    | Inl e \<Rightarrow> \<exists>j k. e = DuplicateMssqlOutputField out (fd_name (sch_fields schema ! k)) j k \<and>
        j < k \<and> k < length (sch_fields schema) \<and> fd_name (sch_fields schema ! j) = fd_name (sch_fields schema ! k) \<and>
        distinct (map fd_name (take k (sch_fields schema))))"
  using validate_unique_ok [of out schema "()"] validate_unique_err [of out schema]
  by (auto split: sum.split)

text \<open>
  C38. A plan made for a resolved target is consistent: its schema, DDL and lifecycle parts speak
  of that target, the expected table state and the guard rails are those of the load mode, and
  create-table SQL for the target table is there exactly for create-and-load.
\<close>

theorem planned_output_well_formed:
  assumes "plan_mssql_target_for_resolved_output api schema t options = Inr p"
  shows "plan_wf api p \<and> pl_target p = target_summary t"
  using plan_for_resolved_wf [OF assms] by simp

theorem planned_output_well_formed_witness:
  "plan_wf demo_api (demo_plan CreateAndLoad) \<and>
     pl_target (demo_plan CreateAndLoad) = target_summary (demo_target CreateAndLoad)"
  by (rule planned_output_well_formed) (rule demo_plan_eq)

section \<open>Targets and names\<close>

text \<open>
  Target resolution: a connection of the target itself wins over the context's default, and
  without either the error names the output.
\<close>

theorem resolve_prefers_target_connection:
  "case resolve cfg ctx of
     Inr t \<Rightarrow> rt_table t = tc_table cfg \<and> rt_load_mode t = tc_load_mode cfg \<and>
       (case tc_connection cfg of
          Some c \<Rightarrow> rt_connection t = c \<and> rt_connection_source t = TargetOverride
        | None \<Rightarrow> rc_default_connection ctx = Some (rt_connection t) \<and>
            rt_connection_source t = ContextDefault)
   | Inl e \<Rightarrow> tc_connection cfg = None \<and> rc_default_connection ctx = None \<and>
       e = MissingMssqlConnection
             (case rc_output_name ctx of Some n \<Rightarrow> n | None \<Rightarrow> ''<unnamed>'')"
  by (auto simp: resolve_cases split: option.split)

text \<open>
  What is displayed or reported of a target does not depend on its connection string: two
  targets that differ only there have the same summary and the same display.
\<close>

theorem summaries_hide_connection_string:
  "target_summary (t\<lparr>rt_connection := \<lparr>cc_connection_string = s, cc_display_label = l\<rparr>\<rparr>) =
     target_summary (t\<lparr>rt_connection := \<lparr>cc_connection_string = s', cc_display_label = l\<rparr>\<rparr>) \<and>
   MssqlConnectionConfig_display \<lparr>cc_connection_string = s, cc_display_label = l\<rparr> =
     MssqlConnectionConfig_display \<lparr>cc_connection_string = s', cc_display_label = l\<rparr>"
  by (intro conjI summary_independent_of_secret) simp_all

text \<open>
  A list of source names is accepted exactly when every name is an ASCII identifier that is
  no reserved keyword and no two names differ only in case.
\<close>

theorem source_names_accepted_iff:
  "(validate_table_source_names names = Inr ()) =
     (list_all source_identifier names \<and> distinct (map to_ascii_lowercase names))"
  by (simp add: validate_names_ok list_all_iff)

text \<open>
  The error of a rejected list names the first offending source: all names before it are
  acceptable, and it is either no identifier itself or repeats one of them up to case.
\<close>

theorem first_offending_source_name:
  assumes "validate_table_source_names names = Inl e"
  shows "\<exists>pre n post. names = pre @ n # post \<and>
    validate_table_source_names pre = Inr () \<and>
    ((\<exists>reason. e = InvalidSourceName n reason \<and> \<not> source_identifier n) \<or>
     (e = DuplicateSourceName n \<and> to_ascii_lowercase n \<in> to_ascii_lowercase ` set pre))"
proof -
  from validate_names_loop_err [OF assms [unfolded validate_table_source_names_def]]
  obtain pre n post where "names = pre @ n # post" "\<forall>m \<in> set pre. source_identifier m"
    "distinct (map to_ascii_lowercase pre)"
    "(\<exists>reason. e = InvalidSourceName n reason \<and> \<not> source_identifier n) \<or>
     (e = DuplicateSourceName n \<and> to_ascii_lowercase n \<in> to_ascii_lowercase ` set pre)"
    by auto
  then show ?thesis
    by (intro exI [of _ pre] exI [of _ n] exI [of _ post]) (simp add: validate_names_ok)
qed

theorem first_offending_source_name_witness:
  "\<exists>e pre n post. validate_table_source_names [''orders'', ''Orders''] = Inl e \<and>
     [''orders'', ''Orders''] = pre @ n # post \<and> validate_table_source_names pre = Inr ()"
proof -
  have "to_ascii_lowercase ''Orders'' = to_ascii_lowercase ''orders''"
    by code_simp
  then have "validate_table_source_names [''orders'', ''Orders''] \<noteq> Inr ()"
    by (simp add: validate_names_ok)
  then obtain e where "validate_table_source_names [''orders'', ''Orders''] = Inl e"
    by (cases "validate_table_source_names [''orders'', ''Orders'']") auto
  with first_offending_source_name [OF this] show ?thesis
    by blast
qed

section \<open>Display\<close>

text \<open>
  C39. Text prepared for display holds only printable ASCII characters, and loses nothing: an
  unescaper reads the original back, so two texts are displayed alike only if they are equal.
\<close>

theorem displayed_text_is_printable_and_readable:
  "all_printable (sanitize_text_for_display s) \<and>
     unescape (sanitize_text_for_display s) = Some s"
  by (simp add: unescape_sanitize)



text \<open>
  The display codes of row counts, validation statuses and phase statuses are unambiguous:
  equal texts come from equal values.
\<close>

theorem status_display_codes_injective:
  "(RowCount_to_string a = RowCount_to_string b) = (a = b) \<and>
   (ValidationStatus_to_string v = ValidationStatus_to_string v') = (v = v') \<and>
   (PhaseStatus_to_string p = PhaseStatus_to_string p') = (p = p')"
  by (simp add: RowCount_to_string_inject ValidationStatus_to_string_inject PhaseStatus_to_string_inject)

text \<open>
  The display of every error of the SQL Server components is printable ASCII, whatever text
  the server, the driver or the configuration put into it.
\<close>

theorem sql_server_errors_display_printable:
  assumes "sql_server_error e"
  shows "all_printable (DeltaFunnelError_display e)"
  using assms by (rule sql_server_error_display_printable)

theorem sql_server_errors_display_printable_witness:
  "all_printable (DeltaFunnelError_display (MssqlWorkflowPlanning [CHR 0x0A]))"
  by (rule sql_server_errors_display_printable) simp

section \<open>Progress\<close>

text \<open>
  A reporter scoped to one output of several forwards only well-formed events that carry the
  output's position, and drops events without a snapshot, so that the operation's own start and
  end are reported once.
\<close>

theorem scoped_reporter_events:
  assumes "for_output ProgressReporter_new index n = Some r" and "event_wf e"
    and "list_all event_wf log"
  shows "list_all event_wf (emit r e log) \<and>
    (case event_snapshot e of
       None \<Rightarrow> emit r e log = log
     | Some _ \<Rightarrow> \<exists>e'. emit r e log = log @ [e'] \<and>
         event_output_position e' = Some \<lparr>po_index = index, po_count = n\<rparr>)"
proof -
  from assms(1) have r: "pr_callback r" "pr_output_position r = Some \<lparr>po_index = index, po_count = n\<rparr>"
    "reporter_wf r"
    by (auto simp: for_output_def ProgressReporter_new_def position_new_iff reporter_wf_def)
  from r have new: "ProgressOutputPosition_new index n = Some \<lparr>po_index = index, po_count = n\<rparr>"
    by (simp add: position_new_iff reporter_wf_def)
  have "list_all event_wf (emit r e log)"
    using assms(2,3) by (rule emit_wf)
  moreover have "\<exists>e'. emit r e log = log @ [e'] \<and>
         event_output_position e' = Some \<lparr>po_index = index, po_count = n\<rparr>"
    if "event_snapshot e = Some s" for s
    using r that by (cases e) (auto simp: emit_def with_output_position_def new event_output_position_def)
  moreover have "emit r e log = log" if "event_snapshot e = None"
    using emit_scoped [OF r(3,2,1), of e log] that by simp
  ultimately show ?thesis
    by (auto split: option.split)
qed

theorem scoped_reporter_events_witness:
  "\<exists>r. for_output ProgressReporter_new 2 3 = Some r \<and>
     emit r ProgressEvent.Completed [] = []"
proof -
  obtain r where r: "for_output ProgressReporter_new 2 3 = Some r"
    by (simp add: for_output_def ProgressOutputPosition_new_def)
  with scoped_reporter_events [OF r, of ProgressEvent.Completed "[]"] show ?thesis
    by (simp add: event_wf_def event_output_position_def event_file_progress_def)
qed

text \<open>
  File progress computed from provider statistics counts exactly the planned files of all
  scans, and never shows more handled files than there are or more pruned than handled.
\<close>

theorem file_progress_is_exact_and_bounded:
  assumes "DeltaFileProgress_from_provider_stats stats = Some f"
  shows "unat (fp_total f) = (\<Sum>s\<leftarrow>stats. unat (ms_files_planned s)) \<and>
    0 < unat (fp_total f) \<and> unat (fp_runtime_pruned f) \<le> unat (fp_handled f) \<and>
    unat (fp_handled f) \<le> unat (fp_total f)"
  using file_progress_total_exact [OF assms] file_progress_from_stats_wf [OF assms]
  by (simp add: file_progress_wf_def)

theorem file_progress_is_exact_and_bounded_witness:
  "\<exists>f. DeltaFileProgress_from_provider_stats
     [demo_metrics 5 9 1] = Some f \<and>
     unat (fp_handled f) \<le> 5"
proof -
  let ?stats = "[demo_metrics 5 9 1]"
  obtain f where f: "DeltaFileProgress_from_provider_stats ?stats = Some f"
    by (simp add: DeltaFileProgress_from_provider_stats_def DeltaFileProgress_new_def checked_add_def
        Let_def demo_metrics_def)
  with file_progress_is_exact_and_bounded [OF f] show ?thesis
    by (simp add: demo_metrics_def)
qed

section \<open>Sessions\<close>

text \<open>
  C10. Every session that a program reaches from a new one by planning SQL tables, registering
  aliases and adding Delta sources, whatever DataFusion, the Delta reader and the catalog answer
  and whichever calls fail, is well formed as long as its id counter is below the largest
  \<open>u64\<close>: ids are distinct and below the counter, names of sources and aliases are valid and
  distinct up to ASCII case, handles have the kind of their registry, and the lineage of an alias
  names only sources and aliases registered before it.
\<close>

theorem reachable_sessions_well_formed:
  assumes "session_reachable df env cfg w" and "next_table_id (w_session w) \<noteq> u64_MAX"
  shows "session_wf (w_session w)"
  using reachable_ok [OF assms(1)] assms(2) by (simp add: registry_ok_def)

theorem reachable_sessions_well_formed_witness:
  "session_wf (w_session demo_planned_world) \<and> length (pending_derived_tables (w_session demo_planned_world)) = 1"
  using reachable_sessions_well_formed [OF demo_planned_reachable demo_planned_below_MAX]
    demo_planned_pending by simp

text \<open>
  C13. In a well-formed session the recursive walk over the lineage of a handle never fails, and
  it lists exactly the aliases reached from the direct dependencies of the handle by the
  reflexive transitive closure of "reads directly", each once and in increasing order.
\<close>

theorem transitive_dependencies_are_the_closure:
  assumes "session_wf s" and "lineage_for_derived_table s t = Inr lineage"
  shows "\<exists>deps. transitive_registered_derived_dependencies s t = Inr deps \<and>
     list_all is_registered_derived deps \<and> sorted deps \<and> distinct deps \<and>
     dep_table_id ` set deps =
       {(i, j). \<exists>name. RegisteredDerived j name \<in> set (direct_reads s i)}\<^sup>* ``
         {j. \<exists>name. RegisteredDerived j name \<in> set (direct_dependencies lineage)}"
proof -
  obtain deps where deps: "transitive_registered_derived_dependencies s t = Inr deps"
    by (rule transitive_dependencies_wf [OF assms])
  note ok = transitive_dependencies_ok [OF deps]
  from ok(3) have "dep_table_id ` set deps = derived_roots deps"
    by (simp add: derived_roots_def list_all_iff filter_id_conv)
  also have "\<dots> = reached (direct_reads s) (direct_dependencies lineage)"
    using ok(1) assms(2) by (simp add: reads_of_def)
  also have "\<dots> = {(i, j). \<exists>name. RegisteredDerived j name \<in> set (direct_reads s i)}\<^sup>* ``
      {j. \<exists>name. RegisteredDerived j name \<in> set (direct_dependencies lineage)}"
    by (simp add: reached_def derived_edges_def derived_roots_def2)
  finally show ?thesis
    using deps ok(3-5) by blast
qed

theorem transitive_dependencies_are_the_closure_witness:
  "\<exists>deps. transitive_registered_derived_dependencies demo_session (rd_table (demo_aliases ! 2)) = Inr deps \<and>
     {1, 2} \<subseteq> dep_table_id ` set deps"
proof -
  let ?reads = "{(i, j). \<exists>name. RegisteredDerived j name \<in> set (direct_reads demo_session i)}"
  have "(2, 1) \<in> ?reads"
    by (simp add: demo_direct_reads)
  then have "{1, 2} \<subseteq> ?reads\<^sup>* `` {2}"
    by auto
  moreover have "lineage_for_derived_table demo_session (rd_table (demo_aliases ! 2))
      = Inr (demo_lineage [RegisteredDerived 2 ''big''])"
    by (simp add: lineage_for_derived_table_def derived_or_pending_def ok_or_def demo_session_defs
        registered_derived_table_by_id_def)
  from transitive_dependencies_are_the_closure [OF demo_session_wf this] obtain deps
    where "transitive_registered_derived_dependencies demo_session (rd_table (demo_aliases ! 2)) = Inr deps"
      "dep_table_id ` set deps = ?reads\<^sup>* `` {2}"
    by (auto simp: demo_lineage_def lineage_complete_def)
  ultimately show ?thesis by auto
qed

text \<open>
  C11. The automatic cache plan of two or more outputs selects, in registration order, the
  frontier of the eligible aliases (usable SQL text, complete lineage, read by two or more
  outputs): those that no eligible alias reads. It is never ambiguous. Every other eligible alias
  is reported as covered by an alias of the frontier that reads it, and the plan of a selected
  alias lists the outputs that are that alias or read it.
\<close>

theorem automatic_cache_plan_is_the_frontier:
  assumes "session_wf s" and "2 \<le> length requests"
  shows "cp_decision (plan_mssql_output_cache s requests) =
      (if filter (cache_eligible s requests) (derived_tables s) = []
       then MssqlOutputCacheDecision.NoCache MssqlNoCacheReason.NoSharedRegisteredDerivedAlias
       else MssqlOutputCacheDecision.CacheAliases
         (map (\<lambda>d. alias_plan_from_registered d
                 (filter (\<lambda>i. output_uses s (owp_table (requests ! i)) (rd_id d))
                    [0..<length requests]))
            (filter (frontier_alias s requests) (derived_tables s)))) \<and>
    (\<forall>d \<in> set (derived_tables s). cache_eligible s requests d \<and> \<not> frontier_alias s requests d \<longrightarrow>
       (\<exists>e \<in> set (derived_tables s). frontier_alias s requests e \<and> (rd_id e, rd_id d) \<in> reads_alias s \<and>
          skip_from_registered d (MssqlCacheCandidateSkipReason.CoveredByDeeperSharedAlias (rd_id e))
            \<in> set (cp_skipped_candidates (plan_mssql_output_cache s requests))))"
proof (intro conjI ballI impI)
  fix d assume d: "d \<in> set (derived_tables s)"
    and off: "cache_eligible s requests d \<and> \<not> frontier_alias s requests d"
  with cover_of_correct [OF assms(1) d, of requests] obtain e
    where "e \<in> set (derived_tables s)" "frontier_alias s requests e"
      "rd_id e = cover_of s requests d" "(rd_id e, rd_id d) \<in> reads_alias s"
    by blast
  with d off show "\<exists>e \<in> set (derived_tables s). frontier_alias s requests e \<and>
      (rd_id e, rd_id d) \<in> reads_alias s \<and>
      skip_from_registered d (MssqlCacheCandidateSkipReason.CoveredByDeeperSharedAlias (rd_id e))
        \<in> set (cp_skipped_candidates (plan_mssql_output_cache s requests))"
    by (intro bexI [of _ e]) (simp_all add: plan_cache_eq [OF assms])
qed (simp add: plan_cache_eq [OF assms] using_outputs_eq [OF assms(1)])

theorem automatic_cache_plan_is_the_frontier_witness:
  "cp_decision (plan_mssql_output_cache demo_session demo_requests) =
     MssqlOutputCacheDecision.CacheAliases [\<lparr>cap_table_id = 2, cap_alias = ''big'', cap_output_indexes = [0, 1]\<rparr>]"
proof -
  have "2 \<le> length demo_requests"
    by (simp add: demo_requests_def)
  from automatic_cache_plan_is_the_frontier [OF demo_session_wf this] demo_frontier
  show ?thesis
    unfolding using_outputs_eq [OF demo_session_wf, symmetric] demo_derived_tables
    by (simp add: alias_plan_from_registered_def)
qed

text \<open>
  C12. An explicit cache selection is accepted exactly when the given names are distinct up to
  case, each names an eligible alias, and the selection is closed under replanning: a selected
  alias or an output that is not itself selected reaches a selected alias only through selected
  aliases. The plan then caches exactly the named aliases, in an order in which no alias reads a
  later one.
\<close>

theorem explicit_cache_plan_accepted_iff:
  assumes "session_wf s"
  shows "((\<exists>plan. plan_mssql_output_cache_explicit s requests aliases = Inr plan) \<longleftrightarrow>
      (\<exists>ids. explicit_choice s requests aliases ids \<and> selection_closed s requests ids)) \<and>
    (\<forall>plan. plan_mssql_output_cache_explicit s requests aliases = Inr plan \<longrightarrow>
      (\<exists>ids selected. explicit_choice s requests aliases ids \<and>
         cp_decision plan = MssqlOutputCacheDecision.CacheAliases selected \<and> cap_table_id ` set selected = ids \<and>
         distinct (map cap_table_id selected) \<and>
         sorted_wrt (\<lambda>a b. (cap_table_id a, cap_table_id b) \<notin> reads_alias s) selected))"
proof (intro conjI allI impI)
  fix plan assume "plan_mssql_output_cache_explicit s requests aliases = Inr plan"
  then obtain ids where ids: "explicit_choice s requests aliases ids"
    and plan: "cp_decision plan = MssqlOutputCacheDecision.CacheAliases (map (candidate_plan s requests)
      (filter (\<lambda>d. cache_eligible s requests d \<and> rd_id d \<in> ids) (derived_tables s)))"
    unfolding plan_explicit_ok [OF assms] by fastforce
  let ?selected = "filter (\<lambda>d. cache_eligible s requests d \<and> rd_id d \<in> ids) (derived_tables s)"
  have "cap_table_id ` set (map (candidate_plan s requests) ?selected) = ids"
    using explicit_choice_ids [OF ids] by (simp add: image_image)
  moreover have "distinct (map cap_table_id (map (candidate_plan s requests) ?selected))"
    using eligible_candidates [OF assms] unfolding candidates_of_def by blast
  moreover have "sorted_wrt (\<lambda>a b. (cap_table_id a, cap_table_id b) \<notin> reads_alias s)
      (map (candidate_plan s requests) ?selected)"
    using sorted_wrt_filter [OF registration_order [OF assms]] by (simp add: sorted_wrt_map)
  ultimately show "\<exists>ids selected. explicit_choice s requests aliases ids \<and>
      cp_decision plan = MssqlOutputCacheDecision.CacheAliases selected \<and> cap_table_id ` set selected = ids \<and>
      distinct (map cap_table_id selected) \<and>
      sorted_wrt (\<lambda>a b. (cap_table_id a, cap_table_id b) \<notin> reads_alias s) selected"
    using ids plan by blast
qed (simp add: plan_explicit_ok [OF assms])

theorem explicit_cache_plan_accepted_iff_witness:
  "\<exists>plan selected. plan_mssql_output_cache_explicit demo_session demo_requests [''BIG'', ''base'']
       = Inr plan \<and> cp_decision plan = MssqlOutputCacheDecision.CacheAliases selected \<and>
     sorted_wrt (\<lambda>a b. (cap_table_id a, cap_table_id b) \<notin> reads_alias demo_session) selected"
proof -
  have "is_ok (plan_mssql_output_cache_explicit demo_session demo_requests [''BIG'', ''base''])"
    by code_simp
  then obtain plan where
      "plan_mssql_output_cache_explicit demo_session demo_requests [''BIG'', ''base''] = Inr plan"
    by (auto simp: is_ok_def split: sum.splits)
  with explicit_cache_plan_accepted_iff [OF demo_session_wf, of demo_requests "[''BIG'', ''base'']"]
  show ?thesis by blast
qed

section \<open>Writes of a session\<close>

text \<open>
  C2. Writing one table of a session, with or without progress and profiling: the catalog stays as
  it is, and the requests to the server are none when the output cannot be planned or its query
  cannot be set up, and otherwise those of a run of the sink (\<open>run_post\<close>) for the plan of the
  request on the stream of the table's query, which succeeds exactly when the write does; the
  report is about the requested target.
\<close>

theorem one_output_write_end_to_end:
  "case run_mssql_write api en consumed s request (MssqlOneOutputSinkWriter api srv) mode reporter w of
     (r, w') \<Rightarrow> w_context w' = w_context w \<and>
       (\<exists>qs. cn_sent (es_sql (w_conn w')) = cn_sent (es_sql (w_conn w)) @ qs \<and>
          one_output_run api en (w_context w) s request r qs)"
  using run_mssql_write_step [of api en consumed s request srv mode reporter w]
  by (auto split: prod.split)

text \<open>
  C3. After \<open>write_all\<close>, whatever its cache mode and however materializing, installing, writing
  or restoring ended, the catalog maps every name to the table it mapped it to before, unless the
  call failed and one of the alias reports of its error says that its restoration failed.
\<close>

theorem write_all_restores_catalog:
  assumes "alias_catalog_laws ca look"
    and "execute_write_all_with_writer api ca consumed s requests options writer reporter w = (r, w')"
  shows "look (w_context w') = look (w_context w) \<or>
    (\<exists>failure source. r = Inl (WriteAllCache failure source) \<and>
       (\<exists>report \<in> set (wcf_aliases failure). restore_failed report))"
  using write_all_catalog_restored [OF assms] unfolding catalog_restored_def .

theorem write_all_restores_catalog_witness:
  "cp_decision (plan_mssql_output_cache demo_write_session demo_requests) =
     MssqlOutputCacheDecision.CacheAliases
       [\<lparr>cap_table_id = 2, cap_alias = ''big'', cap_output_indexes = [0, 1]\<rparr>] \<and>
   (map_of (w_context (snd demo_write_all)) = map_of demo_write_context \<or>
    (\<exists>failure source. fst demo_write_all = Inl (WriteAllCache failure source) \<and>
       (\<exists>report \<in> set (wcf_aliases failure). restore_failed report)))"
proof -
  have "execute_write_all_with_writer demo_api demo_cache_engine (\<lambda>_. DeltaProviderScanOutcome.Success)
      demo_write_session demo_requests WriteAllOptions_new (workflow_sink_writer demo_api (demo_server True 3))
      None demo_write_world = (fst demo_write_all, snd demo_write_all)"
    by (simp add: demo_write_all_def write_all_def write_all_with_options_def)
  from write_all_restores_catalog [OF demo_cache_engine_laws this] show ?thesis
    by (simp add: demo_write_all_caches demo_write_world_def)
qed



text \<open>
  C16. A \<open>write_all\<close> call with options that name aliases without explicit caching, or the other way
  round, with two outputs of the same name or with an output in dry-run mode is refused as a
  planning error before anything happens: no event, no clock reading, no query, no request.
\<close>

theorem write_all_refuses_invalid_requests:
  assumes "\<not> ((case wao_cache_aliases options of
        None \<Rightarrow> wao_cache_mode options \<noteq> WriteAllCacheMode.Explicit
      | Some aliases \<Rightarrow> aliases \<noteq> [] \<and> wao_cache_mode options = WriteAllCacheMode.Explicit) \<and>
    distinct (map (ot_output_name \<circ> owp_target) requests) \<and>
    (\<forall>request \<in> set requests. ot_run_mode (owp_target request) = Execute))"
  shows "\<exists>msg. execute_write_all_with_writer api ca consumed s requests options writer reporter w =
    (Inl (MssqlWorkflowPlanning msg), w)"
  using assms write_all_refused
  unfolding validate_write_all_options_iff [symmetric] validate_write_all_requests_iff [symmetric]
  by blast

theorem write_all_refuses_invalid_requests_witness:
  "\<exists>msg. execute_write_all_with_writer demo_api demo_cache_engine (\<lambda>_. DeltaProviderScanOutcome.Success)
     demo_write_session (demo_requests @ demo_requests) WriteAllOptions_new
     (workflow_sink_writer demo_api (demo_server True 3)) None demo_write_world =
     (Inl (MssqlWorkflowPlanning msg), demo_write_world)"
  by (rule write_all_refuses_invalid_requests) (simp add: demo_requests_def)



text \<open>
  The identity of a SQL text in dry-run reports has 16 digits, and two texts that differ in one
  ASCII character have different identities.
\<close>

theorem sql_identity_distinguishes_characters:
  assumes "code c < 128" "code d < 128"
  shows "length (stable_sql_identity_hash (s @ c # t)) = 16 \<and>
    (stable_sql_identity_hash (s @ c # t) = stable_sql_identity_hash (s @ d # t) \<longleftrightarrow> c = d)"
  using identity_distinguishes_character [OF assms] by (simp add: identity_length)

theorem sql_identity_distinguishes_characters_witness:
  "stable_sql_identity_hash ''select a from t'' \<noteq> stable_sql_identity_hash ''select b from t''"
  using sql_identity_distinguishes_characters
    [of "CHR ''a''" "CHR ''b''" "''select ''" "'' from t''"] by simp

section \<open>Queries\<close>

text \<open>
  C14. The streams of a partitioned execution may end, fail or be dropped in any order: as long as
  one of them has not, nothing is finalized, and once all have, the scans are finalized exactly
  once, with an error if a stream failed, as cancelled if one was dropped early, and as a success
  otherwise.
\<close>

theorem partitioned_scan_finalized_once:
  assumes "0 < n" "handles \<noteq> [] \<or> consumer \<noteq> None"
  shows "px_log (fold (partition_stream_step pe pm) events
       (track_partitioned_query_execution_completion pe pm n handles consumer log)) =
     (if \<exists>i < n. outcome_of_stream i events = None then log
      else finalize_tracked_query_execution pe pm handles False consumer
             (strongest_of (outcomes_below n events)) log)"
  by (rule partitioned_execution_finalizes [OF assms])

theorem partitioned_scan_finalized_once_witness:
  "px_log (fold (partition_stream_step (qe_plans demo_engine) (qe_metrics demo_engine))
       [(0, Polled ReadyNone :: (unit, unit) stream_event)]
       (track_partitioned_query_execution_completion (qe_plans demo_engine) (qe_metrics demo_engine) 2 []
          (Some \<lparr>pc_root = PlanNode 0 7 [], pc_scope = MssqlOutput, pc_delta_funnel_row_limit = None\<rparr>)
          \<lparr>el_retained = [], el_summaries = [], el_profile = None\<rparr>)) =
     \<lparr>el_retained = [], el_summaries = [], el_profile = None\<rparr>"
proof -
  have "outcome_of_stream 1 [(0, Polled ReadyNone :: (unit, unit) stream_event)] = None"
    by (simp add: outcome_of_stream_def stream_outcome_def)
  then have "\<exists>i < 2. outcome_of_stream i [(0, Polled ReadyNone :: (unit, unit) stream_event)] = None"
    by (intro exI [of _ 1]) simp
  then show ?thesis
    by (subst partitioned_scan_finalized_once) simp_all
qed

text \<open>
  C21. The profile of an executed plan has exactly one entry for every operator of the plan, shared
  operators included once, numbered in the order of the walk; the parent of an entry is an earlier
  entry of an operator that has it as child, and the counters of a scan are those of its handle.
\<close>

theorem profile_covers_every_operator:
  assumes "identities_consistent root"
  shows "\<exists>nodes. distinct nodes \<and> set nodes = plan_nodes root \<and>
    profiled pe pm snapshots nodes
      (qp_operators (collect_query_execution_profile pe pm root scope outcome limit (Some snapshots)))"
  by (rule profile_describes_plan [OF assms])

theorem profile_covers_every_operator_witness:
  "\<exists>nodes. distinct nodes \<and> set nodes = plan_nodes (PlanNode 0 (5::nat) [PlanNode 1 6 [], PlanNode 1 6 []]) \<and>
    profiled (qe_plans demo_engine) (qe_metrics demo_engine) [] nodes
      (qp_operators (collect_query_execution_profile (qe_plans demo_engine) (qe_metrics demo_engine)
         (PlanNode 0 5 [PlanNode 1 6 [], PlanNode 1 6 []]) MssqlOutput QueryExecutionOutcome.Success 0
         (Some [])))"
  by (rule profile_covers_every_operator) (simp add: identities_consistent_def)

text \<open>
  The metrics of an operator are reported in the order of their category, name, partition,
  output partition, kind and value, with the original position as tie-breaker: the comparison the
  code sorts with is the lexicographic order of these keys.
\<close>

theorem metrics_sorted_by_key:
  "convert_metrics metrics aggregated =
     map snd (sort_key metric_key
       (map (\<lambda>(position, m). (position, convert_metric m aggregated)) (List.enumerate 0 metrics)))"
  by (rule convert_metrics_sorted)

text \<open>
  Materializing an alias keeps its partitions: whatever the order in which the collectors of
  the partitions finish, the cached table has the batches of every partition at its position.
\<close>

theorem cached_partitions_keep_their_order:
  assumes "mset order = mset [0..<length streams]"
    and "\<And>i. i < length streams \<Longrightarrow> try_collect (streams ! i) = Inr (bs ! i)"
    and "length bs = length streams"
  shows "collect_cache_partitions streams order = Inr bs"
  by (rule collected_partitions [OF assms])

theorem cached_partitions_keep_their_order_witness:
  "collect_cache_partitions [[Inr (demo_batch 1)], [Inr (demo_batch 2), Inr (demo_batch 3)]] [1, 0] =
     Inr [[demo_batch 1], [demo_batch 2, demo_batch 3]]"
  by (rule cached_partitions_keep_their_order) (auto simp: less_Suc_eq numeral_2_eq_2)

text \<open>
  A replanned alias may stand in for the registered one exactly when its columns have the same
  names, the same nullability and compatible types, where compatibility ignores metadata and the
  difference between the string types and between the binary types, at every depth.
\<close>

theorem replanned_schema_compatible_iff:
  "schemas_compatible_for_cache_alias_replan expected replanned \<longleftrightarrow>
     list_all2 compatible_column (sch_fields expected) (sch_fields replanned)"
  by (rule schemas_compatible_iff)

text \<open>
  A diagnostic of schema differences stays within its budget of 8 KiB plus the suffix that marks
  a cut, in the bytes of its text after all the escapings it goes through.
\<close>

theorem schema_diagnostic_bounded:
  "DF_Schema_Compat.utf8_bytes ((sanitize_text_for_display ^^ layers) (truncate_schema_diagnostic d layers))
     \<le> MAX_SCHEMA_DIAGNOSTIC_BYTES + 30"
  by (rule truncated_diagnostic_bounded)

text \<open>
  The source reports of a run have one entry per registered source, in order, which lists
  exactly the outputs known to read it; a source no output is known to read is unused if the
  sources of every output are known, and of unknown use otherwise.
\<close>

theorem source_usage_is_exact:
  assumes "source_reports_for_output_tables s outputs = Inr reports" and "i < length (ds_sources s)"
  shows "length reports = length (ds_sources s) \<and>
    sx_source_name (reports ! i) = rs_name (ds_sources s ! i) \<and>
    sx_used_by_output_names (reports ! i) = reading_outputs s outputs (rs_id (ds_sources s ! i)) \<and>
    sx_usage_status (reports ! i) =
      (if reading_outputs s outputs (rs_id (ds_sources s ! i)) \<noteq> [] then Used
       else if \<forall>(_, t) \<in> set outputs. known_source_dependencies_for_table s t \<noteq> Inr None then NotUsed
       else Unknown)"
  using source_usage_reported [OF assms] by simp

theorem source_usage_is_exact_witness:
  "\<exists>reports. source_reports_for_output_tables demo_session [] = Inr reports \<and>
     sx_usage_status (reports ! 0) = NotUsed"
proof -
  obtain reports where reports: "source_reports_for_output_tables demo_session [] = Inr reports"
    by (simp add: source_reports_for_output_tables_def)
  moreover have "0 < length (ds_sources demo_session)"
    by (simp add: demo_session_def)
  ultimately show ?thesis
    using source_usage_is_exact [OF reports] by (fastforce simp: reading_outputs_def)
qed

text \<open>
  C15. Registering several Delta sources is all or nothing: if one of them is refused, by its name,
  its protocol or the catalog, the names in the catalog are those from before, and on success all
  of them were added and are reported in order.
\<close>

theorem sources_registered_all_or_nothing:
  assumes "catalog_laws cat"
    and "register_delta_sources_with_options rd cat repartitioning sources execution ctx = (r, ctx')"
  shows "case r of
      Inl _ \<Rightarrow> table_names_in cat ctx' = table_names_in cat ctx
    | Inr registered \<Rightarrow>
        registered = map (\<lambda>(name, t, _). registered_delta_source rd name t) sources \<and>
        table_names_in cat ctx' = table_names_in cat ctx \<union> to_ascii_lowercase ` fst ` set sources"
  using register_sources_all_or_nothing [OF assms] .

theorem sources_registered_all_or_nothing_witness:
  "table_names_in (demo_catalog [''b'']) (snd (register_delta_sources_with_options demo_reader
     (demo_catalog [''b'']) (provider_file_repartitioning demo_options)
     [(''a'', ''s3://a'', None), (''b'', ''s3://b'', None)] (provider_scan_options demo_options) [])) = {}"
proof -
  let ?run = "register_delta_sources_with_options demo_reader (demo_catalog [''b''])
    (provider_file_repartitioning demo_options) [(''a'', ''s3://a'', None), (''b'', ''s3://b'', None)]
    (provider_scan_options demo_options) []"
  have "isl (fst ?run)" by code_simp
  then obtain e where "fst ?run = Inl e" by (auto simp: isl_def)
  with sources_registered_all_or_nothing [OF demo_catalog_laws surjective_pairing, of "[''b'']" demo_reader
      "provider_file_repartitioning demo_options" "[(''a'', ''s3://a'', None), (''b'', ''s3://b'', None)]"
      "provider_scan_options demo_options" "[]"]
  show ?thesis by (simp add: table_names_in_def demo_catalog_def)
qed

section \<open>Previews and hand-off\<close>

text \<open>
  C30. A preview, whatever fails, leaves the session's catalog and the server alone and accounts for all
  its phases in order: all completed in a preview, and in an error the phases before the failed one
  completed, the failed one named, the later ones not started and the total failed.
\<close>

theorem preview_phases_reported:
  "case build_preview pv s t options reporter w of (r, w') \<Rightarrow>
     w_conn w' = w_conn w \<and>
     (case r of
        Inr preview \<Rightarrow> map phase_name (tp_phase_timings preview) = PREVIEW_PHASE_NAMES \<and>
          map status (tp_phase_timings preview) = replicate 7 PhaseStatus.Completed
      | Inl e \<Rightarrow> \<exists>failure source k. e = PreviewFailed failure source \<and> k < 6 \<and>
          pfc_failed_phase failure = PREVIEW_PHASE_NAMES ! k \<and>
          map phase_name (pfc_phase_timings failure) = PREVIEW_PHASE_NAMES \<and>
          map status (pfc_phase_timings failure) =
            replicate k PhaseStatus.Completed @ [PhaseStatus.Failed]
            @ replicate (5 - k) (PhaseStatus.NotStarted PriorFailure) @ [PhaseStatus.Failed])"
proof -
  obtain r w' where run: "build_preview pv s t options reporter w = (r, w')" by fastforce
  note outcome = build_preview_outcome [OF run]
  show ?thesis
  proof (cases r)
    case (Inl e)
    with run outcome show ?thesis by (simp add: preview_outcome_def failed_at_phase_def)
  next
    case (Inr preview)
    with outcome have phases: "completed_phases PREVIEW_PHASE_NAMES (tp_phase_timings preview)"
      by (simp add: preview_outcome_def)
    from run outcome Inr completed_phases_status [OF this] show ?thesis
      using phases by (simp add: phase_count completed_phases_def)
  qed
qed

text \<open>
  C32. The HTML of a preview has exactly the tags of its table, whatever the cells contain: one row per
  row of the batches with one cell per column. A cell's text can be read back from its escaped form.
\<close>

theorem preview_cells_add_no_markup:
  assumes "preview_batches_to_html pv schema batches = Inr html" and "sch_fields schema \<noteq> []"
    and "\<And>batch formatters. batch \<in> set batches \<Longrightarrow> pv_formatters pv batch = Inr formatters \<Longrightarrow>
      length formatters = length (sch_fields schema)"
  shows "tags html = tags preview_html_head @ ''<><><><>''
    @ concat (replicate (length (sch_fields schema)) ''<><><><><><><>'') @ ''<><><>''
    @ concat (replicate (sum_list (map rb_num_rows batches)) (row_tags (length (sch_fields schema))))
    @ ''<><><><><><><><><><>'' \<and> html_unescape (html_escaped cell) = cell"
  using preview_tags [OF assms] html_escaped_round_trip by simp

theorem preview_cells_add_no_markup_witness:
  "\<exists>html. preview_batches_to_html demo_preview_engine demo_schema [demo_batch 2] = Inr html \<and>
     tags html = tags preview_html_head @ ''<><><><>'' @ ''<><><><><><><>'' @ ''<><><>''
       @ row_tags 1 @ row_tags 1 @ ''<><><><><><><><><><>''"
proof -
  obtain html where html: "preview_batches_to_html demo_preview_engine demo_schema [demo_batch 2] = Inr html"
    using demo_preview_rendered by (auto simp: is_ok_def split: sum.splits)
  from preview_cells_add_no_markup [OF html demo_schema_columns(2) demo_formatters_width, where cell = "[]"] html
  show ?thesis by (simp add: demo_batch_def numeral_2_eq_2 demo_schema_columns)
qed


section \<open>Trace reports\<close>

text \<open>
  C34. Variable-length integers are read back: encoding a 64-bit number gives one to ten bytes from which
  reading and decoding give the number and the bytes that follow.
\<close>

theorem varint_round_trip:
  "read_varint \<lparr>rd_bytes = encode_varint v @ rest, rd_end = e\<rparr> = Inr (Some v, \<lparr>rd_bytes = rest, rd_end = e\<rparr>) \<and>
   decode_varint (encode_varint v @ rest) 0 = Inr (v, varint_length v) \<and>
   length (encode_varint v) = varint_length v \<and> varint_length v \<le> 10"
  using decode_varint_encode [of 0 "encode_varint v @ rest" v rest]
  by (simp add: read_varint_encode varint_length_encode varint_length_bound)



text \<open>
  C23. Folding sample counts up a hierarchy: with nonnegative counts whose total fits, the fold succeeds
  exactly when every parent exists and there is no cycle, and gives every node the sum of the counts
  of the nodes below it, itself included.
\<close>

theorem inclusive_counts_are_subtree_sums:
  assumes "distinct (map fst parents)" and "dom self = node_set parents"
    and "\<And>k. k \<in> node_set parents \<Longrightarrow> 0 \<le> the (self k)"
    and "(\<Sum>k \<in> node_set parents. the (self k)) < 2 ^ 63"
  shows "case fold_inclusive_counts parents self of
      None \<Rightarrow> \<not> (parents_closed parents \<and> acyclic (up parents))
    | Some inclusive \<Rightarrow> parents_closed parents \<and> acyclic (up parents) \<and> dom inclusive = node_set parents \<and>
        (\<forall>k \<in> node_set parents. the (inclusive k) =
           (\<Sum>d | d \<in> node_set parents \<and> (d, k) \<in> (up parents)\<^sup>*. the (self d)))"
  using fold_inclusive_sound [OF assms(1,2)] fold_inclusive_total [OF assms(1,2) _ _ assms(3,4)]
  by (fastforce simp: subtree_def split: option.split)

theorem inclusive_counts_are_subtree_sums_witness:
  "case fold_inclusive_counts [(1 :: int, None), (2, Some 1)] [1 \<mapsto> 4, 2 \<mapsto> 5] of
      None \<Rightarrow> False
    | Some inclusive \<Rightarrow> the (inclusive 1) =
        (\<Sum>d | d \<in> node_set [(1 :: int, None), (2, Some 1)] \<and>
           (d, 1) \<in> (up [(1 :: int, None), (2, Some 1)])\<^sup>*. the ([1 \<mapsto> 4, 2 \<mapsto> 5] d))"
proof -
  have some: "fold_inclusive_counts [(1 :: int, None), (2, Some 1)] [1 \<mapsto> 4, 2 \<mapsto> 5] \<noteq> None"
    by (simp add: fold_inclusive_counts_def parent_of_def checked_add_i64_def i64_range_def)
  have nodes: "node_set [(1 :: int, None), (2, Some 1 :: int option)] = {1, 2}"
    by (auto simp: node_set_def)
  have counts: "dom [1 \<mapsto> 4, 2 \<mapsto> 5 :: int] = node_set [(1 :: int, None), (2, Some 1)]"
    "\<And>k. k \<in> node_set [(1 :: int, None), (2, Some 1)] \<Longrightarrow> 0 \<le> the ([1 \<mapsto> 4, 2 \<mapsto> 5 :: int] k)"
    "(\<Sum>k \<in> node_set [(1 :: int, None), (2, Some 1)]. the ([1 \<mapsto> 4, 2 \<mapsto> 5 :: int] k)) < 2 ^ 63"
    unfolding nodes by auto
  have "distinct (map fst [(1 :: int, None), (2, Some 1 :: int option)])" by simp
  from inclusive_counts_are_subtree_sums [OF this counts] some show ?thesis
    by (auto simp: nodes split: option.splits simp del: fun_upd_apply)
qed

text \<open>
  C24. The structure check of a ranked profile accepts exactly the well-structured documents: unique
  identities, parents in the same operation, no cycles, one root per operation that is its only node of
  kind operation, and functions below existing nodes.
\<close>

theorem profile_structure_decided:
  "validate_structure document = Inr () \<longleftrightarrow> well_structured document"
  by (rule validate_structure_iff)

text \<open>
  C22. A profile that is assembled from the records of a trace is well structured, its counts add up
  (samples by kind, direct samples of the nodes, inclusive counts of nodes and functions as sums over
  what is below them), and its functions are exactly the sampled functions with their callers.
\<close>

theorem aggregated_profile_consistent:
  assumes "build_document metadata semantics frames records = Inr document"
  shows "well_structured document \<and> counts_reconciled document \<and>
    (\<exists>by_id. insert_frames frames [] = Inr by_id \<and>
       fn_identity ` set (rd_functions document) =
         (\<Union>r \<in> set records. ancestors by_id (cs_semantic_id r) (cs_function_id r)))"
  using assms by (rule built_document) (use validated_document in blast)

theorem aggregated_profile_consistent_witness:
  "\<exists>document. demo_profile = Inr document \<and> well_structured document \<and> counts_reconciled document"
proof -
  obtain document where "demo_profile = Inr document"
    using demo_profile_built by (metis obj_sumE isl_def)
  with aggregated_profile_consistent show ?thesis unfolding demo_profile_def by blast
qed

text \<open>
  C33. Source paths of a report show nothing of the machine they come from: a normalized path is
  relative, none of its segments is a parent directory, a home directory or a drive, and normalizing
  it again changes nothing, so that a normalized document is never refused for its source paths.
\<close>

theorem normalized_source_paths_safe:
  assumes "normalize_source_file path = Some normalized"
  shows "\<not> is_absolute_path normalized \<and>
    (\<forall>segment \<in> set (path_segments normalized). is_safe_path_segment segment) \<and>
    normalize_source_file normalized = Some normalized"
  using normalize_source_file_safe [OF assms] by blast

theorem normalized_source_paths_safe_witness:
  "normalize_source_file ''/home/user/x/src/lib.rs'' = Some ''src/lib.rs'' \<and> \<not> is_absolute_path ''src/lib.rs''"
proof -
  have "normalize_source_file ''/home/user/x/src/lib.rs'' = Some ''src/lib.rs''" by code_simp
  with normalized_source_paths_safe [OF this] show ?thesis by simp
qed

section \<open>Inspecting a profile\<close>

text \<open>
  C25. The compact view of a consistent profile exists and loses no samples: its functions are those that
  are not collapsed, and the inclusive count of each of them is the sum of the self counts of the
  functions shown below it, itself included.
\<close>

theorem compact_view_keeps_counts:
  assumes "well_structured document" and "counts_reconciled document"
  shows "\<exists>tree. CompactFunctionTree_new (rd_functions document) = Some tree \<and>
    dom (ct_parents tree) =
      fn_identity ` set (rd_functions document) - collapsed_functions (rd_functions document) \<and>
    (\<forall>f \<in> set (rd_functions document). fn_identity f \<in> dom (ct_parents tree) \<longrightarrow>
       fn_inclusive_sample_count f =
         (\<Sum>g | g \<in> set (rd_functions document) \<and> fn_identity g \<in> dom (ct_parents tree) \<and>
            (fn_identity g, fn_identity f) \<in> (compact_up tree)\<^sup>*. fn_self_sample_count g))"
  by (rule compact_tree_counts [OF assms]) blast

theorem compact_view_keeps_counts_witness:
  "\<exists>document tree. demo_profile = Inr document \<and>
     CompactFunctionTree_new (rd_functions document) = Some tree \<and>
     dom (ct_parents tree) =
       fn_identity ` set (rd_functions document) - collapsed_functions (rd_functions document)"
  by (rule demo_profile_valid) (use compact_view_keeps_counts in blast)

text \<open>
  C27. An interactive command on a valid state of a well-structured profile always answers. An error
  leaves the state as it was, a response is the view of the state the command leaves (or the help), and
  that state is valid again: its selection exists, its limit and filter are within their bounds, and
  functions are not sorted by duration.
\<close>

theorem interactive_command_contract:
  assumes "well_structured document"
    and "TerminalProfileIndex_new document full_symbols all_frames = Some index"
    and "state_ok index state"
  shows "\<exists>r state'. run_interactive_command pct index state command = Some (r, state') \<and>
    state_ok index state' \<and>
    (case r of
       Inl _ \<Rightarrow> state' = state
     | Inr CommandQuit \<Rightarrow> state' = state
     | Inr (CommandOutput response) \<Rightarrow>
         response = HELP \<and> state' = state \<or> state_render pct index state' = Some (Inr response))"
proof -
  have "index_ok index"
    by (rule terminal_index_ok [OF assms(1), of full_symbols all_frames]) (use assms(2) in simp)
  from interactive_command_post [OF this assms(3), of pct command] show ?thesis
    by (auto simp: command_post_def)
qed

theorem interactive_command_contract_witness:
  "\<exists>document index r state'. demo_profile = Inr document \<and>
     TerminalProfileIndex_new document False False = Some index \<and>
     run_interactive_command (\<lambda>_ _. []) index demo_inspect_state ''limit 7'' = Some (r, state') \<and>
     state_ok index state'"
proof (rule demo_profile_valid)
  fix document
  assume document: "demo_profile = Inr document" "well_structured document"
  obtain index where index: "TerminalProfileIndex_new document False False = Some index"
    by (rule terminal_index_ok [OF document(2)])
  from interactive_command_contract [OF document(2) index demo_inspect_state_ok] document(1) index
  show ?thesis by blast
qed

text \<open>
  C26. An interactive session on a well-structured profile that starts in a valid state ends, whatever
  is typed: it returns at the end of the input or on quit, or it reports that the input could not be
  read or the terminal not be written. The state it leaves is valid.
\<close>

theorem interactive_session_stays_valid:
  assumes "well_structured document"
    and "TerminalProfileIndex_new document (ins_full_symbols (ss_state s)) (ins_all_frames (ss_state s)) = Some index"
    and "state_ok index (ss_state s)"
  shows "\<exists>r s'. run_interactive_session pct from_utf8 document prompt s = Some (r, s') \<and>
    state_ok index (ss_state s') \<and>
    (r = Inr () \<or> r = Inl terminal_output_failure \<or> r = Inl interactive_input_failure)"
  using interactive_session_ends [OF assms, of pct from_utf8 prompt] by (auto simp: session_post_def)

theorem interactive_session_stays_valid_witness:
  "\<exists>document index r s'. demo_profile = Inr document \<and>
     run_interactive_session (\<lambda>_ _. []) (\<lambda>_. Some ''up'') document True demo_inspect_session = Some (r, s') \<and>
     state_ok index (ss_state s')"
proof (rule demo_profile_valid)
  fix document
  assume document: "demo_profile = Inr document" "well_structured document"
  have state: "ss_state demo_inspect_session = demo_inspect_state" by (simp add: demo_inspect_session_def)
  have flags: "ins_full_symbols demo_inspect_state = False" "ins_all_frames demo_inspect_state = False"
    by (simp_all add: demo_inspect_state_def)
  obtain index where "TerminalProfileIndex_new document False False = Some index"
    by (rule terminal_index_ok [OF document(2)])
  then have index: "TerminalProfileIndex_new document (ins_full_symbols (ss_state demo_inspect_session))
      (ins_all_frames (ss_state demo_inspect_session)) = Some index"
    by (simp add: state flags)
  have "state_ok index (ss_state demo_inspect_session)" by (simp add: state demo_inspect_state_ok)
  from interactive_session_stays_valid [OF document(2) index this] document(1) show ?thesis by blast
qed

text \<open>
  C28. How standard input is cut into buffers does not change the lines of a session: reading a line
  gives the bytes up to the first newline, refused beyond 1024 bytes, leaves exactly the bytes after the
  newline, and fails only if the input fails before a newline.
\<close>

theorem interactive_lines_ignore_buffering:
  assumes "\<forall>buffer \<in> set (br_buffers input). buffer \<noteq> []"
  shows "if br_failing input \<and> 10 \<notin> set (concat (br_buffers input))
    then read_interactive_line from_utf8 input = Inl ()
    else \<exists>input'. read_interactive_line from_utf8 input =
        Inr (line_of_bytes from_utf8 (concat (br_buffers input)), input') \<and>
      concat (br_buffers input') =
        drop (length (takeWhile (\<lambda>b. b \<noteq> 10) (concat (br_buffers input))) + 1) (concat (br_buffers input))"
  using read_interactive_line_bytes [OF assms, of from_utf8] by (auto split: if_splits)

theorem interactive_lines_ignore_buffering_witness:
  "\<exists>input'. read_interactive_line (\<lambda>_. Some ''up'') \<lparr>br_buffers = [[117], [112, 10, 113]], br_failing = True\<rparr> =
     Inr (CommandLine ''up'', input') \<and> concat (br_buffers input') = [113]"
  using interactive_lines_ignore_buffering [of "\<lparr>br_buffers = [[117], [112, 10, 113]], br_failing = True\<rparr>"
      "\<lambda>_. Some ''up''"]
  by (simp add: line_of_bytes_def MAX_INTERACTIVE_COMMAND_BYTES_def)

end
